(* ===== verification/Prelude.thy ===== *)
theory Prelude
  imports Complex_Main "HOL-Library.AList" "HOL-Library.Sublist"
begin

text \<open>
  Shared vocabulary of the development: the Python values the library passes around (JSON
  values, insertion-ordered dicts, HTTP responses, exceptions), the effect type of its
  coroutines, and the generic lemmas the component theories use.

  \<^item> A coroutine that talks to the outside world is a function of type \<open>('w, 'a) io\<close>: it
    takes the state \<open>'w\<close> of everything outside the process that the code can observe or change
    (a Redis server, an HTTP peer, the clock) and returns a result or a raised exception together
    with the new state. \<open>'w\<close> is always a type variable: the operations of third-party
    libraries are fields of environment records that the definitions take as arguments.
  \<^item> A dict is an association list in insertion order; \<open>AList.update\<close> is item assignment
    (in place for a present key, at the end for a new one).
  \<^item> Times are rational numbers of seconds, so that truncation by \<open>int(...)\<close> is a floor on
    non-negative values.
  \<^item> Log calls change no state the program reads again and are left out everywhere.
\<close>

named_theorems io_defs \<open>the combinators of the effect type\<close>

section \<open>Values\<close>

type_synonym time = rat

type_synonym ('k, 'v) dict = "('k \<times> 'v) list"

datatype json =
    JNull
  | JBool bool
  | JInt int
  | JFloat string
  | JStr string
  | JList "json list"
  | JDict "(string \<times> json) list"

fun truthy :: "json \<Rightarrow> bool" where
  "truthy JNull = False"
| "truthy (JBool b) = b"
| "truthy (JInt i) = (i \<noteq> 0)"
| "truthy (JFloat l) = (l \<notin> {''0.0'', ''-0.0''})"
| "truthy (JStr s) = (s \<noteq> [])"
| "truthy (JList xs) = (xs \<noteq> [])"
| "truthy (JDict d) = (d \<noteq> [])"

record http_response =
  status_code :: int
  resp_headers :: "(string, string) dict"
  resp_text :: string

section \<open>Exceptions\<close>

text \<open>
  \<open>ErrorCategory\<close> of \<open>contracts/errors.py\<close> and the attributes of \<open>BaseAPIException\<close>
  (\<open>exceptions.py\<close>); the exception classes themselves are in theory \<open>Api_Exceptions\<close>.
\<close>

datatype ErrorCategory =
    VALIDATION | AUTH | FORBIDDEN | NOT_FOUND | CONFLICT | CONTENT_TOO_LARGE | RATE_LIMIT
  | DATABASE | INTERNAL | BAD_GATEWAY | UNAVAILABLE | TIMEOUT

record api_error =
  api_status :: int
  api_error_msg :: string
  api_detail :: json
  api_code :: json
  api_headers :: "(string, string) dict option"
  api_extra :: "(string, json) dict"
  api_category :: "ErrorCategory option"

datatype exn =
    ValueError string
  | TypeError string
  | KeyError string
  | AttributeError string
  | RuntimeError string
  | ImportError string
  | OSError string
  | ConnectionError string
  | TimeoutError string
  | HttpStatusError http_response
  | HttpTimeout string
  | HttpRequestError string
  | HttpOtherError string
  | RedisConnectionError string
  | RedisTimeoutError string
  | RedisResponseError string
  | RedisOtherError string
  | CacheConnectionError string
  | CacheOperationError string
  | EventPublishTransportError string
  | IntegrationConfigError string
  | IntegrationConfigNotFound string
  | ApiError api_error
  | OtherException string
  | CancelledError
  | OtherBaseException string

text \<open>
  Python's \<open>json\<close> module as the components use it: encoders and decoders that may raise. The one law
  some properties name is that a document that was written is read back as the value it was
  written from.
\<close>

record json_codec =
  jc_dumps :: "json \<Rightarrow> exn + string"
  jc_loads :: "string \<Rightarrow> exn + json"

definition codec_round_trip :: "json_codec \<Rightarrow> bool" where
  "codec_round_trip jc = (\<forall>v enc. jc_dumps jc v = Inr enc \<longrightarrow> jc_loads jc enc = Inr v)"

text \<open>The class tests of the \<open>except\<close> clauses.\<close>

definition is_Exception :: "exn \<Rightarrow> bool" where
  "is_Exception e = (case e of CancelledError \<Rightarrow> False | OtherBaseException _ \<Rightarrow> False | _ \<Rightarrow> True)"

definition is_RedisError :: "exn \<Rightarrow> bool" where
  "is_RedisError e =
     (case e of RedisConnectionError _ \<Rightarrow> True | RedisTimeoutError _ \<Rightarrow> True
      | RedisResponseError _ \<Rightarrow> True | RedisOtherError _ \<Rightarrow> True | _ \<Rightarrow> False)"

definition is_OSError :: "exn \<Rightarrow> bool" where
  "is_OSError e =
     (case e of OSError _ \<Rightarrow> True | ConnectionError _ \<Rightarrow> True | TimeoutError _ \<Rightarrow> True | _ \<Rightarrow> False)"

definition is_ValueError :: "exn \<Rightarrow> bool" where
  "is_ValueError e = (case e of ValueError _ \<Rightarrow> True | _ \<Rightarrow> False)"

definition is_ApiError :: "exn \<Rightarrow> bool" where
  "is_ApiError e = (case e of ApiError _ \<Rightarrow> True | _ \<Rightarrow> False)"

lemmas exn_class_defs =
  is_Exception_def is_RedisError_def is_OSError_def is_ValueError_def is_ApiError_def

lemma RedisError_is_Exception [simp]: "is_RedisError e \<Longrightarrow> is_Exception e"
  by (cases e) (simp_all add: exn_class_defs)

lemma OSError_is_Exception [simp]: "is_OSError e \<Longrightarrow> is_Exception e"
  by (cases e) (simp_all add: exn_class_defs)

lemma ValueError_is_Exception [simp]: "is_ValueError e \<Longrightarrow> is_Exception e"
  by (cases e) (simp_all add: exn_class_defs)

section \<open>Effects\<close>

type_synonym 'a res = "exn + 'a"

type_synonym ('w, 'a) io = "'w \<Rightarrow> 'a res \<times> 'w"

definition io_return :: "'a \<Rightarrow> ('w, 'a) io" where
  [io_defs]: "io_return x w = (Inr x, w)"

definition io_raise :: "exn \<Rightarrow> ('w, 'a) io" where
  [io_defs]: "io_raise e w = (Inl e, w)"

definition io_bind :: "('w, 'a) io \<Rightarrow> ('a \<Rightarrow> ('w, 'b) io) \<Rightarrow> ('w, 'b) io" where
  [io_defs]: "io_bind m f w =
     (case m w of (Inl e, w') \<Rightarrow> (Inl e, w') | (Inr x, w') \<Rightarrow> f x w')"

text \<open>
  \<open>io_except p m h\<close> is \<open>try: m except C as e: h(e)\<close> for the classes selected by \<open>p\<close>; an
  exception outside them passes through.
\<close>

definition io_except :: "(exn \<Rightarrow> bool) \<Rightarrow> ('w, 'a) io \<Rightarrow> (exn \<Rightarrow> ('w, 'a) io) \<Rightarrow> ('w, 'a) io" where
  [io_defs]: "io_except p m h w =
     (case m w of (Inl e, w') \<Rightarrow> (if p e then h e w' else (Inl e, w')) | (Inr x, w') \<Rightarrow> (Inr x, w'))"

text \<open>
  \<open>io_finally m f\<close> is \<open>try: m finally: f\<close>: an exception of \<open>f\<close> replaces the outcome of \<open>m\<close>.
\<close>

definition io_finally :: "('w, 'a) io \<Rightarrow> ('w, unit) io \<Rightarrow> ('w, 'a) io" where
  [io_defs]: "io_finally m f w =
     (case m w of (r, w') \<Rightarrow> (case f w' of (Inl e, w'') \<Rightarrow> (Inl e, w'') | (Inr _, w'') \<Rightarrow> (r, w'')))"

definition lift_res :: "'a res \<Rightarrow> ('w, 'a) io" where
  [io_defs]: "lift_res r w = (r, w)"

text \<open>An effect on the second component of the state.\<close>

definition on_snd :: "('w, 'a) io \<Rightarrow> ('x \<times> 'w, 'a) io" where
  "on_snd m s = (case m (snd s) of (r, w') \<Rightarrow> (r, (fst s, w')))"

lemma io_bind_return_left [simp]: "io_bind (io_return x) f = f x"
  by (rule ext) (simp add: io_defs)

lemma io_bind_raise_left [simp]: "io_bind (io_raise e) f = io_raise e"
  by (rule ext) (simp add: io_defs)

lemma io_bind_return_right [simp]: "io_bind m io_return = m"
  by (rule ext) (auto simp: io_defs split: prod.splits sum.splits)

lemma io_bind_assoc: "io_bind (io_bind m f) g = io_bind m (\<lambda>x. io_bind (f x) g)"
  by (rule ext) (auto simp: io_defs split: prod.splits sum.splits)

lemma io_bind_InrE:
  assumes "io_bind m f s = (Inr y, s')"
  obtains x s1 where "m s = (Inr x, s1)" and "f x s1 = (Inr y, s')"
  using assms by (cases "m s"; cases "fst (m s)") (auto simp: io_bind_def)

lemma io_bind_InlE:
  assumes "io_bind m f s = (Inl e, s')"
  obtains (fst) "m s = (Inl e, s')" | (snd) x s1 where "m s = (Inr x, s1)" and "f x s1 = (Inl e, s')"
  using assms by (cases "m s"; cases "fst (m s)") (auto simp: io_bind_def)

lemma io_except_return [simp]: "io_except p (io_return x) h = io_return x"
  by (rule ext) (simp add: io_defs)

lemma io_except_no_raise:
  assumes "\<And>e. p e \<Longrightarrow> h e = io_return (d e)"
    and "fst (io_except p m h w) = Inl e"
  shows "\<not> p e \<and> fst (m w) = Inl e"
  using assms by (auto simp: io_defs split: prod.splits sum.splits if_splits)

text \<open>
  Judgements on effects: \<open>io_keeps P m\<close>, that \<open>m\<close> preserves \<open>P\<close> however it ends, and
  \<open>io_adds f n m\<close>, that \<open>m\<close> increases the counter \<open>f\<close> by at most \<open>n\<close>.
\<close>

named_theorems io_rules \<open>composition rules of \<open>io_keeps\<close>, \<open>io_adds\<close> and \<open>io_raises\<close>\<close>

definition io_keeps :: "('w \<Rightarrow> bool) \<Rightarrow> ('w, 'a) io \<Rightarrow> bool" where
  "io_keeps P m = (\<forall>s. P s \<longrightarrow> P (snd (m s)))"

definition io_adds :: "('w \<Rightarrow> nat) \<Rightarrow> nat \<Rightarrow> ('w, 'a) io \<Rightarrow> bool" where
  "io_adds f n m = (\<forall>s. f (snd (m s)) \<le> f s + n)"

lemma io_keepsD: "io_keeps P m \<Longrightarrow> P s \<Longrightarrow> P (snd (m s))"
  by (simp add: io_keeps_def)

lemma io_keeps_return [io_rules]: "io_keeps P (io_return x)"
  by (simp add: io_keeps_def io_defs)

lemma io_keeps_raise [io_rules]: "io_keeps P (io_raise e)"
  by (simp add: io_keeps_def io_defs)

lemma io_keeps_lift_res [io_rules]: "io_keeps P (lift_res r)"
  by (simp add: io_keeps_def io_defs)

lemma io_keeps_bind [io_rules]:
  assumes "io_keeps P m" and "\<And>x. io_keeps P (f x)"
  shows "io_keeps P (io_bind m f)"
  unfolding io_keeps_def io_bind_def
proof (intro allI impI)
  fix s assume "P s"
  with assms(1) have "P (snd (m s))" by (simp add: io_keeps_def)
  with assms(2) show "P (snd (case m s of (Inl e, w') \<Rightarrow> (Inl e, w') | (Inr x, w') \<Rightarrow> f x w'))"
    by (auto simp: io_keeps_def split: prod.splits sum.splits)
qed

lemma io_keeps_except [io_rules]:
  assumes "io_keeps P m" and "\<And>e. io_keeps P (h e)"
  shows "io_keeps P (io_except p m h)"
  unfolding io_keeps_def io_except_def
proof (intro allI impI)
  fix s assume "P s"
  with assms(1) have "P (snd (m s))" by (simp add: io_keeps_def)
  with assms(2) show "P (snd (case m s of (Inl e, w') \<Rightarrow> if p e then h e w' else (Inl e, w')
                                  | (Inr x, w') \<Rightarrow> (Inr x, w')))"
    by (auto simp: io_keeps_def split: prod.splits sum.splits)
qed

lemma io_keeps_finally [io_rules]: "io_keeps P m \<Longrightarrow> io_keeps P f \<Longrightarrow> io_keeps P (io_finally m f)"
  by (auto simp: io_keeps_def io_finally_def split: prod.splits sum.splits)

lemma io_keeps_if [io_rules]: "io_keeps P m \<Longrightarrow> io_keeps P m' \<Longrightarrow> io_keeps P (if b then m else m')"
  by simp

lemma io_adds_return [io_rules]: "io_adds f n (io_return x)"
  by (simp add: io_adds_def io_defs)

lemma io_adds_raise [io_rules]: "io_adds f n (io_raise e)"
  by (simp add: io_adds_def io_defs)

lemma io_adds_lift_res [io_rules]: "io_adds f n (lift_res r)"
  by (simp add: io_adds_def io_defs)

lemma io_adds_mono: "io_adds f n m \<Longrightarrow> n \<le> n' \<Longrightarrow> io_adds f n' m"
  unfolding io_adds_def by (meson add_left_mono le_trans)

lemma io_adds_bind:
  assumes "io_adds f n m" and "\<And>x. io_adds f n' (g x)"
  shows "io_adds f (n + n') (io_bind m g)"
  unfolding io_adds_def io_bind_def
proof
  fix s
  from assms(1) have "f (snd (m s)) \<le> f s + n" by (simp add: io_adds_def)
  moreover have "f (snd (g x t)) \<le> f t + n'" for x t using assms(2) by (simp add: io_adds_def)
  ultimately show "f (snd (case m s of (Inl e, w') \<Rightarrow> (Inl e, w') | (Inr x, w') \<Rightarrow> g x w')) \<le> f s + (n + n')"
    by (cases "m s"; cases "fst (m s)") (fastforce intro: order_trans)+
qed

lemma io_adds_except:
  assumes "io_adds f n m" and "\<And>e. io_adds f n' (h e)"
  shows "io_adds f (n + n') (io_except p m h)"
  unfolding io_adds_def io_except_def
proof
  fix s
  from assms(1) have "f (snd (m s)) \<le> f s + n" by (simp add: io_adds_def)
  moreover have "f (snd (h e t)) \<le> f t + n'" for e t using assms(2) by (simp add: io_adds_def)
  ultimately show "f (snd (case m s of (Inl e, w') \<Rightarrow> if p e then h e w' else (Inl e, w')
                          | (Inr x, w') \<Rightarrow> (Inr x, w'))) \<le> f s + (n + n')"
    by (cases "m s"; cases "fst (m s)") (fastforce intro: order_trans)+
qed

text \<open>\<open>io_raises E m\<close>: every exception that leaves \<open>m\<close> is in \<open>E\<close>.\<close>

definition io_raises :: "(exn \<Rightarrow> bool) \<Rightarrow> ('w, 'a) io \<Rightarrow> bool" where
  "io_raises E m = (\<forall>s e. fst (m s) = Inl e \<longrightarrow> E e)"

lemma io_raisesD: "io_raises E m \<Longrightarrow> m s = (Inl e, s') \<Longrightarrow> E e"
  by (metis fst_conv io_raises_def)

lemma io_raises_mono: "io_raises E m \<Longrightarrow> (\<And>e. E e \<Longrightarrow> E' e) \<Longrightarrow> io_raises E' m"
  by (simp add: io_raises_def)

lemma io_raises_return [io_rules]: "io_raises E (io_return x)"
  by (simp add: io_raises_def io_defs)

lemma io_raises_raise [io_rules]: "E e \<Longrightarrow> io_raises E (io_raise e)"
  by (simp add: io_raises_def io_defs)

lemma io_raises_lift_res [io_rules]: "(\<And>e. r = Inl e \<Longrightarrow> E e) \<Longrightarrow> io_raises E (lift_res r)"
  by (simp add: io_raises_def io_defs)

lemma io_raises_if [io_rules]: "io_raises E m \<Longrightarrow> io_raises E m' \<Longrightarrow> io_raises E (if b then m else m')"
  by simp

lemma io_raises_bind [io_rules]:
  assumes "io_raises E m" and "\<And>x. io_raises E (f x)"
  shows "io_raises E (io_bind m f)"
proof -
  have "E e" if "fst (io_bind m f s) = Inl e" for s e
  proof (cases "m s")
    case (Pair r s1)
    show ?thesis
    proof (cases r)
      case (Inl e1)
      with assms(1) Pair that show ?thesis by (auto simp: io_bind_def dest: io_raisesD)
    next
      case (Inr x)
      with assms(2) [of x] Pair that show ?thesis by (auto simp: io_bind_def io_raises_def)
    qed
  qed
  then show ?thesis by (simp add: io_raises_def)
qed

lemma io_raises_except [io_rules]:
  assumes "io_raises (\<lambda>e. p e \<or> E e) m" and "\<And>e. p e \<Longrightarrow> io_raises E (h e)"
  shows "io_raises E (io_except p m h)"
proof -
  have "E e" if raised: "fst (io_except p m h s) = Inl e" for s e
  proof (cases "m s")
    case (Pair r s1)
    with assms(1) have "p e1 \<or> E e1" if "r = Inl e1" for e1
      using that unfolding io_raises_def by (metis fst_conv)
    with Pair assms(2) raised show ?thesis
      by (cases r) (auto simp: io_raises_def io_except_def split: if_splits)
  qed
  then show ?thesis by (simp add: io_raises_def)
qed

section \<open>Strings\<close>

text \<open>A long dash as the UTF-8 bytes of the source's messages.\<close>

definition em_dash :: string where
  "em_dash = [CHR 0xE2, CHR 0x80, CHR 0x94]"

definition digit_char :: "nat \<Rightarrow> char" where
  "digit_char d = char_of (48 + d)"

fun string_of_nat :: "nat \<Rightarrow> string" where
  "string_of_nat n =
     (if n < 10 then [digit_char n] else string_of_nat (n div 10) @ [digit_char (n mod 10)])"

declare string_of_nat.simps [simp del]

definition string_of_int :: "int \<Rightarrow> string" where
  "string_of_int i = (if i < 0 then CHR ''-'' # string_of_nat (nat (- i)) else string_of_nat (nat i))"

primrec join :: "string \<Rightarrow> string list \<Rightarrow> string" where
  "join sep [] = []"
| "join sep (x # xs) = (case xs of [] \<Rightarrow> x | _ \<Rightarrow> x @ sep @ join sep xs)"

definition lower_char :: "char \<Rightarrow> char" where
  "lower_char c = (let n = (of_char c :: nat) in if 65 \<le> n \<and> n \<le> 90 then char_of (n + 32) else c)"

definition lower :: "string \<Rightarrow> string" where
  "lower s = map lower_char s"

text \<open>
  \<open>str.replace(old, new, count)\<close>: the leftmost non-overlapping occurrences, at most \<open>count\<close>
  of them (\<open>None\<close>: all).
\<close>

fun replace_upto :: "nat option \<Rightarrow> string \<Rightarrow> string \<Rightarrow> string \<Rightarrow> string" where
  "replace_upto cnt old new [] = []"
| "replace_upto cnt old new (c # s) =
     (if cnt \<noteq> Some 0 \<and> old \<noteq> [] \<and> prefix old (c # s)
      then new @ replace_upto (map_option (\<lambda>n. n - 1) cnt) old new (drop (length old - 1) s)
      else c # replace_upto cnt old new s)"

text \<open>\<open>str.strip()\<close> on ASCII white space.\<close>

definition is_space :: "char \<Rightarrow> bool" where
  "is_space c = (let n = (of_char c :: nat) in n = 32 \<or> (9 \<le> n \<and> n \<le> 13) \<or> (28 \<le> n \<and> n \<le> 31))"

definition strip :: "string \<Rightarrow> string" where
  "strip s = rev (dropWhile is_space (rev (dropWhile is_space s)))"

definition lstrip :: "string \<Rightarrow> string" where
  "lstrip s = dropWhile is_space s"

definition is_alpha :: "char \<Rightarrow> bool" where
  "is_alpha c = (let n = (of_char c :: nat) in (65 \<le> n \<and> n \<le> 90) \<or> (97 \<le> n \<and> n \<le> 122))"

definition is_digit :: "char \<Rightarrow> bool" where
  "is_digit c = (let n = (of_char c :: nat) in 48 \<le> n \<and> n \<le> 57)"

lemma string_of_nat_digits: "\<forall>c \<in> set (string_of_nat n). is_digit c"
proof (induction n rule: string_of_nat.induct)
  case (1 n)
  have d: "is_digit (digit_char k)" if "k < 10" for k
    using that by (simp add: is_digit_def digit_char_def)
  show ?case
  proof (cases "n < 10")
    case True
    then show ?thesis by (subst string_of_nat.simps) (simp add: d)
  next
    case False
    then show ?thesis using 1 d [of "n mod 10"] by (subst string_of_nat.simps) auto
  qed
qed

definition hex_char :: "char \<Rightarrow> bool" where
  "hex_char c = (let n = (of_char c :: nat) in is_digit c \<or> (65 \<le> n \<and> n \<le> 70) \<or> (97 \<le> n \<and> n \<le> 102))"

text \<open>\<open>s.split(c)\<close> for a character.\<close>

fun split_char :: "char \<Rightarrow> string \<Rightarrow> string list" where
  "split_char c [] = [[]]"
| "split_char c (x # s) =
     (if x = c then [] # split_char c s
      else case split_char c s of [] \<Rightarrow> [[x]] | p # ps \<Rightarrow> (x # p) # ps)"

lemma split_char_plain: "c \<notin> set s \<Longrightarrow> split_char c s = [s]"
  by (induction s) auto

lemma split_char_append: "c \<notin> set s \<Longrightarrow> split_char c (s @ c # t) = s # split_char c t"
  by (induction s) auto

lemma split_char_join:
  "xs \<noteq> [] \<Longrightarrow> \<forall>x \<in> set xs. c \<notin> set x \<Longrightarrow> split_char c (join [c] xs) = xs"
proof (induction xs)
  case (Cons x xs)
  then show ?case by (cases xs) (auto simp: split_char_plain split_char_append)
qed simp

text \<open>
  \<open>int(s)\<close> for a string: surrounding white space, an optional sign, and ASCII digits with single
  underscores between them; anything else is a \<open>ValueError\<close>.
\<close>

fun digits_value :: "bool \<Rightarrow> int \<Rightarrow> string \<Rightarrow> int option" where
  "digits_value after_digit acc [] = (if after_digit then Some acc else None)"
| "digits_value after_digit acc (c # s) =
     (if is_digit c then digits_value True (10 * acc + (of_char c - 48)) s
      else if c = CHR ''_'' \<and> after_digit then digits_value False acc s
      else None)"

definition py_int :: "string \<Rightarrow> int res" where
  "py_int s =
     (let t = strip s;
          neg = (t \<noteq> [] \<and> hd t = CHR ''-'');
          body = (if t \<noteq> [] \<and> hd t \<in> {CHR ''-'', CHR ''+''} then tl t else t)
      in case digits_value False 0 body of
           Some v \<Rightarrow> Inr (if neg then - v else v)
         | None \<Rightarrow> Inl (ValueError (''invalid literal for int() with base 10: '' @ s)))"

text \<open>\<open>int(x)\<close> for a float truncates towards zero.\<close>

definition trunc :: "rat \<Rightarrow> int" where
  "trunc x = (if 0 \<le> x then \<lfloor>x\<rfloor> else \<lceil>x\<rceil>)"

text \<open>
  \<open>bytes.decode('utf-8', errors='replace')\<close>, with the result written as UTF-8 again: a lead byte
  asks for continuation bytes, the first of them from a restricted range, and the longest prefix of
  an ill-formed sequence becomes one U+FFFD.
\<close>

definition utf8_lead :: "char \<Rightarrow> (nat \<times> nat \<times> nat) option" where
  "utf8_lead c =
     (let b = (of_char c :: nat) in
      if b < 0x80 then Some (0, 0x80, 0xBF)
      else if 0xC2 \<le> b \<and> b \<le> 0xDF then Some (1, 0x80, 0xBF)
      else if b = 0xE0 then Some (2, 0xA0, 0xBF)
      else if b = 0xED then Some (2, 0x80, 0x9F)
      else if 0xE1 \<le> b \<and> b \<le> 0xEF then Some (2, 0x80, 0xBF)
      else if b = 0xF0 then Some (3, 0x90, 0xBF)
      else if 0xF1 \<le> b \<and> b \<le> 0xF3 then Some (3, 0x80, 0xBF)
      else if b = 0xF4 then Some (3, 0x80, 0x8F)
      else None)"

fun utf8_conts :: "nat \<Rightarrow> nat \<Rightarrow> nat \<Rightarrow> string \<Rightarrow> string" where
  "utf8_conts (Suc n) lo hi (c # s) =
     (if lo \<le> of_char c \<and> of_char c \<le> hi then c # utf8_conts n 0x80 0xBF s else [])"
| "utf8_conts _ _ _ _ = []"

function utf8_replace :: "string \<Rightarrow> string" where
  "utf8_replace [] = []"
| "utf8_replace (c # s) =
     (case utf8_lead c of
        None \<Rightarrow> [CHR 0xEF, CHR 0xBF, CHR 0xBD] @ utf8_replace s
      | Some (n, lo, hi) \<Rightarrow>
          let got = utf8_conts n lo hi s
          in (if length got = n then c # got else [CHR 0xEF, CHR 0xBF, CHR 0xBD])
             @ utf8_replace (drop (length got) s))"
  by pat_completeness auto
termination
  by (relation "measure length") auto

section \<open>Dicts\<close>

abbreviation dict_get :: "('k, 'v) dict \<Rightarrow> 'k \<Rightarrow> 'v option" where
  "dict_get d k \<equiv> map_of d k"

abbreviation dict_set :: "'k \<Rightarrow> 'v \<Rightarrow> ('k, 'v) dict \<Rightarrow> ('k, 'v) dict" where
  "dict_set k v d \<equiv> AList.update k v d"

definition dict_del :: "'k \<Rightarrow> ('k, 'v) dict \<Rightarrow> ('k, 'v) dict" where
  "dict_del k d = filter (\<lambda>(k', _). k' \<noteq> k) d"

text \<open>\<open>{**a, **b}\<close>\<close>

definition dict_merge :: "('k, 'v) dict \<Rightarrow> ('k, 'v) dict \<Rightarrow> ('k, 'v) dict" where
  "dict_merge a b = foldl (\<lambda>d (k, v). dict_set k v d) a b"

definition dict_ok :: "('k, 'v) dict \<Rightarrow> bool" where
  "dict_ok d = distinct (map fst d)"

lemma dict_get_set [simp]: "dict_get (dict_set k v d) k' = (if k' = k then Some v else dict_get d k')"
  by (simp add: update_conv')

lemma dict_get_del [simp]: "dict_get (dict_del k d) k' = (if k' = k then None else dict_get d k')"
  by (induction d) (auto simp: dict_del_def)

lemma dict_ok_set [simp, intro]: "dict_ok d \<Longrightarrow> dict_ok (dict_set k v d)"
  by (simp add: dict_ok_def distinct_update)

lemma dict_ok_del [simp, intro]: "dict_ok d \<Longrightarrow> dict_ok (dict_del k d)"
  by (simp add: dict_ok_def dict_del_def distinct_map inj_on_filter_key_eq inj_on_def)

lemma dict_ok_Nil [simp]: "dict_ok []"
  by (simp add: dict_ok_def)

lemma dict_merge_Nil [simp]: "dict_merge a [] = a"
  by (simp add: dict_merge_def)

lemma dict_merge_Cons [simp]: "dict_merge a ((k, v) # b) = dict_merge (dict_set k v a) b"
  by (simp add: dict_merge_def)

lemma dict_get_merge:
  assumes "dict_ok b"
  shows "dict_get (dict_merge a b) k = (case dict_get b k of Some v \<Rightarrow> Some v | None \<Rightarrow> dict_get a k)"
  using assms
proof (induction b arbitrary: a)
  case (Cons p b)
  obtain k' v' where p: "p = (k', v')" by (cases p)
  with Cons.prems have "dict_ok b" "dict_get b k' = None" by (auto simp: dict_ok_def map_of_eq_None_iff)
  with Cons.IH show ?case by (auto simp: p split: option.splits)
qed simp

lemma keys_dict_merge: "fst ` set (dict_merge a b) = fst ` set a \<union> fst ` set b"
proof (induction b arbitrary: a)
  case (Cons p b)
  then show ?case by (cases p) (simp add: dom_update)
qed simp

lemma length_dict_set:
  "length (dict_set k v d) = (if k \<in> fst ` set d then length d else Suc (length d))"
  by (induction d) auto

lemma length_dict_del_le: "length (dict_del k d) \<le> length d"
  by (simp add: dict_del_def)

lemma keys_dict_del [simp]: "fst ` set (dict_del k d) = fst ` set d - {k}"
  by (force simp: dict_del_def)

lemma set_dict_del: "set (dict_del k d) = {p \<in> set d. fst p \<noteq> k}"
  by (auto simp: dict_del_def)

end
