(* ===== verification/Circuit_Breaker.thy ===== *)
theory Circuit_Breaker
  imports Prelude
begin

text \<open>
  \<open>http/circuit_breaker.py\<close>: the breaker that \<open>ServiceHTTPClient\<close> and
  \<open>IntegrationConfigClient\<close> put in front of a remote service. The record holds the attributes
  of \<open>CircuitBreaker\<close>; each method takes the value \<open>time.monotonic()\<close> returns during the call
  as its argument \<open>now\<close>. The theory has the invariant of the reachable states, the refinement of an
  automaton with three states, the single-probe guarantee, and the interface locale
  \<open>breaker_contract\<close> that the clients rely on.
\<close>

section \<open>Model\<close>

datatype CircuitState = CLOSED | OPEN | HALF_OPEN

record breaker =
  breaker_name :: string
  cb_state :: CircuitState
  failure_count :: int
  failure_threshold :: int
  recovery_timeout :: time
  opened_at :: time
  probe_started_at :: "time option"

definition new_breaker :: "string \<Rightarrow> int \<Rightarrow> time \<Rightarrow> breaker" where
  "new_breaker nm thr rt =
     \<lparr>breaker_name = nm, cb_state = CLOSED, failure_count = 0, failure_threshold = thr,
      recovery_timeout = rt, opened_at = 0, probe_started_at = None\<rparr>"

definition breaker_transition :: "CircuitState \<Rightarrow> breaker \<Rightarrow> breaker" where
  "breaker_transition new_state b =
     (if cb_state b = new_state then b else b\<lparr>cb_state := new_state\<rparr>)"

definition breaker_is_open :: "time \<Rightarrow> breaker \<Rightarrow> bool \<times> breaker" where
  "breaker_is_open now b =
     (if cb_state b = CLOSED then (False, b)
      else if cb_state b = OPEN then
        (if now - opened_at b < recovery_timeout b then (True, b)
         else (False, (breaker_transition HALF_OPEN b)\<lparr>probe_started_at := Some now\<rparr>))
      else if (case probe_started_at b of None \<Rightarrow> False | Some p \<Rightarrow> now - p < recovery_timeout b)
        then (True, b)
      else (False, b\<lparr>probe_started_at := Some now\<rparr>))"

definition record_success :: "breaker \<Rightarrow> breaker" where
  "record_success b =
     (let b = b\<lparr>failure_count := 0\<rparr> in
      if cb_state b = HALF_OPEN
      then breaker_transition CLOSED (b\<lparr>probe_started_at := None\<rparr>) else b)"

definition record_failure :: "time \<Rightarrow> breaker \<Rightarrow> breaker" where
  "record_failure now b =
     (let b = b\<lparr>failure_count := failure_count b + 1\<rparr> in
      if cb_state b = HALF_OPEN \<or> failure_count b \<ge> failure_threshold b
      then breaker_transition OPEN (b\<lparr>opened_at := now, probe_started_at := None\<rparr>) else b)"

lemmas breaker_op_defs =
  breaker_transition_def breaker_is_open_def record_success_def record_failure_def Let_def

section \<open>Runs and the invariant\<close>

datatype breaker_event = IsOpen time | Success | Failure time

fun breaker_step :: "breaker \<Rightarrow> breaker_event \<Rightarrow> breaker" where
  "breaker_step b (IsOpen t) = snd (breaker_is_open t b)"
| "breaker_step b Success = record_success b"
| "breaker_step b (Failure t) = record_failure t b"

inductive breaker_reachable :: "breaker \<Rightarrow> breaker \<Rightarrow> bool" where
  start: "breaker_reachable b b"
| step: "breaker_reachable b b' \<Longrightarrow> breaker_reachable b (breaker_step b' e)"

definition breaker_inv :: "breaker \<Rightarrow> bool" where
  "breaker_inv b =
     (0 \<le> failure_count b \<and>
      (cb_state b = CLOSED \<longrightarrow> failure_count b < failure_threshold b) \<and>
      (cb_state b = HALF_OPEN \<longleftrightarrow> probe_started_at b \<noteq> None))"

lemma new_breaker_inv: "1 \<le> thr \<Longrightarrow> breaker_inv (new_breaker nm thr rt)"
  by (simp add: breaker_inv_def new_breaker_def)

lemma is_open_inv: "breaker_inv b \<Longrightarrow> breaker_inv (snd (breaker_is_open t b))"
  by (cases "cb_state b") (auto simp: breaker_inv_def breaker_op_defs)

lemma breaker_step_threshold [simp]: "failure_threshold (breaker_step b e) = failure_threshold b"
  by (cases e) (auto simp: breaker_op_defs)

lemma breaker_step_timeout [simp]: "recovery_timeout (breaker_step b e) = recovery_timeout b"
  by (cases e) (auto simp: breaker_op_defs)

lemma record_success_inv:
  "breaker_inv b \<Longrightarrow> 1 \<le> failure_threshold b \<Longrightarrow> breaker_inv (record_success b)"
  by (cases "cb_state b") (auto simp: breaker_inv_def breaker_op_defs)

lemma record_failure_inv: "breaker_inv b \<Longrightarrow> breaker_inv (record_failure t b)"
  by (cases "cb_state b") (auto simp: breaker_inv_def breaker_op_defs)

lemma breaker_step_inv:
  "breaker_inv b \<Longrightarrow> 1 \<le> failure_threshold b \<Longrightarrow> breaker_inv (breaker_step b e)"
  by (cases e) (simp_all add: is_open_inv record_success_inv record_failure_inv)

lemma breaker_reachable_keeps:
  assumes "breaker_reachable b b'" "breaker_inv b" "1 \<le> failure_threshold b"
  shows "breaker_inv b' \<and> failure_threshold b' = failure_threshold b
           \<and> recovery_timeout b' = recovery_timeout b"
  using assms by (induction rule: breaker_reachable.induct) (simp_all add: breaker_step_inv)

section \<open>Refinement of a three-state automaton\<close>

text \<open>
  What the breaker promises, without the redundant attributes: the closed state counts
  failures, the open state remembers when it opened, the half-open state when its probe left.
\<close>

datatype breaker_spec = SClosed int | SOpen int time | SHalf int time

fun spec_step :: "int \<Rightarrow> time \<Rightarrow> breaker_spec \<Rightarrow> breaker_event \<Rightarrow> breaker_spec" where
  "spec_step thr rt (SClosed n) (IsOpen t) = SClosed n"
| "spec_step thr rt (SClosed n) Success = SClosed 0"
| "spec_step thr rt (SClosed n) (Failure t) = (if n + 1 \<ge> thr then SOpen (n + 1) t else SClosed (n + 1))"
| "spec_step thr rt (SOpen n s) (IsOpen t) = (if t - s < rt then SOpen n s else SHalf n t)"
| "spec_step thr rt (SOpen n s) Success = SOpen 0 s"
| "spec_step thr rt (SOpen n s) (Failure t) = SOpen (n + 1) (if n + 1 \<ge> thr then t else s)"
| "spec_step thr rt (SHalf n s) (IsOpen t) = (if t - s < rt then SHalf n s else SHalf n t)"
| "spec_step thr rt (SHalf n s) Success = SClosed 0"
| "spec_step thr rt (SHalf n s) (Failure t) = SOpen (n + 1) t"

fun spec_rejects :: "time \<Rightarrow> breaker_spec \<Rightarrow> time \<Rightarrow> bool" where
  "spec_rejects rt (SClosed n) t = False"
| "spec_rejects rt (SOpen n s) t = (t - s < rt)"
| "spec_rejects rt (SHalf n s) t = (t - s < rt)"

definition breaker_abs :: "breaker \<Rightarrow> breaker_spec" where
  "breaker_abs b =
     (case cb_state b of
        CLOSED \<Rightarrow> SClosed (failure_count b)
      | OPEN \<Rightarrow> SOpen (failure_count b) (opened_at b)
      | HALF_OPEN \<Rightarrow> SHalf (failure_count b) (the (probe_started_at b)))"

lemma breaker_abs_step:
  assumes "breaker_inv b"
  shows "breaker_abs (breaker_step b e) =
           spec_step (failure_threshold b) (recovery_timeout b) (breaker_abs b) e"
  using assms by (cases e; cases "cb_state b")
    (auto simp: breaker_inv_def breaker_abs_def breaker_op_defs)

lemma breaker_abs_rejects:
  assumes "breaker_inv b"
  shows "fst (breaker_is_open t b) = spec_rejects (recovery_timeout b) (breaker_abs b) t"
  using assms by (cases "cb_state b") (auto simp: breaker_inv_def breaker_abs_def breaker_op_defs)

section \<open>Admissions\<close>

text \<open>The times at which a sequence of \<open>is_open\<close> calls let the caller through.\<close>

fun admissions :: "time list \<Rightarrow> breaker \<Rightarrow> time list" where
  "admissions [] b = []"
| "admissions (t # ts) b =
     (case breaker_is_open t b of
        (rejected, b') \<Rightarrow> (if rejected then admissions ts b' else t # admissions ts b'))"

lemma admissions_after_probe:
  assumes "cb_state b = HALF_OPEN" "probe_started_at b = Some p"
  shows "successively (\<lambda>s t. t - s \<ge> recovery_timeout b) (p # admissions ts b)"
  using assms
proof (induction ts arbitrary: b p)
  case Nil
  then show ?case by simp
next
  case (Cons t ts)
  show ?case
  proof (cases "t - p < recovery_timeout b")
    case True
    with Cons.prems Cons.IH [of b p] show ?thesis by (simp add: breaker_is_open_def)
  next
    case False
    with Cons.prems Cons.IH [of "b\<lparr>probe_started_at := Some t\<rparr>" t]
    show ?thesis by (simp add: breaker_is_open_def)
  qed
qed

lemma admissions_spacing:
  assumes "cb_state b = OPEN"
  shows "successively (\<lambda>s t. t - s \<ge> recovery_timeout b) (admissions ts b)"
  using assms
proof (induction ts)
  case Nil
  then show ?case by simp
next
  case (Cons t ts)
  show ?case
  proof (cases "t - opened_at b < recovery_timeout b")
    case True
    with Cons show ?thesis by (simp add: breaker_is_open_def)
  next
    case False
    let ?b' = "b\<lparr>cb_state := HALF_OPEN, probe_started_at := Some t\<rparr>"
    have "successively (\<lambda>s t. t - s \<ge> recovery_timeout ?b') (t # admissions ts ?b')"
      by (rule admissions_after_probe) simp_all
    with False Cons.prems show ?thesis by (simp add: breaker_is_open_def breaker_transition_def)
  qed
qed

section \<open>The interface\<close>

text \<open>
  What a client of the breaker relies on: a rejected call changes nothing, a success clears the
  failure count, failures never clear it, and once opened the breaker rejects every call for
  \<open>recovery_timeout\<close> seconds.
\<close>

locale breaker_contract =
  fixes is_open :: "time \<Rightarrow> 'b \<Rightarrow> bool \<times> 'b"
    and success :: "'b \<Rightarrow> 'b"
    and failure :: "time \<Rightarrow> 'b \<Rightarrow> 'b"
    and invar :: "'b \<Rightarrow> bool"
    and tripped_at :: "'b \<Rightarrow> time option"
    and timeout_of :: "'b \<Rightarrow> time"
  assumes rejected_unchanged: "is_open t b = (True, b') \<Longrightarrow> b' = b"
    and tripped_rejects: "invar b \<Longrightarrow> tripped_at b = Some s \<Longrightarrow> t < s + timeout_of b \<Longrightarrow> fst (is_open t b)"
    and tripped_admits: "invar b \<Longrightarrow> tripped_at b = Some s \<Longrightarrow> s + timeout_of b \<le> t \<Longrightarrow> \<not> fst (is_open t b)"
    and untripped_admits: "invar b \<Longrightarrow> tripped_at b = None \<Longrightarrow> \<not> fst (is_open t b)"
    and invar_is_open: "invar b \<Longrightarrow> invar (snd (is_open t b))"
    and invar_success: "invar b \<Longrightarrow> invar (success b)"
    and invar_failure: "invar b \<Longrightarrow> invar (failure t b)"
begin

lemma is_open_iff:
  "invar b \<Longrightarrow> fst (is_open t b) = (case tripped_at b of None \<Rightarrow> False | Some s \<Rightarrow> t < s + timeout_of b)"
  using tripped_rejects tripped_admits untripped_admits
  by (cases "tripped_at b") (simp, metis not_less option.simps(5))

lemma rejected_twice:
  assumes "invar b" and "fst (is_open t b)" and "t' \<le> t"
  shows "fst (is_open t' (snd (is_open t b)))"
proof -
  have "snd (is_open t b) = b"
    using assms(2) rejected_unchanged by (metis prod.collapse)
  with assms show ?thesis by (auto simp: is_open_iff split: option.splits)
qed

end

definition breaker_wf :: "breaker \<Rightarrow> bool" where
  "breaker_wf b = (breaker_inv b \<and> 1 \<le> failure_threshold b)"

definition breaker_tripped_at :: "breaker \<Rightarrow> time option" where
  "breaker_tripped_at b =
     (case cb_state b of CLOSED \<Rightarrow> None | OPEN \<Rightarrow> Some (opened_at b) | HALF_OPEN \<Rightarrow> probe_started_at b)"

lemma breaker_wf_step: "breaker_wf b \<Longrightarrow> breaker_wf (breaker_step b e)"
  by (simp add: breaker_wf_def breaker_step_inv)

interpretation cb: breaker_contract breaker_is_open record_success record_failure
  breaker_wf breaker_tripped_at recovery_timeout
proof (unfold_locales, goal_cases)
  case (1 t b b')
  then show ?case by (auto simp: breaker_is_open_def split: if_splits)
next
  case (2 b s t)
  then show ?case
    by (auto simp: breaker_is_open_def breaker_tripped_at_def split: CircuitState.splits)
next
  case (3 b s t)
  then show ?case
    by (auto simp: breaker_is_open_def breaker_tripped_at_def split: CircuitState.splits)
next
  case (4 b t)
  then show ?case
    by (auto simp: breaker_is_open_def breaker_tripped_at_def breaker_wf_def breaker_inv_def
        split: CircuitState.splits)
next
  case (5 b t)
  then show ?case using breaker_wf_step [of b "IsOpen t"] by simp
next
  case (6 b)
  then show ?case using breaker_wf_step [of b Success] by simp
next
  case (7 b t)
  then show ?case using breaker_wf_step [of b "Failure t"] by simp
qed

section \<open>Consecutive failures\<close>

fun failures :: "time list \<Rightarrow> breaker \<Rightarrow> breaker" where
  "failures [] b = b"
| "failures (t # ts) b = failures ts (record_failure t b)"

lemma failures_snoc: "failures (ts @ [t]) b = record_failure t (failures ts b)"
  by (induction ts arbitrary: b) simp_all

lemma failures_count:
  "failure_count (failures ts b) = failure_count b + int (length ts)
   \<and> failure_threshold (failures ts b) = failure_threshold b"
  by (induction ts arbitrary: b) (auto simp: breaker_op_defs)

lemma failures_trip:
  assumes "1 \<le> thr"
  shows "cb_state (failures ts (new_breaker nm thr rt)) =
           (if int (length ts) < thr then CLOSED else OPEN)"
proof (induction ts rule: rev_induct)
  case Nil
  then show ?case using assms by (simp add: new_breaker_def)
next
  case (snoc t ts)
  let ?b = "failures ts (new_breaker nm thr rt)"
  have "failure_count ?b = int (length ts)" "failure_threshold ?b = thr"
    using failures_count [of ts "new_breaker nm thr rt"] by (simp_all add: new_breaker_def)
  with snoc show ?case by (auto simp: failures_snoc breaker_op_defs)
qed

section \<open>Properties\<close>

text \<open>
  In every state a breaker reaches, whatever the order and the times of the calls, a closed
  breaker has counted fewer than \<open>failure_threshold\<close> failures, and a probe is in flight exactly in
  the half-open state.
\<close>

theorem breaker_reachable_invariant:
  assumes "1 \<le> thr" and "breaker_reachable (new_breaker nm thr rt) b"
  shows "breaker_inv b"
  using breaker_reachable_keeps [OF assms(2)] assms(1)
  by (simp add: new_breaker_inv) (simp add: new_breaker_def)

theorem breaker_reachable_invariant_witness:
  "breaker_inv (breaker_step (breaker_step (new_breaker ''crm'' 1 60) (Failure 5)) (IsOpen 70))"
  by (rule breaker_reachable_invariant [of 1 "''crm''" 60])
    (simp, intro breaker_reachable.intros)

text \<open>
  C23: the breaker refines the three-state automaton: in every reachable state each of its methods
  acts on the abstract state as the automaton does, and \<open>is_open\<close> answers what the automaton
  answers.
\<close>

theorem breaker_refines_automaton:
  assumes "1 \<le> thr" and "breaker_reachable (new_breaker nm thr rt) b"
  shows "breaker_abs (breaker_step b e) = spec_step thr rt (breaker_abs b) e
         \<and> fst (breaker_is_open t b) = spec_rejects rt (breaker_abs b) t"
proof -
  let ?b0 = "new_breaker nm thr rt"
  have "breaker_inv ?b0" "failure_threshold ?b0 = thr" "recovery_timeout ?b0 = rt"
    using assms(1) by (simp_all add: new_breaker_inv) (simp_all add: new_breaker_def)
  with breaker_reachable_keeps [OF assms(2)] assms(1)
  show ?thesis by (simp add: breaker_abs_step breaker_abs_rejects)
qed

theorem breaker_refines_automaton_witness:
  "breaker_abs (breaker_step (breaker_step (new_breaker ''crm'' 1 60) (Failure 5)) (IsOpen 70)) =
     spec_step 1 60 (breaker_abs (breaker_step (new_breaker ''crm'' 1 60) (Failure 5))) (IsOpen 70)
   \<and> fst (breaker_is_open 70 (breaker_step (new_breaker ''crm'' 1 60) (Failure 5))) =
     spec_rejects 60 (breaker_abs (breaker_step (new_breaker ''crm'' 1 60) (Failure 5))) 70"
  by (rule breaker_refines_automaton [of 1 "''crm''" 60])
    (simp, intro breaker_reachable.intros)



text \<open>
  A fresh breaker stays closed under fewer than \<open>failure_threshold\<close> consecutive failures and is
  open from the failure that reaches the threshold on; it then rejects every call until
  \<open>recovery_timeout\<close> has passed since the last failure and lets the next one through.
\<close>

theorem breaker_trips_and_recovers:
  assumes "1 \<le> thr"
  shows "cb_state (failures ts (new_breaker nm thr rt)) = (if int (length ts) < thr then CLOSED else OPEN)
         \<and> fst (breaker_is_open t (failures (ts @ [s]) (new_breaker nm thr rt))) =
             (thr \<le> int (length ts) + 1 \<and> t < s + rt)"
proof -
  let ?b = "failures ts (new_breaker nm thr rt)"
  have cnt: "failure_count ?b = int (length ts)" "failure_threshold ?b = thr"
    using failures_count [of ts "new_breaker nm thr rt"] by (simp_all add: new_breaker_def)
  have rt: "recovery_timeout ?b = rt"
    by (induction ts rule: rev_induct) (auto simp: failures_snoc breaker_op_defs new_breaker_def)
  from failures_trip [OF assms] cnt rt show ?thesis
    by (auto simp: failures_snoc breaker_op_defs)
qed

theorem breaker_trips_and_recovers_witness:
  "cb_state (failures [1, 2] (new_breaker ''crm'' 3 60)) = CLOSED
   \<and> fst (breaker_is_open 40 (failures [1, 2, 3] (new_breaker ''crm'' 3 60)))
   \<and> \<not> fst (breaker_is_open 63 (failures [1, 2, 3] (new_breaker ''crm'' 3 60)))"
  using breaker_trips_and_recovers [of 3 "[1, 2]" "''crm''" 60 40 3]
    breaker_trips_and_recovers [of 3 "[1, 2]" "''crm''" 60 63 3] by simp

end
