(* ===== verification/Api_Exceptions.thy ===== *)
theory Api_Exceptions
  imports Prelude
begin

text \<open>
  \<open>exceptions.py\<close>, \<open>contracts/errors.py\<close>, \<open>contracts/availability.py\<close>,
  \<open>schemas/error_envelope.py\<close>, \<open>middleware/exception_handlers.py\<close>,
  \<open>db/exception_handlers.py\<close> and \<open>integrations/portal_errors.py\<close>: the exception classes of
  the platform, the one error envelope, and the handlers that turn the first into the second.
  A constructor of an exception class is a function from its arguments to the attributes it sets
  (\<open>api_error\<close>); the check of \<open>BaseAPIException.__init_subclass__\<close> that a subclass calls
  \<open>super().__init__\<close> holds by construction here. The attributes \<open>detail\<close> and
  \<open>code\<close> are JSON values (\<open>JNull\<close> for \<open>None\<close>), because the clients fill them from response
  bodies they do not check. FastAPI's
  \<open>is_body_allowed_for_status_code\<close> is the parameter \<open>body_allowed\<close>.
\<close>

section \<open>Exception classes\<close>

fun category_value :: "ErrorCategory \<Rightarrow> string" where
  "category_value VALIDATION = ''VALIDATION''"
| "category_value AUTH = ''AUTH''"
| "category_value FORBIDDEN = ''FORBIDDEN''"
| "category_value NOT_FOUND = ''NOT_FOUND''"
| "category_value CONFLICT = ''CONFLICT''"
| "category_value CONTENT_TOO_LARGE = ''CONTENT_TOO_LARGE''"
| "category_value RATE_LIMIT = ''RATE_LIMIT''"
| "category_value DATABASE = ''DATABASE''"
| "category_value INTERNAL = ''INTERNAL''"
| "category_value BAD_GATEWAY = ''BAD_GATEWAY''"
| "category_value UNAVAILABLE = ''UNAVAILABLE''"
| "category_value TIMEOUT = ''TIMEOUT''"

definition BaseAPIException ::
  "ErrorCategory option \<Rightarrow> int \<Rightarrow> string \<Rightarrow> json \<Rightarrow> json
   \<Rightarrow> (string, string) dict option \<Rightarrow> (string, json) dict option \<Rightarrow> api_error" where
  "BaseAPIException cat status error detail code headers extra =
     \<lparr>api_status = status, api_error_msg = error, api_detail = detail, api_code = code,
      api_headers = headers, api_extra = (case extra of None \<Rightarrow> [] | Some d \<Rightarrow> d),
      api_category = cat\<rparr>"

definition ValidationError :: "json \<Rightarrow> json \<Rightarrow> api_error" where
  "ValidationError detail code =
     BaseAPIException (Some VALIDATION) 400 ''Validation failed'' detail code None None"

definition AuthenticationError :: "json \<Rightarrow> json \<Rightarrow> (string, string) dict option \<Rightarrow> api_error" where
  "AuthenticationError detail code headers =
     BaseAPIException (Some AUTH) 401 ''Authentication failed'' detail code headers None"

definition AuthorizationError :: "json \<Rightarrow> json \<Rightarrow> api_error" where
  "AuthorizationError detail code =
     BaseAPIException (Some FORBIDDEN) 403 ''Authorization failed'' detail code None None"

definition NotFoundError :: "string \<Rightarrow> string option \<Rightarrow> json \<Rightarrow> api_error" where
  "NotFoundError resource identifier code =
     (let detail = (case identifier of
                      None \<Rightarrow> resource @ '' not found''
                    | Some i \<Rightarrow> if i = [] then resource @ '' not found''
                               else resource @ '' '' @ i @ '' not found'')
      in BaseAPIException (Some NOT_FOUND) 404 (resource @ '' not found'') (JStr detail) code None None)"

definition ConflictError :: "json \<Rightarrow> json \<Rightarrow> api_error" where
  "ConflictError detail code =
     BaseAPIException (Some CONFLICT) 409 ''Conflict'' detail code None None"

definition ContentTooLargeError :: "json \<Rightarrow> json \<Rightarrow> api_error" where
  "ContentTooLargeError detail code =
     BaseAPIException (Some CONTENT_TOO_LARGE) 413 ''Content too large'' detail code None None"

definition RateLimitError ::
  "json \<Rightarrow> json \<Rightarrow> int option \<Rightarrow> (string, string) dict option \<Rightarrow> api_error" where
  "RateLimitError detail code retry_after headers =
     (let merged = (case headers of None \<Rightarrow> [] | Some h \<Rightarrow> h);
          merged = (case retry_after of None \<Rightarrow> merged
                    | Some r \<Rightarrow> dict_set ''Retry-After'' (string_of_int r) merged)
      in BaseAPIException (Some RATE_LIMIT) 429 ''Rate limit exceeded'' detail code
           (if merged = [] then None else Some merged) None)"

definition DatabaseError :: "json \<Rightarrow> json \<Rightarrow> api_error" where
  "DatabaseError detail code =
     BaseAPIException (Some DATABASE) 500 ''Database error'' detail code None None"

definition InternalServerError :: "json \<Rightarrow> json \<Rightarrow> api_error" where
  "InternalServerError detail code =
     BaseAPIException (Some INTERNAL) 500 ''Internal server error'' detail code None None"

definition BadGatewayError :: "json \<Rightarrow> json \<Rightarrow> api_error" where
  "BadGatewayError detail code =
     BaseAPIException (Some BAD_GATEWAY) 502 ''Bad gateway'' detail code None None"

definition ServiceUnavailableError :: "json \<Rightarrow> json \<Rightarrow> int option \<Rightarrow> api_error" where
  "ServiceUnavailableError detail code retry_after =
     BaseAPIException (Some UNAVAILABLE) 503 ''Service unavailable'' detail code
       (case retry_after of None \<Rightarrow> None | Some r \<Rightarrow> Some [(''Retry-After'', string_of_int r)]) None"

definition ServiceTimeoutError :: "json \<Rightarrow> json \<Rightarrow> api_error" where
  "ServiceTimeoutError detail code =
     BaseAPIException (Some TIMEOUT) 504 ''Service timeout'' detail code None None"

lemmas api_exception_defs =
  BaseAPIException_def ValidationError_def AuthenticationError_def AuthorizationError_def
  NotFoundError_def ConflictError_def ContentTooLargeError_def RateLimitError_def
  DatabaseError_def InternalServerError_def BadGatewayError_def ServiceUnavailableError_def
  ServiceTimeoutError_def

section \<open>Portal errors\<close>

text \<open>A portal error is the matching API error with the attributes the subclass adds.\<close>

record portal_error = api_error +
  portal :: "string option"
  portal_errors :: "json list"
  portal_retry_after :: "int option"
  existing_listing_id :: "string option"
  portal_reference :: "string option"

definition as_portal :: "api_error \<Rightarrow> string option \<Rightarrow> portal_error" where
  "as_portal e p =
     api_error.extend e \<lparr>portal = p, portal_errors = [], portal_retry_after = None,
                          existing_listing_id = None, portal_reference = None\<rparr>"

definition PortalError :: "string \<Rightarrow> string \<Rightarrow> string option \<Rightarrow> portal_error" where
  "PortalError detail code p = as_portal (BadGatewayError (JStr detail) (JStr code)) p"

definition PortalAuthError :: "string \<Rightarrow> string \<Rightarrow> string option \<Rightarrow> portal_error" where
  "PortalAuthError detail code p = as_portal (AuthenticationError (JStr detail) (JStr code) None) p"

definition PortalValidationError ::
  "string \<Rightarrow> string \<Rightarrow> string option \<Rightarrow> json list option \<Rightarrow> portal_error" where
  "PortalValidationError detail code p errors =
     (as_portal (ValidationError (JStr detail) (JStr code)) p)
       \<lparr>portal_errors := (case errors of None \<Rightarrow> [] | Some es \<Rightarrow> es)\<rparr>"

definition PortalRateLimitError ::
  "string \<Rightarrow> string \<Rightarrow> string option \<Rightarrow> int option \<Rightarrow> portal_error" where
  "PortalRateLimitError detail code p retry_after =
     (as_portal (RateLimitError (JStr detail) (JStr code) None None) p)\<lparr>portal_retry_after := retry_after\<rparr>"

definition PortalDuplicateError ::
  "string \<Rightarrow> string \<Rightarrow> string option \<Rightarrow> string option \<Rightarrow> string option \<Rightarrow> portal_error" where
  "PortalDuplicateError detail code p existing ref =
     (as_portal (ConflictError (JStr detail) (JStr code)) p)
       \<lparr>existing_listing_id := existing, portal_reference := ref\<rparr>"

definition PortalNotFoundError ::
  "string \<Rightarrow> string option \<Rightarrow> string \<Rightarrow> string option \<Rightarrow> portal_error" where
  "PortalNotFoundError resource identifier code p =
     as_portal (NotFoundError resource identifier (JStr code)) p"

definition PortalUnavailableError :: "string \<Rightarrow> string \<Rightarrow> string option \<Rightarrow> portal_error" where
  "PortalUnavailableError detail code p = as_portal (ServiceUnavailableError (JStr detail) (JStr code) None) p"

definition PortalServerError :: "string \<Rightarrow> string \<Rightarrow> string option \<Rightarrow> portal_error" where
  "PortalServerError detail code p = as_portal (InternalServerError (JStr detail) (JStr code)) p"

section \<open>The error envelope\<close>

definition VALIDATION_CODE :: string where "VALIDATION_CODE = ''VALIDATION_000''"

definition INTERNAL_CODE :: string where "INTERNAL_CODE = ''INTERNAL_000''"

definition CONFLICT_CODE :: string where "CONFLICT_CODE = ''CONFLICT_000''"

text \<open>
  \<open>build_error_envelope(message, code, correlation_id, **extra)\<close>; an extra whose value is
  \<open>None\<close> (\<open>JNull\<close>) is dropped.
\<close>

definition build_error_envelope ::
  "string \<Rightarrow> json \<Rightarrow> string option \<Rightarrow> (string, json) dict \<Rightarrow> json" where
  "build_error_envelope message code correlation_id extra =
     (let inner = [(''message'', JStr message)];
          inner = (if code = JNull then inner else dict_set ''code'' code inner);
          inner = (case correlation_id of None \<Rightarrow> inner
                   | Some c \<Rightarrow> dict_set ''correlation_id'' (JStr c) inner);
          inner = foldl (\<lambda>d (k, v). if v = JNull then d else dict_set k v d) inner extra
      in JDict [(''error'', JDict inner)])"

text \<open>The state of the ASGI application that the handlers read: \<open>app.state.error_code_prefix\<close>.\<close>

record app_state =
  error_code_prefix :: "string option"

definition upper_letter :: "char \<Rightarrow> bool" where
  "upper_letter c = (65 \<le> (of_char c :: nat) \<and> (of_char c :: nat) \<le> 90)"

definition set_error_code_prefix :: "app_state \<Rightarrow> string \<Rightarrow> app_state res" where
  "set_error_code_prefix app code_prefix =
     (if code_prefix \<noteq> [] \<and> list_all upper_letter code_prefix
      then Inr (app\<lparr>error_code_prefix := Some code_prefix\<rparr>)
      else Inl (ValueError (''code_prefix must be upper-case letters only, got '' @ code_prefix)))"

definition framework_error_code :: "app_state \<Rightarrow> string \<Rightarrow> string res" where
  "framework_error_code app sfx =
     (case error_code_prefix app of
        None \<Rightarrow> Inl (RuntimeError ''This app has no error code prefix'')
      | Some p \<Rightarrow> Inr (p @ ''_'' @ sfx))"

section \<open>The handlers\<close>

record json_response =
  jr_status :: int
  jr_body :: "json option"
  jr_headers :: "(string, string) dict option"

definition TRANSPORT_HEADERS :: "string set" where
  "TRANSPORT_HEADERS = {''content-length'', ''content-type'', ''transfer-encoding'', ''connection''}"

definition safe_headers :: "(string, string) dict option \<Rightarrow> (string, string) dict option" where
  "safe_headers hs =
     (case hs of None \<Rightarrow> None
      | Some h \<Rightarrow> if h = [] then Some [] else Some (filter (\<lambda>(k, _). lower k \<notin> TRANSPORT_HEADERS) h))"

definition default_code_suffix :: "api_error \<Rightarrow> string" where
  "default_code_suffix exc =
     (case api_category exc of Some c \<Rightarrow> category_value c @ ''_000''
      | None \<Rightarrow> ''HTTP_'' @ string_of_int (api_status exc))"

text \<open>
  The call passes \<open>**exc.extra\<close> beside the named arguments: a repeated keyword is a
  \<open>TypeError\<close> of the call itself. \<open>exc.error_code or ...\<close> takes the default for an empty code.
\<close>

definition base_api_exception_handler ::
  "app_state \<Rightarrow> string option \<Rightarrow> api_error \<Rightarrow> json_response res" where
  "base_api_exception_handler app correlation_id exc =
     (case (if truthy (api_code exc) then Inr (api_code exc)
            else map_sum id JStr (framework_error_code app (default_code_suffix exc))) of
        Inl e \<Rightarrow> Inl e
      | Inr code \<Rightarrow>
          if \<exists>k \<in> fst ` set (api_extra exc). k \<in> {''message'', ''code'', ''correlation_id'', ''detail''}
          then Inl (TypeError ''build_error_envelope() got multiple values for keyword argument'')
          else Inr \<lparr>jr_status = api_status exc,
                    jr_body = Some (build_error_envelope (api_error_msg exc) code correlation_id
                      ((''detail'', api_detail exc) # api_extra exc)),
                    jr_headers = safe_headers (api_headers exc)\<rparr>)"

definition http_exception_handler ::
  "(int \<Rightarrow> bool) \<Rightarrow> app_state \<Rightarrow> string option \<Rightarrow> int \<Rightarrow> string \<Rightarrow> (string, string) dict option
   \<Rightarrow> json_response res" where
  "http_exception_handler body_allowed app correlation_id status detail headers =
     (if \<not> body_allowed status
      then Inr \<lparr>jr_status = status, jr_body = None, jr_headers = safe_headers headers\<rparr>
      else case framework_error_code app (''HTTP_'' @ string_of_int status) of
             Inl e \<Rightarrow> Inl e
           | Inr code \<Rightarrow>
               Inr \<lparr>jr_status = status,
                    jr_body = Some (build_error_envelope detail (JStr code) correlation_id []),
                    jr_headers = safe_headers headers\<rparr>)"

definition validation_exception_handler ::
  "app_state \<Rightarrow> string option \<Rightarrow> json \<Rightarrow> json_response res" where
  "validation_exception_handler app correlation_id errors =
     (case framework_error_code app VALIDATION_CODE of
        Inl e \<Rightarrow> Inl e
      | Inr code \<Rightarrow>
          Inr \<lparr>jr_status = 422,
               jr_body = Some (build_error_envelope ''Validation failed'' (JStr code) correlation_id
                 [(''fields'', errors)]),
               jr_headers = None\<rparr>)"

datatype DatabaseOutageCode = CONNECT_FAILED | CONNECTION_LOST | POOL_EXHAUSTED | STATEMENT_TIMEOUT

fun outage_code_value :: "DatabaseOutageCode \<Rightarrow> string" where
  "outage_code_value CONNECT_FAILED = ''DATABASE_UNAVAILABLE_001''"
| "outage_code_value CONNECTION_LOST = ''DATABASE_UNAVAILABLE_002''"
| "outage_code_value POOL_EXHAUSTED = ''DATABASE_UNAVAILABLE_003''"
| "outage_code_value STATEMENT_TIMEOUT = ''DATABASE_TIMEOUT_001''"

definition db_unavailable_response ::
  "app_state \<Rightarrow> string option \<Rightarrow> string \<Rightarrow> DatabaseOutageCode \<Rightarrow> json_response res" where
  "db_unavailable_response app cid detail code =
     base_api_exception_handler app cid
       (ServiceUnavailableError (JStr detail) (JStr (outage_code_value code)) (Some 1))"

definition database_unavailable_handler ::
  "app_state \<Rightarrow> string option \<Rightarrow> DatabaseOutageCode \<Rightarrow> json_response res" where
  "database_unavailable_handler app cid code =
     db_unavailable_response app cid ''Database unavailable'' code"

definition pool_exhausted_handler :: "app_state \<Rightarrow> string option \<Rightarrow> json_response res" where
  "pool_exhausted_handler app cid =
     db_unavailable_response app cid ''Database connection pool exhausted'' POOL_EXHAUSTED"

definition statement_timeout_handler :: "app_state \<Rightarrow> string option \<Rightarrow> json_response res" where
  "statement_timeout_handler app cid =
     base_api_exception_handler app cid
       (ServiceTimeoutError (JStr ''Database statement timed out'') (JStr (outage_code_value STATEMENT_TIMEOUT)))"

section \<open>Lemmas\<close>

fun envelope_inner :: "json \<Rightarrow> (string, json) dict" where
  "envelope_inner (JDict [(k, JDict inner)]) = (if k = ''error'' then inner else [])"
| "envelope_inner _ = []"

lemma map_of_foldl_extra:
  assumes "distinct (map fst extra)"
  shows "map_of (foldl (\<lambda>d (k, v). if v = JNull then d else dict_set k v d) inner extra) k =
           (case map_of extra k of Some v \<Rightarrow> (if v = JNull then map_of inner k else Some v)
            | None \<Rightarrow> map_of inner k)"
  using assms
proof (induction extra arbitrary: inner)
  case Nil
  then show ?case by simp
next
  case (Cons p extra)
  obtain k' v where p: "p = (k', v)" by force
  from Cons.prems p have "map_of extra k' = None"
    by (auto simp: map_of_eq_None_iff)
  with Cons.IH [of "if v = JNull then inner else dict_set k' v inner"] Cons.prems p show ?case
    by (auto split: option.splits)
qed

lemma envelope_lookup:
  assumes "distinct (map fst extra)"
  shows "map_of (envelope_inner (build_error_envelope msg code cid extra)) k =
           (case map_of extra k of
              Some v \<Rightarrow> if v = JNull
                then map_of (envelope_inner (build_error_envelope msg code cid [])) k else Some v
            | None \<Rightarrow> map_of (envelope_inner (build_error_envelope msg code cid [])) k)"
  unfolding build_error_envelope_def Let_def
  by (cases "map_of extra k") (simp_all add: map_of_foldl_extra [OF assms])

lemma envelope_core:
  "map_of (envelope_inner (build_error_envelope msg code cid [])) k =
     (if k = ''message'' then Some (JStr msg)
      else if k = ''code'' then (if code = JNull then None else Some code)
      else if k = ''correlation_id'' then map_option JStr cid else None)"
  by (cases cid) (simp_all add: build_error_envelope_def Let_def)

lemma safe_headers_no_transport:
  "safe_headers hs = Some h \<Longrightarrow> (k, v) \<in> set h \<Longrightarrow> lower k \<notin> TRANSPORT_HEADERS"
  by (auto simp: safe_headers_def split: option.splits if_splits)

lemma framework_error_code_nonempty: "framework_error_code app sfx = Inr c \<Longrightarrow> c \<noteq> []"
  by (auto simp: framework_error_code_def split: option.splits)

lemma base_handler_cases:
  assumes "base_api_exception_handler app cid exc = Inr r"
  obtains code where "truthy code"
    and "fst ` set (api_extra exc) \<inter> {''message'', ''code'', ''correlation_id'', ''detail''} = {}"
    and "r = \<lparr>jr_status = api_status exc,
               jr_body = Some (build_error_envelope (api_error_msg exc) code cid
                 ((''detail'', api_detail exc) # api_extra exc)),
               jr_headers = safe_headers (api_headers exc)\<rparr>"
proof -
  let ?code = "if truthy (api_code exc) then Inr (api_code exc)
    else map_sum id JStr (framework_error_code app (default_code_suffix exc))"
  from assms obtain code where code: "?code = Inr code"
    by (cases ?code) (simp_all add: base_api_exception_handler_def)
  then have "truthy code"
    by (cases "framework_error_code app (default_code_suffix exc)")
      (auto split: if_splits dest: framework_error_code_nonempty)
  moreover have free: "\<not> (\<exists>k\<in>fst ` set (api_extra exc). k \<in> {''message'', ''code'', ''correlation_id'', ''detail''})"
    using assms unfolding base_api_exception_handler_def code by (rule contrapos_pn) simp
  moreover from free have "fst ` set (api_extra exc) \<inter> {''message'', ''code'', ''correlation_id'', ''detail''} = {}"
    by (intro Int_emptyI) (rule notE [OF free], rule bexI)
  ultimately show ?thesis
    using assms that [of code] unfolding base_api_exception_handler_def code
    by (simp add: if_not_P [OF free])
qed

lemma category_value_inj: "category_value a = category_value b \<Longrightarrow> a = b"
  by (cases a; cases b) simp_all

section \<open>Properties\<close>

text \<open>
  Whenever the handler of \<open>BaseAPIException\<close> answers, the answer has the status of the
  exception and is the canonical envelope: its \<open>error\<close> object has the exception's message, a
  non-empty code, the correlation id of the request, the detail, and each extra unchanged; and no
  header that JSONResponse owns can be overridden by the exception.
\<close>

theorem api_error_response_shape:
  assumes "base_api_exception_handler app cid exc = Inr r"
    and "distinct (map fst (api_extra exc))"
  shows "jr_status r = api_status exc
    \<and> (\<exists>body code. jr_body r = Some body \<and> truthy code
        \<and> map_of (envelope_inner body) ''message'' = Some (JStr (api_error_msg exc))
        \<and> map_of (envelope_inner body) ''code'' = Some code
        \<and> map_of (envelope_inner body) ''correlation_id'' = map_option JStr cid
        \<and> map_of (envelope_inner body) ''detail'' = (if api_detail exc = JNull then None else Some (api_detail exc))
        \<and> (\<forall>k v. (k, v) \<in> set (api_extra exc) \<and> v \<noteq> JNull \<longrightarrow> map_of (envelope_inner body) k = Some v))
    \<and> (\<forall>h k v. jr_headers r = Some h \<and> (k, v) \<in> set h \<longrightarrow> lower k \<notin> TRANSPORT_HEADERS)"
proof -
  from base_handler_cases [OF assms(1)] obtain code where code: "truthy code"
    and free: "fst ` set (api_extra exc) \<inter> {''message'', ''code'', ''correlation_id'', ''detail''} = {}"
    and r: "r = \<lparr>jr_status = api_status exc,
               jr_body = Some (build_error_envelope (api_error_msg exc) code cid
                 ((''detail'', api_detail exc) # api_extra exc)),
               jr_headers = safe_headers (api_headers exc)\<rparr>" by blast
  let ?x = "(''detail'', api_detail exc) # api_extra exc"
  let ?in = "envelope_inner (build_error_envelope (api_error_msg exc) code cid ?x)"
  from free have out: "map_of (api_extra exc) ''message'' = None" "map_of (api_extra exc) ''code'' = None"
    "map_of (api_extra exc) ''correlation_id'' = None" "map_of (api_extra exc) ''detail'' = None"
    by (auto simp: map_of_eq_None_iff)
  have "distinct (map fst ?x)"
    using assms(2) free by auto
  note look = envelope_lookup [OF this]
  have extra: "map_of ?in k = Some v" if "(k, v) \<in> set (api_extra exc)" "v \<noteq> JNull" for k v
  proof -
    from that assms(2) have m: "map_of (api_extra exc) k = Some v" by simp
    with out(4) have "k \<noteq> ''detail''" by auto
    with m that(2) show ?thesis by (simp add: look)
  qed
  have core: "map_of ?in ''message'' = Some (JStr (api_error_msg exc))"
    "map_of ?in ''code'' = Some code" "map_of ?in ''correlation_id'' = map_option JStr cid"
    "map_of ?in ''detail'' = (if api_detail exc = JNull then None else Some (api_detail exc))"
    using out code by (auto simp: look envelope_core)
  show ?thesis
    using code r core extra safe_headers_no_transport by auto
qed

theorem api_error_response_shape_witness:
  "let exc = RateLimitError (JStr ''slow down'') JNull (Some 7) (Some [(''Content-Length'', ''9'')])
   in \<exists>r. base_api_exception_handler \<lparr>error_code_prefix = Some ''LEAD''\<rparr> (Some ''cid'') exc = Inr r
        \<and> jr_status r = 429 \<and> jr_headers r = Some [(''Retry-After'', ''7'')]
        \<and> (\<exists>body. jr_body r = Some body \<and> map_of (envelope_inner body) ''correlation_id'' = Some (JStr ''cid''))"
proof -
  define exc where "exc = RateLimitError (JStr ''slow down'') JNull (Some 7) (Some [(''Content-Length'', ''9'')])"
  define r where "r = projr (base_api_exception_handler \<lparr>error_code_prefix = Some ''LEAD''\<rparr> (Some ''cid'') exc)"
  have *: "base_api_exception_handler \<lparr>error_code_prefix = Some ''LEAD''\<rparr> (Some ''cid'') exc = Inr r"
    by (simp add: r_def exc_def base_api_exception_handler_def api_exception_defs framework_error_code_def)
  have h: "jr_headers r = Some [(''Retry-After'', ''7'')]"
  proof -
    have "safe_headers (api_headers exc) = Some [(''Retry-After'', ''7'')]"
      unfolding exc_def by code_simp
    with base_handler_cases [OF *] show ?thesis by (metis json_response.select_convs(3))
  qed
  have "distinct (map fst (api_extra exc))" by (simp add: exc_def api_exception_defs)
  from api_error_response_shape [OF * this] * h show ?thesis
    by (auto simp: exc_def [symmetric]) (simp_all add: exc_def api_exception_defs)
qed

text \<open>
  A portal's \<open>Retry-After\<close> is not sent on: \<open>PortalRateLimitError\<close> keeps
  \<open>retry_after\<close> as an attribute only, so the 429 answer built from it has no \<open>Retry-After\<close>
  header, while the same budget given to \<open>RateLimitError\<close> is sent.
\<close>

theorem portal_rate_limit_drops_retry_after:
  "api_headers (PortalRateLimitError detail code p retry_after) = None
   \<and> api_headers (RateLimitError (JStr detail) (JStr code) (Some r) None) = Some [(''Retry-After'', string_of_int r)]"
  by (simp add: PortalRateLimitError_def as_portal_def api_error.defs api_exception_defs)

end
