(* ===== verification/Contracts.thy ===== *)
theory Contracts
  imports Prelude
begin

text \<open>
  The closed vocabularies of \<open>contracts/\<close> that other components read: header names, correlation
  ids, features, entity types, priorities, channels, bedroom counts, emirates, environments and the
  glossary of retired aliases. Each enum is a datatype with its \<open>.value\<close> as a function and the
  list of its members in declaration order.
\<close>

section \<open>Headers\<close>

datatype HttpHeader =
    H_USER_ID | H_USER_ROLE | H_TENANT_ID | H_CORRELATION_ID | H_USER_EMAIL
  | H_USER_PERMISSIONS | H_SITE_ID | H_AUTH_PROVIDER | H_GATEWAY_SIGNATURE | H_GATEWAY_TIMESTAMP
  | H_SERVICE_TOKEN | H_SERVICE_NAME | H_CALLING_SERVICE | H_CALLING_TENANT_ID | H_IDEMPOTENCY_KEY
  | H_IDEMPOTENCY_REPLAYED | H_REQUEST_TIMEOUT_MS | H_FORWARDED_FOR | H_REAL_IP | H_ORIGINAL_IP
  | H_BFF_TOKEN | H_RATE_LIMIT_LIMIT | H_RATE_LIMIT_REMAINING | H_RATE_LIMIT_RESET | H_RETRY_AFTER

fun header_name :: "HttpHeader \<Rightarrow> string" where
  "header_name H_USER_ID = ''X-User-ID''"
| "header_name H_USER_ROLE = ''X-User-Role''"
| "header_name H_TENANT_ID = ''X-Tenant-ID''"
| "header_name H_CORRELATION_ID = ''X-Correlation-ID''"
| "header_name H_USER_EMAIL = ''X-User-Email''"
| "header_name H_USER_PERMISSIONS = ''X-User-Permissions''"
| "header_name H_SITE_ID = ''X-Site-Id''"
| "header_name H_AUTH_PROVIDER = ''X-Auth-Provider''"
| "header_name H_GATEWAY_SIGNATURE = ''X-Gateway-Signature''"
| "header_name H_GATEWAY_TIMESTAMP = ''X-Gateway-Timestamp''"
| "header_name H_SERVICE_TOKEN = ''X-Service-Token''"
| "header_name H_SERVICE_NAME = ''X-Service-Name''"
| "header_name H_CALLING_SERVICE = ''X-Calling-Service''"
| "header_name H_CALLING_TENANT_ID = ''X-Calling-Tenant-ID''"
| "header_name H_IDEMPOTENCY_KEY = ''X-Idempotency-Key''"
| "header_name H_IDEMPOTENCY_REPLAYED = ''X-Idempotency-Replayed''"
| "header_name H_REQUEST_TIMEOUT_MS = ''X-Request-Timeout-Ms''"
| "header_name H_FORWARDED_FOR = ''X-Forwarded-For''"
| "header_name H_REAL_IP = ''X-Real-IP''"
| "header_name H_ORIGINAL_IP = ''X-Original-IP''"
| "header_name H_BFF_TOKEN = ''X-BFF-Token''"
| "header_name H_RATE_LIMIT_LIMIT = ''X-RateLimit-Limit''"
| "header_name H_RATE_LIMIT_REMAINING = ''X-RateLimit-Remaining''"
| "header_name H_RATE_LIMIT_RESET = ''X-RateLimit-Reset''"
| "header_name H_RETRY_AFTER = ''Retry-After''"

definition http_headers :: "HttpHeader list" where
  "http_headers = [H_USER_ID, H_USER_ROLE, H_TENANT_ID, H_CORRELATION_ID, H_USER_EMAIL,
     H_USER_PERMISSIONS, H_SITE_ID, H_AUTH_PROVIDER, H_GATEWAY_SIGNATURE, H_GATEWAY_TIMESTAMP,
     H_SERVICE_TOKEN, H_SERVICE_NAME, H_CALLING_SERVICE, H_CALLING_TENANT_ID, H_IDEMPOTENCY_KEY,
     H_IDEMPOTENCY_REPLAYED, H_REQUEST_TIMEOUT_MS, H_FORWARDED_FOR, H_REAL_IP, H_ORIGINAL_IP,
     H_BFF_TOKEN, H_RATE_LIMIT_LIMIT, H_RATE_LIMIT_REMAINING, H_RATE_LIMIT_RESET, H_RETRY_AFTER]"

definition correlation_id_char :: "char \<Rightarrow> bool" where
  "correlation_id_char c =
     (let n = (of_char c :: nat) in
      (65 \<le> n \<and> n \<le> 90) \<or> (97 \<le> n \<and> n \<le> 122) \<or> (48 \<le> n \<and> n \<le> 57) \<or> n = 45)"

text \<open>\<open>CORRELATION_ID_PATTERN.fullmatch(value)\<close> for \<open>^[A-Za-z0-9-]{1,64}$\<close>.\<close>

definition is_valid_correlation_id :: "string \<Rightarrow> bool" where
  "is_valid_correlation_id value =
     (1 \<le> length value \<and> length value \<le> 64 \<and> list_all correlation_id_char value)"

section \<open>Features and entity types\<close>

datatype Feature =
    F_AUTH | F_LEAD | F_DEAL | F_CONTACT | F_PROPERTY
  | F_LISTING | F_CMS | F_LMS | F_TASK | F_ACTIVITY
  | F_NOTIFICATION | F_HR | F_FINANCE | F_ADMIN | F_MEDIA
  | F_DLD | F_WAM | F_RECRUITMENT | F_SCRAPING

fun feature_value :: "Feature \<Rightarrow> string" where
  "feature_value F_AUTH = ''auth''"
| "feature_value F_LEAD = ''lead''"
| "feature_value F_DEAL = ''deal''"
| "feature_value F_CONTACT = ''contact''"
| "feature_value F_PROPERTY = ''property''"
| "feature_value F_LISTING = ''listing''"
| "feature_value F_CMS = ''cms''"
| "feature_value F_LMS = ''lms''"
| "feature_value F_TASK = ''task''"
| "feature_value F_ACTIVITY = ''activity''"
| "feature_value F_NOTIFICATION = ''notification''"
| "feature_value F_HR = ''hr''"
| "feature_value F_FINANCE = ''finance''"
| "feature_value F_ADMIN = ''admin''"
| "feature_value F_MEDIA = ''media''"
| "feature_value F_DLD = ''dld''"
| "feature_value F_WAM = ''wam''"
| "feature_value F_RECRUITMENT = ''recruitment''"
| "feature_value F_SCRAPING = ''scraping''"

definition features :: "Feature list" where
  "features = [F_AUTH, F_LEAD, F_DEAL, F_CONTACT, F_PROPERTY,
     F_LISTING, F_CMS, F_LMS, F_TASK, F_ACTIVITY,
     F_NOTIFICATION, F_HR, F_FINANCE, F_ADMIN, F_MEDIA,
     F_DLD, F_WAM, F_RECRUITMENT, F_SCRAPING]"

definition ENTITLEMENT_MODULES :: "Feature set" where
  "ENTITLEMENT_MODULES =
     {F_LISTING, F_CMS, F_LEAD, F_LMS, F_HR, F_FINANCE, F_DLD, F_SCRAPING}"

definition ensure_entitlement_module :: "Feature \<Rightarrow> Feature res" where
  "ensure_entitlement_module v =
     (if v \<notin> ENTITLEMENT_MODULES
      then Inl (ValueError (feature_value v @ '' is not a tenant-toggleable module; valid: ''
             @ ''['' @ join '', '' (map (\<lambda>s. CHR 0x27 # s @ [CHR 0x27])
                 [''cms'', ''dld'', ''finance'', ''hr'', ''lead'', ''listing'', ''lms'', ''scraping'']) @ '']''))
      else Inr v)"

datatype EntityType =
    E_LEAD | E_DEAL | E_CONTACT | E_PROPERTY | E_LISTING
  | E_CMS_BLOG | E_CMS_PAGE | E_LMS_COURSE | E_LMS_CERTIFICATE | E_TASK
  | E_ACTIVITY_COMMENT | E_HR_EMPLOYEE | E_HR_APPLICATION | E_HR_OFFER | E_HR_ATTENDANCE_RECORD
  | E_HR_ATTENDANCE_EXCEPTION | E_HR_ATTENDANCE_MANUAL_ENTRY | E_HR_ATTENDANCE_SYNC_JOB | E_FINANCE_COMMISSION | E_FINANCE_INVOICE
  | E_FINANCE_EXPENSE | E_ADMIN_USER | E_MEDIA

fun entity_value :: "EntityType \<Rightarrow> string" where
  "entity_value E_LEAD = ''lead''"
| "entity_value E_DEAL = ''deal''"
| "entity_value E_CONTACT = ''contact''"
| "entity_value E_PROPERTY = ''property''"
| "entity_value E_LISTING = ''listing''"
| "entity_value E_CMS_BLOG = ''cms.blog''"
| "entity_value E_CMS_PAGE = ''cms.page''"
| "entity_value E_LMS_COURSE = ''lms.course''"
| "entity_value E_LMS_CERTIFICATE = ''lms.certificate''"
| "entity_value E_TASK = ''task''"
| "entity_value E_ACTIVITY_COMMENT = ''activity.comment''"
| "entity_value E_HR_EMPLOYEE = ''hr.employee''"
| "entity_value E_HR_APPLICATION = ''hr.application''"
| "entity_value E_HR_OFFER = ''hr.offer''"
| "entity_value E_HR_ATTENDANCE_RECORD = ''hr.attendance_record''"
| "entity_value E_HR_ATTENDANCE_EXCEPTION = ''hr.attendance_exception''"
| "entity_value E_HR_ATTENDANCE_MANUAL_ENTRY = ''hr.attendance_manual_entry''"
| "entity_value E_HR_ATTENDANCE_SYNC_JOB = ''hr.attendance_sync_job''"
| "entity_value E_FINANCE_COMMISSION = ''finance.commission''"
| "entity_value E_FINANCE_INVOICE = ''finance.invoice''"
| "entity_value E_FINANCE_EXPENSE = ''finance.expense''"
| "entity_value E_ADMIN_USER = ''admin.user''"
| "entity_value E_MEDIA = ''media''"

definition entity_types :: "EntityType list" where
  "entity_types = [E_LEAD, E_DEAL, E_CONTACT, E_PROPERTY, E_LISTING,
     E_CMS_BLOG, E_CMS_PAGE, E_LMS_COURSE, E_LMS_CERTIFICATE, E_TASK,
     E_ACTIVITY_COMMENT, E_HR_EMPLOYEE, E_HR_APPLICATION, E_HR_OFFER, E_HR_ATTENDANCE_RECORD,
     E_HR_ATTENDANCE_EXCEPTION, E_HR_ATTENDANCE_MANUAL_ENTRY, E_HR_ATTENDANCE_SYNC_JOB, E_FINANCE_COMMISSION, E_FINANCE_INVOICE,
     E_FINANCE_EXPENSE, E_ADMIN_USER, E_MEDIA]"

text \<open>\<open>Feature(s)\<close>: the member with that value, or a \<open>ValueError\<close>.\<close>

definition feature_of_value :: "string \<Rightarrow> Feature res" where
  "feature_of_value s =
     (case find (\<lambda>f. feature_value f = s) features of
        Some f \<Rightarrow> Inr f
      | None \<Rightarrow> Inl (ValueError (s @ '' is not a valid Feature'')))"

definition entity_feature :: "EntityType \<Rightarrow> Feature res" where
  "entity_feature e = feature_of_value (takeWhile (\<lambda>c. c \<noteq> CHR ''.'') (entity_value e))"

section \<open>Shared enums and the glossary\<close>

datatype Priority =
    P_LOW | P_MEDIUM | P_HIGH | P_CRITICAL

fun priority_value :: "Priority \<Rightarrow> string" where
  "priority_value P_LOW = ''low''"
| "priority_value P_MEDIUM = ''medium''"
| "priority_value P_HIGH = ''high''"
| "priority_value P_CRITICAL = ''critical''"

definition priorities :: "Priority list" where
  "priorities = [P_LOW, P_MEDIUM, P_HIGH, P_CRITICAL]"

datatype Channel =
    Ch_IN_APP | Ch_EMAIL | Ch_SMS | Ch_PUSH | Ch_WHATSAPP

fun channel_value :: "Channel \<Rightarrow> string" where
  "channel_value Ch_IN_APP = ''in_app''"
| "channel_value Ch_EMAIL = ''email''"
| "channel_value Ch_SMS = ''sms''"
| "channel_value Ch_PUSH = ''push''"
| "channel_value Ch_WHATSAPP = ''whatsapp''"

definition channels :: "Channel list" where
  "channels = [Ch_IN_APP, Ch_EMAIL, Ch_SMS, Ch_PUSH, Ch_WHATSAPP]"

datatype BedroomCount =
    B_STUDIO | B_ONE | B_TWO | B_THREE | B_FOUR
  | B_FIVE | B_SIX | B_SEVEN_PLUS

fun bedroom_value :: "BedroomCount \<Rightarrow> string" where
  "bedroom_value B_STUDIO = ''studio''"
| "bedroom_value B_ONE = ''1''"
| "bedroom_value B_TWO = ''2''"
| "bedroom_value B_THREE = ''3''"
| "bedroom_value B_FOUR = ''4''"
| "bedroom_value B_FIVE = ''5''"
| "bedroom_value B_SIX = ''6''"
| "bedroom_value B_SEVEN_PLUS = ''7+''"

definition bedroom_counts :: "BedroomCount list" where
  "bedroom_counts = [B_STUDIO, B_ONE, B_TWO, B_THREE, B_FOUR,
     B_FIVE, B_SIX, B_SEVEN_PLUS]"

datatype Emirate =
    Em_DUBAI | Em_ABU_DHABI | Em_SHARJAH | Em_AJMAN | Em_RAS_AL_KHAIMAH
  | Em_FUJAIRAH | Em_UMM_AL_QUWAIN

fun emirate_value :: "Emirate \<Rightarrow> string" where
  "emirate_value Em_DUBAI = ''Dubai''"
| "emirate_value Em_ABU_DHABI = ''Abu Dhabi''"
| "emirate_value Em_SHARJAH = ''Sharjah''"
| "emirate_value Em_AJMAN = ''Ajman''"
| "emirate_value Em_RAS_AL_KHAIMAH = ''Ras Al Khaimah''"
| "emirate_value Em_FUJAIRAH = ''Fujairah''"
| "emirate_value Em_UMM_AL_QUWAIN = ''Umm Al Quwain''"

definition emirates :: "Emirate list" where
  "emirates = [Em_DUBAI, Em_ABU_DHABI, Em_SHARJAH, Em_AJMAN, Em_RAS_AL_KHAIMAH,
     Em_FUJAIRAH, Em_UMM_AL_QUWAIN]"

datatype Environment =
    Env_DEVELOPMENT | Env_TEST | Env_STAGING | Env_PRODUCTION

fun environment_value :: "Environment \<Rightarrow> string" where
  "environment_value Env_DEVELOPMENT = ''development''"
| "environment_value Env_TEST = ''test''"
| "environment_value Env_STAGING = ''staging''"
| "environment_value Env_PRODUCTION = ''production''"

definition environments :: "Environment list" where
  "environments = [Env_DEVELOPMENT, Env_TEST, Env_STAGING, Env_PRODUCTION]"

definition environment_is_local :: "Environment \<Rightarrow> bool" where
  "environment_is_local e = (e \<in> {Env_DEVELOPMENT, Env_TEST})"

record term_entry =
  term_canonical :: string
  term_type :: string
  term_migrations :: "(string, string) dict"

definition retired_aliases :: "term_entry \<Rightarrow> string list" where
  "retired_aliases t = map fst (term_migrations t)"

definition GLOSSARY :: "(string, term_entry) dict" where
  "GLOSSARY =
    [(''feature'', \<lparr>term_canonical = ''Feature'', term_type = ''tr_shared.contracts.taxonomy.Feature'',
        term_migrations = []\<rparr>),
     (''entity_type'', \<lparr>term_canonical = ''EntityType'',
        term_type = ''tr_shared.contracts.entity_types.EntityType'',
        term_migrations = [(''comment'', ''activity.comment'')]\<rparr>),
     (''priority'', \<lparr>term_canonical = ''Priority'', term_type = ''tr_shared.contracts.enums.Priority'',
        term_migrations = [(''urgent'', ''critical'')]\<rparr>),
     (''channel'', \<lparr>term_canonical = ''Channel'', term_type = ''tr_shared.contracts.enums.Channel'',
        term_migrations = [(''mobile_push'', ''push'')]\<rparr>),
     (''bedroom_count'', \<lparr>term_canonical = ''BedroomCount'',
        term_type = ''tr_shared.contracts.bedrooms.BedroomCount'',
        term_migrations = [(''bed1'', ''1''), (''1 Bedroom'', ''1''), (''bed7plus'', ''7+'')]\<rparr>)]"

text \<open>The values of the enum a glossary entry points at.\<close>

definition glossary_values :: "string \<Rightarrow> string list" where
  "glossary_values k =
     (if k = ''feature'' then map feature_value features
      else if k = ''entity_type'' then map entity_value entity_types
      else if k = ''priority'' then map priority_value priorities
      else if k = ''channel'' then map channel_value channels
      else if k = ''bedroom_count'' then map bedroom_value bedroom_counts
      else [])"

section \<open>Lemmas\<close>

lemma http_headers_complete: "h \<in> set http_headers"
  by (cases h) (simp_all add: http_headers_def)

lemma features_complete: "f \<in> set features"
  by (cases f) (simp_all add: features_def)

lemma entity_types_complete: "e \<in> set entity_types"
  by (cases e) (simp_all add: entity_types_def)

lemma header_names_distinct: "distinct (map (\<lambda>h. lower (header_name h)) http_headers)"
  by code_simp

lemma header_lower_inj: "lower (header_name a) = lower (header_name b) \<Longrightarrow> a = b"
  using header_names_distinct http_headers_complete [of a] http_headers_complete [of b]
  by (auto simp: distinct_map inj_on_def)

lemma correlation_id_header_safe:
  assumes "is_valid_correlation_id v" and "c \<in> set v"
  shows "c \<noteq> CHR 0x0A \<and> c \<noteq> CHR 0x0D \<and> c \<noteq> CHR '':''"
proof -
  from assms have "correlation_id_char c"
    by (auto simp: is_valid_correlation_id_def list_all_iff)
  then show ?thesis by (auto simp: correlation_id_char_def)
qed

lemma entity_features_ok:
  "list_all (\<lambda>e. list_ex (\<lambda>f. entity_feature e = Inr f
      \<and> (entity_value e = feature_value f \<or> prefix (feature_value f @ ''.'') (entity_value e))) features)
     entity_types"
  by code_simp

section \<open>Properties\<close>


end
