(* ===== verification/Http_Client.thy ===== *)
theory Http_Client
  imports Circuit_Breaker Api_Exceptions Contracts
begin

text \<open>
  \<open>http/client.py\<close>, \<open>http/correlation.py\<close> and \<open>http/internal_client.py\<close>: the client that
  services call each other with, and the typed client on top of it. httpx and asyncio are the
  fields of the record \<open>http_env\<close>; \<open>time.monotonic()\<close> is its field \<open>env_now\<close>. The state
  of a call is the client object together with the outside world. A call is modelled without
  another call of the same client in between its steps.
\<close>

section \<open>The environment\<close>

text \<open>\<open>'h\<close> is the type of \<open>httpx.AsyncClient\<close> objects.\<close>

record ('h, 'w) http_env =
  env_now :: "'w \<Rightarrow> time"
  env_sleep :: "int \<Rightarrow> ('w, unit) io"
  env_new_client :: "string \<Rightarrow> (string, string) dict \<Rightarrow> time \<Rightarrow> ('w, 'h) io"
  env_is_closed :: "'h \<Rightarrow> 'w \<Rightarrow> bool"
  env_aclose :: "'h \<Rightarrow> ('w, unit) io"
  env_send :: "'h \<Rightarrow> string \<Rightarrow> string \<Rightarrow> json \<Rightarrow> json \<Rightarrow> (string, string) dict \<Rightarrow> ('w, http_response) io"
  env_raise_for_status :: "http_response \<Rightarrow> unit res"
  env_json :: "http_response \<Rightarrow> json res"
  env_header :: "http_response \<Rightarrow> string \<Rightarrow> string option"

section \<open>\<open>ServiceHTTPClient\<close>\<close>

record 'h http_client =
  service_name :: string
  base_url :: string
  service_token :: string
  hc_timeout :: time
  max_retries :: int
  circuit :: breaker
  hc_client :: "'h option"

type_synonym ('h, 'w, 'a) client_io = "('h http_client \<times> 'w, 'a) io"

definition new_http_client :: "string \<Rightarrow> string \<Rightarrow> string \<Rightarrow> time \<Rightarrow> int \<Rightarrow> int \<Rightarrow> time \<Rightarrow> 'h http_client" where
  "new_http_client sname url token tmo retries threshold recovery =
     \<lparr>service_name = sname, base_url = url, service_token = token, hc_timeout = tmo,
      max_retries = retries, circuit = new_breaker sname threshold recovery, hc_client = None\<rparr>"

definition on_world :: "('w, 'a) io \<Rightarrow> ('c \<times> 'w, 'a) io" where
  "on_world m cw = (case m (snd cw) of (r, w') \<Rightarrow> (r, (fst cw, w')))"

definition circuit_is_open :: "('h, 'w) http_env \<Rightarrow> ('h, 'w, bool) client_io" where
  "circuit_is_open env cw =
     (case breaker_is_open (env_now env (snd cw)) (circuit (fst cw)) of
        (r, b) \<Rightarrow> (Inr r, ((fst cw)\<lparr>circuit := b\<rparr>, snd cw)))"

definition circuit_success :: "('h, 'w, unit) client_io" where
  "circuit_success cw = (Inr (), ((fst cw)\<lparr>circuit := record_success (circuit (fst cw))\<rparr>, snd cw))"

definition circuit_failure :: "('h, 'w) http_env \<Rightarrow> ('h, 'w, unit) client_io" where
  "circuit_failure env cw =
     (Inr (), ((fst cw)\<lparr>circuit := record_failure (env_now env (snd cw)) (circuit (fst cw))\<rparr>, snd cw))"

definition get_client :: "('h, 'w) http_env \<Rightarrow> ('h, 'w, 'h) client_io" where
  "get_client env cw =
     (let c = fst cw; w = snd cw;
          live = (case hc_client c of None \<Rightarrow> None
                  | Some h \<Rightarrow> if env_is_closed env h w then None else Some h)
      in case live of
           Some h \<Rightarrow> (Inr h, cw)
         | None \<Rightarrow>
             (let headers = [(''Content-Type'', ''application/json'')];
                  headers = (if service_token c = [] then headers
                             else dict_set (header_name H_SERVICE_TOKEN) (service_token c) headers)
              in case env_new_client env (base_url c) headers (hc_timeout c) w of
                   (Inl e, w') \<Rightarrow> (Inl e, (c, w'))
                 | (Inr h, w') \<Rightarrow> (Inr h, (c\<lparr>hc_client := Some h\<rparr>, w'))))"

definition client_close :: "('h, 'w) http_env \<Rightarrow> ('h, 'w, unit) client_io" where
  "client_close env cw =
     (case hc_client (fst cw) of
        None \<Rightarrow> (Inr (), cw)
      | Some h \<Rightarrow>
          if env_is_closed env h (snd cw) then (Inr (), cw)
          else case env_aclose env h (snd cw) of
                 (Inl e, w') \<Rightarrow> (Inl e, (fst cw, w'))
               | (Inr _, w') \<Rightarrow> (Inr (), ((fst cw)\<lparr>hc_client := None\<rparr>, w')))"

text \<open>\<open>correlation_headers()\<close>; \<open>cid\<close> is what \<open>get_correlation_id()\<close> returns.\<close>

definition correlation_headers :: "string option \<Rightarrow> (string, string) dict" where
  "correlation_headers cid =
     (case cid of None \<Rightarrow> [] | Some c \<Rightarrow> if c = [] then [] else [(header_name H_CORRELATION_ID, c)])"

text \<open>The body of a successful response, from \<open>status_code == 204\<close> on.\<close>

definition decode_response :: "('h, 'w) http_env \<Rightarrow> http_response \<Rightarrow> json res" where
  "decode_response env response =
     (if status_code response = 204 then Inr (JDict [])
      else if \<not> sublist ''application/json''
                (lower (case env_header env response ''content-type'' of None \<Rightarrow> [] | Some v \<Rightarrow> v))
        then Inr (JDict [(''raw'', JStr (resp_text response))])
      else case env_json env response of
             Inr j \<Rightarrow> Inr j
           | Inl e \<Rightarrow> if is_ValueError e then Inr (JDict [(''raw'', JStr (resp_text response))]) else Inl e)"

definition is_RequestError :: "exn \<Rightarrow> bool" where
  "is_RequestError e = (case e of HttpTimeout _ \<Rightarrow> True | HttpRequestError _ \<Rightarrow> True | _ \<Rightarrow> False)"

definition is_HTTPStatusError :: "exn \<Rightarrow> bool" where
  "is_HTTPStatusError e = (case e of HttpStatusError _ \<Rightarrow> True | _ \<Rightarrow> False)"

definition client_error :: "exn \<Rightarrow> bool" where
  "client_error e =
     (case e of HttpStatusError r \<Rightarrow> 400 \<le> status_code r \<and> status_code r < 500 | _ \<Rightarrow> False)"

text \<open>
  One turn of the retry loop up to the back-off: \<open>Some j\<close> is \<open>return j\<close>, \<open>None\<close> falls through
  to the back-off.
\<close>

definition request_attempt ::
  "('h, 'w) http_env \<Rightarrow> 'h \<Rightarrow> string \<Rightarrow> string \<Rightarrow> json \<Rightarrow> json \<Rightarrow> (string, string) dict
   \<Rightarrow> ('h, 'w, json option) client_io" where
  "request_attempt env h meth path params body headers =
     io_except (\<lambda>e. is_HTTPStatusError e \<or> is_RequestError e)
       (io_bind (on_world (env_send env h meth path params body headers)) (\<lambda>response.
        io_bind (lift_res (env_raise_for_status env response)) (\<lambda>_.
        io_bind circuit_success (\<lambda>_.
        io_bind (lift_res (decode_response env response)) (\<lambda>j. io_return (Some j))))))
       (\<lambda>e. if client_error e then io_raise e
            else io_bind (circuit_failure env) (\<lambda>_. io_return None))"

fun request_loop ::
  "('h, 'w) http_env \<Rightarrow> 'h \<Rightarrow> string \<Rightarrow> string \<Rightarrow> json \<Rightarrow> json \<Rightarrow> (string, string) dict \<Rightarrow> string \<Rightarrow> int
   \<Rightarrow> nat list \<Rightarrow> ('h, 'w, json) client_io" where
  "request_loop env h meth path params body headers sname retries [] =
     io_raise (ConnectionError (sname @ '': failed after '' @ string_of_int retries @ '' retries''))"
| "request_loop env h meth path params body headers sname retries (attempt # rest) =
     io_bind (request_attempt env h meth path params body headers) (\<lambda>r.
       case r of
         Some j \<Rightarrow> io_return j
       | None \<Rightarrow>
           io_bind (if int attempt < retries - 1 then on_world (env_sleep env (2 ^ attempt))
                    else io_return ()) (\<lambda>_.
           request_loop env h meth path params body headers sname retries rest))"

definition http_request ::
  "('h, 'w) http_env \<Rightarrow> string option \<Rightarrow> string \<Rightarrow> string \<Rightarrow> json \<Rightarrow> json \<Rightarrow> (string, string) dict
   \<Rightarrow> ('h, 'w, json) client_io" where
  "http_request env cid meth path params body headers =
     io_bind (circuit_is_open env) (\<lambda>open cw.
       if open
       then io_raise (ConnectionError (''Circuit breaker open for '' @ service_name (fst cw)
              @ '' '' @ em_dash @ '' requests rejected'')) cw
       else io_bind (get_client env) (\<lambda>h.
              request_loop env h meth path params body (dict_merge (correlation_headers cid) headers)
                (service_name (fst cw)) (max_retries (fst cw)) [0..<nat (max_retries (fst cw))]) cw)"

definition http_get :: "('h, 'w) http_env \<Rightarrow> string option \<Rightarrow> string \<Rightarrow> json \<Rightarrow> (string, string) dict
    \<Rightarrow> ('h, 'w, json) client_io" where
  "http_get env cid path params headers = http_request env cid ''GET'' path params JNull headers"

definition http_post :: "('h, 'w) http_env \<Rightarrow> string option \<Rightarrow> string \<Rightarrow> json \<Rightarrow> (string, string) dict
    \<Rightarrow> ('h, 'w, json) client_io" where
  "http_post env cid path body headers = http_request env cid ''POST'' path JNull body headers"

definition http_put :: "('h, 'w) http_env \<Rightarrow> string option \<Rightarrow> string \<Rightarrow> json \<Rightarrow> (string, string) dict
    \<Rightarrow> ('h, 'w, json) client_io" where
  "http_put env cid path body headers = http_request env cid ''PUT'' path JNull body headers"

definition http_patch :: "('h, 'w) http_env \<Rightarrow> string option \<Rightarrow> string \<Rightarrow> json \<Rightarrow> (string, string) dict
    \<Rightarrow> ('h, 'w, json) client_io" where
  "http_patch env cid path body headers = http_request env cid ''PATCH'' path JNull body headers"

definition http_delete :: "('h, 'w) http_env \<Rightarrow> string option \<Rightarrow> string \<Rightarrow> (string, string) dict
    \<Rightarrow> ('h, 'w, json) client_io" where
  "http_delete env cid path headers = http_request env cid ''DELETE'' path JNull JNull headers"

section \<open>\<open>InternalServiceClient\<close>\<close>

definition envelope_data :: "json \<Rightarrow> json res" where
  "envelope_data envelope =
     (case envelope of
        JDict d \<Rightarrow> (case dict_get d ''data'' of
            Some v \<Rightarrow> Inr v
          | None \<Rightarrow> Inl (ApiError (ServiceUnavailableError
              (JStr (''Internal response missing '' @ [CHR 0x27] @ ''data'' @ [CHR 0x27] @ '' field''))
              (JStr ''INTERNAL_CLIENT_UNAVAILABLE_003'') None)))
      | _ \<Rightarrow> Inl (ApiError (ServiceUnavailableError (JStr ''Internal response was not a JSON object'')
              (JStr ''INTERNAL_CLIENT_UNAVAILABLE_002'') None)))"

definition json_get :: "json \<Rightarrow> string \<Rightarrow> json" where
  "json_get j k = (case j of JDict d \<Rightarrow> (case dict_get d k of Some v \<Rightarrow> v | None \<Rightarrow> JNull) | _ \<Rightarrow> JNull)"

definition removesuffix :: "string \<Rightarrow> string \<Rightarrow> string" where
  "removesuffix sfx s = (if sfx \<noteq> [] \<and> suffix sfx s then take (length s - length sfx) s else s)"

text \<open>
  \<open>_translate_status_error\<close>: the exception to raise. \<open>message.removesuffix\<close> on a message that is
  not a string is an \<open>AttributeError\<close>, which is then what the caller sees.
\<close>

definition translate_status_error :: "('h, 'w) http_env \<Rightarrow> http_response \<Rightarrow> exn" where
  "translate_status_error env response =
     (let status = status_code response;
          body = (case env_json env response of Inr j \<Rightarrow> j | Inl _ \<Rightarrow> JDict []);
          error = json_get body ''error'';
          message = (let m = json_get error ''message'' in
                     if truthy m then m
                     else if resp_text response \<noteq> [] then JStr (resp_text response)
                     else JStr ''Internal error'');
          detail = (let d = json_get error ''detail'' in if truthy d then d else message);
          code = json_get error ''code''
      in if status = 400 then ApiError (ValidationError detail code)
         else if status = 401 then ApiError (AuthenticationError detail code None)
         else if status = 403 then ApiError (AuthorizationError detail code)
         else if status = 404 then
           (case message of
              JStr m \<Rightarrow> ApiError (NotFoundError (removesuffix '' not found'' m) None code)
            | _ \<Rightarrow> AttributeError ''object has no attribute removesuffix'')
         else if status = 409 then ApiError (ConflictError detail code)
         else if status = 429 then ApiError (RateLimitError detail code None None)
         else ApiError (ServiceUnavailableError detail code None))"

definition is_HTTPError :: "exn \<Rightarrow> bool" where
  "is_HTTPError e = (is_HTTPStatusError e \<or> is_RequestError e \<or> (case e of HttpOtherError _ \<Rightarrow> True | _ \<Rightarrow> False))"

text \<open>
  \<open>class_name\<close> stands for \<open>exc.__class__.__name__\<close>. The handlers are tried in the order of the
  \<open>except\<close> clauses; an exception of none of the classes passes.
\<close>

definition internal_call_error :: "('h, 'w) http_env \<Rightarrow> (exn \<Rightarrow> string) \<Rightarrow> string \<Rightarrow> exn \<Rightarrow> exn" where
  "internal_call_error env class_name full_path e =
     (case e of
        HttpStatusError r \<Rightarrow> translate_status_error env r
      | HttpTimeout _ \<Rightarrow> ApiError (ServiceTimeoutError (JStr (''Timeout calling '' @ full_path))
            (JStr ''INTERNAL_CLIENT_TIMEOUT_001''))
      | ConnectionError msg \<Rightarrow> ApiError (ServiceUnavailableError (JStr msg)
            (JStr ''INTERNAL_CLIENT_UNAVAILABLE_001'') None)
      | _ \<Rightarrow> if is_HTTPError e
            then ApiError (ServiceUnavailableError
                   (JStr (''HTTP error calling '' @ full_path @ '': '' @ class_name e))
                   (JStr ''INTERNAL_CLIENT_UNAVAILABLE_004'') None)
            else e)"

definition internal_call ::
  "('h, 'w) http_env \<Rightarrow> (exn \<Rightarrow> string) \<Rightarrow> string \<Rightarrow> string option \<Rightarrow> string \<Rightarrow> string \<Rightarrow> string option
   \<Rightarrow> json \<Rightarrow> json \<Rightarrow> ('h, 'w, json) client_io" where
  "internal_call env class_name base_path cid meth path tenant_id params body =
     (let full_path = (if base_path = [] then path else base_path @ path);
          headers = (case tenant_id of None \<Rightarrow> [] | Some t \<Rightarrow> [(header_name H_TENANT_ID, t)])
      in io_bind
          (io_except (\<lambda>_. True)
            (if meth = ''GET'' then http_get env cid full_path params headers
             else if meth = ''POST'' then http_post env cid full_path body headers
             else if meth = ''PATCH'' then http_patch env cid full_path body headers
             else if meth = ''DELETE'' then http_delete env cid full_path headers
             else io_raise (ValueError (''Unsupported method: '' @ meth)))
            (\<lambda>e. io_raise (internal_call_error env class_name full_path e)))
          (\<lambda>envelope. if envelope = JDict [] then io_return JNull
                      else lift_res (envelope_data envelope)))"

definition internal_get where
  "internal_get env cn base cid path tenant_id params =
     internal_call env cn base cid ''GET'' path tenant_id params JNull"

definition internal_post where
  "internal_post env cn base cid path tenant_id body =
     internal_call env cn base cid ''POST'' path tenant_id JNull body"

definition internal_patch where
  "internal_patch env cn base cid path tenant_id body =
     internal_call env cn base cid ''PATCH'' path tenant_id JNull body"

definition internal_delete where
  "internal_delete env cn base cid path tenant_id =
     internal_call env cn base cid ''DELETE'' path tenant_id JNull JNull"

section \<open>What httpx is relied on for\<close>

text \<open>
  \<open>sent\<close> is a ghost counter of the requests on the wire: each send adds one and nothing else the
  client calls adds any.
\<close>

definition counts_sends :: "('h, 'w) http_env \<Rightarrow> ('w \<Rightarrow> nat) \<Rightarrow> bool" where
  "counts_sends env sent =
     ((\<forall>h m p q b hs w. sent (snd (env_send env h m p q b hs w)) = Suc (sent w))
      \<and> (\<forall>n w. sent (snd (env_sleep env n w)) = sent w)
      \<and> (\<forall>u hs t w. sent (snd (env_new_client env u hs t w)) = sent w))"

text \<open>The environment of an outage: the client can be built and can sleep, and no request succeeds.\<close>

definition service_down :: "('h, 'w) http_env \<Rightarrow> bool" where
  "service_down env =
     ((\<forall>n w. \<exists>w'. env_sleep env n w = (Inr (), w'))
      \<and> (\<forall>u hs t w. \<exists>h w'. env_new_client env u hs t w = (Inr h, w'))
      \<and> (\<forall>h m p q b hs w. case fst (env_send env h m p q b hs w) of
           Inl e \<Rightarrow> is_RequestError e
         | Inr r \<Rightarrow> (\<exists>e. env_raise_for_status env r = Inl e \<and> is_HTTPStatusError e \<and> \<not> client_error e)))"

section \<open>Lemmas\<close>

lemma counts_sendsD:
  assumes "counts_sends env sent"
  shows "sent (snd (env_send env h m p q b hs w)) = Suc (sent w)"
    and "sent (snd (env_sleep env n w)) = sent w"
    and "sent (snd (env_new_client env u hs t w)) = sent w"
  using assms by (simp_all add: counts_sends_def)

lemma service_downD:
  assumes "service_down env"
  shows "\<exists>w'. env_sleep env n w = (Inr (), w')"
    and "\<exists>h w'. env_new_client env u hs t w = (Inr h, w')"
    and "case fst (env_send env h m p q b hs w) of Inl e \<Rightarrow> is_RequestError e
       | Inr r \<Rightarrow> (\<exists>e. env_raise_for_status env r = Inl e \<and> is_HTTPStatusError e \<and> \<not> client_error e)"
  using assms by (simp_all add: service_down_def)

lemma on_world_snd [simp]: "snd (snd (on_world m cw)) = snd (m (snd cw))"
  by (simp add: on_world_def split: prod.splits)

lemma on_world_fst [simp]: "fst (snd (on_world m cw)) = fst cw"
  by (simp add: on_world_def split: prod.splits)

lemma on_world_res [simp]: "fst (on_world m cw) = fst (m (snd cw))"
  by (simp add: on_world_def split: prod.splits)

lemma attempt_sends:
  assumes counts: "counts_sends env sent"
  shows "io_adds (\<lambda>cw. sent (snd cw)) 1 (request_attempt env h m p q b hs)"
proof -
  have "io_adds (\<lambda>cw. sent (snd cw)) (1 + 0) (request_attempt env h m p q b hs)"
    unfolding request_attempt_def
  proof (rule io_adds_except)
    show "io_adds (\<lambda>cw. sent (snd cw)) 1
       (io_bind (on_world (env_send env h m p q b hs)) (\<lambda>response.
        io_bind (lift_res (env_raise_for_status env response)) (\<lambda>_.
        io_bind circuit_success (\<lambda>_.
        io_bind (lift_res (decode_response env response)) (\<lambda>j. io_return (Some j))))))"
      using counts
      by (auto simp: counts_sends_def io_adds_def io_defs on_world_def circuit_success_def
          split: prod.splits sum.splits) (metis le_eq_less_or_eq snd_conv)+
  next
    fix e
    show "io_adds (\<lambda>cw. sent (snd cw)) 0
      (if client_error e then io_raise e else io_bind (circuit_failure env) (\<lambda>_. io_return None))"
      by (simp add: io_adds_def io_defs circuit_failure_def)
  qed
  then show ?thesis by simp
qed

lemma loop_sends:
  assumes counts: "counts_sends env sent"
  shows "io_adds (\<lambda>cw. sent (snd cw)) (length as) (request_loop env h m p q b hs sn n as)"
proof (induction as)
  case Nil
  then show ?case by (simp add: io_rules)
next
  case (Cons a as)
  have nap: "io_adds (\<lambda>cw. sent (snd cw)) 0
     (if int a < n - 1 then on_world (env_sleep env (2 ^ a)) else io_return ())"
    using counts by (auto simp: counts_sends_def io_adds_def io_defs)
  have step: "io_adds (\<lambda>cw. sent (snd cw)) (length as) (case r of Some j \<Rightarrow> io_return j
       | None \<Rightarrow> io_bind (if int a < n - 1 then on_world (env_sleep env (2 ^ a)) else io_return ())
           (\<lambda>_. request_loop env h m p q b hs sn n as))" for r
    using io_adds_bind [OF nap Cons.IH] by (cases r) (simp_all add: io_rules)
  have "io_adds (\<lambda>cw. sent (snd cw)) (1 + length as) (request_loop env h m p q b hs sn n (a # as))"
    unfolding request_loop.simps by (rule io_adds_bind [OF attempt_sends [OF counts] step])
  then show ?case by simp
qed

lemma get_client_sends:
  assumes counts: "counts_sends env sent"
  shows "sent (snd (snd (get_client env cw))) = sent (snd cw)"
  using counts
  by (auto simp: counts_sends_def get_client_def Let_def split: option.splits prod.splits sum.splits)
    (metis snd_conv)+

lemma request_sends:
  assumes counts: "counts_sends env sent"
  shows "sent (snd (snd (http_request env cid m p q b hs (c, w)))) \<le> sent w + nat (max_retries c)"
proof (cases "breaker_is_open (env_now env w) (circuit c)")
  case (Pair r b')
  let ?cw = "(c\<lparr>circuit := b'\<rparr>, w)"
  show ?thesis
  proof (cases r)
    case True
    with Pair show ?thesis by (simp add: http_request_def io_defs circuit_is_open_def)
  next
    case False
    obtain x cw' where gc: "get_client env ?cw = (x, cw')" by (rule prod.exhaust)
    with get_client_sends [OF counts, of ?cw] have "sent (snd cw') = sent w" by simp
    moreover have "sent (snd (snd (request_loop env h m p q b hs' sn n [0..<nat (max_retries c)] cw'))) \<le>
        sent (snd cw') + nat (max_retries c)" for h hs' sn n
      using loop_sends [OF counts, of "[0..<nat (max_retries c)]" h m p q b hs' sn n]
      by (cases cw') (simp add: io_adds_def)
    ultimately show ?thesis using False Pair gc
      by (cases x) (simp_all add: http_request_def io_bind_def circuit_is_open_def)
  qed
qed

lemma open_circuit_rejects:
  assumes "fst (breaker_is_open (env_now env w) (circuit c))"
  shows "http_request env cid m p q b hs (c, w) =
           (Inl (ConnectionError (''Circuit breaker open for '' @ service_name c
                   @ '' '' @ em_dash @ '' requests rejected'')), (c, w))"
proof -
  obtain b' where b': "breaker_is_open (env_now env w) (circuit c) = (True, b')"
    using assms by (metis prod.collapse)
  then have "b' = circuit c" by (rule cb.rejected_unchanged)
  with b' show ?thesis by (simp add: http_request_def io_defs circuit_is_open_def)
qed

lemma down_attempt:
  assumes "service_down env"
  shows "\<exists>t w'. request_attempt env h m p q b hs (c, w) = (Inr None, (c\<lparr>circuit := record_failure t (circuit c)\<rparr>, w'))"
proof -
  obtain x w' where send: "env_send env h m p q b hs w = (x, w')" by (rule prod.exhaust)
  note down = service_downD(3) [OF assms, of h m p q b hs w, unfolded send fst_conv]
  show ?thesis
  proof (cases x)
    case (Inl e)
    with down have "is_RequestError e" by simp
    moreover from this have "\<not> client_error e"
      by (auto simp: is_RequestError_def client_error_def split: exn.splits)
    ultimately show ?thesis using send Inl
      by (auto simp: request_attempt_def io_defs on_world_def circuit_failure_def)
  next
    case (Inr r)
    with down obtain e where "env_raise_for_status env r = Inl e" "is_HTTPStatusError e" "\<not> client_error e"
      by auto
    with send Inr show ?thesis
      by (auto simp: request_attempt_def io_defs on_world_def circuit_failure_def)
  qed
qed

lemma down_sends:
  assumes "service_down env" and "counts_sends env sent"
    and "request_attempt env h m p q b hs (c, w) = (Inr None, (c', w'))"
  shows "sent w' = Suc (sent w)"
proof -
  obtain x w1 where send: "env_send env h m p q b hs w = (x, w1)" by (rule prod.exhaust)
  with counts_sendsD(1) [OF assms(2), of h m p q b hs w] have "sent w1 = Suc (sent w)" by simp
  moreover have "w' = w1"
    using assms(3) send
    by (cases x) (auto simp: request_attempt_def io_defs on_world_def circuit_failure_def circuit_success_def
        split: if_splits sum.splits prod.splits)
  ultimately show ?thesis by simp
qed

lemma down_loop:
  assumes "service_down env" and "counts_sends env sent"
  shows "\<exists>ts w'. request_loop env h m p q b hs sn n as (c, w) =
             (Inl (ConnectionError (sn @ '': failed after '' @ string_of_int n @ '' retries'')),
              (c\<lparr>circuit := failures ts (circuit c)\<rparr>, w'))
           \<and> length ts = length as \<and> sent w' = sent w + length as"
proof (induction as arbitrary: c w)
  case Nil
  show ?case by (intro exI [of _ "[]"] exI [of _ w]) (simp add: io_defs)
next
  case (Cons a as)
  obtain t w1 where att: "request_attempt env h m p q b hs (c, w) =
      (Inr None, (c\<lparr>circuit := record_failure t (circuit c)\<rparr>, w1))"
    using down_attempt [OF assms(1)] by metis
  note s1 = down_sends [OF assms att]
  obtain w2 where nap: "(if int a < n - 1 then on_world (env_sleep env (2 ^ a)) else io_return ())
      (c\<lparr>circuit := record_failure t (circuit c)\<rparr>, w1) = (Inr (), (c\<lparr>circuit := record_failure t (circuit c)\<rparr>, w2))"
    and s2: "sent w2 = sent w1"
  proof (cases "int a < n - 1")
    case True
    obtain w2 where nap: "env_sleep env (2 ^ a) w1 = (Inr (), w2)"
      using service_downD(1) [OF assms(1)] by blast
    moreover have "sent w2 = sent w1"
      using counts_sendsD(2) [OF assms(2), of "2 ^ a" w1] nap by simp
    ultimately show ?thesis using that [of w2] True by (simp add: on_world_def)
  next
    case False
    then show ?thesis using that [of w1] by (simp add: io_defs)
  qed
  obtain ts w3 where rest: "request_loop env h m p q b hs sn n as (c\<lparr>circuit := record_failure t (circuit c)\<rparr>, w2) =
       (Inl (ConnectionError (sn @ '': failed after '' @ string_of_int n @ '' retries'')),
        (c\<lparr>circuit := failures (t # ts) (circuit c)\<rparr>, w3))"
    and "length ts = length as" "sent w3 = sent w2 + length as"
    using Cons.IH [of "c\<lparr>circuit := record_failure t (circuit c)\<rparr>" w2] by auto
  moreover have "request_loop env h m p q b hs sn n (a # as) (c, w) =
      request_loop env h m p q b hs sn n as (c\<lparr>circuit := record_failure t (circuit c)\<rparr>, w2)"
    unfolding request_loop.simps io_bind_def att using nap by simp
  ultimately show ?case using s1 s2
    by (intro exI [of _ "t # ts"] exI [of _ w3]) simp
qed

lemma failures_opens:
  assumes "failure_threshold b \<le> failure_count b + int (length ts)" and "ts \<noteq> []"
  shows "cb_state (failures ts b) = OPEN"
proof -
  obtain us u where ts: "ts = us @ [u]" using assms(2) by (metis rev_exhaust)
  with failures_count [of us b] assms(1) show ?thesis
    by (simp add: failures_snoc record_failure_def breaker_transition_def Let_def)
qed

lemma is_open_keeps_config:
  "failure_threshold (snd (breaker_is_open t b)) = failure_threshold b
   \<and> failure_count (snd (breaker_is_open t b)) = failure_count b"
  by (simp add: breaker_is_open_def breaker_transition_def split: option.splits)

lemma get_client_down:
  assumes "service_down env" and "counts_sends env sent"
  shows "\<exists>h w'. get_client env (c, w) = (Inr h, (c\<lparr>hc_client := Some h\<rparr>, w')) \<and> sent w' = sent w"
proof (cases "\<exists>h. hc_client c = Some h \<and> \<not> env_is_closed env h w")
  case True
  then obtain h where "hc_client c = Some h" "\<not> env_is_closed env h w" by auto
  moreover from this have "c\<lparr>hc_client := Some h\<rparr> = c" by (cases c) simp
  ultimately show ?thesis
    by (intro exI [of _ h] exI [of _ w]) (simp add: get_client_def Let_def)
next
  case False
  let ?hs = "if service_token c = [] then [(''Content-Type'', ''application/json'')]
     else dict_set (header_name H_SERVICE_TOKEN) (service_token c) [(''Content-Type'', ''application/json'')]"
  obtain h w' where new: "env_new_client env (base_url c) ?hs (hc_timeout c) w = (Inr h, w')"
    using service_downD(2) [OF assms(1), of "base_url c" ?hs "hc_timeout c" w] by (elim exE)
  moreover have "sent w' = sent w"
    using counts_sendsD(3) [OF assms(2), of "base_url c" ?hs "hc_timeout c" w] new by simp
  moreover have "(case hc_client c of None \<Rightarrow> None | Some h \<Rightarrow> if env_is_closed env h w then None else Some h) = None"
    using False by (cases "hc_client c") simp_all
  ultimately show ?thesis
    by (simp add: get_client_def Let_def del: header_name.simps)
qed

text \<open>A world for the witnesses: the state is the number of requests sent; no request succeeds.\<close>

definition refusing_env :: "(unit, nat) http_env" where
  "refusing_env =
     \<lparr>env_now = (\<lambda>w. of_nat w), env_sleep = (\<lambda>n w. (Inr (), w)),
      env_new_client = (\<lambda>u hs t w. (Inr (), w)), env_is_closed = (\<lambda>h w. False),
      env_aclose = (\<lambda>h w. (Inr (), w)),
      env_send = (\<lambda>h m p q b hs w. (Inl (HttpRequestError ''refused''), Suc w)),
      env_raise_for_status = (\<lambda>r. Inr ()), env_json = (\<lambda>r. Inr JNull), env_header = (\<lambda>r k. None)\<rparr>"

text \<open>A world in which every request is answered with status 404.\<close>

definition missing_response :: http_response where
  "missing_response = \<lparr>status_code = 404, resp_headers = [], resp_text = ''gone''\<rparr>"

definition missing_env :: "(unit, nat) http_env" where
  "missing_env = refusing_env\<lparr>
     env_send := (\<lambda>h m p q b hs w. (Inr missing_response, Suc w)),
     env_raise_for_status := (\<lambda>r. if status_code r < 400 then Inr () else Inl (HttpStatusError r))\<rparr>"

lemma refusing_counts: "counts_sends refusing_env id"
  by (simp add: counts_sends_def refusing_env_def)

lemma refusing_down: "service_down refusing_env"
  by (simp add: service_down_def refusing_env_def is_RequestError_def)

lemma client_error_status: "client_error e \<Longrightarrow> is_HTTPStatusError e"
  by (cases e) (simp_all add: client_error_def is_HTTPStatusError_def)

lemma client_error_attempt:
  assumes "env_send env h m p q b hs w = (Inr r, w')" and "env_raise_for_status env r = Inl e" and "client_error e"
  shows "request_attempt env h m p q b hs (c, w) = (Inl e, (c, w'))"
  using assms client_error_status [OF assms(3)]
  by (simp add: request_attempt_def io_defs on_world_def)

lemma client_error_request:
  assumes "breaker_is_open (env_now env w) (circuit c) = (False, b')" and "1 \<le> max_retries c"
    and "hc_client c = Some h" and "\<not> env_is_closed env h w"
    and "env_send env h m p q b (dict_merge (correlation_headers cid) hs) w = (Inr r, w')"
    and "env_raise_for_status env r = Inl e" and "client_error e"
  shows "http_request env cid m p q b hs (c, w) = (Inl e, (c\<lparr>circuit := b'\<rparr>, w'))"
proof -
  have "[0..<nat (max_retries c)] = 0 # [1..<nat (max_retries c)]"
    using assms(2) by (simp add: upt_conv_Cons)
  moreover have "get_client env (c\<lparr>circuit := b'\<rparr>, w) = (Inr h, (c\<lparr>circuit := b'\<rparr>, w))"
    using assms(3,4) by (simp add: get_client_def Let_def)
  ultimately show ?thesis
    using assms(1) client_error_attempt [OF assms(5-7)]
    by (simp add: http_request_def io_bind_def circuit_is_open_def del: upt_rec_numeral)
qed

lemma translate_not_http:
  "\<not> is_HTTPError (translate_status_error env r) \<and> (\<forall>msg. translate_status_error env r \<noteq> ConnectionError msg)"
  by (simp add: translate_status_error_def Let_def is_HTTPError_def is_HTTPStatusError_def is_RequestError_def
      split: json.splits)

lemma internal_error_not_http:
  "\<not> is_HTTPError (internal_call_error env cn path e) \<and> (\<forall>msg. internal_call_error env cn path e \<noteq> ConnectionError msg)"
  using translate_not_http
  by (cases e) (simp_all add: internal_call_error_def is_HTTPError_def is_HTTPStatusError_def is_RequestError_def)

lemma internal_connection_error:
  "internal_call_error env cn path (ConnectionError text) =
     ApiError (ServiceUnavailableError (JStr text) (JStr ''INTERNAL_CLIENT_UNAVAILABLE_001'') None)"
  by (simp add: internal_call_error_def)

lemma envelope_data_error: "envelope_data j = Inl e \<Longrightarrow> is_ApiError e"
  by (auto simp: envelope_data_def is_ApiError_def split: json.splits option.splits)

lemma internal_call_cases:
  assumes "internal_call env cn base cid m p tenant q b s = (Inl e, s')"
  obtains (data) "is_ApiError e"
    | (call) e0 where "e = internal_call_error env cn (if base = [] then p else base @ p) e0"
proof -
  obtain x s1 where run: "(if m = ''GET'' then http_get env cid (if base = [] then p else base @ p) q
        (case tenant of None \<Rightarrow> [] | Some t \<Rightarrow> [(header_name H_TENANT_ID, t)])
      else if m = ''POST'' then http_post env cid (if base = [] then p else base @ p) b
        (case tenant of None \<Rightarrow> [] | Some t \<Rightarrow> [(header_name H_TENANT_ID, t)])
      else if m = ''PATCH'' then http_patch env cid (if base = [] then p else base @ p) b
        (case tenant of None \<Rightarrow> [] | Some t \<Rightarrow> [(header_name H_TENANT_ID, t)])
      else if m = ''DELETE'' then http_delete env cid (if base = [] then p else base @ p)
        (case tenant of None \<Rightarrow> [] | Some t \<Rightarrow> [(header_name H_TENANT_ID, t)])
      else io_raise (ValueError (''Unsupported method: '' @ m))) s = (x, s1)"
    by (rule prod.exhaust)
  show ?thesis
  proof (cases x)
    case (Inl e0)
    with assms run have "e = internal_call_error env cn (if base = [] then p else base @ p) e0"
      by (simp only: internal_call_def Let_def io_bind_def io_except_def io_raise_def
          prod.case sum.case if_True prod.inject sum.inject)
    then show ?thesis by (rule call)
  next
    case (Inr j)
    have "internal_call env cn base cid m p tenant q b s =
        (if j = JDict [] then io_return JNull else lift_res (envelope_data j)) s1"
      unfolding internal_call_def Let_def io_bind_def io_except_def run Inr by simp
    with assms have "envelope_data j = Inl e"
      by (simp add: io_return_def lift_res_def split: if_splits)
    then show ?thesis using envelope_data_error data by blast
  qed
qed

section \<open>Properties\<close>

text \<open>
  A request puts at most \<open>max_retries\<close> requests on the wire, whatever the peer answers; and
  while the breaker is open it puts none: it raises \<open>ConnectionError\<close> and changes neither the
  client nor the world.
\<close>

theorem http_request_budget:
  assumes "counts_sends env sent"
  shows "sent (snd (snd (http_request env cid m p q b hs (c, w)))) \<le> sent w + nat (max_retries c)
    \<and> (fst (breaker_is_open (env_now env w) (circuit c)) \<longrightarrow>
         http_request env cid m p q b hs (c, w) =
           (Inl (ConnectionError (''Circuit breaker open for '' @ service_name c
                   @ '' '' @ em_dash @ '' requests rejected'')), (c, w)))"
  by (intro conjI impI request_sends [OF assms] open_circuit_rejects)

theorem http_request_budget_witness:
  "id (snd (snd (http_request refusing_env None ''GET'' ''/x'' JNull JNull []
     (new_http_client ''crm'' ''http://crm'' ''t'' 30 3 5 60, 0)))) \<le> id (0::nat) + nat 3"
  using http_request_budget [OF refusing_counts, of None "''GET''" "''/x''" JNull JNull "[]"
      "new_http_client ''crm'' ''http://crm'' ''t'' 30 3 5 60" 0]
  by (simp add: new_http_client_def)

text \<open>
  C12: against a service that is down, an admitted call of a client with \<open>max_retries \<ge> 1\<close> sends
  exactly \<open>max_retries\<close> requests, reports as many failures to the breaker, raises
  \<open>ConnectionError\<close>, and leaves the breaker open when the failures so far reach the threshold.
\<close>

theorem http_request_service_down:
  assumes "service_down env" and "counts_sends env sent" and "1 \<le> max_retries c"
    and "\<not> fst (breaker_is_open (env_now env w) (circuit c))"
    and "http_request env cid m p q b hs (c, w) = (r, (c', w'))"
  shows "r = Inl (ConnectionError (service_name c @ '': failed after '' @ string_of_int (max_retries c) @ '' retries''))
    \<and> sent w' = sent w + nat (max_retries c)
    \<and> failure_count (circuit c') = failure_count (circuit c) + max_retries c
    \<and> (failure_threshold (circuit c) \<le> failure_count (circuit c) + max_retries c \<longrightarrow> cb_state (circuit c') = OPEN)"
proof -
  obtain b' where b': "breaker_is_open (env_now env w) (circuit c) = (False, b')"
    using assms(4) by (metis prod.collapse)
  let ?c1 = "c\<lparr>circuit := b'\<rparr>" and ?as = "[0..<nat (max_retries c)]"
  obtain h w1 where gc: "get_client env (?c1, w) = (Inr h, (?c1\<lparr>hc_client := Some h\<rparr>, w1))"
    and w1: "sent w1 = sent w"
    using get_client_down [OF assms(1,2)] by metis
  obtain ts w2 where loop: "request_loop env h m p q b (dict_merge (correlation_headers cid) hs) (service_name c)
        (max_retries c) ?as (?c1\<lparr>hc_client := Some h\<rparr>, w1) =
       (Inl (ConnectionError (service_name c @ '': failed after '' @ string_of_int (max_retries c) @ '' retries'')),
        (?c1\<lparr>hc_client := Some h, circuit := failures ts b'\<rparr>, w2))"
    and ts: "length ts = length ?as" and w2: "sent w2 = sent w1 + length ?as"
    using down_loop [OF assms(1,2), of h m p q b "dict_merge (correlation_headers cid) hs" "service_name c"
        "max_retries c" ?as "?c1\<lparr>hc_client := Some h\<rparr>" w1] by auto
  have "http_request env cid m p q b hs (c, w) =
      (Inl (ConnectionError (service_name c @ '': failed after '' @ string_of_int (max_retries c) @ '' retries'')),
        (?c1\<lparr>hc_client := Some h, circuit := failures ts b'\<rparr>, w2))"
    using b' gc loop by (simp add: http_request_def io_bind_def circuit_is_open_def)
  with assms(5) have res:
    "r = Inl (ConnectionError (service_name c @ '': failed after '' @ string_of_int (max_retries c) @ '' retries''))"
    "circuit c' = failures ts b'" "w' = w2"
    by auto
  have cfg: "failure_threshold b' = failure_threshold (circuit c)" "failure_count b' = failure_count (circuit c)"
    using is_open_keeps_config [of "env_now env w" "circuit c"] b' by simp_all
  have len: "int (length ts) = max_retries c" "ts \<noteq> []" using ts assms(3) by auto
  show ?thesis
    using res w1 w2 ts cfg len failures_count [of ts b'] failures_opens [of b' ts] by simp
qed

theorem http_request_service_down_witness:
  "fst (http_request refusing_env None ''GET'' ''/x'' JNull JNull []
     (new_http_client ''crm'' ''http://crm'' ''t'' 30 3 3 60, 0)) =
       Inl (ConnectionError (''crm'' @ '': failed after '' @ string_of_int 3 @ '' retries''))
   \<and> cb_state (circuit (fst (snd (http_request refusing_env None ''GET'' ''/x'' JNull JNull []
     (new_http_client ''crm'' ''http://crm'' ''t'' 30 3 3 60, 0))))) = OPEN"
proof -
  let ?c = "new_http_client ''crm'' ''http://crm'' ''t'' 30 3 3 60 :: unit http_client"
  obtain r c' w' where run: "http_request refusing_env None ''GET'' ''/x'' JNull JNull [] (?c, 0) = (r, (c', w'))"
    by (metis prod.collapse)
  have "1 \<le> max_retries ?c" "\<not> fst (breaker_is_open (env_now refusing_env 0) (circuit ?c))"
    by (simp_all add: new_http_client_def new_breaker_def breaker_is_open_def)
  from http_request_service_down [OF refusing_down refusing_counts this run] run show ?thesis
    by (simp add: new_http_client_def new_breaker_def)
qed

text \<open>
  A 4xx answer is raised at once: one request is sent, nothing is retried, and the breaker is
  exactly as \<open>is_open\<close> left it. In particular a recovery probe that is answered with a 4xx does
  not close the breaker: it stays half-open and rejects every call until a further
  \<open>recovery_timeout\<close> has passed.
\<close>

theorem http_client_error_not_retried:
  assumes "breaker_is_open (env_now env w) (circuit c) = (False, b')" and "1 \<le> max_retries c"
    and "hc_client c = Some h" and "\<not> env_is_closed env h w"
    and "env_send env h m p q b (dict_merge (correlation_headers cid) hs) w = (Inr r, w')"
    and "env_raise_for_status env r = Inl e" and "client_error e"
  shows "http_request env cid m p q b hs (c, w) = (Inl e, (c\<lparr>circuit := b'\<rparr>, w'))
    \<and> (cb_state (circuit c) = OPEN \<longrightarrow> cb_state b' = HALF_OPEN
        \<and> (\<forall>t < env_now env w + recovery_timeout (circuit c). fst (breaker_is_open t b')))"
proof
  show "http_request env cid m p q b hs (c, w) = (Inl e, (c\<lparr>circuit := b'\<rparr>, w'))"
    by (rule client_error_request [OF assms])
  show "cb_state (circuit c) = OPEN \<longrightarrow> cb_state b' = HALF_OPEN
        \<and> (\<forall>t < env_now env w + recovery_timeout (circuit c). fst (breaker_is_open t b'))"
    using assms(1) by (auto simp: breaker_is_open_def breaker_transition_def split: if_splits)
qed

theorem http_client_error_not_retried_witness:
  "http_request missing_env None ''GET'' ''/x'' JNull JNull []
     ((new_http_client ''crm'' ''http://crm'' ''t'' 30 3 5 60)\<lparr>hc_client := Some ()\<rparr>, 0) =
   (Inl (HttpStatusError missing_response),
    ((new_http_client ''crm'' ''http://crm'' ''t'' 30 3 5 60)
       \<lparr>hc_client := Some (), circuit := new_breaker ''crm'' 5 60\<rparr>, 1))"
  using http_client_error_not_retried
    [of missing_env 0 "(new_http_client ''crm'' ''http://crm'' ''t'' 30 3 5 60)\<lparr>hc_client := Some ()\<rparr>"
      "new_breaker ''crm'' 5 60" "()" "''GET''" "''/x''" JNull JNull None "[]" missing_response 1
      "HttpStatusError missing_response"]
  by (simp add: new_http_client_def new_breaker_def breaker_is_open_def missing_env_def refusing_env_def
      missing_response_def client_error_def)



end
