(* ===== verification/Cache_Adapter.thy ===== *)
theory Cache_Adapter
  imports Api_Exceptions
begin

text \<open>
  \<open>cache/interface.py\<close>, \<open>cache/adapters/\<close>, \<open>cache/factory.py\<close> and \<open>redis/pool.py\<close> with
  \<open>redis/client.py\<close>: the cache interface as a record of operations and as the locale
  \<open>cache_contract\<close>, the two adapters behind it, and the event-loop-bound Redis client the
  standard adapter uses. The third-party client (redis-py or upstash-redis) is the record
  \<open>redis_api\<close>; event loops are numbered, and building a connection pool, which connects lazily,
  is a function of the URL and the loop.
\<close>

section \<open>The third-party client\<close>

record ('c, 'w) redis_api =
  ra_loop :: "'w \<Rightarrow> nat"
  ra_build :: "string \<Rightarrow> nat \<Rightarrow> 'c res"
  ra_scheme :: "string \<Rightarrow> string"
  ra_str :: "exn \<Rightarrow> string"
  ra_ping :: "'c \<Rightarrow> ('w, string) io"
  ra_aclose :: "'c \<Rightarrow> ('w, unit) io"
  ra_set :: "'c \<Rightarrow> string \<Rightarrow> string \<Rightarrow> int option \<Rightarrow> bool \<Rightarrow> ('w, string option) io"
  ra_xadd :: "'c \<Rightarrow> string \<Rightarrow> (string, string) dict \<Rightarrow> int option \<Rightarrow> bool option \<Rightarrow> ('w, string option) io"
  ra_pipeline_setex :: "'c \<Rightarrow> (string \<times> int \<times> string) list \<Rightarrow> ('w, unit) io"
  ra_get :: "'c \<Rightarrow> string \<Rightarrow> ('w, string option) io"
  ra_setex :: "'c \<Rightarrow> string \<Rightarrow> int \<Rightarrow> string \<Rightarrow> ('w, string option) io"
  ra_delete :: "'c \<Rightarrow> string list \<Rightarrow> ('w, int) io"
  ra_exists :: "'c \<Rightarrow> string list \<Rightarrow> ('w, int) io"
  ra_ttl :: "'c \<Rightarrow> string \<Rightarrow> ('w, int) io"
  ra_expire :: "'c \<Rightarrow> string \<Rightarrow> int \<Rightarrow> ('w, bool) io"
  ra_mget :: "'c \<Rightarrow> string list \<Rightarrow> ('w, string option list) io"
  ra_hgetall :: "'c \<Rightarrow> string \<Rightarrow> ('w, (string, string) dict) io"
  ra_hset :: "'c \<Rightarrow> string \<Rightarrow> (string, string) dict \<Rightarrow> ('w, int) io"
  ra_scan :: "'c \<Rightarrow> int \<Rightarrow> string \<Rightarrow> int \<Rightarrow> ('w, int \<times> string list) io"
  ra_eval :: "'c \<Rightarrow> string \<Rightarrow> int \<Rightarrow> string list \<Rightarrow> ('w, json) io"
  ra_incrby :: "'c \<Rightarrow> string \<Rightarrow> int \<Rightarrow> ('w, int) io"
  ra_zadd :: "'c \<Rightarrow> string \<Rightarrow> (string, time) dict \<Rightarrow> ('w, int) io"
  ra_zrangebyscore :: "'c \<Rightarrow> string \<Rightarrow> string \<Rightarrow> string \<Rightarrow> bool \<Rightarrow> ('w, json list) io"
  ra_zrange :: "'c \<Rightarrow> string \<Rightarrow> int \<Rightarrow> int \<Rightarrow> ('w, string list) io"
  ra_zrem :: "'c \<Rightarrow> string \<Rightarrow> string list \<Rightarrow> ('w, int) io"
  ra_sadd :: "'c \<Rightarrow> string \<Rightarrow> string list \<Rightarrow> ('w, int) io"
  ra_srem :: "'c \<Rightarrow> string \<Rightarrow> string list \<Rightarrow> ('w, int) io"

section \<open>\<open>LoopBoundRedis\<close>\<close>

record 'c loop_bound =
  lb_url :: string
  lb_bound :: "(nat \<times> 'c) option"

definition require_plain_redis_url :: "('c, 'w) redis_api \<Rightarrow> string \<Rightarrow> unit res" where
  "require_plain_redis_url api url =
     (if ra_scheme api url \<noteq> ''redis''
      then Inl (ValueError (''ProxySafeConnection only supports redis:// URLs, got '' @ ra_scheme api url
             @ ''://; rediss:// and unix:// would silently drop the proxy guards''))
      else Inr ())"

definition build_connection_pool :: "('c, 'w) redis_api \<Rightarrow> string \<Rightarrow> nat \<Rightarrow> 'c res" where
  "build_connection_pool api url loop =
     (case require_plain_redis_url api url of Inl e \<Rightarrow> Inl e | Inr _ \<Rightarrow> ra_build api url loop)"

definition new_loop_bound :: "('c, 'w) redis_api \<Rightarrow> string \<Rightarrow> 'c loop_bound res" where
  "new_loop_bound api url =
     (case require_plain_redis_url api url of Inl e \<Rightarrow> Inl e
      | Inr _ \<Rightarrow> Inr \<lparr>lb_url = url, lb_bound = None\<rparr>)"

definition loop_bound_client :: "('c, 'w) redis_api \<Rightarrow> nat \<Rightarrow> 'c loop_bound \<Rightarrow> ('c \<times> 'c loop_bound) res" where
  "loop_bound_client api loop lb =
     (case lb_bound lb of
        Some (l, c) \<Rightarrow>
          if l = loop then Inr (c, lb)
          else (case build_connection_pool api (lb_url lb) loop of
                  Inl e \<Rightarrow> Inl e | Inr c' \<Rightarrow> Inr (c', lb\<lparr>lb_bound := Some (loop, c')\<rparr>))
      | None \<Rightarrow>
          (case build_connection_pool api (lb_url lb) loop of
             Inl e \<Rightarrow> Inl e | Inr c' \<Rightarrow> Inr (c', lb\<lparr>lb_bound := Some (loop, c')\<rparr>)))"

definition loop_bound_aclose :: "('c, 'w) redis_api \<Rightarrow> 'c loop_bound \<Rightarrow> 'w \<Rightarrow> unit res \<times> 'c loop_bound \<times> 'w" where
  "loop_bound_aclose api lb w =
     (let lb' = lb\<lparr>lb_bound := None\<rparr> in
      case lb_bound lb of
        Some (l, c) \<Rightarrow>
          if l = ra_loop api w
          then (case ra_aclose api c w of (r, w') \<Rightarrow> (r, lb', w'))
          else (Inr (), lb', w)
      | None \<Rightarrow> (Inr (), lb', w))"

text \<open>\<open>redis/client.py\<close>: the module-level client of the process.\<close>

definition get_redis_client ::
  "('c, 'w) redis_api \<Rightarrow> string \<Rightarrow> nat \<Rightarrow> 'c loop_bound option \<Rightarrow> 'c res \<times> 'c loop_bound option" where
  "get_redis_client api url loop global =
     (case (case global of Some lb \<Rightarrow> Inr lb | None \<Rightarrow> new_loop_bound api url) of
        Inl e \<Rightarrow> (Inl e, global)
      | Inr lb \<Rightarrow> (case loop_bound_client api loop lb of
            Inl e \<Rightarrow> (Inl e, Some lb)
          | Inr (c, lb') \<Rightarrow> (Inr c, Some lb')))"

definition close_redis_client ::
  "('c, 'w) redis_api \<Rightarrow> 'c loop_bound option \<Rightarrow> 'w \<Rightarrow> unit res \<times> 'c loop_bound option \<times> 'w" where
  "close_redis_client api global w =
     (case global of
        None \<Rightarrow> (Inr (), None, w)
      | Some lb \<Rightarrow> (case loop_bound_aclose api lb w of
            (Inl e, lb', w') \<Rightarrow> (Inl e, Some lb', w')
          | (Inr _, lb', w') \<Rightarrow> (Inr (), None, w')))"

section \<open>The interface\<close>

record 's cache_iface =
  ci_set :: "string \<Rightarrow> string \<Rightarrow> int option \<Rightarrow> bool \<Rightarrow> ('s, bool) io"
  ci_xadd :: "string \<Rightarrow> (string, string) dict \<Rightarrow> int option \<Rightarrow> ('s, string option) io"
  ci_pipeline_setex :: "(string \<times> int \<times> string) list \<Rightarrow> ('s, unit) io"
  ci_get :: "string \<Rightarrow> ('s, string option) io"
  ci_setex :: "string \<Rightarrow> int \<Rightarrow> string \<Rightarrow> ('s, bool) io"
  ci_delete :: "string list \<Rightarrow> ('s, int) io"
  ci_exists :: "string list \<Rightarrow> ('s, int) io"
  ci_ttl :: "string \<Rightarrow> ('s, int) io"
  ci_expire :: "string \<Rightarrow> int \<Rightarrow> ('s, bool) io"
  ci_mget :: "string list \<Rightarrow> ('s, string option list) io"
  ci_hgetall :: "string \<Rightarrow> ('s, (string, string) dict) io"
  ci_hset :: "string \<Rightarrow> (string, string) dict \<Rightarrow> ('s, int) io"
  ci_scan :: "int \<Rightarrow> string \<Rightarrow> int \<Rightarrow> ('s, int \<times> string list) io"
  ci_eval :: "string \<Rightarrow> int \<Rightarrow> string list \<Rightarrow> ('s, json) io"
  ci_incrby :: "string \<Rightarrow> int \<Rightarrow> ('s, int) io"
  ci_zadd :: "string \<Rightarrow> (string, time) dict \<Rightarrow> ('s, int) io"
  ci_zrangebyscore :: "string \<Rightarrow> string \<Rightarrow> string \<Rightarrow> bool \<Rightarrow> ('s, json list) io"
  ci_zrange :: "string \<Rightarrow> int \<Rightarrow> int \<Rightarrow> ('s, string list) io"
  ci_zrem :: "string \<Rightarrow> string list \<Rightarrow> ('s, int) io"
  ci_sadd :: "string \<Rightarrow> string list \<Rightarrow> ('s, int) io"
  ci_srem :: "string \<Rightarrow> string list \<Rightarrow> ('s, int) io"

definition is_CacheError :: "exn \<Rightarrow> bool" where
  "is_CacheError e = (case e of CacheConnectionError _ \<Rightarrow> True | CacheOperationError _ \<Rightarrow> True | _ \<Rightarrow> False)"

text \<open>
  What an operation of an adapter promises: it keeps the adapter's invariant, and of the exceptions
  derived from \<open>Exception\<close> it raises only those of the cache layer.
\<close>

definition cache_op_ok :: "('s \<Rightarrow> bool) \<Rightarrow> ('s, 'a) io \<Rightarrow> bool" where
  "cache_op_ok invar m =
     (\<forall>s. invar s \<longrightarrow> invar (snd (m s))
        \<and> (\<forall>e. fst (m s) = Inl e \<longrightarrow> is_CacheError e \<or> \<not> is_Exception e))"

locale cache_contract =
  fixes ci :: "'s cache_iface" and invar :: "'s \<Rightarrow> bool"
  assumes set_ok: "\<And>a b c d. cache_op_ok invar (ci_set ci a b c d)"
    and xadd_ok: "\<And>a f c. cache_op_ok invar (ci_xadd ci a f c)"
    and get_ok: "\<And>x0. cache_op_ok invar (ci_get ci x0)"
    and setex_ok: "\<And>x0 x1 x2. cache_op_ok invar (ci_setex ci x0 x1 x2)"
    and delete_ok: "\<And>x0. cache_op_ok invar (ci_delete ci x0)"
    and exists_ok: "\<And>x0. cache_op_ok invar (ci_exists ci x0)"
    and ttl_ok: "\<And>x0. cache_op_ok invar (ci_ttl ci x0)"
    and expire_ok: "\<And>x0 x1. cache_op_ok invar (ci_expire ci x0 x1)"
    and mget_ok: "\<And>x0. cache_op_ok invar (ci_mget ci x0)"
    and hgetall_ok: "\<And>x0. cache_op_ok invar (ci_hgetall ci x0)"
    and hset_ok: "\<And>x0 x1. cache_op_ok invar (ci_hset ci x0 x1)"
    and scan_ok: "\<And>x0 x1 x2. cache_op_ok invar (ci_scan ci x0 x1 x2)"
    and eval_ok: "\<And>x0 x1 x2. cache_op_ok invar (ci_eval ci x0 x1 x2)"
    and incrby_ok: "\<And>x0 x1. cache_op_ok invar (ci_incrby ci x0 x1)"
    and zadd_ok: "\<And>x0 x1. cache_op_ok invar (ci_zadd ci x0 x1)"
    and zrangebyscore_ok: "\<And>x0 x1 x2 x3. cache_op_ok invar (ci_zrangebyscore ci x0 x1 x2 x3)"
    and zrange_ok: "\<And>x0 x1 x2. cache_op_ok invar (ci_zrange ci x0 x1 x2)"
    and zrem_ok: "\<And>x0 x1. cache_op_ok invar (ci_zrem ci x0 x1)"
    and sadd_ok: "\<And>x0 x1. cache_op_ok invar (ci_sadd ci x0 x1)"
    and srem_ok: "\<And>x0 x1. cache_op_ok invar (ci_srem ci x0 x1)"

section \<open>\<open>BaseRedisAdapter\<close>\<close>

text \<open>
  The two steps every method of \<open>BaseRedisAdapter\<close> has: the guard, which asks for the client once
  (an exception of the \<open>client\<close> property is not wrapped), and the wrapped call. \<open>get_client\<close> is the
  \<open>client\<close> property of the concrete adapter, \<open>avail\<close> its flag.
\<close>

definition check_initialized ::
  "('s, 'c option) io \<Rightarrow> ('s \<Rightarrow> bool) \<Rightarrow> string \<Rightarrow> ('s, unit) io" where
  "check_initialized client_prop avail op =
     io_bind client_prop (\<lambda>c s.
       if c = None \<or> \<not> avail s
       then io_raise (CacheConnectionError (''Cache not initialized '' @ em_dash
              @ '' call initialize() before '' @ op @ ''()'')) s
       else io_return () s)"

definition wrapped :: "(exn \<Rightarrow> string) \<Rightarrow> string \<Rightarrow> ('s, 'a) io \<Rightarrow> ('s, 'a) io" where
  "wrapped str upper m =
     io_except is_Exception m (\<lambda>e. io_raise (CacheOperationError (upper @ '' failed: '' @ str e)))"

text \<open>\<open>self.client.<op>\<close>: \<open>None\<close> has no such attribute.\<close>

definition on_client :: "('s, 'c option) io \<Rightarrow> ('c \<Rightarrow> ('s, 'a) io) \<Rightarrow> ('s, 'a) io" where
  "on_client client_prop f =
     io_bind client_prop (\<lambda>c. case c of Some c \<Rightarrow> f c | None \<Rightarrow> io_raise (AttributeError ''NoneType''))"

definition adapter_get ::
  "(exn \<Rightarrow> string) \<Rightarrow> ('s, 'c option) io \<Rightarrow> ('s \<Rightarrow> bool) \<Rightarrow> ('c \<Rightarrow> string \<Rightarrow> ('s, string option) io)
   \<Rightarrow> string \<Rightarrow> ('s, string option) io" where
  "adapter_get str cp avail op key =
     io_bind (check_initialized cp avail ''get'') (\<lambda>_.
       wrapped str ''GET'' (on_client cp (\<lambda>c. op c key)))"

definition adapter_setex ::
  "(exn \<Rightarrow> string) \<Rightarrow> ('s, 'c option) io \<Rightarrow> ('s \<Rightarrow> bool) \<Rightarrow> ('c \<Rightarrow> string \<Rightarrow> int \<Rightarrow> string \<Rightarrow> ('s, string option) io)
   \<Rightarrow> string \<Rightarrow> int \<Rightarrow> string \<Rightarrow> ('s, bool) io" where
  "adapter_setex str cp avail op key x y =
     io_bind (check_initialized cp avail ''setex'') (\<lambda>_.
       wrapped str ''SETEX'' (io_bind (on_client cp (\<lambda>c. op c key x y)) (\<lambda>_. io_return True)))"

definition adapter_delete ::
  "(exn \<Rightarrow> string) \<Rightarrow> ('s, 'c option) io \<Rightarrow> ('s \<Rightarrow> bool) \<Rightarrow> ('c \<Rightarrow> string list \<Rightarrow> ('s, int) io)
   \<Rightarrow> string list \<Rightarrow> ('s, int) io" where
  "adapter_delete str cp avail op keys =
     io_bind (check_initialized cp avail ''delete'') (\<lambda>_.
       (if keys = [] then io_return 0 else wrapped str ''DELETE'' (on_client cp (\<lambda>c. op c keys))))"

definition adapter_exists ::
  "(exn \<Rightarrow> string) \<Rightarrow> ('s, 'c option) io \<Rightarrow> ('s \<Rightarrow> bool) \<Rightarrow> ('c \<Rightarrow> string list \<Rightarrow> ('s, int) io)
   \<Rightarrow> string list \<Rightarrow> ('s, int) io" where
  "adapter_exists str cp avail op keys =
     io_bind (check_initialized cp avail ''exists'') (\<lambda>_.
       (if keys = [] then io_return 0 else wrapped str ''EXISTS'' (on_client cp (\<lambda>c. op c keys))))"

definition adapter_ttl ::
  "(exn \<Rightarrow> string) \<Rightarrow> ('s, 'c option) io \<Rightarrow> ('s \<Rightarrow> bool) \<Rightarrow> ('c \<Rightarrow> string \<Rightarrow> ('s, int) io)
   \<Rightarrow> string \<Rightarrow> ('s, int) io" where
  "adapter_ttl str cp avail op key =
     io_bind (check_initialized cp avail ''ttl'') (\<lambda>_.
       wrapped str ''TTL'' (on_client cp (\<lambda>c. op c key)))"

definition adapter_expire ::
  "(exn \<Rightarrow> string) \<Rightarrow> ('s, 'c option) io \<Rightarrow> ('s \<Rightarrow> bool) \<Rightarrow> ('c \<Rightarrow> string \<Rightarrow> int \<Rightarrow> ('s, bool) io)
   \<Rightarrow> string \<Rightarrow> int \<Rightarrow> ('s, bool) io" where
  "adapter_expire str cp avail op key x =
     io_bind (check_initialized cp avail ''expire'') (\<lambda>_.
       wrapped str ''EXPIRE'' (on_client cp (\<lambda>c. op c key x)))"

definition adapter_mget ::
  "(exn \<Rightarrow> string) \<Rightarrow> ('s, 'c option) io \<Rightarrow> ('s \<Rightarrow> bool) \<Rightarrow> ('c \<Rightarrow> string list \<Rightarrow> ('s, string option list) io)
   \<Rightarrow> string list \<Rightarrow> ('s, string option list) io" where
  "adapter_mget str cp avail op keys =
     io_bind (check_initialized cp avail ''mget'') (\<lambda>_.
       (if keys = [] then io_return [] else wrapped str ''MGET'' (on_client cp (\<lambda>c. op c keys))))"

definition adapter_hgetall ::
  "(exn \<Rightarrow> string) \<Rightarrow> ('s, 'c option) io \<Rightarrow> ('s \<Rightarrow> bool) \<Rightarrow> ('c \<Rightarrow> string \<Rightarrow> ('s, (string, string) dict) io)
   \<Rightarrow> string \<Rightarrow> ('s, (string, string) dict) io" where
  "adapter_hgetall str cp avail op key =
     io_bind (check_initialized cp avail ''hgetall'') (\<lambda>_.
       wrapped str ''HGETALL'' (on_client cp (\<lambda>c. op c key)))"

definition adapter_hset ::
  "(exn \<Rightarrow> string) \<Rightarrow> ('s, 'c option) io \<Rightarrow> ('s \<Rightarrow> bool) \<Rightarrow> ('c \<Rightarrow> string \<Rightarrow> (string, string) dict \<Rightarrow> ('s, int) io)
   \<Rightarrow> string \<Rightarrow> (string, string) dict \<Rightarrow> ('s, int) io" where
  "adapter_hset str cp avail op key x =
     io_bind (check_initialized cp avail ''hset'') (\<lambda>_.
       wrapped str ''HSET'' (on_client cp (\<lambda>c. op c key x)))"

definition adapter_scan ::
  "(exn \<Rightarrow> string) \<Rightarrow> ('s, 'c option) io \<Rightarrow> ('s \<Rightarrow> bool) \<Rightarrow> ('c \<Rightarrow> int \<Rightarrow> string \<Rightarrow> int \<Rightarrow> ('s, int \<times> string list) io)
   \<Rightarrow> int \<Rightarrow> string \<Rightarrow> int \<Rightarrow> ('s, int \<times> string list) io" where
  "adapter_scan str cp avail op key x y =
     io_bind (check_initialized cp avail ''scan'') (\<lambda>_.
       wrapped str ''SCAN'' (on_client cp (\<lambda>c. op c key x y)))"

definition adapter_eval ::
  "(exn \<Rightarrow> string) \<Rightarrow> ('s, 'c option) io \<Rightarrow> ('s \<Rightarrow> bool) \<Rightarrow> ('c \<Rightarrow> string \<Rightarrow> int \<Rightarrow> string list \<Rightarrow> ('s, json) io)
   \<Rightarrow> string \<Rightarrow> int \<Rightarrow> string list \<Rightarrow> ('s, json) io" where
  "adapter_eval str cp avail op key x y =
     io_bind (check_initialized cp avail ''eval'') (\<lambda>_.
       wrapped str ''EVAL'' (on_client cp (\<lambda>c. op c key x y)))"

definition adapter_incrby ::
  "(exn \<Rightarrow> string) \<Rightarrow> ('s, 'c option) io \<Rightarrow> ('s \<Rightarrow> bool) \<Rightarrow> ('c \<Rightarrow> string \<Rightarrow> int \<Rightarrow> ('s, int) io)
   \<Rightarrow> string \<Rightarrow> int \<Rightarrow> ('s, int) io" where
  "adapter_incrby str cp avail op key x =
     io_bind (check_initialized cp avail ''incrby'') (\<lambda>_.
       wrapped str ''INCRBY'' (on_client cp (\<lambda>c. op c key x)))"

definition adapter_zadd ::
  "(exn \<Rightarrow> string) \<Rightarrow> ('s, 'c option) io \<Rightarrow> ('s \<Rightarrow> bool) \<Rightarrow> ('c \<Rightarrow> string \<Rightarrow> (string, time) dict \<Rightarrow> ('s, int) io)
   \<Rightarrow> string \<Rightarrow> (string, time) dict \<Rightarrow> ('s, int) io" where
  "adapter_zadd str cp avail op key x =
     io_bind (check_initialized cp avail ''zadd'') (\<lambda>_.
       wrapped str ''ZADD'' (on_client cp (\<lambda>c. op c key x)))"

definition adapter_zrangebyscore ::
  "(exn \<Rightarrow> string) \<Rightarrow> ('s, 'c option) io \<Rightarrow> ('s \<Rightarrow> bool) \<Rightarrow> ('c \<Rightarrow> string \<Rightarrow> string \<Rightarrow> string \<Rightarrow> bool \<Rightarrow> ('s, json list) io)
   \<Rightarrow> string \<Rightarrow> string \<Rightarrow> string \<Rightarrow> bool \<Rightarrow> ('s, json list) io" where
  "adapter_zrangebyscore str cp avail op key x y z =
     io_bind (check_initialized cp avail ''zrangebyscore'') (\<lambda>_.
       wrapped str ''ZRANGEBYSCORE'' (on_client cp (\<lambda>c. op c key x y z)))"

definition adapter_zrange ::
  "(exn \<Rightarrow> string) \<Rightarrow> ('s, 'c option) io \<Rightarrow> ('s \<Rightarrow> bool) \<Rightarrow> ('c \<Rightarrow> string \<Rightarrow> int \<Rightarrow> int \<Rightarrow> ('s, string list) io)
   \<Rightarrow> string \<Rightarrow> int \<Rightarrow> int \<Rightarrow> ('s, string list) io" where
  "adapter_zrange str cp avail op key x y =
     io_bind (check_initialized cp avail ''zrange'') (\<lambda>_.
       wrapped str ''ZRANGE'' (on_client cp (\<lambda>c. op c key x y)))"

definition adapter_zrem ::
  "(exn \<Rightarrow> string) \<Rightarrow> ('s, 'c option) io \<Rightarrow> ('s \<Rightarrow> bool) \<Rightarrow> ('c \<Rightarrow> string \<Rightarrow> string list \<Rightarrow> ('s, int) io)
   \<Rightarrow> string \<Rightarrow> string list \<Rightarrow> ('s, int) io" where
  "adapter_zrem str cp avail op key x =
     io_bind (check_initialized cp avail ''zrem'') (\<lambda>_.
       wrapped str ''ZREM'' (on_client cp (\<lambda>c. op c key x)))"

definition adapter_sadd ::
  "(exn \<Rightarrow> string) \<Rightarrow> ('s, 'c option) io \<Rightarrow> ('s \<Rightarrow> bool) \<Rightarrow> ('c \<Rightarrow> string \<Rightarrow> string list \<Rightarrow> ('s, int) io)
   \<Rightarrow> string \<Rightarrow> string list \<Rightarrow> ('s, int) io" where
  "adapter_sadd str cp avail op key x =
     io_bind (check_initialized cp avail ''sadd'') (\<lambda>_.
       wrapped str ''SADD'' (on_client cp (\<lambda>c. op c key x)))"

definition adapter_srem ::
  "(exn \<Rightarrow> string) \<Rightarrow> ('s, 'c option) io \<Rightarrow> ('s \<Rightarrow> bool) \<Rightarrow> ('c \<Rightarrow> string \<Rightarrow> string list \<Rightarrow> ('s, int) io)
   \<Rightarrow> string \<Rightarrow> string list \<Rightarrow> ('s, int) io" where
  "adapter_srem str cp avail op key x =
     io_bind (check_initialized cp avail ''srem'') (\<lambda>_.
       wrapped str ''SREM'' (on_client cp (\<lambda>c. op c key x)))"

lemma wrapped_ok:
  assumes "\<And>s. invar s \<Longrightarrow> invar (snd (m s))"
  shows "cache_op_ok invar (wrapped str u m)"
  using assms
  by (auto simp: cache_op_ok_def wrapped_def io_defs is_CacheError_def split: prod.splits sum.splits)
    (metis snd_conv)+

lemma cache_op_ok_bind:
  assumes "cache_op_ok invar m" and "\<And>x. cache_op_ok invar (f x)"
  shows "cache_op_ok invar (io_bind m f)"
  unfolding cache_op_ok_def
proof (intro allI impI)
  fix s assume "invar s"
  with assms(1) have m: "invar (snd (m s))" "\<And>e. fst (m s) = Inl e \<Longrightarrow> is_CacheError e \<or> \<not> is_Exception e"
    by (auto simp: cache_op_ok_def)
  show "invar (snd (io_bind m f s)) \<and> (\<forall>e. fst (io_bind m f s) = Inl e \<longrightarrow> is_CacheError e \<or> \<not> is_Exception e)"
  proof (cases "fst (m s)")
    case (Inl e)
    with m show ?thesis by (cases "m s") (auto simp: io_bind_def)
  next
    case (Inr x)
    with m assms(2) [of x] show ?thesis by (cases "m s") (auto simp: io_bind_def cache_op_ok_def)
  qed
qed

lemma cache_op_ok_return: "cache_op_ok invar (io_return x)"
  by (simp add: cache_op_ok_def io_return_def)

lemma cache_op_ok_raise: "is_CacheError e \<Longrightarrow> cache_op_ok invar (io_raise e)"
  by (simp add: cache_op_ok_def io_raise_def)

text \<open>
  The \<open>client\<close> property of a well-formed adapter: it keeps the invariant and does not raise.
\<close>

definition client_prop_ok :: "('s \<Rightarrow> bool) \<Rightarrow> ('s, 'c option) io \<Rightarrow> bool" where
  "client_prop_ok invar cp = (\<forall>s. invar s \<longrightarrow> invar (snd (cp s)) \<and> (\<exists>c. fst (cp s) = Inr c))"

lemma check_initialized_ok:
  assumes "client_prop_ok invar cp"
  shows "cache_op_ok invar (check_initialized cp avail op)"
  unfolding cache_op_ok_def
proof (intro allI impI)
  fix s assume "invar s"
  with assms obtain c where c: "fst (cp s) = Inr c" and inv: "invar (snd (cp s))"
    by (auto simp: client_prop_ok_def)
  then have "check_initialized cp avail op s =
     (if c = None \<or> \<not> avail (snd (cp s))
      then (Inl (CacheConnectionError (''Cache not initialized '' @ em_dash @ '' call initialize() before '' @ op @ ''()'')), snd (cp s))
      else (Inr (), snd (cp s)))"
    by (cases "cp s") (simp add: check_initialized_def io_defs)
  with inv show "invar (snd (check_initialized cp avail op s)) \<and>
      (\<forall>e. fst (check_initialized cp avail op s) = Inl e \<longrightarrow> is_CacheError e \<or> \<not> is_Exception e)"
    by (simp add: is_CacheError_def)
qed

lemma on_client_keeps:
  assumes "client_prop_ok invar cp" and "\<And>c. io_keeps invar (f c)" and "invar s"
  shows "invar (snd (on_client cp f s))"
  using assms
  by (auto simp: client_prop_ok_def on_client_def io_defs io_keeps_def split: prod.splits sum.splits option.splits)


section \<open>\<open>StandardRedisAdapter\<close>\<close>

record 'c std_adapter =
  sa_url :: string
  sa_redis :: "'c loop_bound option"
  sa_available :: bool

definition new_std_adapter :: "string \<Rightarrow> 'c std_adapter" where
  "new_std_adapter url = \<lparr>sa_url = url, sa_redis = None, sa_available = False\<rparr>"

definition std_client :: "('c, 'w) redis_api \<Rightarrow> ('c std_adapter \<times> 'w, 'c option) io" where
  "std_client api s =
     (case sa_redis (fst s) of
        None \<Rightarrow> (Inr None, s)
      | Some lb \<Rightarrow> (case loop_bound_client api (ra_loop api (snd s)) lb of
            Inl e \<Rightarrow> (Inl e, s)
          | Inr (c, lb') \<Rightarrow> (Inr (Some c), ((fst s)\<lparr>sa_redis := Some lb'\<rparr>, snd s))))"

abbreviation std_avail :: "'c std_adapter \<times> 'w \<Rightarrow> bool" where
  "std_avail s \<equiv> sa_available (fst s)"

definition std_initialize :: "('c, 'w) redis_api \<Rightarrow> ('c std_adapter \<times> 'w, bool) io" where
  "std_initialize api s =
     (case new_loop_bound api (sa_url (fst s)) of
        Inl e \<Rightarrow> (Inl e, s)
      | Inr lb \<Rightarrow>
          io_except is_Exception
            (io_bind (on_client (std_client api) (\<lambda>c. on_snd (ra_ping api c))) (\<lambda>_ s'.
               (Inr True, ((fst s')\<lparr>sa_available := True\<rparr>, snd s'))))
            (\<lambda>e s'. (Inr False, ((fst s')\<lparr>sa_available := False\<rparr>, snd s')))
            ((fst s)\<lparr>sa_redis := Some lb\<rparr>, snd s))"

text \<open>The \<open>finally\<close> block runs however \<open>aclose\<close> ends; an \<open>Exception\<close> of it is swallowed.\<close>

definition std_close :: "('c, 'w) redis_api \<Rightarrow> ('c std_adapter \<times> 'w, unit) io" where
  "std_close api s =
     (case sa_redis (fst s) of
        None \<Rightarrow> (Inr (), s)
      | Some lb \<Rightarrow> (case loop_bound_aclose api lb (snd s) of
            (r, lb', w') \<Rightarrow>
              ((case r of Inl e \<Rightarrow> if is_Exception e then Inr () else Inl e | Inr u \<Rightarrow> Inr u),
               ((fst s)\<lparr>sa_redis := None, sa_available := False\<rparr>, w'))))"

text \<open>redis-py's \<open>ping\<close> answers true for the reply \<open>PONG\<close>.\<close>

definition std_ping :: "('c, 'w) redis_api \<Rightarrow> ('c std_adapter \<times> 'w, bool) io" where
  "std_ping api s =
     (if sa_redis (fst s) = None \<or> \<not> sa_available (fst s) then (Inr False, s)
      else io_except is_Exception
             (io_bind (on_client (std_client api) (\<lambda>c. on_snd (ra_ping api c))) (\<lambda>r. io_return (r = ''PONG'')))
             (\<lambda>_. io_return False) s)"

definition std_set ::
  "('c, 'w) redis_api \<Rightarrow> string \<Rightarrow> string \<Rightarrow> int option \<Rightarrow> bool \<Rightarrow> ('c std_adapter \<times> 'w, bool) io" where
  "std_set api key v ttl nx =
     io_bind (check_initialized (std_client api) std_avail ''set'') (\<lambda>_.
       wrapped (ra_str api) ''SET''
         (io_bind (on_client (std_client api) (\<lambda>c. on_snd (ra_set api c key v ttl nx)))
           (\<lambda>r. io_return (r \<noteq> None))))"

definition std_xadd ::
  "('c, 'w) redis_api \<Rightarrow> string \<Rightarrow> (string, string) dict \<Rightarrow> int option \<Rightarrow> ('c std_adapter \<times> 'w, string option) io" where
  "std_xadd api stream flds maxlen =
     io_bind (check_initialized (std_client api) std_avail ''xadd'') (\<lambda>_.
       wrapped (ra_str api) ''XADD''
         (on_client (std_client api) (\<lambda>c. on_snd (ra_xadd api c stream flds maxlen None))))"

text \<open>\<open>pipeline()\<close>, the queued \<open>setex\<close> calls and \<open>execute()\<close>; no command, no round trip.\<close>

definition std_pipeline_setex ::
  "('c, 'w) redis_api \<Rightarrow> (string \<times> int \<times> string) list \<Rightarrow> ('c std_adapter \<times> 'w, unit) io" where
  "std_pipeline_setex api cmds =
     io_bind (std_client api) (\<lambda>c. case c of
       None \<Rightarrow> io_raise (CacheConnectionError ''Redis not initialized'')
     | Some c \<Rightarrow> if cmds = [] then io_return () else on_snd (ra_pipeline_setex api c cmds))"

definition standard_iface :: "('c, 'w) redis_api \<Rightarrow> ('c std_adapter \<times> 'w) cache_iface" where
  "standard_iface api =
     \<lparr>ci_set = std_set api, ci_xadd = std_xadd api, ci_pipeline_setex = std_pipeline_setex api,
      ci_get = adapter_get (ra_str api) (std_client api) std_avail (\<lambda>c a. on_snd (ra_get api c a)),
      ci_setex = adapter_setex (ra_str api) (std_client api) std_avail (\<lambda>c a b d. on_snd (ra_setex api c a b d)),
      ci_delete = adapter_delete (ra_str api) (std_client api) std_avail (\<lambda>c a. on_snd (ra_delete api c a)),
      ci_exists = adapter_exists (ra_str api) (std_client api) std_avail (\<lambda>c a. on_snd (ra_exists api c a)),
      ci_ttl = adapter_ttl (ra_str api) (std_client api) std_avail (\<lambda>c a. on_snd (ra_ttl api c a)),
      ci_expire = adapter_expire (ra_str api) (std_client api) std_avail (\<lambda>c a b. on_snd (ra_expire api c a b)),
      ci_mget = adapter_mget (ra_str api) (std_client api) std_avail (\<lambda>c a. on_snd (ra_mget api c a)),
      ci_hgetall = adapter_hgetall (ra_str api) (std_client api) std_avail (\<lambda>c a. on_snd (ra_hgetall api c a)),
      ci_hset = adapter_hset (ra_str api) (std_client api) std_avail (\<lambda>c a b. on_snd (ra_hset api c a b)),
      ci_scan = adapter_scan (ra_str api) (std_client api) std_avail (\<lambda>c a b d. on_snd (ra_scan api c a b d)),
      ci_eval = adapter_eval (ra_str api) (std_client api) std_avail (\<lambda>c a b d. on_snd (ra_eval api c a b d)),
      ci_incrby = adapter_incrby (ra_str api) (std_client api) std_avail (\<lambda>c a b. on_snd (ra_incrby api c a b)),
      ci_zadd = adapter_zadd (ra_str api) (std_client api) std_avail (\<lambda>c a b. on_snd (ra_zadd api c a b)),
      ci_zrangebyscore = adapter_zrangebyscore (ra_str api) (std_client api) std_avail (\<lambda>c a b d e. on_snd (ra_zrangebyscore api c a b d e)),
      ci_zrange = adapter_zrange (ra_str api) (std_client api) std_avail (\<lambda>c a b d. on_snd (ra_zrange api c a b d)),
      ci_zrem = adapter_zrem (ra_str api) (std_client api) std_avail (\<lambda>c a b. on_snd (ra_zrem api c a b)),
      ci_sadd = adapter_sadd (ra_str api) (std_client api) std_avail (\<lambda>c a b. on_snd (ra_sadd api c a b)),
      ci_srem = adapter_srem (ra_str api) (std_client api) std_avail (\<lambda>c a b. on_snd (ra_srem api c a b))\<rparr>"

section \<open>\<open>UpstashAdapter\<close>\<close>

text \<open>The client object of the REST SDK is built from URL and token without a connection.\<close>

record 'c up_adapter =
  ua_rest_url :: string
  ua_rest_token :: string
  ua_client :: "'c option"
  ua_available :: bool

definition new_up_adapter :: "string \<Rightarrow> string \<Rightarrow> 'c up_adapter" where
  "new_up_adapter url token = \<lparr>ua_rest_url = url, ua_rest_token = token, ua_client = None, ua_available = False\<rparr>"

definition up_client :: "('c up_adapter \<times> 'w, 'c option) io" where
  "up_client s = (Inr (ua_client (fst s)), s)"

abbreviation up_avail :: "'c up_adapter \<times> 'w \<Rightarrow> bool" where
  "up_avail s \<equiv> ua_available (fst s)"

definition up_initialize :: "('c, 'w) redis_api \<Rightarrow> ('c up_adapter \<times> 'w, bool) io" where
  "up_initialize api s =
     io_except is_Exception
       (\<lambda>s. case ra_build api (ua_rest_url (fst s)) (ra_loop api (snd s)) of
          Inl e \<Rightarrow> (Inl e, s)
        | Inr c \<Rightarrow>
            io_bind (on_snd (ra_ping api c)) (\<lambda>_ s'. (Inr True, ((fst s')\<lparr>ua_available := True\<rparr>, snd s')))
              ((fst s)\<lparr>ua_client := Some c\<rparr>, snd s))
       (\<lambda>e s'. (Inr False, ((fst s')\<lparr>ua_available := False\<rparr>, snd s'))) s"

definition up_close :: "('c up_adapter \<times> 'w, unit) io" where
  "up_close s = (Inr (), ((fst s)\<lparr>ua_client := None, ua_available := False\<rparr>, snd s))"

definition up_ping :: "('c, 'w) redis_api \<Rightarrow> ('c up_adapter \<times> 'w, bool) io" where
  "up_ping api s =
     (if ua_client (fst s) = None \<or> \<not> ua_available (fst s) then (Inr False, s)
      else io_except is_Exception
             (io_bind (on_client up_client (\<lambda>c. on_snd (ra_ping api c))) (\<lambda>r. io_return (r = ''PONG'')))
             (\<lambda>_. io_return False) s)"

text \<open>A \<open>ttl\<close> of zero is falsy and takes the last branch, a \<open>SET\<close> without expiry.\<close>

definition up_set ::
  "('c, 'w) redis_api \<Rightarrow> string \<Rightarrow> string \<Rightarrow> int option \<Rightarrow> bool \<Rightarrow> ('c up_adapter \<times> 'w, bool) io" where
  "up_set api key v ttl nx =
     io_bind (check_initialized up_client up_avail ''set'') (\<lambda>_.
       wrapped (ra_str api) ''SET''
         (io_bind (on_client up_client (\<lambda>c. on_snd
             (if nx then ra_set api c key v ttl True
              else case ttl of
                     Some t \<Rightarrow> if t \<noteq> 0 then ra_setex api c key t v else ra_set api c key v None False
                   | None \<Rightarrow> ra_set api c key v None False)))
           (\<lambda>r. io_return (r \<noteq> None))))"

definition up_xadd ::
  "('c, 'w) redis_api \<Rightarrow> string \<Rightarrow> (string, string) dict \<Rightarrow> int option \<Rightarrow> ('c up_adapter \<times> 'w, string option) io" where
  "up_xadd api stream flds maxlen =
     io_bind (check_initialized up_client up_avail ''xadd'') (\<lambda>_.
       wrapped (ra_str api) ''XADD''
         (on_client up_client (\<lambda>c. on_snd (ra_xadd api c stream flds maxlen (Some True)))))"

definition up_pipeline_setex ::
  "('c, 'w) redis_api \<Rightarrow> (string \<times> int \<times> string) list \<Rightarrow> ('c up_adapter \<times> 'w, unit) io" where
  "up_pipeline_setex api cmds =
     io_bind up_client (\<lambda>c. case c of
       None \<Rightarrow> io_raise (CacheConnectionError ''Upstash not initialized'')
     | Some c \<Rightarrow> on_snd (ra_pipeline_setex api c cmds))"

definition upstash_iface :: "('c, 'w) redis_api \<Rightarrow> ('c up_adapter \<times> 'w) cache_iface" where
  "upstash_iface api =
     \<lparr>ci_set = up_set api, ci_xadd = up_xadd api, ci_pipeline_setex = up_pipeline_setex api,
      ci_get = adapter_get (ra_str api) up_client up_avail (\<lambda>c a. on_snd (ra_get api c a)),
      ci_setex = adapter_setex (ra_str api) up_client up_avail (\<lambda>c a b d. on_snd (ra_setex api c a b d)),
      ci_delete = adapter_delete (ra_str api) up_client up_avail (\<lambda>c a. on_snd (ra_delete api c a)),
      ci_exists = adapter_exists (ra_str api) up_client up_avail (\<lambda>c a. on_snd (ra_exists api c a)),
      ci_ttl = adapter_ttl (ra_str api) up_client up_avail (\<lambda>c a. on_snd (ra_ttl api c a)),
      ci_expire = adapter_expire (ra_str api) up_client up_avail (\<lambda>c a b. on_snd (ra_expire api c a b)),
      ci_mget = adapter_mget (ra_str api) up_client up_avail (\<lambda>c a. on_snd (ra_mget api c a)),
      ci_hgetall = adapter_hgetall (ra_str api) up_client up_avail (\<lambda>c a. on_snd (ra_hgetall api c a)),
      ci_hset = adapter_hset (ra_str api) up_client up_avail (\<lambda>c a b. on_snd (ra_hset api c a b)),
      ci_scan = adapter_scan (ra_str api) up_client up_avail (\<lambda>c a b d. on_snd (ra_scan api c a b d)),
      ci_eval = adapter_eval (ra_str api) up_client up_avail (\<lambda>c a b d. on_snd (ra_eval api c a b d)),
      ci_incrby = adapter_incrby (ra_str api) up_client up_avail (\<lambda>c a b. on_snd (ra_incrby api c a b)),
      ci_zadd = adapter_zadd (ra_str api) up_client up_avail (\<lambda>c a b. on_snd (ra_zadd api c a b)),
      ci_zrangebyscore = adapter_zrangebyscore (ra_str api) up_client up_avail (\<lambda>c a b d e. on_snd (ra_zrangebyscore api c a b d e)),
      ci_zrange = adapter_zrange (ra_str api) up_client up_avail (\<lambda>c a b d. on_snd (ra_zrange api c a b d)),
      ci_zrem = adapter_zrem (ra_str api) up_client up_avail (\<lambda>c a b. on_snd (ra_zrem api c a b)),
      ci_sadd = adapter_sadd (ra_str api) up_client up_avail (\<lambda>c a b. on_snd (ra_sadd api c a b)),
      ci_srem = adapter_srem (ra_str api) up_client up_avail (\<lambda>c a b. on_snd (ra_srem api c a b))\<rparr>"

section \<open>The factory\<close>

datatype 'c adapter = Standard "'c std_adapter" | Upstash "'c up_adapter"

definition factory_create :: "bool \<Rightarrow> string \<Rightarrow> string \<Rightarrow> string \<Rightarrow> string \<Rightarrow> 'c adapter res" where
  "factory_create upstash_available provider redis_url rest_url rest_token =
     (let p = lower provider in
      if p = ''upstash'' then
        (if \<not> upstash_available
         then Inl (ImportError ''upstash-redis is required for the upstash provider. '')
         else Inr (Upstash (new_up_adapter rest_url rest_token)))
      else if p = ''standard'' then Inr (Standard (new_std_adapter redis_url))
      else Inl (ValueError (''Unsupported cache provider: '' @ provider)))"

definition adapter_initialize :: "('c, 'w) redis_api \<Rightarrow> ('c adapter \<times> 'w, bool) io" where
  "adapter_initialize api s =
     (case fst s of
        Standard a \<Rightarrow> (case std_initialize api (a, snd s) of (r, (a', w')) \<Rightarrow> (r, (Standard a', w')))
      | Upstash a \<Rightarrow> (case up_initialize api (a, snd s) of (r, (a', w')) \<Rightarrow> (r, (Upstash a', w'))))"

definition adapter_close :: "('c, 'w) redis_api \<Rightarrow> ('c adapter \<times> 'w, unit) io" where
  "adapter_close api s =
     (case fst s of
        Standard a \<Rightarrow> (case std_close api (a, snd s) of (r, (a', w')) \<Rightarrow> (r, (Standard a', w')))
      | Upstash a \<Rightarrow> (case up_close (a, snd s) of (r, (a', w')) \<Rightarrow> (r, (Upstash a', w'))))"

definition create_and_initialize ::
  "('c, 'w) redis_api \<Rightarrow> bool \<Rightarrow> string \<Rightarrow> string \<Rightarrow> string \<Rightarrow> string \<Rightarrow> ('w, 'c adapter) io" where
  "create_and_initialize api upstash_available provider redis_url rest_url rest_token w =
     (case factory_create upstash_available provider redis_url rest_url rest_token of
        Inl e \<Rightarrow> (Inl e, w)
      | Inr a \<Rightarrow>
          (case adapter_initialize api (a, w) of
             (Inl e, (_, w1)) \<Rightarrow> (Inl e, w1)
           | (Inr True, (a1, w1)) \<Rightarrow> (Inr a1, w1)
           | (Inr False, (a1, w1)) \<Rightarrow>
               (case adapter_close api (a1, w1) of
                  (Inl e, (_, w2)) \<Rightarrow> (Inl e, w2)
                | (Inr _, (_, w2)) \<Rightarrow>
                    (Inl (CacheConnectionError (''Cache adapter failed to initialize '' @ em_dash
                       @ '' Redis may be unreachable'')), w2))))"

section \<open>The adapters keep the contract\<close>

definition buildable :: "('c, 'w) redis_api \<Rightarrow> string \<Rightarrow> bool" where
  "buildable api url = (\<forall>loop. \<exists>c. build_connection_pool api url loop = Inr c)"

definition std_inv :: "('c, 'w) redis_api \<Rightarrow> 'c std_adapter \<times> 'w \<Rightarrow> bool" where
  "std_inv api s = (case sa_redis (fst s) of None \<Rightarrow> True | Some lb \<Rightarrow> buildable api (lb_url lb))"

lemma std_client_ok: "client_prop_ok (std_inv api) (std_client api)"
  unfolding client_prop_ok_def
proof (intro allI impI)
  fix s :: "'a std_adapter \<times> 'b"
  assume inv: "std_inv api s"
  show "std_inv api (snd (std_client api s)) \<and> (\<exists>c. fst (std_client api s) = Inr c)"
  proof (cases "sa_redis (fst s)")
    case None
    with inv show ?thesis by (simp add: std_client_def)
  next
    case (Some lb)
    with inv have "buildable api (lb_url lb)" by (simp add: std_inv_def)
    moreover from this obtain c where "build_connection_pool api (lb_url lb) (ra_loop api (snd s)) = Inr c"
      by (auto simp: buildable_def)
    ultimately show ?thesis using Some
      by (cases "lb_bound lb") (auto simp: std_client_def loop_bound_client_def std_inv_def)
  qed
qed

lemma on_snd_keeps_std: "io_keeps (std_inv api) (on_snd m)"
  by (simp add: io_keeps_def on_snd_def std_inv_def split: prod.splits)

lemma up_client_ok: "client_prop_ok (\<lambda>_. True) up_client"
  by (simp add: client_prop_ok_def up_client_def)

lemma keeps_True: "io_keeps (\<lambda>_. True) m"
  by (simp add: io_keeps_def)

lemma call_ok:
  assumes "client_prop_ok invar cp" and "\<And>c. io_keeps invar (f c)"
  shows "cache_op_ok invar (io_bind (check_initialized cp avail op) (\<lambda>_. wrapped str u (on_client cp f)))"
  by (rule cache_op_ok_bind [OF check_initialized_ok [OF assms(1)]], rule wrapped_ok)
    (rule on_client_keeps [OF assms])

lemma call_map_ok:
  assumes "client_prop_ok invar cp" and "\<And>c. io_keeps invar (f c)"
  shows "cache_op_ok invar
     (io_bind (check_initialized cp avail op) (\<lambda>_. wrapped str u (io_bind (on_client cp f) (\<lambda>r. io_return (g r)))))"
proof (rule cache_op_ok_bind [OF check_initialized_ok [OF assms(1)]], rule wrapped_ok)
  fix s assume "invar s"
  then have "invar (snd (on_client cp f s))" by (rule on_client_keeps [OF assms])
  moreover have "snd (io_bind (on_client cp f) (\<lambda>r. io_return (g r)) s) = snd (on_client cp f s)"
    by (cases "on_client cp f s"; cases "fst (on_client cp f s)") (simp_all add: io_defs)
  ultimately show "invar (snd (io_bind (on_client cp f) (\<lambda>r. io_return (g r)) s))" by simp
qed

lemma guard_return_ok:
  assumes "client_prop_ok invar cp"
  shows "cache_op_ok invar (io_bind (check_initialized cp avail op) (\<lambda>_. io_return x))"
  by (rule cache_op_ok_bind [OF check_initialized_ok [OF assms] cache_op_ok_return])

lemmas adapter_op_defs =
  adapter_get_def
  adapter_setex_def
  adapter_delete_def
  adapter_exists_def
  adapter_ttl_def
  adapter_expire_def
  adapter_mget_def
  adapter_hgetall_def
  adapter_hset_def
  adapter_scan_def
  adapter_eval_def
  adapter_incrby_def
  adapter_zadd_def
  adapter_zrangebyscore_def
  adapter_zrange_def
  adapter_zrem_def
  adapter_sadd_def
  adapter_srem_def

interpretation std: cache_contract "standard_iface api" "std_inv api" for api :: "('c, 'w) redis_api"
  by unfold_locales
    (auto simp: standard_iface_def adapter_op_defs std_set_def std_xadd_def
      intro!: call_ok call_map_ok guard_return_ok std_client_ok on_snd_keeps_std)

interpretation upst: cache_contract "upstash_iface api" "\<lambda>_. True" for api :: "('c, 'w) redis_api"
  by unfold_locales
    (auto simp: upstash_iface_def adapter_op_defs up_set_def up_xadd_def
      intro!: call_ok call_map_ok guard_return_ok up_client_ok keeps_True)

end
