(* ===== verification/Cache_Service.thy ===== *)
theory Cache_Service
  imports Cache_Adapter
begin

text \<open>
  \<open>cache/service.py\<close>, \<open>cache/helpers.py\<close> and \<open>cache/service_cache.py\<close>: the cache-aside service
  on top of any adapter. The service reads its adapter through the record of operations of theory
  \<open>Cache_Adapter\<close>. Cached values are JSON values; Python's \<open>json\<close> module is the record
  \<open>json_codec\<close> and the hash of the list keys is the parameter \<open>sha8\<close>. The loops over \<open>SCAN\<close> end when
  the server returns the cursor zero: they are \<open>partial_function (option)\<close>, so that a loop that
  never ends is the value \<open>None\<close>.
\<close>

section \<open>Model\<close>

record cache_result =
  cr_value :: json
  cr_hit :: bool
  cr_error :: "exn option"

record cache_service =
  cs_key_prefix :: string
  cs_max_value_bytes :: int

definition DEFAULT_MAX_VALUE_BYTES :: int where
  "DEFAULT_MAX_VALUE_BYTES = 1048576"

definition cs_get :: "json_codec \<Rightarrow> 's cache_iface \<Rightarrow> string \<Rightarrow> ('s, json) io" where
  "cs_get jc ci key =
     io_except is_Exception
       (io_bind (ci_get ci key) (\<lambda>cached. case cached of
          Some s \<Rightarrow> lift_res (jc_loads jc s)
        | None \<Rightarrow> io_return JNull))
       (\<lambda>_. io_return JNull)"

definition cs_get_result :: "json_codec \<Rightarrow> 's cache_iface \<Rightarrow> string \<Rightarrow> ('s, cache_result) io" where
  "cs_get_result jc ci key =
     io_except is_Exception
       (io_bind (ci_get ci key) (\<lambda>cached. case cached of
          Some s \<Rightarrow> io_bind (lift_res (jc_loads jc s)) (\<lambda>v. io_return \<lparr>cr_value = v, cr_hit = True, cr_error = None\<rparr>)
        | None \<Rightarrow> io_return \<lparr>cr_value = JNull, cr_hit = False, cr_error = None\<rparr>))
       (\<lambda>e. io_return \<lparr>cr_value = JNull, cr_hit = False, cr_error = Some e\<rparr>)"

fun decode_many :: "json_codec \<Rightarrow> (string \<times> string option) list \<Rightarrow> (string, json) dict \<Rightarrow> (string, json) dict res" where
  "decode_many jc [] result = Inr result"
| "decode_many jc ((key, cached) # rest) result =
     (case cached of
        None \<Rightarrow> decode_many jc rest (dict_set key JNull result)
      | Some s \<Rightarrow> (case jc_loads jc s of
            Inl e \<Rightarrow> Inl e
          | Inr v \<Rightarrow> decode_many jc rest (dict_set key v result)))"

text \<open>\<open>dict.fromkeys(keys)\<close>\<close>

definition dict_fromkeys :: "string list \<Rightarrow> (string, json) dict" where
  "dict_fromkeys keys = foldl (\<lambda>d k. dict_set k JNull d) [] keys"

definition cs_get_many :: "json_codec \<Rightarrow> 's cache_iface \<Rightarrow> string list \<Rightarrow> ('s, (string, json) dict) io" where
  "cs_get_many jc ci keys =
     (if keys = [] then io_return []
      else io_except is_Exception
             (io_bind (ci_mget ci keys) (\<lambda>cached_values. lift_res (decode_many jc (zip keys cached_values) [])))
             (\<lambda>_. io_return (dict_fromkeys keys)))"

definition cs_set ::
  "json_codec \<Rightarrow> 's cache_iface \<Rightarrow> cache_service \<Rightarrow> string \<Rightarrow> json \<Rightarrow> int \<Rightarrow> bool \<Rightarrow> ('s, bool) io" where
  "cs_set jc ci svc key v ttl nx =
     io_except (\<lambda>e. is_Exception e \<and> \<not> is_ValueError e)
       (io_bind (lift_res (jc_dumps jc v)) (\<lambda>serialized.
          if cs_max_value_bytes svc \<noteq> 0 \<and> int (length serialized) > cs_max_value_bytes svc
          then io_raise (ValueError (''Cache value for '' @ key @ '' is '' @ string_of_nat (length serialized)
                 @ '' bytes, exceeds limit of '' @ string_of_int (cs_max_value_bytes svc) @ '' bytes''))
          else if nx then ci_set ci key serialized (Some ttl) True
          else io_bind (ci_setex ci key ttl serialized) (\<lambda>_. io_return True)))
       (\<lambda>_. io_return False)"

definition cs_get_or_set ::
  "json_codec \<Rightarrow> 's cache_iface \<Rightarrow> cache_service \<Rightarrow> string \<Rightarrow> ('s, json) io \<Rightarrow> int \<Rightarrow> ('s, json) io" where
  "cs_get_or_set jc ci svc key fetch_func ttl =
     io_bind (cs_get jc ci key) (\<lambda>cached.
       if cached \<noteq> JNull then io_return cached
       else io_bind fetch_func (\<lambda>data.
              if data \<noteq> JNull
              then io_bind (io_except is_ValueError (cs_set jc ci svc key data ttl False) (\<lambda>_. io_return False))
                     (\<lambda>_. io_return data)
              else io_return data))"

fun encode_many :: "json_codec \<Rightarrow> int \<Rightarrow> (string, json) dict \<Rightarrow> (string \<times> int \<times> string) list res" where
  "encode_many jc ttl [] = Inr []"
| "encode_many jc ttl ((k, v) # rest) =
     (case jc_dumps jc v of Inl e \<Rightarrow> Inl e
      | Inr s \<Rightarrow> (case encode_many jc ttl rest of Inl e \<Rightarrow> Inl e | Inr cs \<Rightarrow> Inr ((k, ttl, s) # cs)))"

definition cs_set_many :: "json_codec \<Rightarrow> 's cache_iface \<Rightarrow> (string, json) dict \<Rightarrow> int \<Rightarrow> ('s, int) io" where
  "cs_set_many jc ci items ttl =
     (if items = [] then io_return 0
      else io_except is_Exception
             (io_bind (lift_res (encode_many jc ttl items)) (\<lambda>cmds.
              io_bind (ci_pipeline_setex ci cmds) (\<lambda>_. io_return (int (length items)))))
             (\<lambda>_. io_return 0))"

definition cs_delete :: "'s cache_iface \<Rightarrow> string list \<Rightarrow> ('s, unit) io" where
  "cs_delete ci keys =
     (if keys = [] then io_return ()
      else io_except is_Exception (io_bind (ci_delete ci keys) (\<lambda>_. io_return ())) (\<lambda>_. io_return ()))"

definition cs_increment :: "'s cache_iface \<Rightarrow> string \<Rightarrow> int \<Rightarrow> int option \<Rightarrow> ('s, int) io" where
  "cs_increment ci key amount ttl =
     io_except is_Exception
       (io_bind (ci_incrby ci key amount) (\<lambda>new_val.
          case ttl of
            Some t \<Rightarrow> if new_val = amount then io_bind (ci_expire ci key t) (\<lambda>_. io_return new_val)
                       else io_return new_val
          | None \<Rightarrow> io_return new_val))
       (\<lambda>_. io_return 0)"

text \<open>The methods that only pass the call on and swallow its errors.\<close>

definition silently :: "'a \<Rightarrow> ('s, 'a) io \<Rightarrow> ('s, 'a) io" where
  "silently d m = io_except is_Exception m (\<lambda>_. io_return d)"

definition cs_exists :: "'s cache_iface \<Rightarrow> string \<Rightarrow> ('s, bool) io" where
  "cs_exists ci key = silently False (io_bind (ci_exists ci [key]) (\<lambda>n. io_return (n \<noteq> 0)))"

definition cs_ttl :: "'s cache_iface \<Rightarrow> string \<Rightarrow> ('s, int) io" where
  "cs_ttl ci key = silently (-2) (ci_ttl ci key)"

definition cs_expire :: "'s cache_iface \<Rightarrow> string \<Rightarrow> int \<Rightarrow> ('s, bool) io" where
  "cs_expire ci key seconds = silently False (ci_expire ci key seconds)"

definition cs_zadd :: "'s cache_iface \<Rightarrow> string \<Rightarrow> (string, time) dict \<Rightarrow> ('s, int) io" where
  "cs_zadd ci key mapping = silently 0 (ci_zadd ci key mapping)"

definition cs_zrangebyscore :: "'s cache_iface \<Rightarrow> string \<Rightarrow> string \<Rightarrow> string \<Rightarrow> bool \<Rightarrow> ('s, json list) io" where
  "cs_zrangebyscore ci key lo hi withscores = silently [] (ci_zrangebyscore ci key lo hi withscores)"

definition cs_zrange :: "'s cache_iface \<Rightarrow> string \<Rightarrow> int \<Rightarrow> int \<Rightarrow> ('s, string list) io" where
  "cs_zrange ci key start stop = silently [] (ci_zrange ci key start stop)"

definition cs_zrem :: "'s cache_iface \<Rightarrow> string \<Rightarrow> string list \<Rightarrow> ('s, int) io" where
  "cs_zrem ci key members = silently 0 (ci_zrem ci key members)"

definition cs_sadd :: "'s cache_iface \<Rightarrow> string \<Rightarrow> string list \<Rightarrow> ('s, int) io" where
  "cs_sadd ci key members = silently 0 (ci_sadd ci key members)"

definition cs_srem :: "'s cache_iface \<Rightarrow> string \<Rightarrow> string list \<Rightarrow> ('s, int) io" where
  "cs_srem ci key members = silently 0 (ci_srem ci key members)"

text \<open>
  The SCAN loop of \<open>delete_pattern\<close> and \<open>invalidate_pattern\<close>: the count so far is returned beside an
  exception, because \<open>invalidate_pattern\<close> reports it and \<open>delete_pattern\<close> does not.
\<close>

partial_function (option) scan_delete ::
  "'s cache_iface \<Rightarrow> string \<Rightarrow> int \<Rightarrow> int \<Rightarrow> 's \<Rightarrow> ((exn option \<times> int) \<times> 's) option" where
  "scan_delete ci pattern cursor acc s =
     (case ci_scan ci cursor pattern 100 s of
        (Inl e, s1) \<Rightarrow> Some ((Some e, acc), s1)
      | (Inr (cur, keys), s1) \<Rightarrow>
          (case (if keys = [] then (Inr 0, s1) else ci_delete ci keys s1) of
             (Inl e, s2) \<Rightarrow> Some ((Some e, acc), s2)
           | (Inr n, s2) \<Rightarrow>
               if cur = 0 then Some ((None, acc + n), s2)
               else scan_delete ci pattern cur (acc + n) s2))"

definition cs_delete_pattern :: "'s cache_iface \<Rightarrow> string \<Rightarrow> 's \<Rightarrow> (int res \<times> 's) option" where
  "cs_delete_pattern ci pattern s =
     (case scan_delete ci pattern 0 0 s of
        None \<Rightarrow> None
      | Some ((Some e, _), s') \<Rightarrow> Some (if is_Exception e then Inr 0 else Inl e, s')
      | Some ((None, n), s') \<Rightarrow> Some (Inr n, s'))"

partial_function (option) scan_collect ::
  "'s cache_iface \<Rightarrow> string \<Rightarrow> int \<Rightarrow> int \<Rightarrow> string list \<Rightarrow> 's \<Rightarrow> (string list res \<times> 's) option" where
  "scan_collect ci pattern count cursor acc s =
     (case ci_scan ci cursor pattern count s of
        (Inl e, s1) \<Rightarrow> Some (Inl e, s1)
      | (Inr (cur, batch), s1) \<Rightarrow>
          if cur = 0 then Some (Inr (acc @ batch), s1)
          else scan_collect ci pattern count cur (acc @ batch) s1)"

definition cs_scan_keys :: "'s cache_iface \<Rightarrow> string \<Rightarrow> int \<Rightarrow> 's \<Rightarrow> (string list res \<times> 's) option" where
  "cs_scan_keys ci pattern count s =
     (case scan_collect ci pattern count 0 [] s of
        None \<Rightarrow> None
      | Some (Inl e, s') \<Rightarrow> Some (if is_Exception e then Inr [] else Inl e, s')
      | Some (Inr ks, s') \<Rightarrow> Some (Inr ks, s'))"

section \<open>Keys and helpers\<close>

text \<open>The parts of a key are given by their \<open>str()\<close>; a part that is \<open>None\<close> is left out.\<close>

definition build_cache_key :: "string option list \<Rightarrow> string \<Rightarrow> string" where
  "build_cache_key parts pre = join '':'' (pre # List.map_filter id parts)"

definition cs_build_key :: "cache_service \<Rightarrow> string option list \<Rightarrow> string" where
  "cs_build_key svc parts = join '':'' (cs_key_prefix svc # List.map_filter id parts)"

text \<open>
  \<open>sha8\<close> is the first eight hexadecimal digits of the SHA-256 of \<open>json.dumps(filters,
  sort_keys=True)\<close>.
\<close>

definition cs_build_list_key ::
  "((string, json) dict \<Rightarrow> string) \<Rightarrow> cache_service \<Rightarrow> string \<Rightarrow> (string, json) dict \<Rightarrow> string" where
  "cs_build_list_key sha8 svc entity filters =
     (if filters = [] then cs_build_key svc [Some entity, Some ''list'', Some ''all'']
      else cs_build_key svc [Some entity, Some ''list'', Some (''hash_'' @ sha8 filters)])"

definition build_entity_cache_key :: "string \<Rightarrow> string option \<Rightarrow> string option \<Rightarrow> string \<Rightarrow> string" where
  "build_entity_cache_key entity identifier tenant_id pre =
     (case tenant_id of
        Some t \<Rightarrow> if t \<noteq> [] then build_cache_key [Some entity, Some t, identifier] pre
                   else build_cache_key [Some entity, identifier] pre
      | None \<Rightarrow> build_cache_key [Some entity, identifier] pre)"

definition build_list_cache_key ::
  "((string, json) dict \<Rightarrow> string) \<Rightarrow> string \<Rightarrow> (string, json) dict \<Rightarrow> (string, json) dict \<Rightarrow> string \<Rightarrow> string" where
  "build_list_cache_key sha8 entity filters kwargs pre =
     (let all_filters = dict_merge filters kwargs in
      if all_filters = [] then build_cache_key [Some entity, Some ''list'', Some ''all''] pre
      else build_cache_key [Some entity, Some ''list'', Some (''hash_'' @ sha8 all_filters)] pre)"

definition invalidate_pattern :: "'s cache_iface \<Rightarrow> string \<Rightarrow> 's \<Rightarrow> (int res \<times> 's) option" where
  "invalidate_pattern ci pattern s =
     (case scan_delete ci pattern 0 0 s of
        None \<Rightarrow> None
      | Some ((Some e, n), s') \<Rightarrow> Some (if is_Exception e then Inr n else Inl e, s')
      | Some ((None, n), s') \<Rightarrow> Some (Inr n, s'))"

text \<open>\<open>if identifier:\<close> is the truth value of the identifier, \<open>truthy_id\<close> of its value.\<close>

definition invalidate_entity_cache ::
  "'s cache_iface \<Rightarrow> string \<Rightarrow> (bool \<times> string) option \<Rightarrow> string option \<Rightarrow> string \<Rightarrow> 's \<Rightarrow> (int res \<times> 's) option" where
  "invalidate_entity_cache ci entity identifier tenant_id pre s =
     (case identifier of
        Some (truthy_id, i) \<Rightarrow>
          if truthy_id then Some (ci_delete ci [build_entity_cache_key entity (Some i) tenant_id pre] s)
          else invalidate_pattern ci
                 (case tenant_id of
                    Some t \<Rightarrow> if t \<noteq> [] then build_cache_key [Some entity, Some t, Some ''*''] pre
                               else build_cache_key [Some entity, Some ''*''] pre
                  | None \<Rightarrow> build_cache_key [Some entity, Some ''*''] pre) s
      | None \<Rightarrow> invalidate_pattern ci
                 (case tenant_id of
                    Some t \<Rightarrow> if t \<noteq> [] then build_cache_key [Some entity, Some t, Some ''*''] pre
                               else build_cache_key [Some entity, Some ''*''] pre
                  | None \<Rightarrow> build_cache_key [Some entity, Some ''*''] pre) s)"

definition invalidate_list_caches :: "'s cache_iface \<Rightarrow> string \<Rightarrow> string \<Rightarrow> 's \<Rightarrow> (int res \<times> 's) option" where
  "invalidate_list_caches ci entity pre =
     invalidate_pattern ci (build_cache_key [Some entity, Some ''list'', Some ''*''] pre)"

section \<open>\<open>ServiceCache\<close>\<close>

record 'c service_cache =
  sc_redis_url :: string
  sc_key_prefix :: string
  sc_service :: "'c adapter option"

text \<open>
  One call of \<open>service()\<close> without another call in between: the adapter of the service, or \<open>None\<close>
  while Redis is unreachable.
\<close>

definition service_cache_service ::
  "('c, 'w) redis_api \<Rightarrow> ('c service_cache \<times> 'w, 'c adapter option) io" where
  "service_cache_service api s =
     (case sc_service (fst s) of
        Some a \<Rightarrow> (Inr (Some a), s)
      | None \<Rightarrow>
          (case create_and_initialize api False ''standard'' (sc_redis_url (fst s)) [] [] (snd s) of
             (Inr a, w') \<Rightarrow> (Inr (Some a), ((fst s)\<lparr>sc_service := Some a\<rparr>, w'))
           | (Inl e, w') \<Rightarrow> if is_Exception e then (Inr None, (fst s, w')) else (Inl e, (fst s, w'))))"

definition service_cache_close :: "('c, 'w) redis_api \<Rightarrow> ('c service_cache \<times> 'w, unit) io" where
  "service_cache_close api s =
     (let c = (fst s)\<lparr>sc_service := None\<rparr> in
      case sc_service (fst s) of
        None \<Rightarrow> (Inr (), (c, snd s))
      | Some a \<Rightarrow> (case adapter_close api (a, snd s) of (r, (_, w')) \<Rightarrow> (r, (c, w'))))"

section \<open>What every adapter gives the service\<close>

lemma silently_total: "fst (silently d m s) = Inl e \<Longrightarrow> \<not> is_Exception e"
  by (auto simp: silently_def io_defs split: prod.splits sum.splits if_splits)

lemma except_exception_total:
  "(\<And>e s. \<exists>v. h e s = (Inr v, s)) \<Longrightarrow> fst (io_except is_Exception m h s) = Inl e \<Longrightarrow> \<not> is_Exception e"
  by (auto simp: io_except_def split: prod.splits sum.splits if_splits) (metis Inl_Inr_False fst_conv)

context cache_contract
begin

lemma set_raises:
  assumes "invar s" and "fst (cs_set jc ci svc key v ttl nx s) = Inl e" and "is_Exception e"
  shows "jc_dumps jc v = Inl e \<or>
     (\<exists>enc. jc_dumps jc v = Inr enc \<and> cs_max_value_bytes svc \<noteq> 0 \<and> int (length enc) > cs_max_value_bytes svc)"
proof (cases "jc_dumps jc v")
  case (Inl e')
  with assms(2) show ?thesis
    by (auto simp: cs_set_def io_except_def io_bind_def lift_res_def io_return_def split: if_splits)
next
  case (Inr enc)
  show ?thesis
  proof (rule ccontr)
    assume "\<not> ?thesis"
    then have small: "\<not> (cs_max_value_bytes svc \<noteq> 0 \<and> int (length enc) > cs_max_value_bytes svc)"
      using Inr by auto
    let ?m = "if nx then ci_set ci key enc (Some ttl) True else io_bind (ci_setex ci key ttl enc) (\<lambda>_. io_return True)"
    have run: "cs_set jc ci svc key v ttl nx s =
       io_except (\<lambda>e. is_Exception e \<and> \<not> is_ValueError e) ?m (\<lambda>_. io_return False) s"
      by (simp only: cs_set_def io_except_def io_bind_def lift_res_def Inr prod.case sum.case if_not_P [OF small])
    have "cache_op_ok invar ?m"
      by (simp add: set_ok cache_op_ok_bind [OF setex_ok cache_op_ok_return])
    with assms(1) have "\<And>e. fst (?m s) = Inl e \<Longrightarrow> is_CacheError e \<or> \<not> is_Exception e"
      unfolding cache_op_ok_def by blast
    moreover have "\<And>e. is_CacheError e \<Longrightarrow> \<not> is_ValueError e"
      by (auto simp: is_CacheError_def is_ValueError_def split: exn.splits)
    ultimately show False using assms(2,3) unfolding run
      by (cases "?m s"; cases "fst (?m s)") (auto simp: io_except_def io_return_def split: if_splits)
  qed
qed

lemma get_or_set_miss:
  assumes "cs_get jc ci key s = (Inr JNull, s1)" and "fetch_func s1 = (Inr data, s2)" and "invar s2"
  shows "fst (cs_get_or_set jc ci svc key fetch_func ttl s) = Inr data
    \<or> (\<exists>e. fst (cs_get_or_set jc ci svc key fetch_func ttl s) = Inl e \<and> \<not> is_Exception e)"
proof (cases "data = JNull")
  case True
  with assms show ?thesis by (simp add: cs_get_or_set_def io_bind_def io_return_def)
next
  case False
  let ?m = "cs_set jc ci svc key data ttl False"
  have run: "cs_get_or_set jc ci svc key fetch_func ttl s =
     io_bind (io_except is_ValueError ?m (\<lambda>_. io_return False)) (\<lambda>_. io_return data) s2"
    using assms False by (simp add: cs_get_or_set_def io_bind_def)
  obtain r s3 where m: "?m s2 = (r, s3)" by (rule prod.exhaust)
  have "is_ValueError e \<or> \<not> is_Exception e" if "r = Inl e" for e
    using m that by (auto simp: cs_set_def io_except_def io_return_def split: prod.splits sum.splits if_splits)
  with m run show ?thesis
    by (cases r) (auto simp: io_bind_def io_except_def io_return_def split: if_splits)
qed

end

lemma cs_get_failure_is_miss:
  assumes "ci_get ci key s = (Inl e, s1)" and "is_Exception e"
  shows "cs_get jc ci key s = (Inr JNull, s1)"
  using assms by (simp add: cs_get_def io_defs)

section \<open>A working store\<close>

text \<open>
  A cache whose \<open>GET\<close> and \<open>SETEX\<close> act on a map while \<open>up\<close> holds (entries have not expired yet), and a
  codec that reads back what it wrote.
\<close>

definition kv_store :: "'s cache_iface \<Rightarrow> ('s \<Rightarrow> bool) \<Rightarrow> ('s \<Rightarrow> string \<Rightarrow> string option) \<Rightarrow> bool" where
  "kv_store ci up store =
     ((\<forall>k s. up s \<longrightarrow> fst (ci_get ci k s) = Inr (store s k) \<and> up (snd (ci_get ci k s))
          \<and> store (snd (ci_get ci k s)) = store s)
      \<and> (\<forall>k t v s. up s \<and> 0 < t \<longrightarrow> fst (ci_setex ci k t v s) = Inr True \<and> up (snd (ci_setex ci k t v s))
          \<and> store (snd (ci_setex ci k t v s)) = (store s)(k \<mapsto> v)))"

lemma kv_setD:
  assumes "kv_store ci up store" and "up s" and "0 < ttl" and "jc_dumps jc v = Inr enc"
    and "cs_max_value_bytes svc = 0 \<or> int (length enc) \<le> cs_max_value_bytes svc"
    and "cs_set jc ci svc key v ttl False s = (r, s')"
  shows "r = Inr True" and "up s'" and "store s' = (store s)(key \<mapsto> enc)"
proof -
  obtain s1 where "ci_setex ci key ttl enc s = (Inr True, s1)" "up s1" "store s1 = (store s)(key \<mapsto> enc)"
    using assms(1-3) unfolding kv_store_def by (metis prod.collapse)
  with assms(4-6) show "r = Inr True" "up s'" "store s' = (store s)(key \<mapsto> enc)"
    by (auto simp: cs_set_def io_defs)
qed

lemma kv_getD:
  assumes "kv_store ci up store" and "up s"
  obtains s' where "ci_get ci key s = (Inr (store s key), s')" and "up s'" and "store s' = store s"
  using assms unfolding kv_store_def by (metis prod.collapse)

section \<open>The SCAN loops\<close>

text \<open>
  What \<open>SCAN\<close> is relied on for: a full iteration ends. \<open>left s cursor\<close> bounds the calls left from a
  cursor; a call that does not return the cursor zero lowers it, also when the keys it returned are
  then deleted.
\<close>

definition scan_ends :: "'s cache_iface \<Rightarrow> ('s \<Rightarrow> int \<Rightarrow> nat) \<Rightarrow> bool" where
  "scan_ends ci left =
     (\<forall>cursor pat n s cur keys s1. ci_scan ci cursor pat n s = (Inr (cur, keys), s1) \<and> cur \<noteq> 0 \<longrightarrow>
        left s1 cur < left s cursor \<and> (\<forall>ks. left (snd (ci_delete ci ks s1)) cur < left s cursor))"

lemma scan_delete_terminates:
  assumes "scan_ends ci left"
  shows "\<exists>r. scan_delete ci pat cursor acc s = Some r"
proof (induction "left s cursor" arbitrary: s cursor acc rule: less_induct)
  case less
  note step = scan_delete.simps [of ci pat cursor acc s]
  obtain r s1 where scan: "ci_scan ci cursor pat 100 s = (r, s1)" by (rule prod.exhaust)
  show ?case
  proof (cases r)
    case (Inl e)
    with scan step show ?thesis by simp
  next
    case (Inr ck)
    obtain cur keys where ck: "ck = (cur, keys)" by (rule prod.exhaust)
    obtain d s2 where del: "(if keys = [] then (Inr 0, s1) else ci_delete ci keys s1) = (d, s2)" by (rule prod.exhaust)
    have "left s2 cur < left s cursor" if "cur \<noteq> 0"
      using assms [unfolded scan_ends_def, rule_format, of cursor pat 100 s cur keys s1] scan Inr ck that del
      by (auto split: if_splits dest: spec [of _ keys])
    with less scan step Inr ck del show ?thesis by (cases d; cases "cur = 0") auto
  qed
qed

lemma scan_collect_terminates:
  assumes "scan_ends ci left"
  shows "\<exists>r. scan_collect ci pat n cursor acc s = Some r"
proof (induction "left s cursor" arbitrary: s cursor acc rule: less_induct)
  case less
  note step = scan_collect.simps [of ci pat n cursor acc s]
  obtain r s1 where scan: "ci_scan ci cursor pat n s = (r, s1)" by (rule prod.exhaust)
  show ?case
  proof (cases r)
    case (Inl e)
    with scan step show ?thesis by simp
  next
    case (Inr ck)
    obtain cur keys where ck: "ck = (cur, keys)" by (rule prod.exhaust)
    have "left s1 cur < left s cursor" if "cur \<noteq> 0"
      using assms [unfolded scan_ends_def, rule_format, of cursor pat n s cur keys s1] scan Inr ck that by auto
    with less scan step Inr ck show ?thesis by (cases "cur = 0") auto
  qed
qed

section \<open>A world for the witnesses\<close>

text \<open>A server that keeps strings in a dict and answers \<open>SCAN\<close> with every key at once.\<close>

definition mem_api :: "(unit, (string, string) dict) redis_api" where
  "mem_api =
     \<lparr>ra_loop = (\<lambda>w. 0), ra_build = (\<lambda>u l. Inr ()), ra_scheme = (\<lambda>u. ''redis''), ra_str = (\<lambda>e. []),
      ra_ping = (\<lambda>c w. (Inr ''PONG'', w)), ra_aclose = (\<lambda>c w. (Inr (), w)),
      ra_set = (\<lambda>c k v t nx w. (Inr (Some ''OK''), dict_set k v w)),
      ra_xadd = (\<lambda>c k f m a w. (Inr None, w)), ra_pipeline_setex = (\<lambda>c cmds w. (Inr (), w)),
      ra_get = (\<lambda>c k w. (Inr (dict_get w k), w)),
      ra_setex = (\<lambda>c k t v w. (Inr (Some ''OK''), dict_set k v w)),
      ra_delete = (\<lambda>c ks w. (Inr (int (length ks)), foldl (\<lambda>d k. dict_del k d) w ks)),
      ra_exists = (\<lambda>c ks w. (Inr 0, w)), ra_ttl = (\<lambda>c k w. (Inr 1, w)), ra_expire = (\<lambda>c k n w. (Inr True, w)),
      ra_mget = (\<lambda>c ks w. (Inr (map (dict_get w) ks), w)), ra_hgetall = (\<lambda>c k w. (Inr [], w)),
      ra_hset = (\<lambda>c k m w. (Inr 0, w)), ra_scan = (\<lambda>c cur p n w. (Inr (0, map fst w), w)),
      ra_eval = (\<lambda>c x n a w. (Inr JNull, w)), ra_incrby = (\<lambda>c k n w. (Inr n, w)),
      ra_zadd = (\<lambda>c k m w. (Inr 0, w)), ra_zrangebyscore = (\<lambda>c k a b x w. (Inr [], w)),
      ra_zrange = (\<lambda>c k a b w. (Inr [], w)), ra_zrem = (\<lambda>c k m w. (Inr 0, w)),
      ra_sadd = (\<lambda>c k m w. (Inr 0, w)), ra_srem = (\<lambda>c k m w. (Inr 0, w))\<rparr>"

definition mem_adapter :: "unit std_adapter" where
  "mem_adapter = \<lparr>sa_url = ''redis://r'', sa_redis = Some \<lparr>lb_url = ''redis://r'', lb_bound = Some (0, ())\<rparr>,
     sa_available = True\<rparr>"

text \<open>A codec for strings.\<close>

definition str_codec :: json_codec where
  "str_codec = \<lparr>jc_dumps = (\<lambda>v. case v of JStr s \<Rightarrow> Inr s | _ \<Rightarrow> Inl (TypeError ''not a string'')),
     jc_loads = (\<lambda>s. Inr (JStr s))\<rparr>"

lemma mem_client: "std_client mem_api (mem_adapter, w) = (Inr (Some ()), (mem_adapter, w))"
  by (simp add: std_client_def mem_adapter_def mem_api_def loop_bound_client_def)

lemmas mem_simps = standard_iface_def adapter_op_defs check_initialized_def wrapped_def on_client_def io_defs
  mem_client on_snd_def

lemma mem_available: "sa_available mem_adapter"
  by (simp add: mem_adapter_def)

lemma mem_get: "ci_get (standard_iface mem_api) k (mem_adapter, w) = (Inr (dict_get w k), (mem_adapter, w))"
  by (simp add: mem_simps mem_available) (simp add: mem_api_def)

lemma mem_setex:
  "ci_setex (standard_iface mem_api) k t v (mem_adapter, w) = (Inr True, (mem_adapter, dict_set k v w))"
  by (simp add: mem_simps mem_available) (simp add: mem_api_def io_return_def)

lemma mem_kv: "kv_store (standard_iface mem_api) (\<lambda>s. fst s = mem_adapter) (\<lambda>s. dict_get (snd s))"
  by (auto simp: kv_store_def mem_get mem_setex update_conv')

lemma str_round_trip: "codec_round_trip str_codec"
  by (simp add: codec_round_trip_def str_codec_def split: json.splits)

lemma mem_inv: "std_inv mem_api (mem_adapter, w)"
  by (simp add: std_inv_def mem_adapter_def buildable_def build_connection_pool_def require_plain_redis_url_def
      mem_api_def)

lemma mem_scan_ends: "scan_ends (standard_iface mem_api) (\<lambda>s c. 0)"
proof -
  have "cur = 0" if "ci_scan (standard_iface mem_api) cursor pat n s = (Inr (cur, keys), s1)"
    for cursor pat n s cur keys s1
  proof -
    have "ra_scan mem_api c cursor pat n w = (Inr (0, map fst w), w)" for c w by (simp add: mem_api_def)
    with that show ?thesis
      by (auto simp: standard_iface_def adapter_op_defs wrapped_def on_client_def io_defs on_snd_def
          split: prod.splits sum.splits option.splits if_splits)
  qed
  then show ?thesis by (simp add: scan_ends_def)
qed

section \<open>Properties\<close>



text \<open>
  A value that was stored is the value that is read: on a working store, with a codec that
  inverts itself and a value within the size limit, \<open>set\<close> returns \<open>True\<close>, the next \<open>get\<close> returns the
  value, \<open>get_or_set\<close> returns it without running its fetch, and every other key is untouched.
\<close>

theorem cache_set_get_round_trip:
  assumes "kv_store ci up store" and "codec_round_trip jc" and "up s" and "0 < ttl" and "v \<noteq> JNull"
    and "jc_dumps jc v = Inr enc"
    and "cs_max_value_bytes svc = 0 \<or> int (length enc) \<le> cs_max_value_bytes svc"
    and "cs_set jc ci svc key v ttl False s = (r, s')"
  shows "r = Inr True \<and> fst (cs_get jc ci key s') = Inr v
    \<and> fst (cs_get_or_set jc ci svc key fetch_func ttl' s') = Inr v
    \<and> (\<forall>k. k \<noteq> key \<longrightarrow> store s' k = store s k)"
proof -
  note set = kv_setD [OF assms(1,3,4,6,7,8)]
  obtain s2 where g: "ci_get ci key s' = (Inr (Some enc), s2)"
    using kv_getD [OF assms(1) set(2), of key] set(3) by auto
  have "jc_loads jc enc = Inr v" using assms(2,6) by (simp add: codec_round_trip_def)
  with g have "cs_get jc ci key s' = (Inr v, s2)" by (simp add: cs_get_def io_defs)
  with set assms(5) show ?thesis by (simp add: cs_get_or_set_def io_bind_def io_return_def)
qed

theorem cache_set_get_round_trip_witness:
  "fst (cs_get str_codec (standard_iface mem_api) ''k''
     (snd (cs_set str_codec (standard_iface mem_api) \<lparr>cs_key_prefix = ''p'', cs_max_value_bytes = 10\<rparr> ''k''
        (JStr ''v'') 60 False (mem_adapter, [])))) = Inr (JStr ''v'')"
proof -
  obtain r s' where run: "cs_set str_codec (standard_iface mem_api) \<lparr>cs_key_prefix = ''p'', cs_max_value_bytes = 10\<rparr> ''k''
      (JStr ''v'') 60 False (mem_adapter, []) = (r, s')" by (rule prod.exhaust)
  show ?thesis
    using cache_set_get_round_trip [OF mem_kv str_round_trip _ _ _ _ _ run, of "''v''" "\<lambda>s. (Inr JNull, s)" 1] run
    by (simp add: str_codec_def)
qed

text \<open>
  The only exceptions of \<open>set\<close> are those its documentation names: on the standard adapter, an
  \<open>Exception\<close> that leaves \<open>set\<close> is one the encoder raised or the size limit, never one of the
  adapter or of Redis; nothing is written in those cases.
\<close>

theorem cache_set_raises_only_encoding:
  assumes "std_inv api s" and "cs_set jc (standard_iface api) svc key v ttl nx s = (Inl e, s')"
    and "is_Exception e"
  shows "(jc_dumps jc v = Inl e \<or>
     (\<exists>enc. jc_dumps jc v = Inr enc \<and> cs_max_value_bytes svc \<noteq> 0 \<and> int (length enc) > cs_max_value_bytes svc))
    \<and> s' = s"
proof
  show main: "jc_dumps jc v = Inl e \<or>
     (\<exists>enc. jc_dumps jc v = Inr enc \<and> cs_max_value_bytes svc \<noteq> 0 \<and> int (length enc) > cs_max_value_bytes svc)"
    using std.set_raises [OF assms(1), of jc svc key v ttl nx e] assms(2,3) by simp
  from main assms(2) show "s' = s"
    by (cases "jc_dumps jc v")
      (auto simp: cs_set_def io_except_def io_bind_def lift_res_def io_raise_def io_return_def split: if_splits)
qed

theorem cache_set_raises_only_encoding_witness:
  "\<exists>e s'. cs_set str_codec (standard_iface mem_api) \<lparr>cs_key_prefix = ''p'', cs_max_value_bytes = 2\<rparr> ''k''
      (JStr ''long'') 60 False (mem_adapter, []) = (Inl e, s') \<and> s' = (mem_adapter, [])"
proof -
  obtain e s' where run: "cs_set str_codec (standard_iface mem_api) \<lparr>cs_key_prefix = ''p'', cs_max_value_bytes = 2\<rparr> ''k''
      (JStr ''long'') 60 False (mem_adapter, []) = (Inl e, s')" and "is_Exception e"
    by (simp add: cs_set_def io_defs str_codec_def is_Exception_def is_ValueError_def)
  with cache_set_raises_only_encoding [OF mem_inv run] show ?thesis by blast
qed

text \<open>
  Pattern invalidation comes back: on a server whose \<open>SCAN\<close> iterations end, \<open>delete_pattern\<close>,
  \<open>invalidate_pattern\<close> and \<open>scan_keys\<close> return, and they raise nothing derived from \<open>Exception\<close>.
\<close>

theorem pattern_scans_return:
  assumes "scan_ends ci left"
  shows "\<exists>r s1 r' s2 r'' s3. cs_delete_pattern ci pat s = Some (r, s1) \<and> invalidate_pattern ci pat s = Some (r', s2)
     \<and> cs_scan_keys ci pat n s = Some (r'', s3)
     \<and> (\<forall>e. r = Inl e \<or> r' = Inl e \<or> r'' = Inl e \<longrightarrow> \<not> is_Exception e)"
proof -
  obtain x n' s1 where d: "scan_delete ci pat 0 0 s = Some ((x, n'), s1)"
    using scan_delete_terminates [OF assms, of pat 0 0 s] by auto
  obtain y s2 where c: "scan_collect ci pat n 0 [] s = Some (y, s2)"
    using scan_collect_terminates [OF assms, of pat n 0 "[]" s] by auto
  from d c show ?thesis
    by (cases x; cases y) (auto simp: cs_delete_pattern_def invalidate_pattern_def cs_scan_keys_def)
qed

theorem pattern_scans_return_witness:
  "\<exists>r s1. cs_delete_pattern (standard_iface mem_api) ''p:*'' (mem_adapter, [(''p:1'', ''v'')]) = Some (r, s1)"
  using pattern_scans_return [OF mem_scan_ends, of "''p:*''" "(mem_adapter, [(''p:1'', ''v'')])" 100] by auto

end
