(* ===== verification/Event_Bus.thy ===== *)
theory Event_Bus
  imports Contracts Cache_Adapter
begin

text \<open>
  \<open>events/envelope.py\<close>, \<open>events/producer.py\<close>, \<open>events/helpers.py\<close>, \<open>events/retry_policy.py\<close>,
  \<open>events/pii.py\<close>, \<open>events/dead_letter.py\<close>, \<open>events/retry_state.py\<close> and
  \<open>events/durable_publisher.py\<close>: the event envelope, the two publishers and the Redis helpers of
  the consumer. The stream commands, the clock and the UUID source are the record \<open>bus_env\<close>; its
  state is the type \<open>'s\<close>. A field of a flat envelope is a string; the fields of the legacy payload
  format come from a JSON document, so the envelope keeps JSON values.
\<close>

section \<open>The environment\<close>

record 's bus_env =
  be_xadd :: "string \<Rightarrow> (string, string) dict \<Rightarrow> int \<Rightarrow> ('s, string) io"
  be_uuid :: "('s, string) io"
  be_now_iso :: "'s \<Rightarrow> string"
  be_time_str :: "'s \<Rightarrow> string"
  be_str :: "exn \<Rightarrow> string"
  be_hincrby :: "string \<Rightarrow> string \<Rightarrow> int \<Rightarrow> ('s, int) io"
  be_hget :: "string \<Rightarrow> string \<Rightarrow> ('s, string option) io"
  be_hdel :: "string \<Rightarrow> string \<Rightarrow> ('s, unit) io"
  be_expire :: "string \<Rightarrow> int \<Rightarrow> ('s, unit) io"
  be_xack :: "string \<Rightarrow> string \<Rightarrow> string \<Rightarrow> ('s, unit) io"
  be_xreadgroup :: "string \<Rightarrow> string \<Rightarrow> string \<Rightarrow> int \<Rightarrow> int \<Rightarrow> ('s, (string \<times> (string, string) dict) list) io"
  be_xautoclaim :: "string \<Rightarrow> string \<Rightarrow> string \<Rightarrow> int \<Rightarrow> int \<Rightarrow> ('s, (string \<times> (string, string) dict) list) io"

section \<open>The envelope\<close>

record event_envelope =
  ev_id :: json
  ev_type :: json
  ev_version :: json
  ev_tenant_id :: json
  ev_timestamp :: json
  ev_source_service :: json
  ev_actor_id :: json
  ev_data :: json
  ev_metadata :: json
  ev_raw_message_id :: string

definition field_or :: "(string, string) dict \<Rightarrow> string \<Rightarrow> string \<Rightarrow> string" where
  "field_or flds k d = (case dict_get flds k of Some v \<Rightarrow> v | None \<Rightarrow> d)"

definition from_flat :: "json_codec \<Rightarrow> string \<Rightarrow> (string, string) dict \<Rightarrow> event_envelope res" where
  "from_flat jc message_id flds =
     (case jc_loads jc (field_or flds ''data'' ''{}'') of
        Inl e \<Rightarrow> Inl e
      | Inr data \<Rightarrow>
          (case jc_loads jc (field_or flds ''metadata'' ''{}'') of
             Inl e \<Rightarrow> Inl e
           | Inr metadata \<Rightarrow>
               Inr \<lparr>ev_id = JStr (field_or flds ''event_id'' []),
                    ev_type = JStr (field_or flds ''event_type'' []),
                    ev_version = JStr (field_or flds ''version'' ''1.0''),
                    ev_tenant_id = JStr (field_or flds ''tenant_id'' []),
                    ev_timestamp = JStr (field_or flds ''timestamp'' []),
                    ev_source_service = JStr (field_or flds ''source_service'' []),
                    ev_actor_id = (let a = field_or flds ''actor_id'' [] in if a = [] then JNull else JStr a),
                    ev_data = data, ev_metadata = metadata, ev_raw_message_id = message_id\<rparr>))"

definition json_field_or :: "(string, json) dict \<Rightarrow> string \<Rightarrow> json \<Rightarrow> json" where
  "json_field_or d k v = (case dict_get d k of Some x \<Rightarrow> x | None \<Rightarrow> v)"

definition from_payload_wrapper :: "json_codec \<Rightarrow> string \<Rightarrow> (string, string) dict \<Rightarrow> event_envelope res" where
  "from_payload_wrapper jc message_id flds =
     (let payload_str = field_or flds ''payload'' [] in
      if payload_str = [] then Inl (ValueError ''Message missing payload field'')
      else case jc_loads jc payload_str of
             Inl e \<Rightarrow> Inl e
           | Inr (JDict p) \<Rightarrow>
               Inr \<lparr>ev_id = json_field_or p ''event_id'' (JStr []),
                    ev_type = json_field_or p ''event_type'' (JStr []),
                    ev_version = json_field_or p ''version'' (JStr ''1.0''),
                    ev_tenant_id = json_field_or p ''tenant_id'' (JStr []),
                    ev_timestamp = json_field_or p ''timestamp'' (JStr []),
                    ev_source_service = json_field_or p ''source'' (json_field_or p ''source_service'' (JStr [])),
                    ev_actor_id = json_field_or p ''actor_id'' JNull,
                    ev_data = json_field_or p ''data'' (JDict []),
                    ev_metadata = json_field_or p ''metadata'' (JDict []),
                    ev_raw_message_id = message_id\<rparr>
           | Inr _ \<Rightarrow> Inl (AttributeError ''object has no attribute get''))"

section \<open>\<open>EventProducer\<close>\<close>

record event_producer =
  ep_redis_url :: "string option"
  ep_stream_name :: string
  ep_source_service :: string
  ep_maxlen :: int
  ep_max_data_bytes :: int
  ep_connected :: bool

definition STREAM_MAXLEN :: int where
  "STREAM_MAXLEN = 100000"

definition normalize_source :: "string \<Rightarrow> string res" where
  "normalize_source source =
     (case feature_of_value source of
        Inr f \<Rightarrow> Inr (feature_value f)
      | Inl _ \<Rightarrow> Inl (ValueError (''EventProducer source_service must be a Feature value, got '' @ source
               @ ''. Valid Feature values: '' @ join '', '' (map feature_value features))))"

definition new_event_producer ::
  "string option \<Rightarrow> string \<Rightarrow> string \<Rightarrow> int option \<Rightarrow> int \<Rightarrow> event_producer res" where
  "new_event_producer url stream source maxlen max_bytes =
     (case normalize_source source of
        Inl e \<Rightarrow> Inl e
      | Inr src \<Rightarrow>
          Inr \<lparr>ep_redis_url = url, ep_stream_name = stream, ep_source_service = src,
               ep_maxlen = (case maxlen of Some m \<Rightarrow> if m \<noteq> 0 then m else STREAM_MAXLEN | None \<Rightarrow> STREAM_MAXLEN),
               ep_max_data_bytes = max_bytes, ep_connected = False\<rparr>)"

text \<open>\<open>make_event_producer\<close>: only a member of \<open>Feature\<close> type checks as the source.\<close>

definition make_event_producer :: "Feature \<Rightarrow> string option \<Rightarrow> string \<Rightarrow> int option \<Rightarrow> event_producer res" where
  "make_event_producer source url stream maxlen =
     new_event_producer url stream (feature_value source) maxlen 1048576"

text \<open>The missing required field, in the order the loop looks for them.\<close>

definition strict_missing :: "(string, json) dict \<Rightarrow> string option" where
  "strict_missing data = find (\<lambda>f. dict_get data f = None) [''entity_id'', ''entity_type'', ''action'']"

definition publish_metadata :: "(string, json) dict \<Rightarrow> string option \<Rightarrow> (string, json) dict" where
  "publish_metadata metadata correlation_id =
     (case correlation_id of
        Some c \<Rightarrow> if c \<noteq> [] then dict_set ''correlation_id'' (JStr c) metadata else metadata
      | None \<Rightarrow> metadata)"

definition flat_envelope ::
  "string \<Rightarrow> string \<Rightarrow> string \<Rightarrow> string \<Rightarrow> string \<Rightarrow> string option \<Rightarrow> string \<Rightarrow> string \<Rightarrow> (string, string) dict" where
  "flat_envelope event_id event_type tenant_id timestamp source actor_id data metadata =
     [(''event_id'', event_id), (''event_type'', event_type), (''version'', ''1.0''),
      (''tenant_id'', tenant_id), (''timestamp'', timestamp), (''source_service'', source),
      (''actor_id'', case actor_id of Some a \<Rightarrow> a | None \<Rightarrow> []), (''data'', data), (''metadata'', metadata)]"

text \<open>
  \<open>publish\<close>: the guards, the envelope, the connection, the \<open>XADD\<close>. The connection object is built
  lazily from the URL, so that only a missing URL stops here.
\<close>

definition producer_publish ::
  "json_codec \<Rightarrow> 's bus_env \<Rightarrow> event_producer \<Rightarrow> string \<Rightarrow> string \<Rightarrow> (string, json) dict \<Rightarrow> string option
   \<Rightarrow> (string, json) dict \<Rightarrow> string option \<Rightarrow> bool \<Rightarrow> ('s, string) io" where
  "producer_publish jc env p event_type tenant_id data actor_id metadata correlation_id strict_mode =
     (case (if strict_mode then strict_missing data else None) of
        Some f \<Rightarrow> io_raise (ValueError (''data must contain '' @ f))
      | None \<Rightarrow>
          io_bind (lift_res (if ep_max_data_bytes p = 0 then Inr ()
             else case jc_dumps jc (JDict data) of
                    Inl e \<Rightarrow> Inl e
                  | Inr s \<Rightarrow> if int (length s) > ep_max_data_bytes p
                             then Inl (ValueError (''Event data is '' @ string_of_nat (length s)
                                    @ '' bytes, exceeds limit of '' @ string_of_int (ep_max_data_bytes p) @ '' bytes''))
                             else Inr ())) (\<lambda>_.
          io_bind (be_uuid env) (\<lambda>event_id s.
            io_bind (lift_res (jc_dumps jc (JDict data))) (\<lambda>d.
            io_bind (lift_res (jc_dumps jc (JDict (publish_metadata metadata correlation_id)))) (\<lambda>m.
              if \<not> ep_connected p \<and> (ep_redis_url p = None \<or> ep_redis_url p = Some [])
              then io_raise (RuntimeError ''Redis connection not available'')
              else io_bind (io_except is_RedisError
                     (be_xadd env (ep_stream_name p)
                        (flat_envelope event_id event_type tenant_id (be_now_iso env s) (ep_source_service p) actor_id d m)
                        (ep_maxlen p))
                     (\<lambda>e. io_raise (EventPublishTransportError (''Failed to publish '' @ event_type @ '' to ''
                            @ ep_stream_name p @ '': '' @ be_str env e))))
                   (\<lambda>_. io_return event_id))) s)))"

definition hash_pii :: "(string \<Rightarrow> string) \<Rightarrow> string option \<Rightarrow> string option" where
  "hash_pii sha256_hex v =
     (case v of Some s \<Rightarrow> if s = [] then None else Some (take 16 (sha256_hex s)) | None \<Rightarrow> None)"

section \<open>Retry policy, retry counter, dead letters\<close>

record retry_policy =
  rp_max_retries :: int
  rp_backoff_base :: int
  rp_max_backoff :: int

text \<open>\<open>min(backoff_base ** attempt, max_backoff)\<close> for the non-negative attempts of its callers.\<close>

definition delay_for :: "retry_policy \<Rightarrow> nat \<Rightarrow> int" where
  "delay_for rp attempt = min (rp_backoff_base rp ^ attempt) (rp_max_backoff rp)"

definition retry_key :: "string \<Rightarrow> string \<Rightarrow> string" where
  "retry_key stream grp = stream @ '':'' @ grp @ '':retries''"

definition retry_increment :: "'s bus_env \<Rightarrow> string \<Rightarrow> int \<Rightarrow> string \<Rightarrow> ('s, int) io" where
  "retry_increment env key ttl message_id =
     io_bind (be_hincrby env key message_id 1) (\<lambda>count.
     io_bind (be_expire env key ttl) (\<lambda>_. io_return count))"

definition retry_get :: "'s bus_env \<Rightarrow> string \<Rightarrow> string \<Rightarrow> ('s, int) io" where
  "retry_get env key message_id =
     io_bind (be_hget env key message_id) (\<lambda>v.
       case v of None \<Rightarrow> io_return 0 | Some s \<Rightarrow> lift_res (py_int s))"

definition retry_clear :: "'s bus_env \<Rightarrow> string \<Rightarrow> string \<Rightarrow> ('s, unit) io" where
  "retry_clear env key message_id = be_hdel env key message_id"

definition dead_letter_stream_name :: "string \<Rightarrow> string" where
  "dead_letter_stream_name source_stream = source_stream @ ''_dead_letter''"

definition dead_letter_entry ::
  "string \<Rightarrow> string \<Rightarrow> string \<Rightarrow> string \<Rightarrow> string \<Rightarrow> string \<Rightarrow> (string, string) dict" where
  "dead_letter_entry message_id stream grp reason time data =
     [(''original_message_id'', message_id), (''original_stream'', stream), (''consumer_group'', grp),
      (''failure_reason'', reason), (''timestamp'', time), (''original_data'', data)]"

definition dlq_move ::
  "json_codec \<Rightarrow> 's bus_env \<Rightarrow> string \<Rightarrow> string \<Rightarrow> int \<Rightarrow> string \<Rightarrow> (string, string) dict \<Rightarrow> string \<Rightarrow> ('s, unit) io" where
  "dlq_move jc env stream grp maxlen message_id message_data reason s =
     io_bind (lift_res (jc_dumps jc (JDict (map (\<lambda>(k, v). (k, JStr v)) message_data)))) (\<lambda>d.
     io_bind (be_xadd env (dead_letter_stream_name stream)
               (dead_letter_entry message_id stream grp reason (be_time_str env s) d) maxlen)
       (\<lambda>_. io_return ())) s"

section \<open>\<open>DurableEventPublisher\<close>\<close>

text \<open>
  The outbox row an \<open>INSERT\<close> adds; the columns it does not name have the table's defaults, which the
  services' migrations declare: the parameter \<open>col_defaults\<close>. The caller's session is the transaction flag and the pending inserts, which the
  caller commits.
\<close>

record outbox_row =
  or_id :: string
  or_event_type :: string
  or_tenant_id :: string
  or_actor_id :: "string option"
  or_data :: string
  or_metadata :: string
  or_retry_count :: int
  or_next_retry_at :: time
  or_published :: bool
  or_dead_letter :: bool
  or_last_error :: "string option"

record outbox_session =
  os_in_transaction :: bool
  os_inserts :: "outbox_row list"

definition durable_publish ::
  "json_codec \<Rightarrow> (outbox_session \<times> 'w, string) io \<Rightarrow> (outbox_session \<times> 'w, unit) io \<Rightarrow> ('w \<Rightarrow> outbox_row)
   \<Rightarrow> string \<Rightarrow> string \<Rightarrow> (string, json) dict \<Rightarrow> string option \<Rightarrow> (string, json) dict
   \<Rightarrow> (outbox_session \<times> 'w, string) io" where
  "durable_publish jc uuid db_round_trip col_defaults event_type tenant_id data actor_id metadata s =
     (if \<not> os_in_transaction (fst s)
      then io_raise (RuntimeError ''DurableEventPublisher.publish must be called inside an open SQLAlchemy transaction'') s
      else io_bind uuid (\<lambda>event_id.
           io_bind (lift_res (jc_dumps jc (JDict data))) (\<lambda>d.
           io_bind (lift_res (jc_dumps jc (JDict metadata))) (\<lambda>m.
           io_bind db_round_trip (\<lambda>_ s'.
             (Inr event_id,
              ((fst s')\<lparr>os_inserts := os_inserts (fst s') @
                 [(col_defaults (snd s'))\<lparr>or_id := event_id, or_event_type := event_type, or_tenant_id := tenant_id,
                   or_actor_id := actor_id, or_data := d, or_metadata := m\<rparr>]\<rparr>, snd s')))))) s)"

section \<open>Lemmas\<close>

text \<open>
  What the stream is relied on for: a successful \<open>XADD\<close> appends its entry to the stream and a failed
  one appends nothing; drawing a UUID does not fail and appends nothing. \<open>slog\<close> is the list of
  entries.
\<close>

definition stream_log :: "'s bus_env \<Rightarrow> ('s \<Rightarrow> (string \<times> (string, string) dict) list) \<Rightarrow> bool" where
  "stream_log env slog =
     ((\<forall>st f n s. slog (snd (be_xadd env st f n s)) =
          (case fst (be_xadd env st f n s) of Inr _ \<Rightarrow> slog s @ [(st, f)] | Inl _ \<Rightarrow> slog s))
      \<and> (\<forall>s. slog (snd (be_uuid env s)) = slog s \<and> (\<exists>u. fst (be_uuid env s) = Inr u)))"

lemma producer_publish_cases:
  assumes "producer_publish jc env p et ten data actor md cid strict s = (r, s')"
  obtains (guard) "s' = s" and "\<exists>e. r = Inl e" and
      "\<exists>f. strict \<and> strict_missing data = Some f \<and> r = Inl (ValueError (''data must contain '' @ f))"
    | (size) "s' = s" and "ep_max_data_bytes p \<noteq> 0" and "\<exists>e. r = Inl e"
    | (run) eid s1 where "strict \<longrightarrow> strict_missing data = None" and "be_uuid env s = (Inr eid, s1)"
      and "\<And>e. jc_dumps jc (JDict data) = Inl e \<Longrightarrow> r = Inl e \<and> s' = s1"
      and "\<And>d e. jc_dumps jc (JDict data) = Inr d \<Longrightarrow> jc_dumps jc (JDict (publish_metadata md cid)) = Inl e \<Longrightarrow> r = Inl e \<and> s' = s1"
      and "\<And>d m. jc_dumps jc (JDict data) = Inr d \<Longrightarrow> jc_dumps jc (JDict (publish_metadata md cid)) = Inr m \<Longrightarrow>
        (r = Inl (RuntimeError ''Redis connection not available'') \<and> s' = s1) \<or>
        (\<exists>x s2. be_xadd env (ep_stream_name p)
            (flat_envelope eid et ten (be_now_iso env s1) (ep_source_service p) actor d m) (ep_maxlen p) s1 = (x, s2)
          \<and> s' = s2 \<and> (case x of Inr _ \<Rightarrow> r = Inr eid
               | Inl e \<Rightarrow> if is_RedisError e then (\<exists>msg. r = Inl (EventPublishTransportError msg)) else r = Inl e))"
    | (uuid) e where "be_uuid env s = (Inl e, s')" and "r = Inl e"
proof (cases "if strict then strict_missing data else None")
  case (Some f)
  then have "strict" "strict_missing data = Some f" by (auto split: if_splits)
  with assms Some guard show ?thesis by (auto simp: producer_publish_def io_raise_def)
next
  case None
  define ok where "ok = (if ep_max_data_bytes p = 0 then Inr ()
             else case jc_dumps jc (JDict data) of
                    Inl e \<Rightarrow> Inl e
                  | Inr s \<Rightarrow> if int (length s) > ep_max_data_bytes p
                             then Inl (ValueError (''Event data is '' @ string_of_nat (length s)
                                    @ '' bytes, exceeds limit of '' @ string_of_int (ep_max_data_bytes p) @ '' bytes''))
                             else Inr ())"
  note run0 = assms [unfolded producer_publish_def None option.case ok_def [symmetric]]
  show ?thesis
  proof (cases ok)
    case (Inl e)
    with run0 have "r = Inl e" "s' = s" by (auto simp: io_bind_def lift_res_def)
    moreover from Inl have "ep_max_data_bytes p \<noteq> 0" by (auto simp: ok_def)
    ultimately show ?thesis using size by blast
  next
    case (Inr u)
    obtain x s1 where uu: "be_uuid env s = (x, s1)" by (rule prod.exhaust)
    show ?thesis
    proof (cases x)
      case (Inl e)
      with run0 Inr uu have "r = Inl e" "s' = s1" by (auto simp: io_bind_def lift_res_def)
      with uu Inl uuid show ?thesis by blast
    next
      case eid: (Inr eid)
      note run1 = run0 [unfolded io_bind_def lift_res_def Inr uu eid prod.case sum.case]
      from None have "strict \<longrightarrow> strict_missing data = None" by (auto split: if_splits)
      then show ?thesis
      proof (rule run)
        show "be_uuid env s = (Inr eid, s1)" using uu eid by simp
        show "r = Inl e \<and> s' = s1" if "jc_dumps jc (JDict data) = Inl e" for e
          using run1 that by simp
        show "r = Inl e \<and> s' = s1"
          if "jc_dumps jc (JDict data) = Inr d" "jc_dumps jc (JDict (publish_metadata md cid)) = Inl e" for d e
          using run1 that by simp
        fix d m
        assume dm: "jc_dumps jc (JDict data) = Inr d" "jc_dumps jc (JDict (publish_metadata md cid)) = Inr m"
        obtain y s2 where xa: "be_xadd env (ep_stream_name p)
            (flat_envelope eid et ten (be_now_iso env s1) (ep_source_service p) actor d m) (ep_maxlen p) s1 = (y, s2)"
          by (rule prod.exhaust)
        show "(r = Inl (RuntimeError ''Redis connection not available'') \<and> s' = s1) \<or>
          (\<exists>x s2. be_xadd env (ep_stream_name p)
            (flat_envelope eid et ten (be_now_iso env s1) (ep_source_service p) actor d m) (ep_maxlen p) s1 = (x, s2)
          \<and> s' = s2 \<and> (case x of Inr _ \<Rightarrow> r = Inr eid
               | Inl e \<Rightarrow> if is_RedisError e then (\<exists>msg. r = Inl (EventPublishTransportError msg)) else r = Inl e))"
          using run1 dm xa
          by (cases y) (auto simp: io_except_def io_raise_def io_return_def split: if_splits)
      qed
    qed
  qed
qed

lemma from_flat_envelope:
  assumes "codec_round_trip jc" and "jc_dumps jc (JDict data) = Inr d" and "jc_dumps jc (JDict md) = Inr m"
  shows "from_flat jc mid (flat_envelope eid et ten ts src actor d m) =
     Inr \<lparr>ev_id = JStr eid, ev_type = JStr et, ev_version = JStr ''1.0'', ev_tenant_id = JStr ten,
          ev_timestamp = JStr ts, ev_source_service = JStr src,
          ev_actor_id = (if actor = None \<or> actor = Some [] then JNull else JStr (the actor)),
          ev_data = JDict data, ev_metadata = JDict md, ev_raw_message_id = mid\<rparr>"
proof -
  have "jc_loads jc d = Inr (JDict data)" "jc_loads jc m = Inr (JDict md)"
    using assms by (simp_all add: codec_round_trip_def)
  then show ?thesis
    by (cases actor) (simp_all add: from_flat_def flat_envelope_def field_or_def Let_def)
qed

lemma normalize_source_feature: "normalize_source src = Inr v \<Longrightarrow> \<exists>f. v = feature_value f \<and> v = src"
  by (auto simp: normalize_source_def feature_of_value_def find_Some_iff split: option.splits)

text \<open>A bus for the witnesses: the state is the list of entries; the hash commands do nothing.\<close>

definition list_bus :: "(string \<times> (string, string) dict) list bus_env" where
  "list_bus =
     \<lparr>be_xadd = (\<lambda>st f n s. (Inr ''1-0'', s @ [(st, f)])), be_uuid = (\<lambda>s. (Inr ''u1'', s)),
      be_now_iso = (\<lambda>s. ''now''), be_time_str = (\<lambda>s. ''0''), be_str = (\<lambda>e. []),
      be_hincrby = (\<lambda>k f n s. (Inr 1, s)), be_hget = (\<lambda>k f s. (Inr None, s)), be_hdel = (\<lambda>k f s. (Inr (), s)),
      be_expire = (\<lambda>k n s. (Inr (), s)), be_xack = (\<lambda>st g m s. (Inr (), s)),
      be_xreadgroup = (\<lambda>g c st n b s. (Inr [], s)), be_xautoclaim = (\<lambda>g c st n b s. (Inr [], s))\<rparr>"

lemma list_bus_log: "stream_log list_bus (\<lambda>s. s)"
  by (simp add: stream_log_def list_bus_def)

text \<open>A codec that knows the empty object.\<close>

definition empty_codec :: json_codec where
  "empty_codec = \<lparr>jc_dumps = (\<lambda>v. if v = JDict [] then Inr ''{}'' else Inl (TypeError ''other'')),
     jc_loads = (\<lambda>s. if s = ''{}'' then Inr (JDict []) else Inl (ValueError ''other''))\<rparr>"

lemma empty_codec_round_trip: "codec_round_trip empty_codec"
  by (simp add: codec_round_trip_def empty_codec_def)

definition crm_producer :: event_producer where
  "crm_producer = \<lparr>ep_redis_url = Some ''redis://r'', ep_stream_name = ''tr_event_bus'', ep_source_service = ''lead'',
     ep_maxlen = STREAM_MAXLEN, ep_max_data_bytes = 1048576, ep_connected = False\<rparr>"

lemma published_entry:
  assumes "stream_log env slog" and "codec_round_trip jc"
    and "producer_publish jc env p et ten data actor md cid strict s = (r, s')"
  shows "case r of
       Inl _ \<Rightarrow> slog s' = slog s
     | Inr eid \<Rightarrow> (\<exists>flds ts. slog s' = slog s @ [(ep_stream_name p, flds)] \<and>
         (\<forall>mid. from_flat jc mid flds =
            Inr \<lparr>ev_id = JStr eid, ev_type = JStr et, ev_version = JStr ''1.0'', ev_tenant_id = JStr ten,
                 ev_timestamp = JStr ts, ev_source_service = JStr (ep_source_service p),
                 ev_actor_id = (if actor = None \<or> actor = Some [] then JNull else JStr (the actor)),
                 ev_data = JDict data, ev_metadata = JDict (publish_metadata md cid), ev_raw_message_id = mid\<rparr>))"
  using assms(3)
proof (cases rule: producer_publish_cases)
  case (run eid s1)
  have s1: "slog s1 = slog s" using assms(1) run(2) unfolding stream_log_def by (metis snd_conv)
  consider (no1) e where "jc_dumps jc (JDict data) = Inl e"
    | (no2) d e where "jc_dumps jc (JDict data) = Inr d" "jc_dumps jc (JDict (publish_metadata md cid)) = Inl e"
    | (yes) d m where "jc_dumps jc (JDict data) = Inr d" "jc_dumps jc (JDict (publish_metadata md cid)) = Inr m"
    by (cases "jc_dumps jc (JDict data)"; cases "jc_dumps jc (JDict (publish_metadata md cid))") auto
  then show ?thesis
  proof cases
    case no1
    with run(3) s1 show ?thesis by simp
  next
    case no2
    with run(4) s1 show ?thesis by simp
  next
    case (yes d m)
    let ?f = "flat_envelope eid et ten (be_now_iso env s1) (ep_source_service p) actor d m"
    note ff = from_flat_envelope [OF assms(2) yes, of _ eid et ten "be_now_iso env s1" "ep_source_service p" actor]
    have lg: "slog (snd (be_xadd env st f n s)) =
          (case fst (be_xadd env st f n s) of Inr _ \<Rightarrow> slog s @ [(st, f)] | Inl _ \<Rightarrow> slog s)" for st f n s
      using assms(1) by (simp add: stream_log_def)
    from run(5) [OF yes] show ?thesis
    proof
      assume "r = Inl (RuntimeError ''Redis connection not available'') \<and> s' = s1"
      with s1 show ?thesis by simp
    next
      assume "\<exists>x s2. be_xadd env (ep_stream_name p) ?f (ep_maxlen p) s1 = (x, s2)
          \<and> s' = s2 \<and> (case x of Inr _ \<Rightarrow> r = Inr eid
               | Inl e \<Rightarrow> if is_RedisError e then (\<exists>msg. r = Inl (EventPublishTransportError msg)) else r = Inl e)"
      then obtain x where x: "be_xadd env (ep_stream_name p) ?f (ep_maxlen p) s1 = (x, s')"
        and r: "case x of Inr _ \<Rightarrow> r = Inr eid
               | Inl e \<Rightarrow> if is_RedisError e then (\<exists>msg. r = Inl (EventPublishTransportError msg)) else r = Inl e"
        by blast
      from lg [of "ep_stream_name p" ?f "ep_maxlen p" s1] x s1
      have "slog s' = (case x of Inr _ \<Rightarrow> slog s @ [(ep_stream_name p, ?f)] | Inl _ \<Rightarrow> slog s)"
        by (cases x) simp_all
      with r ff show ?thesis by (cases x) (auto split: if_splits)
    qed
  qed
next
  case (uuid e)
  then show ?thesis using assms(1) unfolding stream_log_def by (metis fst_conv Inl_Inr_False)
qed auto

section \<open>Properties\<close>



text \<open>
  The guards of \<open>publish\<close> come before any effect: in strict mode an event without
  \<open>entity_id\<close>, \<open>entity_type\<close> or \<open>action\<close>, and an event whose encoding exceeds the limit, raise
  \<open>ValueError\<close> and change nothing; and the source of every producer that can be constructed is the
  value of a \<open>Feature\<close>.
\<close>

theorem publish_guards:
  shows "strict_missing data = Some f \<Longrightarrow>
      producer_publish jc env p et ten data actor md cid True s = (Inl (ValueError (''data must contain '' @ f)), s)
    \<and> (new_event_producer url stream src maxlen max_bytes = Inr p' \<longrightarrow> (\<exists>ft. ep_source_service p' = feature_value ft))
    \<and> (jc_dumps jc (JDict data') = Inr enc \<and> ep_max_data_bytes p \<noteq> 0 \<and> int (length enc) > ep_max_data_bytes p \<longrightarrow>
        (\<exists>msg. producer_publish jc env p et ten data' actor md cid False s = (Inl (ValueError msg), s)))"
proof (intro conjI impI)
  assume "strict_missing data = Some f"
  then show "producer_publish jc env p et ten data actor md cid True s = (Inl (ValueError (''data must contain '' @ f)), s)"
    by (simp add: producer_publish_def io_raise_def)
next
  assume "new_event_producer url stream src maxlen max_bytes = Inr p'"
  then obtain v where "normalize_source src = Inr v" "ep_source_service p' = v"
    by (auto simp: new_event_producer_def split: sum.splits)
  then show "\<exists>ft. ep_source_service p' = feature_value ft" using normalize_source_feature by blast
next
  assume "jc_dumps jc (JDict data') = Inr enc \<and> ep_max_data_bytes p \<noteq> 0 \<and> int (length enc) > ep_max_data_bytes p"
  then show "\<exists>msg. producer_publish jc env p et ten data' actor md cid False s = (Inl (ValueError msg), s)"
    by (simp add: producer_publish_def io_bind_def lift_res_def)
qed

theorem publish_guards_witness:
  "producer_publish empty_codec list_bus crm_producer ''lead.created'' ''t1'' [(''entity_id'', JNull)] None [] None True [] =
     (Inl (ValueError (''data must contain '' @ ''entity_type'')), [])"
  using publish_guards [of "[(''entity_id'', JNull)]" "''entity_type''" empty_codec list_bus crm_producer
      "''lead.created''" "''t1''" None "[]" None "[]"]
  by (simp add: strict_missing_def)

end
