(* ===== verification/Event_Consumer.thy ===== *)
theory Event_Consumer
  imports Event_Bus
begin

text \<open>
  \<open>events/consumer.py\<close>, \<open>events/group_health.py\<close> and \<open>events/supervisor.py\<close>: the stream consumer with
  its idempotency checker, one pass of the consume loop and of the claimer, the connection set-up and
  clean-up, the health report of a group, and the process that supervises a consumer. Redis is the
  record \<open>bus_env\<close> of theory \<open>Event_Bus\<close>; the checker is a record of two effects, and the
  in-memory one is modelled over a state that carries its ids. A pass over a batch is modelled
  without the other loop of the process in between.
\<close>

section \<open>Idempotency\<close>

record 's checker =
  ck_is_processed :: "json \<Rightarrow> ('s, bool) io"
  ck_mark_processed :: "json \<Rightarrow> ('s, unit) io"

text \<open>
  \<open>InMemoryIdempotencyChecker\<close>: the ids in the order they were first marked. Assigning an id that is
  present keeps its place. An id that is a list or a dict is not hashable.
\<close>

fun hashable :: "json \<Rightarrow> bool" where
  "hashable (JList _) = False"
| "hashable (JDict _) = False"
| "hashable _ = True"

definition remember :: "json list \<Rightarrow> json \<Rightarrow> json list" where
  "remember ids event_id = (if event_id \<in> set ids then ids else ids @ [event_id])"

definition evict :: "json list \<Rightarrow> json list" where
  "evict ids = (if length ids > 10000 then drop 5000 ids else ids)"

fun id_str :: "json \<Rightarrow> string" where
  "id_str (JStr s) = s"
| "id_str (JInt i) = string_of_int i"
| "id_str (JFloat l) = l"
| "id_str (JBool b) = (if b then ''True'' else ''False'')"
| "id_str _ = ''None''"

record 'w checker_redis =
  cr_exists :: "string \<Rightarrow> ('w, bool) io"
  cr_setex :: "string \<Rightarrow> int \<Rightarrow> string \<Rightarrow> ('w, unit) io"

definition mem_is_processed :: "'w checker_redis option \<Rightarrow> string \<Rightarrow> json \<Rightarrow> (json list \<times> 'w, bool) io" where
  "mem_is_processed redis grp event_id s =
     (if \<not> hashable event_id then (Inl (TypeError ''unhashable type''), s)
      else if event_id \<in> set (fst s) then (Inr True, s)
      else case redis of
             Some r \<Rightarrow> on_snd (cr_exists r (grp @ '':processed:'' @ id_str event_id)) s
           | None \<Rightarrow> (Inr False, s))"

definition mem_mark_processed :: "'w checker_redis option \<Rightarrow> string \<Rightarrow> int \<Rightarrow> json \<Rightarrow> (json list \<times> 'w, unit) io" where
  "mem_mark_processed redis grp ttl event_id s =
     (if \<not> hashable event_id then (Inl (TypeError ''unhashable type''), s)
      else let s' = (evict (remember (fst s) event_id), snd s)
           in case redis of
                Some r \<Rightarrow> on_snd (cr_setex r (grp @ '':processed:'' @ id_str event_id) ttl ''1'') s'
              | None \<Rightarrow> (Inr (), s'))"

definition memory_checker :: "'w checker_redis option \<Rightarrow> string \<Rightarrow> int \<Rightarrow> (json list \<times> 'w) checker" where
  "memory_checker redis grp ttl_days =
     \<lparr>ck_is_processed = mem_is_processed redis grp,
      ck_mark_processed = mem_mark_processed redis grp (ttl_days * 86400)\<rparr>"

section \<open>\<open>EventConsumer\<close>\<close>

record 's consumer =
  co_stream :: string
  co_group :: string
  co_name :: string
  co_batch_size :: int
  co_block_ms :: int
  co_policy :: retry_policy
  co_checker :: "'s checker option"
  co_payload_mode :: bool
  co_claim_min_idle_ms :: int
  co_claim_count :: int
  co_zombie_idle_ms :: int
  co_handlers :: "(string, event_envelope \<Rightarrow> ('s, unit) io) dict"
  co_connected :: bool

definition register_handler :: "string \<Rightarrow> (event_envelope \<Rightarrow> ('s, unit) io) \<Rightarrow> 's consumer \<Rightarrow> 's consumer" where
  "register_handler event_type h c = c\<lparr>co_handlers := dict_set event_type h (co_handlers c)\<rparr>"

definition is_wildcard :: "string \<Rightarrow> bool" where
  "is_wildcard pattern = suffix ''.*'' pattern"

definition wildcard_stem :: "string \<Rightarrow> string" where
  "wildcard_stem pattern = take (length pattern - 2) pattern"

text \<open>
  An event type that is not a string finds no handler by key, and reaching a wildcard pattern with it
  is an \<open>AttributeError\<close> (\<open>startswith\<close>); one that is not hashable fails in the first lookup.
\<close>

definition resolve_handler :: "(string, 'h) dict \<Rightarrow> json \<Rightarrow> 'h option res" where
  "resolve_handler handlers event_type =
     (case event_type of
        JStr t \<Rightarrow>
          (case dict_get handlers t of
             Some h \<Rightarrow> Inr (Some h)
           | None \<Rightarrow> Inr (map_option snd
               (find (\<lambda>(pattern, _). is_wildcard pattern \<and> prefix (wildcard_stem pattern) t) handlers)))
      | _ \<Rightarrow> if \<not> hashable event_type then Inl (TypeError ''unhashable type'')
            else if list_ex (\<lambda>(pattern, _). is_wildcard pattern) handlers
            then Inl (AttributeError ''object has no attribute startswith'')
            else Inr None)"

definition parse_message :: "json_codec \<Rightarrow> 's consumer \<Rightarrow> string \<Rightarrow> (string, string) dict \<Rightarrow> event_envelope option" where
  "parse_message jc c message_id data =
     (case (if co_payload_mode c then from_payload_wrapper jc message_id data else from_flat jc message_id data) of
        Inl _ \<Rightarrow> None | Inr e \<Rightarrow> Some e)"

text \<open>\<open>dlq.move\<close> with its exceptions swallowed by the caller.\<close>

definition try_move ::
  "json_codec \<Rightarrow> 's bus_env \<Rightarrow> 's consumer \<Rightarrow> string \<Rightarrow> (string, string) dict \<Rightarrow> string \<Rightarrow> ('s, unit) io" where
  "try_move jc env c message_id data reason =
     io_except is_Exception
       (dlq_move jc env (co_stream c) (co_group c) 10000 message_id data reason)
       (\<lambda>_. io_return ())"

definition handle_failure ::
  "json_codec \<Rightarrow> 's bus_env \<Rightarrow> 's consumer \<Rightarrow> string \<Rightarrow> (string, string) dict \<Rightarrow> exn \<Rightarrow> ('s, bool \<times> bool) io" where
  "handle_failure jc env c message_id data exc =
     (let key = retry_key (co_stream c) (co_group c) in
      io_bind (if co_connected c
               then io_except is_Exception (retry_increment env key 86400 message_id)
                      (\<lambda>_. io_return (rp_max_retries (co_policy c)))
               else io_return 1) (\<lambda>attempts.
        if attempts \<ge> rp_max_retries (co_policy c)
        then io_bind (if co_connected c then try_move jc env c message_id data (''Max retries exceeded: '' @ be_str env exc)
                      else io_return ()) (\<lambda>_.
             io_bind (if co_connected c then retry_clear env key message_id else io_return ()) (\<lambda>_.
             io_return (False, True)))
        else io_return (False, False)))"

definition process_message ::
  "json_codec \<Rightarrow> 's bus_env \<Rightarrow> 's consumer \<Rightarrow> string \<Rightarrow> (string, string) dict \<Rightarrow> ('s, bool \<times> bool) io" where
  "process_message jc env c message_id data =
     (case parse_message jc c message_id data of
        None \<Rightarrow>
          io_bind (if co_connected c then try_move jc env c message_id data ''Malformed message'' else io_return ())
            (\<lambda>_. io_return (True, True))
      | Some envelope \<Rightarrow>
          io_bind (case co_checker c of
                     Some k \<Rightarrow> ck_is_processed k (ev_id envelope)
                   | None \<Rightarrow> io_return False) (\<lambda>dup.
          if dup then io_return (True, True)
          else io_bind (lift_res (resolve_handler (co_handlers c) (ev_type envelope))) (\<lambda>h.
            case h of
              None \<Rightarrow> io_return (True, True)
            | Some handler \<Rightarrow>
                io_bind (io_except is_Exception
                           (io_bind (handler envelope) (\<lambda>_. io_return None))
                           (\<lambda>e. io_bind (handle_failure jc env c message_id data e) (\<lambda>r. io_return (Some r))))
                  (\<lambda>failed. case failed of
                     Some r \<Rightarrow> io_return r
                   | None \<Rightarrow>
                       io_bind (case co_checker c of
                                  Some k \<Rightarrow> ck_mark_processed k (ev_id envelope)
                                | None \<Rightarrow> io_return ()) (\<lambda>_.
                       io_bind (if co_connected c
                                then retry_clear env (retry_key (co_stream c) (co_group c)) message_id
                                else io_return ()) (\<lambda>_.
                       io_return (True, True)))))))"

definition consumer_ack :: "'s bus_env \<Rightarrow> 's consumer \<Rightarrow> string \<Rightarrow> ('s, unit) io" where
  "consumer_ack env c message_id =
     (if co_connected c then be_xack env (co_stream c) (co_group c) message_id else io_return ())"

fun process_batch ::
  "json_codec \<Rightarrow> 's bus_env \<Rightarrow> 's consumer \<Rightarrow> (string \<times> (string, string) dict) list \<Rightarrow> ('s, unit) io" where
  "process_batch jc env c [] = io_return ()"
| "process_batch jc env c ((mid, data) # rest) =
     io_bind (process_message jc env c mid data) (\<lambda>(_, should_ack).
     io_bind (if should_ack then consumer_ack env c mid else io_return ()) (\<lambda>_.
     process_batch jc env c rest))"

text \<open>One turn of the body of \<open>_consume_loop\<close> up to its exception handlers, and \<open>_claim_once\<close>.\<close>

definition consume_once :: "json_codec \<Rightarrow> 's bus_env \<Rightarrow> 's consumer \<Rightarrow> ('s, unit) io" where
  "consume_once jc env c =
     io_bind (be_xreadgroup env (co_group c) (co_name c) (co_stream c) (co_batch_size c) (co_block_ms c))
       (process_batch jc env c)"

definition claim_once :: "json_codec \<Rightarrow> 's bus_env \<Rightarrow> 's consumer \<Rightarrow> ('s, nat) io" where
  "claim_once jc env c =
     (if \<not> co_connected c then io_return 0
      else io_bind (be_xautoclaim env (co_group c) (co_name c) (co_stream c) (co_claim_min_idle_ms c) (co_claim_count c))
             (\<lambda>claimed. io_bind (process_batch jc env c claimed) (\<lambda>_. io_return (length claimed))))"

text \<open>
  What the consume loop does with an exception of a turn: poll again, stop, reconnect and pause, or
  pause. \<open>running\<close> is the flag \<open>stop()\<close> clears.
\<close>

datatype loop_action = PollAgain | StopLoop | ReconnectThenSleep int | SleepFor int | Escape exn

fun consume_loop_action :: "bool \<Rightarrow> exn \<Rightarrow> loop_action" where
  "consume_loop_action running (RedisTimeoutError _) = PollAgain"
| "consume_loop_action running (RedisConnectionError _) = (if running then ReconnectThenSleep 5 else StopLoop)"
| "consume_loop_action running CancelledError = StopLoop"
| "consume_loop_action running e = (if is_Exception e then SleepFor 1 else Escape e)"

fun claimer_loop_action :: "bool \<Rightarrow> int \<Rightarrow> exn \<Rightarrow> loop_action" where
  "claimer_loop_action running interval CancelledError = StopLoop"
| "claimer_loop_action running interval e =
     (if is_Exception e then (if running then SleepFor interval else StopLoop) else Escape e)"

section \<open>Group set-up and clean-up\<close>

record consumer_info =
  cn_name :: "string option"
  cn_pending :: int
  cn_idle :: int

text \<open>The consumers that the start-up sweep deletes.\<close>

definition sweep_targets :: "string \<Rightarrow> int \<Rightarrow> consumer_info list \<Rightarrow> string list" where
  "sweep_targets me zombie_idle_ms infos =
     List.map_filter (\<lambda>i. case cn_name i of
         None \<Rightarrow> None
       | Some n \<Rightarrow> if n = [] \<or> n = me then None
                   else if cn_pending i = 0 \<and> cn_idle i \<ge> zombie_idle_ms then Some n else None) infos"

definition is_ResponseError :: "exn \<Rightarrow> bool" where
  "is_ResponseError e = (case e of RedisResponseError _ \<Rightarrow> True | _ \<Rightarrow> False)"

fun sweep_all :: "(string \<Rightarrow> ('s, unit) io) \<Rightarrow> string list \<Rightarrow> ('s, unit) io" where
  "sweep_all delconsumer [] = io_return ()"
| "sweep_all delconsumer (n # ns) =
     io_bind (io_except is_ResponseError (delconsumer n) (\<lambda>_. io_return ())) (\<lambda>_. sweep_all delconsumer ns)"

definition sweep_zombie_consumers ::
  "('s, consumer_info list) io \<Rightarrow> (string \<Rightarrow> ('s, unit) io) \<Rightarrow> 's consumer \<Rightarrow> ('s, unit) io" where
  "sweep_zombie_consumers xinfo delconsumer c =
     io_bind (io_except is_ResponseError
                (io_bind xinfo (\<lambda>infos. io_return (sweep_targets (co_name c) (co_zombie_idle_ms c) infos)))
                (\<lambda>_. io_return []))
       (sweep_all delconsumer)"

definition ensure_consumer_group :: "('s, unit) io \<Rightarrow> ('s, unit) io" where
  "ensure_consumer_group xgroup_create =
     io_except (\<lambda>e. case e of RedisResponseError m \<Rightarrow> sublist ''BUSYGROUP'' m | _ \<Rightarrow> False)
       xgroup_create (\<lambda>_. io_return ())"

text \<open>\<open>_deregister_consumer\<close>: its own client is closed whatever happened.\<close>

definition deregister_consumer ::
  "('s, nat) io \<Rightarrow> ('s, unit) io \<Rightarrow> ('s, unit) io \<Rightarrow> ('s, unit) io" where
  "deregister_consumer xpending_count delconsumer aclose =
     io_finally
       (io_except (\<lambda>e. is_RedisError e \<or> is_OSError e)
          (io_bind xpending_count (\<lambda>n. if n > 0 then io_return () else delconsumer))
          (\<lambda>_. io_return ()))
       aclose"

section \<open>Group health\<close>

record group_health =
  gh_group :: string
  gh_exists :: bool
  gh_consumers :: int
  gh_live_consumers :: nat
  gh_pending :: int
  gh_lag :: "int option"
  gh_min_idle_ms :: "int option"
  gh_error :: "string option"

text \<open>
  The records of \<open>XINFO\<close> with their field names already decoded: a field is missing, nil or a
  number.
\<close>

record group_record =
  gr_name :: string
  gr_consumers :: "int option"
  gr_pending :: "int option"
  gr_lag :: "int option"

definition gh_unhealthy :: "string \<Rightarrow> string option \<Rightarrow> group_health" where
  "gh_unhealthy grp error =
     \<lparr>gh_group = grp, gh_exists = False, gh_consumers = 0, gh_live_consumers = 0, gh_pending = 0, gh_lag = None,
      gh_min_idle_ms = None, gh_error = error\<rparr>"

definition or0 :: "int option \<Rightarrow> int" where
  "or0 v = (case v of None \<Rightarrow> 0 | Some n \<Rightarrow> n)"

definition group_report :: "string \<Rightarrow> int \<Rightarrow> group_record \<Rightarrow> int option list \<Rightarrow> group_health" where
  "group_report grp idle_threshold rec idle_fields =
     (let idles = map or0 idle_fields in
      \<lparr>gh_group = grp, gh_exists = True, gh_consumers = or0 (gr_consumers rec),
       gh_live_consumers = length (filter (\<lambda>i. i < idle_threshold) idles),
       gh_pending = or0 (gr_pending rec), gh_lag = gr_lag rec,
       gh_min_idle_ms = (if idles = [] then None else Some (Min (set idles))), gh_error = None\<rparr>)"

definition consumer_group_health ::
  "(exn \<Rightarrow> string) \<Rightarrow> ('s, group_record list) io \<Rightarrow> ('s, int option list) io \<Rightarrow> string \<Rightarrow> int \<Rightarrow> int
   \<Rightarrow> ('s, group_health) io" where
  "consumer_group_health str xinfo_groups xinfo_consumer_idles grp block_ms multiplier =
     io_except (\<lambda>e. is_RedisError e \<or> is_OSError e)
       (io_bind xinfo_groups (\<lambda>groups.
          case find (\<lambda>g. gr_name g = grp) groups of
            None \<Rightarrow> io_return (gh_unhealthy grp None)
          | Some rec \<Rightarrow>
              io_bind xinfo_consumer_idles (\<lambda>idles.
                io_return (group_report grp (block_ms * multiplier) rec idles))))
       (\<lambda>e. io_return (gh_unhealthy grp (Some (str e))))"

section \<open>The supervisor\<close>

definition run_supervised_consumer ::
  "('s, unit) io option \<Rightarrow> ('s, 'c) io \<Rightarrow> ('c \<Rightarrow> ('s, string list) io) \<Rightarrow> (string list \<Rightarrow> ('s, unit) io)
   \<Rightarrow> ('c \<Rightarrow> ('s, unit) io) \<Rightarrow> ('c \<Rightarrow> ('s, unit) io) \<Rightarrow> ('s, unit) io option \<Rightarrow> ('s, unit) io" where
  "run_supervised_consumer setup get_consumer install_handlers remove_handlers start stop teardown =
     io_bind (case setup of Some m \<Rightarrow> m | None \<Rightarrow> io_return ()) (\<lambda>_.
     io_bind get_consumer (\<lambda>consumer.
     io_bind (install_handlers consumer) (\<lambda>installed.
       io_finally (start consumer)
         (io_bind (stop consumer) (\<lambda>_.
          io_bind (remove_handlers installed) (\<lambda>_.
          case teardown of Some m \<Rightarrow> m | None \<Rightarrow> io_return ()))))))"

section \<open>The checker's window\<close>

definition mark_all :: "json list \<Rightarrow> json list \<Rightarrow> json list" where
  "mark_all ids es = foldl (\<lambda>ids e. evict (remember ids e)) ids es"

definition checker_inv :: "json list \<Rightarrow> bool" where
  "checker_inv ids = (length ids \<le> 10000 \<and> distinct ids)"

lemma evict_remember_inv: "checker_inv ids \<Longrightarrow> checker_inv (evict (remember ids e))"
  by (auto simp: checker_inv_def evict_def remember_def)

lemma mark_all_inv: "checker_inv ids \<Longrightarrow> checker_inv (mark_all ids es)"
  by (induction es arbitrary: ids) (auto simp: mark_all_def evict_remember_inv)

text \<open>\<open>e\<close> has at most \<open>d\<close> newer ids behind it.\<close>

definition near_end :: "json \<Rightarrow> nat \<Rightarrow> json list \<Rightarrow> bool" where
  "near_end e d ids = (\<exists>xs ys. ids = xs @ e # ys \<and> length ys \<le> d)"

lemma near_end_remember: "near_end e d ids \<Longrightarrow> near_end e (Suc d) (remember ids f)"
  by (auto simp: near_end_def remember_def) (metis append_Cons append_assoc length_append_singleton Suc_le_mono le_Suc_eq)+

lemma near_end_evict:
  assumes "near_end e d ids" and "d \<le> 5000"
  shows "near_end e d (evict ids)"
proof (cases "length ids > 10000")
  case True
  from assms(1) obtain xs ys where ids: "ids = xs @ e # ys" "length ys \<le> d" by (auto simp: near_end_def)
  with True assms(2) have "drop 5000 ids = drop 5000 xs @ e # ys" by simp
  with True ids show ?thesis by (auto simp: near_end_def evict_def)
qed (use assms in \<open>simp add: evict_def\<close>)

lemma near_end_mark_all:
  "near_end e d ids \<Longrightarrow> d + length fs \<le> 5000 \<Longrightarrow> near_end e (d + length fs) (mark_all ids fs)"
proof (induction fs arbitrary: ids d)
  case Nil
  then show ?case by (simp add: mark_all_def)
next
  case (Cons f fs)
  then have "near_end e (Suc d) (evict (remember ids f))"
    by (intro near_end_evict near_end_remember) simp_all
  with Cons.IH [of "Suc d" "evict (remember ids f)"] Cons.prems(2) show ?case by (simp add: mark_all_def)
qed

lemma near_end_fresh: "e \<notin> set ids \<Longrightarrow> near_end e 0 (evict (remember ids e))"
  by (rule near_end_evict) (auto simp: near_end_def remember_def)

lemma near_end_in: "near_end e d ids \<Longrightarrow> e \<in> set ids"
  by (auto simp: near_end_def)

section \<open>Deduplication\<close>

text \<open>
  What the consumer needs of its checker: a marked id is known, and asking answers what is known and
  changes nothing.
\<close>

locale idempotency_contract =
  fixes ck :: "'s checker" and inv :: "'s \<Rightarrow> bool" and knows :: "'s \<Rightarrow> json set"
  assumes is_processed_known: "inv s \<Longrightarrow> hashable e \<Longrightarrow> ck_is_processed ck e s = (Inr (e \<in> knows s), s)"
    and mark_known: "inv s \<Longrightarrow> hashable e \<Longrightarrow>
          \<exists>s'. ck_mark_processed ck e s = (Inr (), s') \<and> inv s' \<and> e \<in> knows s'"
begin

lemma duplicate_skipped:
  assumes "co_checker c = Some ck" and "parse_message jc c mid data = Some ev" and "hashable (ev_id ev)"
    and "inv s" and "ev_id ev \<in> knows s"
  shows "process_message jc env c mid data s = (Inr (True, True), s)"
  using assms is_processed_known [OF assms(4,3)]
  by (simp add: process_message_def io_bind_def io_return_def)

lemma success_remembered:
  assumes "co_checker c = Some ck" and "parse_message jc c mid data = Some ev" and "hashable (ev_id ev)"
    and "inv s" and "ev_id ev \<notin> knows s"
    and "resolve_handler (co_handlers c) (ev_type ev) = Inr (Some h)"
    and "h ev s = (Inr (), s1)" and "inv s1"
    and clear: "\<And>k m s. inv s \<Longrightarrow> \<exists>s'. be_hdel env k m s = (Inr (), s') \<and> inv s' \<and> knows s' = knows s"
  shows "\<exists>s'. process_message jc env c mid data s = (Inr (True, True), s') \<and> inv s' \<and> ev_id ev \<in> knows s'"
proof -
  obtain s2 where mark: "ck_mark_processed ck (ev_id ev) s1 = (Inr (), s2)" "inv s2" "ev_id ev \<in> knows s2"
    using mark_known [OF assms(8,3)] by blast
  obtain s3 where clr: "be_hdel env (retry_key (co_stream c) (co_group c)) mid s2 = (Inr (), s3)" "inv s3" "knows s3 = knows s2"
    using clear [OF mark(2)] by blast
  have "process_message jc env c mid data s = (Inr (True, True), if co_connected c then s3 else s2)"
    using assms(1,2,5,6,7) is_processed_known [OF assms(4,3)] mark(1) clr(1)
    by (simp add: process_message_def io_bind_def io_return_def lift_res_def io_except_def retry_clear_def)
  with mark clr show ?thesis by auto
qed

end

lemma mem_checker_fields:
  "ck_is_processed (memory_checker r g n) = mem_is_processed r g"
  "ck_mark_processed (memory_checker r g n) = mem_mark_processed r g (n * 86400)"
  by (simp_all add: memory_checker_def)

interpretation mc: idempotency_contract "memory_checker None grp ttl_days" "\<lambda>s. checker_inv (fst s)" "\<lambda>s. set (fst s)"
  for grp ttl_days
proof (unfold_locales, goal_cases)
  case (1 s e)
  then show ?case by (auto simp: mem_checker_fields mem_is_processed_def)
next
  case (2 s e)
  have "e \<in> set (evict (remember (fst s) e))"
  proof (cases "e \<in> set (fst s)")
    case True
    with 2 show ?thesis by (simp add: remember_def evict_def checker_inv_def)
  next
    case False
    then show ?thesis using near_end_in [OF near_end_fresh] by blast
  qed
  with 2 show ?case
    by (simp add: mem_checker_fields mem_mark_processed_def evict_remember_inv)
qed

section \<open>Retries\<close>

text \<open>
  What the retry counter is relied on for: \<open>HINCRBY\<close> counts per message, \<open>EXPIRE\<close> does not change a
  count, \<open>HDEL\<close> and \<open>XADD\<close> do not fail. \<open>ctr\<close> reads the count of a message.
\<close>

definition counts_attempts :: "'s bus_env \<Rightarrow> string \<Rightarrow> ('s \<Rightarrow> string \<Rightarrow> int) \<Rightarrow> bool" where
  "counts_attempts env key ctr =
     ((\<forall>m s. fst (be_hincrby env key m 1 s) = Inr (ctr s m + 1)
          \<and> ctr (snd (be_hincrby env key m 1 s)) = (ctr s)(m := ctr s m + 1))
      \<and> (\<forall>n s. fst (be_expire env key n s) = Inr () \<and> ctr (snd (be_expire env key n s)) = ctr s)
      \<and> (\<forall>m s. fst (be_hdel env key m s) = Inr ())
      \<and> (\<forall>st f n s. \<exists>u. fst (be_xadd env st f n s) = Inr u))"

text \<open>A handler that fails on every delivery, and does not touch the retry counters.\<close>

definition always_fails :: "('s \<Rightarrow> string \<Rightarrow> int) \<Rightarrow> (event_envelope \<Rightarrow> ('s, unit) io) \<Rightarrow> bool" where
  "always_fails ctr h = (\<forall>ev s. \<exists>e s'. h ev s = (Inl e, s') \<and> is_Exception e \<and> ctr s' = ctr s)"

lemma try_move_ok:
  assumes "\<And>st f n s. \<exists>u. fst (be_xadd env st f n s) = Inr u"
    and "\<And>e. jc_dumps jc (JDict (map (\<lambda>(k, v). (k, JStr v)) data)) = Inl e \<Longrightarrow> is_Exception e"
  shows "\<exists>s'. try_move jc env c mid data reason s = (Inr (), s')"
proof (cases "jc_dumps jc (JDict (map (\<lambda>(k, v). (k, JStr v)) data))")
  case (Inl e)
  with assms(2) show ?thesis by (simp add: try_move_def dlq_move_def io_defs)
next
  case (Inr d)
  let ?x = "be_xadd env (dead_letter_stream_name (co_stream c))
      (dead_letter_entry mid (co_stream c) (co_group c) reason (be_time_str env s) d) 10000 s"
  obtain u s1 where "?x = (Inr u, s1)" using assms(1) by (metis prod.collapse)
  with Inr show ?thesis by (simp add: try_move_def dlq_move_def io_defs)
qed

lemma failing_delivery:
  assumes "counts_attempts env (retry_key (co_stream c) (co_group c)) ctr" and "co_connected c"
    and "co_checker c = None" and "parse_message jc c mid data = Some ev"
    and "resolve_handler (co_handlers c) (ev_type ev) = Inr (Some h)" and "always_fails ctr h"
    and "\<And>e. jc_dumps jc (JDict (map (\<lambda>(k, v). (k, JStr v)) data)) = Inl e \<Longrightarrow> is_Exception e"
  obtains s' where "process_message jc env c mid data s =
      (Inr (False, rp_max_retries (co_policy c) \<le> ctr s mid + 1), s')"
    and "ctr s mid + 1 < rp_max_retries (co_policy c) \<longrightarrow> ctr s' mid = ctr s mid + 1"
proof -
  let ?k = "retry_key (co_stream c) (co_group c)" and ?max = "rp_max_retries (co_policy c)"
  note srv = assms(1) [unfolded counts_attempts_def]
  obtain e s1 where h: "h ev s = (Inl e, s1)" "is_Exception e" "ctr s1 = ctr s"
    using assms(6) unfolding always_fails_def by blast
  obtain s2 where inc: "be_hincrby env ?k mid 1 s1 = (Inr (ctr s mid + 1), s2)" "ctr s2 = (ctr s)(mid := ctr s mid + 1)"
    using srv h(3) by (metis prod.collapse)
  obtain s3 where exp: "be_expire env ?k 86400 s2 = (Inr (), s3)" "ctr s3 = ctr s2"
    using srv by (metis prod.collapse)
  obtain s4 where mv: "try_move jc env c mid data (''Max retries exceeded: '' @ be_str env e) s3 = (Inr (), s4)"
  proof -
    have "\<exists>s4. try_move jc env c mid data (''Max retries exceeded: '' @ be_str env e) s3 = (Inr (), s4)"
      by (rule try_move_ok) (use srv assms(7) in blast)+
    then show ?thesis using that by (elim exE)
  qed
  obtain s5 where clr: "be_hdel env ?k mid s4 = (Inr (), s5)" using srv by (metis prod.collapse)
  have hf: "handle_failure jc env c mid data e s1 =
      (if ?max \<le> ctr s mid + 1 then (Inr (False, True), s5) else (Inr (False, False), s3))"
    using assms(2) inc(1) exp(1) mv clr
    by (simp add: handle_failure_def Let_def retry_increment_def io_bind_def io_except_def io_return_def retry_clear_def)
  have "process_message jc env c mid data s =
      (Inr (False, ?max \<le> ctr s mid + 1), if ?max \<le> ctr s mid + 1 then s5 else s3)"
    using assms(3-5) h(1,2) hf
    by (simp add: process_message_def io_bind_def io_return_def lift_res_def io_except_def)
  then show ?thesis using that inc(2) exp(2) by auto
qed

fun deliveries :: "json_codec \<Rightarrow> 's bus_env \<Rightarrow> 's consumer \<Rightarrow> string \<Rightarrow> (string, string) dict \<Rightarrow> nat \<Rightarrow> 's \<Rightarrow> (bool \<times> bool) res list" where
  "deliveries jc env c mid data 0 s = []"
| "deliveries jc env c mid data (Suc n) s =
     (case process_message jc env c mid data s of (r, s') \<Rightarrow> r # deliveries jc env c mid data n s')"

lemma failing_deliveries:
  assumes "counts_attempts env (retry_key (co_stream c) (co_group c)) ctr" and "co_connected c"
    and "co_checker c = None" and "parse_message jc c mid data = Some ev"
    and "resolve_handler (co_handlers c) (ev_type ev) = Inr (Some h)" and "always_fails ctr h"
    and "\<And>e. jc_dumps jc (JDict (map (\<lambda>(k, v). (k, JStr v)) data)) = Inl e \<Longrightarrow> is_Exception e"
    and "rp_max_retries (co_policy c) - ctr s mid = int (Suc n)"
  shows "deliveries jc env c mid data (Suc n) s = replicate n (Inr (False, False)) @ [Inr (False, True)]"
  using assms(8)
proof (induction n arbitrary: s)
  case 0
  obtain s' where "process_message jc env c mid data s =
      (Inr (False, rp_max_retries (co_policy c) \<le> ctr s mid + 1), s')"
    by (rule failing_delivery [OF assms(1-7), of s])
  with 0 show ?case by simp
next
  case (Suc n)
  obtain s' where run: "process_message jc env c mid data s =
      (Inr (False, rp_max_retries (co_policy c) \<le> ctr s mid + 1), s')"
    and ctr: "ctr s mid + 1 < rp_max_retries (co_policy c) \<longrightarrow> ctr s' mid = ctr s mid + 1"
    by (rule failing_delivery [OF assms(1-7), of s])
  from Suc.prems have "\<not> rp_max_retries (co_policy c) \<le> ctr s mid + 1" by linarith
  moreover from this ctr Suc.prems have "rp_max_retries (co_policy c) - ctr s' mid = int (Suc n)" by linarith
  ultimately show ?case using run Suc.IH [of s'] by simp
qed

lemma resolve_wildcard:
  assumes "dict_get handlers t = None" and "find (\<lambda>(p, _). is_wildcard p \<and> prefix (wildcard_stem p) t) handlers = Some (p, h)"
  shows "resolve_handler handlers (JStr t) = Inr (Some h)"
  using assms by (simp add: resolve_handler_def)

section \<open>A world for the witnesses\<close>

text \<open>The state: the ids of the checker, and the number of attempts counted per message.\<close>

type_synonym demo_state = "json list \<times> (string \<Rightarrow> int)"

definition demo_env :: "demo_state bus_env" where
  "demo_env =
     \<lparr>be_xadd = (\<lambda>st f n s. (Inr ''1-0'', s)), be_uuid = (\<lambda>s. (Inr ''u1'', s)),
      be_now_iso = (\<lambda>s. []), be_time_str = (\<lambda>s. []), be_str = (\<lambda>e. []),
      be_hincrby = (\<lambda>k f n s. (Inr (snd s f + 1), (fst s, (snd s)(f := snd s f + 1)))), be_hget = (\<lambda>k f s. (Inr None, s)),
      be_hdel = (\<lambda>k f s. (Inr (), s)), be_expire = (\<lambda>k n s. (Inr (), s)), be_xack = (\<lambda>st g m s. (Inr (), s)),
      be_xreadgroup = (\<lambda>g c st n b s. (Inr [], s)), be_xautoclaim = (\<lambda>g c st n b s. (Inr [], s))\<rparr>"

definition demo_consumer :: "(event_envelope \<Rightarrow> (demo_state, unit) io) \<Rightarrow> demo_state consumer" where
  "demo_consumer h =
     \<lparr>co_stream = ''bus'', co_group = ''g'', co_name = ''w1'', co_batch_size = 10, co_block_ms = 5000,
      co_policy = \<lparr>rp_max_retries = 3, rp_backoff_base = 2, rp_max_backoff = 30\<rparr>, co_checker = None,
      co_payload_mode = False, co_claim_min_idle_ms = 30000, co_claim_count = 1000, co_zombie_idle_ms = 86400000,
      co_handlers = [(''lead.*'', h)], co_connected = True\<rparr>"

definition demo_message :: "(string, string) dict" where
  "demo_message = [(''event_id'', ''e1''), (''event_type'', ''lead.created'')]"

abbreviation raising :: "event_envelope \<Rightarrow> (demo_state, unit) io" where
  "raising ev s \<equiv> (Inl (OtherException ''boom''), s)"

lemma demo_wildcard: "is_wildcard ''lead.*''"
  unfolding is_wildcard_def by (rule suffixI [of _ "''lead''"]) simp

lemma demo_parse:
  "parse_message empty_codec (c\<lparr>co_payload_mode := False\<rparr>) mid demo_message =
     Some \<lparr>ev_id = JStr ''e1'', ev_type = JStr ''lead.created'', ev_version = JStr ''1.0'', ev_tenant_id = JStr [],
       ev_timestamp = JStr [], ev_source_service = JStr [], ev_actor_id = JNull, ev_data = JDict [],
       ev_metadata = JDict [], ev_raw_message_id = mid\<rparr>"
  by (simp add: parse_message_def from_flat_def field_or_def demo_message_def empty_codec_def)

section \<open>Properties\<close>

text \<open>
  The in-memory checker keeps at most 10000 ids, without repetitions, and an id it did not know
  stays known while at most 5000 further events are marked: the eviction of the oldest 5000 cannot
  reach it.
\<close>

theorem checker_window:
  assumes "checker_inv ids"
  shows "checker_inv (mark_all ids es)
    \<and> (e \<notin> set ids \<and> length fs \<le> 5000 \<longrightarrow> e \<in> set (mark_all ids (e # fs)))"
proof (intro conjI impI)
  show "checker_inv (mark_all ids es)" by (rule mark_all_inv [OF assms])
next
  assume "e \<notin> set ids \<and> length fs \<le> 5000"
  then have "near_end e (0 + length fs) (mark_all (evict (remember ids e)) fs)"
    by (intro near_end_mark_all near_end_fresh) simp_all
  then show "e \<in> set (mark_all ids (e # fs))" by (simp add: mark_all_def near_end_in)
qed

theorem checker_window_witness:
  "checker_inv (mark_all [] [JStr ''a'', JStr ''b'']) \<and> JStr ''c'' \<in> set (mark_all [] [JStr ''c'', JStr ''a'', JStr ''b''])"
  using checker_window [of "[]" "[JStr ''a'', JStr ''b'']" "JStr ''c''" "[JStr ''a'', JStr ''b'']"]
  by (simp add: checker_inv_def)



text \<open>
  C3: a message whose handler always fails is delivered exactly \<open>max_retries\<close> times. Starting from
  no recorded attempt, the first \<open>max_retries - 1\<close> deliveries leave it in the pending list and the
  next one acknowledges it, after the attempt to move it to the dead-letter stream.
\<close>

theorem poison_message_retry_bound:
  assumes "counts_attempts env (retry_key (co_stream c) (co_group c)) ctr" and "co_connected c"
    and "co_checker c = None" and "parse_message jc c mid data = Some ev"
    and "resolve_handler (co_handlers c) (ev_type ev) = Inr (Some h)" and "always_fails ctr h"
    and "\<And>e. jc_dumps jc (JDict (map (\<lambda>(k, v). (k, JStr v)) data)) = Inl e \<Longrightarrow> is_Exception e"
    and "ctr s mid = 0" and "rp_max_retries (co_policy c) = int (Suc n)"
  shows "deliveries jc env c mid data (Suc n) s = replicate n (Inr (False, False)) @ [Inr (False, True)]"
proof (rule failing_deliveries [OF assms(1-7)])
  show "rp_max_retries (co_policy c) - ctr s mid = int (Suc n)" using assms(8,9) by linarith
qed

theorem poison_message_retry_bound_witness:
  "deliveries empty_codec demo_env (demo_consumer raising) ''1-0'' demo_message 3 ([], \<lambda>_. 0) =
     [Inr (False, False), Inr (False, False), Inr (False, True)]"
proof -
  let ?c = "demo_consumer raising"
  have parse: "parse_message empty_codec ?c ''1-0'' demo_message =
     Some \<lparr>ev_id = JStr ''e1'', ev_type = JStr ''lead.created'', ev_version = JStr ''1.0'', ev_tenant_id = JStr [],
       ev_timestamp = JStr [], ev_source_service = JStr [], ev_actor_id = JNull, ev_data = JDict [],
       ev_metadata = JDict [], ev_raw_message_id = ''1-0''\<rparr>"
    using demo_parse [of ?c] by (simp add: demo_consumer_def)
  have ctr: "counts_attempts demo_env k snd" for k
    by (simp add: counts_attempts_def demo_env_def)
  have fails: "always_fails snd raising"
    by (simp add: always_fails_def is_Exception_def)
  have res: "resolve_handler (co_handlers ?c) (JStr ''lead.created'') = Inr (Some raising)"
    by (simp add: resolve_handler_def demo_consumer_def demo_wildcard wildcard_stem_def)
  have "co_connected ?c" "co_checker ?c = None" "rp_max_retries (co_policy ?c) = int (Suc 2)"
    by (simp_all add: demo_consumer_def)
  moreover have "is_Exception e" if "jc_dumps empty_codec (JDict (map (\<lambda>(k, v). (k, JStr v)) demo_message)) = Inl e" for e
    using that by (auto simp: empty_codec_def is_Exception_def split: if_splits)
  ultimately show ?thesis
    using poison_message_retry_bound [OF ctr, where c = ?c and jc = empty_codec and mid = "''1-0''"
        and data = demo_message and h = raising and s = "([], \<lambda>_. 0)" and n = 2] parse res fails
    by (simp add: eval_nat_numeral)
qed

text \<open>
  Wildcard subscriptions match by bare prefix: the stem of \<open>x.*\<close> is \<open>x\<close> without its dot, so a
  type without a handler of its own is given to the first wildcard whose stem it begins with, also
  when the stem ends inside a word.
\<close>

theorem wildcard_matches_inside_word:
  assumes "stem \<noteq> []" and "rest \<noteq> ''.*''"
  shows "resolve_handler [(stem @ ''.*'', h)] (JStr (stem @ rest)) = Inr (Some h)"
  using assms
  by (simp add: resolve_handler_def is_wildcard_def wildcard_stem_def suffix_def)

theorem wildcard_matches_inside_word_witness:
  "resolve_handler [(''lead.*'', 7 :: nat)] (JStr ''leadership.changed'') = Inr (Some 7)"
  using wildcard_matches_inside_word [of "''lead''" "''ership.changed''" "7 :: nat"] by simp

text \<open>
  A dead letter that cannot be written is lost. When the dead-letter stream refuses the entry, a
  malformed message is acknowledged all the same: it is gone from the pending list and on no stream.
\<close>

theorem malformed_lost_when_dlq_down:
  assumes "parse_message jc c mid data = None" and "co_connected c"
    and "jc_dumps jc (JDict (map (\<lambda>(k, v). (k, JStr v)) data)) = Inr d"
    and "\<And>st f n s. \<exists>e. be_xadd env st f n s = (Inl e, s) \<and> is_Exception e"
  shows "process_batch jc env c [(mid, data)] s = io_bind (be_xack env (co_stream c) (co_group c) mid) (\<lambda>_. io_return ()) s"
proof -
  let ?x = "be_xadd env (dead_letter_stream_name (co_stream c))
      (dead_letter_entry mid (co_stream c) (co_group c) ''Malformed message'' (be_time_str env s) d) 10000 s"
  obtain e where "?x = (Inl e, s)" "is_Exception e" using assms(4) by blast
  with assms(3) have "try_move jc env c mid data ''Malformed message'' s = (Inr (), s)"
    by (simp add: try_move_def dlq_move_def io_defs)
  with assms(1,2) have "process_message jc env c mid data s = (Inr (True, True), s)"
    by (simp add: process_message_def io_bind_def io_return_def)
  with assms(2) show ?thesis by (simp add: io_bind_def consumer_ack_def)
qed

theorem malformed_lost_when_dlq_down_witness:
  "process_batch (empty_codec\<lparr>jc_dumps := (\<lambda>v. Inr ''x'')\<rparr>)
     (demo_env\<lparr>be_xadd := (\<lambda>st f n s. (Inl (RedisConnectionError ''down''), s)),
               be_xack := (\<lambda>st g m s. (Inr (), (JStr m # fst s, snd s)))\<rparr>)
     (demo_consumer raising) [(''1-0'', [(''data'', ''not json'')])] ([], \<lambda>_. 0) =
   (Inr (), ([JStr ''1-0''], \<lambda>_. 0))"
proof -
  let ?jc = "empty_codec\<lparr>jc_dumps := (\<lambda>v. Inr ''x'')\<rparr>"
  have "parse_message ?jc (demo_consumer raising) ''1-0'' [(''data'', ''not json'')] = None"
    by (simp add: parse_message_def from_flat_def field_or_def demo_consumer_def empty_codec_def)
  from malformed_lost_when_dlq_down [OF this, where env = "demo_env\<lparr>be_xadd := (\<lambda>st f n s. (Inl (RedisConnectionError ''down''), s)),
               be_xack := (\<lambda>st g m s. (Inr (), (JStr m # fst s, snd s)))\<rparr>" and d = "''x''" and s = "([], \<lambda>_. 0)"]
  show ?thesis by (simp add: demo_consumer_def is_Exception_def io_bind_def io_return_def)
qed

end
