(* ===== verification/Outbox.thy ===== *)
theory Outbox
  imports Event_Bus
begin

text \<open>
  \<open>events/outbox_drainer.py\<close>: one run of the drainer over the outbox table. The table is the list of
  its rows; the four SQL statements of the module are functions on it. The state of a run is the table
  together with the rest of the world. A statement in its own transaction is the round trip \<open>ox_commit\<close>,
  which may raise and then changes no row. The columns \<open>data\<close> and \<open>metadata\<close> hold JSON values or the
  text of JSON documents, as the driver returns them; here they are text. Rows with equal
  \<open>next_retry_at\<close> are taken in table order, which the statement leaves open.
\<close>

section \<open>Model\<close>

type_synonym table = "outbox_row list"

record 'w outbox_env =
  ox_now :: "'w \<Rightarrow> time"
  ox_commit :: "('w, unit) io"
  ox_publish :: "string \<Rightarrow> string \<Rightarrow> json \<Rightarrow> string option \<Rightarrow> json \<Rightarrow> json \<Rightarrow> ('w, string) io"
  ox_on_dead_letter :: "outbox_row \<Rightarrow> ('w, unit) io"
  ox_str :: "exn \<Rightarrow> string"

definition row_due :: "time \<Rightarrow> outbox_row \<Rightarrow> bool" where
  "row_due now r = (\<not> or_published r \<and> \<not> or_dead_letter r \<and> or_next_retry_at r \<le> now)"

text \<open>\<open>WHERE ... ORDER BY next_retry_at ASC LIMIT :limit\<close>\<close>

definition select_due :: "time \<Rightarrow> nat \<Rightarrow> table \<Rightarrow> outbox_row list" where
  "select_due now lmt tab = take lmt (sort_key or_next_retry_at (filter (row_due now) tab))"

definition update_row :: "string \<Rightarrow> (outbox_row \<Rightarrow> outbox_row) \<Rightarrow> table \<Rightarrow> table" where
  "update_row rid f tab = map (\<lambda>r. if or_id r = rid then f r else r) tab"

definition set_published :: "outbox_row \<Rightarrow> outbox_row" where
  "set_published r = r\<lparr>or_published := True\<rparr>"

definition set_dead :: "int \<Rightarrow> string \<Rightarrow> outbox_row \<Rightarrow> outbox_row" where
  "set_dead n err r = r\<lparr>or_dead_letter := True, or_retry_count := n, or_last_error := Some err\<rparr>"

definition set_retry :: "int \<Rightarrow> time \<Rightarrow> string \<Rightarrow> outbox_row \<Rightarrow> outbox_row" where
  "set_retry n due err r = r\<lparr>or_retry_count := n, or_next_retry_at := due, or_last_error := Some err\<rparr>"

definition commit_update :: "'w outbox_env \<Rightarrow> string \<Rightarrow> (outbox_row \<Rightarrow> outbox_row) \<Rightarrow> (table \<times> 'w, unit) io" where
  "commit_update env rid f s =
     (case ox_commit env (snd s) of
        (Inl e, w') \<Rightarrow> (Inl e, (fst s, w'))
      | (Inr _, w') \<Rightarrow> (Inr (), (update_row rid f (fst s), w')))"

datatype row_outcome = Published | Retried | DeadLettered

text \<open>The \<open>try\<close> body for one row: publish, then mark the row in a transaction of its own.\<close>

definition publish_row :: "'w outbox_env \<Rightarrow> outbox_row \<Rightarrow> json \<Rightarrow> json \<Rightarrow> (table \<times> 'w, row_outcome) io" where
  "publish_row env row data metadata =
     io_bind (on_snd (ox_publish env (or_event_type row) (or_tenant_id row) data
                (case or_actor_id row of Some a \<Rightarrow> if a = [] then None else Some a | None \<Rightarrow> None)
                metadata
                (case metadata of JDict d \<Rightarrow> (case dict_get d ''correlation_id'' of Some c \<Rightarrow> c | None \<Rightarrow> JNull)
                                | _ \<Rightarrow> JNull))) (\<lambda>_.
     io_bind (commit_update env (or_id row) set_published) (\<lambda>_. io_return Published))"

text \<open>The \<open>except Exception\<close> branch. Its own statements can raise, and then nothing catches them.\<close>

definition record_failed_row :: "'w outbox_env \<Rightarrow> retry_policy \<Rightarrow> outbox_row \<Rightarrow> exn \<Rightarrow> (table \<times> 'w, row_outcome) io" where
  "record_failed_row env policy row exc s =
     (let next_count = or_retry_count row + 1; err = take 500 (ox_str env exc) in
      if next_count \<ge> rp_max_retries policy
      then io_bind (commit_update env (or_id row) (set_dead next_count err)) (\<lambda>_.
           io_bind (io_except is_Exception
                      (on_snd (ox_on_dead_letter env (row\<lparr>or_retry_count := next_count,
                                 or_last_error := Some (ox_str env exc)\<rparr>)))
                      (\<lambda>_. io_return ())) (\<lambda>_.
           io_return DeadLettered)) s
      else io_bind (commit_update env (or_id row)
                      (set_retry next_count (ox_now env (snd s) + of_int (delay_for policy (nat next_count))) err))
             (\<lambda>_. io_return Retried) s)"

definition drain_row :: "json_codec \<Rightarrow> 'w outbox_env \<Rightarrow> retry_policy \<Rightarrow> outbox_row \<Rightarrow> (table \<times> 'w, row_outcome) io" where
  "drain_row jc env policy row =
     io_bind (lift_res (jc_loads jc (or_data row))) (\<lambda>data.
     io_bind (lift_res (jc_loads jc (if or_metadata row = [] then ''{}'' else or_metadata row))) (\<lambda>metadata.
     io_bind (lift_res (case metadata of JDict _ \<Rightarrow> Inr () | _ \<Rightarrow> Inl (AttributeError ''object has no attribute get''))) (\<lambda>_.
       io_except is_Exception (publish_row env row data metadata) (record_failed_row env policy row))))"

fun drain_rows ::
  "json_codec \<Rightarrow> 'w outbox_env \<Rightarrow> retry_policy \<Rightarrow> outbox_row list \<Rightarrow> (table \<times> 'w, row_outcome list) io" where
  "drain_rows jc env policy [] = io_return []"
| "drain_rows jc env policy (row # rows) =
     io_bind (drain_row jc env policy row) (\<lambda>o1.
     io_bind (drain_rows jc env policy rows) (\<lambda>os. io_return (o1 # os)))"

record drain_counts =
  dc_published :: nat
  dc_retried :: nat
  dc_dead_lettered :: nat

definition drain_outbox ::
  "json_codec \<Rightarrow> 'w outbox_env \<Rightarrow> retry_policy option \<Rightarrow> nat \<Rightarrow> (table \<times> 'w, drain_counts) io" where
  "drain_outbox jc env retry_policy batch_size =
     (let policy = (case retry_policy of Some p \<Rightarrow> p
                    | None \<Rightarrow> \<lparr>rp_max_retries = 10, rp_backoff_base = 2, rp_max_backoff = 30\<rparr>) in
      io_bind (\<lambda>s. case ox_commit env (snd s) of
                 (Inl e, w') \<Rightarrow> (Inl e, (fst s, w'))
               | (Inr _, w') \<Rightarrow> (Inr (select_due (ox_now env (snd s)) batch_size (fst s)), (fst s, w'))) (\<lambda>rows.
      io_bind (drain_rows jc env policy rows) (\<lambda>os.
      io_return \<lparr>dc_published = count_list os Published, dc_retried = count_list os Retried,
                 dc_dead_lettered = count_list os DeadLettered\<rparr>)))"

section \<open>What a run does to the table\<close>

text \<open>
  \<open>evolves\<close>: the same rows in the same order, where a row's identity and event never change and the
  two final marks are never taken back.
\<close>

definition row_evolves :: "outbox_row \<Rightarrow> outbox_row \<Rightarrow> bool" where
  "row_evolves r r' =
     (or_id r' = or_id r \<and> or_event_type r' = or_event_type r \<and> or_tenant_id r' = or_tenant_id r
      \<and> or_actor_id r' = or_actor_id r \<and> or_data r' = or_data r \<and> or_metadata r' = or_metadata r
      \<and> (or_published r \<longrightarrow> or_published r') \<and> (or_dead_letter r \<longrightarrow> or_dead_letter r'))"

definition evolves :: "table \<Rightarrow> table \<Rightarrow> bool" where
  "evolves tab tab' = list_all2 row_evolves tab tab'"

lemma evolves_refl: "evolves tab tab"
  by (simp add: evolves_def row_evolves_def list_all2_refl)

lemma evolves_trans: "evolves a b \<Longrightarrow> evolves b c \<Longrightarrow> evolves a c"
  unfolding evolves_def by (rule list_all2_trans [of row_evolves row_evolves]) (auto simp: row_evolves_def)

lemma evolves_update:
  assumes "\<And>r. row_evolves r (f r)"
  shows "evolves tab (update_row rid f tab)"
  using assms by (induction tab) (auto simp: evolves_def update_row_def row_evolves_def)

lemma row_evolves_sets [simp]:
  "row_evolves r (set_published r)" "row_evolves r (set_dead n e r)" "row_evolves r (set_retry n d e r)"
  by (simp_all add: row_evolves_def set_published_def set_dead_def set_retry_def)

abbreviation grows :: "(table \<times> 'w, 'a) io \<Rightarrow> bool" where
  "grows m \<equiv> (\<forall>tab. io_keeps (\<lambda>s. evolves tab (fst s)) m)"

lemma grows_commit:
  assumes "\<And>r. row_evolves r (f r)"
  shows "grows (commit_update env rid f)"
proof
  fix tab
  have "evolves tab (update_row rid f a)" if "evolves tab a" for a
    using evolves_trans [OF that evolves_update [OF assms]] .
  then show "io_keeps (\<lambda>s. evolves tab (fst s)) (commit_update env rid f)"
    by (auto simp: io_keeps_def commit_update_def split: prod.splits sum.splits)
qed

lemma grows_on_snd: "grows (on_snd m)"
  by (auto simp: io_keeps_def on_snd_def split: prod.splits)

lemma grows_record:
  fixes env :: "'w outbox_env"
  shows "grows (record_failed_row env policy row exc)"
proof (intro allI, unfold io_keeps_def, intro allI impI)
  fix tab and s :: "table \<times> 'w"
  assume s: "evolves tab (fst s)"
  let ?dead = "io_bind (commit_update env (or_id row) (set_dead (or_retry_count row + 1) (take 500 (ox_str env exc)))) (\<lambda>_.
           io_bind (io_except is_Exception
                      (on_snd (ox_on_dead_letter env (row\<lparr>or_retry_count := or_retry_count row + 1,
                                 or_last_error := Some (ox_str env exc)\<rparr>)))
                      (\<lambda>_. io_return ())) (\<lambda>_. io_return DeadLettered))"
  let ?retry = "\<lambda>u. io_bind (commit_update env (or_id row)
                      (set_retry (or_retry_count row + 1) (ox_now env (snd u)
                        + of_int (delay_for policy (nat (or_retry_count row + 1)))) (take 500 (ox_str env exc))))
             (\<lambda>_. io_return Retried)"
  have dead: "io_keeps (\<lambda>s. evolves tab (fst s)) ?dead"
    by (intro io_rules grows_commit [rule_format] grows_on_snd [rule_format] row_evolves_sets)
  have retry: "io_keeps (\<lambda>s. evolves tab (fst s)) (?retry s)"
    by (intro io_rules grows_commit [rule_format] row_evolves_sets)
  have "record_failed_row env policy row exc s =
      (if or_retry_count row + 1 \<ge> rp_max_retries policy then ?dead s else ?retry s s)"
    by (simp add: record_failed_row_def Let_def)
  then show "evolves tab (fst (snd (record_failed_row env policy row exc s)))"
    using io_keepsD [OF dead, of s] io_keepsD [OF retry, of s] s by simp
qed

lemma grows_drain_row: "grows (drain_row jc env policy row)"
  unfolding drain_row_def publish_row_def
  by (intro allI io_rules grows_record [rule_format] grows_commit [rule_format] grows_on_snd [rule_format] row_evolves_sets)

lemma grows_drain_rows: "grows (drain_rows jc env policy rows)"
proof (induction rows)
  case Nil
  show ?case by (auto intro: io_rules)
next
  case (Cons row rows)
  then show ?case
    unfolding drain_rows.simps by (intro allI io_rules grows_drain_row [rule_format]) auto
qed

section \<open>Healthy runs\<close>

text \<open>
  A working database and a working broker: every transaction commits, every publish succeeds and
  appends its event to \<open>plog\<close>, and the clock stands still during the run.
\<close>

definition healthy :: "'w outbox_env \<Rightarrow> ('w \<Rightarrow> (string \<times> string \<times> json) list) \<Rightarrow> bool" where
  "healthy env plog =
     ((\<forall>w. fst (ox_commit env w) = Inr () \<and> plog (snd (ox_commit env w)) = plog w
          \<and> ox_now env (snd (ox_commit env w)) = ox_now env w)
      \<and> (\<forall>et ten d a m c w. (\<exists>u. fst (ox_publish env et ten d a m c w) = Inr u)
          \<and> plog (snd (ox_publish env et ten d a m c w)) = plog w @ [(et, ten, d)]
          \<and> ox_now env (snd (ox_publish env et ten d a m c w)) = ox_now env w))"

definition row_decodes :: "json_codec \<Rightarrow> outbox_row \<Rightarrow> json \<Rightarrow> bool" where
  "row_decodes jc r d =
     (jc_loads jc (or_data r) = Inr d
      \<and> (\<exists>m. jc_loads jc (if or_metadata r = [] then ''{}'' else or_metadata r) = Inr (JDict m)))"

definition mark_rows :: "outbox_row list \<Rightarrow> table \<Rightarrow> table" where
  "mark_rows rows tab = foldl (\<lambda>t r. update_row (or_id r) set_published t) tab rows"

definition row_event :: "json_codec \<Rightarrow> outbox_row \<Rightarrow> string \<times> string \<times> json" where
  "row_event jc r = (or_event_type r, or_tenant_id r, case jc_loads jc (or_data r) of Inr d \<Rightarrow> d | Inl _ \<Rightarrow> JNull)"

lemma healthyD:
  assumes "healthy env plog"
  shows "\<exists>w'. ox_commit env w = (Inr (), w') \<and> plog w' = plog w \<and> ox_now env w' = ox_now env w"
    and "\<exists>u w'. ox_publish env et ten d a m c w = (Inr u, w') \<and> plog w' = plog w @ [(et, ten, d)]
           \<and> ox_now env w' = ox_now env w"
proof -
  from assms have "fst (ox_commit env w) = Inr ()" "plog (snd (ox_commit env w)) = plog w"
    "ox_now env (snd (ox_commit env w)) = ox_now env w" by (simp_all add: healthy_def)
  then show "\<exists>w'. ox_commit env w = (Inr (), w') \<and> plog w' = plog w \<and> ox_now env w' = ox_now env w"
    by (cases "ox_commit env w") simp
  from assms have "\<exists>u. fst (ox_publish env et ten d a m c w) = Inr u"
    "plog (snd (ox_publish env et ten d a m c w)) = plog w @ [(et, ten, d)]"
    "ox_now env (snd (ox_publish env et ten d a m c w)) = ox_now env w" by (simp_all add: healthy_def)
  then show "\<exists>u w'. ox_publish env et ten d a m c w = (Inr u, w') \<and> plog w' = plog w @ [(et, ten, d)]
           \<and> ox_now env w' = ox_now env w"
    by (cases "ox_publish env et ten d a m c w") simp
qed

lemma healthy_drain_row:
  assumes "healthy env plog" and "row_decodes jc row d"
  shows "\<exists>w'. drain_row jc env policy row (tab, w) = (Inr Published, (update_row (or_id row) set_published tab, w'))
     \<and> plog w' = plog w @ [row_event jc row] \<and> ox_now env w' = ox_now env w"
proof -
  from assms(2) obtain m where dec: "jc_loads jc (or_data row) = Inr d"
    "jc_loads jc (if or_metadata row = [] then ''{}'' else or_metadata row) = Inr (JDict m)"
    by (auto simp: row_decodes_def)
  let ?a = "case or_actor_id row of Some a \<Rightarrow> if a = [] then None else Some a | None \<Rightarrow> None"
  let ?c = "case dict_get m ''correlation_id'' of Some c \<Rightarrow> c | None \<Rightarrow> JNull"
  let ?p = "ox_publish env (or_event_type row) (or_tenant_id row) d ?a (JDict m) ?c w"
  obtain u w1 where p: "?p = (Inr u, w1)" "plog w1 = plog w @ [(or_event_type row, or_tenant_id row, d)]"
    "ox_now env w1 = ox_now env w"
    using healthyD(2) [OF assms(1)] by blast
  obtain w2 where c: "ox_commit env w1 = (Inr (), w2)" "plog w2 = plog w1" "ox_now env w2 = ox_now env w1"
    using healthyD(1) [OF assms(1)] by blast
  have "drain_row jc env policy row (tab, w) = (Inr Published, (update_row (or_id row) set_published tab, w2))"
    using dec p(1) c(1)
    by (simp add: drain_row_def publish_row_def io_bind_def lift_res_def io_except_def on_snd_def commit_update_def
        io_return_def)
  with p c dec(1) show ?thesis by (auto simp: row_event_def)
qed

lemma healthy_drain_rows:
  assumes "healthy env plog" and "\<forall>r\<in>set rows. \<exists>d. row_decodes jc r d"
  shows "\<exists>w'. drain_rows jc env policy rows (tab, w) = (Inr (replicate (length rows) Published), (mark_rows rows tab, w'))
     \<and> plog w' = plog w @ map (row_event jc) rows \<and> ox_now env w' = ox_now env w"
  using assms(2)
proof (induction rows arbitrary: tab w)
  case Nil
  then show ?case by (simp add: io_return_def mark_rows_def)
next
  case (Cons row rows)
  then obtain d where "row_decodes jc row d" by auto
  from healthy_drain_row [OF assms(1) this, of policy tab w]
  obtain w1 where one: "drain_row jc env policy row (tab, w) =
      (Inr Published, (update_row (or_id row) set_published tab, w1))"
    "plog w1 = plog w @ [row_event jc row]" "ox_now env w1 = ox_now env w" by blast
  from Cons obtain w2 where "drain_rows jc env policy rows (update_row (or_id row) set_published tab, w1) =
      (Inr (replicate (length rows) Published), (mark_rows rows (update_row (or_id row) set_published tab), w2))"
    "plog w2 = plog w1 @ map (row_event jc) rows" "ox_now env w2 = ox_now env w1"
    by fastforce
  with one show ?case by (simp add: io_bind_def io_return_def mark_rows_def)
qed

lemma update_row_keeps_mark:
  "r \<in> set (update_row rid set_published tab) \<Longrightarrow> (\<exists>q\<in>set tab. or_id r = or_id q \<and> (or_published q \<or> or_id q = rid \<longrightarrow> or_published r))"
  by (auto simp: update_row_def set_published_def split: if_splits)

lemma mark_rows_published:
  "r \<in> set (mark_rows rows tab) \<Longrightarrow> or_id r \<in> or_id ` set rows \<Longrightarrow> or_published r"
proof (induction rows arbitrary: r rule: rev_induct)
  case Nil
  then show ?case by simp
next
  case (snoc x rows)
  from snoc.prems(1) obtain q where q: "q \<in> set (mark_rows rows tab)" "or_id r = or_id q"
    "or_published q \<or> or_id q = or_id x \<longrightarrow> or_published r"
    unfolding mark_rows_def foldl_append foldl.simps using update_row_keeps_mark by blast
  with snoc.IH [OF q(1)] snoc.prems(2) show ?case by auto
qed

lemma drain_rows_length: "drain_rows jc env policy rows s = (Inr os, s') \<Longrightarrow> length os = length rows"
  by (induction rows arbitrary: s os s') (auto elim!: io_bind_InrE simp: io_return_def)

lemma outcome_counts: "count_list os Published + count_list os Retried + count_list os DeadLettered = length os"
proof (induction os)
  case (Cons x xs)
  then show ?case by (cases x) auto
qed simp

lemma healthy_drain_outbox:
  assumes "healthy env plog" and "\<forall>r\<in>set tab. \<exists>d. row_decodes jc r d"
    and rows_def: "rows = select_due (ox_now env w) n tab"
  shows "\<exists>w'. drain_outbox jc env policy n (tab, w) =
       (Inr \<lparr>dc_published = length rows, dc_retried = 0, dc_dead_lettered = 0\<rparr>, (mark_rows rows tab, w'))
     \<and> plog w' = plog w @ map (row_event jc) rows"
proof -
  let ?pol = "case policy of Some p \<Rightarrow> p | None \<Rightarrow> \<lparr>rp_max_retries = 10, rp_backoff_base = 2, rp_max_backoff = 30\<rparr>"
  obtain w1 where sel: "ox_commit env w = (Inr (), w1)" "plog w1 = plog w"
    using healthyD(1) [OF assms(1), of w] by blast
  have "set rows \<subseteq> set tab"
    unfolding rows_def select_due_def using set_take_subset by fastforce
  with assms(2) have "\<forall>r\<in>set rows. \<exists>d. row_decodes jc r d" by blast
  from healthy_drain_rows [OF assms(1) this, of ?pol tab w1] obtain w2 where
    "drain_rows jc env ?pol rows (tab, w1) = (Inr (replicate (length rows) Published), (mark_rows rows tab, w2))"
    "plog w2 = plog w1 @ map (row_event jc) rows" by blast
  moreover have "count_list (replicate k Published) Published = k" "count_list (replicate k Published) Retried = 0"
    "count_list (replicate k Published) DeadLettered = 0" for k by (induction k) auto
  ultimately show ?thesis using sel
    by (simp add: drain_outbox_def Let_def io_bind_def io_return_def rows_def)
qed

section \<open>A world for the witnesses\<close>

definition demo_row :: outbox_row where
  "demo_row = \<lparr>or_id = ''r1'', or_event_type = ''lead.created'', or_tenant_id = ''t1'', or_actor_id = None,
     or_data = ''{}'', or_metadata = ''{}'', or_retry_count = 0, or_next_retry_at = 0, or_published = False,
     or_dead_letter = False, or_last_error = None\<rparr>"

definition demo_outbox :: "(string \<times> string \<times> json) list outbox_env" where
  "demo_outbox = \<lparr>ox_now = (\<lambda>w. 1), ox_commit = (\<lambda>w. (Inr (), w)),
     ox_publish = (\<lambda>et ten d a m c w. (Inr ''id'', w @ [(et, ten, d)])),
     ox_on_dead_letter = (\<lambda>r w. (Inr (), w)), ox_str = (\<lambda>e. [])\<rparr>"

lemma demo_outbox_healthy: "healthy demo_outbox (\<lambda>w. w)"
  by (simp add: healthy_def demo_outbox_def)

lemma demo_row_decodes: "row_decodes empty_codec demo_row (JDict [])"
  by (simp add: row_decodes_def empty_codec_def demo_row_def)

lemma demo_event: "row_event empty_codec demo_row = (''lead.created'', ''t1'', JDict [])"
  by (simp add: row_event_def demo_row_def empty_codec_def)

lemma demo_now: "ox_now demo_outbox w = 1"
  by (simp add: demo_outbox_def)

lemma demo_select: "select_due 1 n [demo_row] = take n [demo_row]"
  by (simp add: select_due_def row_due_def demo_row_def)

section \<open>Properties\<close>

text \<open>
  C1: no outbox row is ever lost. Whatever publishing, the database and the callback do, and also
  when the run is aborted by an exception, the table has the same rows with the same events in the
  same order, no row loses its published or dead-letter mark, and a run that returns has accounted for
  every row it selected: the three counts add up to the size of the batch.
\<close>

theorem drain_loses_no_row:
  assumes "drain_outbox jc env policy n (tab, w) = (r, (tab', w'))"
  shows "evolves tab tab'
    \<and> (\<forall>counts. r = Inr counts \<longrightarrow> dc_published counts + dc_retried counts + dc_dead_lettered counts
          = length (select_due (ox_now env w) n tab))"
proof -
  let ?pol = "case policy of Some p \<Rightarrow> p | None \<Rightarrow> \<lparr>rp_max_retries = 10, rp_backoff_base = 2, rp_max_backoff = 30\<rparr>"
  let ?rows = "select_due (ox_now env w) n tab"
  obtain x w1 where com: "ox_commit env w = (x, w1)" by (rule prod.exhaust)
  show ?thesis
  proof (cases x)
    case (Inl e)
    with assms com have "tab' = tab" "r = Inl e" by (auto simp: drain_outbox_def Let_def io_bind_def)
    then show ?thesis by (simp add: evolves_refl)
  next
    case (Inr u)
    obtain y t2 w2 where run: "drain_rows jc env ?pol ?rows (tab, w1) = (y, (t2, w2))" by (metis prod.collapse)
    have "evolves tab t2"
      using io_keepsD [OF grows_drain_rows [rule_format, of tab jc env ?pol ?rows], of "(tab, w1)"] run
      by (simp add: evolves_refl)
    moreover have "tab' = t2"
      using assms com Inr run by (cases y) (auto simp: drain_outbox_def Let_def io_bind_def io_return_def)
    moreover have "dc_published counts + dc_retried counts + dc_dead_lettered counts = length ?rows" if "r = Inr counts" for counts
    proof -
      from assms com Inr run that obtain os where os: "y = Inr os" and
        counts: "counts = \<lparr>dc_published = count_list os Published, dc_retried = count_list os Retried,
                 dc_dead_lettered = count_list os DeadLettered\<rparr>"
        by (cases y) (auto simp: drain_outbox_def Let_def io_bind_def io_return_def)
      from drain_rows_length [OF run [unfolded os]] counts show ?thesis by (simp add: outcome_counts)
    qed
    ultimately show ?thesis by blast
  qed
qed

theorem drain_loses_no_row_witness:
  "evolves [demo_row] (fst (snd (drain_outbox empty_codec demo_outbox None 10 ([demo_row], []))))"
proof -
  obtain r tab' w' where run: "drain_outbox empty_codec demo_outbox None 10 ([demo_row], []) = (r, (tab', w'))"
    by (metis prod.collapse)
  from drain_loses_no_row [OF run] run show ?thesis by simp
qed



text \<open>
  Two drainers publish the same rows twice. The row locks of \<open>FOR UPDATE SKIP LOCKED\<close> end with the
  transaction of the \<open>SELECT\<close>, before anything is published: a drainer that has selected its batch and
  then loses the processor to a complete run of another drainer publishes the whole batch again.
\<close>

theorem two_drainers_publish_twice:
  assumes "healthy env plog" and "\<forall>r\<in>set tab. \<exists>d. row_decodes jc r d"
    and "rows = select_due (ox_now env w) n tab"
    and "drain_outbox jc env policy n (tab, w) = (r1, s1)"
    and "drain_rows jc env policy' rows s1 = (r2, s2)"
  shows "plog (snd s2) = plog w @ map (row_event jc) rows @ map (row_event jc) rows"
proof -
  obtain w1 where run: "s1 = (mark_rows rows tab, w1)" "plog w1 = plog w @ map (row_event jc) rows"
    using healthy_drain_outbox [OF assms(1-3), of policy] assms(4) by auto
  have "set rows \<subseteq> set tab"
    unfolding assms(3) select_due_def using set_take_subset by fastforce
  with assms(2) have "\<forall>r\<in>set rows. \<exists>d. row_decodes jc r d" by blast
  from healthy_drain_rows [OF assms(1) this, of policy' "mark_rows rows tab" w1] assms(5) run
  show ?thesis by auto
qed

theorem two_drainers_publish_twice_witness:
  "snd (snd (drain_rows empty_codec demo_outbox \<lparr>rp_max_retries = 10, rp_backoff_base = 2, rp_max_backoff = 30\<rparr>
      [demo_row] (snd (drain_outbox empty_codec demo_outbox None 10 ([demo_row], []))))) =
   [(''lead.created'', ''t1'', JDict []), (''lead.created'', ''t1'', JDict [])]"
proof -
  obtain r1 s1 where run1: "drain_outbox empty_codec demo_outbox None 10 ([demo_row], []) = (r1, s1)" by (rule prod.exhaust)
  obtain r2 s2 where run2: "drain_rows empty_codec demo_outbox \<lparr>rp_max_retries = 10, rp_backoff_base = 2, rp_max_backoff = 30\<rparr>
      [demo_row] s1 = (r2, s2)" by (rule prod.exhaust)
  have dec: "\<forall>r\<in>set [demo_row]. \<exists>d. row_decodes empty_codec r d" using demo_row_decodes by auto
  have "[demo_row] = select_due (ox_now demo_outbox []) 10 [demo_row]"
    by (simp add: demo_now demo_select)
  from two_drainers_publish_twice [OF demo_outbox_healthy dec this run1 run2] run1 run2 show ?thesis
    by (simp add: demo_event)
qed

end
