(* ===== verification/Path_Normalizer.thy ===== *)
theory Path_Normalizer
  imports Prelude
begin

text \<open>
  \<open>monitoring/path_normalizer.py\<close>, which the metrics middleware and the rate limiter's key builder call: the two
  substitutions as functions on the text, and their equality with a map over the segments of the path.
\<close>

section \<open>The substitutions\<close>

definition all_hex :: "nat \<Rightarrow> string \<Rightarrow> bool" where
  "all_hex n s = (n \<le> length s \<and> list_all hex_char (take n s))"

text \<open>The text begins with a UUID: groups of 8, 4, 4, 4 and 12 hexadecimal digits with dashes between them.\<close>

definition uuid_at :: "string \<Rightarrow> bool" where
  "uuid_at s =
     (36 \<le> length s \<and> all_hex 8 s \<and> s ! 8 = CHR ''-'' \<and> all_hex 4 (drop 9 s) \<and> s ! 13 = CHR ''-'' \<and> all_hex 4 (drop 14 s) \<and>
      s ! 18 = CHR ''-'' \<and> all_hex 4 (drop 19 s) \<and> s ! 23 = CHR ''-'' \<and> all_hex 12 (drop 24 s))"

fun sub_uuid :: "string \<Rightarrow> string" where
  "sub_uuid [] = []"
| "sub_uuid (c # s) =
     (if c = CHR ''/'' \<and> uuid_at s then ''/{id}'' @ sub_uuid (drop 36 s) else c # sub_uuid s)"

text \<open>\<open>/\d+(?=/|$)\<close>: digits up to a slash, the end, or a newline at the end.\<close>

definition at_end :: "string \<Rightarrow> bool" where
  "at_end s = (s = [] \<or> s = [CHR 0x0A] \<or> hd s = CHR ''/'')"

function sub_numeric :: "string \<Rightarrow> string" where
  "sub_numeric [] = []"
| "sub_numeric (c # s) =
     (if c = CHR ''/'' \<and> takeWhile is_digit s \<noteq> [] \<and> at_end (dropWhile is_digit s)
      then ''/{id}'' @ sub_numeric (dropWhile is_digit s)
      else c # sub_numeric s)"
  by pat_completeness auto
termination
  by (relation "measure length") (auto simp: le_imp_less_Suc length_dropWhile_le)

definition normalize_path :: "string \<Rightarrow> string" where
  "normalize_path path = sub_numeric (sub_uuid path)"

section \<open>Segments\<close>

text \<open>The normaliser as a map over the segments of the path: the reference the two substitutions are compared with.\<close>

definition seg_uuid :: "string \<Rightarrow> string" where
  "seg_uuid s = (if uuid_at s then ''{id}'' @ drop 36 s else s)"

definition seg_numeric :: "string \<Rightarrow> string" where
  "seg_numeric s = (if s \<noteq> [] \<and> list_all is_digit s then ''{id}'' else s)"

definition no_slash :: "string \<Rightarrow> bool" where
  "no_slash s = (CHR ''/'' \<notin> set s)"

definition tail_ok :: "string \<Rightarrow> bool" where
  "tail_ok s = (s = [] \<or> hd s = CHR ''/'')"

lemma all_hex_nth: "all_hex n (drop k s) \<Longrightarrow> k \<le> i \<Longrightarrow> i < k + n \<Longrightarrow> hex_char (s ! i)"
proof -
  assume h: "all_hex n (drop k s)" and i: "k \<le> i" "i < k + n"
  then have "take n (drop k s) ! (i - k) = s ! i" "i - k < length (take n (drop k s))" by (auto simp: all_hex_def)
  with h show ?thesis by (metis all_hex_def list_all_length)
qed

lemma uuid_chars: "uuid_at s \<Longrightarrow> i < 36 \<Longrightarrow> hex_char (s ! i) \<or> s ! i = CHR ''-''"
proof -
  assume u: "uuid_at s" and i: "i < 36"
  consider "i < 8" | "i = 8 \<or> i = 13 \<or> i = 18 \<or> i = 23" | "9 \<le> i" "i < 13" | "14 \<le> i" "i < 18" | "19 \<le> i" "i < 23" | "24 \<le> i"
    by linarith
  then show ?thesis
  proof cases
    case 1
    with u all_hex_nth [of 8 0 s i] show ?thesis by (simp add: uuid_at_def)
  next
    case 2
    with u show ?thesis by (auto simp: uuid_at_def)
  next
    case 3
    with u all_hex_nth [of 4 9 s i] show ?thesis by (simp add: uuid_at_def)
  next
    case 4
    with u all_hex_nth [of 4 14 s i] show ?thesis by (simp add: uuid_at_def)
  next
    case 5
    with u all_hex_nth [of 4 19 s i] show ?thesis by (simp add: uuid_at_def)
  next
    case 6
    with u i all_hex_nth [of 12 24 s i] show ?thesis by (simp add: uuid_at_def)
  qed
qed

lemma uuid_no_slash: "uuid_at s \<Longrightarrow> i < 36 \<Longrightarrow> s ! i \<noteq> CHR ''/'' \<and> s ! i \<noteq> CHR 0x0A"
  using uuid_chars [of s i] by (auto simp: hex_char_def is_digit_def Let_def)

lemma uuid_at_append:
  assumes "no_slash s" and "tail_ok t"
  shows "uuid_at (s @ t) = uuid_at s"
proof (cases "36 \<le> length s")
  case True
  then have "4 \<le> length s + length t - 9" "4 \<le> length s - 9" "4 \<le> length s + length t - 14" "4 \<le> length s - 14"
    "4 \<le> length s + length t - 19" "4 \<le> length s - 19" "12 \<le> length s + length t - 24" "12 \<le> length s - 24" by simp_all
  with True show ?thesis by (simp add: uuid_at_def all_hex_def nth_append)
next
  case False
  have "\<not> uuid_at (s @ t)"
  proof
    assume u: "uuid_at (s @ t)"
    with False have "t \<noteq> []" by (auto simp: uuid_at_def)
    with assms(2) have "(s @ t) ! length s = CHR ''/''" by (cases t) (auto simp: tail_ok_def)
    with uuid_no_slash [OF u, of "length s"] False show False by simp
  qed
  with False show ?thesis by (auto simp: uuid_at_def)
qed

lemma sub_uuid_plain: "no_slash s \<Longrightarrow> sub_uuid (s @ t) = s @ sub_uuid t"
  by (induction s) (auto simp: no_slash_def)

lemma sub_uuid_segment:
  assumes "no_slash s" and "tail_ok t"
  shows "sub_uuid (CHR ''/'' # s @ t) = CHR ''/'' # seg_uuid s @ sub_uuid t"
proof (cases "uuid_at s")
  case True
  then have "36 \<le> length s" by (simp add: uuid_at_def)
  then have "drop 36 (s @ t) = drop 36 s @ t" by simp
  moreover have "no_slash (drop 36 s)" using assms(1) by (auto simp: no_slash_def dest: in_set_dropD)
  ultimately show ?thesis using True uuid_at_append [OF assms] sub_uuid_plain by (simp add: seg_uuid_def)
next
  case False
  with uuid_at_append [OF assms] sub_uuid_plain [OF assms(1)] show ?thesis by (simp add: seg_uuid_def)
qed

definition segments :: "string list \<Rightarrow> string" where
  "segments ss = concat (map (\<lambda>s. CHR ''/'' # s) ss)"

lemma segments_tail_ok: "tail_ok (segments ss)"
  by (cases ss) (simp_all add: segments_def tail_ok_def)

lemma sub_uuid_segments: "\<forall>s \<in> set ss. no_slash s \<Longrightarrow> sub_uuid (segments ss) = segments (map seg_uuid ss)"
proof (induction ss)
  case (Cons s ss)
  then show ?case
    using sub_uuid_segment [of s "segments ss"] segments_tail_ok [of ss] by (simp add: segments_def)
qed (simp add: segments_def)

lemma digits_append:
  assumes "no_slash s" and "tail_ok t"
  shows "takeWhile is_digit (s @ t) = takeWhile is_digit s \<and> dropWhile is_digit (s @ t) = dropWhile is_digit s @ t"
proof (cases "list_all is_digit s")
  case True
  moreover have "takeWhile is_digit t = [] \<and> dropWhile is_digit t = t"
    using assms(2) by (cases t) (auto simp: tail_ok_def is_digit_def Let_def)
  moreover have all: "\<And>x. x \<in> set s \<Longrightarrow> is_digit x" using True by (simp add: list_all_iff)
  moreover have "takeWhile is_digit s = s" "dropWhile is_digit s = []" using all by (simp_all add: takeWhile_eq_all_conv)
  moreover have "takeWhile is_digit (s @ t) = s @ takeWhile is_digit t" by (rule takeWhile_append2) (rule all)
  moreover have "dropWhile is_digit (s @ t) = dropWhile is_digit t" by (rule dropWhile_append2) (rule all)
  ultimately show ?thesis by (metis append_Nil append_Nil2)
next
  case False
  then show ?thesis by (auto simp: list_all_iff takeWhile_append dropWhile_append)
qed

lemma sub_numeric_plain: "no_slash s \<Longrightarrow> sub_numeric (s @ t) = s @ sub_numeric t"
  by (induction s) (auto simp: no_slash_def)

lemma sub_numeric_segment:
  assumes "no_slash s" and "CHR 0x0A \<notin> set s" and "tail_ok t"
  shows "sub_numeric (CHR ''/'' # s @ t) = CHR ''/'' # seg_numeric s @ sub_numeric t"
proof -
  have "at_end (dropWhile is_digit s @ t) = list_all is_digit s"
  proof (cases "dropWhile is_digit s")
    case Nil
    then have "list_all is_digit s" by (simp add: list_all_iff dropWhile_eq_Nil_conv)
    with Nil show ?thesis using assms(3) by (simp only: at_end_def tail_ok_def append_Nil) blast
  next
    case (Cons c cs)
    then have "c \<in> set s" by (metis list.set_intros(1) set_dropWhileD)
    with assms(1,2) have "c \<noteq> CHR ''/''" "c \<noteq> CHR 0x0A" by (auto simp: no_slash_def)
    moreover have "\<not> list_all is_digit s" using Cons by (auto simp: list_all_iff dropWhile_eq_Nil_conv [symmetric])
    ultimately show ?thesis using Cons by (simp add: at_end_def)
  qed
  note at_end = this
  show ?thesis
  proof (cases "s \<noteq> [] \<and> list_all is_digit s")
    case True
    then have "takeWhile is_digit (s @ t) \<noteq> []" by (cases s) auto
    moreover have d: "dropWhile is_digit s = []" using True by (simp add: list_all_iff dropWhile_eq_Nil_conv)
    moreover from d have "dropWhile is_digit (s @ t) = t" using conjunct2 [OF digits_append [OF assms(1,3)]] by (simp only: append_Nil)
    moreover have "at_end t" using at_end True d by (simp only: append_Nil)
    ultimately show ?thesis using True by (simp add: seg_numeric_def)
  next
    case False
    have "\<not> (takeWhile is_digit s \<noteq> [] \<and> list_all is_digit s)" using False by (cases s) auto
    with at_end digits_append [OF assms(1,3)]
    have "sub_numeric (CHR ''/'' # s @ t) = CHR ''/'' # sub_numeric (s @ t)" by auto
    with False sub_numeric_plain [OF assms(1)] show ?thesis by (auto simp: seg_numeric_def)
  qed
qed

lemma sub_numeric_segments:
  "\<forall>s \<in> set ss. no_slash s \<and> CHR 0x0A \<notin> set s \<Longrightarrow> sub_numeric (segments ss) = segments (map seg_numeric ss)"
proof (induction ss)
  case (Cons s ss)
  then show ?case
    using sub_numeric_segment [of s "segments ss"] segments_tail_ok [of ss] by (simp add: segments_def)
qed (simp add: segments_def)

lemma normalize_segments:
  assumes "no_slash s0" and "\<forall>s \<in> set ss. no_slash s \<and> CHR 0x0A \<notin> set s"
  shows "normalize_path (s0 @ segments ss) = s0 @ segments (map (\<lambda>s. seg_numeric (seg_uuid s)) ss)"
proof -
  have ok: "\<forall>s \<in> set (map seg_uuid ss). no_slash s \<and> CHR 0x0A \<notin> set s"
    using assms(2) in_set_dropD by (fastforce simp: seg_uuid_def no_slash_def)
  have "sub_uuid (s0 @ segments ss) = s0 @ segments (map seg_uuid ss)"
    using assms sub_uuid_segments [of ss] by (simp add: sub_uuid_plain)
  with ok assms(1) sub_numeric_segments [of "map seg_uuid ss"] show ?thesis
    by (simp add: normalize_path_def sub_numeric_plain comp_def)
qed

definition seg_normal :: "string \<Rightarrow> string" where
  "seg_normal s = seg_numeric (seg_uuid s)"

lemma uuid_hd: "uuid_at s \<Longrightarrow> hex_char (hd s)"
  using all_hex_nth [of 8 0 s 0] by (cases s) (auto simp: uuid_at_def)

lemma id_not_uuid: "\<not> uuid_at (CHR ''{'' # s)"
proof
  assume "uuid_at (CHR ''{'' # s)"
  from uuid_hd [OF this] show False by (simp add: hex_char_def is_digit_def Let_def)
qed

lemma id_not_digits: "\<not> list_all is_digit (CHR ''{'' # s)"
  by (simp add: is_digit_def)

lemma seg_normal_clean: "\<not> uuid_at (seg_normal s) \<and> \<not> (seg_normal s \<noteq> [] \<and> list_all is_digit (seg_normal s))"
  using id_not_uuid id_not_digits by (auto simp: seg_normal_def seg_numeric_def seg_uuid_def)

lemma seg_normal_idem: "seg_normal (seg_normal s) = seg_normal s"
  using seg_normal_clean [of s] by (auto simp: seg_normal_def [of "seg_normal s"] seg_numeric_def seg_uuid_def)

lemma seg_normal_chars: "no_slash s \<and> CHR 0x0A \<notin> set s \<Longrightarrow> no_slash (seg_normal s) \<and> CHR 0x0A \<notin> set (seg_normal s)"
  by (auto simp: seg_normal_def seg_numeric_def seg_uuid_def no_slash_def dest: in_set_dropD)

section \<open>Properties\<close>

text \<open>C38:
  \<open>normalize_path\<close> is the map over the slash-separated segments that replaces a leading UUID, then an all-digit
  segment, by \<open>{id}\<close>; the number of segments is kept, no UUID or number is left in the route label,
  and normalising twice is normalising once.
\<close>
theorem normalize_path_by_segments:
  assumes "no_slash s0" and "\<forall>s \<in> set ss. no_slash s \<and> CHR 0x0A \<notin> set s"
  shows "normalize_path (s0 @ segments ss) = s0 @ segments (map seg_normal ss) \<and>
    (\<forall>s \<in> set (map seg_normal ss). \<not> uuid_at s \<and> \<not> (s \<noteq> [] \<and> list_all is_digit s)) \<and>
    normalize_path (normalize_path (s0 @ segments ss)) = normalize_path (s0 @ segments ss)"
proof -
  have once: "normalize_path (s0 @ segments ss') = s0 @ segments (map seg_normal ss')"
    if "\<forall>s \<in> set ss'. no_slash s \<and> CHR 0x0A \<notin> set s" for ss'
    using normalize_segments [OF assms(1) that] by (simp add: seg_normal_def [abs_def])
  have "\<forall>s \<in> set (map seg_normal ss). no_slash s \<and> CHR 0x0A \<notin> set s"
    using assms(2) seg_normal_chars by auto
  from once [OF this] have "normalize_path (s0 @ segments (map seg_normal ss)) = s0 @ segments (map seg_normal ss)"
    by (simp add: comp_def seg_normal_idem)
  moreover have "\<forall>s \<in> set (map seg_normal ss). \<not> uuid_at s \<and> \<not> (s \<noteq> [] \<and> list_all is_digit s)"
    using seg_normal_clean by auto
  ultimately show ?thesis using once [OF assms(2)] by simp
qed

theorem normalize_path_by_segments_witness:
  "normalize_path ([] @ segments [''api'', ''leads'', ''42'']) = ''/api/leads/{id}''"
proof -
  have "normalize_path ([] @ segments [''api'', ''leads'', ''42'']) = [] @ segments (map seg_normal [''api'', ''leads'', ''42''])"
    by (rule conjunct1 [OF normalize_path_by_segments]) (simp_all add: no_slash_def)
  also have "\<dots> = ''/api/leads/{id}''"
    by (simp add: segments_def seg_normal_def seg_numeric_def seg_uuid_def uuid_at_def is_digit_def)
  finally show ?thesis .
qed

end
