(* ===== verification/Rate_Limit.thy ===== *)
theory Rate_Limit
  imports Api_Exceptions Contracts Path_Normalizer
begin

text \<open>
  \<open>rate_limiter/\<close>: the in-memory fallback, the two Lua scripts and the algorithms that run them,
  the limiter and the FastAPI dependency. A Redis client object has type \<open>'r\<close>; the Redis commands, the pool and the clock are fields of
  \<open>rl_env\<close>. \<open>EVAL\<close> is the field \<open>rl_eval\<close>, which is given the script as an effect on the
  server.
\<close>

section \<open>Schemas\<close>

datatype Algorithm = FIXED_WINDOW | SLIDING_WINDOW

datatype FailMode = FAIL_OPEN | FAIL_CLOSED

record window_config =
  window_limit :: int
  window_seconds :: int

record rate_limit_config =
  cfg_windows :: "window_config list"
  cfg_algorithm :: Algorithm
  cfg_fail_mode :: FailMode
  cfg_key_prefix :: string
  cfg_methods :: "string list option"

record rate_limit_result =
  allowed :: bool
  rl_limit :: int
  remaining :: int
  reset_at :: int
  retry_after :: int

record rate_limit_info =
  rl_results :: "rate_limit_result list"
  is_blocked :: bool

definition default_config :: rate_limit_config where
  "default_config =
     \<lparr>cfg_windows = [\<lparr>window_limit = 100, window_seconds = 60\<rparr>], cfg_algorithm = FIXED_WINDOW,
      cfg_fail_mode = FAIL_OPEN, cfg_key_prefix = ''rl'', cfg_methods = None\<rparr>"

section \<open>\<open>MemoryFallback\<close>\<close>

record bucket =
  bucket_count :: int
  reset_time :: time

type_synonym buckets = "(string, bucket) dict"

definition DEFAULT_CLEANUP_THRESHOLD :: nat where
  "DEFAULT_CLEANUP_THRESHOLD = 10000"

definition cleanup_expired :: "time \<Rightarrow> buckets \<Rightarrow> buckets" where
  "cleanup_expired now bs = filter (\<lambda>(_, b). \<not> now > reset_time b) bs"

definition memory_check :: "nat \<Rightarrow> time \<Rightarrow> string \<Rightarrow> int \<Rightarrow> int \<Rightarrow> buckets \<Rightarrow> rate_limit_result \<times> buckets" where
  "memory_check cleanup_threshold now key lmt win bs0 =
     (let bs = (if length bs0 > cleanup_threshold then cleanup_expired now bs0 else bs0);
          fresh = (let rt = now + of_int win in
            (\<lparr>allowed = True, rl_limit = lmt, remaining = max 0 (lmt - 1), reset_at = trunc rt,
              retry_after = 0\<rparr>,
             dict_set key \<lparr>bucket_count = 1, reset_time = rt\<rparr> bs))
      in case dict_get bs key of
           None \<Rightarrow> fresh
         | Some b \<Rightarrow>
             if now > reset_time b then fresh
             else if bucket_count b \<ge> lmt
               then (\<lparr>allowed = False, rl_limit = lmt, remaining = 0, reset_at = trunc (reset_time b),
                      retry_after = max 1 (trunc (reset_time b - now))\<rparr>, bs)
             else (\<lparr>allowed = True, rl_limit = lmt, remaining = max 0 (lmt - (bucket_count b + 1)),
                    reset_at = trunc (reset_time b), retry_after = 0\<rparr>,
                   dict_set key (b\<lparr>bucket_count := bucket_count b + 1\<rparr>) bs))"

section \<open>The Lua scripts and the algorithms\<close>

record ('r, 'w) rl_env =
  rl_time :: "'w \<Rightarrow> time"
  rl_provider :: "('w, 'r option) io"
  rl_url_client :: "('w, 'r) io"
  rl_eval :: "'r \<Rightarrow> ('w, int list) io \<Rightarrow> ('w, int list) io"
  rl_get :: "'r \<Rightarrow> string \<Rightarrow> ('w, string option) io"
  rl_ttl :: "'r \<Rightarrow> string \<Rightarrow> ('w, int) io"
  rl_delete :: "'r \<Rightarrow> string list \<Rightarrow> ('w, int) io"
  cmd_incr :: "string \<Rightarrow> ('w, int) io"
  cmd_expire :: "string \<Rightarrow> int \<Rightarrow> ('w, unit) io"
  cmd_ttl :: "string \<Rightarrow> ('w, int) io"
  cmd_zremrangebyscore :: "string \<Rightarrow> time \<Rightarrow> time \<Rightarrow> ('w, unit) io"
  cmd_zadd :: "string \<Rightarrow> time \<Rightarrow> string \<Rightarrow> ('w, unit) io"
  cmd_zcard :: "string \<Rightarrow> ('w, int) io"
  lua_number :: "time \<Rightarrow> string"
  lua_random :: "int \<Rightarrow> 'w \<Rightarrow> int"

definition FIXED_WINDOW_LUA :: "('r, 'w) rl_env \<Rightarrow> string \<Rightarrow> int \<Rightarrow> int \<Rightarrow> ('w, int list) io" where
  "FIXED_WINDOW_LUA env key lmt ttl =
     io_bind (cmd_incr env key) (\<lambda>count.
     io_bind (if count = 1 then cmd_expire env key ttl else io_return ()) (\<lambda>_.
     io_bind (cmd_ttl env key) (\<lambda>remaining_ttl.
     io_return [count, if count > lmt then 1 else 0, remaining_ttl])))"

definition SLIDING_WINDOW_LUA ::
  "('r, 'w) rl_env \<Rightarrow> string \<Rightarrow> time \<Rightarrow> int \<Rightarrow> int \<Rightarrow> ('w, int list) io" where
  "SLIDING_WINDOW_LUA env key now window_size lmt =
     io_bind (cmd_zremrangebyscore env key 0 (now - of_int window_size)) (\<lambda>_ w.
     io_bind (cmd_zadd env key now
               (lua_number env now @ '':'' @ string_of_int (lua_random env 1000000 w))) (\<lambda>_.
     io_bind (cmd_zcard env key) (\<lambda>count.
     io_bind (cmd_expire env key window_size) (\<lambda>_.
     io_return [count, if count > lmt then 1 else 0]))) w)"

text \<open>Indexing past the end of the reply is an \<open>IndexError\<close>.\<close>

definition reply_at :: "int list \<Rightarrow> nat \<Rightarrow> int res" where
  "reply_at xs i = (if i < length xs then Inr (xs ! i) else Inl (OtherException ''IndexError''))"

definition fixed_window_check ::
  "('r, 'w) rl_env \<Rightarrow> 'r \<Rightarrow> string \<Rightarrow> int \<Rightarrow> int \<Rightarrow> ('w, rate_limit_result) io" where
  "fixed_window_check env r key lmt win =
     io_bind (rl_eval env r (FIXED_WINDOW_LUA env key lmt win)) (\<lambda>reply.
     io_bind (lift_res (reply_at reply 0)) (\<lambda>count.
     io_bind (lift_res (reply_at reply 1)) (\<lambda>over w.
       let ttl = (if length reply > 2 then reply ! 2 else win);
           is_over = (over \<noteq> 0);
           now = trunc (rl_time env w)
       in (Inr \<lparr>allowed = \<not> is_over, rl_limit = lmt, remaining = max 0 (lmt - count),
                reset_at = now + max ttl 1, retry_after = (if is_over then max 1 ttl else 0)\<rparr>, w))))"

definition sliding_window_check ::
  "('r, 'w) rl_env \<Rightarrow> 'r \<Rightarrow> string \<Rightarrow> int \<Rightarrow> int \<Rightarrow> ('w, rate_limit_result) io" where
  "sliding_window_check env r key lmt win w0 =
     (let now = rl_time env w0 in
      io_bind (rl_eval env r (SLIDING_WINDOW_LUA env key now win lmt)) (\<lambda>reply.
      io_bind (lift_res (reply_at reply 0)) (\<lambda>count.
      io_bind (lift_res (reply_at reply 1)) (\<lambda>over.
        let is_over = (over \<noteq> 0)
        in io_return \<lparr>allowed = \<not> is_over, rl_limit = lmt, remaining = max 0 (lmt - count),
             reset_at = trunc now + win, retry_after = (if is_over then win else 0)\<rparr>))) w0)"

definition algorithm_check ::
  "('r, 'w) rl_env \<Rightarrow> Algorithm \<Rightarrow> 'r \<Rightarrow> string \<Rightarrow> int \<Rightarrow> int \<Rightarrow> ('w, rate_limit_result) io" where
  "algorithm_check env a =
     (case a of FIXED_WINDOW \<Rightarrow> fixed_window_check env | SLIDING_WINDOW \<Rightarrow> sliding_window_check env)"

section \<open>\<open>RateLimiter\<close>\<close>

datatype 'r redis_source = NoRedis | RedisClient 'r | RedisUrl string | RedisProvider

record 'r rate_limiter =
  lim_source :: "'r redis_source"
  lim_key_prefix :: string
  lim_fallback :: "buckets option"

definition new_rate_limiter ::
  "'r option \<Rightarrow> string \<Rightarrow> bool \<Rightarrow> string \<Rightarrow> bool \<Rightarrow> 'r rate_limiter res" where
  "new_rate_limiter client url has_provider key_prefix enable_memory_fallback =
     (if (if client \<noteq> None then 1 else 0) + (if url \<noteq> [] then 1 else 0) + (if has_provider then 1 else 0) > (1::nat)
      then Inl (ValueError ''RateLimiter takes at most one of redis_client, redis_url, redis_provider'')
      else Inr \<lparr>lim_source = (if has_provider then RedisProvider else if url \<noteq> [] then RedisUrl url
                  else (case client of None \<Rightarrow> NoRedis | Some c \<Rightarrow> RedisClient c)),
                lim_key_prefix = key_prefix,
                lim_fallback = (if enable_memory_fallback then Some [] else None)\<rparr>)"

definition get_redis :: "('r, 'w) rl_env \<Rightarrow> 'r rate_limiter \<Rightarrow> ('w, 'r option) io" where
  "get_redis env l =
     (case lim_source l of
        RedisProvider \<Rightarrow> rl_provider env
      | RedisUrl _ \<Rightarrow> io_bind (rl_url_client env) (\<lambda>r. io_return (Some r))
      | RedisClient r \<Rightarrow> io_return (Some r)
      | NoRedis \<Rightarrow> io_return None)"

definition window_key :: "string \<Rightarrow> window_config \<Rightarrow> string" where
  "window_key key win = key @ '':'' @ string_of_int (window_seconds win) @ ''s''"

text \<open>The branch of \<open>_check_window\<close> taken when Redis is absent or its check raised.\<close>

definition check_window_fallback ::
  "FailMode \<Rightarrow> string \<Rightarrow> window_config \<Rightarrow> time \<Rightarrow> 'r rate_limiter \<Rightarrow> rate_limit_result \<times> 'r rate_limiter" where
  "check_window_fallback fail_mode wkey win now l =
     (if fail_mode = FAIL_CLOSED
      then (\<lparr>allowed = False, rl_limit = window_limit win, remaining = 0, reset_at = 0,
             retry_after = window_seconds win\<rparr>, l)
      else case lim_fallback l of
             Some bs \<Rightarrow>
               (case memory_check DEFAULT_CLEANUP_THRESHOLD now wkey (window_limit win) (window_seconds win) bs of
                  (r, bs') \<Rightarrow> (r, l\<lparr>lim_fallback := Some bs'\<rparr>))
           | None \<Rightarrow> (\<lparr>allowed = True, rl_limit = window_limit win, remaining = window_limit win,
                       reset_at = 0, retry_after = 0\<rparr>, l))"

definition check_window ::
  "('r, 'w) rl_env \<Rightarrow> 'r option \<Rightarrow> Algorithm \<Rightarrow> string \<Rightarrow> window_config \<Rightarrow> FailMode
   \<Rightarrow> ('r rate_limiter \<times> 'w, rate_limit_result) io" where
  "check_window env redis alg key win fail_mode lw =
     (let wkey = window_key key win;
          fall = (\<lambda>w. case check_window_fallback fail_mode wkey win (rl_time env w) (fst lw) of
                        (r, l') \<Rightarrow> (Inr r, (l', w)))
      in case redis of
           None \<Rightarrow> fall (snd lw)
         | Some rc \<Rightarrow>
             (case algorithm_check env alg rc wkey (window_limit win) (window_seconds win) (snd lw) of
                (Inr r, w') \<Rightarrow> (Inr r, (fst lw, w'))
              | (Inl e, w') \<Rightarrow> if is_Exception e then fall w' else (Inl e, (fst lw, w'))))"

fun check_windows ::
  "('r, 'w) rl_env \<Rightarrow> 'r option \<Rightarrow> Algorithm \<Rightarrow> string \<Rightarrow> FailMode \<Rightarrow> window_config list
   \<Rightarrow> ('r rate_limiter \<times> 'w, rate_limit_result list) io" where
  "check_windows env redis alg key fm [] = io_return []"
| "check_windows env redis alg key fm (win # ws) =
     io_bind (check_window env redis alg key win fm) (\<lambda>r.
     io_bind (check_windows env redis alg key fm ws) (\<lambda>rs. io_return (r # rs)))"

definition limiter_check ::
  "('r, 'w) rl_env \<Rightarrow> string \<Rightarrow> rate_limit_config option \<Rightarrow> ('r rate_limiter \<times> 'w, rate_limit_info) io" where
  "limiter_check env key config lw =
     (let cfg = (case config of None \<Rightarrow> default_config | Some c \<Rightarrow> c)
      in case get_redis env (fst lw) (snd lw) of
           (Inl e, w') \<Rightarrow> (Inl e, (fst lw, w'))
         | (Inr redis, w') \<Rightarrow>
             io_bind (check_windows env redis (cfg_algorithm cfg) key (cfg_fail_mode cfg) (cfg_windows cfg))
               (\<lambda>rs. io_return \<lparr>rl_results = rs, is_blocked = list_ex (\<lambda>r. \<not> allowed r) rs\<rparr>) (fst lw, w'))"

definition limiter_reset ::
  "('r, 'w) rl_env \<Rightarrow> 'r rate_limiter \<Rightarrow> string \<Rightarrow> rate_limit_config option \<Rightarrow> ('w, bool) io" where
  "limiter_reset env l key config =
     (let cfg = (case config of None \<Rightarrow> default_config | Some c \<Rightarrow> c)
      in io_bind (get_redis env l) (\<lambda>redis. case redis of
           None \<Rightarrow> io_return False
         | Some rc \<Rightarrow>
             io_except is_Exception
               (io_bind (rl_delete env rc (map (window_key key) (cfg_windows cfg)))
                 (\<lambda>deleted. io_return (deleted > 0)))
               (\<lambda>_. io_return False)))"

definition status_window ::
  "('r, 'w) rl_env \<Rightarrow> 'r \<Rightarrow> string \<Rightarrow> window_config \<Rightarrow> ('w, rate_limit_result option) io" where
  "status_window env rc key win =
     (let wkey = window_key key win in
      io_except is_Exception
        (io_bind (rl_get env rc wkey) (\<lambda>v.
         io_bind (lift_res (case v of None \<Rightarrow> Inr 0 | Some s \<Rightarrow> if s = [] then Inr 0 else py_int s)) (\<lambda>count.
         io_bind (rl_ttl env rc wkey) (\<lambda>ttl w.
           let blocked = count > window_limit win
           in (Inr (Some \<lparr>allowed = \<not> blocked, rl_limit = window_limit win,
                  remaining = max 0 (window_limit win - count),
                  reset_at = trunc (rl_time env w) + max ttl 1,
                  retry_after = (if blocked then max ttl 1 else 0)\<rparr>), w)))))
        (\<lambda>_. io_return None))"

fun status_windows ::
  "('r, 'w) rl_env \<Rightarrow> 'r \<Rightarrow> string \<Rightarrow> window_config list \<Rightarrow> ('w, rate_limit_result list) io" where
  "status_windows env rc key [] = io_return []"
| "status_windows env rc key (win # ws) =
     io_bind (status_window env rc key win) (\<lambda>r.
     io_bind (status_windows env rc key ws) (\<lambda>rs.
       io_return (case r of None \<Rightarrow> rs | Some x \<Rightarrow> x # rs)))"

definition limiter_status ::
  "('r, 'w) rl_env \<Rightarrow> 'r rate_limiter \<Rightarrow> string \<Rightarrow> rate_limit_config option \<Rightarrow> ('w, rate_limit_info) io" where
  "limiter_status env l key config =
     (let cfg = (case config of None \<Rightarrow> default_config | Some c \<Rightarrow> c)
      in io_bind (get_redis env l) (\<lambda>redis. case redis of
           None \<Rightarrow> io_return \<lparr>rl_results = [], is_blocked = False\<rparr>
         | Some rc \<Rightarrow>
             io_bind (status_windows env rc key (cfg_windows cfg)) (\<lambda>rs.
               io_return \<lparr>rl_results = rs, is_blocked = list_ex (\<lambda>r. \<not> allowed r) rs\<rparr>)))"

section \<open>Keys and the dependency\<close>

definition build_key :: "'r rate_limiter \<Rightarrow> string \<Rightarrow> string \<Rightarrow> string \<Rightarrow> string" where
  "build_key l identifier endpoint scope =
     (let normalized = (if endpoint \<noteq> ''*'' then normalize_path endpoint else ''*'')
      in join '':'' (filter (\<lambda>p. p \<noteq> []) [lim_key_prefix l, ''rl'', scope, identifier, normalized]))"

text \<open>
  The dependency of \<open>create_rate_limit_dependency\<close>; \<open>None\<close> is a request that is let through
  with \<open>request.state.rate_limit_info\<close> set to the value beside it.
\<close>

definition rate_limit_dependency ::
  "('r, 'w) rl_env \<Rightarrow> string \<Rightarrow> int \<Rightarrow> int \<Rightarrow> Algorithm \<Rightarrow> string \<Rightarrow> FailMode \<Rightarrow> string \<Rightarrow> string
   \<Rightarrow> ('r rate_limiter \<times> 'w, rate_limit_info) io" where
  "rate_limit_dependency env code lmt win alg kprefix fm caller path lw =
     (let config = \<lparr>cfg_windows = [\<lparr>window_limit = lmt, window_seconds = win\<rparr>], cfg_algorithm = alg,
                     cfg_fail_mode = fm, cfg_key_prefix = kprefix, cfg_methods = None\<rparr>;
          key = build_key (fst lw) caller path kprefix
      in io_bind (limiter_check env key (Some config)) (\<lambda>info.
           if is_blocked info then
             (let tightest = (case find (\<lambda>r. \<not> allowed r) (rl_results info) of
                                Some r \<Rightarrow> r | None \<Rightarrow> hd (rl_results info));
                  ra = max 1 (retry_after tightest)
              in io_raise (ApiError (RateLimitError
                   (JStr ''Rate limit exceeded. Please try again later.'') (JStr code) (Some ra)
                   (Some [(header_name H_RATE_LIMIT_LIMIT, string_of_int (rl_limit tightest)),
                          (header_name H_RATE_LIMIT_REMAINING, ''0''),
                          (header_name H_RATE_LIMIT_RESET, string_of_int (reset_at tightest))]))))
           else io_return info) lw)"

section \<open>The fallback as one counter per key\<close>

text \<open>
  The specification: each key has a bucket that is live until its reset time, or none. \<open>live\<close> reads
  it off the stored dict; the clean-up of expired buckets cannot be seen through it.
\<close>

definition live :: "time \<Rightarrow> buckets \<Rightarrow> string \<Rightarrow> bucket option" where
  "live now bs k = (case dict_get bs k of None \<Rightarrow> None | Some b \<Rightarrow> if now > reset_time b then None else Some b)"

definition spec_allows :: "int \<Rightarrow> bucket option \<Rightarrow> bool" where
  "spec_allows lmt ob = (case ob of None \<Rightarrow> True | Some b \<Rightarrow> bucket_count b < lmt)"

definition spec_bucket :: "time \<Rightarrow> int \<Rightarrow> int \<Rightarrow> bucket option \<Rightarrow> bucket" where
  "spec_bucket now lmt win ob =
     (case ob of None \<Rightarrow> \<lparr>bucket_count = 1, reset_time = now + of_int win\<rparr>
      | Some b \<Rightarrow> if bucket_count b < lmt then b\<lparr>bucket_count := bucket_count b + 1\<rparr> else b)"

definition spec_remaining :: "int \<Rightarrow> bucket \<Rightarrow> int" where
  "spec_remaining lmt b = max 0 (lmt - bucket_count b)"

lemma map_of_filter_val:
  "dict_ok d \<Longrightarrow> map_of (filter (\<lambda>(k, v). P v) d) k =
     (case map_of d k of None \<Rightarrow> None | Some v \<Rightarrow> if P v then Some v else None)"
proof (induction d)
  case Nil
  then show ?case by simp
next
  case (Cons p d)
  obtain k' v where p: "p = (k', v)" by force
  with Cons have "map_of d k' = None" by (auto simp: dict_ok_def map_of_eq_None_iff)
  with Cons p show ?case by (auto simp: dict_ok_def split: option.splits)
qed

lemma dict_ok_filter: "dict_ok d \<Longrightarrow> dict_ok (filter P d)"
  by (simp add: dict_ok_def distinct_map_filter)

lemma live_cleanup:
  "dict_ok bs \<Longrightarrow> now \<le> t \<Longrightarrow> live t (cleanup_expired now bs) k = live t bs k"
  by (auto simp: live_def cleanup_expired_def map_of_filter_val split: option.splits)

lemma live_set: "live t (dict_set key b bs) k = (if k = key then if t > reset_time b then None else Some b else live t bs k)"
  by (simp add: live_def)

lemma memory_check_spec:
  assumes "dict_ok bs" and "memory_check thr now key lmt win bs = (r, bs')"
  shows "dict_ok bs'"
    and "allowed r = spec_allows lmt (live now bs key)"
    and "remaining r = spec_remaining lmt (spec_bucket now lmt win (live now bs key))"
    and "now \<le> t \<Longrightarrow> k \<noteq> key \<Longrightarrow> live t bs' k = live t bs k"
    and "now \<le> t \<Longrightarrow> live t bs' key =
           (let b = spec_bucket now lmt win (live now bs key) in if t > reset_time b then None else Some b)"
proof -
  define cs where "cs = (if length bs > thr then cleanup_expired now bs else bs)"
  have ok: "dict_ok cs" using assms(1) by (simp add: cs_def cleanup_expired_def dict_ok_filter)
  have live: "live t cs k = live t bs k" if "now \<le> t" for t k
    using that assms(1) by (simp add: cs_def live_cleanup)
  consider (fresh) "live now cs key = None"
      "bs' = dict_set key \<lparr>bucket_count = 1, reset_time = now + of_int win\<rparr> cs" "allowed r" "remaining r = max 0 (lmt - 1)"
    | (full) b where "dict_get cs key = Some b" "live now cs key = Some b" "lmt \<le> bucket_count b" "bs' = cs" "\<not> allowed r" "remaining r = 0"
    | (some) b where "dict_get cs key = Some b" "live now cs key = Some b" "bucket_count b < lmt"
      "bs' = dict_set key (b\<lparr>bucket_count := bucket_count b + 1\<rparr>) cs" "allowed r" "remaining r = max 0 (lmt - (bucket_count b + 1))"
    using assms(2) unfolding memory_check_def cs_def [symmetric] Let_def
    by (cases "dict_get cs key") (auto simp: live_def split: if_splits)
  note cases = this
  from cases show "dict_ok bs'" by cases (use ok in auto)
  from cases show "allowed r = spec_allows lmt (live now bs key)"
    by cases (simp_all add: live [symmetric] spec_allows_def)
  from cases show "remaining r = spec_remaining lmt (spec_bucket now lmt win (live now bs key))"
    by cases (simp_all add: live [symmetric] spec_remaining_def spec_bucket_def)
  show "live t bs' k = live t bs k" if "now \<le> t" "k \<noteq> key"
    using cases by cases (use that in \<open>simp_all add: live_set live\<close>)
  show "live t bs' key = (let b = spec_bucket now lmt win (live now bs key) in if t > reset_time b then None else Some b)"
    if "now \<le> t"
    using cases
  proof cases
    case fresh
    with that show ?thesis by (simp add: live_set live [symmetric] spec_bucket_def)
  next
    case (full b)
    moreover from this have "live now bs key = Some b" using live [of now key] by simp
    ultimately show ?thesis by (simp add: live_def [of t] spec_bucket_def Let_def)
  next
    case (some b)
    then show ?thesis by (simp add: live_set live [symmetric] spec_bucket_def)
  qed
qed

text \<open>A run of the fallback over calls (time, key) in the order the lock admits them.\<close>

fun memory_run :: "nat \<Rightarrow> int \<Rightarrow> int \<Rightarrow> buckets \<Rightarrow> (time \<times> string) list \<Rightarrow> (string \<times> bool) list" where
  "memory_run thr lmt win bs [] = []"
| "memory_run thr lmt win bs ((t, k) # evs) =
     (case memory_check thr t k lmt win bs of (r, bs') \<Rightarrow> (k, allowed r) # memory_run thr lmt win bs' evs)"

abbreviation admitted :: "string \<Rightarrow> (string \<times> bool) list \<Rightarrow> nat" where
  "admitted k rs \<equiv> length (filter (\<lambda>(k', a). k' = k \<and> a) rs)"

abbreviation calls_of :: "string \<Rightarrow> (time \<times> string) list \<Rightarrow> nat" where
  "calls_of k evs \<equiv> length (filter (\<lambda>(_, k'). k' = k) evs)"

lemma memory_run_live:
  assumes "dict_ok bs" and "sorted (map fst evs)" and "\<forall>e\<in>set evs. t0 \<le> fst e \<and> fst e \<le> reset_time b"
    and "live t0 bs k = Some b"
  shows "admitted k (memory_run thr lmt win bs evs) = min (calls_of k evs) (nat (lmt - bucket_count b))"
  using assms
proof (induction evs arbitrary: bs b t0)
  case Nil
  then show ?case by simp
next
  case (Cons e evs)
  obtain t k' where e: "e = (t, k')" by force
  obtain r bs' where m: "memory_check thr t k' lmt win bs = (r, bs')" by (rule prod.exhaust)
  note spec = memory_check_spec [OF Cons.prems(1) m]
  have t: "t0 \<le> t" "t \<le> reset_time b" using Cons.prems(3) e by auto
  have now: "live t bs k = Some b"
    using Cons.prems(4) t by (auto simp: live_def split: option.splits if_splits)
  have sorted: "sorted (map fst evs)" "\<forall>e\<in>set evs. t \<le> fst e" using Cons.prems(2) e by auto
  show ?case
  proof (cases "k' = k")
    case False
    then have "live t bs' k = Some b" using spec(4) [of t k] now by simp
    with Cons.IH [of bs' t b] spec(1) sorted Cons.prems(3) False e m show ?thesis by auto
  next
    case True
    let ?b = "spec_bucket t lmt win (Some b)"
    have rt: "reset_time ?b = reset_time b" by (simp add: spec_bucket_def)
    have "live t bs' k = Some ?b" using spec(5) [of t] now True t rt by (simp add: Let_def)
    with Cons.IH [of bs' t ?b] spec(1) sorted Cons.prems(3) rt
    have ih: "admitted k (memory_run thr lmt win bs' evs) = min (calls_of k evs) (nat (lmt - bucket_count ?b))"
      by simp
    have "allowed r = (bucket_count b < lmt)" using spec(2) now True by (simp add: spec_allows_def)
    with ih True e m show ?thesis by (auto simp: spec_bucket_def)
  qed
qed

lemma memory_run_fresh:
  assumes "dict_ok bs" and "sorted (map fst evs)"
    and "\<forall>e\<in>set evs. t0 \<le> fst e \<and> fst e \<le> T" and "T \<le> t0 + of_int win"
    and "live t0 bs k = None"
  shows "admitted k (memory_run thr lmt win bs evs) = min (calls_of k evs) (nat (max 1 lmt))"
  using assms
proof (induction evs arbitrary: bs t0)
  case Nil
  then show ?case by simp
next
  case (Cons e evs)
  obtain t k' where e: "e = (t, k')" by force
  obtain r bs' where m: "memory_check thr t k' lmt win bs = (r, bs')" by (rule prod.exhaust)
  note spec = memory_check_spec [OF Cons.prems(1) m]
  have t: "t0 \<le> t" "t \<le> T" using Cons.prems(3) e by auto
  have now: "live t bs k = None"
    using Cons.prems(5) t by (auto simp: live_def split: option.splits if_splits)
  have sorted: "sorted (map fst evs)" "\<forall>e\<in>set evs. t \<le> fst e" using Cons.prems(2) e by auto
  show ?case
  proof (cases "k' = k")
    case False
    then have "live t bs' k = None" using spec(4) [of t k] now by simp
    with Cons.IH [of bs' t] spec(1) sorted Cons.prems(3,4) False e m t show ?thesis by auto
  next
    case True
    let ?b = "\<lparr>bucket_count = 1, reset_time = t + of_int win\<rparr>"
    have "0 \<le> (of_int win :: rat)" using t Cons.prems(4) by linarith
    then have "live t bs' k = Some ?b" using spec(5) [of t] now True by (simp add: Let_def spec_bucket_def)
    moreover have "\<forall>e\<in>set evs. t \<le> fst e \<and> fst e \<le> reset_time ?b"
      using sorted(2) Cons.prems(3,4) t by fastforce
    ultimately have "admitted k (memory_run thr lmt win bs' evs) = min (calls_of k evs) (nat (lmt - 1))"
      using memory_run_live [of bs' evs t ?b k] spec(1) sorted(1) by simp
    moreover have "allowed r" using spec(2) now True by (simp add: spec_allows_def)
    ultimately show ?thesis using True e m by auto
  qed
qed

section \<open>The scripts against a Redis server\<close>

text \<open>
  What the fixed-window script relies on: \<open>EVAL\<close> runs the script, \<open>INCR\<close> adds one to a counter that
  is zero when absent and returns it, \<open>EXPIRE\<close> and \<open>TTL\<close> do not change counters. \<open>ctr\<close> reads the
  counters off the server.
\<close>

definition counter_server :: "('r, 'w) rl_env \<Rightarrow> 'r \<Rightarrow> ('w \<Rightarrow> string \<Rightarrow> int) \<Rightarrow> bool" where
  "counter_server env r ctr =
     ((\<forall>s. rl_eval env r s = s)
      \<and> (\<forall>k w. fst (cmd_incr env k w) = Inr (ctr w k + 1)
               \<and> ctr (snd (cmd_incr env k w)) = (ctr w)(k := ctr w k + 1))
      \<and> (\<forall>k n w. fst (cmd_expire env k n w) = Inr () \<and> ctr (snd (cmd_expire env k n w)) = ctr w)
      \<and> (\<forall>k w. \<exists>n. fst (cmd_ttl env k w) = Inr n \<and> ctr (snd (cmd_ttl env k w)) = ctr w))"

lemma fixed_window_counts:
  assumes "counter_server env r ctr"
  obtains res w' where "fixed_window_check env r key lmt win w = (Inr res, w')"
    and "allowed res = (ctr w key + 1 \<le> lmt)" and "remaining res = max 0 (lmt - (ctr w key + 1))"
    and "ctr w' = (ctr w)(key := ctr w key + 1)"
proof -
  note srv = assms [unfolded counter_server_def]
  obtain w1 where incr: "cmd_incr env key w = (Inr (ctr w key + 1), w1)" and c1: "ctr w1 = (ctr w)(key := ctr w key + 1)"
    using srv by (metis prod.collapse)
  obtain w2 where exp: "(if ctr w key + 1 = 1 then cmd_expire env key win else io_return ()) w1 = (Inr (), w2)"
    and c2: "ctr w2 = ctr w1"
    using srv by (cases "ctr w key + 1 = 1") (simp_all add: io_return_def, metis prod.collapse)
  obtain n w3 where ttl: "cmd_ttl env key w2 = (Inr n, w3)" and c3: "ctr w3 = ctr w2"
    using srv by (metis prod.collapse)
  have "rl_eval env r (FIXED_WINDOW_LUA env key lmt win) w =
      (Inr [ctr w key + 1, if ctr w key + 1 > lmt then 1 else 0, n], w3)"
    using srv incr exp ttl by (simp add: FIXED_WINDOW_LUA_def io_bind_def io_return_def)
  then show ?thesis
    using that c1 c2 c3 by (simp add: fixed_window_check_def io_defs reply_at_def Let_def)
qed

fun fixed_window_run :: "('r, 'w) rl_env \<Rightarrow> 'r \<Rightarrow> string \<Rightarrow> int \<Rightarrow> int \<Rightarrow> nat \<Rightarrow> 'w \<Rightarrow> bool list" where
  "fixed_window_run env r key lmt win 0 w = []"
| "fixed_window_run env r key lmt win (Suc n) w =
     (case fixed_window_check env r key lmt win w of
        (Inr res, w') \<Rightarrow> allowed res # fixed_window_run env r key lmt win n w'
      | (Inl e, w') \<Rightarrow> False # fixed_window_run env r key lmt win n w')"

lemma fixed_window_run_flags:
  assumes "counter_server env r ctr"
  shows "fixed_window_run env r key lmt win n w = map (\<lambda>i. ctr w key + int i < lmt) [0..<n]"
proof (induction n arbitrary: w)
  case 0
  then show ?case by simp
next
  case (Suc n)
  obtain res w' where run: "fixed_window_check env r key lmt win w = (Inr res, w')"
    "allowed res = (ctr w key + 1 \<le> lmt)" "ctr w' = (ctr w)(key := ctr w key + 1)"
    by (rule fixed_window_counts [OF assms])
  have "[0..<Suc n] = 0 # map Suc [0..<n]"
    by (simp add: map_Suc_upt upt_conv_Cons del: upt_Suc)
  moreover have "(ctr w key + 1 \<le> lmt) = (ctr w key < lmt)" by linarith
  ultimately show ?case using run Suc by (simp add: ac_simps del: upt_Suc)
qed

section \<open>The limiter\<close>

text \<open>
  A Redis client whose commands may fail, though only with an \<open>Exception\<close>: the coroutine is not
  cancelled in the call.
\<close>

definition raises_only_exceptions :: "('w, 'a) io \<Rightarrow> bool" where
  "raises_only_exceptions m = (\<forall>w e w'. m w = (Inl e, w') \<longrightarrow> is_Exception e)"

definition redis_unusable :: "('r, 'w) rl_env \<Rightarrow> 'r option \<Rightarrow> Algorithm \<Rightarrow> bool" where
  "redis_unusable env redis alg =
     (case redis of None \<Rightarrow> True
      | Some rc \<Rightarrow> \<forall>k n s w. \<exists>e w'. algorithm_check env alg rc k n s w = (Inl e, w') \<and> is_Exception e)"

lemma check_window_total:
  assumes "\<And>rc k n s. redis = Some rc \<Longrightarrow> raises_only_exceptions (algorithm_check env alg rc k n s)"
  shows "\<exists>r lw'. check_window env redis alg key win fm lw = (Inr r, lw')"
proof (cases redis)
  case None
  then show ?thesis by (simp add: check_window_def Let_def split: prod.splits)
next
  case (Some rc)
  with assms show ?thesis
    by (auto simp: check_window_def raises_only_exceptions_def Let_def split: prod.splits sum.splits) metis
qed

lemma check_windows_total:
  assumes "\<And>rc k n s. redis = Some rc \<Longrightarrow> raises_only_exceptions (algorithm_check env alg rc k n s)"
  shows "\<exists>rs lw'. check_windows env redis alg key fm ws lw = (Inr rs, lw') \<and> length rs = length ws"
proof (induction ws arbitrary: lw)
  case Nil
  then show ?case by (simp add: io_return_def)
next
  case (Cons win ws)
  obtain r lw1 where "check_window env redis alg key win fm lw = (Inr r, lw1)"
    using check_window_total [OF assms] by blast
  moreover obtain rs lw2 where "check_windows env redis alg key fm ws lw1 = (Inr rs, lw2)" "length rs = length ws"
    using Cons.IH by blast
  ultimately show ?case by (simp add: io_bind_def io_return_def)
qed

lemma check_window_closed:
  assumes "redis_unusable env redis alg" and "check_window env redis alg key win FAIL_CLOSED lw = (Inr r, lw')"
  shows "\<not> allowed r \<and> retry_after r = window_seconds win"
proof (cases redis)
  case None
  with assms(2) show ?thesis by (auto simp: check_window_def check_window_fallback_def)
next
  case (Some rc)
  obtain e w' where "algorithm_check env alg rc (window_key key win) (window_limit win) (window_seconds win) (snd lw) = (Inl e, w')"
    "is_Exception e"
    using assms(1) Some by (simp add: redis_unusable_def) metis
  with assms(2) Some show ?thesis by (auto simp: check_window_def check_window_fallback_def)
qed

lemma check_windows_closed:
  assumes "redis_unusable env redis alg"
    and "check_windows env redis alg key FAIL_CLOSED ws lw = (Inr rs, lw')"
  shows "list_all (\<lambda>r. \<not> allowed r) rs"
  using assms(2)
proof (induction ws arbitrary: lw rs lw')
  case Nil
  then show ?case by (simp add: io_return_def)
next
  case (Cons win ws)
  from Cons.prems obtain r lw1 rs' where "check_window env redis alg key win FAIL_CLOSED lw = (Inr r, lw1)"
    and "check_windows env redis alg key FAIL_CLOSED ws lw1 = (Inr rs', lw')" and "rs = r # rs'"
    by (auto elim!: io_bind_InrE simp: io_return_def)
  with Cons.IH check_window_closed [OF assms(1)] show ?case by simp
qed

section \<open>Worlds for the witnesses\<close>

text \<open>A server with counters only, at a fixed time; sorted-set commands and plain reads of them fail.\<close>

definition counter_env :: "(unit, string \<Rightarrow> int) rl_env" where
  "counter_env =
     \<lparr>rl_time = (\<lambda>w. 0), rl_provider = (\<lambda>w. (Inr (Some ()), w)), rl_url_client = (\<lambda>w. (Inr (), w)),
      rl_eval = (\<lambda>r s. s), rl_get = (\<lambda>r k w. (Inl (RedisResponseError ''WRONGTYPE''), w)),
      rl_ttl = (\<lambda>r k w. (Inr 60, w)), rl_delete = (\<lambda>r ks w. (Inr 0, w)),
      cmd_incr = (\<lambda>k w. (Inr (w k + 1), w(k := w k + 1))), cmd_expire = (\<lambda>k n w. (Inr (), w)),
      cmd_ttl = (\<lambda>k w. (Inr 60, w)), cmd_zremrangebyscore = (\<lambda>k a b w. (Inr (), w)),
      cmd_zadd = (\<lambda>k s m w. (Inr (), w(k := w k + 1))), cmd_zcard = (\<lambda>k w. (Inr (w k), w)),
      lua_number = (\<lambda>t. []), lua_random = (\<lambda>n w. 1)\<rparr>"

lemma counter_env_server: "counter_server counter_env () (\<lambda>w. w)"
  by (simp add: counter_server_def counter_env_def)

section \<open>Properties\<close>

text \<open>
  The fallback implements one counter per key: the decision and the remaining budget of a check
  are those of the key's live bucket, the bucket moves as the counter does, no other key is
  affected, at any later time, and the clean-up that runs when the dict has grown past its
  threshold never changes an answer.
\<close>

theorem memory_fallback_refines:
  assumes "dict_ok bs" and "memory_check thr now key lmt win bs = (r, bs')" and "now \<le> t"
  shows "dict_ok bs' \<and> allowed r = spec_allows lmt (live now bs key)
    \<and> remaining r = spec_remaining lmt (spec_bucket now lmt win (live now bs key))
    \<and> live t bs' k = (if k = key
         then let b = spec_bucket now lmt win (live now bs key) in if t > reset_time b then None else Some b
         else live t bs k)"
  using memory_check_spec [OF assms(1,2)] assms(3) by simp

theorem memory_fallback_refines_witness:
  "let bs = [(''a'', \<lparr>bucket_count = 1, reset_time = 5\<rparr>), (''b'', \<lparr>bucket_count = 2, reset_time = 50\<rparr>)];
       (r, bs') = memory_check 1 10 ''a'' 3 60 bs
   in allowed r \<and> dict_ok bs' \<and> live 20 bs' ''b'' = live 20 bs ''b''"
proof -
  let ?bs = "[(''a'', \<lparr>bucket_count = 1, reset_time = 5\<rparr>), (''b'', \<lparr>bucket_count = 2, reset_time = 50\<rparr>)]"
  obtain r bs' where m: "memory_check 1 10 ''a'' 3 60 ?bs = (r, bs')" by (rule prod.exhaust)
  have "dict_ok ?bs" by (simp add: dict_ok_def)
  from memory_fallback_refines [OF this m, of 20 "''b''"] m show ?thesis
    by (simp add: live_def spec_allows_def)
qed

text \<open>
  C8: the window bound of the fallback. From any state in which a key has no live bucket, in any
  interleaving with other keys, of the calls for the key within one window exactly the first
  \<open>max 1 limit\<close> are admitted. (The bound is \<open>max 1 limit\<close> and not \<open>limit\<close>: the call that opens a
  bucket is admitted without comparing it with the limit.)
\<close>

theorem memory_fallback_window_bound:
  assumes "dict_ok bs" and "live t0 bs k = None" and "sorted (map fst evs)"
    and "\<forall>e\<in>set evs. t0 \<le> fst e \<and> fst e \<le> t0 + of_int win"
  shows "admitted k (memory_run thr lmt win bs evs) = min (calls_of k evs) (nat (max 1 lmt))"
  using memory_run_fresh [OF assms(1,3,4) _ assms(2)] by simp

theorem memory_fallback_window_bound_witness:
  "admitted ''a'' (memory_run 10000 2 60 [] [(1, ''a''), (2, ''b''), (3, ''a''), (4, ''a''), (5, ''a'')]) = 2
   \<and> admitted ''a'' (memory_run 10000 0 60 [] [(1, ''a''), (3, ''a'')]) = 1"
  using memory_fallback_window_bound [of "[]" 0 "''a''" "[(1, ''a''), (2, ''b''), (3, ''a''), (4, ''a''), (5, ''a'')]" 60 10000 2]
    memory_fallback_window_bound [of "[]" 0 "''a''" "[(1, ''a''), (3, ''a'')]" 60 10000 0]
  by (simp add: live_def)

text \<open>
  The fixed-window script with the algorithm that runs it admits exactly the first \<open>limit\<close>
  checks of a key in a window: with the counter at \<open>c\<close>, the flags of the next \<open>n\<close> checks are those
  of \<open>c + i < limit\<close>.
\<close>

theorem fixed_window_admits_limit:
  assumes "counter_server env r ctr"
  shows "fixed_window_run env r key lmt win n w = map (\<lambda>i. ctr w key + int i < lmt) [0..<n]"
  by (rule fixed_window_run_flags [OF assms])

theorem fixed_window_admits_limit_witness:
  "fixed_window_run counter_env () ''k'' 2 60 4 (\<lambda>_. 0) = [True, True, False, False]"
  using fixed_window_admits_limit [OF counter_env_server, of "''k''" 2 60 4 "\<lambda>_. 0"]
  by (simp add: upt_conv_Cons eval_nat_numeral)

text \<open>
  \<open>RateLimiter.check\<close> never raises because Redis failed: once the client is obtained it returns
  one result per configured window, \<open>is_blocked\<close> exactly when some window refused, and with
  \<open>fail_mode = CLOSED\<close> and an unusable Redis every request is blocked.
\<close>

theorem limiter_check_contract:
  assumes "get_redis env l w = (Inr redis, w1)"
    and "\<And>rc k n s. redis = Some rc \<Longrightarrow> raises_only_exceptions (algorithm_check env (cfg_algorithm cfg) rc k n s)"
  shows "\<exists>info lw'. limiter_check env key (Some cfg) (l, w) = (Inr info, lw')
    \<and> length (rl_results info) = length (cfg_windows cfg)
    \<and> (is_blocked info \<longleftrightarrow> (\<exists>r\<in>set (rl_results info). \<not> allowed r))
    \<and> (redis_unusable env redis (cfg_algorithm cfg) \<and> cfg_fail_mode cfg = FAIL_CLOSED \<and> cfg_windows cfg \<noteq> []
         \<longrightarrow> is_blocked info)"
proof -
  obtain rs lw' where run: "check_windows env redis (cfg_algorithm cfg) key (cfg_fail_mode cfg) (cfg_windows cfg) (l, w1) = (Inr rs, lw')"
    and len: "length rs = length (cfg_windows cfg)"
    using check_windows_total [OF assms(2)] by blast
  have "list_ex (\<lambda>r. \<not> allowed r) rs"
    if "redis_unusable env redis (cfg_algorithm cfg)" "cfg_fail_mode cfg = FAIL_CLOSED" "cfg_windows cfg \<noteq> []"
    using check_windows_closed [OF that(1)] run that(2,3) len by (cases rs) fastforce+
  with assms(1) run len show ?thesis
    by (auto simp: limiter_check_def io_bind_def io_return_def list_ex_iff)
qed

theorem limiter_check_contract_witness:
  "\<exists>info lw'. limiter_check counter_env ''k''
      (Some (default_config\<lparr>cfg_fail_mode := FAIL_CLOSED\<rparr>))
      (\<lparr>lim_source = NoRedis, lim_key_prefix = ''crm'', lim_fallback = Some []\<rparr>, \<lambda>_. 0) = (Inr info, lw')
    \<and> is_blocked info"
  using limiter_check_contract [of counter_env "\<lparr>lim_source = NoRedis, lim_key_prefix = ''crm'', lim_fallback = Some []\<rparr>"
      "\<lambda>_. 0" None "\<lambda>_. 0" "default_config\<lparr>cfg_fail_mode := FAIL_CLOSED\<rparr>" "''k''"]
  by (auto simp: get_redis_def io_return_def redis_unusable_def default_config_def)

text \<open>
  \<open>status\<close> reads the window with \<open>GET\<close>. On a server that refuses \<open>GET\<close> for the key (a sorted
  set, which is what the sliding-window script keeps there, is the wrong type for it) the exception
  is swallowed and the answer is an empty, not blocked status, whatever \<open>check\<close> decides.
\<close>

theorem limiter_status_ignores_sorted_sets:
  assumes "get_redis env l w = (Inr (Some rc), w1)"
    and "\<And>k w. \<exists>e. rl_get env rc k w = (Inl e, w) \<and> is_Exception e"
  shows "limiter_status env l key cfg w = (Inr \<lparr>rl_results = [], is_blocked = False\<rparr>, w1)"
proof -
  have one: "status_window env rc key win w = (Inr None, w)" for win w
  proof -
    obtain e where "rl_get env rc (window_key key win) w = (Inl e, w)" "is_Exception e" using assms(2) by blast
    then show ?thesis by (simp add: status_window_def io_defs Let_def)
  qed
  have "status_windows env rc key ws w = (Inr [], w)" for ws w
    by (induction ws arbitrary: w) (simp_all add: io_bind_def io_return_def one)
  with assms(1) show ?thesis by (simp add: limiter_status_def Let_def io_bind_def io_return_def)
qed

theorem limiter_status_ignores_sorted_sets_witness:
  "let l = \<lparr>lim_source = RedisClient (), lim_key_prefix = ''crm'', lim_fallback = None\<rparr>;
       cfg = Some (default_config\<lparr>cfg_algorithm := SLIDING_WINDOW\<rparr>)
   in map_sum id is_blocked (fst (limiter_check counter_env ''k'' cfg (l, \<lambda>_. 500))) = Inr True
      \<and> limiter_status counter_env l ''k'' cfg (\<lambda>_. 500) = (Inr \<lparr>rl_results = [], is_blocked = False\<rparr>, \<lambda>_. 500)"
proof -
  have "is_Exception (RedisResponseError ''WRONGTYPE'')" by (simp add: is_Exception_def)
  then show ?thesis
    using limiter_status_ignores_sorted_sets [of counter_env "\<lparr>lim_source = RedisClient (), lim_key_prefix = ''crm'', lim_fallback = None\<rparr>"
      "\<lambda>_. 500" "()" "\<lambda>_. 500" "''k''" "Some (default_config\<lparr>cfg_algorithm := SLIDING_WINDOW\<rparr>)"]
    by (simp add: get_redis_def io_return_def counter_env_def limiter_check_def default_config_def check_window_def
        algorithm_check_def sliding_window_check_def SLIDING_WINDOW_LUA_def io_bind_def lift_res_def reply_at_def
        Let_def)
qed

end
