(* ===== verification/Api_Idempotency.thy ===== *)
theory Api_Idempotency
  imports Api_Exceptions Contracts
begin

text \<open>
  \<open>middleware/idempotency.py\<close>: the middleware that runs a POST request at most once per
  idempotency key. The Redis client is the record \<open>nx_redis\<close>, shared with the webhook guard of
  theory \<open>Webhooks\<close>; the rest of the application is the argument \<open>call_next\<close>, an effect that may
  also let time pass and other requests run. The constructor of Starlette's \<open>Response\<close> applied to
  values read back from Redis is the argument \<open>mk_response\<close>.
\<close>

section \<open>Redis\<close>

text \<open>
  \<open>get_redis_client(url)\<close> and the commands both users send; \<open>rx_set_nx\<close> is
  \<open>set(key, value, nx=True, ex=ttl)\<close> with \<open>True\<close> for a new key and \<open>False\<close> for the reply \<open>None\<close>.
\<close>

record 'w nx_redis =
  rx_connect :: "string \<Rightarrow> ('w, unit) io"
  rx_set_nx :: "string \<Rightarrow> string \<Rightarrow> int \<Rightarrow> ('w, bool) io"
  rx_set :: "string \<Rightarrow> string \<Rightarrow> int \<Rightarrow> ('w, unit) io"
  rx_get :: "string \<Rightarrow> ('w, string option) io"
  rx_delete :: "string \<Rightarrow> ('w, unit) io"

text \<open>What Redis documents of these commands, for a server that answers: \<open>kv\<close> is its live content.\<close>

definition nx_laws :: "'w nx_redis \<Rightarrow> ('w \<Rightarrow> string \<Rightarrow> string option) \<Rightarrow> bool" where
  "nx_laws rx kv =
     ((\<forall>url w. \<exists>w'. rx_connect rx url w = (Inr (), w') \<and> kv w' = kv w) \<and>
      (\<forall>k v t w. \<exists>w'. rx_set_nx rx k v t w = (Inr (kv w k = None), w') \<and>
                     kv w' = (if kv w k = None then (kv w)(k := Some v) else kv w)) \<and>
      (\<forall>k v t w. \<exists>w'. rx_set rx k v t w = (Inr (), w') \<and> kv w' = (kv w)(k := Some v)) \<and>
      (\<forall>k w. \<exists>w'. rx_get rx k w = (Inr (kv w k), w') \<and> kv w' = kv w) \<and>
      (\<forall>k w. \<exists>w'. rx_delete rx k w = (Inr (), w') \<and> kv w' = (kv w)(k := None)))"

definition join_parts :: "string list \<Rightarrow> string" where
  "join_parts ps = join '':'' (filter (\<lambda>p. p \<noteq> []) ps)"

section \<open>Requests and responses\<close>

text \<open>Header names are lower-cased by Starlette; \<open>rq_tenant\<close> is \<open>request.state.tenant_id\<close>.\<close>

record api_request =
  rq_method :: string
  rq_headers :: "(string, string) dict"
  rq_tenant :: "string option"
  rq_app :: app_state

record 'w stream_response =
  st_status :: int
  st_headers :: "(string, string) dict"
  st_body :: "('w, string list) io"

record built_response =
  br_content :: string
  br_status :: int
  br_media :: string
  br_headers :: "(string, string) dict"

datatype 'w reply =
    Forwarded "'w stream_response"
  | Built built_response
  | Json json_response

definition header_of :: "api_request \<Rightarrow> HttpHeader \<Rightarrow> string option" where
  "header_of rq h = dict_get (rq_headers rq) (lower (header_name h))"

section \<open>\<open>APIIdempotencyMiddleware\<close>\<close>

record idem_config =
  im_redis_url :: string
  im_service_name :: string
  im_ttl :: int
  im_max_response_size :: int

definition PROCESSING_SENTINEL :: string where
  "PROCESSING_SENTINEL = ''{\"s\": \"processing\"}''"

definition PROCESSING_TTL_SECONDS :: int where
  "PROCESSING_TTL_SECONDS = 300"

definition UNCACHED_STATUSES :: "int list" where
  "UNCACHED_STATUSES = [401, 403, 429]"

definition conflict :: "api_request \<Rightarrow> string \<Rightarrow> ('w, 'w reply) io" where
  "conflict rq message =
     io_bind (lift_res (framework_error_code (rq_app rq) CONFLICT_CODE)) (\<lambda>code.
     io_return (Json \<lparr>jr_status = 409, jr_body = Some (build_error_envelope message (JStr code) None []),
                      jr_headers = None\<rparr>))"

definition idem_get_redis :: "'w nx_redis \<Rightarrow> idem_config \<Rightarrow> ('w, bool) io" where
  "idem_get_redis rx cfg =
     (if im_redis_url cfg = [] then io_return False
      else io_except is_Exception
             (io_bind (rx_connect rx (im_redis_url cfg)) (\<lambda>_. io_return True)) (\<lambda>_. io_return False))"

definition idem_build_key :: "idem_config \<Rightarrow> string \<Rightarrow> string \<Rightarrow> string" where
  "idem_build_key cfg tenant_id idempotency_key =
     join_parts [im_service_name cfg, ''idempotency'', tenant_id, idempotency_key]"

definition idem_release :: "'w nx_redis \<Rightarrow> string \<Rightarrow> ('w, unit) io" where
  "idem_release rx cache_key = io_except is_Exception (rx_delete rx cache_key) (\<lambda>_. io_return ())"

definition completed_entry :: "int \<Rightarrow> string \<Rightarrow> string \<Rightarrow> json" where
  "completed_entry sc body content_type =
     JDict [(''s'', JStr ''completed''), (''sc'', JInt sc),
            (''b'', JStr (utf8_replace body)), (''ct'', JStr content_type)]"

definition cacheable :: "idem_config \<Rightarrow> int \<Rightarrow> string \<Rightarrow> bool" where
  "cacheable cfg sc body =
     ((sc < 500 \<and> sc \<notin> set UNCACHED_STATUSES) \<and>
      \<not> int (length body) > im_max_response_size cfg)"

definition idem_store_completed ::
  "json_codec \<Rightarrow> 'w nx_redis \<Rightarrow> idem_config \<Rightarrow> string \<Rightarrow> int \<Rightarrow> string \<Rightarrow> string \<Rightarrow> ('w, bool) io" where
  "idem_store_completed jc rx cfg cache_key sc body content_type =
     (if \<not> cacheable cfg sc body then io_return False
      else io_except is_Exception
             (io_bind (lift_res (jc_dumps jc (completed_entry sc body content_type))) (\<lambda>cache_value.
              io_bind (rx_set rx cache_key cache_value (im_ttl cfg)) (\<lambda>_. io_return True)))
             (\<lambda>_. io_return False))"

definition header_or :: "(string, string) dict \<Rightarrow> string \<Rightarrow> string \<Rightarrow> string" where
  "header_or hs k d = (case dict_get hs k of Some v \<Rightarrow> v | None \<Rightarrow> d)"

text \<open>The dict comprehension keeps the last value of a name that the response has twice.\<close>

definition kept_headers :: "(string, string) dict \<Rightarrow> (string, string) dict" where
  "kept_headers hs =
     dict_merge [] (filter (\<lambda>(k, _). lower k \<notin> {''content-length'', ''content-type''}) hs)"

text \<open>\<open>call_next\<close> and the reading of the whole body, under the \<open>except BaseException\<close>.\<close>

definition run_handler :: "('w, 'w stream_response) io \<Rightarrow> ('w, 'w stream_response \<times> string) io" where
  "run_handler call_next =
     io_bind call_next (\<lambda>response.
     io_bind (st_body response) (\<lambda>chunks. io_return (response, concat chunks)))"

definition idem_process_and_cache ::
  "json_codec \<Rightarrow> 'w nx_redis \<Rightarrow> idem_config \<Rightarrow> ('w, 'w stream_response) io \<Rightarrow> string \<Rightarrow> ('w, 'w reply) io" where
  "idem_process_and_cache jc rx cfg call_next cache_key =
     io_bind (io_except (\<lambda>_. True) (run_handler call_next)
                (\<lambda>e. io_bind (idem_release rx cache_key) (\<lambda>_. io_raise e))) (\<lambda>(response, body).
       let status = st_status response;
           content_type = header_or (st_headers response) ''content-type'' ''application/json'' in
       io_bind (idem_store_completed jc rx cfg cache_key status body content_type) (\<lambda>stored.
       io_bind (if stored then io_return () else idem_release rx cache_key) (\<lambda>_.
       io_return (Built \<lparr>br_content = body, br_status = status, br_media = content_type,
                         br_headers = kept_headers (st_headers response)\<rparr>))))"

type_synonym response_maker = "json \<Rightarrow> json \<Rightarrow> json \<Rightarrow> (string, string) dict \<Rightarrow> built_response res"

definition replay_of :: "response_maker \<Rightarrow> (string, json) dict \<Rightarrow> built_response res" where
  "replay_of mk_response data =
     (case dict_get data ''b'' of
        None \<Rightarrow> Inl (KeyError ''b'')
      | Some b \<Rightarrow>
          (case dict_get data ''sc'' of
             None \<Rightarrow> Inl (KeyError ''sc'')
           | Some sc \<Rightarrow>
               mk_response b sc
                 (case dict_get data ''ct'' of Some ct \<Rightarrow> ct | None \<Rightarrow> JStr ''application/json'')
                 [(header_name H_IDEMPOTENCY_REPLAYED, ''true'')]))"

definition idem_handle_duplicate ::
  "json_codec \<Rightarrow> response_maker \<Rightarrow> 'w nx_redis \<Rightarrow> api_request \<Rightarrow> string \<Rightarrow> ('w, 'w reply) io" where
  "idem_handle_duplicate jc mk_response rx rq cache_key =
     io_except is_Exception
       (io_bind (rx_get rx cache_key) (\<lambda>cached.
          let busy = conflict rq ''A request with this idempotency key is currently being processed'' in
          case cached of
            None \<Rightarrow> busy
          | Some c \<Rightarrow>
              if c = [] then busy
              else io_bind (lift_res (jc_loads jc c)) (\<lambda>data.
                     case data of
                       JDict d \<Rightarrow>
                         if dict_get d ''s'' = Some (JStr ''completed'')
                         then io_bind (lift_res (replay_of mk_response d)) (\<lambda>r. io_return (Built r))
                         else busy
                     | _ \<Rightarrow> io_raise (AttributeError ''object has no attribute get''))))
       (\<lambda>_. conflict rq ''Unable to verify idempotency status'')"

definition request_tenant :: "api_request \<Rightarrow> string" where
  "request_tenant rq =
     (case rq_tenant rq of
        Some t \<Rightarrow> if t \<noteq> [] then t else header_or (rq_headers rq) (lower (header_name H_TENANT_ID)) ''global''
      | None \<Rightarrow> header_or (rq_headers rq) (lower (header_name H_TENANT_ID)) ''global'')"

definition idem_dispatch ::
  "json_codec \<Rightarrow> response_maker \<Rightarrow> 'w nx_redis \<Rightarrow> idem_config \<Rightarrow> api_request
   \<Rightarrow> ('w, 'w stream_response) io \<Rightarrow> ('w, 'w reply) io" where
  "idem_dispatch jc mk_response rx cfg rq call_next =
     (let pass = io_bind call_next (\<lambda>r. io_return (Forwarded r)) in
      if rq_method rq \<noteq> ''POST'' then pass
      else case header_of rq H_IDEMPOTENCY_KEY of
             None \<Rightarrow> pass
           | Some idempotency_key \<Rightarrow>
               if idempotency_key = [] then pass
               else io_bind (idem_get_redis rx cfg) (\<lambda>connected.
                 if \<not> connected then pass
                 else let cache_key = idem_build_key cfg (request_tenant rq) idempotency_key in
                   io_bind (io_except is_Exception
                              (io_bind (rx_set_nx rx cache_key PROCESSING_SENTINEL PROCESSING_TTL_SECONDS)
                                 (\<lambda>was_set. io_return (Some was_set)))
                              (\<lambda>_. io_return None)) (\<lambda>r.
                     case r of
                       None \<Rightarrow> pass
                     | Some was_set \<Rightarrow>
                         if \<not> was_set then idem_handle_duplicate jc mk_response rx rq cache_key
                         else idem_process_and_cache jc rx cfg call_next cache_key)))"

section \<open>What the properties speak of\<close>

text \<open>A request that the middleware guards with the Redis key \<open>ck\<close>.\<close>

definition guarded :: "idem_config \<Rightarrow> api_request \<Rightarrow> string \<Rightarrow> bool" where
  "guarded cfg rq ck =
     (rq_method rq = ''POST'' \<and> im_redis_url cfg \<noteq> [] \<and>
      (case header_of rq H_IDEMPOTENCY_KEY of
         None \<Rightarrow> False
       | Some k \<Rightarrow> k \<noteq> [] \<and> ck = idem_build_key cfg (request_tenant rq) k))"

text \<open>A handler that answers with the given status, headers and body, whatever else it does.\<close>

definition answers :: "('w, 'w stream_response) io \<Rightarrow> int \<Rightarrow> (string, string) dict \<Rightarrow> string \<Rightarrow> bool" where
  "answers nxt sc hs body =
     (\<forall>w. \<exists>resp w'. run_handler nxt w = (Inr (resp, body), w') \<and> st_status resp = sc \<and> st_headers resp = hs)"

definition raises :: "('w, 'w stream_response) io \<Rightarrow> exn \<Rightarrow> bool" where
  "raises nxt e = (\<forall>w. \<exists>w'. run_handler nxt w = (Inl e, w'))"

definition builds_responses :: "response_maker \<Rightarrow> bool" where
  "builds_responses mk_response =
     (\<forall>b sc ct hs. mk_response (JStr b) (JInt sc) (JStr ct) hs =
        Inr \<lparr>br_content = b, br_status = sc, br_media = ct, br_headers = hs\<rparr>)"

section \<open>Lemmas\<close>

lemma nx_connect: "nx_laws rx kv \<Longrightarrow> \<exists>w'. rx_connect rx url w = (Inr (), w') \<and> kv w' = kv w"
  unfolding nx_laws_def by blast

lemma nx_set_nx:
  "nx_laws rx kv \<Longrightarrow> \<exists>w'. rx_set_nx rx k v t w = (Inr (kv w k = None), w') \<and>
                         kv w' = (if kv w k = None then (kv w)(k := Some v) else kv w)"
  unfolding nx_laws_def by blast

lemma nx_set: "nx_laws rx kv \<Longrightarrow> \<exists>w'. rx_set rx k v t w = (Inr (), w') \<and> kv w' = (kv w)(k := Some v)"
  unfolding nx_laws_def by blast

lemma nx_get: "nx_laws rx kv \<Longrightarrow> \<exists>w'. rx_get rx k w = (Inr (kv w k), w') \<and> kv w' = kv w"
  unfolding nx_laws_def by blast

lemma nx_delete: "nx_laws rx kv \<Longrightarrow> \<exists>w'. rx_delete rx k w = (Inr (), w') \<and> kv w' = (kv w)(k := None)"
  unfolding nx_laws_def by blast

text \<open>The claim of the key: what \<open>dispatch\<close> does after \<open>SET NX\<close> depends only on the store.\<close>

lemma dispatch_claims:
  assumes laws: "nx_laws rx kv" and g: "guarded cfg rq ck"
  shows "\<exists>w1. kv w1 = (if kv w ck = None then (kv w)(ck := Some PROCESSING_SENTINEL) else kv w) \<and>
              (\<forall>nxt. idem_dispatch jc mk_response rx cfg rq nxt w =
                 (if kv w ck = None then idem_process_and_cache jc rx cfg nxt ck w1
                  else idem_handle_duplicate jc mk_response rx rq ck w1))"
proof -
  obtain w0 where c: "rx_connect rx (im_redis_url cfg) w = (Inr (), w0)" and w0: "kv w0 = kv w"
    using nx_connect [OF laws] by blast
  obtain w1 where s: "rx_set_nx rx ck PROCESSING_SENTINEL PROCESSING_TTL_SECONDS w0 = (Inr (kv w0 ck = None), w1)"
    and w1: "kv w1 = (if kv w0 ck = None then (kv w0)(ck := Some PROCESSING_SENTINEL) else kv w0)"
    using nx_set_nx [OF laws] by blast
  have "idem_dispatch jc mk_response rx cfg rq nxt w =
          (if kv w ck = None then idem_process_and_cache jc rx cfg nxt ck w1
           else idem_handle_duplicate jc mk_response rx rq ck w1)" for nxt
    using g c s w0 by (simp add: guarded_def idem_dispatch_def idem_get_redis_def io_defs Let_def split: option.splits)
  then show ?thesis using w1 w0 by auto
qed

lemma release_frees:
  assumes "nx_laws rx kv"
  shows "\<exists>w'. idem_release rx ck w = (Inr (), w') \<and> kv w' = (kv w)(ck := None)"
  using nx_delete [OF assms, of ck w] by (auto simp: idem_release_def io_defs)

lemma store_completed_stores:
  assumes laws: "nx_laws rx kv" and "cacheable cfg sc body"
    and enc: "jc_dumps jc (completed_entry sc body ct) = Inr enc"
  shows "\<exists>w'. idem_store_completed jc rx cfg ck sc body ct w = (Inr True, w') \<and> kv w' = (kv w)(ck := Some enc)"
  using nx_set [OF laws, of ck enc "im_ttl cfg" w] assms(2,3)
  by (auto simp: idem_store_completed_def io_defs)

lemma handle_duplicate_replays:
  assumes laws: "nx_laws rx kv" and mk: "builds_responses mk_response"
    and "kv w ck = Some enc" and "enc \<noteq> []" and "jc_loads jc enc = Inr (completed_entry sc body ct)"
  shows "\<exists>w'. idem_handle_duplicate jc mk_response rx rq ck w =
                (Inr (Built \<lparr>br_content = utf8_replace body, br_status = sc, br_media = ct,
                             br_headers = [(header_name H_IDEMPOTENCY_REPLAYED, ''true'')]\<rparr>), w') \<and>
              kv w' = kv w"
  using nx_get [OF laws, of ck w] mk assms(3-5)
  by (auto simp: idem_handle_duplicate_def completed_entry_def replay_of_def builds_responses_def io_defs)

lemma handle_duplicate_busy:
  assumes laws: "nx_laws rx kv" and "kv w ck = Some PROCESSING_SENTINEL"
    and "jc_loads jc PROCESSING_SENTINEL = Inr (JDict [(''s'', JStr ''processing'')])"
    and "framework_error_code (rq_app rq) CONFLICT_CODE = Inr code"
  shows "\<exists>w'. idem_handle_duplicate jc mk_response rx rq ck w =
                (Inr (Json \<lparr>jr_status = 409,
                   jr_body = Some (build_error_envelope
                     ''A request with this idempotency key is currently being processed'' (JStr code) None []),
                   jr_headers = None\<rparr>), w') \<and>
              kv w' = kv w"
proof -
  have ne: "PROCESSING_SENTINEL \<noteq> []" by (simp add: PROCESSING_SENTINEL_def)
  show ?thesis
    using nx_get [OF laws, of ck w] assms(2-4) ne
    by (auto simp: idem_handle_duplicate_def conflict_def io_defs)
qed

lemma process_stores:
  assumes laws: "nx_laws rx kv" and ans: "answers nxt sc hs body" and c: "cacheable cfg sc body"
    and enc: "jc_dumps jc (completed_entry sc body (header_or hs ''content-type'' ''application/json'')) = Inr enc"
  shows "\<exists>w'. idem_process_and_cache jc rx cfg nxt ck w =
                (Inr (Built \<lparr>br_content = body, br_status = sc,
                   br_media = header_or hs ''content-type'' ''application/json'', br_headers = kept_headers hs\<rparr>), w')
              \<and> kv w' ck = Some enc"
proof -
  obtain resp w1 where r: "run_handler nxt w = (Inr (resp, body), w1)" and "st_status resp = sc" "st_headers resp = hs"
    using ans unfolding answers_def by blast
  moreover obtain w2 where "idem_store_completed jc rx cfg ck sc body (header_or hs ''content-type'' ''application/json'') w1
                              = (Inr True, w2)" and "kv w2 = (kv w1)(ck := Some enc)"
    using store_completed_stores [OF laws c enc] by blast
  ultimately show ?thesis by (simp add: idem_process_and_cache_def Let_def io_defs)
qed

lemma process_not_stored:
  assumes laws: "nx_laws rx kv" and ans: "answers nxt sc hs body" and c: "\<not> cacheable cfg sc body"
  shows "\<exists>w'. idem_process_and_cache jc rx cfg nxt ck w =
                (Inr (Built \<lparr>br_content = body, br_status = sc,
                   br_media = header_or hs ''content-type'' ''application/json'', br_headers = kept_headers hs\<rparr>), w')
              \<and> kv w' ck = None"
proof -
  obtain resp w1 where r: "run_handler nxt w = (Inr (resp, body), w1)" and "st_status resp = sc" "st_headers resp = hs"
    using ans unfolding answers_def by blast
  moreover obtain w2 where "idem_release rx ck w1 = (Inr (), w2)" and "kv w2 = (kv w1)(ck := None)"
    using release_frees [OF laws] by blast
  ultimately show ?thesis using c by (simp add: idem_process_and_cache_def idem_store_completed_def Let_def io_defs)
qed

lemma process_raises:
  assumes laws: "nx_laws rx kv" and r: "run_handler nxt w = (Inl e, w1)"
  shows "\<exists>w'. idem_process_and_cache jc rx cfg nxt ck w = (Inl e, w') \<and> kv w' = (kv w1)(ck := None)"
proof -
  obtain w2 where "idem_release rx ck w1 = (Inr (), w2)" and "kv w2 = (kv w1)(ck := None)"
    using release_frees [OF laws] by blast
  with r show ?thesis by (simp add: idem_process_and_cache_def Let_def io_defs)
qed

lemma colon_free_split:
  assumes "t @ CHR '':'' # k = t' @ CHR '':'' # k'" and "CHR '':'' \<notin> set t" and "CHR '':'' \<notin> set t'"
  shows "t = t' \<and> k = k'"
proof -
  have "takeWhile (\<lambda>c. c \<noteq> CHR '':'') (t @ CHR '':'' # k) = t" "takeWhile (\<lambda>c. c \<noteq> CHR '':'') (t' @ CHR '':'' # k') = t'"
    using assms(2,3) by (auto simp: takeWhile_append)
  with assms(1) show ?thesis by simp
qed

lemma build_key_form:
  assumes "t \<noteq> []" and "k \<noteq> []"
  shows "idem_build_key cfg t k =
           (if im_service_name cfg = [] then [] else im_service_name cfg @ '':'') @ ''idempotency:'' @ t @ CHR '':'' # k"
  using assms by (simp add: idem_build_key_def join_parts_def)

section \<open>Properties\<close>

text \<open>
  C9: A guarded request whose key is free runs its handler and is answered with what the handler
  answered; when the response may be kept, every later request with the same key is answered, while
  the entry is live, with the same status, content type and (UTF-8) body and the replay header. The
  later handler has no influence on that answer or on the world: it is not run.
\<close>

theorem completed_request_replayed:
  assumes laws: "nx_laws rx kv" and codec: "codec_round_trip jc" and mk: "builds_responses mk_response"
    and g: "guarded cfg rq ck" and free: "kv w ck = None"
    and ans: "answers nxt sc hs body" and cache: "cacheable cfg sc body" and utf: "utf8_replace body = body"
    and enc: "jc_dumps jc (completed_entry sc body (header_or hs ''content-type'' ''application/json'')) = Inr enc"
    and ne: "enc \<noteq> []"
  shows "\<exists>w'. idem_dispatch jc mk_response rx cfg rq nxt w =
                (Inr (Built \<lparr>br_content = body, br_status = sc,
                   br_media = header_or hs ''content-type'' ''application/json'', br_headers = kept_headers hs\<rparr>), w') \<and>
              kv w' ck = Some enc \<and>
              (\<forall>rq2 v. guarded cfg rq2 ck \<and> kv v ck = kv w' ck \<longrightarrow>
                 (\<exists>v'. kv v' = kv v \<and>
                   (\<forall>nxt2. idem_dispatch jc mk_response rx cfg rq2 nxt2 v =
                     (Inr (Built \<lparr>br_content = body, br_status = sc,
                        br_media = header_or hs ''content-type'' ''application/json'',
                        br_headers = [(header_name H_IDEMPOTENCY_REPLAYED, ''true'')]\<rparr>), v'))))"
proof -
  let ?ct = "header_or hs ''content-type'' ''application/json''"
  let ?again = "\<lparr>br_content = body, br_status = sc, br_media = ?ct,
                  br_headers = [(header_name H_IDEMPOTENCY_REPLAYED, ''true'')]\<rparr>"
  obtain w1 where d: "\<And>nx. idem_dispatch jc mk_response rx cfg rq nx w = idem_process_and_cache jc rx cfg nx ck w1"
    using dispatch_claims [OF laws g, of w jc mk_response] free by auto
  obtain w' where w': "idem_process_and_cache jc rx cfg nxt ck w1 =
      (Inr (Built \<lparr>br_content = body, br_status = sc, br_media = ?ct, br_headers = kept_headers hs\<rparr>), w')"
    and kept: "kv w' ck = Some enc"
    using process_stores [OF laws ans cache enc] by blast
  have loads: "jc_loads jc enc = Inr (completed_entry sc body ?ct)"
    using codec enc by (simp add: codec_round_trip_def)
  have "\<exists>v'. kv v' = kv v \<and> (\<forall>nx. idem_dispatch jc mk_response rx cfg rq2 nx v = (Inr (Built ?again), v'))"
    if g2: "guarded cfg rq2 ck" and v: "kv v ck = kv w' ck" for rq2 v
  proof -
    have held: "kv v ck = Some enc" using v kept by simp
    obtain v1 where v1: "kv v1 = kv v"
      and d2: "\<And>nx. idem_dispatch jc mk_response rx cfg rq2 nx v = idem_handle_duplicate jc mk_response rx rq2 ck v1"
      using dispatch_claims [OF laws g2, of v jc mk_response] held by auto
    have "kv v1 ck = Some enc" using v1 held by simp
    from handle_duplicate_replays [OF laws mk this ne loads] obtain v' where
      "idem_handle_duplicate jc mk_response rx rq2 ck v1 = (Inr (Built ?again), v')" "kv v' = kv v1"
      unfolding utf by blast
    then show ?thesis using v1 d2 by auto
  qed
  then show ?thesis using d w' kept by auto
qed

text \<open>
  While the first request with a key is in flight, every other request with that key is answered
  409 and its handler is not run; the entry of the first request is left alone.
\<close>

theorem in_flight_request_conflicts:
  assumes laws: "nx_laws rx kv" and g: "guarded cfg rq ck" and busy: "kv w ck = Some PROCESSING_SENTINEL"
    and rd: "jc_loads jc PROCESSING_SENTINEL = Inr (JDict [(''s'', JStr ''processing'')])"
    and code: "framework_error_code (rq_app rq) CONFLICT_CODE = Inr code"
  shows "\<exists>w'. kv w' = kv w \<and>
           (\<forall>nxt. idem_dispatch jc mk_response rx cfg rq nxt w =
              (Inr (Json \<lparr>jr_status = 409,
                 jr_body = Some (build_error_envelope
                   ''A request with this idempotency key is currently being processed'' (JStr code) None []),
                 jr_headers = None\<rparr>), w'))"
proof -
  obtain w1 where w1: "kv w1 = kv w"
    and d: "\<And>nx. idem_dispatch jc mk_response rx cfg rq nx w = idem_handle_duplicate jc mk_response rx rq ck w1"
    using dispatch_claims [OF laws g, of w jc mk_response] busy by auto
  have "kv w1 ck = Some PROCESSING_SENTINEL" using w1 busy by simp
  from handle_duplicate_busy [where rx = rx, OF laws this rd code] w1 d show ?thesis by auto
qed

text \<open>
  C18: A request that did not take effect frees its key, so that a retry runs the handler: when the
  handler or the reading of its body raises (anything, a cancellation too) the exception is raised
  again, and a response of status 500 and above, 401, 403 or 429, or one over the size limit, is passed on,
  and in each case the key is gone, whatever it held in the meantime.
\<close>

theorem failed_request_releases_key:
  assumes laws: "nx_laws rx kv" and g: "guarded cfg rq ck" and free: "kv w ck = None"
  shows "(raises nxt e \<longrightarrow>
            (\<exists>w'. idem_dispatch jc mk_response rx cfg rq nxt w = (Inl e, w') \<and> kv w' ck = None)) \<and>
         (answers nxt sc hs body \<and> (sc \<ge> 500 \<or> sc \<in> {401, 403, 429} \<or> int (length body) > im_max_response_size cfg) \<longrightarrow>
            (\<exists>w'. idem_dispatch jc mk_response rx cfg rq nxt w =
                  (Inr (Built \<lparr>br_content = body, br_status = sc,
                     br_media = header_or hs ''content-type'' ''application/json'', br_headers = kept_headers hs\<rparr>), w') \<and>
                kv w' ck = None))" (is "(_ \<longrightarrow> ?raised) \<and> (_ \<longrightarrow> ?passed)")
proof -
  obtain w1 where d: "\<And>nx. idem_dispatch jc mk_response rx cfg rq nx w = idem_process_and_cache jc rx cfg nx ck w1"
    using dispatch_claims [OF laws g, of w jc mk_response] free by auto
  have ?raised if "raises nxt e"
  proof -
    from that obtain v' where "run_handler nxt w1 = (Inl e, v')" unfolding raises_def by blast
    from process_raises [OF laws this, of jc cfg ck] d show ?thesis by auto
  qed
  moreover have ?passed if ans: "answers nxt sc hs body"
      and bad: "sc \<ge> 500 \<or> sc \<in> {401, 403, 429} \<or> int (length body) > im_max_response_size cfg"
  proof -
    have "\<not> cacheable cfg sc body" using bad by (auto simp: cacheable_def UNCACHED_STATUSES_def)
    from process_not_stored [OF laws ans this] d show ?thesis by auto
  qed
  ultimately show ?thesis by blast
qed

text \<open>
  Requests of different tenants never share an entry when tenant ids have no colon, whatever the
  idempotency keys are; without that condition they can.
\<close>

theorem tenant_keys_disjoint:
  assumes "t \<noteq> []" "t' \<noteq> []" "k \<noteq> []" "k' \<noteq> []" and "CHR '':'' \<notin> set t" and "CHR '':'' \<notin> set t'"
  shows "(idem_build_key cfg t k = idem_build_key cfg t' k') = (t = t' \<and> k = k') \<and>
         idem_build_key cfg (t @ '':'' @ t') k = idem_build_key cfg t (t' @ '':'' @ k)"
  using assms colon_free_split [of t k t' k'] by (auto simp: build_key_form)

section \<open>Witnesses\<close>

definition dict_redis :: "(string, string) dict nx_redis" where
  "dict_redis =
     \<lparr>rx_connect = (\<lambda>_ w. (Inr (), w)),
      rx_set_nx = (\<lambda>k v _ w. if dict_get w k = None then (Inr True, dict_set k v w) else (Inr False, w)),
      rx_set = (\<lambda>k v _ w. (Inr (), dict_set k v w)),
      rx_get = (\<lambda>k w. (Inr (dict_get w k), w)),
      rx_delete = (\<lambda>k w. (Inr (), dict_del k w))\<rparr>"

definition single_codec :: "json \<Rightarrow> string \<Rightarrow> json_codec" where
  "single_codec v s =
     \<lparr>jc_dumps = (\<lambda>u. if u = v then Inr s else Inl (TypeError ''not serializable'')),
      jc_loads = (\<lambda>t. if t = s then Inr v else Inl (ValueError ''no JSON''))\<rparr>"

definition plain_maker :: response_maker where
  "plain_maker b sc ct hs =
     (case (b, sc, ct) of
        (JStr b', JInt sc', JStr ct') \<Rightarrow> Inr \<lparr>br_content = b', br_status = sc', br_media = ct', br_headers = hs\<rparr>
      | _ \<Rightarrow> Inl (TypeError ''bad response argument''))"

definition leads_config :: idem_config where
  "leads_config = \<lparr>im_redis_url = ''redis://r'', im_service_name = ''crm'', im_ttl = 86400, im_max_response_size = 1048576\<rparr>"

definition lead_request :: api_request where
  "lead_request =
     \<lparr>rq_method = ''POST'', rq_headers = [(''x-idempotency-key'', ''k1'')], rq_tenant = Some ''t1'',
      rq_app = \<lparr>error_code_prefix = Some ''CRM''\<rparr>\<rparr>"

definition respond :: "int \<Rightarrow> string \<Rightarrow> ('w, 'w stream_response) io" where
  "respond sc body = io_return \<lparr>st_status = sc, st_headers = [], st_body = io_return [body]\<rparr>"

lemma dict_redis_laws: "nx_laws dict_redis map_of"
proof -
  have "map_of (dict_del k w) = (map_of w)(k := None)" for k and w :: "(string, string) dict"
    by (rule ext) simp
  then show ?thesis
    by (simp add: nx_laws_def dict_redis_def update_conv' fun_upd_def)
qed

lemma single_codec_round_trip: "codec_round_trip (single_codec v s)"
  by (simp add: codec_round_trip_def single_codec_def)

lemma plain_maker_builds: "builds_responses plain_maker"
  by (simp add: builds_responses_def plain_maker_def)

lemma lead_request_guarded: "guarded leads_config lead_request ''crm:idempotency:t1:k1''"
  by code_simp

lemma respond_answers: "answers (respond sc body) sc [] body"
  by (simp add: answers_def respond_def run_handler_def io_defs)

theorem completed_request_replayed_witness:
  "\<exists>w'. idem_dispatch (single_codec (completed_entry 201 ''{}'' ''application/json'') ''c'') plain_maker dict_redis
           leads_config lead_request (respond 201 ''{}'') [] =
         (Inr (Built \<lparr>br_content = ''{}'', br_status = 201, br_media = ''application/json'', br_headers = []\<rparr>), w')"
proof -
  have *: "header_or [] ''content-type'' ''application/json'' = ''application/json''" by (simp add: header_or_def)
  have c: "cacheable leads_config 201 ''{}''" by code_simp
  have u: "utf8_replace ''{}'' = ''{}''" by code_simp
  have d: "jc_dumps (single_codec (completed_entry 201 ''{}'' ''application/json'') ''c'')
             (completed_entry 201 ''{}'' (header_or [] ''content-type'' ''application/json'')) = Inr ''c''"
    by (simp add: single_codec_def *)
  have k: "kept_headers [] = []" by (simp add: kept_headers_def dict_merge_def)
  have f: "map_of [] ''crm:idempotency:t1:k1'' = None" by simp
  have ne: "''c'' \<noteq> []" by simp
  note completed_request_replayed [where kv = map_of and w = "[]" and ck = "''crm:idempotency:t1:k1''", OF dict_redis_laws single_codec_round_trip plain_maker_builds lead_request_guarded
      f respond_answers c u d ne, unfolded * k]
  then show ?thesis by (elim exE conjE) (rule exI)
qed

theorem in_flight_request_conflicts_witness:
  "\<exists>w'. map_of w' = map_of [(''crm:idempotency:t1:k1'', PROCESSING_SENTINEL)] \<and>
     (\<forall>nxt. idem_dispatch (single_codec (JDict [(''s'', JStr ''processing'')]) PROCESSING_SENTINEL) plain_maker
        dict_redis leads_config lead_request nxt [(''crm:idempotency:t1:k1'', PROCESSING_SENTINEL)] =
      (Inr (Json \<lparr>jr_status = 409,
          jr_body = Some (build_error_envelope
            ''A request with this idempotency key is currently being processed'' (JStr ''CRM_CONFLICT_000'') None []),
          jr_headers = None\<rparr>), w'))"
proof (rule in_flight_request_conflicts [OF dict_redis_laws lead_request_guarded])
  show "map_of [(''crm:idempotency:t1:k1'', PROCESSING_SENTINEL)] ''crm:idempotency:t1:k1'' = Some PROCESSING_SENTINEL"
    by simp
  show "jc_loads (single_codec (JDict [(''s'', JStr ''processing'')]) PROCESSING_SENTINEL) PROCESSING_SENTINEL
          = Inr (JDict [(''s'', JStr ''processing'')])"
    by (simp add: single_codec_def)
  show "framework_error_code (rq_app lead_request) CONFLICT_CODE = Inr ''CRM_CONFLICT_000''"
    by code_simp
qed

theorem failed_request_releases_key_witness:
  "\<exists>w'. idem_dispatch (single_codec JNull ''null'') plain_maker dict_redis leads_config lead_request (respond 503 ''{}'') [] =
         (Inr (Built \<lparr>br_content = ''{}'', br_status = 503, br_media = ''application/json'', br_headers = []\<rparr>), w') \<and>
       map_of w' ''crm:idempotency:t1:k1'' = None"
proof -
  have *: "header_or [] ''content-type'' ''application/json'' = ''application/json''" by (simp add: header_or_def)
  have k: "kept_headers [] = []" by (simp add: kept_headers_def dict_merge_def)
  have f: "map_of [] ''crm:idempotency:t1:k1'' = None" by simp
  have bad: "answers (respond 503 ''{}'') 503 [] ''{}'' \<and>
      (503 \<ge> (500 :: int) \<or> 503 \<in> {401, 403, 429 :: int} \<or> int (length ''{}'') > im_max_response_size leads_config)"
    by (intro conjI disjI1) (rule respond_answers, simp)
  show ?thesis
    by (rule mp [OF conjunct2 [OF failed_request_releases_key
      [where kv = map_of and w = "[]" and ck = "''crm:idempotency:t1:k1''", OF dict_redis_laws lead_request_guarded f]] bad, unfolded * k])
qed

theorem tenant_keys_disjoint_witness:
  "idem_build_key leads_config ''t1'' ''k'' \<noteq> idem_build_key leads_config ''t2'' ''k''"
  using tenant_keys_disjoint [of "''t1''" "''t2''" "''k''" "''k''" leads_config] by simp

end
