(* ===== verification/Webhooks.thy ===== *)
theory Webhooks
  imports Rate_Limit Api_Idempotency
begin

text \<open>
  \<open>webhooks/\<close>, \<open>security.py\<close> and \<open>client_ip.py\<close>: the signature verifiers, the Redis guard against
  redeliveries, the handler table and the endpoint that puts them together. The digests of
  \<open>hashlib\<close> and \<open>hmac\<close> are the record \<open>digests\<close>. What the endpoint is given by the service (limiter,
  event producer, tenant resolver, handlers) are fields of \<open>deployment\<close>, as in the code, where they
  are optional arguments.
\<close>

section \<open>Client address\<close>

record connection =
  cn_resolved_ip :: "string option"
  cn_gateway_verified :: bool
  cn_headers :: "(string, string) dict"
  cn_host :: "string option"

definition cn_header :: "('a connection_scheme) \<Rightarrow> HttpHeader \<Rightarrow> string" where
  "cn_header c h = header_or (cn_headers c) (lower (header_name h)) []"

definition client_ip :: "('a connection_scheme) \<Rightarrow> string" where
  "client_ip c =
     (let resolved = (case cn_resolved_ip c of None \<Rightarrow> [] | Some r \<Rightarrow> r);
          original = cn_header c H_ORIGINAL_IP;
          edge_set = cn_header c H_REAL_IP
      in if resolved \<noteq> [] then resolved
         else if cn_gateway_verified c \<and> original \<noteq> [] then strip original
         else if edge_set \<noteq> [] then strip edge_set
         else case cn_host c of Some h \<Rightarrow> h | None \<Rightarrow> ''unknown'')"

section \<open>Verifiers\<close>

record digests =
  dg_sha256 :: "string \<Rightarrow> string"
  dg_md5 :: "string \<Rightarrow> string"
  dg_hmac_sha256 :: "string \<Rightarrow> string \<Rightarrow> string"

definition constant_time_equals :: "string \<Rightarrow> string \<Rightarrow> bool" where
  "constant_time_equals a b = (a = b)"

record hmac_verifier =
  hv_signature_header :: string
  hv_signature_format :: string

definition HMACVerifier :: "string \<Rightarrow> string \<Rightarrow> hmac_verifier" where
  "HMACVerifier signature_header signature_format =
     \<lparr>hv_signature_header = lower signature_header, hv_signature_format = signature_format\<rparr>"

definition PropertyFinderVerifier :: hmac_verifier where
  "PropertyFinderVerifier = HMACVerifier ''x-signature'' ''hex''"

definition hmac_verify :: "digests \<Rightarrow> hmac_verifier \<Rightarrow> string \<Rightarrow> (string, string) dict \<Rightarrow> string \<Rightarrow> bool" where
  "hmac_verify dg v raw_body headers secret =
     (if secret = [] then True
      else let signature = header_or headers (hv_signature_header v) [] in
        if signature = [] then False
        else let hex = dg_hmac_sha256 dg secret raw_body;
                 expected = (if hv_signature_format v = ''sha256={hex}'' then ''sha256='' @ hex else hex)
             in constant_time_equals expected signature)"

definition bayut_verify :: "digests \<Rightarrow> string \<Rightarrow> (string, string) dict \<Rightarrow> string \<Rightarrow> bool" where
  "bayut_verify dg raw_body headers secret =
     (if secret = [] then True
      else let received = header_or headers ''x-bayut-signature'' [] in
        if received = [] then False
        else constant_time_equals (dg_md5 dg (secret @ raw_body)) (lower received))"

definition meta_verify :: "digests \<Rightarrow> string \<Rightarrow> (string, string) dict \<Rightarrow> string \<Rightarrow> bool" where
  "meta_verify dg raw_body headers secret =
     (if secret = [] then True
      else let signature = header_or headers ''x-hub-signature-256'' [] in
        if signature = [] then False
        else constant_time_equals (''sha256='' @ dg_hmac_sha256 dg secret raw_body) signature)"

definition handle_handshake :: "string \<Rightarrow> (string, string) dict \<Rightarrow> int option" where
  "handle_handshake verify_token query_params =
     (if dict_get query_params ''hub.mode'' \<noteq> Some ''subscribe'' then None
      else if verify_token = [] \<or> dict_get query_params ''hub.verify_token'' \<noteq> Some verify_token then None
      else case dict_get query_params ''hub.challenge'' of
             None \<Rightarrow> None
           | Some challenge \<Rightarrow>
               if challenge = [] then None
               else case py_int challenge of Inr i \<Rightarrow> Some i | Inl _ \<Rightarrow> None)"

text \<open>
  The verifiers of the library and, for the \<open>WebhookVerifier\<close> protocol, one that a service supplies.
\<close>

datatype verifier =
    Hmac hmac_verifier
  | BayutMD5
  | Meta string
  | Custom "string \<Rightarrow> (string, string) dict \<Rightarrow> string \<Rightarrow> bool res"

fun verify :: "digests \<Rightarrow> verifier \<Rightarrow> string \<Rightarrow> (string, string) dict \<Rightarrow> string \<Rightarrow> bool res" where
  "verify dg (Hmac v) raw_body headers secret = Inr (hmac_verify dg v raw_body headers secret)"
| "verify dg BayutMD5 raw_body headers secret = Inr (bayut_verify dg raw_body headers secret)"
| "verify dg (Meta _) raw_body headers secret = Inr (meta_verify dg raw_body headers secret)"
| "verify dg (Custom f) raw_body headers secret = f raw_body headers secret"

section \<open>\<open>WebhookIdempotencyGuard\<close>\<close>

record webhook_guard =
  wg_has_client :: bool
  wg_redis_url :: string
  wg_key_prefix :: string
  wg_default_ttl :: int

definition guard_get_redis :: "'w nx_redis \<Rightarrow> webhook_guard \<Rightarrow> ('w, bool) io" where
  "guard_get_redis rx g =
     (if wg_has_client g then io_return True
      else if wg_redis_url g = [] then io_return False
      else io_except is_Exception (io_bind (rx_connect rx (wg_redis_url g)) (\<lambda>_. io_return True))
             (\<lambda>_. io_return False))"

definition guard_build_key :: "webhook_guard \<Rightarrow> string \<Rightarrow> string \<Rightarrow> string" where
  "guard_build_key g provider event_id =
     join_parts [wg_key_prefix g, ''webhook'', provider, event_id, ''processed'']"

definition effective_ttl :: "webhook_guard \<Rightarrow> int option \<Rightarrow> int" where
  "effective_ttl g ttl = (case ttl of Some t \<Rightarrow> if t \<noteq> 0 then t else wg_default_ttl g | None \<Rightarrow> wg_default_ttl g)"

definition is_duplicate :: "'w nx_redis \<Rightarrow> webhook_guard \<Rightarrow> string \<Rightarrow> string \<Rightarrow> int option \<Rightarrow> ('w, bool) io" where
  "is_duplicate rx g provider event_id ttl =
     (if event_id = [] then io_return False
      else io_bind (guard_get_redis rx g) (\<lambda>connected.
        if \<not> connected then io_return False
        else io_except is_Exception
               (io_bind (rx_set_nx rx (guard_build_key g provider event_id) ''1'' (effective_ttl g ttl))
                  (\<lambda>was_set. io_return (\<not> was_set)))
               (\<lambda>_. io_return False)))"

definition mark_processed :: "'w nx_redis \<Rightarrow> webhook_guard \<Rightarrow> string \<Rightarrow> string \<Rightarrow> int option \<Rightarrow> ('w, unit) io" where
  "mark_processed rx g provider event_id ttl =
     (if event_id = [] then io_return ()
      else io_bind (guard_get_redis rx g) (\<lambda>connected.
        if \<not> connected then io_return ()
        else io_except is_Exception
               (rx_set rx (guard_build_key g provider event_id) ''1'' (effective_ttl g ttl)) (\<lambda>_. io_return ())))"

section \<open>\<open>WebhookRouter\<close>\<close>

record webhook_event =
  wv_provider :: string
  wv_event_id :: string
  wv_event_type :: string
  wv_raw_body :: string
  wv_payload :: json
  wv_headers :: "(string, string) dict"
  wv_tenant_id :: "string option"
  wv_correlation_id :: "string option"
  wv_received_at :: string
  wv_ip_address :: string

type_synonym 's webhook_handler = "webhook_event \<Rightarrow> ('s, unit) io"

record 's webhook_router =
  wr_handlers :: "(string, (string, 's webhook_handler) dict) dict"
  wr_default_handlers :: "(string, 's webhook_handler) dict"

definition new_webhook_router :: "'s webhook_router" where
  "new_webhook_router = \<lparr>wr_handlers = [], wr_default_handlers = []\<rparr>"

definition provider_handlers :: "'s webhook_router \<Rightarrow> string \<Rightarrow> (string, 's webhook_handler) dict" where
  "provider_handlers r provider = (case dict_get (wr_handlers r) provider of Some hs \<Rightarrow> hs | None \<Rightarrow> [])"

definition wr_register :: "string \<Rightarrow> string \<Rightarrow> 's webhook_handler \<Rightarrow> 's webhook_router \<Rightarrow> 's webhook_router" where
  "wr_register provider event_type h r =
     r\<lparr>wr_handlers := dict_set provider (dict_set event_type h (provider_handlers r provider)) (wr_handlers r)\<rparr>"

definition wr_register_default :: "string \<Rightarrow> 's webhook_handler \<Rightarrow> 's webhook_router \<Rightarrow> 's webhook_router" where
  "wr_register_default provider h r = r\<lparr>wr_default_handlers := dict_set provider h (wr_default_handlers r)\<rparr>"

definition find_handler :: "'s webhook_router \<Rightarrow> string \<Rightarrow> string \<Rightarrow> 's webhook_handler option" where
  "find_handler r provider event_type =
     (case dict_get (provider_handlers r provider) event_type of
        Some h \<Rightarrow> Some h
      | None \<Rightarrow> dict_get (wr_default_handlers r) provider)"

definition wr_dispatch :: "'s webhook_router \<Rightarrow> webhook_event \<Rightarrow> ('s, unit) io" where
  "wr_dispatch r event =
     (case find_handler r (wv_provider event) (wv_event_type event) of
        None \<Rightarrow> io_return ()
      | Some h \<Rightarrow> h event)"

section \<open>The endpoint\<close>

record provider_config =
  pc_name :: string
  pc_secret :: string
  pc_signature_header :: string
  pc_signature_format :: string
  pc_event_id_fields :: "string list"
  pc_event_type_fields :: "string list"
  pc_idempotency_ttl_seconds :: int
  pc_dynamic_secret :: bool

definition ProviderConfig :: "string \<Rightarrow> provider_config" where
  "ProviderConfig name =
     \<lparr>pc_name = name, pc_secret = [], pc_signature_header = ''X-Signature'', pc_signature_format = ''hex'',
      pc_event_id_fields = [''eventId'', ''event_id'', ''id''],
      pc_event_type_fields = [''type'', ''event'', ''eventType'', ''event_type''],
      pc_idempotency_ttl_seconds = 86400, pc_dynamic_secret = False\<rparr>"

record 's webhook_request = connection +
  wq_body :: "('s, string) io"

text \<open>
  The arguments of \<open>create_webhook_router\<close>. \<open>dp_rate_check\<close> is present when a limiter and its
  configuration both are: it is \<open>check(build_key(identifier, endpoint, scope), config)\<close>. The verifiers
  are read through the digests, \<open>dp_str\<close> is \<open>str\<close> of a parsed list or dict, and \<open>dp_now\<close> the clock.
\<close>

record 's deployment =
  dp_configs :: "provider_config list"
  dp_verifiers :: "(string, verifier) dict"
  dp_guard :: "webhook_guard option"
  dp_redis :: "'s nx_redis"
  dp_publish :: "(string \<Rightarrow> string \<Rightarrow> json \<Rightarrow> string option \<Rightarrow> ('s, unit) io) option"
  dp_router :: "'s webhook_router option"
  dp_rate_check :: "(string \<Rightarrow> string \<Rightarrow> string \<Rightarrow> ('s, rate_limit_info) io) option"
  dp_tenant_resolver :: "(string \<Rightarrow> (string, string) dict \<Rightarrow> json \<Rightarrow> string option res) option"
  dp_status :: int
  dp_loads :: "string \<Rightarrow> json res"
  dp_digests :: digests
  dp_str :: "json \<Rightarrow> string"
  dp_now :: "'s \<Rightarrow> string"

definition config_map :: "provider_config list \<Rightarrow> (string, provider_config) dict" where
  "config_map cs = foldl (\<lambda>m c. dict_set (pc_name c) c m) [] cs"

fun py_str :: "(json \<Rightarrow> string) \<Rightarrow> json \<Rightarrow> string" where
  "py_str rpr (JStr s) = s"
| "py_str rpr (JInt i) = string_of_int i"
| "py_str rpr (JBool b) = (if b then ''True'' else ''False'')"
| "py_str rpr (JFloat l) = l"
| "py_str rpr JNull = ''None''"
| "py_str rpr v = rpr v"

text \<open>\<open>payload.get\<close> on anything but an object is an \<open>AttributeError\<close>.\<close>

fun extract_field :: "(json \<Rightarrow> string) \<Rightarrow> json \<Rightarrow> string list \<Rightarrow> string res" where
  "extract_field rpr payload [] = Inr []"
| "extract_field rpr payload (name # names) =
     (case payload of
        JDict d \<Rightarrow>
          (case dict_get d name of
             None \<Rightarrow> extract_field rpr payload names
           | Some v \<Rightarrow> if v = JNull then extract_field rpr payload names else Inr (py_str rpr v))
      | _ \<Rightarrow> Inl (AttributeError ''object has no attribute get''))"

definition wq_correlation_id :: "'s webhook_request \<Rightarrow> string option" where
  "wq_correlation_id rq = dict_get (cn_headers rq) (lower (header_name H_CORRELATION_ID))"

definition error_reply :: "'s webhook_request \<Rightarrow> int \<Rightarrow> string \<Rightarrow> string \<Rightarrow> (string, string) dict option \<Rightarrow> json_response" where
  "error_reply rq sc message code hs =
     \<lparr>jr_status = sc, jr_body = Some (build_error_envelope message (JStr code) (wq_correlation_id rq) []), jr_headers = hs\<rparr>"

definition result_reply :: "int \<Rightarrow> string \<Rightarrow> string \<Rightarrow> string \<Rightarrow> json_response" where
  "result_reply sc st event_id message =
     \<lparr>jr_status = sc,
      jr_body = Some (JDict [(''status'', JStr st), (''event_id'', JStr event_id), (''message'', JStr message)]),
      jr_headers = None\<rparr>"

definition invalid_signature :: "'s webhook_request \<Rightarrow> json_response" where
  "invalid_signature rq = error_reply rq 401 ''Invalid webhook signature'' ''WEBHOOK_AUTH_001'' None"

definition duplicate_reply :: "string \<Rightarrow> json_response" where
  "duplicate_reply event_id =
     result_reply 200 ''duplicate'' event_id (''Duplicate webhook '' @ em_dash @ '' already processed'')"

definition accepted_reply :: "'s deployment \<Rightarrow> string \<Rightarrow> json_response" where
  "accepted_reply dp event_id = result_reply (dp_status dp) ''accepted'' event_id ''Webhook queued for processing''"

text \<open>The rate limit: \<open>Some\<close> of the 429 answer, or \<open>None\<close> to go on.\<close>

definition rate_gate :: "'s deployment \<Rightarrow> string \<Rightarrow> 's webhook_request \<Rightarrow> ('s, json_response option) io" where
  "rate_gate dp pn rq =
     (case dp_rate_check dp of
        None \<Rightarrow> io_return None
      | Some check \<Rightarrow>
          io_bind (io_except (\<lambda>e. is_RedisError e \<or> is_OSError e)
                     (io_bind (check (client_ip rq) (''webhook_'' @ pn) ''webhook'') (\<lambda>info. io_return (Some info)))
                     (\<lambda>_. io_return None)) (\<lambda>r.
            case r of
              None \<Rightarrow> io_return None
            | Some info \<Rightarrow>
                if \<not> is_blocked info then io_return None
                else case find (\<lambda>x. \<not> allowed x) (rl_results info) of
                       None \<Rightarrow> io_raise (RuntimeError ''coroutine raised StopIteration'')
                     | Some blocked \<Rightarrow>
                         io_return (Some (error_reply rq 429 ''Rate limit exceeded'' ''WEBHOOK_RATE_LIMIT_001''
                           (Some [(header_name H_RATE_LIMIT_LIMIT, string_of_int (rl_limit blocked)),
                                  (header_name H_RATE_LIMIT_REMAINING, string_of_int (remaining blocked)),
                                  (header_name H_RATE_LIMIT_RESET, string_of_int (reset_at blocked))])))))"

text \<open>Whether the signature is checked and, if so, whether it holds.\<close>

definition verify_gate :: "'s deployment \<Rightarrow> string \<Rightarrow> provider_config \<Rightarrow> string \<Rightarrow> (string, string) dict \<Rightarrow> bool res" where
  "verify_gate dp pn cfg raw_body headers =
     (case dict_get (dp_verifiers dp) pn of
        None \<Rightarrow> Inr True
      | Some v \<Rightarrow>
          if pc_secret cfg \<noteq> [] \<or> pc_dynamic_secret cfg
          then verify (dp_digests dp) v raw_body headers (pc_secret cfg) else Inr True)"

definition webhook_event_id :: "'s deployment \<Rightarrow> provider_config \<Rightarrow> string \<Rightarrow> json \<Rightarrow> string res" where
  "webhook_event_id dp cfg raw_body payload =
     map_sum (\<lambda>e. e) (\<lambda>i. if i = [] then ''sha256:'' @ dg_sha256 (dp_digests dp) raw_body else i)
       (extract_field (dp_str dp) payload (pc_event_id_fields cfg))"

definition webhook_event_type :: "'s deployment \<Rightarrow> provider_config \<Rightarrow> json \<Rightarrow> string res" where
  "webhook_event_type dp cfg payload =
     map_sum (\<lambda>e. e) (\<lambda>t. if t = [] then ''unknown'' else t)
       (extract_field (dp_str dp) payload (pc_event_type_fields cfg))"

definition webhook_tenant ::
  "'s deployment \<Rightarrow> string \<Rightarrow> (string, string) dict \<Rightarrow> json \<Rightarrow> string option res" where
  "webhook_tenant dp pn headers payload =
     map_sum (\<lambda>e. e)
       (\<lambda>t. if t = None \<or> t = Some [] then dict_get headers (lower (header_name H_TENANT_ID)) else t)
       (case dp_tenant_resolver dp of None \<Rightarrow> Inr None | Some f \<Rightarrow> f pn headers payload)"

text \<open>Publishing and dispatch of a new event; the exceptions of both are logged and dropped.\<close>

definition deliver_event :: "'s deployment \<Rightarrow> webhook_event \<Rightarrow> ('s, json_response) io" where
  "deliver_event dp event =
     io_bind (case dp_publish dp of
                None \<Rightarrow> io_return ()
              | Some publish \<Rightarrow>
                  io_except is_Exception
                    (publish (''webhook.'' @ wv_provider event @ ''.received'')
                       (case wv_tenant_id event of Some t \<Rightarrow> t | None \<Rightarrow> [])
                       (JDict [(''provider'', JStr (wv_provider event)), (''event_id'', JStr (wv_event_id event)),
                               (''event_type'', JStr (wv_event_type event)), (''payload'', wv_payload event)])
                       (wv_correlation_id event))
                    (\<lambda>_. io_return ())) (\<lambda>_.
     io_bind (case dp_router dp of
                None \<Rightarrow> io_return ()
              | Some r \<Rightarrow> io_except is_Exception (wr_dispatch r event) (\<lambda>_. io_return ())) (\<lambda>_.
     io_return (accepted_reply dp (wv_event_id event))))"

definition handle_payload ::
  "'s deployment \<Rightarrow> string \<Rightarrow> provider_config \<Rightarrow> 's webhook_request \<Rightarrow> (string, string) dict \<Rightarrow> string \<Rightarrow> json
   \<Rightarrow> ('s, json_response) io" where
  "handle_payload dp pn cfg rq headers raw_body payload =
     io_bind (lift_res (webhook_event_id dp cfg raw_body payload)) (\<lambda>event_id.
     io_bind (lift_res (webhook_event_type dp cfg payload)) (\<lambda>event_type.
     io_bind (lift_res (webhook_tenant dp pn headers payload)) (\<lambda>tenant_id.
     io_bind (case dp_guard dp of
                None \<Rightarrow> io_return False
              | Some g \<Rightarrow> is_duplicate (dp_redis dp) g pn event_id (Some (pc_idempotency_ttl_seconds cfg))) (\<lambda>is_dup s.
       if is_dup then (Inr (duplicate_reply event_id), s)
       else deliver_event dp
              \<lparr>wv_provider = pn, wv_event_id = event_id, wv_event_type = event_type, wv_raw_body = raw_body,
               wv_payload = payload, wv_headers = headers, wv_tenant_id = tenant_id,
               wv_correlation_id = dict_get headers (lower (header_name H_CORRELATION_ID)),
               wv_received_at = dp_now dp s, wv_ip_address = client_ip rq\<rparr> s))))"

text \<open>\<open>{k.lower(): v for k, v in request.headers.items()}\<close>\<close>

definition lowered_headers :: "(string, string) dict \<Rightarrow> (string, string) dict" where
  "lowered_headers hs = dict_merge [] (map (\<lambda>(k, v). (lower k, v)) hs)"

definition receive_webhook :: "'s deployment \<Rightarrow> string \<Rightarrow> 's webhook_request \<Rightarrow> ('s, json_response) io" where
  "receive_webhook dp pn rq =
     (case dict_get (config_map (dp_configs dp)) pn of
        None \<Rightarrow> io_raise (KeyError pn)
      | Some cfg \<Rightarrow>
          io_bind (rate_gate dp pn rq) (\<lambda>blocked.
            case blocked of
              Some r \<Rightarrow> io_return r
            | None \<Rightarrow>
                io_bind (wq_body rq) (\<lambda>raw_body.
                let headers = lowered_headers (cn_headers rq) in
                io_bind (lift_res (verify_gate dp pn cfg raw_body headers)) (\<lambda>ok.
                if \<not> ok then io_return (invalid_signature rq)
                else case dp_loads dp raw_body of
                       Inl e \<Rightarrow>
                         if is_ValueError e
                         then io_return (error_reply rq 400 ''Invalid JSON payload'' ''WEBHOOK_VALIDATION_001'' None)
                         else io_raise e
                     | Inr payload \<Rightarrow> handle_payload dp pn cfg rq headers raw_body payload))))"

definition webhook_health :: "string \<Rightarrow> json" where
  "webhook_health pn =
     JDict [(''status'', JStr ''healthy''), (''provider'', JStr pn), (''endpoint'', JStr (''webhook_'' @ pn))]"

text \<open>The \<open>GET\<close> route exists for a provider whose verifier is the Meta one.\<close>

definition meta_handshake ::
  "'s deployment \<Rightarrow> string \<Rightarrow> 's webhook_request \<Rightarrow> (string, string) dict \<Rightarrow> (string + json_response) option" where
  "meta_handshake dp pn rq query_params =
     (case dict_get (dp_verifiers dp) pn of
        Some (Meta token) \<Rightarrow>
          Some (case handle_handshake token query_params of
                  Some c \<Rightarrow> Inl (string_of_int c)
                | None \<Rightarrow> Inr (error_reply rq 403 ''Verification failed'' ''WEBHOOK_AUTH_002'' None))
      | _ \<Rightarrow> None)"

section \<open>Routes\<close>

datatype route_kind = Receive | Health | Handshake

text \<open>The routes that \<open>create_webhook_router\<close> adds, in order: method, path, operation and its provider.\<close>

definition provider_routes :: "'s deployment \<Rightarrow> provider_config \<Rightarrow> (string \<times> string \<times> route_kind \<times> string) list" where
  "provider_routes dp cfg =
     [(''POST'', ''/'' @ pc_name cfg, Receive, pc_name cfg), (''GET'', ''/'' @ pc_name cfg @ ''/health'', Health, pc_name cfg)]
     @ (case dict_get (dp_verifiers dp) (pc_name cfg) of
          Some (Meta token) \<Rightarrow> [(''GET'', ''/'' @ pc_name cfg, Handshake, pc_name cfg)]
        | _ \<Rightarrow> [])"

definition create_webhook_router :: "'s deployment \<Rightarrow> (string \<times> string \<times> route_kind \<times> string) list" where
  "create_webhook_router dp = concat (map (provider_routes dp) (dp_configs dp))"

lemma provider_routes_own:
  "(mth, path, k, pn) \<in> set (provider_routes dp cfg) \<Longrightarrow> pn = pc_name cfg \<and> (path = ''/'' @ pn \<or> path = ''/'' @ pn @ ''/health'')"
  by (auto simp: provider_routes_def split: option.splits verifier.splits)

text \<open>With names without a slash, the path determines the provider: no provider can shadow a route of another.\<close>

definition path_provider :: "string \<Rightarrow> string" where
  "path_provider path = takeWhile (\<lambda>c. c \<noteq> CHR ''/'') (tl path)"

lemma path_provider_route:
  assumes "path = ''/'' @ p \<or> path = ''/'' @ p @ ''/health''" and "CHR ''/'' \<notin> set p"
  shows "path_provider path = p"
proof -
  have "takeWhile (\<lambda>c. c \<noteq> CHR ''/'') (p @ ys) = p @ takeWhile (\<lambda>c. c \<noteq> CHR ''/'') ys" for ys
    using assms(2) by (intro takeWhile_append2) metis
  from this [of "[]"] this [of "''/health''"] assms(1) show ?thesis
    by (elim disjE) (simp_all add: path_provider_def)
qed

lemma routes_of_one_provider:
  assumes "(m1, path, k1, p1) \<in> set (create_webhook_router dp)" and "(m2, path, k2, p2) \<in> set (create_webhook_router dp)"
    and "CHR ''/'' \<notin> set p1" and "CHR ''/'' \<notin> set p2"
  shows "p1 = p2"
proof -
  have own: "path = ''/'' @ p \<or> path = ''/'' @ p @ ''/health''"
    if r: "(m, path, k, p) \<in> set (create_webhook_router dp)" for m k p
  proof -
    from r obtain cfg where "(m, path, k, p) \<in> set (provider_routes dp cfg)"
      unfolding create_webhook_router_def set_concat set_map by blast
    from provider_routes_own [OF this] show ?thesis by (rule conjunct2)
  qed
  from path_provider_route [OF own [OF assms(1)] assms(3)] path_provider_route [OF own [OF assms(2)] assms(4)]
  show ?thesis by (rule trans [OF sym])
qed

section \<open>Signature schemes\<close>

text \<open>
  What the endpoint relies on in a verifier of the library: with a secret it accepts exactly the bodies
  whose header carries the expected digest, and without one it accepts everything.
\<close>

locale signature_scheme =
  fixes vrf :: "string \<Rightarrow> (string, string) dict \<Rightarrow> string \<Rightarrow> bool"
    and sig_header :: string
    and normal :: "string \<Rightarrow> string"
    and expected :: "string \<Rightarrow> string \<Rightarrow> string"
  assumes checked: "secret \<noteq> [] \<Longrightarrow> vrf body headers secret =
      (case dict_get headers sig_header of
         None \<Rightarrow> False | Some sig \<Rightarrow> sig \<noteq> [] \<and> normal sig = expected secret body)"
    and unconfigured: "vrf body headers []"
begin

lemma unsigned_rejected: "secret \<noteq> [] \<Longrightarrow> dict_get headers sig_header = None \<Longrightarrow> \<not> vrf body headers secret"
  by (simp add: checked)

lemma tampered_rejected:
  assumes "secret \<noteq> []" and "vrf body headers secret" and "expected secret body \<noteq> expected secret body'"
  shows "\<not> vrf body' headers secret"
  using assms by (auto simp: checked split: option.splits)

lemma genuine_accepted:
  assumes "normal sig = expected secret body" and "sig \<noteq> []" and "dict_get headers sig_header = Some sig"
  shows "vrf body headers secret"
  using assms unconfigured by (cases "secret = []") (simp_all add: checked)

end

definition hmac_expected :: "digests \<Rightarrow> hmac_verifier \<Rightarrow> string \<Rightarrow> string \<Rightarrow> string" where
  "hmac_expected dg v secret body =
     (if hv_signature_format v = ''sha256={hex}'' then ''sha256='' else []) @ dg_hmac_sha256 dg secret body"

lemmas verify_defs =
  hmac_verify_def bayut_verify_def meta_verify_def hmac_expected_def header_or_def constant_time_equals_def Let_def

interpretation hmac: signature_scheme "hmac_verify dg v" "hv_signature_header v" "\<lambda>sig. sig" "hmac_expected dg v" for dg v
  by unfold_locales (auto simp: verify_defs split: option.splits)

interpretation bayut: signature_scheme "bayut_verify dg" "''x-bayut-signature''" lower "\<lambda>secret body. dg_md5 dg (secret @ body)" for dg
  by unfold_locales (auto simp: verify_defs split: option.splits)

interpretation meta: signature_scheme "meta_verify dg" "''x-hub-signature-256''" "\<lambda>sig. sig"
    "\<lambda>secret body. ''sha256='' @ dg_hmac_sha256 dg secret body" for dg
  by unfold_locales (auto simp: verify_defs split: option.splits)

text \<open>The header that a library verifier reads, what it does to its value and the digest it wants.\<close>

fun signature_of :: "verifier \<Rightarrow> (string, string) dict \<Rightarrow> string option" where
  "signature_of (Hmac v) headers = dict_get headers (hv_signature_header v)"
| "signature_of BayutMD5 headers = map_option lower (dict_get headers ''x-bayut-signature'')"
| "signature_of (Meta _) headers = dict_get headers ''x-hub-signature-256''"
| "signature_of (Custom _) headers = None"

fun digest_of :: "digests \<Rightarrow> verifier \<Rightarrow> string \<Rightarrow> string \<Rightarrow> string" where
  "digest_of dg (Hmac v) secret body = hmac_expected dg v secret body"
| "digest_of dg BayutMD5 secret body = dg_md5 dg (secret @ body)"
| "digest_of dg (Meta _) secret body = ''sha256='' @ dg_hmac_sha256 dg secret body"
| "digest_of dg (Custom _) secret body = []"

fun library_verifier :: "verifier \<Rightarrow> bool" where
  "library_verifier (Custom _) = False"
| "library_verifier _ = True"

lemma lower_Nil_iff [simp]: "lower s = [] \<longleftrightarrow> s = []"
  by (simp add: lower_def)

lemma library_verify:
  assumes "library_verifier v"
  shows "verify dg v body headers secret =
           Inr (secret = [] \<or> (case signature_of v headers of None \<Rightarrow> False
                               | Some sig \<Rightarrow> sig \<noteq> [] \<and> sig = digest_of dg v secret body))"
proof (cases "secret = []")
  case True
  then show ?thesis using assms by (cases v) (simp_all add: hmac.unconfigured bayut.unconfigured meta.unconfigured)
next
  case False
  then show ?thesis using assms
    by (cases v) (auto simp: hmac.checked bayut.checked meta.checked split: option.splits)
qed

section \<open>Lemmas\<close>

definition guard_connects :: "webhook_guard \<Rightarrow> bool" where
  "guard_connects g = (wg_has_client g \<or> wg_redis_url g \<noteq> [])"

lemma guard_get_redis_connects:
  assumes "nx_laws rx kv" and "guard_connects g"
  shows "\<exists>w'. guard_get_redis rx g w = (Inr True, w') \<and> kv w' = kv w"
  using assms(2) nx_connect [OF assms(1), of "wg_redis_url g" w]
  by (auto simp: guard_get_redis_def guard_connects_def io_defs)

lemma is_duplicate_decides:
  assumes laws: "nx_laws rx kv" and g: "guard_connects g" and "event_id \<noteq> []"
  shows "\<exists>w'. is_duplicate rx g pn event_id ttl w = (Inr (kv w (guard_build_key g pn event_id) \<noteq> None), w') \<and>
              kv w' = (if kv w (guard_build_key g pn event_id) = None
                       then (kv w)(guard_build_key g pn event_id := Some ''1'') else kv w)"
proof -
  let ?k = "guard_build_key g pn event_id"
  obtain w0 where c: "guard_get_redis rx g w = (Inr True, w0)" and w0: "kv w0 = kv w"
    using guard_get_redis_connects [OF laws g] by blast
  obtain w1 where "rx_set_nx rx ?k ''1'' (effective_ttl g ttl) w0 = (Inr (kv w0 ?k = None), w1)"
    and "kv w1 = (if kv w0 ?k = None then (kv w0)(?k := Some ''1'') else kv w0)"
    using nx_set_nx [OF laws] by blast
  with c w0 assms(3) show ?thesis by (simp add: is_duplicate_def io_defs)
qed

text \<open>A delivery that reaches the guard: not rate limited, signed, and with a payload that has an event.\<close>

definition reaches_guard ::
  "'s deployment \<Rightarrow> string \<Rightarrow> 's webhook_request \<Rightarrow> 's \<Rightarrow> string \<Rightarrow> json \<Rightarrow> string \<Rightarrow> 's \<Rightarrow> bool" where
  "reaches_guard dp pn rq s raw_body payload event_id s' =
     (case dict_get (config_map (dp_configs dp)) pn of
        None \<Rightarrow> False
      | Some cfg \<Rightarrow>
          io_bind (rate_gate dp pn rq) (\<lambda>b. case b of Some _ \<Rightarrow> io_return None
            | None \<Rightarrow> io_bind (wq_body rq) (\<lambda>raw. io_return (Some raw))) s = (Inr (Some raw_body), s') \<and>
          verify_gate dp pn cfg raw_body (lowered_headers (cn_headers rq)) = Inr True \<and>
          dp_loads dp raw_body = Inr payload \<and>
          webhook_event_id dp cfg raw_body payload = Inr event_id \<and> event_id \<noteq> [] \<and>
          (\<exists>t. webhook_event_type dp cfg payload = Inr t) \<and>
          (\<exists>t. webhook_tenant dp pn (lowered_headers (cn_headers rq)) payload = Inr t))"

lemma reaches_guard_payload:
  assumes "reaches_guard dp pn rq s raw_body payload event_id s'"
  obtains cfg where "dict_get (config_map (dp_configs dp)) pn = Some cfg"
    and "receive_webhook dp pn rq s =
           handle_payload dp pn cfg rq (lowered_headers (cn_headers rq)) raw_body payload s'"
    and "webhook_event_id dp cfg raw_body payload = Inr event_id" "event_id \<noteq> []"
    and "\<exists>t. webhook_event_type dp cfg payload = Inr t"
    and "\<exists>t. webhook_tenant dp pn (lowered_headers (cn_headers rq)) payload = Inr t"
proof -
  obtain cfg where c: "dict_get (config_map (dp_configs dp)) pn = Some cfg"
    and run: "io_bind (rate_gate dp pn rq) (\<lambda>b. case b of Some _ \<Rightarrow> io_return None
            | None \<Rightarrow> io_bind (wq_body rq) (\<lambda>raw. io_return (Some raw))) s = (Inr (Some raw_body), s')"
    and v: "verify_gate dp pn cfg raw_body (lowered_headers (cn_headers rq)) = Inr True"
    and l: "dp_loads dp raw_body = Inr payload"
    and rest: "webhook_event_id dp cfg raw_body payload = Inr event_id" "event_id \<noteq> []"
      "\<exists>t. webhook_event_type dp cfg payload = Inr t"
      "\<exists>t. webhook_tenant dp pn (lowered_headers (cn_headers rq)) payload = Inr t"
    using assms unfolding reaches_guard_def by (cases "dict_get (config_map (dp_configs dp)) pn") simp_all
  from run obtain b s1 where b: "rate_gate dp pn rq s = (Inr b, s1)"
    and run1: "(case b of Some _ \<Rightarrow> io_return None
            | None \<Rightarrow> io_bind (wq_body rq) (\<lambda>raw. io_return (Some raw))) s1 = (Inr (Some raw_body), s')"
    by (rule io_bind_InrE)
  have bN: "b = None" using run1 by (cases b) (simp_all add: io_defs)
  have body: "wq_body rq s1 = (Inr raw_body, s')"
    using run1 unfolding bN by (simp add: io_bind_def io_return_def split: prod.splits sum.splits)
  have "receive_webhook dp pn rq s =
          handle_payload dp pn cfg rq (lowered_headers (cn_headers rq)) raw_body payload s'"
    using c b bN body v l by (simp add: receive_webhook_def io_bind_def lift_res_def Let_def)
  with c rest show thesis using that by simp
qed

lemma deliver_event_accepts:
  "(\<exists>s'. deliver_event dp ev s = (Inr (accepted_reply dp (wv_event_id ev)), s')) \<or>
   (\<exists>e s'. deliver_event dp ev s = (Inl e, s') \<and> \<not> is_Exception e)"
  by (auto simp: deliver_event_def io_defs split: option.splits prod.splits sum.splits if_splits)

lemma deliver_event_keeps:
  assumes "\<And>p a b c d. dp_publish dp = Some p \<Longrightarrow> io_keeps P (p a b c d)"
    and "\<And>r. dp_router dp = Some r \<Longrightarrow> io_keeps P (wr_dispatch r ev)"
  shows "io_keeps P (deliver_event dp ev)"
  unfolding deliver_event_def using assms by (intro io_rules) (auto split: option.splits intro!: io_rules)

lemma handle_payload_guarded:
  assumes laws: "nx_laws (dp_redis dp) kv" and g: "dp_guard dp = Some g" "guard_connects g"
    and id: "webhook_event_id dp cfg raw_body payload = Inr event_id" "event_id \<noteq> []"
    and t: "webhook_event_type dp cfg payload = Inr t" and n: "webhook_tenant dp pn headers payload = Inr n"
  shows "\<exists>s'. kv s' = (if kv s (guard_build_key g pn event_id) = None
                       then (kv s)(guard_build_key g pn event_id := Some ''1'') else kv s) \<and>
           handle_payload dp pn cfg rq headers raw_body payload s =
             (if kv s (guard_build_key g pn event_id) \<noteq> None then (Inr (duplicate_reply event_id), s')
              else deliver_event dp
                \<lparr>wv_provider = pn, wv_event_id = event_id, wv_event_type = t, wv_raw_body = raw_body,
                 wv_payload = payload, wv_headers = headers, wv_tenant_id = n,
                 wv_correlation_id = dict_get headers (lower (header_name H_CORRELATION_ID)),
                 wv_received_at = dp_now dp s', wv_ip_address = client_ip rq\<rparr> s')"
proof -
  obtain s' where "is_duplicate (dp_redis dp) g pn event_id (Some (pc_idempotency_ttl_seconds cfg)) s
                     = (Inr (kv s (guard_build_key g pn event_id) \<noteq> None), s')"
    and "kv s' = (if kv s (guard_build_key g pn event_id) = None
                  then (kv s)(guard_build_key g pn event_id := Some ''1'') else kv s)"
    using is_duplicate_decides [OF laws g(2) id(2)] by blast
  with g(1) id(1) t n show ?thesis
    by (auto simp: handle_payload_def io_bind_def lift_res_def)
qed

lemma guard_outcome:
  assumes laws: "nx_laws (dp_redis dp) kv" and g: "dp_guard dp = Some g" "guard_connects g"
    and r: "reaches_guard dp pn rq s raw_body payload event_id s'"
  shows "\<exists>s2 ev. kv s2 = (if kv s' (guard_build_key g pn event_id) = None
                         then (kv s')(guard_build_key g pn event_id := Some ''1'') else kv s') \<and>
           wv_provider ev = pn \<and> wv_event_id ev = event_id \<and> wv_payload ev = payload \<and> wv_raw_body ev = raw_body \<and>
           receive_webhook dp pn rq s =
             (if kv s' (guard_build_key g pn event_id) = None then deliver_event dp ev s2
              else (Inr (duplicate_reply event_id), s2))"
proof -
  obtain cfg t n where eq: "receive_webhook dp pn rq s =
           handle_payload dp pn cfg rq (lowered_headers (cn_headers rq)) raw_body payload s'"
    and id: "webhook_event_id dp cfg raw_body payload = Inr event_id" "event_id \<noteq> []"
    and t: "webhook_event_type dp cfg payload = Inr t"
    and n: "webhook_tenant dp pn (lowered_headers (cn_headers rq)) payload = Inr n"
    using reaches_guard_payload [OF r] by blast
  obtain s2 where "kv s2 = (if kv s' (guard_build_key g pn event_id) = None
                            then (kv s')(guard_build_key g pn event_id := Some ''1'') else kv s')"
    and h: "handle_payload dp pn cfg rq (lowered_headers (cn_headers rq)) raw_body payload s' =
             (if kv s' (guard_build_key g pn event_id) \<noteq> None then (Inr (duplicate_reply event_id), s2)
              else deliver_event dp
                \<lparr>wv_provider = pn, wv_event_id = event_id, wv_event_type = t, wv_raw_body = raw_body,
                 wv_payload = payload, wv_headers = lowered_headers (cn_headers rq), wv_tenant_id = n,
                 wv_correlation_id = dict_get (lowered_headers (cn_headers rq)) (lower (header_name H_CORRELATION_ID)),
                 wv_received_at = dp_now dp s2, wv_ip_address = client_ip rq\<rparr> s2)"
    using handle_payload_guarded [OF laws g id t n] by blast
  moreover note eq
  ultimately show ?thesis
    by (intro exI [of _ s2] exI [of _ "\<lparr>wv_provider = pn, wv_event_id = event_id, wv_event_type = t, wv_raw_body = raw_body,
                 wv_payload = payload, wv_headers = lowered_headers (cn_headers rq), wv_tenant_id = n,
                 wv_correlation_id = dict_get (lowered_headers (cn_headers rq)) (lower (header_name H_CORRELATION_ID)),
                 wv_received_at = dp_now dp s2, wv_ip_address = client_ip rq\<rparr>"]) simp
qed

section \<open>Properties\<close>

text \<open>
  C10: For a provider with a secret and a verifier of the library, a delivery whose signature header
  is missing or is not the digest of its body is answered 401, and nothing happens but the rate-limit
  check and the reading of the body: no parsing, no mark in Redis, no event and no handler. With an
  empty secret the verifiers accept every body, also under \<open>dynamic_secret\<close>.
\<close>

theorem forged_webhook_rejected:
  assumes cfg: "dict_get (config_map (dp_configs dp)) pn = Some cfg"
    and v: "dict_get (dp_verifiers dp) pn = Some v" and lib: "library_verifier v"
  shows "(pc_secret cfg \<noteq> [] \<and>
          (\<forall>s raw s'. wq_body rq s = (Inr raw, s') \<longrightarrow>
             signature_of v (lowered_headers (cn_headers rq)) \<noteq> Some (digest_of (dp_digests dp) v (pc_secret cfg) raw) \<or>
             digest_of (dp_digests dp) v (pc_secret cfg) raw = []) \<longrightarrow>
          receive_webhook dp pn rq =
            io_bind (rate_gate dp pn rq) (\<lambda>blocked. case blocked of
              Some r \<Rightarrow> io_return r
            | None \<Rightarrow> io_bind (wq_body rq) (\<lambda>_. io_return (invalid_signature rq)))) \<and>
         (pc_secret cfg = [] \<longrightarrow> verify_gate dp pn cfg raw_body headers = Inr True)"
proof (intro conjI impI)
  assume a: "pc_secret cfg \<noteq> [] \<and>
          (\<forall>s raw s'. wq_body rq s = (Inr raw, s') \<longrightarrow>
             signature_of v (lowered_headers (cn_headers rq)) \<noteq> Some (digest_of (dp_digests dp) v (pc_secret cfg) raw) \<or>
             digest_of (dp_digests dp) v (pc_secret cfg) raw = [])"
  let ?hs = "lowered_headers (cn_headers rq)"
  have no: "verify_gate dp pn cfg raw ?hs = Inr False" if "wq_body rq s = (Inr raw, s')" for s raw s'
    using a that v by (auto simp: verify_gate_def library_verify [OF lib] split: option.splits)
  show "receive_webhook dp pn rq =
            io_bind (rate_gate dp pn rq) (\<lambda>blocked. case blocked of
              Some r \<Rightarrow> io_return r
            | None \<Rightarrow> io_bind (wq_body rq) (\<lambda>_. io_return (invalid_signature rq)))"
    unfolding receive_webhook_def cfg option.case Let_def
    by (intro ext) (auto simp: io_bind_def io_return_def lift_res_def no split: prod.splits sum.splits option.splits)
next
  assume "pc_secret cfg = []"
  then show "verify_gate dp pn cfg raw_body headers = Inr True"
    using v by (simp add: verify_gate_def library_verify [OF lib])
qed

text \<open>
  The first delivery of an event that reaches the guard marks it and is published and dispatched;
  a delivery whose mark is live is answered 200 \<open>duplicate\<close>, and neither the producer nor a handler is
  called for it. An event id that the provider did not send is a function of the body, so identical bodies are
  duplicates of each other.
\<close>

theorem webhook_redelivery_skipped:
  assumes laws: "nx_laws (dp_redis dp) kv" and g: "dp_guard dp = Some g" "guard_connects g"
    and r: "reaches_guard dp pn rq s raw_body payload event_id s'"
  shows "\<exists>s2 ev. kv s2 = (if kv s' (guard_build_key g pn event_id) = None
                         then (kv s')(guard_build_key g pn event_id := Some ''1'') else kv s') \<and>
           wv_provider ev = pn \<and> wv_event_id ev = event_id \<and> wv_payload ev = payload \<and> wv_raw_body ev = raw_body \<and>
           receive_webhook dp pn rq s =
             (if kv s' (guard_build_key g pn event_id) = None then deliver_event dp ev s2
              else (Inr (duplicate_reply event_id), s2))"
  by (rule guard_outcome [OF assms])

text \<open>
  The mark is set before the handler runs and is not taken back: when neither the producer nor
  the handler touches the mark, a delivery that is answered at all is answered as accepted, however
  publishing and handling failed, and the provider's redelivery of it is skipped as a duplicate.
\<close>

theorem failed_webhook_not_retried:
  assumes laws: "nx_laws (dp_redis dp) kv" and g: "dp_guard dp = Some g" "guard_connects g"
    and r: "reaches_guard dp pn rq s raw_body payload event_id s'"
    and new: "kv s' (guard_build_key g pn event_id) = None"
    and p: "\<And>p a b c d. dp_publish dp = Some p \<Longrightarrow> io_keeps (\<lambda>s. kv s (guard_build_key g pn event_id) \<noteq> None) (p a b c d)"
    and h: "\<And>r ev. dp_router dp = Some r \<Longrightarrow> io_keeps (\<lambda>s. kv s (guard_build_key g pn event_id) \<noteq> None) (wr_dispatch r ev)"
  shows "(\<forall>e. fst (receive_webhook dp pn rq s) = Inl e \<longrightarrow> \<not> is_Exception e) \<and>
         (\<forall>reply. fst (receive_webhook dp pn rq s) = Inr reply \<longrightarrow> reply = accepted_reply dp event_id) \<and>
         (\<forall>rq2 v v'. reaches_guard dp pn rq2 v raw_body payload event_id v' \<and>
             kv v' (guard_build_key g pn event_id) = kv (snd (receive_webhook dp pn rq s)) (guard_build_key g pn event_id) \<longrightarrow>
             fst (receive_webhook dp pn rq2 v) = Inr (duplicate_reply event_id))"
proof -
  let ?k = "guard_build_key g pn event_id"
  obtain s2 ev where kv2: "kv s2 = (kv s')(?k := Some ''1'')" and ev: "wv_event_id ev = event_id"
    and run: "receive_webhook dp pn rq s = deliver_event dp ev s2"
    using guard_outcome [OF laws g r] unfolding new by (elim exE conjE) (simp only: if_True simp_thms)
  have s2: "kv s2 ?k = Some ''1''" by (simp add: kv2)
  have "io_keeps (\<lambda>s. kv s ?k \<noteq> None) (deliver_event dp ev)" by (rule deliver_event_keeps) (rule p h, assumption)+
  then have mark: "kv (snd (receive_webhook dp pn rq s)) ?k \<noteq> None"
    unfolding run by (rule io_keepsD) (simp add: s2)
  have again: "fst (receive_webhook dp pn rq2 v) = Inr (duplicate_reply event_id)"
    if "reaches_guard dp pn rq2 v raw_body payload event_id v'" and "kv v' ?k = kv (snd (receive_webhook dp pn rq s)) ?k"
    for rq2 v v'
    using guard_outcome [OF laws g that(1)] that(2) mark by auto
  have out: "(\<exists>s'. receive_webhook dp pn rq s = (Inr (accepted_reply dp event_id), s')) \<or>
             (\<exists>e s'. receive_webhook dp pn rq s = (Inl e, s') \<and> \<not> is_Exception e)"
    using deliver_event_accepts [of dp ev s2] unfolding run ev .
  show ?thesis
  proof (intro conjI allI impI)
    show "\<not> is_Exception e" if "fst (receive_webhook dp pn rq s) = Inl e" for e using out that by auto
    show "reply = accepted_reply dp event_id" if "fst (receive_webhook dp pn rq s) = Inr reply" for reply
      using out that by auto
    show "fst (receive_webhook dp pn rq2 v) = Inr (duplicate_reply event_id)"
      if "reaches_guard dp pn rq2 v raw_body payload event_id v' \<and>
             kv v' ?k = kv (snd (receive_webhook dp pn rq s)) ?k" for rq2 v v'
      using that again by blast
  qed
qed

section \<open>Witnesses\<close>

definition bayut_guard :: webhook_guard where
  "bayut_guard = \<lparr>wg_has_client = True, wg_redis_url = [], wg_key_prefix = ''crm'', wg_default_ttl = 86400\<rparr>"

definition bayut_deployment :: "(string, string) dict deployment" where
  "bayut_deployment =
     \<lparr>dp_configs = [(ProviderConfig ''bayut'')\<lparr>pc_secret := ''k''\<rparr>], dp_verifiers = [(''bayut'', BayutMD5)],
      dp_guard = Some bayut_guard, dp_redis = dict_redis, dp_publish = None,
      dp_router = Some (wr_register_default ''bayut'' (\<lambda>_. io_raise (RuntimeError ''database down'')) new_webhook_router),
      dp_rate_check = None, dp_tenant_resolver = None, dp_status = 202,
      dp_loads = (\<lambda>_. Inr (JDict [(''id'', JInt 7)])),
      dp_digests = \<lparr>dg_sha256 = (\<lambda>s. s), dg_md5 = (\<lambda>s. s), dg_hmac_sha256 = (\<lambda>k s. k @ s)\<rparr>,
      dp_str = (\<lambda>_. []), dp_now = (\<lambda>_. [])\<rparr>"

definition bayut_request :: "string \<Rightarrow> (string, string) dict webhook_request" where
  "bayut_request sig =
     \<lparr>cn_resolved_ip = None, cn_gateway_verified = False, cn_headers = [(''x-bayut-signature'', sig)], cn_host = None,
      wq_body = io_return ''b''\<rparr>"

lemma bayut_reaches: "reaches_guard bayut_deployment ''bayut'' (bayut_request ''kb'') w ''b'' (JDict [(''id'', JInt 7)]) ''7'' w"
proof -
  have h: "lowered_headers (cn_headers (bayut_request ''kb'')) = [(''x-bayut-signature'', ''kb'')]" by code_simp
  have c: "dict_get (config_map (dp_configs bayut_deployment)) ''bayut'' = Some ((ProviderConfig ''bayut'')\<lparr>pc_secret := ''k''\<rparr>)"
    by (simp add: bayut_deployment_def config_map_def ProviderConfig_def)
  have v: "verify_gate bayut_deployment ''bayut'' ((ProviderConfig ''bayut'')\<lparr>pc_secret := ''k''\<rparr>) ''b''
             [(''x-bayut-signature'', ''kb'')] = Inr True" by code_simp
  have i: "webhook_event_id bayut_deployment ((ProviderConfig ''bayut'')\<lparr>pc_secret := ''k''\<rparr>) ''b''
             (JDict [(''id'', JInt 7)]) = Inr ''7''" by code_simp
  have t: "webhook_event_type bayut_deployment ((ProviderConfig ''bayut'')\<lparr>pc_secret := ''k''\<rparr>)
             (JDict [(''id'', JInt 7)]) = Inr ''unknown''" by code_simp
  have n: "webhook_tenant bayut_deployment ''bayut'' [(''x-bayut-signature'', ''kb'')] (JDict [(''id'', JInt 7)]) = Inr None"
    by code_simp
  have l: "dp_loads bayut_deployment ''b'' = Inr (JDict [(''id'', JInt 7)])" by (simp add: bayut_deployment_def)
  have b: "io_bind (rate_gate bayut_deployment ''bayut'' (bayut_request ''kb'')) (\<lambda>b. case b of Some _ \<Rightarrow> io_return None
            | None \<Rightarrow> io_bind (wq_body (bayut_request ''kb'')) (\<lambda>raw. io_return (Some raw))) w = (Inr (Some ''b''), w)"
    by (simp add: rate_gate_def bayut_deployment_def bayut_request_def io_defs)
  show ?thesis unfolding reaches_guard_def h c option.case
    by (intro conjI b v l i) (simp_all only: t n sum.inject ex_simps simp_thms list.distinct not_False_eq_True)
qed

lemma bayut_guard_key: "guard_build_key bayut_guard ''bayut'' ''7'' = ''crm:webhook:bayut:7:processed''"
  by code_simp

lemma bayut_guard_given: "dp_guard bayut_deployment = Some bayut_guard" "guard_connects bayut_guard"
  by (simp_all add: bayut_deployment_def bayut_guard_def guard_connects_def)

lemma bayut_laws: "nx_laws (dp_redis bayut_deployment) map_of"
  using dict_redis_laws by (simp add: bayut_deployment_def)

theorem forged_webhook_rejected_witness:
  "receive_webhook bayut_deployment ''bayut'' (bayut_request ''guess'') =
     io_bind (rate_gate bayut_deployment ''bayut'' (bayut_request ''guess'')) (\<lambda>blocked. case blocked of
        Some r \<Rightarrow> io_return r
      | None \<Rightarrow> io_bind (wq_body (bayut_request ''guess'')) (\<lambda>_. io_return (invalid_signature (bayut_request ''guess''))))"
proof -
  let ?cfg = "(ProviderConfig ''bayut'')\<lparr>pc_secret := ''k''\<rparr>"
  have c: "dict_get (config_map (dp_configs bayut_deployment)) ''bayut'' = Some ?cfg"
    by (simp add: bayut_deployment_def config_map_def ProviderConfig_def)
  have v: "dict_get (dp_verifiers bayut_deployment) ''bayut'' = Some BayutMD5" by (simp add: bayut_deployment_def)
  have h: "lowered_headers (cn_headers (bayut_request ''guess'')) = [(''x-bayut-signature'', ''guess'')]" by code_simp
  have sig: "signature_of BayutMD5 [(''x-bayut-signature'', ''guess'')] = Some ''guess''" by code_simp
  have d: "digest_of (dp_digests bayut_deployment) BayutMD5 (pc_secret ?cfg) ''b'' = ''kb''" by code_simp
  have bad: "pc_secret ?cfg \<noteq> [] \<and>
          (\<forall>s raw s'. wq_body (bayut_request ''guess'') s = (Inr raw, s') \<longrightarrow>
             signature_of BayutMD5 (lowered_headers (cn_headers (bayut_request ''guess'')))
               \<noteq> Some (digest_of (dp_digests bayut_deployment) BayutMD5 (pc_secret ?cfg) raw) \<or>
             digest_of (dp_digests bayut_deployment) BayutMD5 (pc_secret ?cfg) raw = [])"
    unfolding h sig using d by (auto simp: bayut_request_def io_return_def)
  show ?thesis
    by (rule mp [OF conjunct1 [OF forged_webhook_rejected [OF c v library_verifier.simps(3) [THEN iffD2, OF TrueI]]] bad])
qed

theorem webhook_redelivery_skipped_witness:
  "\<exists>s2. receive_webhook bayut_deployment ''bayut'' (bayut_request ''kb'') [(''crm:webhook:bayut:7:processed'', ''1'')] =
          (Inr (duplicate_reply ''7''), s2)"
  using webhook_redelivery_skipped [OF bayut_laws bayut_guard_given bayut_reaches
      [of "[(''crm:webhook:bayut:7:processed'', ''1'')]"], unfolded bayut_guard_key]
  by (elim exE conjE) (simp only: map_of.simps prod.sel fun_upd_same option.simps if_False if_True simp_thms, rule exI, rule refl)

theorem failed_webhook_not_retried_witness:
  "fst (receive_webhook bayut_deployment ''bayut'' (bayut_request ''kb'')
          (snd (receive_webhook bayut_deployment ''bayut'' (bayut_request ''kb'') []))) = Inr (duplicate_reply ''7'')"
proof -
  have h: "io_keeps P (wr_dispatch r ev)" if "dp_router bayut_deployment = Some r" for P r ev
  proof -
    have r: "r = wr_register_default ''bayut'' (\<lambda>_. io_raise (RuntimeError ''database down'')) new_webhook_router"
      using that by (simp add: bayut_deployment_def)
    show ?thesis
      unfolding r wr_dispatch_def find_handler_def provider_handlers_def wr_register_default_def new_webhook_router_def
      by (simp add: io_keeps_return io_keeps_raise)
  qed
  have p: "io_keeps P (p a b c d)" if "dp_publish bayut_deployment = Some p" for P p a b c d
    using that by (simp add: bayut_deployment_def)
  let ?v = "snd (receive_webhook bayut_deployment ''bayut'' (bayut_request ''kb'') [])"
  have free: "map_of [] (guard_build_key bayut_guard ''bayut'' ''7'') = None" by simp
  have again: "reaches_guard bayut_deployment ''bayut'' (bayut_request ''kb'') ?v ''b'' (JDict [(''id'', JInt 7)]) ''7'' ?v \<and>
        map_of ?v (guard_build_key bayut_guard ''bayut'' ''7'') = map_of ?v (guard_build_key bayut_guard ''bayut'' ''7'')"
    by (intro conjI bayut_reaches refl)
  have "\<forall>rq2 v v'. reaches_guard bayut_deployment ''bayut'' rq2 v ''b'' (JDict [(''id'', JInt 7)]) ''7'' v' \<and>
          map_of v' (guard_build_key bayut_guard ''bayut'' ''7'') = map_of ?v (guard_build_key bayut_guard ''bayut'' ''7'') \<longrightarrow>
          fst (receive_webhook bayut_deployment ''bayut'' rq2 v) = Inr (duplicate_reply ''7'')"
    by (rule conjunct2 [OF conjunct2 [OF failed_webhook_not_retried [where kv = map_of and s' = "[]",
          OF bayut_laws bayut_guard_given bayut_reaches free]]]) (erule p, erule h)
  with again show ?thesis by (elim allE) (drule mp, assumption+)
qed

end
