(* ===== verification/Unstorable_Text.thy ===== *)
theory Unstorable_Text
  imports Api_Exceptions
begin

text \<open>
  \<open>schemas/validators.py\<close> and \<open>middleware/unstorable_text.py\<close>: the search for text that PostgreSQL
  cannot store (NUL and surrogate code points), and the middleware that rejects requests with it.
  Text is a list of code points here, because surrogates are what the code looks for. The JSON parser
  and the wrapped application are arguments.
\<close>

section \<open>The search\<close>

type_synonym utext = "nat list"

datatype ukey = KText utext | KOther int

datatype uval =
    UText utext
  | UDict "(ukey \<times> uval) list"
  | UList "uval list"
  | UOther int

datatype loc = LKey ukey | LIndex nat

text \<open>\<open>re.compile("[\\x00\\ud800-\\udfff]").search\<close>\<close>

definition unstorable_char :: "nat \<Rightarrow> bool" where
  "unstorable_char c = (c = 0 \<or> (0xD800 \<le> c \<and> c \<le> 0xDFFF))"

definition unstorable :: "utext \<Rightarrow> bool" where
  "unstorable t = list_ex unstorable_char t"

fun bad_key :: "ukey \<Rightarrow> bool" where
  "bad_key (KText t) = unstorable t"
| "bad_key (KOther _) = False"

definition dict_entries :: "loc list \<Rightarrow> (ukey \<times> uval) list \<Rightarrow> (loc list \<times> uval) list" where
  "dict_entries path d = map (\<lambda>(k, v). (path @ [LKey k], v)) d"

definition list_entries :: "loc list \<Rightarrow> uval list \<Rightarrow> (loc list \<times> uval) list" where
  "list_entries path xs = map (\<lambda>(i, v). (path @ [LIndex i], v)) (enumerate 0 xs)"

fun nodes :: "uval \<Rightarrow> nat" where
  "nodes (UText _) = 1"
| "nodes (UDict d) = Suc (sum_list (map (\<lambda>(k, v). nodes v) d))"
| "nodes (UList xs) = Suc (sum_list (map nodes xs))"
| "nodes (UOther _) = 1"

lemma nodes_dict_entries: "sum_list (map (\<lambda>(p, v). nodes v) (dict_entries path d)) = sum_list (map (\<lambda>(k, v). nodes v) d)"
  by (induction d) (auto simp: dict_entries_def)

lemma nodes_enumerate: "sum_list (map (\<lambda>(p, v). nodes v) (map (\<lambda>(i, v). (path @ [LIndex i], v)) (enumerate n xs))) = sum_list (map nodes xs)"
  by (induction xs arbitrary: n) auto

lemma nodes_list_entries: "sum_list (map (\<lambda>(p, v). nodes v) (list_entries path xs)) = sum_list (map nodes xs)"
  unfolding list_entries_def by (rule nodes_enumerate)

text \<open>
  The \<open>while pending\<close> loop; the head of the list is the end of \<open>pending\<close>, which \<open>pop()\<close> takes.
\<close>

function scan_pending :: "(loc list \<times> uval) list \<Rightarrow> loc list option" where
  "scan_pending [] = None"
| "scan_pending ((path, UText t) # rest) = (if unstorable t then Some path else scan_pending rest)"
| "scan_pending ((path, UDict d) # rest) =
     (if list_ex (\<lambda>(k, _). bad_key k) d then Some path
      else scan_pending (rev (dict_entries path d) @ rest))"
| "scan_pending ((path, UList xs) # rest) = scan_pending (rev (list_entries path xs) @ rest)"
| "scan_pending ((path, UOther _) # rest) = scan_pending rest"
  by pat_completeness auto
termination
  by (relation "measure (\<lambda>pending. sum_list (map (\<lambda>(p, v). nodes v) pending))")
    (simp_all add: rev_map [symmetric] nodes_dict_entries nodes_list_entries)

definition unstorable_text_location :: "uval \<Rightarrow> loc list option" where
  "unstorable_text_location v = scan_pending [([], v)]"

definition reject_unstorable_text :: "uval \<Rightarrow> string \<Rightarrow> uval res" where
  "reject_unstorable_text v label =
     (if unstorable_text_location v \<noteq> None
      then Inl (ValueError (label @ '' contains a NUL or unpaired surrogate character'')) else Inr v)"

text \<open>\<open>coerce_enum\<close> for an enum with the given name and string values; \<open>None\<close> and members pass through.\<close>

datatype ('e, 'o) raw = RawNone | RawMember 'e | RawStr string | RawOther 'o

definition coerce_enum :: "string \<Rightarrow> (string \<times> 'e) list \<Rightarrow> ('e, 'o) raw \<Rightarrow> string option \<Rightarrow> ('e, 'o) raw res" where
  "coerce_enum cls_name members value label =
     (case value of
        RawStr s \<Rightarrow>
          (case map_of members s of
             Some e \<Rightarrow> Inr (RawMember e)
           | None \<Rightarrow>
               Inl (ValueError (''Invalid '' @ (case label of None \<Rightarrow> cls_name | Some l \<Rightarrow> if l = [] then cls_name else l) @
                 ''. Must be one of: '' @ join '', '' (map fst members))))
      | _ \<Rightarrow> Inr value)"

section \<open>Form data\<close>

text \<open>
  \<open>urllib.parse.parse_qsl(..., keep_blank_values=True)\<close>: percent escapes are decoded within runs of
  ASCII characters, as UTF-8 with replacement.
\<close>

fun split_at :: "nat \<Rightarrow> utext \<Rightarrow> utext list" where
  "split_at c [] = [[]]"
| "split_at c (x # xs) = (if x = c then [] # split_at c xs else (case split_at c xs of [] \<Rightarrow> [[x]] | y # ys \<Rightarrow> (x # y) # ys))"

definition code_point :: "nat \<Rightarrow> char \<Rightarrow> string \<Rightarrow> nat" where
  "code_point n c got =
     foldl (\<lambda>a d. a * 64 + (of_char d - 0x80)) (of_char c - (if n = 0 then 0 else if n = 1 then 0xC0 else if n = 2 then 0xE0 else 0xF0)) got"

function decode_utf8 :: "string \<Rightarrow> utext" where
  "decode_utf8 [] = []"
| "decode_utf8 (c # s) =
     (case utf8_lead c of
        None \<Rightarrow> 0xFFFD # decode_utf8 s
      | Some (n, lo, hi) \<Rightarrow>
          let got = utf8_conts n lo hi s
          in (if length got = n then code_point n c got else 0xFFFD) # decode_utf8 (drop (length got) s))"
  by pat_completeness auto
termination
  by (relation "measure length") auto

definition hex_value :: "nat \<Rightarrow> nat option" where
  "hex_value c =
     (if 48 \<le> c \<and> c \<le> 57 then Some (c - 48)
      else if 65 \<le> c \<and> c \<le> 70 then Some (c - 55)
      else if 97 \<le> c \<and> c \<le> 102 then Some (c - 87) else None)"

definition hex_pair :: "utext \<Rightarrow> nat option" where
  "hex_pair s =
     (case s of
        a # b # _ \<Rightarrow> (case (hex_value a, hex_value b) of (Some x, Some y) \<Rightarrow> Some (16 * x + y) | _ \<Rightarrow> None)
      | _ \<Rightarrow> None)"

function unquote_bytes :: "utext \<Rightarrow> string" where
  "unquote_bytes [] = []"
| "unquote_bytes (c # s) =
     (case (if c = 37 then hex_pair s else None) of
        Some b \<Rightarrow> char_of b # unquote_bytes (drop 2 s)
      | None \<Rightarrow> char_of c # unquote_bytes s)"
  by pat_completeness auto
termination
  by (relation "measure length") auto

function unquote_parts :: "utext \<Rightarrow> utext" where
  "unquote_parts [] = []"
| "unquote_parts (c # s) =
     (if c < 0x80
      then decode_utf8 (unquote_bytes (takeWhile (\<lambda>x. x < 0x80) (c # s))) @ unquote_parts (dropWhile (\<lambda>x. x < 0x80) s)
      else c # unquote_parts s)"
  by pat_completeness auto
termination
  by (relation "measure length") (auto simp: le_imp_less_Suc length_dropWhile_le)

definition unquote :: "utext \<Rightarrow> utext" where
  "unquote s = (if 37 \<in> set s then unquote_parts s else s)"

definition unquote_plus :: "utext \<Rightarrow> utext" where
  "unquote_plus s = unquote (map (\<lambda>c. if c = 43 then 32 else c) s)"

definition parse_pair :: "utext \<Rightarrow> utext \<times> utext" where
  "parse_pair s = (let name = takeWhile (\<lambda>c. c \<noteq> 61) s in (unquote_plus name, unquote_plus (drop (Suc (length name)) s)))"

definition parse_qsl :: "utext \<Rightarrow> (utext \<times> utext) list" where
  "parse_qsl s = map parse_pair (filter (\<lambda>p. p \<noteq> []) (split_at 38 s))"

definition latin1 :: "string \<Rightarrow> utext" where
  "latin1 raw = map of_char raw"

fun pairs_location :: "(utext \<times> utext) list \<Rightarrow> loc list option" where
  "pairs_location [] = None"
| "pairs_location ((name, v) # ps) =
     (if unstorable_text_location (UText name) \<noteq> None then Some []
      else if unstorable_text_location (UText v) \<noteq> None then Some [LKey (KText name)]
      else pairs_location ps)"

definition urlencoded_location :: "string \<Rightarrow> loc list option" where
  "urlencoded_location raw = pairs_location (parse_qsl (latin1 raw))"

text \<open>\<open>json.loads\<close> is the argument \<open>parse_json\<close>; \<open>None\<close> is its \<open>ValueError\<close> or \<open>RecursionError\<close>.\<close>

definition json_location :: "(string \<Rightarrow> uval option) \<Rightarrow> string \<Rightarrow> loc list option" where
  "json_location parse_json raw =
     (case parse_json raw of None \<Rightarrow> None | Some v \<Rightarrow> unstorable_text_location v)"

section \<open>Content types\<close>

text \<open>\<open>email.message.Message.get_content_type()\<close>: the part before the first semicolon, stripped and lower-cased.\<close>

definition content_type_of :: "string \<Rightarrow> string" where
  "content_type_of raw =
     (let ctype = lower (strip (takeWhile (\<lambda>c. c \<noteq> CHR '';'') raw))
      in if length (filter (\<lambda>c. c = CHR ''/'') ctype) = 1 then ctype else ''text/plain'')"

definition maintype :: "string \<Rightarrow> string" where
  "maintype ctype = takeWhile (\<lambda>c. c \<noteq> CHR ''/'') ctype"

definition subtype :: "string \<Rightarrow> string" where
  "subtype ctype = drop (Suc (length (maintype ctype))) ctype"

definition content_type :: "string option \<Rightarrow> string option" where
  "content_type raw = (case raw of None \<Rightarrow> None | Some r \<Rightarrow> if r = [] then None else Some (content_type_of r))"

definition is_json :: "string option \<Rightarrow> bool" where
  "is_json ct =
     (case ct of None \<Rightarrow> True
      | Some c \<Rightarrow> maintype c = ''application'' \<and> (subtype c = ''json'' \<or> suffix ''+json'' (subtype c)))"

definition is_form :: "string option \<Rightarrow> bool" where
  "is_form ct = (ct = Some ''application/x-www-form-urlencoded'')"

section \<open>\<open>UnstorableTextMiddleware\<close>\<close>

record message =
  msg_type :: string
  msg_body :: string
  msg_more_body :: bool

record scope =
  sc_type :: string
  sc_path :: utext
  sc_query_string :: string
  sc_content_type :: "string option"
  sc_app :: app_state
  sc_correlation_id :: "string option"

definition last_message :: "message \<Rightarrow> bool" where
  "last_message m = (msg_type m \<noteq> ''http.request'' \<or> \<not> msg_more_body m)"

partial_function (option) read_messages :: "('w, message) io \<Rightarrow> 'w \<Rightarrow> (message list res \<times> 'w) option" where
  "read_messages receive w =
     (case receive w of
        (Inl e, w') \<Rightarrow> Some (Inl e, w')
      | (Inr m, w') \<Rightarrow>
          if last_message m then Some (Inr [m], w')
          else Option.bind (read_messages receive w')
                 (\<lambda>(r, w''). Some (map_sum (\<lambda>e. e) (\<lambda>ms. m # ms) r, w'')))"

definition request_body :: "message list \<Rightarrow> string" where
  "request_body ms = concat (map msg_body (filter (\<lambda>m. msg_type m = ''http.request'') ms))"

text \<open>
  The closure \<open>replay\<close> over the buffered messages, which are the first component of the state; with an
  empty buffer it is \<open>receive\<close> itself.
\<close>

definition replay :: "('w, message) io \<Rightarrow> (message list \<times> 'w, message) io" where
  "replay receive s =
     (case fst s of
        [] \<Rightarrow> (case receive (snd s) of (r, w') \<Rightarrow> (r, ([], w')))
      | m # ms \<Rightarrow> (Inr m, (ms, snd s)))"

fun utf8_encode :: "nat \<Rightarrow> string" where
  "utf8_encode c =
     map char_of
       (if c < 0x80 then [c]
        else if c < 0x800 then [0xC0 + c div 64, 0x80 + c mod 64]
        else if c < 0x10000 then [0xE0 + c div 4096, 0x80 + c div 64 mod 64, 0x80 + c mod 64]
        else [0xF0 + c div 262144, 0x80 + c div 4096 mod 64, 0x80 + c div 64 mod 64, 0x80 + c mod 64])"

fun loc_json :: "loc \<Rightarrow> json" where
  "loc_json (LKey (KText t)) = JStr (concat (map utf8_encode t))"
| "loc_json (LKey (KOther i)) = JInt i"
| "loc_json (LIndex i) = JInt (int i)"

definition rejection :: "scope \<Rightarrow> string \<Rightarrow> loc list \<Rightarrow> json_response res" where
  "rejection scope part l =
     map_sum (\<lambda>e. e) (\<lambda>code.
       \<lparr>jr_status = 422,
        jr_body = Some (build_error_envelope ''Validation failed'' (JStr code) (sc_correlation_id scope)
          [(''fields'', JList [JDict
             [(''type'', JStr ''string_unstorable''), (''loc'', JList (JStr part # map loc_json l)),
              (''msg'', JStr ''Text contains a NUL or unpaired surrogate character'')]])]),
        jr_headers = None\<rparr>)
       (framework_error_code (sc_app scope) VALIDATION_CODE)"

definition reject :: "(json_response \<Rightarrow> ('w, unit) io) \<Rightarrow> scope \<Rightarrow> string \<Rightarrow> loc list \<Rightarrow> ('w, unit) io" where
  "reject send_reply scope part l = io_bind (lift_res (rejection scope part l)) send_reply"

definition body_location :: "(string \<Rightarrow> uval option) \<Rightarrow> scope \<Rightarrow> (string \<Rightarrow> loc list option) option" where
  "body_location parse_json scope =
     (let ct = content_type (sc_content_type scope) in
      if is_json ct then Some (json_location parse_json)
      else if is_form ct then Some urlencoded_location else None)"

definition unstorable_call ::
  "(string \<Rightarrow> uval option) \<Rightarrow> ((message list \<times> 'w, message) io \<Rightarrow> (message list \<times> 'w, unit) io) \<Rightarrow>
   (json_response \<Rightarrow> ('w, unit) io) \<Rightarrow> ('w, message) io \<Rightarrow> scope \<Rightarrow> 'w \<Rightarrow> (unit res \<times> 'w) option" where
  "unstorable_call parse_json app send_reply receive scope w =
     (let run = (\<lambda>ms v. case app (replay receive) (ms, v) of (r, s) \<Rightarrow> (r, snd s)) in
      if sc_type scope \<noteq> ''http'' then Some (run [] w)
      else if unstorable_text_location (UText (sc_path scope)) \<noteq> None then Some (reject send_reply scope ''path'' [] w)
      else case urlencoded_location (sc_query_string scope) of
             Some q \<Rightarrow> Some (reject send_reply scope ''query'' q w)
           | None \<Rightarrow>
               (case body_location parse_json scope of
                  None \<Rightarrow> Some (run [] w)
                | Some find_location \<Rightarrow>
                    Option.bind (read_messages receive w) (\<lambda>(r, w').
                      case r of
                        Inl e \<Rightarrow> Some (Inl e, w')
                      | Inr ms \<Rightarrow>
                          (case find_location (request_body ms) of
                             Some l \<Rightarrow> Some (reject send_reply scope ''body'' l w')
                           | None \<Rightarrow> Some (run ms w')))))"

section \<open>Correctness of the search\<close>

text \<open>What a location points at, and values without unstorable text.\<close>

inductive at_path :: "uval \<Rightarrow> loc list \<Rightarrow> uval \<Rightarrow> bool" where
  here: "at_path v [] v"
| item: "at_path v p (UDict d) \<Longrightarrow> (k, u) \<in> set d \<Longrightarrow> at_path v (p @ [LKey k]) u"
| index: "at_path v p (UList xs) \<Longrightarrow> i < length xs \<Longrightarrow> at_path v (p @ [LIndex i]) (xs ! i)"

fun offending :: "uval \<Rightarrow> bool" where
  "offending (UText t) = unstorable t"
| "offending (UDict d) = list_ex (\<lambda>(k, _). bad_key k) d"
| "offending _ = False"

lemma in_list_entries: "(q, u) \<in> set (list_entries path xs) \<longleftrightarrow> (\<exists>i < length xs. q = path @ [LIndex i] \<and> u = xs ! i)"
  by (auto simp: list_entries_def in_set_enumerate_eq)

lemma in_dict_entries: "(q, u) \<in> set (dict_entries path d) \<longleftrightarrow> (\<exists>k. (k, u) \<in> set d \<and> q = path @ [LKey k])"
  by (auto simp: dict_entries_def)

lemma scan_pending_sound:
  assumes "\<And>q u. (q, u) \<in> set pending \<Longrightarrow> at_path v q u" and "scan_pending pending = Some p"
  shows "\<exists>u. at_path v p u \<and> offending u"
  using assms
proof (induction pending rule: scan_pending.induct)
  case (2 path t rest)
  show ?case
  proof (cases "unstorable t")
    case True
    then show ?thesis using 2(2) [of path "UText t"] 2(3) by (intro exI [of _ "UText t"]) simp
  next
    case False
    with 2 show ?thesis by simp
  qed
next
  case (3 path d rest)
  show ?case
  proof (cases "list_ex (\<lambda>(k, _). bad_key k) d")
    case True
    then show ?thesis using 3(2) [of path "UDict d"] 3(3) by (intro exI [of _ "UDict d"]) simp
  next
    case False
    have "at_path v q u" if "(q, u) \<in> set (rev (dict_entries path d) @ rest)" for q u
      using that 3(2) [of path "UDict d"] 3(2) [of q u] by (auto simp: in_dict_entries intro: at_path.item)
    with 3(1) 3(3) False show ?thesis by simp
  qed
next
  case (4 path xs rest)
  have "at_path v q u" if "(q, u) \<in> set (rev (list_entries path xs) @ rest)" for q u
    using that 4(2) [of path "UList xs"] 4(2) [of q u] by (auto simp: in_list_entries intro: at_path.index)
  with 4(1) 4(3) show ?case by simp
qed auto

lemma at_path_leaf: "at_path v p x \<Longrightarrow> (\<And>d. v \<noteq> UDict d) \<Longrightarrow> (\<And>xs. v \<noteq> UList xs) \<Longrightarrow> p = [] \<and> x = v"
  by (induction rule: at_path.induct) auto

lemma at_path_first:
  assumes "at_path v p x"
  shows "(p = [] \<and> x = v) \<or>
         (\<exists>d k u q. v = UDict d \<and> (k, u) \<in> set d \<and> p = LKey k # q \<and> at_path u q x) \<or>
         (\<exists>xs i q. v = UList xs \<and> i < length xs \<and> p = LIndex i # q \<and> at_path (xs ! i) q x)"
  using assms
proof (induction rule: at_path.induct)
  case (here v)
  then show ?case by simp
next
  case (item v p d k u)
  from item.IH show ?case
  proof (elim disjE exE conjE)
    assume "p = []" "UDict d = v"
    with item.hyps(2) show ?thesis using at_path.here by fastforce
  qed (use item.hyps(2) in \<open>fastforce intro: at_path.item\<close>)+
next
  case (index v p xs i)
  from index.IH show ?case
  proof (elim disjE exE conjE)
    assume "p = []" "UList xs = v"
    with index.hyps(2) show ?thesis using at_path.here by fastforce
  qed (use index.hyps(2) in \<open>fastforce intro: at_path.index\<close>)+
qed

lemma scan_pending_complete:
  assumes "scan_pending pending = None" and "(q, u) \<in> set pending" and "at_path u p x"
  shows "\<not> offending x"
  using assms
proof (induction pending arbitrary: q u p rule: scan_pending.induct)
  case (2 path t rest)
  then show ?case using at_path_leaf [of "UText t" p x] by (auto split: if_splits)
next
  case (3 path d rest)
  have keys: "\<not> list_ex (\<lambda>(k, _). bad_key k) d" and sub: "scan_pending (rev (dict_entries path d) @ rest) = None"
    using 3(2) by (auto split: if_splits)
  show ?case
  proof (cases "(q, u) \<in> set rest")
    case True
    then show ?thesis using 3(1) [OF keys sub _ 3(4), of q] by simp
  next
    case False
    then have u: "u = UDict d" using 3(3) by simp
    from at_path_first [OF 3(4)] u consider "x = UDict d" | k w r where "(k, w) \<in> set d" "at_path w r x" by auto
    then show ?thesis
    proof cases
      case 1
      then show ?thesis using keys by simp
    next
      case 2
      then show ?thesis using 3(1) [OF keys sub, of "path @ [LKey k]" w r] by (simp add: in_dict_entries)
    qed
  qed
next
  case (4 path xs rest)
  have sub: "scan_pending (rev (list_entries path xs) @ rest) = None" using 4(2) by simp
  show ?case
  proof (cases "(q, u) \<in> set rest")
    case True
    then show ?thesis using 4(1) [OF sub _ 4(4), of q] by simp
  next
    case False
    then have u: "u = UList xs" using 4(3) by simp
    from at_path_first [OF 4(4)] u consider "x = UList xs" | i r where "i < length xs" "at_path (xs ! i) r x" by auto
    then show ?thesis
    proof cases
      case 1
      then show ?thesis by simp
    next
      case 2
      then show ?thesis using 4(1) [OF sub, of "path @ [LIndex i]" "xs ! i" r] by (auto simp: in_list_entries)
    qed
  qed
next
  case (5 path n rest)
  then show ?case using at_path_leaf [of "UOther n" p x] by auto
qed simp

fun clean_loc :: "loc \<Rightarrow> bool" where
  "clean_loc (LKey k) = (\<not> bad_key k)"
| "clean_loc (LIndex _) = True"

lemma scan_pending_clean:
  assumes "\<And>q u. (q, u) \<in> set pending \<Longrightarrow> list_all clean_loc q" and "scan_pending pending = Some p"
  shows "list_all clean_loc p"
  using assms
proof (induction pending rule: scan_pending.induct)
  case (2 path t rest)
  show ?case
  proof (cases "unstorable t")
    case True
    then show ?thesis using 2(2) [of path "UText t"] 2(3) by simp
  next
    case False
    have "list_all clean_loc q" if "(q, u) \<in> set rest" for q u using that 2(2) [of q u] by simp
    with 2(1) 2(3) False show ?thesis by simp
  qed
next
  case (3 path d rest)
  show ?case
  proof (cases "list_ex (\<lambda>(k, _). bad_key k) d")
    case True
    then show ?thesis using 3(2) [of path "UDict d"] 3(3) by simp
  next
    case False
    have "list_all clean_loc q" if "(q, u) \<in> set (rev (dict_entries path d) @ rest)" for q u
      using that 3(2) [of path "UDict d"] 3(2) [of q u] False by (auto simp: in_dict_entries list_ex_iff)
    with 3(1) 3(3) False show ?thesis by simp
  qed
next
  case (4 path xs rest)
  have "list_all clean_loc q" if "(q, u) \<in> set (rev (list_entries path xs) @ rest)" for q u
    using that 4(2) [of path "UList xs"] 4(2) [of q u] by (auto simp: in_list_entries)
  with 4(1) 4(3) show ?case by simp
next
  case (5 path n rest)
  have "list_all clean_loc q" if "(q, u) \<in> set rest" for q u using that 5(2) [of q u] by simp
  with 5(1) 5(3) show ?case by simp
qed simp

section \<open>Replay\<close>

text \<open>The results of \<open>n\<close> calls of \<open>receive\<close>, up to the first one that raises.\<close>

fun pull :: "nat \<Rightarrow> ('s, message) io \<Rightarrow> 's \<Rightarrow> message res list \<times> 's" where
  "pull 0 receive s = ([], s)"
| "pull (Suc n) receive s =
     (case receive s of
        (Inl e, s') \<Rightarrow> ([Inl e], s')
      | (Inr m, s') \<Rightarrow> (case pull n receive s' of (ms, s'') \<Rightarrow> (Inr m # ms, s'')))"

lemma pull_replay_empty: "pull n (replay receive) ([], w) = (case pull n receive w of (ms, w') \<Rightarrow> (ms, ([], w')))"
  by (induction n arbitrary: w) (auto simp: replay_def split: prod.splits sum.splits)

lemma pull_replay_buffer:
  "pull (length ms + n) (replay receive) (ms, w) = (case pull n receive w of (ms', w') \<Rightarrow> (map Inr ms @ ms', ([], w')))"
proof (induction ms)
  case Nil
  then show ?case by (simp add: pull_replay_empty)
next
  case (Cons m ms)
  then show ?case by (simp add: replay_def split: prod.splits)
qed

lemma read_messages_pull:
  assumes "read_messages receive w = Some (Inr ms, w')"
  shows "pull (length ms + n) receive w = (case pull n receive w' of (ms', w'') \<Rightarrow> (map Inr ms @ ms', w''))"
  using assms
proof (induction ms arbitrary: w)
  case Nil
  then show ?case
    by (subst (asm) read_messages.simps) (auto split: prod.splits sum.splits if_splits bind_splits simp: map_sum_def)
next
  case (Cons m ms)
  obtain v where r: "receive w = (Inr m, v)" and rest: "(ms = [] \<and> v = w') \<or> read_messages receive v = Some (Inr ms, w')"
    using Cons.prems
    by (subst (asm) read_messages.simps)
      (auto split: prod.splits sum.splits if_splits bind_splits simp: map_sum_def)
  from rest show ?case
  proof (elim disjE conjE)
    assume "ms = []" "v = w'"
    with r show ?thesis by (simp split: prod.splits)
  next
    assume "read_messages receive v = Some (Inr ms, w')"
    from Cons.IH [OF this] r show ?thesis by (simp split: prod.splits)
  qed
qed

section \<open>Properties\<close>

text \<open>
  C22: The search returns \<open>None\<close> exactly when no string and no dict key anywhere in the value holds a
  NUL or a surrogate. A location it returns leads to such a string, or to the dict that has such a
  key, and its own components are all storable, so that it can be put into the answer.
\<close>

theorem unstorable_search_correct:
  "(unstorable_text_location v = None \<longleftrightarrow> (\<forall>p u. at_path v p u \<longrightarrow> \<not> offending u)) \<and>
   (\<forall>p. unstorable_text_location v = Some p \<longrightarrow> (\<exists>u. at_path v p u \<and> offending u) \<and> list_all clean_loc p)"
proof -
  have start: "at_path v q u" if "(q, u) \<in> set [([], v)]" for q u
    using that at_path.here by simp
  have found: "(\<exists>u. at_path v p u \<and> offending u) \<and> list_all clean_loc p" if "unstorable_text_location v = Some p" for p
  proof
    show "\<exists>u. at_path v p u \<and> offending u"
      using that scan_pending_sound [of "[([], v)]" v p, OF start] by (simp add: unstorable_text_location_def)
    show "list_all clean_loc p"
      using that scan_pending_clean [of "[([], v)]" p] by (simp add: unstorable_text_location_def)
  qed
  have none: "\<not> offending u" if "unstorable_text_location v = None" "at_path v p u" for p u
    using scan_pending_complete [of "[([], v)]" "[]" v p u] that by (simp add: unstorable_text_location_def)
  show ?thesis
  proof (intro conjI iffI allI impI)
    show "unstorable_text_location v = None" if "\<forall>p u. at_path v p u \<longrightarrow> \<not> offending u"
      using that found by (cases "unstorable_text_location v") blast+
  qed (use none found in blast)+
qed



theorem unstorable_search_correct_witness:
  "unstorable_text_location (UDict [(KText [97], UText [0xD800])]) = Some [LKey (KText [97])] \<and>
   (\<exists>u. at_path (UDict [(KText [97], UText [0xD800])]) [LKey (KText [97])] u \<and> offending u)"
proof -
  have l: "unstorable_text_location (UDict [(KText [97], UText [0xD800])]) = Some [LKey (KText [97])]"
    by (simp add: unstorable_text_location_def dict_entries_def unstorable_def unstorable_char_def)
  with unstorable_search_correct [of "UDict [(KText [97], UText [0xD800])]"] show ?thesis by blast
qed

end
