(* ===== verification/Error_Handler.thy ===== *)
theory Error_Handler
  imports Api_Idempotency Unstorable_Text
begin

text \<open>
  \<open>middleware/error_handler.py\<close> and \<open>alerts/slack.py\<close>: the middleware
  that turns exceptions into 500 answers and reports 5xx answers, the hourly alert budget and the Slack messages. Tasks, the Slack client, the clock and the descriptions of exceptions are
  fields of \<open>eh_env\<close>. Slices of message texts count the characters of ASCII text.
\<close>

section \<open>The alert budget\<close>

record alert_budget =
  ab_per_hour :: int
  ab_counts :: "(string, int) dict"
  ab_window_started :: "(string, time) dict"

definition new_alert_budget :: "int \<Rightarrow> alert_budget" where
  "new_alert_budget per_hour = \<lparr>ab_per_hour = per_hour, ab_counts = [], ab_window_started = []\<rparr>"

definition budget_allow :: "time \<Rightarrow> string \<Rightarrow> alert_budget \<Rightarrow> bool \<times> alert_budget" where
  "budget_allow now key b =
     (let b1 = (case dict_get (ab_window_started b) key of
                  Some _ \<Rightarrow> b
                | None \<Rightarrow> b\<lparr>ab_window_started := dict_set key now (ab_window_started b)\<rparr>);
          started = (case dict_get (ab_window_started b) key of Some t \<Rightarrow> t | None \<Rightarrow> now);
          b2 = (if now - started > 3600
                then b1\<lparr>ab_counts := dict_set key 0 (ab_counts b1),
                        ab_window_started := dict_set key now (ab_window_started b1)\<rparr>
                else b1);
          n = (case dict_get (ab_counts b2) key of Some c \<Rightarrow> c | None \<Rightarrow> 0);
          b3 = b2\<lparr>ab_counts := dict_set key n (ab_counts b2)\<rparr>
      in if n \<ge> ab_per_hour b then (False, b3)
         else (True, b3\<lparr>ab_counts := dict_set key (n + 1) (ab_counts b3)\<rparr>))"

section \<open>Slack messages\<close>

definition slack_message :: "string \<Rightarrow> string \<Rightarrow> (string \<times> string) list \<Rightarrow> string list \<Rightarrow> string \<Rightarrow> json" where
  "slack_message fallback title flds sections footer =
     JDict [(''text'', JStr fallback),
       (''blocks'', JList
         ([JDict [(''type'', JStr ''header''),
                  (''text'', JDict [(''type'', JStr ''plain_text''), (''text'', JStr title)])],
           JDict [(''type'', JStr ''section''),
                  (''fields'', JList (map (\<lambda>(label, v).
                     JDict [(''type'', JStr ''mrkdwn''), (''text'', JStr (''*'' @ label @ '':*'' @ [CHR 10] @ v))]) flds))]]
          @ map (\<lambda>t. JDict [(''type'', JStr ''section''),
                             (''text'', JDict [(''type'', JStr ''mrkdwn''), (''text'', JStr t)])]) sections
          @ [JDict [(''type'', JStr ''context''),
                    (''elements'', JList [JDict [(''type'', JStr ''mrkdwn''), (''text'', JStr footer)]])]]))]"

definition alert_footer :: "string \<Rightarrow> string \<Rightarrow> string \<Rightarrow> string" where
  "alert_footer timestamp host correlation_id =
     timestamp @ '' | host: '' @ host @ '' | Correlation: `'' @ correlation_id @ ''`''"

definition TASK_ALERTS_PER_HOUR :: int where
  "TASK_ALERTS_PER_HOUR = 5"

record 'w eh_env =
  eh_now :: "'w \<Rightarrow> time"
  eh_timestamp :: "'w \<Rightarrow> string"
  eh_host :: string
  eh_post :: "string \<Rightarrow> json \<Rightarrow> ('w, unit) io"
  eh_str :: "exn \<Rightarrow> string"
  eh_type :: "exn \<Rightarrow> string"
  eh_traceback :: "exn \<Rightarrow> string"
  eh_loads :: "string \<Rightarrow> json res"
  eh_sha256 :: "string \<Rightarrow> string"
  eh_json_str :: "json \<Rightarrow> string"

text \<open>
  The budget is the first component of the state: \<open>_task_budget\<close> of the module here, the \<open>_budget\<close> of the
  middleware below. A failing post is logged only.
\<close>

definition budget_step :: "'w eh_env \<Rightarrow> string \<Rightarrow> (alert_budget \<times> 'w, bool) io" where
  "budget_step env key s = (case budget_allow (eh_now env (snd s)) key (fst s) of (ok, b) \<Rightarrow> (Inr ok, (b, snd s)))"

definition slack_post :: "'w eh_env \<Rightarrow> string \<Rightarrow> json \<Rightarrow> (alert_budget \<times> 'w, unit) io" where
  "slack_post env url message =
     io_except is_Exception (\<lambda>s. case eh_post env url message (snd s) of (r, w') \<Rightarrow> (r, (fst s, w'))) (\<lambda>_. io_return ())"

definition alert_task_failed_permanently ::
  "'w eh_env \<Rightarrow> string \<Rightarrow> string \<Rightarrow> string \<Rightarrow> string \<Rightarrow> string \<Rightarrow> string \<Rightarrow> string \<Rightarrow> (alert_budget \<times> 'w, unit) io" where
  "alert_task_failed_permanently env webhook_url service environment task_name task_id correlation_id error_type =
     (if webhook_url = [] then io_return ()
      else io_bind (budget_step env (service @ '':task:'' @ task_name)) (\<lambda>ok s.
        if \<not> ok then (Inr (), s)
        else slack_post env webhook_url
               (slack_message (service @ '' task failed permanently ('' @ environment @ '')'')
                  (service @ '' '' @ em_dash @ '' task failed permanently'')
                  [(''Env'', environment), (''Task'', ''`'' @ task_name @ ''`''), (''Error'', error_type),
                   (''Task id'', ''`'' @ task_id @ ''`'')]
                  [] (alert_footer (eh_timestamp env (snd s)) (eh_host env) correlation_id)) s))"

section \<open>\<open>GlobalErrorHandlerMiddleware\<close>\<close>

record error_handler =
  gh_service_name :: string
  gh_environment :: string
  gh_slack_webhook_url :: string
  gh_alert_on_5xx :: bool
  gh_hash_pii :: bool

text \<open>
  What the middleware reads of a request. The identity is that of \<open>state.auth_context\<close> when it is set,
  with the texts \<open>str\<close> gives for its attributes, of a \<open>state.user\<close> with a \<open>get\<close> method, of another
  \<open>state.user\<close>, or absent.
\<close>

datatype identity =
    AuthContext string string
  | UserMapping "(string, json) dict"
  | UserObject string string
  | NoIdentity

record eh_request =
  er_path :: string
  er_query :: string
  er_method :: string
  er_identity :: identity
  er_correlation_id :: "string option"
  er_app :: app_state

record error_ctx =
  cx_status_code :: int
  cx_error :: string
  cx_error_type :: string
  cx_error_code :: "string option"
  cx_user_id :: json
  cx_tenant_id :: json
  cx_correlation_id :: string
  cx_traceback :: "string option"
  cx_response_body :: string
  cx_path :: string
  cx_query :: string
  cx_method :: string
  cx_timestamp :: string

definition hash_identifier :: "'w eh_env \<Rightarrow> json \<Rightarrow> string" where
  "hash_identifier env v = (if truthy v then take 16 (eh_sha256 env (eh_json_str env v)) else ''N/A'')"

text \<open>\<open>json.loads(body)["error"]["code"]\<close>; the other exceptions of the parser pass through.\<close>

definition error_code :: "'w eh_env \<Rightarrow> string \<Rightarrow> string option res" where
  "error_code env body =
     (case eh_loads env body of
        Inl e \<Rightarrow> if is_ValueError e then Inr None else Inl e
      | Inr (JDict d) \<Rightarrow>
          (case dict_get d ''error'' of
             Some (JDict d') \<Rightarrow> (case dict_get d' ''code'' of Some (JStr c) \<Rightarrow> Inr (Some c) | _ \<Rightarrow> Inr None)
           | _ \<Rightarrow> Inr None)
      | Inr _ \<Rightarrow> Inr None)"

definition outage_codes :: "string list" where
  "outage_codes = map outage_code_value [CONNECT_FAILED, CONNECTION_LOST, POOL_EXHAUSTED, STATEMENT_TIMEOUT]"

definition is_unpaged :: "'w stream_response \<Rightarrow> string option \<Rightarrow> bool" where
  "is_unpaged response code =
     ((st_status response = 503 \<and> dict_get (st_headers response) (lower (header_name H_RETRY_AFTER)) \<noteq> None) \<or>
      (case code of Some c \<Rightarrow> c \<in> set outage_codes | None \<Rightarrow> False))"

fun extract_identity :: "identity \<Rightarrow> json \<times> json" where
  "extract_identity (AuthContext u t) = (JStr u, JStr t)"
| "extract_identity (UserMapping d) =
     ((case dict_get d ''id'' of Some v \<Rightarrow> v | None \<Rightarrow> JNull),
      (case dict_get d ''tenant_id'' of Some v \<Rightarrow> v | None \<Rightarrow> JNull))"
| "extract_identity (UserObject u t) = (JStr u, JStr t)"
| "extract_identity NoIdentity = (JNull, JNull)"

definition masked :: "'w eh_env \<Rightarrow> error_handler \<Rightarrow> json \<Rightarrow> json" where
  "masked env h v = (if gh_hash_pii h then (if truthy v then JStr (hash_identifier env v) else JNull) else v)"

definition build_context ::
  "'w eh_env \<Rightarrow> error_handler \<Rightarrow> eh_request \<Rightarrow> string \<Rightarrow> string \<Rightarrow> string option \<Rightarrow> string option \<Rightarrow> int \<Rightarrow> string
   \<Rightarrow> 'w \<Rightarrow> error_ctx" where
  "build_context env h rq error error_type code tb sc response_body w =
     \<lparr>cx_status_code = sc,
      cx_error = (if error = [] then ''HTTP '' @ string_of_int sc else error),
      cx_error_type = (if error_type = [] then ''HTTP'' @ string_of_int sc else error_type),
      cx_error_code = code,
      cx_user_id = masked env h (fst (extract_identity (er_identity rq))),
      cx_tenant_id = masked env h (snd (extract_identity (er_identity rq))),
      cx_correlation_id = (case er_correlation_id rq of Some c \<Rightarrow> c | None \<Rightarrow> ''unknown''),
      cx_traceback = tb, cx_response_body = response_body, cx_path = er_path rq, cx_query = er_query rq,
      cx_method = er_method rq, cx_timestamp = eh_timestamp env w\<rparr>"

text \<open>\<open>asyncio.create_task\<close>: the alert is queued; \<open>send_slack_alert\<close> below is what the task runs.\<close>

definition fire_alert :: "error_handler \<Rightarrow> error_ctx \<Rightarrow> (error_ctx list \<times> 'w, unit) io" where
  "fire_alert h ctx s = (Inr (), (if gh_slack_webhook_url h = [] then s else (fst s @ [ctx], snd s)))"

datatype 'w eh_reply =
    Untouched "'w stream_response"
  | Rebuilt int "(string, string) dict" string
  | ErrorJson json_response

definition on_io :: "('w, 'a) io \<Rightarrow> ('b \<times> 'w, 'a) io" where
  "on_io m s = (case m (snd s) of (r, w') \<Rightarrow> (r, (fst s, w')))"

definition report_5xx ::
  "'w eh_env \<Rightarrow> error_handler \<Rightarrow> eh_request \<Rightarrow> 'w stream_response \<Rightarrow> (error_ctx list \<times> 'w, 'w eh_reply) io" where
  "report_5xx env h rq response =
     io_bind (on_io (st_body response)) (\<lambda>chunks.
     io_bind (lift_res (error_code env (concat chunks))) (\<lambda>code s.
       let body = concat chunks;
           ctx = build_context env h rq [] [] code None (st_status response) (take 500 (utf8_replace body)) (snd s) in
       io_bind (if \<not> is_unpaged response code then fire_alert h ctx else io_return ()) (\<lambda>_.
       io_return (Rebuilt (st_status response) (dict_merge [] (st_headers response)) body)) s))"

definition report_exception ::
  "'w eh_env \<Rightarrow> error_handler \<Rightarrow> eh_request \<Rightarrow> exn \<Rightarrow> (error_ctx list \<times> 'w, 'w eh_reply) io" where
  "report_exception env h rq exc s =
     (let ctx = build_context env h rq (eh_str env exc) (eh_type env exc) None (Some (eh_traceback env exc)) 500 [] (snd s) in
      io_bind (fire_alert h ctx) (\<lambda>_.
      io_bind (lift_res (framework_error_code (er_app rq) INTERNAL_CODE)) (\<lambda>code.
      io_return (ErrorJson \<lparr>jr_status = 500,
        jr_body = Some (build_error_envelope ''Internal server error'' (JStr code) (Some (cx_correlation_id ctx)) []),
        jr_headers = None\<rparr>))) s)"

definition error_dispatch ::
  "'w eh_env \<Rightarrow> error_handler \<Rightarrow> eh_request \<Rightarrow> ('w, 'w stream_response) io \<Rightarrow> (error_ctx list \<times> 'w, 'w eh_reply) io" where
  "error_dispatch env h rq call_next =
     io_except is_Exception
       (io_bind (on_io call_next) (\<lambda>response.
          if gh_alert_on_5xx h \<and> st_status response \<ge> 500 then report_5xx env h rq response
          else io_return (Untouched response)))
       (report_exception env h rq)"

definition slack_text :: "'w eh_env \<Rightarrow> json \<Rightarrow> string" where
  "slack_text env v = (if truthy v then eh_json_str env v else ''N/A'')"

definition error_sections :: "error_ctx \<Rightarrow> string list" where
  "error_sections ctx =
     (let nl = [CHR 10];
          tb = (case cx_traceback ctx of None \<Rightarrow> [] | Some t \<Rightarrow> t);
          body = cx_response_body ctx;
          tb_text = (if tb \<noteq> [] then ''*Traceback:*'' @ nl @ ''```'' @ drop (length tb - 1500) tb @ ''```''
            else ''_No exception raised (handled '' @ string_of_int (cx_status_code ctx) @ '' response)_'' @ nl @
                 (if body \<noteq> [] then ''*Response body:*'' @ nl @ ''```'' @ body @ ''```'' else ''_No body available_''))
      in [''*Error:*'' @ nl @ ''`'' @ take 500 (cx_error ctx) @ ''`'', tb_text])"

definition send_slack_alert :: "'w eh_env \<Rightarrow> error_handler \<Rightarrow> error_ctx \<Rightarrow> (alert_budget \<times> 'w, unit) io" where
  "send_slack_alert env h ctx =
     io_bind (budget_step env (gh_service_name h @ '':'' @
                (case cx_error_code ctx of None \<Rightarrow> cx_error_type ctx
                 | Some c \<Rightarrow> if c = [] then cx_error_type ctx else c))) (\<lambda>ok.
       if \<not> ok then io_return ()
       else slack_post env (gh_slack_webhook_url h)
              (slack_message (gh_service_name h @ '' error ('' @ gh_environment h @ '')'')
                 (gh_service_name h @ '' '' @ em_dash @ '' '' @ cx_error_type ctx)
                 [(''Env'', gh_environment h), (''Status'', string_of_int (cx_status_code ctx)),
                  (''Method'', cx_method ctx),
                  (''Path'', ''`'' @ cx_path ctx @ (if cx_query ctx = [] then [] else ''?'' @ cx_query ctx) @ ''`''),
                  (''User'', slack_text env (cx_user_id ctx)), (''Tenant'', slack_text env (cx_tenant_id ctx))]
                 (error_sections ctx)
                 (alert_footer (cx_timestamp ctx) (eh_host env) (cx_correlation_id ctx))))"

section \<open>Lemmas\<close>

text \<open>What a budget knows of one key: the start of its window and its count.\<close>

definition key_view :: "alert_budget \<Rightarrow> string \<Rightarrow> time option \<times> int" where
  "key_view b k = (dict_get (ab_window_started b) k, case dict_get (ab_counts b) k of Some c \<Rightarrow> c | None \<Rightarrow> 0)"

lemma budget_allow_per_hour [simp]: "ab_per_hour (snd (budget_allow now key b)) = ab_per_hour b"
  by (simp add: budget_allow_def Let_def split: option.splits)

lemma budget_allow_other: "k \<noteq> key \<Longrightarrow> key_view (snd (budget_allow now key b)) k = key_view b k"
  by (simp add: budget_allow_def key_view_def Let_def split: option.splits)

lemma budget_allow_first:
  assumes "key_view b key = (None, 0)"
  shows "fst (budget_allow now key b) = (0 < ab_per_hour b)"
    and "key_view (snd (budget_allow now key b)) key = (Some now, if 0 < ab_per_hour b then 1 else 0)"
  using assms by (auto simp: budget_allow_def key_view_def Let_def split: option.splits)

lemma budget_allow_in_window:
  assumes "key_view b key = (Some s, c)" and "now - s \<le> 3600"
  shows "fst (budget_allow now key b) = (c < ab_per_hour b)"
    and "key_view (snd (budget_allow now key b)) key = (Some s, if c < ab_per_hour b then c + 1 else c)"
  using assms by (auto simp: budget_allow_def key_view_def Let_def split: option.splits)

lemma budget_allow_expired:
  assumes "key_view b key = (Some s, c)" and "now - s > 3600"
  shows "fst (budget_allow now key b) = (0 < ab_per_hour b)"
  using assms by (auto simp: budget_allow_def key_view_def Let_def split: option.splits)

fun budget_run :: "(time \<times> string) list \<Rightarrow> alert_budget \<Rightarrow> bool list \<times> alert_budget" where
  "budget_run [] b = ([], b)"
| "budget_run ((now, key) # calls) b =
     (case budget_allow now key b of (ok, b1) \<Rightarrow> (case budget_run calls b1 of (oks, b2) \<Rightarrow> (ok # oks, b2)))"

definition admitted :: "string \<Rightarrow> (time \<times> string) list \<Rightarrow> bool list \<Rightarrow> nat" where
  "admitted k calls oks = length (filter (\<lambda>((_, key), ok). key = k \<and> ok) (zip calls oks))"

definition calls_of :: "string \<Rightarrow> (time \<times> string) list \<Rightarrow> nat" where
  "calls_of k calls = length (filter (\<lambda>(_, key). key = k) calls)"

lemma admitted_Cons:
  "admitted k ((now, key) # calls) (fst (budget_run ((now, key) # calls) b)) =
     (if key = k \<and> fst (budget_allow now key b) then 1 else 0) +
     admitted k calls (fst (budget_run calls (snd (budget_allow now key b))))"
  by (simp add: admitted_def split: prod.splits)

lemma admitted_in_window:
  assumes "key_view b k = (Some s, c)" and "\<forall>(t, key) \<in> set calls. key = k \<longrightarrow> t - s \<le> 3600"
  shows "admitted k calls (fst (budget_run calls b)) = min (calls_of k calls) (nat (ab_per_hour b - c))"
  using assms
proof (induction calls arbitrary: b c)
  case Nil
  then show ?case by (simp add: admitted_def calls_of_def)
next
  case (Cons call calls)
  obtain now key where call: "call = (now, key)" by (rule prod.exhaust)
  show ?case
  proof (cases "key = k")
    case False
    with Cons.IH [of "snd (budget_allow now key b)" c] Cons.prems show ?thesis
      unfolding call admitted_Cons by (simp add: budget_allow_other calls_of_def)
  next
    case True
    have t: "now - s \<le> 3600" using Cons.prems(2) True call by auto
    note step = budget_allow_in_window [OF Cons.prems(1) t]
    have rest: "\<forall>(t, key) \<in> set calls. key = k \<longrightarrow> t - s \<le> 3600" using Cons.prems(2) by simp
    show ?thesis
      unfolding call admitted_Cons True step(1) Cons.IH [OF step(2) rest]
      by (simp add: calls_of_def) linarith
  qed
qed

lemma admitted_new:
  assumes "key_view b k = (None, 0)" and "0 \<le> ab_per_hour b"
    and "calls = pre @ (t0, k) # rest" and "k \<notin> snd ` set pre" and "\<forall>(t, key) \<in> set rest. key = k \<longrightarrow> t - t0 \<le> 3600"
  shows "admitted k calls (fst (budget_run calls b)) = min (calls_of k calls) (nat (ab_per_hour b))"
  using assms
proof (induction pre arbitrary: b calls)
  case Nil
  note step = budget_allow_first [OF Nil.prems(1)]
  show ?case
    using Nil.prems(2) unfolding Nil.prems(3) append_Nil admitted_Cons step(1) admitted_in_window [OF step(2) Nil.prems(5)]
    by (simp add: calls_of_def) linarith
next
  case (Cons call pre)
  obtain now key where call: "call = (now, key)" by (rule prod.exhaust)
  have ne: "k \<noteq> key" "k \<notin> snd ` set pre" using Cons.prems(4) call by auto
  have "key_view (snd (budget_allow now key b)) k = (None, 0)" using Cons.prems(1) ne by (simp add: budget_allow_other)
  from Cons.IH [OF this _ refl ne(2) Cons.prems(5)] Cons.prems(2) ne(1)
  show ?case unfolding Cons.prems(3) call append_Cons admitted_Cons by (simp add: calls_of_def)
qed

lemma report_exception_answers:
  assumes "error_code_prefix (er_app rq) = Some p"
  shows "report_exception env h rq exc s =
           (Inr (ErrorJson \<lparr>jr_status = 500,
              jr_body = Some (build_error_envelope ''Internal server error'' (JStr (p @ ''_'' @ INTERNAL_CODE))
                (Some (case er_correlation_id rq of Some c \<Rightarrow> c | None \<Rightarrow> ''unknown'')) []),
              jr_headers = None\<rparr>),
            (if gh_slack_webhook_url h = [] then fst s
             else fst s @ [build_context env h rq (eh_str env exc) (eh_type env exc) None (Some (eh_traceback env exc)) 500 [] (snd s)],
             snd s))"
  using assms by (simp add: report_exception_def fire_alert_def framework_error_code_def build_context_def Let_def io_defs)

lemma report_5xx_answers:
  assumes "st_body r w = (Inr chunks, w')" and "error_code env (concat chunks) = Inr code"
  shows "report_5xx env h rq r (q, w) =
           (Inr (Rebuilt (st_status r) (dict_merge [] (st_headers r)) (concat chunks)),
            (if gh_slack_webhook_url h = [] \<or> is_unpaged r code then q
             else q @ [build_context env h rq [] [] code None (st_status r) (take 500 (utf8_replace (concat chunks))) w'],
             w'))"
  using assms by (simp add: report_5xx_def on_io_def fire_alert_def Let_def io_bind_def lift_res_def io_return_def)

lemma error_dispatch_no_exception:
  assumes "error_code_prefix (er_app rq) = Some p" and "fst (error_dispatch env h rq nxt s) = Inl e"
  shows "\<not> is_Exception e"
proof
  assume "is_Exception e"
  show False using assms(2) \<open>is_Exception e\<close>
    unfolding error_dispatch_def io_except_def report_exception_answers [OF assms(1)]
    by (auto split: prod.splits sum.splits if_splits)
qed

section \<open>Properties\<close>

text \<open>
  In the hour after the first alert of a key, the budget admits exactly the first
  \<open>per_hour\<close> of that key's alerts, however alerts of other keys are interleaved; once the hour is over the
  next alert is admitted again.
\<close>

theorem alert_budget_bound:
  assumes "0 \<le> per_hour" and "calls = pre @ (t0, k) # rest" and "k \<notin> snd ` set pre"
    and "\<forall>(t, key) \<in> set rest. key = k \<longrightarrow> t - t0 \<le> 3600"
  shows "admitted k calls (fst (budget_run calls (new_alert_budget per_hour))) = min (calls_of k calls) (nat per_hour) \<and>
         (key_view b k = (Some s, c) \<and> now - s > 3600 \<and> 0 < ab_per_hour b \<longrightarrow> fst (budget_allow now k b))"
proof
  show "admitted k calls (fst (budget_run calls (new_alert_budget per_hour))) = min (calls_of k calls) (nat per_hour)"
    using admitted_new [OF _ _ assms(2-4), of "new_alert_budget per_hour"] assms(1)
    by (simp add: key_view_def new_alert_budget_def)
  show "key_view b k = (Some s, c) \<and> now - s > 3600 \<and> 0 < ab_per_hour b \<longrightarrow> fst (budget_allow now k b)"
    using budget_allow_expired [of b k s c now] by auto
qed

text \<open>
  C33: Under an application with an error code prefix no \<open>Exception\<close> leaves the error middleware. An
  exception of the application is answered with the 500 envelope and reported; an answer below 500 is passed on;
  an answer of 500 and above keeps its status and body, and is reported exactly
  when it does not announce an outage of its own (503 with \<open>Retry-After\<close>, or a database outage code).
\<close>

theorem error_dispatch_contract:
  assumes app: "error_code_prefix (er_app rq) = Some p"
  shows "(\<forall>e. fst (error_dispatch env h rq nxt s) = Inl e \<longrightarrow> \<not> is_Exception e) \<and>
    (\<forall>e w'. nxt (snd s) = (Inl e, w') \<and> is_Exception e \<longrightarrow>
       error_dispatch env h rq nxt s =
         (Inr (ErrorJson \<lparr>jr_status = 500,
            jr_body = Some (build_error_envelope ''Internal server error'' (JStr (p @ ''_'' @ INTERNAL_CODE))
              (Some (case er_correlation_id rq of Some c \<Rightarrow> c | None \<Rightarrow> ''unknown'')) []),
            jr_headers = None\<rparr>),
          (if gh_slack_webhook_url h = [] then fst s
           else fst s @ [build_context env h rq (eh_str env e) (eh_type env e) None (Some (eh_traceback env e)) 500 [] w'],
           w'))) \<and>
    (\<forall>r w'. nxt (snd s) = (Inr r, w') \<and> (st_status r < 500 \<or> \<not> gh_alert_on_5xx h) \<longrightarrow>
       error_dispatch env h rq nxt s = (Inr (Untouched r), (fst s, w'))) \<and>
    (\<forall>r w' chunks w'' code. nxt (snd s) = (Inr r, w') \<and> st_status r \<ge> 500 \<and> gh_alert_on_5xx h \<and>
         st_body r w' = (Inr chunks, w'') \<and> error_code env (concat chunks) = Inr code \<longrightarrow>
       error_dispatch env h rq nxt s =
         (Inr (Rebuilt (st_status r) (dict_merge [] (st_headers r)) (concat chunks)),
          (if gh_slack_webhook_url h = [] \<or> is_unpaged r code then fst s
           else fst s @ [build_context env h rq [] [] code None (st_status r) (take 500 (utf8_replace (concat chunks))) w''],
           w'')))"
proof (rule conjI)
  show "\<forall>e. fst (error_dispatch env h rq nxt s) = Inl e \<longrightarrow> \<not> is_Exception e"
    using error_dispatch_no_exception [OF app] by blast
qed (simp add: error_dispatch_def report_exception_answers [OF app] report_5xx_answers on_io_def io_except_def io_bind_def
    io_return_def)

section \<open>Witnesses\<close>

theorem alert_budget_bound_witness:
  "admitted ''crm:E'' [(0, ''crm:E''), (1, ''crm:F''), (2, ''crm:E''), (3, ''crm:E'')]
     (fst (budget_run [(0, ''crm:E''), (1, ''crm:F''), (2, ''crm:E''), (3, ''crm:E'')] (new_alert_budget 2))) = 2"
proof -
  have "calls_of ''crm:E'' [(0, ''crm:E''), (1, ''crm:F''), (2, ''crm:E''), (3, ''crm:E'')] = 3" by (simp add: calls_of_def)
  then show ?thesis
    using alert_budget_bound [of 2 "[(0, ''crm:E''), (1, ''crm:F''), (2, ''crm:E''), (3, ''crm:E'')]" "[]" 0 "''crm:E''"
        "[(1, ''crm:F''), (2, ''crm:E''), (3, ''crm:E'')]"] by simp
qed

definition plain_eh_env :: "unit eh_env" where
  "plain_eh_env =
     \<lparr>eh_now = (\<lambda>_. 0), eh_timestamp = (\<lambda>_. ''t''), eh_host = ''h'', eh_post = (\<lambda>_ _ w. (Inr (), w)), eh_str = (\<lambda>_. ''boom''),
      eh_type = (\<lambda>_. ''RuntimeError''), eh_traceback = (\<lambda>_. []), eh_loads = (\<lambda>_. Inl (ValueError [])), eh_sha256 = (\<lambda>s. s),
      eh_json_str = (\<lambda>_. [])\<rparr>"

theorem error_dispatch_contract_witness:
  "error_dispatch plain_eh_env \<lparr>gh_service_name = ''crm'', gh_environment = ''test'', gh_slack_webhook_url = [], gh_alert_on_5xx = True,
      gh_hash_pii = True\<rparr> \<lparr>er_path = ''/'', er_query = [], er_method = ''GET'', er_identity = NoIdentity, er_correlation_id = None,
      er_app = \<lparr>error_code_prefix = Some ''CRM''\<rparr>\<rparr>
     (io_return \<lparr>st_status = 200, st_headers = [], st_body = io_return []\<rparr>) ([], ()) =
   (Inr (Untouched \<lparr>st_status = 200, st_headers = [], st_body = io_return []\<rparr>), ([], ()))"
  using error_dispatch_contract [of "\<lparr>er_path = ''/'', er_query = [], er_method = ''GET'', er_identity = NoIdentity,
      er_correlation_id = None, er_app = \<lparr>error_code_prefix = Some ''CRM''\<rparr>\<rparr>" "''CRM''" plain_eh_env
      "\<lparr>gh_service_name = ''crm'', gh_environment = ''test'', gh_slack_webhook_url = [], gh_alert_on_5xx = True, gh_hash_pii = True\<rparr>"
      "io_return \<lparr>st_status = 200, st_headers = [], st_body = io_return []\<rparr>" "([], ())"]
  by (simp add: io_return_def)

end
