(* ===== verification/Repository.thy ===== *)
theory Repository
  imports Prelude "HOL-Library.Multiset"
begin

text \<open>
  \<open>db/repository.py\<close>, the mixins of \<open>db/base.py\<close> and the query helpers of \<open>db/utils.py\<close>: the
  tenant-scoped repository over one table. A row is a dict of column values, with \<open>JNull\<close> for SQL's
  \<open>NULL\<close>. A query is the list of its \<open>WHERE\<close> conditions and its order; the database executes it on
  the table and answers in an order of its own choosing (\<open>rp_arrange\<close>), and any statement may fail
  (\<open>rp_execute\<close>).
\<close>

section \<open>Models and queries\<close>

type_synonym row = "(string, json) dict"

definition col :: "row \<Rightarrow> string \<Rightarrow> json" where
  "col r c = (case dict_get r c of Some v \<Rightarrow> v | None \<Rightarrow> JNull)"

text \<open>
  The mapped class: its columns, and the names of its other attributes, for which \<open>hasattr\<close> is
  true as well.
\<close>

record model =
  md_name :: string
  md_columns :: "string list"
  md_other_attrs :: "string list"

definition has_attr :: "model \<Rightarrow> string \<Rightarrow> bool" where
  "has_attr md a = (a \<in> set (md_columns md) \<or> a \<in> set (md_other_attrs md))"

text \<open>
  \<open>getattr(model, key) == value\<close> in a \<open>WHERE\<close>: on a column, equality, where \<open>None\<close> is \<open>IS NULL\<close>; on another
  attribute, the Python value \<open>False\<close>.
\<close>

definition attr_eq :: "model \<Rightarrow> string \<Rightarrow> json \<Rightarrow> row \<Rightarrow> bool" where
  "attr_eq md key v r = (key \<in> set (md_columns md) \<and> col r key = v)"

definition col_in :: "string \<Rightarrow> json list \<Rightarrow> row \<Rightarrow> bool" where
  "col_in key vs r = (col r key \<noteq> JNull \<and> col r key \<in> set vs)"

record query =
  q_where :: "(row \<Rightarrow> bool) list"
  q_order :: "(string \<times> bool) option"
  q_limit :: "(int \<times> int) option"

definition select_where :: "(row \<Rightarrow> bool) list \<Rightarrow> query" where
  "select_where ps = \<lparr>q_where = ps, q_order = None, q_limit = None\<rparr>"

definition add_where :: "(row \<Rightarrow> bool) \<Rightarrow> query \<Rightarrow> query" where
  "add_where p q = q\<lparr>q_where := q_where q @ [p]\<rparr>"

definition matching :: "query \<Rightarrow> row list \<Rightarrow> row list" where
  "matching q tab = filter (\<lambda>r. list_all (\<lambda>p. p r) (q_where q)) tab"

record 'w repo_env =
  rp_execute :: "('w, unit) io"
  rp_now :: "'w \<Rightarrow> string"
  rp_arrange :: "(string \<times> bool) option \<Rightarrow> row list \<Rightarrow> row list"

type_synonym ('w, 'a) repo_io = "(row list \<times> 'w, 'a) io"

definition execute :: "'w repo_env \<Rightarrow> query \<Rightarrow> ('w, row list) repo_io" where
  "execute env q s =
     (case rp_execute env (snd s) of
        (Inl e, w') \<Rightarrow> (Inl e, (fst s, w'))
      | (Inr _, w') \<Rightarrow>
          (case q_limit q of
             None \<Rightarrow> (Inr (rp_arrange env (q_order q) (matching q (fst s))), (fst s, w'))
           | Some (lmt, off) \<Rightarrow>
               if lmt < 0 \<or> off < 0 then (Inl (OtherException ''LIMIT and OFFSET must not be negative''), (fst s, w'))
               else (Inr (take (nat lmt) (drop (nat off) (rp_arrange env (q_order q) (matching q (fst s))))), (fst s, w'))))"

definition execute_count :: "'w repo_env \<Rightarrow> query \<Rightarrow> ('w, int) repo_io" where
  "execute_count env q s =
     (case rp_execute env (snd s) of
        (Inl e, w') \<Rightarrow> (Inl e, (fst s, w'))
      | (Inr _, w') \<Rightarrow> (Inr (int (length (matching q (fst s)))), (fst s, w')))"

text \<open>\<open>result.scalar_one_or_none()\<close>\<close>

fun scalar_one_or_none :: "row list \<Rightarrow> row option res" where
  "scalar_one_or_none [] = Inr None"
| "scalar_one_or_none [r] = Inr (Some r)"
| "scalar_one_or_none _ = Inl (OtherException ''MultipleResultsFound'')"

section \<open>\<open>BaseRepository\<close>\<close>

text \<open>A tenant id is a JSON string; \<open>JNull\<close> is the missing tenant.\<close>

definition require_tenant :: "model \<Rightarrow> json \<Rightarrow> ('w, unit) repo_io" where
  "require_tenant md tenant_id =
     (if tenant_id = JNull
      then io_raise (ValueError (md_name md @ '': tenant_id is required and must not be None'')) else io_return ())"

definition not_deleted :: "model \<Rightarrow> query \<Rightarrow> query" where
  "not_deleted md q = (if has_attr md ''deleted_at'' then add_where (\<lambda>r. col r ''deleted_at'' = JNull) q else q)"

definition apply_filters :: "model \<Rightarrow> (string, json) dict \<Rightarrow> query \<Rightarrow> query" where
  "apply_filters md filters q =
     foldl (\<lambda>q (key, v). if v \<noteq> JNull \<and> has_attr md key then add_where (attr_eq md key v) q else q) q filters"

definition tenant_is :: "json \<Rightarrow> row \<Rightarrow> bool" where
  "tenant_is tenant_id r = (col r ''tenant_id'' = tenant_id)"

definition tenant_query :: "model \<Rightarrow> json \<Rightarrow> query" where
  "tenant_query md tenant_id = not_deleted md (select_where [tenant_is tenant_id])"

text \<open>\<open>_column\<close>: an attribute that is no column has neither \<open>in_\<close> nor \<open>desc\<close>.\<close>

definition resolve_column :: "model \<Rightarrow> string \<Rightarrow> unit res" where
  "resolve_column md name =
     (if has_attr md name then Inr ()
      else Inl (ValueError (md_name md @ '' has no column '' @ name)))"

definition order_column :: "model \<Rightarrow> string \<Rightarrow> unit res" where
  "order_column md name =
     (if name \<in> set (md_columns md) then Inr () else Inl (AttributeError ''object has no attribute desc''))"

definition get_by_id :: "'w repo_env \<Rightarrow> model \<Rightarrow> json \<Rightarrow> json \<Rightarrow> ('w, row option) repo_io" where
  "get_by_id env md i tenant_id =
     io_bind (require_tenant md tenant_id) (\<lambda>_.
     io_bind (execute env (not_deleted md (select_where [\<lambda>r. col r ''id'' = i, tenant_is tenant_id]))) (\<lambda>rs.
     lift_res (scalar_one_or_none rs)))"

definition get_all ::
  "'w repo_env \<Rightarrow> model \<Rightarrow> json \<Rightarrow> (string, json) dict \<Rightarrow> string option \<Rightarrow> bool \<Rightarrow> ('w, row list) repo_io" where
  "get_all env md tenant_id filters order_by descending =
     io_bind (require_tenant md tenant_id) (\<lambda>_.
       let q = apply_filters md filters (tenant_query md tenant_id) in
       case order_by of
         Some c \<Rightarrow>
           if c \<noteq> [] \<and> has_attr md c
           then io_bind (lift_res (order_column md c)) (\<lambda>_. execute env (q\<lparr>q_order := Some (c, descending)\<rparr>))
           else execute env q
       | None \<Rightarrow> execute env q)"

definition find_by_field :: "'w repo_env \<Rightarrow> model \<Rightarrow> string \<Rightarrow> json \<Rightarrow> json \<Rightarrow> ('w, row option) repo_io" where
  "find_by_field env md field_name v tenant_id =
     io_bind (require_tenant md tenant_id) (\<lambda>_.
     io_bind (lift_res (resolve_column md field_name)) (\<lambda>_.
     io_bind (execute env (not_deleted md (select_where [attr_eq md field_name v, tenant_is tenant_id]))) (\<lambda>rs.
     lift_res (scalar_one_or_none rs))))"

definition find_by_field_in :: "'w repo_env \<Rightarrow> model \<Rightarrow> string \<Rightarrow> json list \<Rightarrow> json \<Rightarrow> ('w, row list) repo_io" where
  "find_by_field_in env md field_name vs tenant_id =
     io_bind (require_tenant md tenant_id) (\<lambda>_.
       if vs = [] then io_return []
       else io_bind (lift_res (resolve_column md field_name)) (\<lambda>_.
            if field_name \<notin> set (md_columns md) then io_raise (AttributeError ''object has no attribute in_'')
            else execute env (not_deleted md (select_where [col_in field_name vs, tenant_is tenant_id]))))"

definition page_order :: "model \<Rightarrow> string option \<Rightarrow> (string \<times> bool) option res" where
  "page_order md order_by =
     (case order_by of
        Some c \<Rightarrow>
          if c \<noteq> [] \<and> has_attr md c then map_sum (\<lambda>e. e) (\<lambda>_. Some (c, True)) (order_column md c)
          else if has_attr md ''created_at'' then map_sum (\<lambda>e. e) (\<lambda>_. Some (''created_at'', True)) (order_column md ''created_at'')
          else Inr None
      | None \<Rightarrow>
          if has_attr md ''created_at'' then map_sum (\<lambda>e. e) (\<lambda>_. Some (''created_at'', True)) (order_column md ''created_at'')
          else Inr None)"

definition get_paginated ::
  "'w repo_env \<Rightarrow> model \<Rightarrow> json \<Rightarrow> int \<Rightarrow> int \<Rightarrow> (string, json) dict \<Rightarrow> string option \<Rightarrow> ('w, row list \<times> int) repo_io" where
  "get_paginated env md tenant_id page per_page filters order_by =
     io_bind (require_tenant md tenant_id) (\<lambda>_.
       let q = apply_filters md filters (tenant_query md tenant_id) in
       io_bind (execute_count env q) (\<lambda>total.
       io_bind (lift_res (page_order md order_by)) (\<lambda>ord.
       io_bind (execute env (q\<lparr>q_order := ord, q_limit := Some (per_page, (page - 1) * per_page)\<rparr>)) (\<lambda>items.
       io_return (items, total)))))"

definition repo_count :: "'w repo_env \<Rightarrow> model \<Rightarrow> json \<Rightarrow> (string, json) dict \<Rightarrow> ('w, int) repo_io" where
  "repo_count env md tenant_id filters =
     io_bind (require_tenant md tenant_id) (\<lambda>_.
     execute_count env (apply_filters md filters (tenant_query md tenant_id)))"

text \<open>
  \<open>flush\<close> writes an added row, or the changes of the row with the entity's id; \<open>refresh\<close> reads it back.
\<close>

definition flush_with :: "'w repo_env \<Rightarrow> (row list \<Rightarrow> row list) \<Rightarrow> ('w, unit) repo_io" where
  "flush_with env f s =
     (case rp_execute env (snd s) of
        (Inl e, w') \<Rightarrow> (Inl e, (fst s, w'))
      | (Inr _, w') \<Rightarrow> (Inr (), (f (fst s), w')))"

definition write_row :: "row \<Rightarrow> row list \<Rightarrow> row list" where
  "write_row r tab = map (\<lambda>x. if col x ''id'' = col r ''id'' then r else x) tab"

definition repo_create :: "'w repo_env \<Rightarrow> model \<Rightarrow> row \<Rightarrow> ('w, row) repo_io" where
  "repo_create env md entity =
     (if has_attr md ''tenant_id'' \<and> col entity ''tenant_id'' = JNull
      then io_raise (ValueError (md_name md @ ''.tenant_id must be set before create()''))
      else io_bind (flush_with env (\<lambda>tab. tab @ [entity])) (\<lambda>_.
           io_bind (flush_with env (\<lambda>tab. tab)) (\<lambda>_. io_return entity)))"

definition touch :: "model \<Rightarrow> string \<Rightarrow> json \<Rightarrow> row \<Rightarrow> row" where
  "touch md c v r = (if has_attr md c then dict_set c v r else r)"

definition repo_update :: "'w repo_env \<Rightarrow> model \<Rightarrow> row \<Rightarrow> ('w, row) repo_io" where
  "repo_update env md entity s =
     (let e' = touch md ''updated_at'' (JStr (rp_now env (snd s))) entity in
      io_bind (flush_with env (write_row e')) (\<lambda>_.
      io_bind (flush_with env (\<lambda>tab. tab)) (\<lambda>_. io_return e')) s)"

definition deleted_entity :: "model \<Rightarrow> string \<Rightarrow> row \<Rightarrow> row" where
  "deleted_entity md now entity =
     touch md ''updated_at'' (JStr now) (touch md ''is_active'' (JBool False) (touch md ''deleted_at'' (JStr now) entity))"

definition repo_soft_delete :: "'w repo_env \<Rightarrow> model \<Rightarrow> json \<Rightarrow> json \<Rightarrow> ('w, bool) repo_io" where
  "repo_soft_delete env md i tenant_id =
     io_bind (require_tenant md tenant_id) (\<lambda>_.
       if \<not> has_attr md ''deleted_at'' then io_raise (TypeError (md_name md @ '' has no deleted_at column to soft-delete''))
       else io_bind (get_by_id env md i tenant_id) (\<lambda>entity.
              case entity of
                None \<Rightarrow> io_return False
              | Some r \<Rightarrow> (\<lambda>s. io_bind (flush_with env (write_row (deleted_entity md (rp_now env (snd s)) r))) (\<lambda>_. io_return True) s)))"

section \<open>\<open>SoftDeleteMixin\<close>\<close>

definition mixin_soft_delete :: "string \<Rightarrow> row \<Rightarrow> row" where
  "mixin_soft_delete now r = dict_set ''is_active'' (JBool False) (dict_set ''deleted_at'' (JStr now) r)"

definition mixin_restore :: "row \<Rightarrow> row" where
  "mixin_restore r = dict_set ''is_active'' (JBool True) (dict_set ''deleted_at'' JNull r)"

section \<open>\<open>escape_like\<close>\<close>

definition LIKE_ESCAPE_CHAR :: char where
  "LIKE_ESCAPE_CHAR = CHR 0x5C"

definition escape_like :: "string \<Rightarrow> string" where
  "escape_like v =
     replace_upto None ''_'' (LIKE_ESCAPE_CHAR # ''_'')
       (replace_upto None ''%'' (LIKE_ESCAPE_CHAR # ''%'')
         (replace_upto None [LIKE_ESCAPE_CHAR] [LIKE_ESCAPE_CHAR, LIKE_ESCAPE_CHAR] v))"

definition to_sync_url :: "string \<Rightarrow> string" where
  "to_sync_url url0 =
     (let url = replace_upto (Some 1) ''postgres://'' ''postgresql://'' url0;
          url = replace_upto None ''postgresql+asyncpg://'' ''postgresql+psycopg2://'' url
      in if prefix ''postgresql://'' url then replace_upto (Some 1) ''postgresql://'' ''postgresql+psycopg2://'' url else url)"

section \<open>Lemmas\<close>

text \<open>The database answers with the rows that match, in some order.\<close>

definition arranges :: "'w repo_env \<Rightarrow> bool" where
  "arranges env = (\<forall>ord rs. mset (rp_arrange env ord rs) = mset rs)"

definition statements_succeed :: "'w repo_env \<Rightarrow> bool" where
  "statements_succeed env = (\<forall>w. \<exists>w'. rp_execute env w = (Inr (), w'))"

text \<open>The rows a tenant may see.\<close>

definition visible :: "model \<Rightarrow> json \<Rightarrow> row \<Rightarrow> bool" where
  "visible md tenant_id r =
     (tenant_is tenant_id r \<and> (has_attr md ''deleted_at'' \<longrightarrow> col r ''deleted_at'' = JNull))"

definition passes :: "model \<Rightarrow> (string, json) dict \<Rightarrow> row \<Rightarrow> bool" where
  "passes md filters r = list_all (\<lambda>(key, v). v \<noteq> JNull \<and> has_attr md key \<longrightarrow> attr_eq md key v r) filters"

definition selects :: "query \<Rightarrow> row \<Rightarrow> bool" where
  "selects q r = list_all (\<lambda>p. p r) (q_where q)"

lemma matching_selects: "matching q tab = filter (selects q) tab"
  by (simp add: matching_def selects_def [abs_def])

lemma selects_select_where [simp]: "selects (select_where ps) r = list_all (\<lambda>p. p r) ps"
  by (simp add: selects_def select_where_def)

lemma selects_add_where [simp]: "selects (add_where p q) r = (selects q r \<and> p r)"
  by (simp add: selects_def add_where_def)

lemma selects_order [simp]: "selects (q\<lparr>q_order := o1\<rparr>) r = selects q r" "selects (q\<lparr>q_limit := o2\<rparr>) r = selects q r"
  by (simp_all add: selects_def)

lemma selects_not_deleted [simp]:
  "selects (not_deleted md q) r = (selects q r \<and> (has_attr md ''deleted_at'' \<longrightarrow> col r ''deleted_at'' = JNull))"
  by (simp add: not_deleted_def)

lemma selects_apply_filters [simp]: "selects (apply_filters md filters q) r = (selects q r \<and> passes md filters r)"
proof -
  have "selects (foldl (\<lambda>q (key, v). if v \<noteq> JNull \<and> has_attr md key then add_where (attr_eq md key v) q else q) q filters) r
          = (selects q r \<and> passes md filters r)"
    by (induction filters arbitrary: q) (auto simp: passes_def split: prod.splits)
  then show ?thesis by (simp add: apply_filters_def)
qed

lemma selects_tenant_query [simp]: "selects (tenant_query md t) r = visible md t r"
  by (simp add: tenant_query_def visible_def)

lemma q_limit_simps [simp]:
  "q_limit (select_where ps) = None" "q_limit (add_where p q) = q_limit q" "q_limit (not_deleted md q) = q_limit q"
  "q_limit (tenant_query md t) = None"
  by (simp_all add: select_where_def add_where_def not_deleted_def tenant_query_def)

lemma q_limit_apply_filters [simp]: "q_limit (apply_filters md filters q) = q_limit q"
proof -
  have "q_limit (foldl (\<lambda>q (key, v). if v \<noteq> JNull \<and> has_attr md key then add_where (attr_eq md key v) q else q) q filters) = q_limit q"
    by (induction filters arbitrary: q) (auto split: prod.splits)
  then show ?thesis by (simp add: apply_filters_def)
qed

lemma arrange_set: "arranges env \<Longrightarrow> set (rp_arrange env ord rs) = set rs"
  unfolding arranges_def by (metis set_mset_mset)

lemma execute_selects:
  assumes "arranges env" and "execute env q s = (Inr rs, s')"
  shows "fst s' = fst s \<and> (\<forall>r \<in> set rs. r \<in> set (fst s) \<and> selects q r)"
  using assms(2)
  by (auto simp: execute_def matching_selects arrange_set [OF assms(1)] split: prod.splits sum.splits option.splits if_splits
      dest!: in_set_takeD in_set_dropD)

lemma require_tenant_cases:
  "require_tenant md t s = (if t = JNull then (Inl (ValueError (md_name md @ '': tenant_id is required and must not be None'')), s) else (Inr (), s))"
  by (simp add: require_tenant_def io_defs)

lemma scalar_in: "scalar_one_or_none rs = Inr (Some r) \<Longrightarrow> r \<in> set rs"
  by (cases rs rule: scalar_one_or_none.cases) simp_all

lemma get_by_id_visible:
  assumes "arranges env" and "get_by_id env md i t s = (Inr (Some r), s')"
  shows "r \<in> set (fst s) \<and> visible md t r \<and> col r ''id'' = i"
proof -
  let ?q = "not_deleted md (select_where [\<lambda>r. col r ''id'' = i, tenant_is t])"
  obtain rs where ex: "execute env ?q s = (Inr rs, s')" and sc: "scalar_one_or_none rs = Inr (Some r)"
    using assms(2) unfolding get_by_id_def
    by (elim io_bind_InrE) (auto simp: require_tenant_cases lift_res_def split: if_splits)
  from execute_selects [OF assms(1) ex] scalar_in [OF sc] show ?thesis by (auto simp: visible_def)
qed

lemma get_all_visible:
  assumes "arranges env" and "get_all env md t filters order_by descending s = (Inr rs, s')"
  shows "\<forall>r \<in> set rs. r \<in> set (fst s) \<and> visible md t r \<and> passes md filters r"
proof -
  obtain q where ex: "execute env q s = (Inr rs, s')" and q: "\<And>r. selects q r = (visible md t r \<and> passes md filters r)"
    using assms(2) unfolding get_all_def
    by (elim io_bind_InrE)
      (auto simp: require_tenant_cases lift_res_def Let_def io_bind_def split: if_splits option.splits sum.splits)
  from execute_selects [OF assms(1) ex] q show ?thesis by blast
qed

lemma find_by_field_visible:
  assumes "arranges env" and "find_by_field env md f v t s = (Inr (Some r), s')"
  shows "r \<in> set (fst s) \<and> visible md t r \<and> col r f = v"
proof -
  let ?q = "not_deleted md (select_where [attr_eq md f v, tenant_is t])"
  obtain rs where ex: "execute env ?q s = (Inr rs, s')" and sc: "scalar_one_or_none rs = Inr (Some r)"
    using assms(2) unfolding find_by_field_def
    by (elim io_bind_InrE) (auto simp: require_tenant_cases lift_res_def split: if_splits)
  from execute_selects [OF assms(1) ex] scalar_in [OF sc] show ?thesis by (auto simp: visible_def attr_eq_def)
qed

lemma find_by_field_in_visible:
  assumes "arranges env" and "find_by_field_in env md f vs t s = (Inr rs, s')"
  shows "\<forall>r \<in> set rs. r \<in> set (fst s) \<and> visible md t r \<and> col r f \<in> set vs"
proof (cases "vs = []")
  case True
  then show ?thesis using assms(2) by (auto simp: find_by_field_in_def io_bind_def require_tenant_cases io_return_def split: if_splits)
next
  case False
  let ?q = "not_deleted md (select_where [col_in f vs, tenant_is t])"
  have ex: "execute env ?q s = (Inr rs, s')"
    using assms(2) False
    by (auto simp: find_by_field_in_def io_bind_def require_tenant_cases lift_res_def io_raise_def split: if_splits sum.splits)
  from execute_selects [OF assms(1) ex] show ?thesis by (auto simp: visible_def col_in_def)
qed

lemma get_paginated_visible:
  assumes "arranges env" and "get_paginated env md t page per_page filters order_by s = (Inr (rs, n_all), s')"
  shows "\<forall>r \<in> set rs. r \<in> set (fst s) \<and> visible md t r \<and> passes md filters r"
proof -
  let ?q = "apply_filters md filters (tenant_query md t)"
  from assms(2) obtain n s1 ord where c: "execute_count env ?q s = (Inr n, s1)"
    and ex: "execute env (?q\<lparr>q_order := ord, q_limit := Some (per_page, (page - 1) * per_page)\<rparr>) s1 = (Inr rs, s')"
    unfolding get_paginated_def Let_def
    by (elim io_bind_InrE) (auto simp: require_tenant_cases lift_res_def io_return_def split: if_splits)
  have "fst s1 = fst s" using c by (auto simp: execute_count_def split: prod.splits sum.splits)
  with execute_selects [OF assms(1) ex] show ?thesis by simp
qed

lemma get_by_id_keeps_table: "fst (snd (get_by_id env md i t s)) = fst s"
  by (simp add: get_by_id_def io_bind_def require_tenant_cases lift_res_def execute_def split: prod.splits sum.splits option.splits)

lemma scalar_none: "scalar_one_or_none rs = Inr None \<Longrightarrow> rs = []"
  by (cases rs rule: scalar_one_or_none.cases) simp_all

lemma arrange_Nil: "arranges env \<Longrightarrow> rp_arrange env ord rs = [] \<Longrightarrow> rs = []"
  by (metis arrange_set set_empty)

lemma get_by_id_None:
  assumes "arranges env" and "get_by_id env md i t s = (Inr None, s')" and "r \<in> set (fst s)" and "visible md t r"
  shows "col r ''id'' \<noteq> i"
proof -
  let ?q = "not_deleted md (select_where [\<lambda>r. col r ''id'' = i, tenant_is t])"
  obtain rs where ex: "execute env ?q s = (Inr rs, s')" and sc: "scalar_one_or_none rs = Inr None"
    using assms(2) unfolding get_by_id_def
    by (elim io_bind_InrE) (auto simp: require_tenant_cases lift_res_def split: if_splits)
  have "matching ?q (fst s) = []"
    using ex scalar_none [OF sc] arrange_Nil [OF assms(1)] by (auto simp: execute_def split: prod.splits sum.splits)
  with assms(3,4) show ?thesis by (auto simp: matching_selects filter_empty_conv visible_def)
qed

lemma col_dict_set [simp]: "col (dict_set c v r) c' = (if c' = c then v else col r c')"
  by (simp add: col_def)

lemma deleted_entity_cols:
  "col (deleted_entity md now r) ''id'' = col r ''id''" "col (deleted_entity md now r) ''tenant_id'' = col r ''tenant_id''"
  "has_attr md ''deleted_at'' \<Longrightarrow> col (deleted_entity md now r) ''deleted_at'' = JStr now"
  by (simp_all add: deleted_entity_def touch_def)

lemma write_row_one:
  assumes "distinct (map (\<lambda>r. col r ''id'') tab)" and "k < length tab" and "col d ''id'' = col (tab ! k) ''id''"
  shows "write_row d tab = tab[k := d]"
proof (rule nth_equalityI)
  fix j assume "j < length (write_row d tab)"
  then have j: "j < length tab" by (simp add: write_row_def)
  have "col (tab ! j) ''id'' = col (tab ! k) ''id'' \<longleftrightarrow> j = k"
    using assms(1,2) j by (auto simp: distinct_conv_nth)
  then show "write_row d tab ! j = tab[k := d] ! j"
    using j assms(3) by (simp add: write_row_def nth_list_update)
qed (simp add: write_row_def)

lemma concat_pages: "concat (map (\<lambda>p. take k (drop (p * k) xs)) [0..<n]) = take (n * k) xs"
proof (induction n)
  case (Suc n)
  then show ?case by (simp add: take_add [symmetric] add.commute)
qed simp

lemma replace_one_char:
  "replace_upto None [c] new s = concat (map (\<lambda>x. if x = c then new else [x]) s)"
  by (induction s) auto

definition escape_char :: "char \<Rightarrow> string" where
  "escape_char c = (if c \<in> {LIKE_ESCAPE_CHAR, CHR ''%'', CHR ''_''} then [LIKE_ESCAPE_CHAR, c] else [c])"

lemma escape_like_chars: "escape_like v = concat (map escape_char v)"
  by (induction v) (simp_all add: escape_like_def replace_one_char escape_char_def LIKE_ESCAPE_CHAR_def)

text \<open>\<open>col LIKE pattern ESCAPE '\'\<close> as PostgreSQL documents it; a trailing escape character matches nothing.\<close>

function like_match :: "string \<Rightarrow> string \<Rightarrow> bool" where
  "like_match [] s = (s = [])"
| "like_match (p # ps) s =
     (if p = CHR ''%'' then like_match ps s \<or> (case s of [] \<Rightarrow> False | _ # s' \<Rightarrow> like_match (p # ps) s')
      else if p = CHR ''_'' then (case s of [] \<Rightarrow> False | _ # s' \<Rightarrow> like_match ps s')
      else if p = LIKE_ESCAPE_CHAR
      then (case ps of [] \<Rightarrow> False
            | q # qs \<Rightarrow> (case s of [] \<Rightarrow> False | c # s' \<Rightarrow> c = q \<and> like_match qs s'))
      else (case s of [] \<Rightarrow> False | c # s' \<Rightarrow> c = p \<and> like_match ps s'))"
  by pat_completeness auto
termination
  by (relation "measure (\<lambda>(p, s). length p + length s)") auto

lemma like_match_escaped: "like_match (escape_char c @ ps) s = (\<exists>s'. s = c # s' \<and> like_match ps s')"
  by (cases s) (auto simp: escape_char_def LIKE_ESCAPE_CHAR_def)

lemma like_match_escape_like: "like_match (escape_like v @ ps) s = (\<exists>s'. s = v @ s' \<and> like_match ps s')"
  unfolding escape_like_chars by (induction v arbitrary: s) (auto simp: like_match_escaped simp del: like_match.simps(2))

lemma like_match_percent: "like_match (CHR ''%'' # ps) s = (\<exists>a b. s = a @ b \<and> like_match ps b)"
proof (induction s)
  case Nil
  then show ?case by simp
next
  case (Cons c s)
  have "like_match (CHR ''%'' # ps) (c # s) = (like_match ps (c # s) \<or> like_match (CHR ''%'' # ps) s)" by simp
  also have "\<dots> = (\<exists>a b. c # s = a @ b \<and> like_match ps b)"
    unfolding Cons.IH by (auto simp: Cons_eq_append_conv)
  finally show ?case .
qed

section \<open>Properties\<close>

text \<open>
  C14: Every row that a read of the repository returns is a row of the table that belongs to the tenant and is not
  soft-deleted, whatever filters, order and page are asked for, and it satisfies what was asked for; without a tenant
  no statement is executed and every read raises.
\<close>

theorem repository_reads_tenant_scoped:
  assumes "arranges env"
  shows "(\<forall>r s'. get_by_id env md i t s = (Inr (Some r), s') \<longrightarrow> r \<in> set (fst s) \<and> visible md t r \<and> col r ''id'' = i) \<and>
    (\<forall>rs s'. get_all env md t filters order_by descending s = (Inr rs, s') \<longrightarrow>
       (\<forall>r \<in> set rs. r \<in> set (fst s) \<and> visible md t r \<and> passes md filters r)) \<and>
    (\<forall>r s'. find_by_field env md f v t s = (Inr (Some r), s') \<longrightarrow> r \<in> set (fst s) \<and> visible md t r \<and> col r f = v) \<and>
    (\<forall>rs s'. find_by_field_in env md f vs t s = (Inr rs, s') \<longrightarrow>
       (\<forall>r \<in> set rs. r \<in> set (fst s) \<and> visible md t r \<and> col r f \<in> set vs)) \<and>
    (\<forall>rs n_all s'. get_paginated env md t page per_page filters order_by s = (Inr (rs, n_all), s') \<longrightarrow>
       (\<forall>r \<in> set rs. r \<in> set (fst s) \<and> visible md t r \<and> passes md filters r)) \<and>
    (t = JNull \<longrightarrow> (\<exists>e. get_by_id env md i t s = (Inl (ValueError e), s) \<and>
       get_all env md t filters order_by descending s = (Inl (ValueError e), s) \<and>
       find_by_field env md f v t s = (Inl (ValueError e), s) \<and>
       find_by_field_in env md f vs t s = (Inl (ValueError e), s) \<and>
       get_paginated env md t page per_page filters order_by s = (Inl (ValueError e), s) \<and>
       repo_count env md t filters s = (Inl (ValueError e), s) \<and>
       repo_soft_delete env md i t s = (Inl (ValueError e), s)))"
proof (intro conjI)
  show "t = JNull \<longrightarrow> (\<exists>e. get_by_id env md i t s = (Inl (ValueError e), s) \<and>
       get_all env md t filters order_by descending s = (Inl (ValueError e), s) \<and>
       find_by_field env md f v t s = (Inl (ValueError e), s) \<and>
       find_by_field_in env md f vs t s = (Inl (ValueError e), s) \<and>
       get_paginated env md t page per_page filters order_by s = (Inl (ValueError e), s) \<and>
       repo_count env md t filters s = (Inl (ValueError e), s) \<and>
       repo_soft_delete env md i t s = (Inl (ValueError e), s))"
    by (simp add: get_by_id_def get_all_def find_by_field_def find_by_field_in_def get_paginated_def repo_count_def
        repo_soft_delete_def io_bind_def require_tenant_cases)
qed (intro allI impI, erule get_by_id_visible [OF assms] get_all_visible [OF assms] find_by_field_visible [OF assms]
      find_by_field_in_visible [OF assms] get_paginated_visible [OF assms])+

text \<open>
  \<open>soft_delete\<close> changes at most one row. When it returns \<open>True\<close>, exactly one row of the table
  has changed: one the tenant could see, with the given id, which keeps its id and tenant and can no longer be seen; the
  rows of every other tenant are the same. When it returns \<open>False\<close>, the table is the same and the tenant sees no row with that id.
\<close>

theorem soft_delete_one_row:
  assumes arr: "arranges env" and ids: "distinct (map (\<lambda>r. col r ''id'') tab)"
    and run: "repo_soft_delete env md i t (tab, w) = (Inr ok, (tab', w'))"
  shows "(ok \<longrightarrow> (\<exists>k d. k < length tab \<and> visible md t (tab ! k) \<and> col (tab ! k) ''id'' = i \<and>
                   tab' = tab[k := d] \<and> col d ''id'' = i \<and> tenant_is t d \<and> \<not> visible md t d)) \<and>
         (\<not> ok \<longrightarrow> tab' = tab \<and> (\<forall>r \<in> set tab. visible md t r \<longrightarrow> col r ''id'' \<noteq> i))"
proof -
  have da: "has_attr md ''deleted_at''"
    using run by (auto simp: repo_soft_delete_def io_bind_def require_tenant_cases io_raise_def split: if_splits)
  obtain e s1 where g: "get_by_id env md i t (tab, w) = (Inr e, s1)"
    and rest: "(case e of None \<Rightarrow> io_return False
              | Some r \<Rightarrow> (\<lambda>s. io_bind (flush_with env (write_row (deleted_entity md (rp_now env (snd s)) r))) (\<lambda>_. io_return True) s)) s1
              = (Inr ok, (tab', w'))"
    using run da unfolding repo_soft_delete_def
    by (elim io_bind_InrE) (auto simp: require_tenant_cases split: if_splits elim!: io_bind_InrE)
  have s1: "fst s1 = tab" using get_by_id_keeps_table [of env md i t "(tab, w)"] g by simp
  show ?thesis
  proof (cases e)
    case None
    then have "ok = False" "tab' = tab" using rest s1 by (auto simp: io_return_def)
    moreover have "\<forall>r \<in> set tab. visible md t r \<longrightarrow> col r ''id'' \<noteq> i"
      using get_by_id_None [OF arr, of md i t "(tab, w)" s1] g None by simp
    ultimately show ?thesis by simp
  next
    case (Some r)
    from get_by_id_visible [OF arr, of md i t "(tab, w)" r s1] g Some
    have r: "r \<in> set tab" "visible md t r" "col r ''id'' = i" by simp_all
    then obtain k where k: "k < length tab" "r = tab ! k" by (auto simp: in_set_conv_nth)
    let ?d = "deleted_entity md (rp_now env (snd s1)) r"
    have d: "col ?d ''id'' = i" "tenant_is t ?d" "\<not> visible md t ?d"
      using r(2,3) da by (simp_all add: deleted_entity_cols visible_def tenant_is_def)
    have ok: "ok" "tab' = write_row ?d tab"
      using rest Some s1 by (auto simp: io_bind_def io_return_def flush_with_def split: prod.splits sum.splits)
    have "write_row ?d tab = tab[k := ?d]" using write_row_one [OF ids k(1)] d(1) r(3) k(2) by simp
    with ok d k r show ?thesis by auto
  qed
qed


text \<open>
  C39: A search term put through \<open>escape_like\<close> matches literally: as a whole pattern it matches the term and
  nothing else, and between two percent signs it matches exactly the values that contain the term.
\<close>

theorem escape_like_literal:
  "like_match (escape_like term_text) s = (s = term_text) \<and>
   like_match (''%'' @ escape_like term_text @ ''%'') s = sublist term_text s"
proof
  show "like_match (escape_like term_text) s = (s = term_text)"
    using like_match_escape_like [of term_text "[]" s] by simp
  have any: "like_match [CHR ''%''] x" for x using like_match_percent [of "[]" x] by simp
  show "like_match (''%'' @ escape_like term_text @ ''%'') s = sublist term_text s"
    by (auto simp: like_match_percent like_match_escape_like any sublist_def simp del: like_match.simps(2))
qed

section \<open>Witnesses\<close>

definition plain_repo :: "unit repo_env" where
  "plain_repo = \<lparr>rp_execute = io_return (), rp_now = (\<lambda>_. ''now''), rp_arrange = (\<lambda>_ rs. rs)\<rparr>"

definition lead_model :: model where
  "lead_model = \<lparr>md_name = ''Lead'', md_columns = [''id'', ''tenant_id'', ''deleted_at''], md_other_attrs = [''soft_delete'']\<rparr>"

definition lead_row :: "string \<Rightarrow> string \<Rightarrow> row" where
  "lead_row i t = [(''id'', JStr i), (''tenant_id'', JStr t), (''deleted_at'', JNull)]"

lemma plain_repo_laws: "arranges plain_repo" "statements_succeed plain_repo"
  by (simp_all add: arranges_def statements_succeed_def plain_repo_def io_return_def)

theorem repository_reads_tenant_scoped_witness:
  "get_by_id plain_repo lead_model (JStr ''1'') (JStr ''a'') ([lead_row ''1'' ''a'', lead_row ''2'' ''b''], ())
     = (Inr (Some (lead_row ''1'' ''a'')), ([lead_row ''1'' ''a'', lead_row ''2'' ''b''], ())) \<and>
   visible lead_model (JStr ''a'') (lead_row ''1'' ''a'')"
proof
  show get: "get_by_id plain_repo lead_model (JStr ''1'') (JStr ''a'') ([lead_row ''1'' ''a'', lead_row ''2'' ''b''], ())
     = (Inr (Some (lead_row ''1'' ''a'')), ([lead_row ''1'' ''a'', lead_row ''2'' ''b''], ()))"
    by code_simp
  show "visible lead_model (JStr ''a'') (lead_row ''1'' ''a'')"
    by (rule conjunct1 [OF conjunct2 [OF mp [OF spec [OF spec [OF conjunct1 [OF repository_reads_tenant_scoped
          [OF plain_repo_laws(1)]]]] get]]])
qed

theorem soft_delete_one_row_witness:
  "\<exists>k d. k < length [lead_row ''1'' ''a'', lead_row ''2'' ''b''] \<and>
     fst (snd (repo_soft_delete plain_repo lead_model (JStr ''1'') (JStr ''a'') ([lead_row ''1'' ''a'', lead_row ''2'' ''b''], ())))
       = [lead_row ''1'' ''a'', lead_row ''2'' ''b''][k := d] \<and> \<not> visible lead_model (JStr ''a'') d"
proof -
  let ?tab = "[lead_row ''1'' ''a'', lead_row ''2'' ''b'']"
  have ids: "distinct (map (\<lambda>r. col r ''id'') ?tab)" by (simp add: lead_row_def col_def)
  obtain tab' where run: "repo_soft_delete plain_repo lead_model (JStr ''1'') (JStr ''a'') (?tab, ()) = (Inr True, (tab', ()))"
  proof -
    have "fst (repo_soft_delete plain_repo lead_model (JStr ''1'') (JStr ''a'') (?tab, ())) = Inr True" by code_simp
    then show thesis using that by (cases "repo_soft_delete plain_repo lead_model (JStr ''1'') (JStr ''a'') (?tab, ())") auto
  qed
  from mp [OF conjunct1 [OF soft_delete_one_row [OF plain_repo_laws(1) ids run]] TrueI] show ?thesis
    unfolding run fst_conv snd_conv by (elim exE conjE) (intro exI conjI)
qed


end
