(* ===== verification/Config_Client.thy ===== *)
theory Config_Client
  imports Http_Client
begin

text \<open>
  \<open>integrations/config_client.py\<close>, \<open>integrations/models.py\<close>, \<open>integrations/registry.py\<close> and
  \<open>integrations/pf_oauth.py\<close>: the client that fetches a tenant's portal configuration from the admin
  panel, with its local cache, its circuit breaker and its per-key locks, the process-wide registry
  of the client, and the token exchange with PropertyFinder. httpx, the clock, the audit log and
  pydantic's validation are fields of \<open>cc_env\<close>.

  A call is modelled without another call of the same client in between; what the locks are for is
  the step relation at the end of the model, in which any number of calls for one key are interleaved.
\<close>

section \<open>Data\<close>

record integration_config =
  ic_platform_id :: string
  ic_tenant_id :: string
  ic_platform_name :: string
  ic_platform_type :: string
  ic_config :: "(string, json) dict"
  ic_is_enabled :: bool

definition get_secret :: "(json \<Rightarrow> string) \<Rightarrow> integration_config \<Rightarrow> string \<Rightarrow> string \<Rightarrow> string" where
  "get_secret str_of c key dflt =
     (case dict_get (ic_config c) key of
        None \<Rightarrow> dflt
      | Some v \<Rightarrow> if v = JNull then dflt else str_of v)"

record config_client =
  cl_admin_panel_url :: string
  cl_service_token :: string
  cl_circuit :: breaker
  cl_local_cache :: "(string, time \<times> integration_config) dict"
  cl_local_cache_ttl :: int
  cl_local_cache_max_size :: int

definition rstrip_slash :: "string \<Rightarrow> string" where
  "rstrip_slash s = rev (dropWhile (\<lambda>c. c = CHR ''/'') (rev s))"

definition new_config_client :: "string \<Rightarrow> string \<Rightarrow> int \<Rightarrow> time \<Rightarrow> int \<Rightarrow> int \<Rightarrow> config_client" where
  "new_config_client admin_panel_url token failure_thr recovery ttl max_size =
     \<lparr>cl_admin_panel_url = rstrip_slash admin_panel_url, cl_service_token = token,
      cl_circuit = new_breaker ''integration-config-client'' failure_thr recovery,
      cl_local_cache = [], cl_local_cache_ttl = ttl, cl_local_cache_max_size = max_size\<rparr>"

text \<open>
  The environment: \<open>cc_get\<close> is \<open>AsyncClient.get(url, headers, params)\<close>, \<open>cc_validate\<close> is
  \<open>IntegrationConfig(**data)\<close>, \<open>cc_audit\<close> writes the audit record that alert rules read, \<open>cc_str\<close> and
  \<open>cc_exc_name\<close> are \<open>str\<close> and the class name of an exception.
\<close>

record 'w cc_env =
  cc_now :: "'w \<Rightarrow> time"
  cc_get :: "string \<Rightarrow> (string, string) dict \<Rightarrow> (string, string) dict \<Rightarrow> ('w, http_response) io"
  cc_aclose :: "('w, unit) io"
  cc_json :: "http_response \<Rightarrow> json res"
  cc_validate :: "(string, json) dict \<Rightarrow> integration_config res"
  cc_audit :: "string \<Rightarrow> string \<Rightarrow> ('w, unit) io"
  cc_correlation_id :: "'w \<Rightarrow> string option"
  cc_str :: "json \<Rightarrow> string"
  cc_exc_name :: "exn \<Rightarrow> string"

type_synonym ('w, 'a) cc_io = "(config_client \<times> 'w, 'a) io"

section \<open>The cache\<close>

definition cache_key :: "string \<Rightarrow> string \<Rightarrow> bool \<Rightarrow> string" where
  "cache_key tenant_id platform_name include_secrets =
     tenant_id @ '':'' @ platform_name @ '':'' @ (if include_secrets then ''1'' else ''0'')"

text \<open>\<open>key.rsplit(":", 2)\<close> when it has three parts.\<close>

definition rsplit_once :: "string \<Rightarrow> (string \<times> string) option" where
  "rsplit_once s =
     (if CHR '':'' \<notin> set s then None
      else let t = takeWhile (\<lambda>c. c \<noteq> CHR '':'') (rev s)
           in Some (take (length s - Suc (length t)) s, rev t))"

definition rsplit_twice :: "string \<Rightarrow> (string \<times> string \<times> string) option" where
  "rsplit_twice s =
     (case rsplit_once s of
        None \<Rightarrow> None
      | Some (a, z) \<Rightarrow> (case rsplit_once a of None \<Rightarrow> None | Some (x, y) \<Rightarrow> Some (x, y, z)))"

definition key_matches :: "string \<Rightarrow> string option \<Rightarrow> string option \<Rightarrow> bool" where
  "key_matches key tenant_id platform_name =
     (case rsplit_twice key of
        None \<Rightarrow> False
      | Some (key_tenant, key_platform, _) \<Rightarrow>
          (case tenant_id of None \<Rightarrow> True | Some t \<Rightarrow> key_tenant = t) \<and>
          (case platform_name of None \<Rightarrow> True | Some p \<Rightarrow> key_platform = p))"

definition get_from_cache :: "'w cc_env \<Rightarrow> string \<Rightarrow> ('w, integration_config option) cc_io" where
  "get_from_cache env key cw =
     (case dict_get (cl_local_cache (fst cw)) key of
        None \<Rightarrow> (Inr None, cw)
      | Some (expires_at, config) \<Rightarrow>
          if cc_now env (snd cw) > expires_at
          then (Inr None, ((fst cw)\<lparr>cl_local_cache := dict_del key (cl_local_cache (fst cw))\<rparr>, snd cw))
          else (Inr (Some config), cw))"

text \<open>
  \<open>next(iter(...))\<close> on an empty dict raises \<open>StopIteration\<close>, which leaves the coroutine as a
  \<open>RuntimeError\<close>; that is what a maximum size of zero does.
\<close>

definition put_in_cache :: "'w cc_env \<Rightarrow> string \<Rightarrow> integration_config \<Rightarrow> ('w, unit) cc_io" where
  "put_in_cache env key config cw =
     (let c = fst cw;
          entry = (cc_now env (snd cw) + of_int (cl_local_cache_ttl c), config)
      in if int (length (cl_local_cache c)) \<ge> cl_local_cache_max_size c
         then case cl_local_cache c of
                [] \<Rightarrow> (Inl (RuntimeError ''coroutine raised StopIteration''), cw)
              | _ # rest \<Rightarrow> (Inr (), (c\<lparr>cl_local_cache := dict_set key entry rest\<rparr>, snd cw))
         else (Inr (), (c\<lparr>cl_local_cache := dict_set key entry (cl_local_cache c)\<rparr>, snd cw)))"

definition invalidate_cache :: "string option \<Rightarrow> string option \<Rightarrow> config_client \<Rightarrow> config_client" where
  "invalidate_cache tenant_id platform_name c =
     (if tenant_id = None \<and> platform_name = None then c\<lparr>cl_local_cache := []\<rparr>
      else c\<lparr>cl_local_cache := filter (\<lambda>(k, _). \<not> key_matches k tenant_id platform_name) (cl_local_cache c)\<rparr>)"

section \<open>Fetching\<close>

definition cc_is_open :: "'w cc_env \<Rightarrow> ('w, bool) cc_io" where
  "cc_is_open env cw =
     (case breaker_is_open (cc_now env (snd cw)) (cl_circuit (fst cw)) of
        (r, b) \<Rightarrow> (Inr r, ((fst cw)\<lparr>cl_circuit := b\<rparr>, snd cw)))"

definition cc_success :: "('w, unit) cc_io" where
  "cc_success cw = (Inr (), ((fst cw)\<lparr>cl_circuit := record_success (cl_circuit (fst cw))\<rparr>, snd cw))"

definition cc_failure :: "'w cc_env \<Rightarrow> ('w, unit) cc_io" where
  "cc_failure env cw =
     (Inr (), ((fst cw)\<lparr>cl_circuit := record_failure (cc_now env (snd cw)) (cl_circuit (fst cw))\<rparr>, snd cw))"

text \<open>\<open>urllib.parse.quote(s, safe="")\<close> on the UTF-8 bytes of the text.\<close>

definition unreserved :: "char \<Rightarrow> bool" where
  "unreserved c =
     (let n = (of_char c :: nat) in
      (65 \<le> n \<and> n \<le> 90) \<or> (97 \<le> n \<and> n \<le> 122) \<or> (48 \<le> n \<and> n \<le> 57) \<or> n \<in> {45, 46, 95, 126})"

definition hex_digit :: "nat \<Rightarrow> char" where
  "hex_digit d = char_of (if d < 10 then 48 + d else 55 + d)"

definition quote_char :: "char \<Rightarrow> string" where
  "quote_char c =
     (if unreserved c then [c]
      else let n = (of_char c :: nat) in [CHR ''%'', hex_digit (n div 16), hex_digit (n mod 16)])"

definition quote :: "string \<Rightarrow> string" where
  "quote s = concat (map quote_char s)"

definition cc_request :: "'w cc_env \<Rightarrow> string \<Rightarrow> (string, string) dict \<Rightarrow> ('w, http_response) cc_io" where
  "cc_request env url params cw =
     on_world (cc_get env url
       (dict_merge [(header_name H_SERVICE_TOKEN, cl_service_token (fst cw))]
          (correlation_headers (cc_correlation_id env (snd cw)))) params) cw"

definition raise_config_error :: "'w cc_env \<Rightarrow> string \<Rightarrow> ('w, 'a) cc_io" where
  "raise_config_error env message = io_bind (cc_failure env) (\<lambda>_. io_raise (IntegrationConfigError message))"

definition tenants_url :: "string \<Rightarrow> string" where
  "tenants_url platform_name = ''/api/v1/internal/integrations/platforms/'' @ quote platform_name @ ''/tenants''"

definition tenant_list :: "json \<Rightarrow> json res" where
  "tenant_list payload =
     (let data = (case payload of JDict d \<Rightarrow> (case dict_get d ''data'' of Some v \<Rightarrow> v | None \<Rightarrow> payload) | _ \<Rightarrow> JDict [])
      in Inr (case data of JDict d \<Rightarrow> (case dict_get d ''tenant_ids'' of Some v \<Rightarrow> v | None \<Rightarrow> JList []) | _ \<Rightarrow> JList []))"

text \<open>Iterating over a string gives its characters, over a dict its keys; the other values are not iterable.\<close>

definition iterate :: "json \<Rightarrow> json list res" where
  "iterate v =
     (case v of
        JList xs \<Rightarrow> Inr xs
      | JStr s \<Rightarrow> Inr (map (\<lambda>c. JStr [c]) s)
      | JDict d \<Rightarrow> Inr (map (\<lambda>(k, _). JStr k) d)
      | _ \<Rightarrow> Inl (TypeError ''object is not iterable''))"

definition get_enabled_tenants :: "'w cc_env \<Rightarrow> string \<Rightarrow> ('w, string list) cc_io" where
  "get_enabled_tenants env platform_name =
     io_bind (cc_is_open env) (\<lambda>is_open.
       if is_open then io_raise (IntegrationConfigError ''Circuit open: admin panel unavailable'')
       else io_bind (io_except is_HTTPError (cc_request env (tenants_url platform_name) [])
                      (\<lambda>e. raise_config_error env (''get_enabled_tenants network error: '' @ cc_exc_name env e))) (\<lambda>response.
         if status_code response \<noteq> 200
         then raise_config_error env (''get_enabled_tenants returned HTTP '' @ string_of_int (status_code response))
         else io_bind cc_success (\<lambda>_.
              io_bind (lift_res (cc_json env response)) (\<lambda>payload.
              io_bind (lift_res (tenant_list payload)) (\<lambda>tenants.
              io_bind (lift_res (iterate tenants)) (\<lambda>ts. io_return (map (cc_str env) ts)))))))"

definition config_url :: "string \<Rightarrow> string \<Rightarrow> string" where
  "config_url tenant_id platform_name = tenants_url platform_name @ ''/'' @ quote tenant_id"

definition parse_config :: "'w cc_env \<Rightarrow> json \<Rightarrow> integration_config res" where
  "parse_config env payload =
     (case (case payload of JDict d \<Rightarrow> (case dict_get d ''data'' of Some v \<Rightarrow> v | None \<Rightarrow> payload) | _ \<Rightarrow> payload) of
        JDict d \<Rightarrow>
          (case cc_validate env d of
             Inr c \<Rightarrow> Inr c
           | Inl e \<Rightarrow> if is_Exception e
                      then Inl (IntegrationConfigError (''admin panel response failed IntegrationConfig validation: '' @ cc_exc_name env e))
                      else Inl e)
      | _ \<Rightarrow> Inl (IntegrationConfigError ''admin panel returned malformed response (not a dict)''))"

definition fetch_config :: "'w cc_env \<Rightarrow> string \<Rightarrow> string \<Rightarrow> bool \<Rightarrow> ('w, integration_config) cc_io" where
  "fetch_config env tenant_id platform_name include_secrets =
     (let who = ''tenant='' @ tenant_id @ '' platform='' @ platform_name in
      io_bind (cc_is_open env) (\<lambda>is_open.
        if is_open then io_raise (IntegrationConfigError ''Circuit open: admin panel unavailable'')
        else io_bind (io_except is_HTTPError
                        (cc_request env (config_url tenant_id platform_name)
                           [(''include_secrets'', if include_secrets then ''true'' else ''false'')])
                        (\<lambda>e. raise_config_error env
                           (case e of HttpTimeout _ \<Rightarrow> ''admin panel timeout for '' @ who
                            | _ \<Rightarrow> ''admin panel network error: '' @ cc_exc_name env e))) (\<lambda>response.
          if status_code response = 404
          then io_raise (IntegrationConfigNotFound (''No active integration for '' @ who))
          else if status_code response \<noteq> 200
          then raise_config_error env (''admin panel returned HTTP '' @ string_of_int (status_code response) @ '' for '' @ who)
          else io_bind cc_success (\<lambda>_.
               io_bind (lift_res (cc_json env response)) (\<lambda>payload. lift_res (parse_config env payload))))))"

definition get_config :: "'w cc_env \<Rightarrow> string \<Rightarrow> string \<Rightarrow> bool \<Rightarrow> ('w, integration_config) cc_io" where
  "get_config env tenant_id platform_name include_secrets =
     (let key = cache_key tenant_id platform_name include_secrets in
      io_bind (get_from_cache env key) (\<lambda>cached.
        case cached of
          Some c \<Rightarrow> io_return c
        | None \<Rightarrow>
            io_bind (get_from_cache env key) (\<lambda>cached2.
              case cached2 of
                Some c \<Rightarrow> io_return c
              | None \<Rightarrow>
                  io_bind (fetch_config env tenant_id platform_name include_secrets) (\<lambda>config.
                  io_bind (if include_secrets then on_world (cc_audit env tenant_id platform_name) else io_return ()) (\<lambda>_.
                  io_bind (put_in_cache env key config) (\<lambda>_. io_return config))))))"

text \<open>\<open>warm_all\<close>: the calls of \<open>gather\<close> one after the other; each failure is counted out.\<close>

fun warm_tenants :: "'w cc_env \<Rightarrow> string \<Rightarrow> string list \<Rightarrow> ('w, int) cc_io" where
  "warm_tenants env platform_name [] = io_return 0"
| "warm_tenants env platform_name (t # ts) =
     io_bind (io_except is_Exception (io_bind (get_config env t platform_name True) (\<lambda>_. io_return 1)) (\<lambda>_. io_return 0)) (\<lambda>n.
     io_bind (warm_tenants env platform_name ts) (\<lambda>m. io_return (n + m)))"

definition warm_all :: "'w cc_env \<Rightarrow> string \<Rightarrow> ('w, int) cc_io" where
  "warm_all env platform_name =
     io_bind (get_enabled_tenants env platform_name) (\<lambda>ts.
       if ts = [] then io_return 0 else warm_tenants env platform_name ts)"

definition config_client_close :: "'w cc_env \<Rightarrow> ('w, unit) cc_io" where
  "config_client_close env cw = on_world (cc_aclose env) ((fst cw)\<lparr>cl_local_cache := []\<rparr>, snd cw)"

section \<open>The registry\<close>

definition init_integration_config_client :: "'c \<Rightarrow> 'c option \<Rightarrow> 'c option" where
  "init_integration_config_client client registered = Some client"

definition get_integration_config_client :: "'c option \<Rightarrow> 'c res" where
  "get_integration_config_client registered =
     (case registered of None \<Rightarrow> Inl (RuntimeError ''IntegrationConfigClient not initialized'') | Some c \<Rightarrow> Inr c)"

definition reset_integration_config_client :: "'c option \<Rightarrow> 'c option" where
  "reset_integration_config_client registered = None"

section \<open>The PropertyFinder token\<close>

text \<open>\<open>bool\<close> is a subclass of \<open>int\<close>: \<open>true\<close> passes as the number 1.\<close>

definition token_fields :: "json \<Rightarrow> (string \<times> int) res" where
  "token_fields data =
     (case data of
        JDict d \<Rightarrow>
          (case dict_get d ''accessToken'' of
             Some (JStr token) \<Rightarrow>
               if token = [] then Inl (IntegrationConfigError ''PF token response missing accessToken'')
               else (case dict_get d ''expiresIn'' of
                       Some (JInt n) \<Rightarrow> if n \<le> 0 then Inl (IntegrationConfigError ''PF token response missing/invalid expiresIn'')
                                       else Inr (token, n)
                     | Some (JBool True) \<Rightarrow> Inr (token, 1)
                     | _ \<Rightarrow> Inl (IntegrationConfigError ''PF token response missing/invalid expiresIn''))
           | _ \<Rightarrow> Inl (IntegrationConfigError ''PF token response missing accessToken''))
      | _ \<Rightarrow> Inl (AttributeError ''object has no attribute get''))"

definition fetch_pf_access_token ::
  "(string \<Rightarrow> json \<Rightarrow> ('w, http_response) io) \<Rightarrow> (http_response \<Rightarrow> json res) \<Rightarrow> (exn \<Rightarrow> string) \<Rightarrow> string \<Rightarrow> string \<Rightarrow> string
   \<Rightarrow> ('w, string \<times> int) io" where
  "fetch_pf_access_token post json_of describe api_key api_secret auth_url =
     io_bind (io_except is_HTTPError
                (post auth_url (JDict [(''apiKey'', JStr api_key), (''apiSecret'', JStr api_secret)]))
                (\<lambda>e. io_raise (IntegrationConfigError (''PF token exchange failed: '' @ describe e)))) (\<lambda>response.
       if status_code response \<noteq> 200
       then io_raise (IntegrationConfigError (''PF token exchange returned HTTP '' @ string_of_int (status_code response)))
       else case json_of response of
              Inl e \<Rightarrow> if is_ValueError e then io_raise (IntegrationConfigError ''PF token response was not valid JSON'')
                       else io_raise e
            | Inr data \<Rightarrow> lift_res (token_fields data))"

section \<open>The locks\<close>

text \<open>
  Calls of \<open>get_config\<close> for one key as processes. A call that misses takes the lock object that the
  dict has for the key, or a new one; waiting ends when nobody holds that object, and then the second look
  into the cache decides between returning and fetching. A fetch that succeeds stores the result,
  releases the lock and drops it from the dict; one that fails only releases it. There is no
  suspension point inside a step.
\<close>

datatype call_state = Arriving | Waiting nat | Fetching nat | Finished

record flight =
  fl_cached :: bool
  fl_lock :: "nat option"
  fl_next :: nat
  fl_pc :: "nat \<Rightarrow> call_state"

definition no_flight :: flight where
  "no_flight = \<lparr>fl_cached = False, fl_lock = None, fl_next = 0, fl_pc = (\<lambda>_. Arriving)\<rparr>"

inductive flight_step :: "flight \<Rightarrow> flight \<Rightarrow> bool" where
  hit: "fl_pc s p = Arriving \<Longrightarrow> fl_cached s \<Longrightarrow> flight_step s (s\<lparr>fl_pc := (fl_pc s)(p := Finished)\<rparr>)"
| queue: "fl_pc s p = Arriving \<Longrightarrow> \<not> fl_cached s \<Longrightarrow> fl_lock s = Some l \<Longrightarrow>
    flight_step s (s\<lparr>fl_pc := (fl_pc s)(p := Waiting l)\<rparr>)"
| new_lock: "fl_pc s p = Arriving \<Longrightarrow> \<not> fl_cached s \<Longrightarrow> fl_lock s = None \<Longrightarrow>
    flight_step s (s\<lparr>fl_lock := Some (fl_next s), fl_next := Suc (fl_next s), fl_pc := (fl_pc s)(p := Waiting (fl_next s))\<rparr>)"
| second_hit: "fl_pc s p = Waiting l \<Longrightarrow> \<forall>q. fl_pc s q \<noteq> Fetching l \<Longrightarrow> fl_cached s \<Longrightarrow>
    flight_step s (s\<lparr>fl_pc := (fl_pc s)(p := Finished)\<rparr>)"
| fetch: "fl_pc s p = Waiting l \<Longrightarrow> \<forall>q. fl_pc s q \<noteq> Fetching l \<Longrightarrow> \<not> fl_cached s \<Longrightarrow>
    flight_step s (s\<lparr>fl_pc := (fl_pc s)(p := Fetching l)\<rparr>)"
| fetched: "fl_pc s p = Fetching l \<Longrightarrow>
    flight_step s (s\<lparr>fl_cached := True, fl_lock := None, fl_pc := (fl_pc s)(p := Finished)\<rparr>)"
| failed: "fl_pc s p = Fetching l \<Longrightarrow> flight_step s (s\<lparr>fl_pc := (fl_pc s)(p := Finished)\<rparr>)"

text \<open>The entry may also expire, be evicted or be invalidated.\<close>

inductive flight_step_expiring :: "flight \<Rightarrow> flight \<Rightarrow> bool" where
  step: "flight_step s s' \<Longrightarrow> flight_step_expiring s s'"
| expire: "flight_step_expiring s (s\<lparr>fl_cached := False\<rparr>)"

definition flight_inv :: "flight \<Rightarrow> bool" where
  "flight_inv s =
     ((\<forall>p l. fl_pc s p = Fetching l \<longrightarrow> \<not> fl_cached s) \<and>
      (\<forall>p l. \<not> fl_cached s \<and> fl_pc s p \<in> {Waiting l, Fetching l} \<longrightarrow> fl_lock s = Some l) \<and>
      (\<forall>p q l m. fl_pc s p = Fetching l \<and> fl_pc s q = Fetching m \<longrightarrow> p = q))"

inductive_cases flight_stepE: "flight_step s s'"

lemma flight_inv_start: "flight_inv no_flight"
  by (simp add: flight_inv_def no_flight_def)

lemma flight_step_inv: "flight_step s s' \<Longrightarrow> flight_inv s \<Longrightarrow> flight_inv s'"
proof (induction rule: flight_step.induct)
  case (hit s p)
  then show ?case by (auto simp: flight_inv_def)
next
  case (queue s p l)
  then show ?case by (auto simp: flight_inv_def split: if_splits)
next
  case (new_lock s p)
  then show ?case by (fastforce simp: flight_inv_def split: if_splits)
next
  case (second_hit s p l)
  then show ?case by (auto simp: flight_inv_def)
next
  case (fetch s p l)
  have "fl_pc s q \<noteq> Fetching m" for q m
  proof
    assume q: "fl_pc s q = Fetching m"
    with fetch have "fl_lock s = Some m" "fl_lock s = Some l" unfolding flight_inv_def by blast+
    with fetch(2) q show False by auto
  qed
  moreover have lock: "fl_lock s = Some l" using fetch unfolding flight_inv_def by blast
  moreover have "m = l" if "fl_pc s q = Waiting m" for q m
  proof -
    from that fetch have "fl_lock s = Some m" unfolding flight_inv_def by blast
    with lock show ?thesis by simp
  qed
  ultimately show ?case using fetch(3) unfolding flight_inv_def by (auto split: if_splits)
next
  case (fetched s p l)
  have "fl_pc s q \<noteq> Fetching m" if "q \<noteq> p" for q m
    using fetched that unfolding flight_inv_def by blast
  then show ?case by (auto simp: flight_inv_def split: if_splits)
next
  case (failed s p l)
  then show ?case by (auto simp: flight_inv_def split: if_splits)
qed

lemma flight_reachable_inv: "flight_step\<^sup>*\<^sup>* no_flight s \<Longrightarrow> flight_inv s"
  by (induction rule: rtranclp_induct) (auto intro: flight_inv_start flight_step_inv)

section \<open>Lemmas\<close>

lemma rsplit_once_append:
  assumes "CHR '':'' \<notin> set z"
  shows "rsplit_once (a @ CHR '':'' # z) = Some (a, z)"
proof -
  have "takeWhile (\<lambda>c. c \<noteq> CHR '':'') (rev z @ CHR '':'' # rev a) = rev z"
    using assms by (simp add: takeWhile_append)
  then show ?thesis by (simp add: rsplit_once_def Let_def)
qed

lemma rsplit_cache_key:
  assumes "CHR '':'' \<notin> set p"
  shows "rsplit_twice (cache_key t p i) = Some (t, p, if i then ''1'' else ''0'')"
proof -
  have "rsplit_once (cache_key t p i) = Some (t @ CHR '':'' # p, if i then ''1'' else ''0'')"
    using rsplit_once_append [of "if i then ''1'' else ''0''" "t @ CHR '':'' # p"] by (simp add: cache_key_def)
  then show ?thesis using rsplit_once_append [OF assms, of t] by (simp add: rsplit_twice_def)
qed

lemma key_matches_cache_key:
  assumes "CHR '':'' \<notin> set p"
  shows "key_matches (cache_key t p i) ot op = ((ot = None \<or> ot = Some t) \<and> (op = None \<or> op = Some p))"
  using rsplit_cache_key [OF assms, of t i] by (auto simp: key_matches_def split: option.splits)

lemma cache_key_flag: "cache_key t p i = cache_key t' p' i' \<Longrightarrow> i = i'"
proof -
  assume "cache_key t p i = cache_key t' p' i'"
  then have "last (cache_key t p i) = last (cache_key t' p' i')" by simp
  then show "i = i'" by (cases i; cases i') (simp_all add: cache_key_def)
qed

lemma cache_key_inj:
  assumes "CHR '':'' \<notin> set p" "CHR '':'' \<notin> set p'" and "cache_key t p i = cache_key t' p' i'"
  shows "t = t' \<and> p = p' \<and> i = i'"
proof -
  have "rsplit_twice (cache_key t p i) = rsplit_twice (cache_key t' p' i')" by (rule arg_cong [OF assms(3)])
  then show ?thesis
    unfolding rsplit_cache_key [OF assms(1)] rsplit_cache_key [OF assms(2)] using cache_key_flag [OF assms(3)] by simp
qed

text \<open>The cache as a partial map with expiry: what a lookup at a given time finds.\<close>

definition config_live :: "config_client \<Rightarrow> time \<Rightarrow> string \<Rightarrow> integration_config option" where
  "config_live c now key =
     (case dict_get (cl_local_cache c) key of None \<Rightarrow> None
      | Some (expires_at, config) \<Rightarrow> if now > expires_at then None else Some config)"

lemma get_from_cache_config_live: "fst (get_from_cache env key (c, w)) = Inr (config_live c (cc_now env w) key)"
  by (simp add: get_from_cache_def config_live_def split: option.splits)

lemma get_from_cache_hit: "config_live c (cc_now env w) key = Some config \<Longrightarrow> get_from_cache env key (c, w) = (Inr (Some config), (c, w))"
  by (auto simp: get_from_cache_def config_live_def split: option.splits if_splits)

definition drop_expired :: "config_client \<Rightarrow> time \<Rightarrow> string \<Rightarrow> config_client" where
  "drop_expired c now key =
     (case dict_get (cl_local_cache c) key of None \<Rightarrow> c
      | Some (expires_at, _) \<Rightarrow> if now > expires_at then c\<lparr>cl_local_cache := dict_del key (cl_local_cache c)\<rparr> else c)"

lemma get_from_cache_miss:
  "config_live c (cc_now env w) key = None \<Longrightarrow> get_from_cache env key (c, w) = (Inr None, (drop_expired c (cc_now env w) key, w))"
  by (auto simp: get_from_cache_def config_live_def drop_expired_def split: option.splits if_splits)

lemma config_live_drop: "config_live c now key = None \<Longrightarrow> config_live (drop_expired c now key) now key = None"
  by (auto simp: config_live_def drop_expired_def split: option.splits if_splits)

lemma drop_expired_idem: "config_live c now key = None \<Longrightarrow> drop_expired (drop_expired c now key) now key = drop_expired c now key"
  by (auto simp: config_live_def drop_expired_def split: option.splits if_splits)

lemma get_config_hit:
  "config_live c (cc_now env w) (cache_key t p i) = Some config \<Longrightarrow> get_config env t p i (c, w) = (Inr config, (c, w))"
  by (simp add: get_config_def Let_def io_bind_def get_from_cache_hit io_return_def)

lemma get_config_miss:
  assumes "config_live c (cc_now env w) (cache_key t p i) = None"
  shows "get_config env t p i (c, w) =
    io_bind (fetch_config env t p i) (\<lambda>config.
    io_bind (if i then on_world (cc_audit env t p) else io_return ()) (\<lambda>_.
    io_bind (put_in_cache env (cache_key t p i) config) (\<lambda>_. io_return config)))
    (drop_expired c (cc_now env w) (cache_key t p i), w)"
  using get_from_cache_miss [OF assms] get_from_cache_miss [OF config_live_drop [OF assms]] drop_expired_idem [OF assms]
  by (simp add: get_config_def Let_def io_bind_def)

definition cache_ok :: "config_client \<Rightarrow> bool" where
  "cache_ok c = (dict_ok (cl_local_cache c) \<and> int (length (cl_local_cache c)) \<le> cl_local_cache_max_size c)"

text \<open>Fetching leaves the cache and its parameters alone.\<close>

definition same_cache :: "config_client \<Rightarrow> config_client \<Rightarrow> bool" where
  "same_cache c c' =
     (cl_local_cache c' = cl_local_cache c \<and> cl_local_cache_ttl c' = cl_local_cache_ttl c \<and>
      cl_local_cache_max_size c' = cl_local_cache_max_size c)"

lemma keeps_cache_prims [io_rules]:
  "io_keeps (\<lambda>cw. same_cache c (fst cw)) (cc_is_open env)" "io_keeps (\<lambda>cw. same_cache c (fst cw)) cc_success"
  "io_keeps (\<lambda>cw. same_cache c (fst cw)) (cc_failure env)" "io_keeps (\<lambda>cw. same_cache c (fst cw)) (on_world m)"
  "io_keeps (\<lambda>cw. same_cache c (fst cw)) (cc_request env url ps)"
  by (simp_all add: io_keeps_def same_cache_def cc_is_open_def cc_success_def cc_failure_def on_world_def cc_request_def split: prod.splits)

lemma fetch_config_keeps_cache: "io_keeps (\<lambda>cw. same_cache c (fst cw)) (fetch_config env t p i)"
  unfolding fetch_config_def raise_config_error_def Let_def
  by (intro io_rules io_keeps_if)

lemma put_in_cache_stores:
  assumes "put_in_cache env key config (c, w) = (Inr (), (c', w'))"
  shows "w' = w \<and> dict_get (cl_local_cache c') key = Some (cc_now env w + of_int (cl_local_cache_ttl c), config) \<and>
         cl_local_cache_max_size c' = cl_local_cache_max_size c \<and> cl_local_cache_ttl c' = cl_local_cache_ttl c"
  using assms by (auto simp: put_in_cache_def Let_def split: if_splits list.splits)

lemma length_dict_set_le: "length (dict_set k v d) \<le> Suc (length d)"
  by (simp add: length_dict_set)

lemma put_in_cache_bounded:
  assumes "cache_ok c" and "1 \<le> cl_local_cache_max_size c"
  shows "cache_ok (fst (snd (put_in_cache env key config (c, w))))"
proof (cases "int (length (cl_local_cache c)) \<ge> cl_local_cache_max_size c")
  case True
  with assms obtain e rest where e: "cl_local_cache c = e # rest" by (cases "cl_local_cache c") auto
  have "int (length (dict_set key v rest)) \<le> cl_local_cache_max_size c" for v
    using length_dict_set_le [of key v rest] assms(1) e by (simp add: cache_ok_def)
  moreover have "dict_ok rest" using assms(1) e by (cases e) (simp add: cache_ok_def dict_ok_def)
  ultimately show ?thesis using True e by (simp add: put_in_cache_def cache_ok_def Let_def)
next
  case False
  have "int (length (dict_set key v (cl_local_cache c))) \<le> cl_local_cache_max_size c" for v
    using length_dict_set_le [of key v "cl_local_cache c"] False by simp
  with False assms(1) show ?thesis by (simp add: put_in_cache_def cache_ok_def Let_def)
qed

lemma get_from_cache_bounded: "cache_ok c \<Longrightarrow> cache_ok (drop_expired c now key)"
  using length_dict_del_le [of key "cl_local_cache c"]
  by (auto simp: drop_expired_def cache_ok_def split: option.splits)

text \<open>What a successful miss did: it fetched the configuration and stored it at the time it returned.\<close>

lemma get_config_miss_success:
  assumes "config_live c (cc_now env w) (cache_key t p i) = None"
    and "get_config env t p i (c, w) = (Inr config, (c', w'))"
  shows "fst (fetch_config env t p i (drop_expired c (cc_now env w) (cache_key t p i), w)) = Inr config \<and>
         dict_get (cl_local_cache c') (cache_key t p i) = Some (cc_now env w' + of_int (cl_local_cache_ttl c'), config)"
proof -
  from assms(2) [unfolded get_config_miss [OF assms(1)]] obtain s1 s2 x
    where fetched: "fetch_config env t p i (drop_expired c (cc_now env w) (cache_key t p i), w) = (Inr config, s1)"
      and put: "put_in_cache env (cache_key t p i) config s2 = (Inr x, (c', w'))"
    by (auto simp: io_return_def elim!: io_bind_InrE)
  obtain c2 w2 where s2: "s2 = (c2, w2)" by (cases s2)
  from put_in_cache_stores [of env "cache_key t p i" config c2 w2 c' w'] put
  have "w' = w2" "dict_get (cl_local_cache c') (cache_key t p i) = Some (cc_now env w2 + of_int (cl_local_cache_ttl c2), config)"
    "cl_local_cache_ttl c' = cl_local_cache_ttl c2" by (simp_all add: s2)
  with fetched show ?thesis by simp
qed

text \<open>The invariant of a client: its cache is bounded, and its breaker is in a state breakers reach.\<close>

definition client_ok :: "config_client \<Rightarrow> bool" where
  "client_ok c = (cache_ok c \<and> 1 \<le> cl_local_cache_max_size c \<and> breaker_wf (cl_circuit c))"

lemma client_ok_prims [io_rules]:
  "io_keeps (\<lambda>cw. client_ok (fst cw)) (cc_is_open env)" "io_keeps (\<lambda>cw. client_ok (fst cw)) cc_success"
  "io_keeps (\<lambda>cw. client_ok (fst cw)) (cc_failure env)" "io_keeps (\<lambda>cw. client_ok (fst cw)) (on_world m)"
  "io_keeps (\<lambda>cw. client_ok (fst cw)) (cc_request env url ps)"
  using cb.invar_is_open cb.invar_success cb.invar_failure
  by (auto simp: io_keeps_def client_ok_def cache_ok_def cc_is_open_def cc_success_def cc_failure_def on_world_def cc_request_def case_prod_beta)

lemma client_ok_cache [io_rules]:
  "io_keeps (\<lambda>cw. client_ok (fst cw)) (get_from_cache env key)" "io_keeps (\<lambda>cw. client_ok (fst cw)) (put_in_cache env key config)"
proof -
  show "io_keeps (\<lambda>cw. client_ok (fst cw)) (get_from_cache env key)"
    by (auto simp: io_keeps_def client_ok_def cache_ok_def get_from_cache_def split: option.splits
        intro: order_trans [OF of_nat_mono [OF length_dict_del_le]])
  have "client_ok (fst (snd (put_in_cache env key config (c, w))))" if "client_ok c" for c w
    using that put_in_cache_bounded [of c env key config w]
    by (auto simp: client_ok_def put_in_cache_def Let_def split: list.splits)
  then show "io_keeps (\<lambda>cw. client_ok (fst cw)) (put_in_cache env key config)" by (simp add: io_keeps_def)
qed

lemma fetch_config_ok [io_rules]: "io_keeps (\<lambda>cw. client_ok (fst cw)) (fetch_config env t p i)"
  unfolding fetch_config_def raise_config_error_def Let_def by (intro io_rules io_keeps_if)

lemma get_enabled_tenants_ok [io_rules]: "io_keeps (\<lambda>cw. client_ok (fst cw)) (get_enabled_tenants env p)"
  unfolding get_enabled_tenants_def raise_config_error_def Let_def by (intro io_rules io_keeps_if)

lemma io_keeps_case_option [io_rules]:
  "io_keeps P m \<Longrightarrow> (\<And>x. io_keeps P (f x)) \<Longrightarrow> io_keeps P (case v of None \<Rightarrow> m | Some x \<Rightarrow> f x)"
  by (cases v) simp_all

lemma get_config_ok [io_rules]: "io_keeps (\<lambda>cw. client_ok (fst cw)) (get_config env t p i)"
  unfolding get_config_def Let_def by (intro io_rules io_keeps_if)

lemma warm_tenants_ok [io_rules]: "io_keeps (\<lambda>cw. client_ok (fst cw)) (warm_tenants env p ts)"
  by (induction ts) (simp_all, intro io_rules, (intro io_rules | assumption)+)


lemma warm_all_ok [io_rules]: "io_keeps (\<lambda>cw. client_ok (fst cw)) (warm_all env p)"
  unfolding warm_all_def by (intro io_rules io_keeps_if)

lemma close_ok [io_rules]: "io_keeps (\<lambda>cw. client_ok (fst cw)) (config_client_close env)"
  by (auto simp: io_keeps_def config_client_close_def on_world_def client_ok_def cache_ok_def split: prod.splits)

lemma invalidate_ok: "client_ok c \<Longrightarrow> client_ok (invalidate_cache ot op c)"
  using order_trans [OF of_nat_mono [OF length_filter_le]]
  by (auto simp: invalidate_cache_def client_ok_def cache_ok_def dict_ok_def distinct_map inj_on_filter_key_eq inj_on_def)

lemma map_of_filter_keys: "map_of (filter (\<lambda>(k, _). P k) d) k = (if P k then map_of d k else None)"
  by (induction d) auto

lemma invalidate_lookup:
  assumes "CHR '':'' \<notin> set p"
  shows "dict_get (cl_local_cache (invalidate_cache ot op c)) (cache_key t p i) =
    (if (ot = None \<or> ot = Some t) \<and> (op = None \<or> op = Some p) then None
     else dict_get (cl_local_cache c) (cache_key t p i))"
  using key_matches_cache_key [OF assms, of t i ot op]
  by (auto simp: invalidate_cache_def map_of_filter_keys)

text \<open>What leaves a call that fails, and that it stores nothing.\<close>

definition config_exn :: "exn \<Rightarrow> bool" where
  "config_exn e = (case e of IntegrationConfigError _ \<Rightarrow> True | IntegrationConfigNotFound _ \<Rightarrow> True | _ \<Rightarrow> False)"

lemma config_exn_simps [simp]: "config_exn (IntegrationConfigError m)" "config_exn (IntegrationConfigNotFound m)"
  by (simp_all add: config_exn_def)

text \<open>
  The environment as documented: httpx raises its own errors, the decoder \<open>ValueError\<close>, a failed
  validation is an \<open>Exception\<close>, and the log does not raise.
\<close>

definition cc_documented :: "'w cc_env \<Rightarrow> bool" where
  "cc_documented env =
     ((\<forall>url hs ps w e. fst (cc_get env url hs ps w) = Inl e \<longrightarrow> is_HTTPError e) \<and>
      (\<forall>r e. cc_json env r = Inl e \<longrightarrow> is_ValueError e) \<and>
      (\<forall>d e. cc_validate env d = Inl e \<longrightarrow> is_Exception e) \<and>
      (\<forall>t p w. \<exists>w'. cc_audit env t p w = (Inr (), w')))"

lemma parse_config_exn: "cc_documented env \<Longrightarrow> parse_config env payload = Inl e \<Longrightarrow> config_exn e"
  by (auto simp: parse_config_def cc_documented_def split: json.splits option.splits sum.splits if_splits)

lemma cc_prims_raise [io_rules]:
  "io_raises E (cc_is_open env)" "io_raises E cc_success" "io_raises E (cc_failure env)"
  by (simp_all add: io_raises_def cc_is_open_def cc_success_def cc_failure_def split: prod.splits)

lemma cc_request_raises: "cc_documented env \<Longrightarrow> io_raises is_HTTPError (cc_request env url ps)"
  unfolding cc_documented_def io_raises_def cc_request_def on_world_def by (simp add: case_prod_beta)

lemma fetch_config_raises:
  assumes "cc_documented env"
  shows "io_raises (\<lambda>e. config_exn e \<or> is_ValueError e) (fetch_config env t p i)"
proof -
  have json: "cc_json env r = Inl e \<Longrightarrow> config_exn e \<or> is_ValueError e" for r e
    using assms unfolding cc_documented_def by blast
  have parse: "parse_config env payload = Inl e \<Longrightarrow> config_exn e \<or> is_ValueError e" for payload e
    using parse_config_exn [OF assms] by blast
  have request: "io_raises (\<lambda>e. is_HTTPError e \<or> config_exn e \<or> is_ValueError e) (cc_request env url ps)" for url ps
    using cc_request_raises [OF assms] by (rule io_raises_mono) simp
  show ?thesis
    unfolding fetch_config_def raise_config_error_def Let_def
    by (intro io_rules request)
      (rule disjI1 [OF config_exn_simps(1)] disjI1 [OF config_exn_simps(2)] | erule json | erule parse)+
qed

lemma put_in_cache_no_raise:
  "1 \<le> cl_local_cache_max_size c \<Longrightarrow> \<exists>s. put_in_cache env key config (c, w) = (Inr (), s)"
  by (auto simp: put_in_cache_def Let_def split: list.splits)

lemma audit_returns: "cc_documented env \<Longrightarrow> \<exists>w'. on_world (cc_audit env t p) (c, w) = (Inr (), (c, w'))"
  unfolding cc_documented_def on_world_def by (metis case_prod_conv fst_conv snd_conv)

lemma get_config_failure:
  assumes "cc_documented env" and "1 \<le> cl_local_cache_max_size c" and "get_config env t p i (c, w) = (Inl e, (c', w'))"
  shows "(config_exn e \<or> is_ValueError e) \<and>
         cl_local_cache c' = cl_local_cache (drop_expired c (cc_now env w) (cache_key t p i)) \<and>
         fetch_config env t p i (drop_expired c (cc_now env w) (cache_key t p i), w) = (Inl e, (c', w'))"
proof -
  let ?c = "drop_expired c (cc_now env w) (cache_key t p i)"
  have miss: "config_live c (cc_now env w) (cache_key t p i) = None"
    using assms(3) get_config_hit [of c env w t p i] by (cases "config_live c (cc_now env w) (cache_key t p i)") auto
  have size: "same_cache ?c c1 \<Longrightarrow> 1 \<le> cl_local_cache_max_size c1" for c1
    using assms(2) by (auto simp: same_cache_def drop_expired_def split: option.splits if_splits)
  have start: "same_cache ?c (fst (?c, w))" by (simp add: same_cache_def)
  note kept = io_keepsD [OF fetch_config_keeps_cache [of ?c env t p i], where s = "(?c, w)", OF start]
  from assms(3) [unfolded get_config_miss [OF miss]]
  have fetch: "fetch_config env t p i (?c, w) = (Inl e, (c', w'))"
  proof (cases rule: io_bind_InlE)
    case fst
    then show ?thesis .
  next
    case (snd config s1)
    obtain c1 w1 where s1: "s1 = (c1, w1)" by (cases s1)
    have size1: "1 \<le> cl_local_cache_max_size c1" using kept snd(1) size by (simp add: s1)
    obtain w2 where audit: "(if i then on_world (cc_audit env t p) else io_return ()) (c1, w1) = (Inr (), (c1, w2))"
      using audit_returns [OF assms(1), of t p c1 w1] by (cases i) (auto simp: io_return_def)
    obtain s3 where "put_in_cache env (cache_key t p i) config (c1, w2) = (Inr (), s3)"
      using put_in_cache_no_raise [OF size1, of env "cache_key t p i" config w2] by auto
    with snd(2) audit show ?thesis by (simp add: io_bind_def io_return_def s1)
  qed
  have "config_exn e \<or> is_ValueError e" by (rule io_raisesD [OF fetch_config_raises [OF assms(1)] fetch])
  moreover have "cl_local_cache c' = cl_local_cache ?c" using kept by (simp add: fetch same_cache_def)
  ultimately show ?thesis using fetch by simp
qed


text \<open>
  Two calls that fetch at once: the first call stores the configuration and drops the lock while the second waits on it;
  the entry expires, the second call fetches, and a third takes a new lock.
\<close>

definition flight_trace :: "flight list" where
  "flight_trace =
     (let mk = (\<lambda>cached lock nxt p0 p1 p2. \<lparr>fl_cached = cached, fl_lock = lock, fl_next = nxt,
                   fl_pc = (\<lambda>_. Arriving)(0 := p0, 1 := p1, 2 := p2)\<rparr>)
      in [mk False (Some 0) 1 (Waiting 0) Arriving Arriving,
          mk False (Some 0) 1 (Waiting 0) (Waiting 0) Arriving,
          mk False (Some 0) 1 (Fetching 0) (Waiting 0) Arriving,
          mk True None 1 Finished (Waiting 0) Arriving,
          mk False None 1 Finished (Waiting 0) Arriving,
          mk False None 1 Finished (Fetching 0) Arriving,
          mk False (Some 1) 2 Finished (Fetching 0) (Waiting 1),
          mk False (Some 1) 2 Finished (Fetching 0) (Fetching 1)])"

lemma flight_step_eq: "flight_step s t \<Longrightarrow> t = t' \<Longrightarrow> flight_step s t'"
  by simp

lemma flight_trace_start:
  "flight_step no_flight (flight_trace ! 0)" "flight_step (flight_trace ! 0) (flight_trace ! 1)"
  "flight_step (flight_trace ! 1) (flight_trace ! 2)"
proof -
  let ?s = "\<lambda>i. flight_trace ! i"
  note trace = flight_trace_def no_flight_def Let_def fun_eq_iff
  show "flight_step no_flight (?s 0)"
    by (rule flight_step_eq [OF flight_step.new_lock [where p = 0]]) (simp_all add: trace)
  show "flight_step (?s 0) (?s 1)"
    by (rule flight_step_eq [OF flight_step.queue [where p = 1 and l = 0]]) (simp_all add: trace)
  show "flight_step (?s 1) (?s 2)"
    by (rule flight_step_eq [OF flight_step.fetch [where p = 0 and l = 0]]) (simp_all add: trace)
qed

lemma two_flights:
  "\<exists>s a b. flight_step_expiring\<^sup>*\<^sup>* no_flight s \<and> fl_pc s 1 = Fetching a \<and> fl_pc s 2 = Fetching b"
proof -
  let ?s = "\<lambda>i. flight_trace ! i"
  note trace = flight_trace_def no_flight_def Let_def fun_eq_iff
  note flight_trace_start
  moreover have "flight_step (?s 2) (?s 3)"
    by (rule flight_step_eq [OF flight_step.fetched [where p = 0 and l = 0]]) (simp_all add: trace)
  moreover have "flight_step_expiring (?s 3) (?s 4)"
    using flight_step_expiring.expire [of "?s 3"] by (simp add: flight_trace_def Let_def)
  moreover have "flight_step (?s 4) (?s 5)"
    by (rule flight_step_eq [OF flight_step.fetch [where p = 1 and l = 0]]) (simp_all add: trace)
  moreover have "flight_step (?s 5) (?s 6)"
    by (rule flight_step_eq [OF flight_step.new_lock [where p = 2]]) (simp_all add: trace)
  moreover have "flight_step (?s 6) (?s 7)"
    by (rule flight_step_eq [OF flight_step.fetch [where p = 2 and l = 1]]) (simp_all add: trace)
  ultimately have "flight_step_expiring\<^sup>*\<^sup>* no_flight (?s 7)"
    by (meson flight_step_expiring.step rtranclp.rtrancl_into_rtrancl rtranclp.rtrancl_refl)
  moreover have "fl_pc (?s 7) 1 = Fetching 0" "fl_pc (?s 7) 2 = Fetching 1" by (simp_all add: flight_trace_def Let_def)
  ultimately show ?thesis by blast
qed

section \<open>Properties\<close>

text \<open>An admin panel that knows every tenant, and one whose every answer is a 404, in a world that is the clock.\<close>

definition portal_config :: integration_config where
  "portal_config = \<lparr>ic_platform_id = ''7'', ic_tenant_id = ''t1'', ic_platform_name = ''Bayut'', ic_platform_type = ''portal'',
     ic_config = [(''api_key'', JStr ''k'')], ic_is_enabled = True\<rparr>"

definition answering_panel :: "int \<Rightarrow> time cc_env" where
  "answering_panel sc =
     \<lparr>cc_now = (\<lambda>w. w), cc_get = (\<lambda>url hs ps w. (Inr \<lparr>status_code = sc, resp_headers = [], resp_text = ''{}''\<rparr>, w)),
      cc_aclose = io_return (), cc_json = (\<lambda>r. Inr (JDict [])), cc_validate = (\<lambda>d. Inr portal_config),
      cc_audit = (\<lambda>t p. io_return ()), cc_correlation_id = (\<lambda>w. None), cc_str = (\<lambda>v. []), cc_exc_name = (\<lambda>e. [])\<rparr>"

definition small_client :: config_client where
  "small_client = new_config_client ''http://admin/'' ''token'' 5 60 1800 2"

definition served_client :: config_client where
  "served_client = small_client\<lparr>cl_local_cache := [(''t1:Bayut:0'', (1801, portal_config))]\<rparr>"

lemma served_client_run:
  "get_config (answering_panel 200) ''t1'' ''Bayut'' False (small_client, 1) = (Inr portal_config, (served_client, 1))"
  by (simp add: get_config_def fetch_config_def get_from_cache_def put_in_cache_def cc_is_open_def cc_success_def cc_request_def
      on_world_def parse_config_def io_defs Let_def answering_panel_def served_client_def small_client_def new_config_client_def
      new_breaker_def breaker_op_defs cache_key_def)

lemma missing_run:
  "get_config (answering_panel 404) ''t1'' ''Bayut'' False (small_client, 1) =
     (Inl (IntegrationConfigNotFound ''No active integration for tenant=t1 platform=Bayut''), (small_client, 1))"
  by (simp add: get_config_def fetch_config_def get_from_cache_def put_in_cache_def cc_is_open_def cc_success_def cc_request_def
      on_world_def parse_config_def io_defs Let_def answering_panel_def small_client_def new_config_client_def
      new_breaker_def breaker_op_defs cache_key_def)

lemma answering_panel_documented: "cc_documented (answering_panel sc)"
  by (simp add: cc_documented_def answering_panel_def io_return_def)

text \<open>
  A configuration that was fetched is served from the cache, with no request and no other effect,
  until \<open>local_cache_ttl\<close> seconds after it was stored; from then on a call returns a configuration
  only if it was fetched again.
\<close>

theorem config_served_until_ttl:
  assumes "config_live c (cc_now env w) (cache_key t p i) = None"
    and "get_config env t p i (c, w) = (Inr config, (c', w'))"
  shows "fst (fetch_config env t p i (drop_expired c (cc_now env w) (cache_key t p i), w)) = Inr config
         \<and> (\<forall>w2. cc_now env w2 \<le> cc_now env w' + of_int (cl_local_cache_ttl c') \<longrightarrow>
                get_config env t p i (c', w2) = (Inr config, (c', w2)))
         \<and> (\<forall>w2 config2 s. cc_now env w' + of_int (cl_local_cache_ttl c') < cc_now env w2 \<longrightarrow>
                get_config env t p i (c', w2) = (Inr config2, s) \<longrightarrow>
                fst (fetch_config env t p i (drop_expired c' (cc_now env w2) (cache_key t p i), w2)) = Inr config2)"
proof (intro conjI allI impI)
  note stored = get_config_miss_success [OF assms]
  show "fst (fetch_config env t p i (drop_expired c (cc_now env w) (cache_key t p i), w)) = Inr config"
    using stored by (rule conjunct1)
  fix w2
  show "get_config env t p i (c', w2) = (Inr config, (c', w2))"
    if "cc_now env w2 \<le> cc_now env w' + of_int (cl_local_cache_ttl c')"
    using stored that by (intro get_config_hit) (simp add: config_live_def)
  fix config2 s
  assume late: "cc_now env w' + of_int (cl_local_cache_ttl c') < cc_now env w2"
    and again: "get_config env t p i (c', w2) = (Inr config2, s)"
  obtain c3 w3 where s: "s = (c3, w3)" by (cases s)
  have "config_live c' (cc_now env w2) (cache_key t p i) = None" using stored late by (simp add: config_live_def)
  from get_config_miss_success [OF this again [unfolded s]]
  show "fst (fetch_config env t p i (drop_expired c' (cc_now env w2) (cache_key t p i), w2)) = Inr config2"
    by (rule conjunct1)
qed

theorem config_served_until_ttl_witness:
  "get_config (answering_panel 200) ''t1'' ''Bayut'' False (served_client, 1801) = (Inr portal_config, (served_client, 1801))"
proof -
  have "config_live small_client (cc_now (answering_panel 200) 1) (cache_key ''t1'' ''Bayut'' False) = None"
    by (simp add: small_client_def new_config_client_def config_live_def)
  from config_served_until_ttl [OF this served_client_run]
  show ?thesis by (simp add: answering_panel_def served_client_def small_client_def new_config_client_def)
qed

text \<open>
  The cache never holds more than \<open>local_cache_max_size\<close> entries, nor two for one key, and the
  breaker stays well-formed, whatever is called, however the call ends and whatever the admin panel answers.
\<close>

theorem config_client_invariant:
  assumes "1 \<le> thr" and "1 \<le> max_size"
  shows "client_ok (new_config_client url token thr recovery ttl max_size)
         \<and> io_keeps (\<lambda>cw. client_ok (fst cw)) (get_config env t p i)
         \<and> io_keeps (\<lambda>cw. client_ok (fst cw)) (get_enabled_tenants env p)
         \<and> io_keeps (\<lambda>cw. client_ok (fst cw)) (warm_all env p)
         \<and> io_keeps (\<lambda>cw. client_ok (fst cw)) (config_client_close env)
         \<and> (\<forall>c ot op. client_ok c \<longrightarrow> client_ok (invalidate_cache ot op c))"
proof (intro conjI allI impI)
  show "client_ok (new_config_client url token thr recovery ttl max_size)"
    using assms new_breaker_inv [OF assms(1)]
    by (simp add: client_ok_def cache_ok_def new_config_client_def breaker_wf_def) (simp add: new_breaker_def)
qed (intro io_rules invalidate_ok | assumption)+

theorem config_client_invariant_witness:
  "client_ok small_client
   \<and> client_ok (fst (snd (get_config (answering_panel 500) ''t1'' ''Bayut'' True (small_client, 0))))"
  using config_client_invariant [of 5 2 "''http://admin/''" "''token''" 60 1800 "answering_panel 500" "''t1''" "''Bayut''" True]
  by (simp add: small_client_def io_keeps_def)

text \<open>
  For platform names without a colon, a cached configuration is found under its own tenant,
  platform and secrets flag only, and \<open>invalidate_cache\<close> removes exactly the entries its arguments
  describe. With a colon in the platform name the key is split elsewhere: the entry survives the
  invalidation of its own tenant and falls to that of another.
\<close>

theorem config_invalidation_exact:
  assumes "CHR '':'' \<notin> set p" and "CHR '':'' \<notin> set p'"
  shows "(cache_key t p i = cache_key t' p' i') = (t = t' \<and> p = p' \<and> i = i')
         \<and> dict_get (cl_local_cache (invalidate_cache ot op c)) (cache_key t p i) =
             (if (ot = None \<or> ot = Some t) \<and> (op = None \<or> op = Some p) then None
              else dict_get (cl_local_cache c) (cache_key t p i))
         \<and> \<not> key_matches (cache_key ''t'' ''a:b'' True) (Some ''t'') None
         \<and> key_matches (cache_key ''t'' ''a:b'' True) (Some ''t:a'') (Some ''b'')"
proof (intro conjI)
  show "(cache_key t p i = cache_key t' p' i') = (t = t' \<and> p = p' \<and> i = i')"
    using cache_key_inj [OF assms] by blast
  show "dict_get (cl_local_cache (invalidate_cache ot op c)) (cache_key t p i) =
    (if (ot = None \<or> ot = Some t) \<and> (op = None \<or> op = Some p) then None
     else dict_get (cl_local_cache c) (cache_key t p i))"
    by (rule invalidate_lookup [OF assms(1)])
qed code_simp+

theorem config_invalidation_exact_witness:
  "dict_get (cl_local_cache (invalidate_cache (Some ''t1'') None served_client)) (cache_key ''t1'' ''Bayut'' False) = None
   \<and> dict_get (cl_local_cache (invalidate_cache (Some ''t2'') None served_client)) (cache_key ''t1'' ''Bayut'' False) =
       Some (1801, portal_config)"
proof -
  have "CHR '':'' \<notin> set ''Bayut''" by simp
  note exact = config_invalidation_exact [OF this this, THEN conjunct2, THEN conjunct1]
  show ?thesis
    unfolding exact [of "Some ''t1''" None served_client "''t1''" False] exact [of "Some ''t2''" None served_client "''t1''" False]
    by (simp add: served_client_def cache_key_def)
qed

text \<open>
  What a failing call raises. With httpx, pydantic and the log as documented, only the two
  exceptions of the module leave \<open>get_config\<close>, or the \<open>ValueError\<close> of a 200 answer that is not JSON;
  a failing call stores nothing.
\<close>

theorem config_failure_contract:
  assumes "cc_documented env" and "1 \<le> cl_local_cache_max_size c" and "get_config env t p i (c, w) = (Inl e, (c', w'))"
  shows "(config_exn e \<or> is_ValueError e)
         \<and> cl_local_cache c' = cl_local_cache (drop_expired c (cc_now env w) (cache_key t p i))"
  using get_config_failure [OF assms] by simp

theorem config_failure_contract_witness:
  "config_exn (IntegrationConfigNotFound ''No active integration for tenant=t1 platform=Bayut'')
   \<and> cl_local_cache small_client =
       cl_local_cache (drop_expired small_client (cc_now (answering_panel 404) 1) (cache_key ''t1'' ''Bayut'' False))"
proof -
  have "1 \<le> cl_local_cache_max_size small_client" by (simp add: small_client_def new_config_client_def)
  from config_failure_contract [OF answering_panel_documented this missing_run]
  show ?thesis by (simp add: is_ValueError_def)
qed

text \<open>
  C17: the lock of a key. As long as a stored configuration stays in the cache, at most one call per
  key fetches, and none while the configuration is there. When the entry expires (or is evicted or
  invalidated) while calls wait on the lock that was dropped from the dict, a new call takes another
  lock, and two calls fetch at once.
\<close>

theorem config_single_flight:
  assumes "flight_step\<^sup>*\<^sup>* no_flight s" and "fl_pc s p = Fetching l" and "fl_pc s q = Fetching m"
  shows "p = q \<and> \<not> fl_cached s
         \<and> (\<exists>s' a b. flight_step_expiring\<^sup>*\<^sup>* no_flight s' \<and> fl_pc s' 1 = Fetching a \<and> fl_pc s' 2 = Fetching b)"
proof (intro conjI)
  from flight_reachable_inv [OF assms(1)] have inv: "flight_inv s" .
  with assms(2,3) show "p = q" unfolding flight_inv_def by blast
  from inv assms(2) show "\<not> fl_cached s" unfolding flight_inv_def by blast
  show "\<exists>s' a b. flight_step_expiring\<^sup>*\<^sup>* no_flight s' \<and> fl_pc s' 1 = Fetching a \<and> fl_pc s' 2 = Fetching b"
    using two_flights by blast
qed

theorem config_single_flight_witness: "\<not> fl_cached (flight_trace ! 2)"
proof -
  have "flight_step\<^sup>*\<^sup>* no_flight (flight_trace ! 2)"
    using flight_trace_start by (meson rtranclp.rtrancl_into_rtrancl rtranclp.rtrancl_refl)
  moreover have "fl_pc (flight_trace ! 2) 0 = Fetching 0" by (simp add: flight_trace_def Let_def)
  ultimately show ?thesis using config_single_flight by blast
qed

end
