(* ===== verification/Db_Urls.thy ===== *)
theory Db_Urls
  imports Repository
begin

text \<open>
  The URL helpers of \<open>db/utils.py\<close>: \<open>is_local_dsn\<close>, which two guards ask before they allow a
  destructive action, and \<open>to_session_mode_url\<close> / \<open>to_migration_url\<close>. They rest on \<open>urllib.parse\<close>,
  whose \<open>urlsplit\<close>, \<open>hostname\<close>, \<open>port\<close> and \<open>urlunparse\<close> are modelled on the bytes of the text; the
  compatibility check of non-ASCII host names is left out.
\<close>

section \<open>Splitting\<close>

text \<open>\<open>s.partition(c)\<close> and \<open>s.rpartition(c)\<close>, the separator being found or not.\<close>

definition partition_at :: "char \<Rightarrow> string \<Rightarrow> string \<times> bool \<times> string" where
  "partition_at c s =
     (let a = takeWhile (\<lambda>x. x \<noteq> c) s in (a, length a < length s, drop (Suc (length a)) s))"

definition after_last :: "char \<Rightarrow> string \<Rightarrow> string" where
  "after_last c s = rev (takeWhile (\<lambda>x. x \<noteq> c) (rev s))"

section \<open>\<open>urlsplit\<close>\<close>

record split_url =
  su_scheme :: string
  su_netloc :: string
  su_path :: string
  su_query :: string
  su_fragment :: string

definition scheme_char :: "char \<Rightarrow> bool" where
  "scheme_char c = (is_alpha c \<or> is_digit c \<or> c \<in> {CHR ''+'', CHR ''-'', CHR ''.''})"

definition url_clean :: "string \<Rightarrow> string" where
  "url_clean s =
     filter (\<lambda>c. (of_char c :: nat) \<notin> {9, 10, 13}) (dropWhile (\<lambda>c. (of_char c :: nat) \<le> 32) s)"

definition split_scheme :: "string \<Rightarrow> string \<times> string" where
  "split_scheme url =
     (case partition_at CHR '':'' url of
        (s, found, rest) \<Rightarrow>
          if found \<and> s \<noteq> [] \<and> is_alpha (hd s) \<and> list_all scheme_char s then (lower s, rest) else ([], url))"

text \<open>The text of an IPv6 address: eight groups of one to four hexadecimal digits, one run of them abbreviated, an
  IPv4 address in place of the last two, and a non-empty zone after a percent sign.\<close>

definition hextet :: "string \<Rightarrow> bool" where
  "hextet s = (1 \<le> length s \<and> length s \<le> 4 \<and> list_all hex_char s)"

definition octet :: "string \<Rightarrow> bool" where
  "octet s =
     (1 \<le> length s \<and> length s \<le> 3 \<and> list_all is_digit s \<and> (length s = 1 \<or> hd s \<noteq> CHR ''0'') \<and>
      (case digits_value False 0 s of Some v \<Rightarrow> v \<le> 255 | None \<Rightarrow> False))"

definition is_ipv4 :: "string \<Rightarrow> bool" where
  "is_ipv4 s = (let ps = split_char CHR ''.'' s in length ps = 4 \<and> list_all octet ps)"

definition expand_ipv4 :: "string list \<Rightarrow> string list option" where
  "expand_ipv4 ps =
     (if ps \<noteq> [] \<and> CHR ''.'' \<in> set (last ps)
      then (if is_ipv4 (last ps) then Some (butlast ps @ [''0'', ''0'']) else None)
      else Some ps)"

definition inner_empty :: "string list \<Rightarrow> nat list" where
  "inner_empty ps = filter (\<lambda>i. ps ! i = []) [1..<length ps - 1]"

definition ipv6_parts :: "string list \<Rightarrow> bool" where
  "ipv6_parts ps =
     (3 \<le> length ps \<and> length ps \<le> 9 \<and>
      (case inner_empty ps of
         [] \<Rightarrow> length ps = 8 \<and> list_all hextet ps
       | [i] \<Rightarrow>
           let pre = take i ps; after = drop (Suc i) ps;
               hi = (if pre = [[]] then [] else pre); lo = (if after = [[]] then [] else after)
           in length hi + length lo < 8 \<and> list_all hextet hi \<and> list_all hextet lo
       | _ \<Rightarrow> False))"

definition is_ipv6 :: "string \<Rightarrow> bool" where
  "is_ipv6 s =
     (case partition_at CHR ''%'' s of
        (addr, zoned, zone) \<Rightarrow>
          (zoned \<longrightarrow> zone \<noteq> [] \<and> CHR ''%'' \<notin> set zone) \<and> addr \<noteq> [] \<and> CHR ''/'' \<notin> set s \<and>
          (case split_char CHR '':'' addr of
             ps \<Rightarrow> 3 \<le> length ps \<and> (case expand_ipv4 ps of None \<Rightarrow> False | Some qs \<Rightarrow> ipv6_parts qs)))"

text \<open>\<open>\A v[a-fA-F0-9]+\..+ \Z\<close> of an address of a future version.\<close>

definition is_ipvfuture :: "string \<Rightarrow> bool" where
  "is_ipvfuture s =
     (case partition_at CHR ''.'' (drop 1 s) of
        (v, found, rest) \<Rightarrow> prefix ''v'' s \<and> v \<noteq> [] \<and> list_all hex_char v \<and> found \<and> rest \<noteq> [])"

definition bracketed_host_ok :: "string \<Rightarrow> bool" where
  "bracketed_host_ok h = (if prefix ''v'' h then is_ipvfuture h else is_ipv6 h)"

definition bracketed_netloc_ok :: "string \<Rightarrow> bool" where
  "bracketed_netloc_ok netloc =
     (case partition_at CHR ''['' (after_last CHR ''@'' netloc) of
        (pre, opened, bracketed) \<Rightarrow>
          if opened
          then pre = [] \<and>
               (case partition_at CHR '']'' bracketed of
                  (h, _, port) \<Rightarrow> (port = [] \<or> hd port = CHR '':'') \<and> bracketed_host_ok h)
          else bracketed_host_ok (fst (partition_at CHR '':'' pre)))"

definition netloc_ok :: "string \<Rightarrow> bool" where
  "netloc_ok netloc =
     (let op = CHR ''['' \<in> set netloc; cl = CHR '']'' \<in> set netloc
      in op = cl \<and> (op \<longrightarrow> bracketed_netloc_ok netloc))"

definition is_delim :: "char \<Rightarrow> bool" where
  "is_delim c = (c \<in> {CHR ''/'', CHR ''?'', CHR ''#''})"

definition urlsplit :: "string \<Rightarrow> split_url res" where
  "urlsplit url0 =
     (case split_scheme (url_clean url0) of
        (scheme, rest) \<Rightarrow>
          let has_netloc = prefix ''//'' rest;
              netloc = (if has_netloc then takeWhile (\<lambda>c. \<not> is_delim c) (drop 2 rest) else []);
              rest = (if has_netloc then dropWhile (\<lambda>c. \<not> is_delim c) (drop 2 rest) else rest)
          in if \<not> netloc_ok netloc then Inl (ValueError ''Invalid IPv6 URL'')
             else case partition_at CHR ''#'' rest of
                    (rest, _, fragment) \<Rightarrow>
                      (case partition_at CHR ''?'' rest of
                         (path, _, query) \<Rightarrow>
                           Inr \<lparr>su_scheme = scheme, su_netloc = netloc, su_path = path,
                                su_query = query, su_fragment = fragment\<rparr>))"

definition hostinfo :: "string \<Rightarrow> string \<times> string option" where
  "hostinfo netloc =
     (case partition_at CHR ''['' (after_last CHR ''@'' netloc) of
        (pre, opened, bracketed) \<Rightarrow>
          case (if opened
                then (case partition_at CHR '']'' bracketed of
                        (h, _, rest) \<Rightarrow> (h, snd (snd (partition_at CHR '':'' rest))))
                else (case partition_at CHR '':'' pre of (h, _, p) \<Rightarrow> (h, p))) of
            (h, port) \<Rightarrow> (h, if port = [] then None else Some port))"

definition url_hostname :: "string \<Rightarrow> string option" where
  "url_hostname netloc =
     (case hostinfo netloc of
        (h, _) \<Rightarrow>
          if h = [] then None
          else case partition_at CHR ''%'' h of
                 (a, zoned, zone) \<Rightarrow> Some (lower a @ (if zoned then CHR ''%'' # zone else [])))"

definition url_port :: "string \<Rightarrow> int option res" where
  "url_port netloc =
     (case snd (hostinfo netloc) of
        None \<Rightarrow> Inr None
      | Some p \<Rightarrow>
          (case (if list_all is_digit p then digits_value False 0 p else None) of
             None \<Rightarrow> Inl (ValueError (''Port could not be cast to integer value as '' @ p))
           | Some v \<Rightarrow> if v \<le> 65535 then Inr (Some v) else Inl (ValueError ''Port out of range 0-65535'')))"

section \<open>\<open>is_local_dsn\<close>\<close>

definition LOOPBACK_HOSTS :: "string list" where
  "LOOPBACK_HOSTS = [''localhost'', ''127.0.0.1'', ''::1'']"

definition LOCAL_DB_HOSTS :: "string list" where
  "LOCAL_DB_HOSTS = LOOPBACK_HOSTS @ [''postgres'', ''postgres-test'', ''db'']"

definition LOCAL_DB_HOST_PREFIX :: string where
  "LOCAL_DB_HOST_PREFIX = ''tr-test-''"

definition is_local_dsn :: "string \<Rightarrow> bool" where
  "is_local_dsn dsn =
     (case urlsplit dsn of
        Inl _ \<Rightarrow> False
      | Inr u \<Rightarrow>
          let host = lower (case url_hostname (su_netloc u) of Some h \<Rightarrow> h | None \<Rightarrow> [])
          in host \<in> set LOCAL_DB_HOSTS \<or> prefix LOCAL_DB_HOST_PREFIX host)"

section \<open>\<open>to_session_mode_url\<close>\<close>

text \<open>
  \<open>urlparse\<close> splits parameters off the last path segment for some schemes and \<open>urlunparse\<close> puts them
  back, so that only an empty parameter list is lost.
\<close>

definition uses_params :: "string list" where
  "uses_params = [[], ''ftp'', ''hdl'', ''prospero'', ''http'', ''imap'', ''https'', ''shttp'', ''rtsp'', ''rtsps'', ''rtspu'', ''sip'', ''sips'',
     ''mms'', ''sftp'', ''tel'']"

definition drop_empty_params :: "string \<Rightarrow> string \<Rightarrow> string" where
  "drop_empty_params scheme path =
     (case partition_at CHR '';'' (after_last CHR ''/'' path) of
        (_, found, params) \<Rightarrow> if scheme \<in> set uses_params \<and> found \<and> params = [] then butlast path else path)"

definition urlunparse :: "split_url \<Rightarrow> string" where
  "urlunparse u =
     (if su_scheme u = [] then [] else su_scheme u @ '':'') @ ''//'' @ su_netloc u @ drop_empty_params (su_scheme u) (su_path u) @
     (if su_query u = [] then [] else CHR ''?'' # su_query u) @ (if su_fragment u = [] then [] else CHR ''#'' # su_fragment u)"

definition to_session_mode_url :: "string \<Rightarrow> string res" where
  "to_session_mode_url url =
     (case urlsplit url of
        Inl e \<Rightarrow> Inl e
      | Inr u \<Rightarrow>
          (case url_port (su_netloc u) of
             Inl e \<Rightarrow> Inl e
           | Inr p \<Rightarrow>
               Inr (if p = Some 6543
                    then urlunparse (u\<lparr>su_netloc := replace_upto (Some 1) '':6543'' '':5432'' (su_netloc u)\<rparr>)
                    else url)))"

definition to_migration_url :: "string \<Rightarrow> string res" where
  "to_migration_url url = map_sum (\<lambda>e. e) to_sync_url (to_session_mode_url url)"

section \<open>Lemmas\<close>

lemma replace_upto_zero [simp]: "replace_upto (Some 0) old new s = s"
  by (induction s) simp_all

text \<open>\<open>str.replace(old, new, 1)\<close> acts on the first occurrence.\<close>

lemma replace_first:
  assumes "old \<noteq> []" and "\<not> sublist old (a @ butlast old)"
  shows "replace_upto (Some 1) old new (a @ old @ b) = a @ new @ b"
  using assms(2)
proof (induction a)
  case Nil
  obtain c rest where old: "old = c # rest" using assms(1) by (cases old) simp_all
  then show ?case by simp
next
  case (Cons c a)
  have "\<not> prefix old (c # a @ old @ b)"
  proof
    assume "prefix old (c # a @ old @ b)"
    moreover have "c # a @ old @ b = (c # a @ butlast old) @ last old # b" using assms(1) by simp
    moreover have "length old \<le> length (c # a @ butlast old)" using assms(1) by (cases old rule: rev_cases) simp_all
    ultimately have "prefix old (c # a @ butlast old)"
      by (metis prefix_length_prefix prefixI)
    with Cons.prems show False by (simp add: prefix_imp_sublist)
  qed
  moreover have "\<not> sublist old (a @ butlast old)" using Cons.prems by (auto simp: sublist_Cons_right)
  ultimately show ?case using Cons.IH by simp
qed

text \<open>The authority of a URL that is put together from plain parts.\<close>

definition kept_char :: "char \<Rightarrow> bool" where
  "kept_char c = ((of_char c :: nat) \<notin> {9, 10, 13})"

lemma scheme_char_plain: "scheme_char c \<Longrightarrow> kept_char c \<and> c \<noteq> CHR '':'' \<and> \<not> (of_char c :: nat) \<le> 32"
  by (auto simp: scheme_char_def kept_char_def is_alpha_def is_digit_def Let_def)

lemma url_clean_scheme:
  assumes "scheme \<noteq> []" and "list_all scheme_char scheme"
  shows "url_clean (scheme @ t) = scheme @ filter kept_char t"
proof -
  obtain c s where s: "scheme = c # s" using assms(1) by (cases scheme) auto
  have "\<forall>c \<in> set scheme. kept_char c" using assms(2) scheme_char_plain by (auto simp: list_all_iff)
  then have f: "filter kept_char scheme = scheme" by simp
  have "\<not> (of_char c :: nat) \<le> 32" using assms(2) s scheme_char_plain [of c] by simp
  then have "dropWhile (\<lambda>c. (of_char c :: nat) \<le> 32) (scheme @ t) = scheme @ t" unfolding s by simp
  then show ?thesis unfolding url_clean_def kept_char_def [symmetric] by (simp only: filter_append f)
qed

lemma takeWhile_upto: "c \<notin> set a \<Longrightarrow> takeWhile (\<lambda>x. x \<noteq> c) (a @ c # b) = a"
  by (induction a) auto

lemma takeWhile_absent: "c \<notin> set a \<Longrightarrow> takeWhile (\<lambda>x. x \<noteq> c) a = a"
  by (induction a) auto

lemma partition_at_found: "c \<notin> set a \<Longrightarrow> partition_at c (a @ c # b) = (a, True, b)"
  by (simp add: partition_at_def takeWhile_upto Let_def)

lemma partition_at_absent: "c \<notin> set a \<Longrightarrow> partition_at c a = (a, False, [])"
  by (simp add: partition_at_def takeWhile_absent Let_def)

lemma takeWhile_stop: "\<forall>c \<in> set a. P c \<Longrightarrow> b = [] \<or> \<not> P (hd b) \<Longrightarrow> takeWhile P (a @ b) = a"
  by (cases b) (simp_all add: takeWhile_append2)

lemma urlsplit_netloc:
  assumes "scheme \<noteq> []" and "is_alpha (hd scheme)" and "list_all scheme_char scheme"
    and "\<forall>c \<in> set netloc. \<not> is_delim c \<and> kept_char c" and "netloc_ok netloc" and "rest = [] \<or> is_delim (hd rest)"
  shows "\<exists>u. urlsplit (scheme @ ''://'' @ netloc @ rest) = Inr u \<and> su_netloc u = netloc"
proof -
  let ?r = "filter kept_char rest"
  have k: "kept_char CHR '':''" "kept_char CHR ''/''" by (simp_all add: kept_char_def)
  have "filter kept_char netloc = netloc" using assms(4) by simp
  with k have clean: "url_clean (scheme @ ''://'' @ netloc @ rest) = scheme @ CHR '':'' # ''//'' @ netloc @ ?r"
    unfolding url_clean_scheme [OF assms(1,3)] by simp
  have colon: "CHR '':'' \<notin> set scheme" using assms(3) scheme_char_plain by (auto simp: list_all_iff)
  have split: "split_scheme (scheme @ CHR '':'' # ''//'' @ netloc @ ?r) = (lower scheme, ''//'' @ netloc @ ?r)"
    using assms(1-3) by (simp only: split_scheme_def partition_at_found [OF colon] prod.case) simp
  have "?r = [] \<or> is_delim (hd ?r)" 
  proof (cases rest)
    case (Cons c rest')
    with assms(6) have "is_delim c" by simp
    then have "kept_char c" by (auto simp: is_delim_def kept_char_def)
    with Cons \<open>is_delim c\<close> show ?thesis by simp
  qed simp
  then have tw: "takeWhile (\<lambda>c. \<not> is_delim c) (netloc @ ?r) = netloc" using assms(4) by (intro takeWhile_stop) auto
  obtain p1 f1 q1 where p1: "partition_at CHR ''#'' (dropWhile (\<lambda>c. \<not> is_delim c) (netloc @ ?r)) = (p1, f1, q1)" by (metis prod_cases3)
  obtain p2 f2 q2 where p2: "partition_at CHR ''?'' p1 = (p2, f2, q2)" by (metis prod_cases3)
  have pre: "prefix ''//'' (''//'' @ netloc @ ?r)" "drop 2 (''//'' @ netloc @ ?r) = netloc @ ?r" by simp_all
  show ?thesis
    unfolding urlsplit_def clean split prod.case Let_def if_P [OF pre(1)] pre(2) tw p1 p2
    using assms(5) by simp
qed

lemma after_last_plain: "c \<notin> set t \<Longrightarrow> after_last c t = t"
  by (simp add: after_last_def takeWhile_absent)

lemma after_last_append: "c \<notin> set t \<Longrightarrow> after_last c (a @ c # t) = t"
  using takeWhile_upto [of c "rev t" "rev a"] by (simp add: after_last_def)

section \<open>Properties\<close>

text \<open>
  \<open>to_session_mode_url\<close> changes the port 6543 to 5432 and nothing else, for a URL in which
  \<open>:6543\<close> occurs first as the port; a URL with another port is returned as it is. A password that
  begins with these digits is rewritten instead, and the port stays.
\<close>

theorem session_mode_switches_port:
  assumes "urlsplit url = Inr u" and "su_netloc u = a @ '':6543''" and "url_port (su_netloc u) = Inr (Some 6543)"
    and "\<not> sublist '':6543'' (a @ '':654'')" and "urlsplit url' = Inr u'" and "url_port (su_netloc u') = Inr p" and "p \<noteq> Some 6543"
  shows "to_session_mode_url url = Inr (urlunparse (u\<lparr>su_netloc := a @ '':5432''\<rparr>))
         \<and> to_session_mode_url url' = Inr url'
         \<and> to_session_mode_url ''postgresql://u:6543x@h:6543/db'' = Inr ''postgresql://u:5432x@h:6543/db''"
proof (intro conjI)
  have "replace_upto (Some 1) '':6543'' '':5432'' (su_netloc u) = a @ '':5432''"
    using replace_first [of "'':6543''" a "'':5432''" "[]"] assms(2,4) by simp
  then show "to_session_mode_url url = Inr (urlunparse (u\<lparr>su_netloc := a @ '':5432''\<rparr>))"
    using assms(1,3) by (simp add: to_session_mode_url_def)
  show "to_session_mode_url url' = Inr url'" using assms(5-7) by (simp add: to_session_mode_url_def)
  show "to_session_mode_url ''postgresql://u:6543x@h:6543/db'' = Inr ''postgresql://u:5432x@h:6543/db''" by code_simp
qed

definition pooler_url :: split_url where
  "pooler_url = \<lparr>su_scheme = ''postgresql'', su_netloc = ''u:p@pooler:6543'', su_path = ''/db'', su_query = ''ssl=on'', su_fragment = []\<rparr>"

theorem session_mode_switches_port_witness:
  "to_session_mode_url ''postgresql://u:p@pooler:6543/db?ssl=on'' =
     Inr (urlunparse (pooler_url\<lparr>su_netloc := ''u:p@pooler'' @ '':5432''\<rparr>))
   \<and> urlunparse (pooler_url\<lparr>su_netloc := ''u:p@pooler'' @ '':5432''\<rparr>) = ''postgresql://u:p@pooler:5432/db?ssl=on''"
proof -
  have "urlsplit ''postgresql://u:p@pooler:6543/db?ssl=on'' = Inr pooler_url" by code_simp
  moreover have "su_netloc pooler_url = ''u:p@pooler'' @ '':6543''" by (simp add: pooler_url_def)
  moreover have "url_port (su_netloc pooler_url) = Inr (Some 6543)" by code_simp
  moreover have "\<not> sublist '':6543'' (''u:p@pooler'' @ '':654'')" by code_simp
  moreover have "urlsplit ''postgresql://h/db'' = Inr \<lparr>su_scheme = ''postgresql'', su_netloc = ''h'', su_path = ''/db'', su_query = [], su_fragment = []\<rparr>"
    by code_simp
  moreover have "url_port (su_netloc \<lparr>su_scheme = ''postgresql'', su_netloc = ''h'', su_path = ''/db'', su_query = [], su_fragment = []\<rparr>) = Inr None"
    by code_simp
  ultimately have "to_session_mode_url ''postgresql://u:p@pooler:6543/db?ssl=on'' =
      Inr (urlunparse (pooler_url\<lparr>su_netloc := ''u:p@pooler'' @ '':5432''\<rparr>))"
    by (rule session_mode_switches_port [THEN conjunct1]) simp
  moreover have "urlunparse (pooler_url\<lparr>su_netloc := ''u:p@pooler'' @ '':5432''\<rparr>) = ''postgresql://u:p@pooler:5432/db?ssl=on''"
    by code_simp
  ultimately show ?thesis by blast
qed

end
