(* ===== verification/Db_Session.thy ===== *)
theory Db_Session
  imports Api_Exceptions
begin

text \<open>
  \<open>db/session.py\<close>, \<open>db/errors.py\<close> and \<open>contracts/db_pool.py\<close>: how the engines of a service are
  built (URL, connect arguments with the statement cap, pool), how the listeners the factory installs
  turn driver exceptions into outages, how idle connections are validated, and the transactional
  session of a request. SQLAlchemy itself is not modelled: a definition gives what is handed to it,
  or what a listener answers when it is called. The responses of the handlers in theory
  \<open>Api_Exceptions\<close> close the way from a failing driver to the HTTP answer.
\<close>

section \<open>The pool and timeout policy\<close>

definition DEFAULT_POOL_SIZE :: int where "DEFAULT_POOL_SIZE = 2"

definition DEFAULT_MAX_OVERFLOW :: int where "DEFAULT_MAX_OVERFLOW = 8"

definition DEFAULT_POOL_TIMEOUT_SECONDS :: int where "DEFAULT_POOL_TIMEOUT_SECONDS = 2"

definition DB_CONNECT_TIMEOUT_SECONDS :: int where "DB_CONNECT_TIMEOUT_SECONDS = 3"

definition DB_IDLE_PING_AFTER_SECONDS :: time where "DB_IDLE_PING_AFTER_SECONDS = 30"

datatype StatementTimeoutProfile = REQUEST | BACKGROUND

fun DB_STATEMENT_TIMEOUT_SECONDS :: "StatementTimeoutProfile \<Rightarrow> int" where
  "DB_STATEMENT_TIMEOUT_SECONDS REQUEST = 20"
| "DB_STATEMENT_TIMEOUT_SECONDS BACKGROUND = 60"

definition DEFAULT_POOL_KWARGS :: "(string, json) dict" where
  "DEFAULT_POOL_KWARGS =
     [(''pool_size'', JInt DEFAULT_POOL_SIZE), (''max_overflow'', JInt DEFAULT_MAX_OVERFLOW),
      (''pool_timeout'', JInt DEFAULT_POOL_TIMEOUT_SECONDS), (''pool_recycle'', JInt 300)]"

section \<open>Engines\<close>

definition to_asyncpg :: "string \<Rightarrow> string" where
  "to_asyncpg url =
     (if prefix ''postgresql+asyncpg://'' url then url
      else if prefix ''postgresql://'' url then replace_upto (Some 1) ''postgresql://'' ''postgresql+asyncpg://'' url
      else if prefix ''postgres://'' url then replace_upto (Some 1) ''postgres://'' ''postgresql+asyncpg://'' url
      else url)"

text \<open>
  A connect argument: a plain value, the function that names prepared statements with the empty
  string, or the cap itself. \<open>str_of\<close> is \<open>str\<close> on values.
\<close>

datatype conn_arg = Val json | EmptyName | Seconds time

definition PGBOUNCER_CONNECT_ARGS :: "(string, conn_arg) dict" where
  "PGBOUNCER_CONNECT_ARGS =
     [(''statement_cache_size'', Val (JInt 0)), (''prepared_statement_cache_size'', Val (JInt 0)),
      (''prepared_statement_name_func'', EmptyName), (''timeout'', Val (JInt DB_CONNECT_TIMEOUT_SECONDS)),
      (''server_settings'', Val (JDict [(''jit'', JStr ''off'')]))]"

definition STATEMENT_TIMEOUT_SETTING :: string where
  "STATEMENT_TIMEOUT_SETTING = ''statement_timeout''"

definition lowered_settings :: "(json \<Rightarrow> string) \<Rightarrow> (string, json) dict \<Rightarrow> (string, string) dict" where
  "lowered_settings str_of settings = foldl (\<lambda>d (k, v). dict_set (lower k) (str_of v) d) [] settings"

definition sets_statement_timeout :: "(json \<Rightarrow> string) \<Rightarrow> (string, json) dict \<Rightarrow> bool" where
  "sets_statement_timeout str_of settings =
     (let lowered = lowered_settings str_of settings;
          opts = replace_upto None ''-'' ''_'' (lower (case dict_get lowered ''options'' of Some v \<Rightarrow> v | None \<Rightarrow> []))
      in dict_get lowered STATEMENT_TIMEOUT_SETTING \<noteq> None \<or> sublist STATEMENT_TIMEOUT_SETTING opts)"

text \<open>\<open>overrides.get("server_settings", {})\<close>, of which the code iterates the items.\<close>

definition override_settings :: "(string, conn_arg) dict \<Rightarrow> (string, json) dict res" where
  "override_settings overrides =
     (case dict_get overrides ''server_settings'' of
        None \<Rightarrow> Inr []
      | Some (Val (JDict d)) \<Rightarrow> Inr d
      | Some _ \<Rightarrow> Inl (AttributeError ''object has no attribute items''))"

definition settings_of :: "(string, conn_arg) dict \<Rightarrow> (string, json) dict" where
  "settings_of args = (case dict_get args ''server_settings'' of Some (Val (JDict d)) \<Rightarrow> d | _ \<Rightarrow> [])"

definition set_setting :: "string \<Rightarrow> json \<Rightarrow> (string, conn_arg) dict \<Rightarrow> (string, conn_arg) dict" where
  "set_setting k v args = dict_set ''server_settings'' (Val (JDict (dict_set k v (settings_of args)))) args"

definition apply_override :: "(string, conn_arg) dict \<Rightarrow> string \<times> conn_arg \<Rightarrow> (string, conn_arg) dict" where
  "apply_override args kv =
     (case kv of
        (k, Val (JDict d)) \<Rightarrow>
          if k = ''server_settings''
          then dict_set ''server_settings'' (Val (JDict (dict_merge (settings_of args) d))) args
          else dict_set k (Val (JDict d)) args
      | (k, v) \<Rightarrow> dict_set k v args)"

definition build_connect_args ::
  "(json \<Rightarrow> string) \<Rightarrow> string \<Rightarrow> string \<Rightarrow> (string, conn_arg) dict option \<Rightarrow> time \<Rightarrow> (string, conn_arg) dict res" where
  "build_connect_args str_of service_name schema overrides0 statement_timeout_seconds =
     (let overrides = (case overrides0 of None \<Rightarrow> [] | Some d \<Rightarrow> d);
          refused = Inl (ValueError ''the statement cap comes from statement_timeout_seconds, not connect_args'')
      in if dict_get overrides ''command_timeout'' \<noteq> None then refused
         else case override_settings overrides of
                Inl e \<Rightarrow> Inl e
              | Inr settings \<Rightarrow>
                  if sets_statement_timeout str_of settings then refused
                  else let args = dict_set ''command_timeout'' (Seconds statement_timeout_seconds) PGBOUNCER_CONNECT_ARGS;
                           args = (if service_name = [] then args else set_setting ''application_name'' (JStr service_name) args);
                           args = (if schema = [] then args else set_setting ''search_path'' (JStr (schema @ '',public'')) args)
                       in Inr (foldl apply_override args overrides))"

text \<open>
  Pool classes: the ones the code names, the pools of SQLAlchemy they derive from, and subclasses a
  caller may define. \<open>pool_mro\<close> lists the classes a class is a subclass of.
\<close>

datatype pool_class =
    OutageTypedAsyncQueuePool | OutageTypedQueuePool | AsyncAdaptedQueuePool | QueuePool | NullPool | Pool
  | Subclass string pool_class

fun pool_mro :: "pool_class \<Rightarrow> pool_class list" where
  "pool_mro OutageTypedAsyncQueuePool =
     [OutageTypedAsyncQueuePool, OutageTypedQueuePool, AsyncAdaptedQueuePool, QueuePool, Pool]"
| "pool_mro OutageTypedQueuePool = [OutageTypedQueuePool, QueuePool, Pool]"
| "pool_mro AsyncAdaptedQueuePool = [AsyncAdaptedQueuePool, QueuePool, Pool]"
| "pool_mro QueuePool = [QueuePool, Pool]"
| "pool_mro NullPool = [NullPool, Pool]"
| "pool_mro Pool = [Pool]"
| "pool_mro (Subclass n p) = Subclass n p # pool_mro p"

fun pool_name :: "pool_class \<Rightarrow> string" where
  "pool_name OutageTypedAsyncQueuePool = ''OutageTypedAsyncQueuePool''"
| "pool_name OutageTypedQueuePool = ''OutageTypedQueuePool''"
| "pool_name AsyncAdaptedQueuePool = ''AsyncAdaptedQueuePool''"
| "pool_name QueuePool = ''QueuePool''"
| "pool_name NullPool = ''NullPool''"
| "pool_name Pool = ''Pool''"
| "pool_name (Subclass n p) = n"

definition pool_issubclass :: "pool_class \<Rightarrow> pool_class \<Rightarrow> bool" where
  "pool_issubclass c d = (d \<in> set (pool_mro c))"

text \<open>What the factory hands to \<open>create_async_engine\<close> and which listeners it installs.\<close>

record engine =
  en_url :: string
  en_echo :: bool
  en_pool :: pool_class
  en_connect_args :: "(string, conn_arg) dict"
  en_kwargs :: "(string, json) dict"
  en_translation :: "string \<times> time"
  en_idle_ping :: "time option"

definition create_async_engine_factory ::
  "(json \<Rightarrow> string) \<Rightarrow> string \<Rightarrow> time \<Rightarrow> string \<Rightarrow> string \<Rightarrow> bool \<Rightarrow> pool_class \<Rightarrow> (string, conn_arg) dict option \<Rightarrow> time
   \<Rightarrow> (string, json) dict \<Rightarrow> engine list \<Rightarrow> engine res \<times> engine list" where
  "create_async_engine_factory str_of database_url statement_timeout_seconds service_name schema echo pool_class
       connect_args idle_ping_after_seconds engine_kwargs engines =
     (if \<not> (pool_issubclass pool_class OutageTypedAsyncQueuePool \<or> pool_issubclass pool_class NullPool)
      then (Inl (ValueError (''pool_class='' @ pool_name pool_class @ '' would leave pool exhaustion untyped; omit pool_class, or pass NullPool'')), engines)
      else
        let kwargs = (if pool_issubclass pool_class QueuePool then dict_merge DEFAULT_POOL_KWARGS engine_kwargs else engine_kwargs)
        in case build_connect_args str_of service_name schema connect_args statement_timeout_seconds of
             Inl e \<Rightarrow> (Inl e, engines)
           | Inr args \<Rightarrow>
               if dict_get engine_kwargs ''url'' \<noteq> None \<or> dict_get engine_kwargs ''poolclass'' \<noteq> None
               then (Inl (TypeError ''create_async_engine() got multiple values for keyword argument''), engines)
               else let engine = \<lparr>en_url = to_asyncpg database_url, en_echo = echo, en_pool = pool_class,
                                  en_connect_args = args, en_kwargs = kwargs,
                                  en_translation = (service_name, statement_timeout_seconds),
                                  en_idle_ping = (if pool_issubclass pool_class QueuePool
                                                  then Some idle_ping_after_seconds else None)\<rparr>
                    in (Inr engine, engines @ [engine]))"

definition set_local_statement_timeout_sql :: "time \<Rightarrow> string" where
  "set_local_statement_timeout_sql statement_timeout_seconds =
     ''SET LOCAL statement_timeout = '' @ string_of_int (trunc (statement_timeout_seconds * 1000))"

text \<open>The listeners of a sync engine: the statement run at every \<open>begin\<close>, and the error translation.\<close>

definition prepare_sync_engine :: "pool_class \<Rightarrow> string \<Rightarrow> time \<Rightarrow> (string \<times> string \<times> time) res" where
  "prepare_sync_engine pool service_name statement_timeout_seconds =
     (if \<not> (pool_issubclass pool OutageTypedQueuePool \<or> pool_issubclass pool NullPool)
      then Inl (ValueError (''poolclass='' @ pool_name pool @ '' would leave pool exhaustion untyped; pass poolclass=OutageTypedQueuePool, or NullPool''))
      else Inr (set_local_statement_timeout_sql statement_timeout_seconds, service_name, statement_timeout_seconds))"

text \<open>\<open>dispose_engines_after_fork\<close>: \<open>dispose\<close> is SQLAlchemy's \<open>engine.dispose(close=False)\<close>.\<close>

primrec dispose_engines_after_fork :: "(engine \<Rightarrow> ('w, unit) io) \<Rightarrow> engine list \<Rightarrow> ('w, unit) io" where
  "dispose_engines_after_fork dispose [] = io_return ()"
| "dispose_engines_after_fork dispose (e # es) = io_bind (dispose e) (\<lambda>_. dispose_engines_after_fork dispose es)"

section \<open>Outages\<close>

text \<open>An exception of the driver, by what the code asks about it.\<close>

record driver_exn =
  dx_type :: string
  dx_is_Exception :: bool
  dx_is_OSError :: bool
  dx_is_TimeoutError :: bool
  dx_is_OperationalError :: bool
  dx_sqlstate :: "string option"
  dx_pgcode :: "string option"

datatype db_error =
    DatabaseUnavailableError string DatabaseOutageCode
  | DatabaseTimeoutError string
  | InvalidatePoolError string
  | DriverError driver_exn
  | PoolTimeoutError

definition QUERY_CANCELED_SQLSTATE :: string where "QUERY_CANCELED_SQLSTATE = ''57014''"

definition CONNECT_FAILED_SQLSTATE_PREFIXES :: "string list" where
  "CONNECT_FAILED_SQLSTATE_PREFIXES = [''08'', ''53'', ''57'']"

definition CONNECTION_LOST_SQLSTATE_PREFIXES :: "string list" where
  "CONNECTION_LOST_SQLSTATE_PREFIXES = [''08'', ''57P'']"

definition sqlstate_of :: "driver_exn \<Rightarrow> string option" where
  "sqlstate_of exc = (if dx_sqlstate exc \<in> {None, Some []} then dx_pgcode exc else dx_sqlstate exc)"

definition is_unavailable :: "driver_exn \<Rightarrow> string list \<Rightarrow> bool" where
  "is_unavailable exc sqlstate_prefixes =
     (dx_is_OSError exc \<or>
      (\<exists>p \<in> set sqlstate_prefixes. prefix p (case sqlstate_of exc of Some s \<Rightarrow> s | None \<Rightarrow> [])))"

definition is_connect_failure :: "bool \<Rightarrow> driver_exn \<Rightarrow> bool" where
  "is_connect_failure is_async exc =
     (if is_async then is_unavailable exc CONNECT_FAILED_SQLSTATE_PREFIXES else dx_is_OperationalError exc)"

definition listen_connect :: "bool \<Rightarrow> driver_exn + 'c \<Rightarrow> db_error + 'c" where
  "listen_connect is_async outcome =
     (case outcome of
        Inr c \<Rightarrow> Inr c
      | Inl exc \<Rightarrow>
          if dx_is_Exception exc \<and> is_connect_failure is_async exc
          then Inl (DatabaseUnavailableError (''could not connect: '' @ dx_type exc) CONNECT_FAILED)
          else Inl (DriverError exc))"

text \<open>
  The \<open>handle_error\<close> listener: it may mark the connection as lost, and it may raise an outage in place
  of the driver's exception.
\<close>

record exn_context =
  cx_original :: driver_exn
  cx_is_pre_ping :: bool
  cx_is_disconnect :: bool
  cx_invalidate_pool_on_disconnect :: bool

definition translate :: "exn_context \<Rightarrow> db_error option \<times> exn_context" where
  "translate cx =
     (let original = cx_original cx in
      if cx_is_pre_ping cx \<or> \<not> dx_is_Exception original then (None, cx)
      else let client_timed_out = dx_is_TimeoutError original;
               cx = (if client_timed_out
                     then cx\<lparr>cx_is_disconnect := True, cx_invalidate_pool_on_disconnect := False\<rparr> else cx)
           in if client_timed_out \<or> sqlstate_of original = Some QUERY_CANCELED_SQLSTATE
              then (Some (DatabaseTimeoutError ''statement exceeded its time cap''), cx)
              else let cx = (if is_unavailable original CONNECTION_LOST_SQLSTATE_PREFIXES
                             then cx\<lparr>cx_is_disconnect := True\<rparr> else cx)
                   in if cx_is_disconnect cx
                      then (Some (DatabaseUnavailableError (''connection lost: '' @ dx_type original) CONNECTION_LOST), cx)
                      else (None, cx))"

definition pool_do_get :: "db_error + 'c \<Rightarrow> db_error + 'c" where
  "pool_do_get got =
     (case got of
        Inl PoolTimeoutError \<Rightarrow> Inl (DatabaseUnavailableError ''connection pool exhausted'' POOL_EXHAUSTED)
      | _ \<Rightarrow> got)"

text \<open>\<open>register_db_exception_handlers\<close>: which handler answers a request that one of these leaves.\<close>

definition db_error_response :: "app_state \<Rightarrow> string option \<Rightarrow> db_error \<Rightarrow> json_response res option" where
  "db_error_response app cid err =
     (case err of
        DatabaseUnavailableError _ code \<Rightarrow> Some (database_unavailable_handler app cid code)
      | PoolTimeoutError \<Rightarrow> Some (pool_exhausted_handler app cid)
      | DatabaseTimeoutError _ \<Rightarrow> Some (statement_timeout_handler app cid)
      | _ \<Rightarrow> None)"

section \<open>Idle connections\<close>

text \<open>\<open>connection_record.info\<close>: when the connection was last checked in.\<close>

type_synonym conn_info = "time option"

definition stamp :: "time \<Rightarrow> conn_info \<Rightarrow> conn_info" where
  "stamp now info = Some now"

text \<open>
  The checkout listener; \<open>ping\<close> runs the statement on the driver with its half-second timeout, \<open>terminate\<close>
  cuts the connection.
\<close>

definition validate_idle ::
  "time \<Rightarrow> ('w, unit) io \<Rightarrow> ('w, unit) io \<Rightarrow> ('w \<Rightarrow> time) \<Rightarrow> conn_info \<Rightarrow> 'w \<Rightarrow> (exn + db_error option) \<times> 'w" where
  "validate_idle idle_ping_after_seconds ping terminate now info w =
     (case info of
        None \<Rightarrow> (Inr None, w)
      | Some checked_in_at \<Rightarrow>
          if now w - checked_in_at < idle_ping_after_seconds then (Inr None, w)
          else io_except is_Exception
                 (io_bind ping (\<lambda>_. io_return None))
                 (\<lambda>_. io_bind terminate (\<lambda>_. io_return (Some (InvalidatePoolError ''idle connection failed its ping'')))) w)"

section \<open>Sessions\<close>

text \<open>
  The session of a request as \<open>async_sessionmaker\<close> documents it: \<open>begin()\<close> as a context manager
  commits when its block ends normally and rolls back when it raises; the session is closed either way.
\<close>

record 'w session_env =
  se_open :: "('w, unit) io"
  se_begin :: "('w, unit) io"
  se_commit :: "('w, unit) io"
  se_rollback :: "('w, unit) io"
  se_close :: "('w, unit) io"

definition in_transaction :: "'w session_env \<Rightarrow> ('w, 'a) io \<Rightarrow> ('w, 'a) io" where
  "in_transaction env body =
     io_bind (se_begin env) (\<lambda>_.
     io_bind (io_except (\<lambda>_. True) body (\<lambda>e. io_bind (se_rollback env) (\<lambda>_. io_raise e))) (\<lambda>x.
     io_bind (se_commit env) (\<lambda>_. io_return x)))"

definition get_db :: "'w session_env option \<Rightarrow> ('w, 'a) io \<Rightarrow> ('w, 'a) io" where
  "get_db session_factory body =
     (case session_factory of
        None \<Rightarrow> io_raise (RuntimeError ''get_db() called without a session_factory'')
      | Some env \<Rightarrow> io_bind (se_open env) (\<lambda>_. io_finally (in_transaction env body) (se_close env)))"

section \<open>Lemmas\<close>

text \<open>The keys of the lowered settings are the lowered keys.\<close>

lemma lowered_foldl:
  "dict_get (foldl (\<lambda>d (k, v). dict_set (lower k) (str_of v) d) acc settings) l =
     (case dict_get (rev (map (\<lambda>(k, v). (lower k, str_of v)) settings)) l of Some v \<Rightarrow> Some v | None \<Rightarrow> dict_get acc l)"
  by (induction settings arbitrary: acc) (auto simp: map_of_append split: option.splits)

lemma lowered_lookup:
  "dict_get (lowered_settings str_of settings) l = dict_get (rev (map (\<lambda>(k, v). (lower k, str_of v)) settings)) l"
  unfolding lowered_settings_def lowered_foldl by (simp split: option.splits)

lemma sets_key: "k \<in> fst ` set settings \<Longrightarrow> lower k = STATEMENT_TIMEOUT_SETTING \<Longrightarrow> sets_statement_timeout str_of settings"
proof -
  assume k: "k \<in> fst ` set settings" "lower k = STATEMENT_TIMEOUT_SETTING"
  then have "STATEMENT_TIMEOUT_SETTING \<in> fst ` set (rev (map (\<lambda>(k, v). (lower k, str_of v)) settings))" by force
  then have "dict_get (lowered_settings str_of settings) STATEMENT_TIMEOUT_SETTING \<noteq> None"
    unfolding lowered_lookup by (simp only: map_of_eq_None_iff not_not)
  then show ?thesis unfolding sets_statement_timeout_def Let_def by (rule disjI1)
qed

definition mentions_cap :: "(json \<Rightarrow> string) \<Rightarrow> json \<Rightarrow> bool" where
  "mentions_cap str_of v = sublist STATEMENT_TIMEOUT_SETTING (replace_upto None ''-'' ''_'' (lower (str_of v)))"

lemma sole_option_lookup:
  assumes "dict_ok settings" and "dict_get settings ''options'' = Some v"
    and "\<forall>k \<in> fst ` set settings. lower k = ''options'' \<longrightarrow> k = ''options''"
  shows "dict_get (lowered_settings str_of settings) ''options'' = Some (str_of v)"
proof -
  let ?l = "rev (map (\<lambda>(k, v). (lower k, str_of v)) settings)"
  have "(''options'', str_of v) \<in> set ?l" using map_of_SomeD [OF assms(2)] by (force simp: lower_def lower_char_def)
  then have "''options'' \<in> fst ` set ?l" by force
  then obtain u where u: "dict_get ?l ''options'' = Some u"
    using map_of_eq_None_iff [of ?l "''options''"] by (metis not_Some_eq)
  from map_of_SomeD [OF this] obtain k x where "(k, x) \<in> set settings" "lower k = ''options''" "u = str_of x" by auto
  with assms(3) have "(''options'', x) \<in> set settings" "u = str_of x" by force+
  with assms(1,2) have "u = str_of v" by (simp add: dict_ok_def)
  with u show ?thesis by (simp add: lowered_lookup)
qed

lemma sets_options:
  assumes "dict_ok settings" and "dict_get settings ''options'' = Some v"
    and "\<forall>k \<in> fst ` set settings. lower k = ''options'' \<longrightarrow> k = ''options''" and "mentions_cap str_of v"
  shows "sets_statement_timeout str_of settings"
  using sole_option_lookup [OF assms(1-3), of str_of] assms(4) by (simp add: sets_statement_timeout_def mentions_cap_def Let_def)

lemma apply_override_other: "k \<noteq> k' \<Longrightarrow> dict_get (apply_override args (k', v)) k = dict_get args k"
  by (auto simp: apply_override_def split: conn_arg.splits json.splits)

lemma foldl_override_other:
  "k \<notin> fst ` set overrides \<Longrightarrow> dict_get (foldl apply_override args overrides) k = dict_get args k"
  by (induction overrides arbitrary: args) (auto simp: apply_override_other)

lemma foldl_override_settings:
  assumes "dict_ok overrides"
  shows "settings_of (foldl apply_override args overrides) =
    (case dict_get overrides ''server_settings'' of
       None \<Rightarrow> settings_of args
     | Some (Val (JDict d)) \<Rightarrow> dict_merge (settings_of args) d
     | Some v \<Rightarrow> [])"
  using assms
proof (induction overrides arbitrary: args)
  case (Cons kv overrides)
  obtain k v where kv: "kv = (k, v)" by (cases kv)
  with Cons.prems have ok: "dict_ok overrides" and out: "k \<notin> fst ` set overrides" by (auto simp: dict_ok_def)
  show ?case
  proof (cases "k = ''server_settings''")
    case True
    with out have none: "dict_get overrides ''server_settings'' = None" by (simp add: map_of_eq_None_iff)
    have "settings_of (foldl apply_override (apply_override args kv) overrides) = settings_of (apply_override args kv)"
      using foldl_override_other [of "''server_settings''" overrides "apply_override args kv"] out True by (simp add: settings_of_def)
    also have "\<dots> = (case v of Val (JDict d) \<Rightarrow> dict_merge (settings_of args) d | _ \<Rightarrow> [])"
      by (auto simp: kv True apply_override_def settings_of_def split: conn_arg.splits json.splits)
    finally show ?thesis by (simp add: kv True)
  next
    case False
    then have "settings_of (apply_override args kv) = settings_of args"
      by (simp add: settings_of_def kv apply_override_other)
    with Cons.IH [OF ok] False show ?thesis
      by (simp add: kv split: option.splits conn_arg.splits json.splits)
  qed
qed simp

text \<open>The settings the factory puts in itself.\<close>

definition base_settings :: "string \<Rightarrow> string \<Rightarrow> (string, json) dict" where
  "base_settings service_name schema =
     [(''jit'', JStr ''off'')] @ (if service_name = [] then [] else [(''application_name'', JStr service_name)]) @
     (if schema = [] then [] else [(''search_path'', JStr (schema @ '',public''))])"

lemma build_connect_args_cases:
  assumes "build_connect_args str_of service_name schema overrides cap = Inr args"
  obtains d base where "dict_get (case overrides of None \<Rightarrow> [] | Some d \<Rightarrow> d) ''command_timeout'' = None"
    and "override_settings (case overrides of None \<Rightarrow> [] | Some d \<Rightarrow> d) = Inr d" and "\<not> sets_statement_timeout str_of d"
    and "args = foldl apply_override base (case overrides of None \<Rightarrow> [] | Some d \<Rightarrow> d)"
    and "dict_get base ''command_timeout'' = Some (Seconds cap)" and "settings_of base = base_settings service_name schema"
proof -
  let ?o = "case overrides of None \<Rightarrow> [] | Some d \<Rightarrow> d"
  let ?b0 = "dict_set ''command_timeout'' (Seconds cap) PGBOUNCER_CONNECT_ARGS"
  let ?b1 = "if service_name = [] then ?b0 else set_setting ''application_name'' (JStr service_name) ?b0"
  let ?b2 = "if schema = [] then ?b1 else set_setting ''search_path'' (JStr (schema @ '',public'')) ?b1"
  from assms obtain d where "dict_get ?o ''command_timeout'' = None" "override_settings ?o = Inr d"
    "\<not> sets_statement_timeout str_of d" "args = foldl apply_override ?b2 ?o"
    unfolding build_connect_args_def Let_def by (auto split: if_splits sum.splits)
  moreover have "dict_get ?b2 ''command_timeout'' = Some (Seconds cap)" by (simp add: set_setting_def)
  moreover have "settings_of ?b2 = base_settings service_name schema"
    by (simp add: set_setting_def settings_of_def base_settings_def PGBOUNCER_CONNECT_ARGS_def)
  ultimately show thesis by (rule that)
qed

lemma lower_fixed [simp]:
  "lower ''jit'' = ''jit''" "lower ''application_name'' = ''application_name''" "lower ''search_path'' = ''search_path''"
  by (simp_all add: lower_def lower_char_def)

lemma base_settings_keys:
  "k \<in> fst ` set (base_settings svc schema) \<Longrightarrow>
     lower k \<noteq> STATEMENT_TIMEOUT_SETTING \<and> lower k \<noteq> ''options'' \<and> k \<noteq> ''options''"
  by (auto simp: base_settings_def STATEMENT_TIMEOUT_SETTING_def split: if_splits)

lemma override_settings_merge:
  assumes "dict_ok overrides" and "override_settings overrides = Inr d"
  shows "settings_of (foldl apply_override base overrides) = dict_merge (settings_of base) d"
  using assms(2) unfolding foldl_override_settings [OF assms(1)]
  by (auto simp: override_settings_def split: option.splits conn_arg.splits json.splits)

text \<open>The responses of the outage handlers.\<close>

lemma outage_code_nonempty: "truthy (JStr (outage_code_value code))"
  by (cases code) simp_all

lemma unavailable_response:
  "\<exists>r body. db_unavailable_response app cid detail code = Inr r \<and> jr_status r = 503
     \<and> jr_headers r = Some [(''Retry-After'', ''1'')] \<and> jr_body r = Some body
     \<and> map_of (envelope_inner body) ''code'' = Some (JStr (outage_code_value code))"
proof -
  have h: "safe_headers (Some [(''Retry-After'', ''1'')]) = Some [(''Retry-After'', ''1'')]" by code_simp
  have "string_of_int 1 = ''1''" by code_simp
  with h outage_code_nonempty [of code] show ?thesis
    by (auto simp: db_unavailable_response_def base_api_exception_handler_def api_exception_defs build_error_envelope_def Let_def split: option.splits)
qed

lemma timeout_response:
  "\<exists>r body. statement_timeout_handler app cid = Inr r \<and> jr_status r = 504 \<and> jr_body r = Some body
     \<and> map_of (envelope_inner body) ''code'' = Some (JStr (outage_code_value STATEMENT_TIMEOUT))"
  by (auto simp: statement_timeout_handler_def base_api_exception_handler_def api_exception_defs build_error_envelope_def Let_def split: option.splits)

definition answered :: "app_state \<Rightarrow> string option \<Rightarrow> db_error \<Rightarrow> int \<Rightarrow> DatabaseOutageCode \<Rightarrow> bool" where
  "answered app cid err sc code =
     (\<exists>r body. db_error_response app cid err = Some (Inr r) \<and> jr_status r = sc \<and> jr_body r = Some body
        \<and> map_of (envelope_inner body) ''code'' = Some (JStr (outage_code_value code)))"

lemma answered_simps [simp]:
  "answered app cid (DatabaseUnavailableError m code) 503 code" "answered app cid (DatabaseTimeoutError m) 504 STATEMENT_TIMEOUT"
  "answered app cid PoolTimeoutError 503 POOL_EXHAUSTED"
  using unavailable_response [of app cid] timeout_response [of app cid]
  unfolding answered_def db_error_response_def database_unavailable_handler_def pool_exhausted_handler_def by fastforce+

lemmas translate_defs = translate_def Let_def

lemma translate_timeout:
  assumes "\<not> cx_is_pre_ping cx" and "dx_is_Exception (cx_original cx)"
    and "dx_is_TimeoutError (cx_original cx) \<or> sqlstate_of (cx_original cx) = Some QUERY_CANCELED_SQLSTATE"
  shows "translate cx = (Some (DatabaseTimeoutError ''statement exceeded its time cap''),
    if dx_is_TimeoutError (cx_original cx) then cx\<lparr>cx_is_disconnect := True, cx_invalidate_pool_on_disconnect := False\<rparr> else cx)"
  using assms by (auto simp: translate_defs)

lemma translate_other:
  assumes "\<not> cx_is_pre_ping cx" and "dx_is_Exception (cx_original cx)"
    and "\<not> dx_is_TimeoutError (cx_original cx)" and "sqlstate_of (cx_original cx) \<noteq> Some QUERY_CANCELED_SQLSTATE"
  shows "translate cx =
    (if cx_is_disconnect cx \<or> is_unavailable (cx_original cx) CONNECTION_LOST_SQLSTATE_PREFIXES
     then (Some (DatabaseUnavailableError (''connection lost: '' @ dx_type (cx_original cx)) CONNECTION_LOST),
           cx\<lparr>cx_is_disconnect := True\<rparr>)
     else (None, cx))"
  using assms by (auto simp: translate_defs)

text \<open>A session that could be committed or rolled back is committed only when the request's work returned.\<close>

lemma get_db_outcome:
  assumes "se_open env w = (Inr (), w1)" and "se_begin env w1 = (Inr (), w2)" and "body w2 = (r, w3)"
    and "(case r of Inl _ \<Rightarrow> se_rollback env w3 | Inr _ \<Rightarrow> se_commit env w3) = (Inr (), w4)" and "se_close env w4 = (Inr (), w5)"
  shows "get_db (Some env) body w = (r, w5)"
  using assms by (cases r) (simp_all add: get_db_def in_transaction_def io_defs)

lemma failed_commit_closes:
  assumes "se_open env w = (Inr (), w1)" and "se_begin env w1 = (Inr (), w2)" and "body w2 = (Inr x, w3)"
    and "se_commit env w3 = (Inl e, w4)" and "se_close env w4 = (Inr (), w5)"
  shows "get_db (Some env) body w = (Inl e, w5)"
  using assms by (simp add: get_db_def in_transaction_def io_defs)

text \<open>A connection that sat in the pool is handed out only if it is recent or answered the ping.\<close>

lemma validate_idle_cases:
  assumes "validate_idle after ping terminate now (stamp t info) w = (Inr v, w')"
  shows "(v = None \<and> w' = w \<and> now w - t < after) \<or> (v = None \<and> now w - t \<ge> after \<and> ping w = (Inr (), w')) \<or>
         (\<exists>e w1. v = Some (InvalidatePoolError ''idle connection failed its ping'') \<and> now w - t \<ge> after \<and>
            ping w = (Inl e, w1) \<and> terminate w1 = (Inr (), w'))"
  using assms by (auto simp: validate_idle_def stamp_def io_defs split: if_splits prod.splits sum.splits)

section \<open>Properties\<close>

text \<open>
  The statement cap of an engine cannot be loosened through \<open>connect_args\<close>. When the arguments
  are accepted, the driver's cap is \<open>statement_timeout_seconds\<close>; every server setting is the caller's
  where the caller gave one and the factory's otherwise; none is \<open>statement_timeout\<close> in any
  capitalisation, and \<open>options\<close> does not mention it.
\<close>

theorem statement_cap_fixed:
  assumes "build_connect_args str_of svc schema (Some overrides) cap = Inr args"
    and "dict_ok overrides" and "override_settings overrides = Inr d" and "dict_ok d"
  shows "dict_get args ''command_timeout'' = Some (Seconds cap)
    \<and> (\<forall>k. dict_get (settings_of args) k =
           (case dict_get d k of Some v \<Rightarrow> Some v | None \<Rightarrow> dict_get (base_settings svc schema) k))
    \<and> (\<forall>k \<in> fst ` set (settings_of args). lower k \<noteq> STATEMENT_TIMEOUT_SETTING)
    \<and> ((\<forall>k \<in> fst ` set d. lower k = ''options'' \<longrightarrow> k = ''options'') \<longrightarrow>
        (\<forall>v. dict_get (settings_of args) ''options'' = Some v \<longrightarrow> \<not> mentions_cap str_of v))"
proof -
  obtain d' base where raw: "dict_get overrides ''command_timeout'' = None" "override_settings overrides = Inr d'"
      "\<not> sets_statement_timeout str_of d'" "args = foldl apply_override base overrides"
      "dict_get base ''command_timeout'' = Some (Seconds cap)" "settings_of base = base_settings svc schema"
    by (rule build_connect_args_cases [OF assms(1), unfolded option.case]) (rule that)
  from raw(2) assms(3) have "d' = d" by simp
  note base = raw(1) raw(3) [unfolded this] raw(4-6)
  have merged: "settings_of args = dict_merge (base_settings svc schema) d"
    using override_settings_merge [OF assms(2,3), of base] base by simp
  show ?thesis
  proof (intro conjI allI impI ballI)
    show "dict_get args ''command_timeout'' = Some (Seconds cap)"
      using base foldl_override_other [of "''command_timeout''" overrides base] by (simp add: map_of_eq_None_iff)
    show look: "dict_get (settings_of args) k =
        (case dict_get d k of Some v \<Rightarrow> Some v | None \<Rightarrow> dict_get (base_settings svc schema) k)" for k
      unfolding merged by (rule dict_get_merge [OF assms(4)])
    fix k assume "k \<in> fst ` set (settings_of args)"
    then show "lower k \<noteq> STATEMENT_TIMEOUT_SETTING"
      unfolding merged keys_dict_merge
      by (rule UnE) (use base_settings_keys [of k svc schema] sets_key [of k d str_of] base(2) in \<open>simp_all only: not_False_eq_True, auto\<close>)
  next
    fix v assume sole: "\<forall>k \<in> fst ` set d. lower k = ''options'' \<longrightarrow> k = ''options''"
      and v: "dict_get (settings_of args) ''options'' = Some v"
    have "''options'' \<notin> fst ` set (base_settings svc schema)" by (simp add: base_settings_def)
    then have "dict_get (base_settings svc schema) ''options'' = None" by (simp only: map_of_eq_None_iff simp_thms)
    with v have "dict_get d ''options'' = Some v"
      unfolding merged dict_get_merge [OF assms(4)] by (cases "dict_get d ''options''") simp_all
    with sets_options [OF assms(4) _ sole] base(2) show "\<not> mentions_cap str_of v" by blast
  qed
qed

text \<open>
  C36: a database outage reaches the client as what it is. A statement over its cap, cancelled by the
  client or by the server, is answered 504; the connection is given up only if the client cancelled,
  and then without the rest of the pool. A lost connection is answered 503 and given up. Any other
  driver exception passes unchanged. A failed connect and an exhausted pool are answered 503 with
  their own codes.
\<close>

theorem database_outage_answered:
  assumes "\<not> cx_is_pre_ping cx" and "dx_is_Exception (cx_original cx)"
  shows "((dx_is_TimeoutError (cx_original cx) \<or> sqlstate_of (cx_original cx) = Some QUERY_CANCELED_SQLSTATE) \<longrightarrow>
            (\<exists>err cx'. translate cx = (Some err, cx') \<and> answered app cid err 504 STATEMENT_TIMEOUT
               \<and> cx_is_disconnect cx' = (cx_is_disconnect cx \<or> dx_is_TimeoutError (cx_original cx))
               \<and> (dx_is_TimeoutError (cx_original cx) \<longrightarrow> \<not> cx_invalidate_pool_on_disconnect cx')))
    \<and> (\<not> dx_is_TimeoutError (cx_original cx) \<and> sqlstate_of (cx_original cx) \<noteq> Some QUERY_CANCELED_SQLSTATE \<longrightarrow>
         (if cx_is_disconnect cx \<or> is_unavailable (cx_original cx) CONNECTION_LOST_SQLSTATE_PREFIXES
          then \<exists>err cx'. translate cx = (Some err, cx') \<and> answered app cid err 503 CONNECTION_LOST \<and> cx_is_disconnect cx'
          else translate cx = (None, cx)))
    \<and> (is_connect_failure is_async (cx_original cx) \<longrightarrow>
         (\<exists>err. listen_connect is_async (Inl (cx_original cx) :: driver_exn + 'c) = Inl err \<and> answered app cid err 503 CONNECT_FAILED))
    \<and> (\<exists>err. pool_do_get (Inl PoolTimeoutError :: db_error + 'c) = Inl err \<and> answered app cid err 503 POOL_EXHAUSTED)"
proof (intro conjI impI)
  show "\<exists>err. pool_do_get (Inl PoolTimeoutError :: db_error + 'c) = Inl err \<and> answered app cid err 503 POOL_EXHAUSTED"
    by (simp add: pool_do_get_def)
next
  assume "dx_is_TimeoutError (cx_original cx) \<or> sqlstate_of (cx_original cx) = Some QUERY_CANCELED_SQLSTATE"
  note timeout = translate_timeout [OF assms this]
  show "\<exists>err cx'. translate cx = (Some err, cx') \<and> answered app cid err 504 STATEMENT_TIMEOUT
      \<and> cx_is_disconnect cx' = (cx_is_disconnect cx \<or> dx_is_TimeoutError (cx_original cx))
      \<and> (dx_is_TimeoutError (cx_original cx) \<longrightarrow> \<not> cx_invalidate_pool_on_disconnect cx')"
    unfolding timeout by (intro exI conjI, rule refl) simp_all
next
  assume "\<not> dx_is_TimeoutError (cx_original cx) \<and> sqlstate_of (cx_original cx) \<noteq> Some QUERY_CANCELED_SQLSTATE"
  note other = translate_other [OF assms this [THEN conjunct1] this [THEN conjunct2]]
  show "if cx_is_disconnect cx \<or> is_unavailable (cx_original cx) CONNECTION_LOST_SQLSTATE_PREFIXES
      then \<exists>err cx'. translate cx = (Some err, cx') \<and> answered app cid err 503 CONNECTION_LOST \<and> cx_is_disconnect cx'
      else translate cx = (None, cx)"
    unfolding other by simp
next
  assume "is_connect_failure is_async (cx_original cx)"
  then show "\<exists>err. listen_connect is_async (Inl (cx_original cx) :: driver_exn + 'c) = Inl err \<and> answered app cid err 503 CONNECT_FAILED"
    using assms(2) by (simp add: listen_connect_def)
qed

text \<open>A connection that the server closed for shutdown, and arguments of a service that turns JIT on again.\<close>

definition shutdown_exn :: driver_exn where
  "shutdown_exn = \<lparr>dx_type = ''AdminShutdownError'', dx_is_Exception = True, dx_is_OSError = False, dx_is_TimeoutError = False,
     dx_is_OperationalError = True, dx_sqlstate = Some ''57P01'', dx_pgcode = None\<rparr>"

definition shutdown_context :: exn_context where
  "shutdown_context = \<lparr>cx_original = shutdown_exn, cx_is_pre_ping = False, cx_is_disconnect = False, cx_invalidate_pool_on_disconnect = True\<rparr>"

definition app_of_lead :: app_state where
  "app_of_lead = \<lparr>error_code_prefix = Some ''LEAD''\<rparr>"

theorem database_outage_answered_witness:
  "\<exists>err cx'. translate shutdown_context = (Some err, cx') \<and> answered app_of_lead None err 503 CONNECTION_LOST \<and> cx_is_disconnect cx'"
proof -
  have x: "\<not> cx_is_pre_ping shutdown_context" "dx_is_Exception (cx_original shutdown_context)"
    "\<not> dx_is_TimeoutError (cx_original shutdown_context)"
    by (simp_all add: shutdown_context_def shutdown_exn_def)
  moreover have "sqlstate_of (cx_original shutdown_context) \<noteq> Some QUERY_CANCELED_SQLSTATE"
    "is_unavailable (cx_original shutdown_context) CONNECTION_LOST_SQLSTATE_PREFIXES" by code_simp+
  ultimately show ?thesis
    using database_outage_answered [OF x(1,2), THEN conjunct2, THEN conjunct1, of app_of_lead None] by simp
qed

definition jit_overrides :: "(string, conn_arg) dict" where
  "jit_overrides = [(''server_settings'', Val (JDict [(''jit'', JStr ''on''), (''options'', JStr ''-c work_mem=64MB'')]))]"

definition json_text :: "json \<Rightarrow> string" where
  "json_text v = (case v of JStr s \<Rightarrow> s | _ \<Rightarrow> [])"

theorem statement_cap_fixed_witness:
  "\<exists>args. build_connect_args json_text ''lead'' ''lead'' (Some jit_overrides) 20 = Inr args
     \<and> dict_get args ''command_timeout'' = Some (Seconds 20)
     \<and> dict_get (settings_of args) ''jit'' = Some (JStr ''on'')
     \<and> dict_get (settings_of args) ''search_path'' = Some (JStr ''lead,public'')"
proof -
  define d where "d = [(''jit'', JStr ''on''), (''options'', JStr ''-c work_mem=64MB'')]"
  have "\<not> sets_statement_timeout json_text d" unfolding d_def by code_simp
  moreover have "override_settings jit_overrides = Inr d" "dict_get jit_overrides ''command_timeout'' = None"
    by (simp_all add: jit_overrides_def d_def override_settings_def)
  ultimately obtain args where args: "build_connect_args json_text ''lead'' ''lead'' (Some jit_overrides) 20 = Inr args"
    by (simp add: build_connect_args_def Let_def)
  have "dict_ok jit_overrides" "dict_ok d" by (simp_all add: jit_overrides_def d_def dict_ok_def)
  note cap = statement_cap_fixed [OF args this(1) \<open>override_settings jit_overrides = Inr d\<close> this(2)]
  have "dict_get (settings_of args) ''jit'' = Some (JStr ''on'')"
    using cap [THEN conjunct2, THEN conjunct1, THEN spec, of "''jit''"] by (simp add: d_def)
  moreover have "dict_get (settings_of args) ''search_path'' = Some (JStr ''lead,public'')"
    using cap [THEN conjunct2, THEN conjunct1, THEN spec, of "''search_path''"] by (simp add: d_def base_settings_def)
  ultimately show ?thesis using args conjunct1 [OF cap] by blast
qed

end
