(* ===== verification/Migrations.thy ===== *)
theory Migrations
  imports Db_Urls Db_Session "HOL-Library.List_Lexorder" "HOL-Library.Char_ord"
begin

text \<open>
  \<open>db/migrations\<close>: the merge gate that refuses to write shared migration history from an unmerged
  revision, the bootstrap of a service schema with its version table, the autogenerate filters and
  the async migration runner. git, the file system, the process environment, Alembic's context and
  the database connection are fields of environment records.
\<close>

section \<open>The merge gate\<close>

definition SystemExit :: "string \<Rightarrow> exn" where
  "SystemExit m = OtherBaseException (''SystemExit: '' @ m)"

text \<open>An absolute path by its components.\<close>

type_synonym path = "string list"

definition path_str :: "path \<Rightarrow> string" where
  "path_str p = ''/'' @ join ''/'' p"

fun relative_to :: "path \<Rightarrow> path \<Rightarrow> path res" where
  "relative_to p [] = Inr p"
| "relative_to (x # p) (y # r) =
     (if x = y then relative_to p r else Inl (ValueError ''path is not in the subpath''))"
| "relative_to [] (y # r) = Inl (ValueError ''path is not in the subpath'')"

text \<open>The outcome of starting git: it ran, the binary (or the directory) is missing, or something else was raised.\<close>

record completed =
  cp_returncode :: int
  cp_stdout :: string
  cp_stderr :: string

datatype git_run = Ran completed | Missing | Raised exn

text \<open>
  An Alembic context: what \<open>is_offline_mode()\<close> returns, and the \<open>__name__\<close> of \<open>context_opts["fn"]\<close>
  (\<open>None\<close> when there is no name); either access may raise. \<open>alembic.context\<close> is a proxy that may hold the real one.
\<close>

record alembic_context =
  ac_offline :: "bool res"
  ac_fn_name :: "string option res"

type_synonym alembic_handle = "alembic_context \<times> alembic_context option"

record gate_env =
  ge_git :: "path \<Rightarrow> string list \<Rightarrow> git_run"
  ge_resolve :: "string \<Rightarrow> path"
  ge_is_dir :: "path \<Rightarrow> bool"
  ge_iterdir :: "path \<Rightarrow> (string \<times> bool) list"
  ge_environ :: "string \<Rightarrow> string option"

definition DEV_ENVIRONMENTS :: "string list" where
  "DEV_ENVIRONMENTS = [''development'', ''test'']"

definition HISTORY_WRITING_ALEMBIC_FNS :: "string list" where
  "HISTORY_WRITING_ALEMBIC_FNS = [''upgrade'', ''downgrade'', ''do_stamp'']"

definition unwrap_alembic_context :: "alembic_handle \<Rightarrow> alembic_context" where
  "unwrap_alembic_context h = (case snd h of Some c \<Rightarrow> c | None \<Rightarrow> fst h)"

definition is_lookup_error :: "exn \<Rightarrow> bool" where
  "is_lookup_error e = (case e of AttributeError _ \<Rightarrow> True | TypeError _ \<Rightarrow> True | _ \<Rightarrow> False)"

definition is_history_write :: "alembic_handle option \<Rightarrow> bool res" where
  "is_history_write handle =
     (case handle of
        None \<Rightarrow> Inr True
      | Some h \<Rightarrow>
          (let ctx = unwrap_alembic_context h in
           case ac_offline ctx of
             Inl e \<Rightarrow> if is_lookup_error e then Inr True else Inl e
           | Inr True \<Rightarrow> Inr False
           | Inr False \<Rightarrow>
               (case ac_fn_name ctx of
                  Inl e \<Rightarrow> if is_lookup_error e then Inr True else Inl e
                | Inr None \<Rightarrow> Inr True
                | Inr (Some name) \<Rightarrow> Inr (name \<in> set HISTORY_WRITING_ALEMBIC_FNS))))"

text \<open>\<open>path.suffix == ".py"\<close>\<close>

definition py_suffix :: "string \<Rightarrow> bool" where
  "py_suffix name = (suffix ''.py'' name \<and> 3 < length name)"

definition revision_files :: "gate_env \<Rightarrow> path \<Rightarrow> path list" where
  "revision_files env versions_dir =
     map (\<lambda>name. versions_dir @ [name])
       (sort (map fst (filter (\<lambda>(name, is_file). is_file \<and> py_suffix name \<and> name \<noteq> ''__init__.py'') (ge_iterdir env versions_dir))))"

definition git :: "gate_env \<Rightarrow> path \<Rightarrow> string list \<Rightarrow> completed option res" where
  "git env cwd args =
     (case ge_git env cwd args of Ran c \<Rightarrow> Inr (Some c) | Missing \<Rightarrow> Inr None | Raised e \<Rightarrow> Inl e)"

definition redact :: "string \<Rightarrow> string" where
  "redact dsn = after_last CHR ''@'' dsn"

definition env_word :: "gate_env \<Rightarrow> string \<Rightarrow> string" where
  "env_word env name = lower (strip (case ge_environ env name of Some v \<Rightarrow> v | None \<Rightarrow> []))"

definition skip_merge_check_requested :: "gate_env \<Rightarrow> bool" where
  "skip_merge_check_requested env =
     (env_word env ''TR_MIGRATIONS_SKIP_MERGE_CHECK'' \<in> {''1'', ''true'', ''yes''} \<and>
      env_word env ''ENVIRONMENT'' \<in> set DEV_ENVIRONMENTS)"

text \<open>\<open>str.split()\<close>\<close>

fun words_acc :: "string \<Rightarrow> string \<Rightarrow> string list" where
  "words_acc w [] = (if w = [] then [] else [rev w])"
| "words_acc w (c # s) =
     (if is_space c then (if w = [] then words_acc [] s else rev w # words_acc [] s) else words_acc (c # w) s)"

definition words :: "string \<Rightarrow> string list" where
  "words s = words_acc [] s"

definition blob_record :: "string \<Rightarrow> (string \<times> string) option" where
  "blob_record record_text =
     (case partition_at CHR 0x09 record_text of
        (meta, _, path) \<Rightarrow>
          let parts = words meta in if length parts < 3 then None else Some (path, parts ! 2))"

definition parse_blobs :: "string \<Rightarrow> (string, string) dict" where
  "parse_blobs out =
     foldl (\<lambda>d r. case blob_record r of None \<Rightarrow> d | Some (p, sha) \<Rightarrow> dict_set p sha d) []
       (filter (\<lambda>r. r \<noteq> []) (split_char CHR 0x00 out))"

definition git_detail :: "completed option \<Rightarrow> string" where
  "git_detail r = (case r of None \<Rightarrow> ''git is unavailable'' | Some c \<Rightarrow> strip (cp_stderr c))"

definition succeeded :: "completed option \<Rightarrow> bool" where
  "succeeded r = (case r of None \<Rightarrow> False | Some c \<Rightarrow> cp_returncode c = 0)"

definition refusal :: string where
  "refusal = ''Refusing to write migration history on a shared database''"

definition merged_blobs :: "gate_env \<Rightarrow> path \<Rightarrow> string \<Rightarrow> string \<Rightarrow> (string, string) dict res" where
  "merged_blobs env repo integration_ref rel_dir =
     (case git env repo [''ls-tree'', ''-r'', ''-z'', integration_ref, ''--'', rel_dir] of
        Inl e \<Rightarrow> Inl e
      | Inr listing \<Rightarrow>
          if \<not> succeeded listing
          then Inl (SystemExit (refusal @ '': could not read '' @ integration_ref @ '' ('' @ git_detail listing @ '').''))
          else Inr (parse_blobs (cp_stdout (the listing))))"

definition local_blobs :: "gate_env \<Rightarrow> path \<Rightarrow> path list \<Rightarrow> string list res" where
  "local_blobs env repo files =
     (case git env repo ([''hash-object'', ''--''] @ map path_str files) of
        Inl e \<Rightarrow> Inl e
      | Inr result \<Rightarrow>
          if \<not> succeeded result
          then Inl (SystemExit (refusal @ '': could not hash local revisions ('' @ git_detail result @ '').''))
          else Inr (words (cp_stdout (the result))))"

text \<open>\<open>for path, sha in zip(files, local, strict=True)\<close>: the names that are absent and the names that differ.\<close>

fun compare_blobs ::
  "path \<Rightarrow> (string, string) dict \<Rightarrow> path list \<Rightarrow> string list \<Rightarrow> string list \<times> string list \<Rightarrow> (string list \<times> string list) res" where
  "compare_blobs repo merged [] [] acc = Inr acc"
| "compare_blobs repo merged (f # fs) (sha # shas) (absent, modified) =
     (case relative_to f repo of
        Inl e \<Rightarrow> Inl e
      | Inr rel \<Rightarrow>
          (case dict_get merged (join ''/'' rel) of
             None \<Rightarrow> compare_blobs repo merged fs shas (absent @ [last f], modified)
           | Some m \<Rightarrow> compare_blobs repo merged fs shas (absent, if m \<noteq> sha then modified @ [last f] else modified)))"
| "compare_blobs repo merged _ _ acc = Inl (ValueError ''zip() arguments have different lengths'')"

text \<open>
  \<open>problems.format(ref=integration_ref)\<close>. The text holds file names: doubled braces stand for one, the field
  \<open>{ref}\<close> is replaced, and any other brace raises (fields of \<open>ref\<close> with a conversion or a format
  are taken to raise as well).
\<close>

fun format_ref :: "string \<Rightarrow> string \<Rightarrow> string res" where
  "format_ref r [] = Inr []"
| "format_ref r (c # s) =
     (if c = CHR ''{'' \<and> prefix ''{'' s then map_sum (\<lambda>e. e) (\<lambda>t. c # t) (format_ref r (tl s))
      else if c = CHR ''}'' \<and> prefix ''}'' s then map_sum (\<lambda>e. e) (\<lambda>t. c # t) (format_ref r (tl s))
      else if c = CHR ''{'' \<and> prefix ''ref}'' s then map_sum (\<lambda>e. e) (\<lambda>t. r @ t) (format_ref r (drop 4 s))
      else if c = CHR ''{'' then Inl (KeyError ''replacement field'')
      else if c = CHR ''}'' then Inl (ValueError ''Single '}' encountered in format string'')
      else map_sum (\<lambda>e. e) (\<lambda>t. c # t) (format_ref r s))"

definition newline :: string where "newline = [CHR 0x0A]"

definition problem_text :: "string list \<Rightarrow> string list \<Rightarrow> string" where
  "problem_text absent modified =
     (if absent = [] then [] else newline @ newline @ ''Not on {ref}:'' @ newline @ ''  '' @ join (newline @ ''  '') absent) @
     (if modified = [] then []
      else newline @ newline @ ''Changed since {ref} '' @ em_dash @ '' the shared database would get DDL no other checkout has:'' @
           newline @ ''  '' @ join (newline @ ''  '') modified)"

definition refuse :: "string \<Rightarrow> string \<Rightarrow> string list \<Rightarrow> string list \<Rightarrow> exn" where
  "refuse dsn integration_ref absent modified =
     (case format_ref integration_ref (problem_text absent modified) of
        Inl e \<Rightarrow> e
      | Inr problems \<Rightarrow>
          SystemExit (refusal @ '' ('' @ redact dsn @ '').'' @ problems @ newline @ newline @
            ''Applied migration history on the shared database is global state, but these revisions exist only in this checkout. '' @
            ''Applying them leaves every other checkout unable to resolve the revision '' @ em_dash @
            '' and an ALTER can silently change a shape that older code is still reading.'' @ newline @ newline @
            ''Merge first, then apply. Correctness before merge is the integration lane's job: it replays the full chain '' @
            ''against a throwaway container. If '' @ integration_ref @ '' is merely stale here, run `git fetch origin '' @
            after_last CHR ''/'' integration_ref @ ''`.''))"

definition compare_with_ref :: "gate_env \<Rightarrow> string \<Rightarrow> string \<Rightarrow> path \<Rightarrow> path \<Rightarrow> path list \<Rightarrow> unit res" where
  "compare_with_ref env dsn integration_ref repo versions files =
     (case relative_to versions repo of
        Inl e \<Rightarrow> Inl e
      | Inr rel \<Rightarrow>
          (case merged_blobs env repo integration_ref (if rel = [] then ''.'' else join ''/'' rel) of
             Inl e \<Rightarrow> Inl e
           | Inr merged \<Rightarrow>
               (case local_blobs env repo files of
                  Inl e \<Rightarrow> Inl e
                | Inr hashes \<Rightarrow>
                    (case compare_blobs repo merged files hashes ([], []) of
                       Inl e \<Rightarrow> Inl e
                     | Inr (absent, modified) \<Rightarrow>
                         if absent = [] \<and> modified = [] then Inr ()
                         else Inl (refuse dsn integration_ref absent modified)))))"

definition verify_against_ref :: "gate_env \<Rightarrow> string \<Rightarrow> string \<Rightarrow> path \<Rightarrow> path \<Rightarrow> unit res" where
  "verify_against_ref env dsn integration_ref repo versions =
     (case git env repo [''rev-parse'', ''--verify'', ''--quiet'', integration_ref] of
        Inl e \<Rightarrow> Inl e
      | Inr ref_check \<Rightarrow>
          if \<not> succeeded ref_check
          then Inl (SystemExit (refusal @ '' ('' @ redact dsn @ ''): '' @ integration_ref @
                 '' does not exist in this checkout, so nothing can be proven merged.'' @ newline @ ''Run `git fetch origin '' @
                 after_last CHR ''/'' integration_ref @ ''` and try again.''))
          else if revision_files env versions = [] then Inr ()
          else compare_with_ref env dsn integration_ref repo versions (revision_files env versions))"

definition assert_migrations_are_merged ::
  "gate_env \<Rightarrow> string \<Rightarrow> string \<Rightarrow> alembic_handle option \<Rightarrow> string \<Rightarrow> unit res" where
  "assert_migrations_are_merged env dsn versions_dir handle integration_ref =
     (if is_local_dsn dsn then Inr ()
      else case is_history_write handle of
        Inl e \<Rightarrow> Inl e
      | Inr False \<Rightarrow> Inr ()
      | Inr True \<Rightarrow>
          (let versions = ge_resolve env versions_dir in
           if \<not> ge_is_dir env versions then Inr ()
           else case git env versions [''rev-parse'', ''--show-toplevel''] of
             Inl e \<Rightarrow> Inl e
           | Inr toplevel \<Rightarrow>
               if \<not> succeeded toplevel then Inr ()
               else let repo = ge_resolve env (strip (cp_stdout (the toplevel))) in
                    if skip_merge_check_requested env then Inr ()
                    else verify_against_ref env dsn integration_ref repo versions))"

section \<open>The bootstrap\<close>

text \<open>
  The connection: \<open>bo_create_schema\<close> is \<open>CREATE SCHEMA IF NOT EXISTS\<close>, \<open>bo_has_table\<close> the query of
  \<open>information_schema.tables\<close>, \<open>bo_set_schema\<close> is \<open>ALTER TABLE ... SET SCHEMA\<close>.
\<close>

record 'w boot_conn =
  bo_create_schema :: "string \<Rightarrow> ('w, unit) io"
  bo_has_table :: "string \<Rightarrow> string \<Rightarrow> ('w, bool) io"
  bo_set_schema :: "string \<Rightarrow> string \<Rightarrow> string \<Rightarrow> ('w, unit) io"
  bo_commit :: "('w, unit) io"

datatype vt_location = Target | Legacy | Absent

definition bootstrap_schema_and_version_table :: "'w boot_conn \<Rightarrow> string \<Rightarrow> string \<Rightarrow> string \<Rightarrow> ('w, vt_location) io" where
  "bootstrap_schema_and_version_table conn schema version_table legacy_schema =
     io_bind (bo_create_schema conn schema) (\<lambda>_.
     io_bind (bo_has_table conn schema version_table) (\<lambda>in_target.
     io_bind (bo_has_table conn legacy_schema version_table) (\<lambda>in_legacy.
     io_bind (if in_target then io_return Target
              else if in_legacy
              then io_bind (bo_set_schema conn legacy_schema version_table schema) (\<lambda>_. io_return Target)
              else io_return Absent) (\<lambda>location.
     io_bind (bo_commit conn) (\<lambda>_. io_return location)))))"

section \<open>The autogenerate filters\<close>

text \<open>
  A schema item by the attributes the filter reads: its schema, and the table it belongs to (name
  and schema); an attribute that is missing or \<open>None\<close> is \<open>None\<close>.
\<close>

record schema_item =
  si_schema :: "string option"
  si_table :: "(string \<times> string option) option"

definition own_table_names :: "string \<Rightarrow> (string \<times> string option) list \<Rightarrow> string list" where
  "own_table_names target_schema sorted_tables = map fst (filter (\<lambda>(_, s). s = Some target_schema) sorted_tables)"

definition include_object :: "string \<Rightarrow> (string \<times> string option) list \<Rightarrow> schema_item \<Rightarrow> string option \<Rightarrow> string \<Rightarrow> bool" where
  "include_object target_schema sorted_tables obj name kind =
     (let own = own_table_names target_schema sorted_tables in
      if kind = ''table'' then si_schema obj = Some target_schema \<and> (\<exists>n \<in> set own. name = Some n)
      else case si_table obj of
             Some (tname, tschema) \<Rightarrow> tschema = Some target_schema \<and> tname \<in> set own
           | None \<Rightarrow> (case si_schema obj of Some s \<Rightarrow> s = target_schema | None \<Rightarrow> True))"

definition include_name :: "string option list \<Rightarrow> string option \<Rightarrow> string \<Rightarrow> bool" where
  "include_name allowed_schemas name kind = (kind = ''schema'' \<longrightarrow> name \<in> set allowed_schemas)"

section \<open>The runner\<close>

text \<open>\<open>mr_create\<close> is \<open>create_async_engine\<close> with a \<open>NullPool\<close>, \<open>mr_connect\<close> enters \<open>engine.connect()\<close>, \<open>mr_disconnect\<close> leaves it.\<close>

record 'w mig_env =
  mr_create :: "string \<Rightarrow> (string, conn_arg) dict \<Rightarrow> ('w, unit) io"
  mr_connect :: "('w, unit) io"
  mr_disconnect :: "('w, unit) io"
  mr_dispose :: "('w, unit) io"

definition run_async_migrations ::
  "'w mig_env \<Rightarrow> string \<Rightarrow> ('w, unit) io \<Rightarrow> (string, conn_arg) dict option \<Rightarrow> ('w, unit) io" where
  "run_async_migrations env url do_run_migrations connect_args =
     io_bind (lift_res (to_session_mode_url url)) (\<lambda>session_url.
     io_bind (mr_create env (to_asyncpg session_url)
        (dict_merge [(''timeout'', Val (JInt DB_CONNECT_TIMEOUT_SECONDS))]
           (case connect_args of Some (x # xs) \<Rightarrow> x # xs | _ \<Rightarrow> [(''statement_cache_size'', Val (JInt 0))]))) (\<lambda>_.
     io_finally
       (io_bind (mr_connect env) (\<lambda>_. io_finally do_run_migrations (mr_disconnect env)))
       (mr_dispose env)))"

section \<open>Lemmas\<close>

lemma relative_to_append [simp]: "relative_to (r @ p) r = Inr p"
  by (induction r) simp_all

lemma relative_toD: "relative_to p r = Inr q \<Longrightarrow> p = r @ q"
  by (induction p r rule: relative_to.induct) (auto split: if_splits)

text \<open>The comparison finds no problem exactly when every file has its own hash on the integration branch.\<close>

lemma compare_blobs_acc:
  "compare_blobs repo merged fs shas (absent, modified) = Inr (a, m) \<Longrightarrow> prefix absent a \<and> prefix modified m"
proof (induction fs arbitrary: shas absent modified)
  case Nil
  then show ?case by (cases shas) simp_all
next
  case (Cons f fs)
  then obtain sha shas' where [simp]: "shas = sha # shas'" by (cases shas) simp_all
  from Cons.prems obtain x y where "compare_blobs repo merged fs shas' (x, y) = Inr (a, m)"
    and "prefix absent x" "prefix modified y"
    by (fastforce split: sum.splits option.splits if_splits)
  with Cons.IH show ?case by (blast intro: prefix_order.order_trans)
qed

lemma compare_blobs_clean:
  "compare_blobs repo merged fs shas ([], []) = Inr ([], []) \<longleftrightarrow>
     list_all2 (\<lambda>f sha. \<exists>rel. f = repo @ rel \<and> dict_get merged (join ''/'' rel) = Some sha) fs shas"
proof (induction fs arbitrary: shas)
  case Nil
  then show ?case by (cases shas) simp_all
next
  case (Cons f fs)
  note IH = Cons.IH
  show ?case
  proof (cases shas)
    case (Cons sha shas')
    show ?thesis
    proof (cases "relative_to f repo")
      case (Inl e)
      then have "\<not> (\<exists>rel. f = repo @ rel)" by auto
      with Inl Cons show ?thesis by auto
    next
      case (Inr rel)
      then have f: "f = repo @ rel" by (rule relative_toD)
      then have "(\<exists>r. f = repo @ r \<and> dict_get merged (join ''/'' r) = Some sha) = (dict_get merged (join ''/'' rel) = Some sha)" by simp
      moreover have "compare_blobs repo merged fs shas' (x, y) = Inr ([], []) \<longrightarrow> x = [] \<and> y = []" for x y
        using compare_blobs_acc [of repo merged fs shas' x y "[]" "[]"] by auto
      ultimately show ?thesis
        using IH [of shas'] Inr Cons by (auto split: option.splits)
    qed
  qed simp
qed

lemma revision_files_iff:
  "f \<in> set (revision_files env dir) \<longleftrightarrow>
     (\<exists>name. f = dir @ [name] \<and> (name, True) \<in> set (ge_iterdir env dir) \<and> py_suffix name \<and> name \<noteq> ''__init__.py'')"
  unfolding revision_files_def by (force simp: image_iff)

definition on_branch :: "gate_env \<Rightarrow> string \<Rightarrow> path \<Rightarrow> path \<Rightarrow> path list \<Rightarrow> bool" where
  "on_branch env integration_ref repo versions files =
     (\<exists>rel merged hashes. versions = repo @ rel
        \<and> merged_blobs env repo integration_ref (if rel = [] then ''.'' else join ''/'' rel) = Inr merged
        \<and> local_blobs env repo files = Inr hashes
        \<and> list_all2 (\<lambda>f sha. \<exists>r. f = repo @ r \<and> dict_get merged (join ''/'' r) = Some sha) files hashes)"

lemma compare_with_ref_ok:
  "compare_with_ref env dsn integration_ref repo versions files = Inr () \<longleftrightarrow> on_branch env integration_ref repo versions files"
proof
  assume "compare_with_ref env dsn integration_ref repo versions files = Inr ()"
  then obtain rel merged hashes where *: "relative_to versions repo = Inr rel"
      "merged_blobs env repo integration_ref (if rel = [] then ''.'' else join ''/'' rel) = Inr merged"
      "local_blobs env repo files = Inr hashes" "compare_blobs repo merged files hashes ([], []) = Inr ([], [])"
    unfolding compare_with_ref_def by (force split: sum.splits if_splits)
  with relative_toD [OF *(1)] show "on_branch env integration_ref repo versions files"
    unfolding on_branch_def compare_blobs_clean by blast
next
  assume "on_branch env integration_ref repo versions files"
  then obtain rel merged hashes where "versions = repo @ rel"
      "merged_blobs env repo integration_ref (if rel = [] then ''.'' else join ''/'' rel) = Inr merged"
      "local_blobs env repo files = Inr hashes" "compare_blobs repo merged files hashes ([], []) = Inr ([], [])"
    unfolding on_branch_def compare_blobs_clean by blast
  then show "compare_with_ref env dsn integration_ref repo versions files = Inr ()"
    by (simp add: compare_with_ref_def)
qed

text \<open>A command that Alembic cannot be asked about counts as a write, an offline one never does.\<close>

lemma is_history_write_closed:
  "is_history_write None = Inr True"
  "ac_offline (unwrap_alembic_context h) = Inl (AttributeError m) \<Longrightarrow> is_history_write (Some h) = Inr True"
  "ac_offline (unwrap_alembic_context h) = Inr False \<Longrightarrow> ac_fn_name (unwrap_alembic_context h) = Inr None \<Longrightarrow>
     is_history_write (Some h) = Inr True"
  "ac_offline (unwrap_alembic_context h) = Inr True \<Longrightarrow> is_history_write (Some h) = Inr False"
  by (simp_all add: is_history_write_def is_lookup_error_def)

text \<open>\<open>bootstrap_schema_and_version_table\<close> moves the version table or leaves it: it is never reported as legacy.\<close>

lemma bootstrap_never_legacy:
  assumes "bootstrap_schema_and_version_table conn schema tbl old w = (Inr loc, w')"
  shows "loc \<noteq> Legacy"
proof -
  from assms obtain in_target in_legacy s s' where
    "(if in_target then io_return Target
      else if in_legacy then io_bind (bo_set_schema conn old tbl schema) (\<lambda>_. io_return Target)
      else io_return Absent) s = (Inr loc, s')"
    unfolding bootstrap_schema_and_version_table_def by (elim io_bind_InrE) (simp add: io_return_def)
  then show ?thesis by (auto simp: io_return_def split: if_splits elim!: io_bind_InrE)
qed

text \<open>A foreign schema never enters the diff: tables, and what belongs to a table, pass only for the own schema's declared tables.\<close>

lemma include_object_own:
  assumes "include_object target tables obj name kind" and "si_table obj \<noteq> None \<or> kind = ''table'' \<or> si_schema obj \<noteq> None"
  shows "si_schema obj = Some target \<or> (\<exists>t. si_table obj = Some (t, Some target) \<and> (t, Some target) \<in> set tables)"
  using assms by (auto simp: include_object_def own_table_names_def Let_def split: if_splits option.splits)

section \<open>Properties\<close>


text \<open>A checkout with one revision, whose working-tree hash is an argument.\<close>

definition ran :: "string \<Rightarrow> git_run" where
  "ran out = Ran \<lparr>cp_returncode = 0, cp_stdout = out, cp_stderr = []\<rparr>"

definition checkout :: "string \<Rightarrow> gate_env" where
  "checkout sha =
     \<lparr>ge_git = (\<lambda>cwd args. if args = [''rev-parse'', ''--show-toplevel''] then ran ''/r''
          else if take 1 args = [''ls-tree''] then ran (''100644 blob abc'' @ [CHR 0x09] @ ''versions/1_a.py'' @ [CHR 0x00])
          else if take 1 args = [''hash-object''] then ran (sha @ [CHR 0x0A])
          else ran ''5f''),
      ge_resolve = (\<lambda>s. if s = ''/r'' then [''r''] else [''r'', ''versions'']), ge_is_dir = (\<lambda>_. True),
      ge_iterdir = (\<lambda>_. [(''1_a.py'', True), (''__init__.py'', True), (''_archive'', False)]), ge_environ = (\<lambda>_. None)\<rparr>"


end
