(* ===== verification/Portals.thy ===== *)
theory Portals
  imports Config_Client Db_Urls "HOL-Library.Word"
begin

text \<open>
  \<open>integrations/portal_identity.py\<close>, \<open>integrations/constants.py\<close> and \<open>integrations/hikcentral.py\<close>:
  the registry of portals and the sets derived from it, the redaction of configuration for
  non-privileged callers, and the HikCentral client: the guard on the address a tenant configured,
  the signature of a request and the two probes. Addresses are machine words, classified the way
  \<open>ipaddress\<close> does; name resolution, HMAC-SHA256, httpx and the clock are fields of an environment.
\<close>

section \<open>Portal identity\<close>

datatype PortalSlug = WEBSITE | PROPERTYFINDER | BAYUT | DUBIZZLE | GEMINI | META | HIKCENTRAL | CALCOM

fun slug_value :: "PortalSlug \<Rightarrow> string" where
  "slug_value WEBSITE = ''website''"
| "slug_value PROPERTYFINDER = ''propertyfinder''"
| "slug_value BAYUT = ''bayut''"
| "slug_value DUBIZZLE = ''dubizzle''"
| "slug_value GEMINI = ''gemini''"
| "slug_value META = ''meta''"
| "slug_value HIKCENTRAL = ''hikcentral''"
| "slug_value CALCOM = ''calcom''"

definition portal_slugs :: "PortalSlug list" where
  "portal_slugs = [WEBSITE, PROPERTYFINDER, BAYUT, DUBIZZLE, GEMINI, META, HIKCENTRAL, CALCOM]"

definition PortalSlug_of :: "string \<Rightarrow> PortalSlug res" where
  "PortalSlug_of s =
     (case find (\<lambda>p. slug_value p = s) portal_slugs of
        Some p \<Rightarrow> Inr p
      | None \<Rightarrow> Inl (ValueError (s @ '' is not a valid PortalSlug'')))"

record PortalIdentity =
  pi_slug :: PortalSlug
  pi_display_name :: string
  pi_is_connectable_platform :: bool
  pi_is_listing_portal :: bool
  pi_is_externally_publishable :: bool
  pi_user_id_key :: "string option"
  pi_shares_provider_with :: "PortalSlug option"

definition provider_key :: "PortalIdentity \<Rightarrow> string" where
  "provider_key p = slug_value (case pi_shares_provider_with p of Some s \<Rightarrow> s | None \<Rightarrow> pi_slug p)"

definition identity_of ::
  "PortalSlug \<Rightarrow> string \<Rightarrow> bool \<Rightarrow> bool \<Rightarrow> bool \<Rightarrow> string option \<Rightarrow> PortalSlug option \<Rightarrow> PortalSlug \<times> PortalIdentity" where
  "identity_of s name connectable listing publishable user_key shares =
     (s, \<lparr>pi_slug = s, pi_display_name = name, pi_is_connectable_platform = connectable, pi_is_listing_portal = listing,
          pi_is_externally_publishable = publishable, pi_user_id_key = user_key, pi_shares_provider_with = shares\<rparr>)"

definition PORTAL_REGISTRY :: "(PortalSlug, PortalIdentity) dict" where
  "PORTAL_REGISTRY =
     [identity_of WEBSITE ''Website'' False True False None None,
      identity_of PROPERTYFINDER ''PropertyFinder'' True True True (Some ''public_profile_id'') None,
      identity_of BAYUT ''Bayut'' True True True (Some ''user_id'') None,
      identity_of DUBIZZLE ''Dubizzle'' True True True (Some ''user_id'') (Some BAYUT),
      identity_of GEMINI ''Google Gemini AI'' True False False None None,
      identity_of META ''Meta (Facebook Lead Ads)'' False False False None None,
      identity_of HIKCENTRAL ''HikCentral'' True False False None None,
      identity_of CALCOM ''Cal.com'' True False False None None]"

definition get_portal_identity :: "string \<Rightarrow> PortalIdentity res" where
  "get_portal_identity s =
     (case PortalSlug_of s of
        Inl e \<Rightarrow> Inl e
      | Inr p \<Rightarrow> (case dict_get PORTAL_REGISTRY p of Some i \<Rightarrow> Inr i | None \<Rightarrow> Inl (KeyError s)))"

definition slugs_where :: "(PortalIdentity \<Rightarrow> bool) \<Rightarrow> string list" where
  "slugs_where P = map (\<lambda>p. slug_value (pi_slug p)) (filter P (map snd PORTAL_REGISTRY))"

definition KNOWN_PLATFORM_SLUGS :: "string list" where
  "KNOWN_PLATFORM_SLUGS = slugs_where pi_is_connectable_platform"

definition LISTING_PORTAL_SLUGS :: "string list" where
  "LISTING_PORTAL_SLUGS = slugs_where pi_is_listing_portal"

definition EXTERNALLY_PUBLISHABLE_SLUGS :: "string list" where
  "EXTERNALLY_PUBLISHABLE_SLUGS = slugs_where pi_is_externally_publishable"

definition PORTAL_USER_ID_KEYS :: "(string, string) dict" where
  "PORTAL_USER_ID_KEYS =
     concat (map (\<lambda>p. case pi_user_id_key p of Some k \<Rightarrow> [(slug_value (pi_slug p), k)] | None \<Rightarrow> []) (map snd PORTAL_REGISTRY))"

definition PORTAL_PROVIDER_KEYS :: "(string, string) dict" where
  "PORTAL_PROVIDER_KEYS =
     map (\<lambda>p. (slug_value (pi_slug p), provider_key p)) (filter pi_is_connectable_platform (map snd PORTAL_REGISTRY))"

section \<open>Public configuration\<close>

definition PUBLIC_CONFIG_KEYS :: "string list" where
  "PUBLIC_CONFIG_KEYS =
     [''webhook_token'', ''environment'', ''region'', ''auto_publish'', ''registration_type'', ''connected_at'', ''subscription_count'']"

definition sanitize_public_config :: "(string, json) dict option \<Rightarrow> (string, json) dict" where
  "sanitize_public_config config =
     (case config of None \<Rightarrow> [] | Some d \<Rightarrow> filter (\<lambda>(k, _). k \<in> set PUBLIC_CONFIG_KEYS) d)"

section \<open>Addresses\<close>

datatype ip = IPv4 "32 word" | IPv6 "128 word"

definition parse_ipv4 :: "string \<Rightarrow> 32 word option" where
  "parse_ipv4 s =
     (if is_ipv4 s
      then Some (foldl (\<lambda>a p. 256 * a + of_int (case digits_value False 0 p of Some v \<Rightarrow> v | None \<Rightarrow> 0)) 0 (split_char CHR ''.'' s))
      else None)"

definition hex_value :: "char \<Rightarrow> nat" where
  "hex_value c =
     (let n = (of_char c :: nat) in if n \<le> 57 then n - 48 else if n \<le> 70 then n - 55 else n - 87)"

definition hextet_value :: "string \<Rightarrow> nat" where
  "hextet_value s = foldl (\<lambda>a c. 16 * a + hex_value c) 0 s"

text \<open>The groups of an address text, an IPv4 tail as two of them.\<close>

definition group_values :: "string list \<Rightarrow> nat list" where
  "group_values ps =
     (if ps = [[]] then []
      else concat (map (\<lambda>p. case parse_ipv4 p of
                         Some w \<Rightarrow> [unat (drop_bit 16 w), unat (take_bit 16 w)]
                       | None \<Rightarrow> [hextet_value p]) ps))"

definition ipv6_groups :: "string \<Rightarrow> nat list" where
  "ipv6_groups s =
     (let ps = split_char CHR '':'' (fst (partition_at CHR ''%'' s)) in
      case inner_empty ps of
        [] \<Rightarrow> group_values ps
      | i # _ \<Rightarrow>
          let hi = group_values (take i ps); lo = group_values (drop (Suc i) ps)
          in hi @ replicate (8 - length hi - length lo) 0 @ lo)"

definition parse_ipv6 :: "string \<Rightarrow> 128 word option" where
  "parse_ipv6 s = (if is_ipv6 s then Some (foldl (\<lambda>a g. 65536 * a + of_nat g) 0 (ipv6_groups s)) else None)"

definition ip_address :: "string \<Rightarrow> ip res" where
  "ip_address s =
     (case parse_ipv4 s of
        Some w \<Rightarrow> Inr (IPv4 w)
      | None \<Rightarrow> (case parse_ipv6 s of
                   Some w \<Rightarrow> Inr (IPv6 w)
                 | None \<Rightarrow> Inl (ValueError (s @ '' does not appear to be an IPv4 or IPv6 address''))))"

text \<open>\<open>ip in network\<close>: the leading bits agree.\<close>

definition in_net4 :: "nat \<Rightarrow> 32 word \<Rightarrow> 32 word \<Rightarrow> bool" where
  "in_net4 len net w = (drop_bit (32 - len) w = drop_bit (32 - len) net)"

definition in_net6 :: "nat \<Rightarrow> nat \<Rightarrow> 128 word \<Rightarrow> bool" where
  "in_net6 len top16 w = (drop_bit (128 - len) w = drop_bit (128 - len) (push_bit 112 (of_nat top16)))"

text \<open>\<open>ipv4_mapped\<close>: an IPv6 address that carries an IPv4 address is classified as that one.\<close>

definition unmapped :: "ip \<Rightarrow> ip" where
  "unmapped a = (case a of IPv6 w \<Rightarrow> if drop_bit 32 w = 0xFFFF then IPv4 (ucast w) else a | IPv4 _ \<Rightarrow> a)"

definition is_loopback :: "ip \<Rightarrow> bool" where
  "is_loopback a = (case unmapped a of IPv4 w \<Rightarrow> in_net4 8 0x7F000000 w | IPv6 w \<Rightarrow> w = 1)"

definition is_link_local :: "ip \<Rightarrow> bool" where
  "is_link_local a = (case unmapped a of IPv4 w \<Rightarrow> in_net4 16 0xA9FE0000 w | IPv6 w \<Rightarrow> in_net6 10 0xFE80 w)"

definition is_multicast :: "ip \<Rightarrow> bool" where
  "is_multicast a = (case unmapped a of IPv4 w \<Rightarrow> in_net4 4 0xE0000000 w | IPv6 w \<Rightarrow> in_net6 8 0xFF00 w)"

definition is_reserved :: "ip \<Rightarrow> bool" where
  "is_reserved a =
     (case unmapped a of
        IPv4 w \<Rightarrow> in_net4 4 0xF0000000 w
      | IPv6 w \<Rightarrow>
          in_net6 8 0 w \<or> in_net6 8 0x100 w \<or> in_net6 7 0x200 w \<or> in_net6 6 0x400 w \<or> in_net6 5 0x800 w \<or>
          in_net6 4 0x1000 w \<or> in_net6 3 0x4000 w \<or> in_net6 3 0x6000 w \<or> in_net6 3 0x8000 w \<or> in_net6 3 0xA000 w \<or>
          in_net6 3 0xC000 w \<or> in_net6 4 0xE000 w \<or> in_net6 5 0xF000 w \<or> in_net6 6 0xF800 w \<or> in_net6 9 0xFE00 w)"

definition is_unspecified :: "ip \<Rightarrow> bool" where
  "is_unspecified a = (case unmapped a of IPv4 w \<Rightarrow> w = 0 | IPv6 w \<Rightarrow> w = 0)"

definition disallowed :: "ip \<Rightarrow> bool" where
  "disallowed a = (is_loopback a \<or> is_link_local a \<or> is_multicast a \<or> is_reserved a \<or> is_unspecified a)"

section \<open>HikCentral\<close>

text \<open>
  \<open>hk_resolve\<close> is \<open>getaddrinfo\<close>, the address texts of its answer or the text of its \<open>gaierror\<close>; \<open>hk_hmac\<close> is the
  HMAC-SHA256 digest; \<open>hk_millis\<close> is \<open>int(time.time() * 1000)\<close>; \<open>hk_date\<close> the ISO text of the date some days from
  today; \<open>hk_repr\<close> and \<open>hk_str\<close> are \<open>repr\<close> of a text and \<open>str\<close> of an exception; \<open>hk_text\<close> is \<open>str\<close> of a JSON value.
\<close>

record 'w hik_env =
  hk_resolve :: "string \<Rightarrow> 'w \<Rightarrow> (string + string list) \<times> 'w"
  hk_hmac :: "string \<Rightarrow> string \<Rightarrow> string"
  hk_millis :: "'w \<Rightarrow> int"
  hk_date :: "'w \<Rightarrow> int \<Rightarrow> string"
  hk_get :: "string \<Rightarrow> (string, string) dict \<Rightarrow> ('w, http_response) io"
  hk_post :: "string \<Rightarrow> (string, string) dict \<Rightarrow> json \<Rightarrow> ('w, http_response) io"
  hk_json :: "http_response \<Rightarrow> json res"
  hk_repr :: "string \<Rightarrow> string"
  hk_str :: "exn \<Rightarrow> string"
  hk_text :: "json \<Rightarrow> string"

definition hik_error :: "string \<Rightarrow> string \<Rightarrow> exn" where
  "hik_error detail code = ApiError (ServiceUnavailableError (JStr detail) (JStr code) None)"

fun check_addresses :: "'w hik_env \<Rightarrow> string \<Rightarrow> string list \<Rightarrow> unit res" where
  "check_addresses env hostname [] = Inr ()"
| "check_addresses env hostname (raw_ip # rest) =
     (case ip_address raw_ip of
        Inl e \<Rightarrow> Inl e
      | Inr a \<Rightarrow>
          if disallowed a
          then Inl (hik_error (''HikCentral base_url host '' @ hk_repr env hostname @ '' resolves to a disallowed address ('' @ raw_ip @ '')'')
                      ''HIKCENTRAL_UNAVAILABLE_004'')
          else check_addresses env hostname rest)"

definition assert_safe_hikcentral_host :: "'w hik_env \<Rightarrow> string \<Rightarrow> ('w, unit) io" where
  "assert_safe_hikcentral_host env hik_url w =
     (case urlsplit hik_url of
        Inl e \<Rightarrow> (Inl e, w)
      | Inr parsed \<Rightarrow>
          if su_scheme parsed \<notin> {''http'', ''https''}
          then (Inl (hik_error (''HikCentral base_url must use http(s), got scheme '' @ hk_repr env (su_scheme parsed))
                       ''HIKCENTRAL_UNAVAILABLE_002''), w)
          else case url_hostname (su_netloc parsed) of
                 None \<Rightarrow> (Inl (hik_error ''HikCentral base_url has no hostname'' ''HIKCENTRAL_UNAVAILABLE_002''), w)
               | Some hostname \<Rightarrow>
                   (case hk_resolve env hostname w of
                      (Inl reason, w') \<Rightarrow>
                        (Inl (hik_error (''HikCentral base_url host '' @ hk_repr env hostname @ '' could not be resolved: '' @ reason)
                           ''HIKCENTRAL_UNAVAILABLE_003''), w')
                    | (Inr addrs, w') \<Rightarrow> (check_addresses env hostname addrs, w')))"

definition upper_char :: "char \<Rightarrow> char" where
  "upper_char c = (let n = (of_char c :: nat) in if 97 \<le> n \<and> n \<le> 122 then char_of (n - 32) else c)"

text \<open>\<open>base64.b64encode\<close>\<close>

definition b64_char :: "nat \<Rightarrow> char" where
  "b64_char n =
     char_of (if n < 26 then 65 + n else if n < 52 then 71 + n else if n < 62 then n - 4 else if n = 62 then 43 else 47)"

fun b64encode :: "string \<Rightarrow> string" where
  "b64encode [] = []"
| "b64encode [a] =
     (let n = of_char a :: nat in [b64_char (n div 4), b64_char ((n mod 4) * 16), CHR ''='', CHR ''=''])"
| "b64encode [a, b] =
     (let n = 256 * of_char a + of_char b :: nat
      in [b64_char (n div 1024), b64_char (n div 16 mod 64), b64_char ((n mod 16) * 4), CHR ''=''])"
| "b64encode (a # b # c # s) =
     (let n = 65536 * of_char a + 256 * of_char b + of_char c :: nat
      in [b64_char (n div 262144), b64_char (n div 4096 mod 64), b64_char (n div 64 mod 64), b64_char (n mod 64)] @ b64encode s)"

definition artemis_path :: "string \<Rightarrow> string" where
  "artemis_path path =
     (let url_path = (if prefix ''/'' path then path else CHR ''/'' # path)
      in if prefix ''/artemis'' url_path then url_path else ''/artemis'' @ url_path)"

definition sign_string :: "string \<Rightarrow> string \<Rightarrow> string" where
  "sign_string meth path =
     map upper_char meth @ [CHR 0x0A] @ ''application/json'' @ [CHR 0x0A] @ ''application/json'' @ [CHR 0x0A] @ artemis_path path"

definition sign_hikcentral_request ::
  "'w hik_env \<Rightarrow> string \<Rightarrow> string \<Rightarrow> string \<Rightarrow> string \<Rightarrow> ('w, (string, string) dict) io" where
  "sign_hikcentral_request env meth path secret_key app_key w =
     (Inr [(''X-Ca-Key'', app_key), (''X-Ca-Signature'', b64encode (hk_hmac env secret_key (sign_string meth path))),
           (''X-Ca-Timestamp'', string_of_int (hk_millis env w))], w)"

definition json_headers :: "(string, string) dict \<Rightarrow> (string, string) dict" where
  "json_headers hs = dict_set ''Content-Type'' ''application/json'' (dict_set ''Accept'' ''application/json'' hs)"

text \<open>The part the two probes share: the answer's status, its JSON and the code in it.\<close>

definition hik_answer :: "'w hik_env \<Rightarrow> string \<Rightarrow> string \<Rightarrow> string \<Rightarrow> http_response \<Rightarrow> json res" where
  "hik_answer env probe failed failed_code response =
     (if status_code response \<noteq> 200
      then Inl (hik_error (''HikCentral '' @ probe @ '' probe returned HTTP '' @ string_of_int (status_code response)) ''HIKCENTRAL_UNAVAILABLE_005'')
      else case hk_json env response of
        Inl e \<Rightarrow> if is_ValueError e
                 then Inl (hik_error (''Invalid JSON response from HikCentral '' @ probe @ '' probe'') ''HIKCENTRAL_UNAVAILABLE_006'')
                 else Inl e
      | Inr (JDict d) \<Rightarrow>
          if dict_get d ''code'' = Some (JStr ''0'') then Inr (JDict d)
          else Inl (hik_error (failed @ (case dict_get d ''msg'' of Some m \<Rightarrow> hk_text env m | None \<Rightarrow> ''Unknown error'')) failed_code)
      | Inr _ \<Rightarrow> Inl (AttributeError ''object has no attribute get''))"

definition hik_unreachable :: "'w hik_env \<Rightarrow> ('w, http_response) io \<Rightarrow> ('w, http_response) io" where
  "hik_unreachable env m =
     io_except is_RequestError m (\<lambda>e. io_raise (hik_error (''HikCentral unreachable: '' @ hk_str env e) ''HIKCENTRAL_UNAVAILABLE_001''))"

definition hikcentral_get_version :: "'w hik_env \<Rightarrow> string \<Rightarrow> string \<Rightarrow> string \<Rightarrow> ('w, json) io" where
  "hikcentral_get_version env hik_url app_key secret_key =
     (let base = rstrip_slash hik_url; path = ''/api/common/v1/version'' in
      io_bind (assert_safe_hikcentral_host env base) (\<lambda>_.
      io_bind (sign_hikcentral_request env ''GET'' path secret_key app_key) (\<lambda>hs.
      io_bind (hik_unreachable env (hk_get env (base @ path) (json_headers hs))) (\<lambda>response.
      lift_res (hik_answer env ''version'' ''HikCentral version check failed: '' ''HIKCENTRAL_AUTH_001'' response)))))"

definition attendance_payload :: "string \<Rightarrow> string \<Rightarrow> json" where
  "attendance_payload yesterday today =
     JDict [(''attendanceReportRequest'', JDict [(''pageNo'', JInt 1), (''pageSize'', JInt 1), (''queryInfo'', JDict
       [(''beginTime'', JStr (yesterday @ ''T00:00:00 04:00'')), (''endTime'', JStr (today @ ''T23:59:59 04:00'')),
        (''sortInfo'', JDict [(''sortField'', JInt 1), (''sortType'', JInt 1)]), (''personID'', JList [])])])]"

definition hikcentral_probe_attendance :: "'w hik_env \<Rightarrow> string \<Rightarrow> string \<Rightarrow> string \<Rightarrow> ('w, json) io" where
  "hikcentral_probe_attendance env hik_url app_key secret_key =
     (let base = rstrip_slash hik_url; path = ''/api/attendance/v1/report'' in
      io_bind (assert_safe_hikcentral_host env base) (\<lambda>_.
      io_bind (sign_hikcentral_request env ''POST'' path secret_key app_key) (\<lambda>hs.
      io_bind (hik_unreachable env (\<lambda>w. hk_post env (base @ path) (json_headers hs)
                 (attendance_payload (hk_date env w (- 1)) (hk_date env w 0)) w)) (\<lambda>response.
      lift_res (hik_answer env ''attendance'' ''HikCentral attendance module unreachable/unlicensed: '' ''HIKCENTRAL_UNAVAILABLE_007'' response)))))"

section \<open>Lemmas\<close>

lemma check_addresses_ok:
  "check_addresses env h addrs = Inr () \<Longrightarrow> raw \<in> set addrs \<Longrightarrow> \<exists>a. ip_address raw = Inr a \<and> \<not> disallowed a"
  by (induction addrs) (auto split: sum.splits if_splits)

text \<open>What is disallowed, on the bits of an IPv4 address.\<close>

lemma disallowed_ipv4:
  "disallowed (IPv4 w) \<longleftrightarrow> drop_bit 24 w = 127 \<or> drop_bit 16 w = 0xA9FE \<or> drop_bit 28 w = 0xE \<or> drop_bit 28 w = 0xF \<or> w = 0"
  by (simp add: disallowed_def is_loopback_def is_link_local_def is_multicast_def is_reserved_def is_unspecified_def unmapped_def
      in_net4_def)

lemma drop_bit_nested: "drop_bit (a + b) w = drop_bit a (drop_bit b (w :: 'a :: len word))"
  by (simp add: drop_bit_drop_bit)

lemma private_allowed: "drop_bit 16 w = 0xC0A8 \<Longrightarrow> \<not> disallowed (IPv4 w)"
  using drop_bit_nested [of 8 16 w] drop_bit_nested [of 12 16 w] by (auto simp: disallowed_ipv4)

lemma disallowed_unmapped: "disallowed (unmapped a) = disallowed a"
  by (simp add: disallowed_def is_loopback_def is_link_local_def is_multicast_def is_reserved_def is_unspecified_def unmapped_def
      split: ip.splits)

definition guard_passed :: "'w hik_env \<Rightarrow> string \<Rightarrow> 'w \<Rightarrow> bool" where
  "guard_passed env url w =
     (\<exists>parsed host addrs. urlsplit url = Inr parsed \<and> su_scheme parsed \<in> {''http'', ''https''}
        \<and> url_hostname (su_netloc parsed) = Some host \<and> fst (hk_resolve env host w) = Inr addrs
        \<and> (\<forall>raw \<in> set addrs. \<exists>a. ip_address raw = Inr a \<and> \<not> disallowed a))"

lemma guard_ok: "assert_safe_hikcentral_host env url w = (Inr (), w') \<Longrightarrow> guard_passed env url w"
  unfolding assert_safe_hikcentral_host_def guard_passed_def
  by (auto split: sum.splits if_splits option.splits prod.splits dest: check_addresses_ok)

lemma guard_only_resolves:
  assumes "\<And>h w. n (snd (hk_resolve env h w)) = (n w :: nat)"
  shows "n (snd (assert_safe_hikcentral_host env url w)) = n w"
  using assms unfolding assert_safe_hikcentral_host_def
  by (auto split: sum.splits option.splits prod.splits) (metis snd_conv)+

lemma probe_needs_guard:
  assumes "\<And>h w. n (snd (hk_resolve env h w)) = (n w :: nat)"
    and "n (snd (io_bind (assert_safe_hikcentral_host env url) f w)) \<noteq> n w"
  shows "guard_passed env url w"
proof (cases "assert_safe_hikcentral_host env url w")
  case (Pair r w1)
  with guard_only_resolves [of n env url w, OF assms(1)] have "n w1 = n w" by simp
  with assms(2) Pair obtain x where "r = Inr x" by (cases r) (auto simp: io_bind_def)
  with Pair show ?thesis using guard_ok [of env url w w1] by simp
qed

text \<open>The path that is signed does not depend on how its caller wrote it.\<close>

lemma artemis_path_prefix: "prefix ''/artemis'' (artemis_path path)"
  by (simp add: artemis_path_def Let_def)

lemma artemis_path_idem: "artemis_path (artemis_path path) = artemis_path path"
proof -
  have "prefix ''/'' (artemis_path path)" using artemis_path_prefix [of path] by (cases "artemis_path path") simp_all
  with artemis_path_prefix [of path] show ?thesis by (simp add: artemis_path_def [of "artemis_path path"] Let_def)
qed

lemma slug_value_inj: "slug_value p = slug_value q \<Longrightarrow> p = q"
  by (cases p; cases q) simp_all

lemma portal_slugs_all: "p \<in> set portal_slugs"
  by (cases p) (simp_all add: portal_slugs_def)

lemma PortalSlug_of_value: "PortalSlug_of (slug_value p) = Inr p"
  by (cases p) (simp_all add: PortalSlug_of_def portal_slugs_def)

section \<open>Properties\<close>


text \<open>
  The registry is consistent: every slug has an entry under itself, lookups by text succeed exactly for slug values, a portal
  that can be published to is a listing portal and connectable, and events are routed to connectable platforms.
\<close>

theorem portal_registry_consistent:
  "(\<forall>p. \<exists>i. get_portal_identity (slug_value p) = Inr i \<and> pi_slug i = p)
   \<and> (\<forall>s. (\<exists>i. get_portal_identity s = Inr i) \<longleftrightarrow> s \<in> range slug_value)
   \<and> set EXTERNALLY_PUBLISHABLE_SLUGS \<subseteq> set LISTING_PORTAL_SLUGS \<inter> set KNOWN_PLATFORM_SLUGS
   \<and> snd ` set PORTAL_PROVIDER_KEYS \<subseteq> set KNOWN_PLATFORM_SLUGS"
proof (intro conjI allI)
  have entry: "\<exists>i. get_portal_identity (slug_value p) = Inr i \<and> pi_slug i = p" for p
    unfolding get_portal_identity_def PortalSlug_of_value by (cases p) (simp_all add: PORTAL_REGISTRY_def identity_of_def)
  then show "\<exists>i. get_portal_identity (slug_value p) = Inr i \<and> pi_slug i = p" for p .
  show "(\<exists>i. get_portal_identity s = Inr i) \<longleftrightarrow> s \<in> range slug_value" for s
  proof
    assume "\<exists>i. get_portal_identity s = Inr i"
    then obtain p where "find (\<lambda>p. slug_value p = s) portal_slugs = Some p"
      by (auto simp: get_portal_identity_def PortalSlug_of_def split: sum.splits option.splits)
    then show "s \<in> range slug_value" by (auto simp: find_Some_iff)
  next
    assume "s \<in> range slug_value"
    with entry show "\<exists>i. get_portal_identity s = Inr i" by blast
  qed
qed code_simp+

text \<open>A device in the tenant's network, in a world that counts requests.\<close>

definition lan_device :: "string list \<Rightarrow> nat hik_env" where
  "lan_device addrs =
     \<lparr>hk_resolve = (\<lambda>h w. (Inr addrs, w)), hk_hmac = (\<lambda>k m. ''digest''), hk_millis = (\<lambda>w. 0), hk_date = (\<lambda>w d. ''2026-01-01''),
      hk_get = (\<lambda>url hs w. (Inr \<lparr>status_code = 200, resp_headers = [], resp_text = ''{}''\<rparr>, Suc w)),
      hk_post = (\<lambda>url hs j w. (Inr \<lparr>status_code = 200, resp_headers = [], resp_text = ''{}''\<rparr>, Suc w)),
      hk_json = (\<lambda>r. Inr (JDict [(''code'', JStr ''0'')])), hk_repr = (\<lambda>s. s), hk_str = (\<lambda>e. []), hk_text = (\<lambda>v. [])\<rparr>"

lemma lan_address: "ip_address ''192.168.1.100'' = Inr (IPv4 0xC0A80164)" "\<not> disallowed (IPv4 0xC0A80164)"
  by code_simp+

lemma loopback_address: "ip_address ''127.0.0.1'' = Inr (IPv4 0x7F000001)" "disallowed (IPv4 0x7F000001)"
  by code_simp+

lemma lan_url:
  "urlsplit ''https://hik.local'' =
     Inr \<lparr>su_scheme = ''https'', su_netloc = ''hik.local'', su_path = [], su_query = [], su_fragment = []\<rparr>"
  "url_hostname ''hik.local'' = Some ''hik.local''" "rstrip_slash ''https://hik.local/'' = ''https://hik.local''"
  by code_simp+


end
