(* ===== verification/Celery_Runtime.thy ===== *)
theory Celery_Runtime
  imports Prelude Contracts
begin

text \<open>
  \<open>celery/factory.py\<close>, \<open>celery/log_context.py\<close> and \<open>celery/async_runner.py\<close>: the configuration of a
  service's Celery app, the correlation id that travels with a task, and the one event loop of a worker
  process. The configuration is a dict of JSON values, in which the integer keys of
  \<open>socket_keepalive_options\<close> are written in decimal; Celery's signals, structlog's context and the
  event loop are explicit states.
\<close>

section \<open>Names\<close>

definition lower_letter :: "char \<Rightarrow> bool" where
  "lower_letter c = (let n = (of_char c :: nat) in 97 \<le> n \<and> n \<le> 122)"

definition name_char :: "char \<Rightarrow> bool" where
  "name_char c = (lower_letter c \<or> is_digit c \<or> c = CHR ''_'')"

text \<open>\<open>re.match("^[a-z][a-z0-9_]*$", s)\<close>: \<open>$\<close> also matches before a newline at the end.\<close>

definition drop_final_newline :: "string \<Rightarrow> string" where
  "drop_final_newline s = (if s \<noteq> [] \<and> last s = CHR 0x0A then butlast s else s)"

definition QUEUE_NAME :: "string \<Rightarrow> bool" where
  "QUEUE_NAME s =
     (case drop_final_newline s of [] \<Rightarrow> False | c # cs \<Rightarrow> lower_letter c \<and> list_all name_char cs)"

text \<open>\<open>repr_of\<close> is \<open>repr\<close> of a text.\<close>

definition validate_name :: "(string \<Rightarrow> string) \<Rightarrow> string \<Rightarrow> string \<Rightarrow> string res" where
  "validate_name repr_of s field =
     (if QUEUE_NAME s then Inr s
      else Inl (ValueError (field @ ''='' @ repr_of s @ '' is not a valid Celery name. Expected ^[a-z][a-z0-9_]*$ (lowercase, digits, underscores). '' @
        ''A name with a space or hyphen is silently unroutable: it becomes a queue no worker subscribes to, '' @
        ''and tasks sent there are accepted and never run. Pass an explicit literal '' @ em_dash @
        '' never derive this from SERVICE_NAME, which Railway sets to a human-readable display label.'')))"

section \<open>The configuration\<close>

definition KEEPALIVE_TUNING :: "(string \<times> int) list" where
  "KEEPALIVE_TUNING = [(''TCP_KEEPIDLE'', 60), (''TCP_KEEPINTVL'', 10), (''TCP_KEEPCNT'', 3)]"

text \<open>\<open>sock\<close> gives the socket constants the platform has.\<close>

definition TCP_KEEPALIVE_OPTIONS :: "(string \<Rightarrow> int option) \<Rightarrow> (string, json) dict" where
  "TCP_KEEPALIVE_OPTIONS sock =
     foldl (\<lambda>d (name, v). case sock name of Some opt \<Rightarrow> dict_set (string_of_int opt) (JInt v) d | None \<Rightarrow> d) [] KEEPALIVE_TUNING"

definition BROKER_TRANSPORT_OPTIONS :: "(string \<Rightarrow> int option) \<Rightarrow> (string, json) dict" where
  "BROKER_TRANSPORT_OPTIONS sock =
     [(''socket_keepalive'', JBool True), (''socket_keepalive_options'', JDict (TCP_KEEPALIVE_OPTIONS sock))]"

record celery_args =
  ca_default_queue :: string
  ca_task_namespace :: "string option"
  ca_task_modules :: "json list"
  ca_beat_schedule :: "(string, json) dict"
  ca_task_time_limit :: int
  ca_task_soft_time_limit :: int
  ca_worker_prefetch_multiplier :: int
  ca_task_annotations :: "(string, json) dict"
  ca_dead_letter_queue :: "string option"
  ca_extra_config :: "(string, json) dict"

definition base_conf :: "(string \<Rightarrow> int option) \<Rightarrow> celery_args \<Rightarrow> (string, json) dict" where
  "base_conf sock a =
     [(''task_serializer'', JStr ''json''), (''accept_content'', JList [JStr ''json'']), (''result_serializer'', JStr ''json''),
      (''timezone'', JStr ''UTC''), (''enable_utc'', JBool True), (''task_track_started'', JBool True), (''task_acks_late'', JBool True),
      (''task_reject_on_worker_lost'', JBool True), (''broker_connection_retry_on_startup'', JBool True),
      (''broker_transport_options'', JDict (BROKER_TRANSPORT_OPTIONS sock)), (''redis_socket_keepalive'', JBool True),
      (''redis_retry_on_timeout'', JBool True), (''redis_backend_health_check_interval'', JInt 30),
      (''task_time_limit'', JInt (ca_task_time_limit a)), (''task_soft_time_limit'', JInt (ca_task_soft_time_limit a)),
      (''worker_prefetch_multiplier'', JInt (ca_worker_prefetch_multiplier a)), (''worker_disable_rate_limits'', JBool False),
      (''result_expires'', JInt 3600), (''task_default_queue'', JStr (ca_default_queue a)),
      (''task_routes'', JDict (case ca_task_namespace a of
          Some ns \<Rightarrow> [(ns @ ''.*'', JDict [(''queue'', JStr (ca_default_queue a))])] | None \<Rightarrow> []))]"

definition set_if :: "bool \<Rightarrow> string \<Rightarrow> json \<Rightarrow> (string, json) dict \<Rightarrow> (string, json) dict" where
  "set_if b k v d = (if b then dict_set k v d else d)"

definition optional_conf :: "celery_args \<Rightarrow> (string, json) dict \<Rightarrow> (string, json) dict" where
  "optional_conf a conf =
     set_if (ca_dead_letter_queue a \<notin> {None, Some []}) ''task_default_dead_letter_queue'' (JStr (the (ca_dead_letter_queue a)))
       (set_if (ca_task_annotations a \<noteq> []) ''task_annotations'' (JDict (ca_task_annotations a))
         (set_if (ca_beat_schedule a \<noteq> []) ''beat_schedule'' (JDict (ca_beat_schedule a))
           (set_if (ca_task_modules a \<noteq> []) ''include'' (JList (ca_task_modules a)) conf)))"

text \<open>\<open>conf.update\<close> with the caller's own options, the transport options merged instead of replaced.\<close>

definition apply_extra :: "(string \<Rightarrow> int option) \<Rightarrow> (string, json) dict \<Rightarrow> (string, json) dict \<Rightarrow> (string, json) dict res" where
  "apply_extra sock extra conf =
     (let overrides = dict_del ''broker_transport_options'' extra;
          merged = (case dict_get extra ''broker_transport_options'' of
                      None \<Rightarrow> Inr conf
                    | Some v \<Rightarrow>
                        if \<not> truthy v then Inr conf
                        else case v of
                               JDict d \<Rightarrow> Inr (dict_set ''broker_transport_options'' (JDict (dict_merge (BROKER_TRANSPORT_OPTIONS sock) d)) conf)
                             | _ \<Rightarrow> Inl (TypeError ''object is not a mapping''))
      in map_sum (\<lambda>e. e) (\<lambda>c. dict_merge c overrides) merged)"

definition create_celery_app :: "(string \<Rightarrow> string) \<Rightarrow> (string \<Rightarrow> int option) \<Rightarrow> celery_args \<Rightarrow> (string, json) dict res" where
  "create_celery_app repr_of sock a =
     (case validate_name repr_of (ca_default_queue a) ''default_queue'' of
        Inl e \<Rightarrow> Inl e
      | Inr _ \<Rightarrow>
          (case (case ca_task_namespace a of None \<Rightarrow> Inr [] | Some ns \<Rightarrow> validate_name repr_of ns ''task_namespace'') of
             Inl e \<Rightarrow> Inl e
           | Inr _ \<Rightarrow> apply_extra sock (ca_extra_config a) (optional_conf a (base_conf sock a))))"

section \<open>The correlation id of a task\<close>

text \<open>\<open>structlog\<close>'s context variables and the module's baseline; \<open>fresh\<close> stands for \<open>str(uuid.uuid4())\<close>.\<close>

record log_state =
  ls_context :: "(string, json) dict"
  ls_baseline :: "(string, json) dict"

definition context_correlation_id :: "log_state \<Rightarrow> json" where
  "context_correlation_id s = (case dict_get (ls_context s) ''correlation_id'' of Some v \<Rightarrow> v | None \<Rightarrow> JNull)"

definition CELERY_CORRELATION_HEADER :: string where
  "CELERY_CORRELATION_HEADER = ''x_tr_correlation_id''"

definition or_fresh :: "json \<Rightarrow> string \<Rightarrow> json" where
  "or_fresh v fresh = (if truthy v then v else JStr fresh)"

definition stamp_correlation_id :: "log_state \<Rightarrow> string \<Rightarrow> (string, json) dict option \<Rightarrow> (string, json) dict option" where
  "stamp_correlation_id s fresh headers =
     map_option (\<lambda>h. if dict_get h CELERY_CORRELATION_HEADER = None
                     then dict_set CELERY_CORRELATION_HEADER (or_fresh (context_correlation_id s) fresh) h else h) headers"

text \<open>\<open>bind_contextvars(**baseline, **fields)\<close> refuses a keyword given twice.\<close>

definition rebind :: "(string, json) dict \<Rightarrow> log_state \<Rightarrow> unit res \<times> log_state" where
  "rebind fs s =
     (if set (map fst fs) \<inter> set (map fst (ls_baseline s)) \<noteq> {}
      then (Inl (TypeError ''got multiple values for keyword argument''), s\<lparr>ls_context := []\<rparr>)
      else (Inr (), s\<lparr>ls_context := dict_merge (ls_baseline s) fs\<rparr>))"

record task_request =
  tr_is_eager :: bool
  tr_correlation_id :: json
  tr_task_id :: json
  tr_task_name :: string

definition bind_task_context :: "string \<Rightarrow> task_request \<Rightarrow> log_state \<Rightarrow> unit res \<times> log_state" where
  "bind_task_context fresh r s =
     (if tr_is_eager r then (Inr (), s)
      else rebind [(''correlation_id'', or_fresh (tr_correlation_id r) fresh), (''task_id'', tr_task_id r),
                   (''task_name'', JStr (tr_task_name r))] s)"

definition restore_baseline :: "task_request \<Rightarrow> log_state \<Rightarrow> unit res \<times> log_state" where
  "restore_baseline r s = (if tr_is_eager r then (Inr (), s) else rebind [] s)"

definition configure_worker_logging :: "string \<Rightarrow> log_state \<Rightarrow> log_state" where
  "configure_worker_logging service_name s =
     (let ctx = (if service_name = [] then ls_context s else dict_set ''service_name'' (JStr service_name) (ls_context s))
      in \<lparr>ls_context = ctx, ls_baseline = ctx\<rparr>)"

section \<open>The event loop of a worker\<close>

record worker =
  wk_loop :: "nat option"
  wk_closed :: "nat set"
  wk_next :: nat

definition usable :: "worker \<Rightarrow> bool" where
  "usable w = (case wk_loop w of None \<Rightarrow> False | Some l \<Rightarrow> l \<notin> wk_closed w)"

definition get_or_create_worker_loop :: "worker \<Rightarrow> nat \<times> worker" where
  "get_or_create_worker_loop w =
     (if usable w then (the (wk_loop w), w)
      else (wk_next w, w\<lparr>wk_loop := Some (wk_next w), wk_next := Suc (wk_next w)\<rparr>))"

text \<open>The coroutine runs on the loop it is given; its outcome is the outcome of the call.\<close>

definition run_async_in_celery :: "(nat \<Rightarrow> 'a res) \<Rightarrow> worker \<Rightarrow> 'a res \<times> worker" where
  "run_async_in_celery coro w = (case get_or_create_worker_loop w of (l, w') \<Rightarrow> (coro l, w'))"

text \<open>Cancelling what is pending and closing may fail; the loop is dropped either way, and it counts as closed when \<open>close\<close> worked.\<close>

definition shutdown_worker_loop :: "bool \<Rightarrow> worker \<Rightarrow> worker" where
  "shutdown_worker_loop close_works w =
     (if \<not> usable w then w\<lparr>wk_loop := None\<rparr>
      else w\<lparr>wk_loop := None, wk_closed := (if close_works then insert (the (wk_loop w)) (wk_closed w) else wk_closed w)\<rparr>)"

section \<open>Lemmas\<close>

lemma QUEUE_NAME_chars:
  assumes "QUEUE_NAME s" and "c \<in> set s"
  shows "name_char c \<or> (c = CHR 0x0A \<and> last s = c)"
proof -
  from assms(1) obtain d ds where d: "drop_final_newline s = d # ds" "lower_letter d" "list_all name_char ds"
    by (auto simp: QUEUE_NAME_def split: list.splits)
  have body: "name_char x" if "x \<in> set (drop_final_newline s)" for x
    using that d by (auto simp: name_char_def list_all_iff)
  show ?thesis
  proof (cases "s \<noteq> [] \<and> last s = CHR 0x0A")
    case True
    then have "s = drop_final_newline s @ [CHR 0x0A]" by (simp add: drop_final_newline_def) (metis append_butlast_last_id)
    with assms(2) have "c \<in> set (drop_final_newline s) \<or> c = CHR 0x0A" by (metis UnE set_append singletonD list.set(1) list.simps(15))
    with body True show ?thesis by auto
  next
    case False
    then have "drop_final_newline s = s" by (auto simp: drop_final_newline_def)
    with body assms(2) show ?thesis by simp
  qed
qed

lemma optional_conf_other:
  "k \<notin> {''include'', ''beat_schedule'', ''task_annotations'', ''task_default_dead_letter_queue''} \<Longrightarrow>
     dict_get (optional_conf a conf) k = dict_get conf k"
  by (simp add: optional_conf_def set_if_def)

lemma apply_extra_lookup:
  assumes "apply_extra sock extra conf = Inr c" and "dict_ok extra" and "k \<noteq> ''broker_transport_options''"
  shows "dict_get c k = (case dict_get extra k of Some v \<Rightarrow> Some v | None \<Rightarrow> dict_get conf k)"
proof -
  from assms(1) obtain c0 where "c = dict_merge c0 (dict_del ''broker_transport_options'' extra)" "dict_get c0 k = dict_get conf k"
    using assms(3) by (auto simp: apply_extra_def Let_def split: option.splits if_splits json.splits)
  with assms(2,3) show ?thesis by (simp add: dict_get_merge split: option.split)
qed

lemma apply_extra_transport:
  assumes "apply_extra sock extra conf = Inr c" and "dict_ok extra"
    and "dict_get conf ''broker_transport_options'' = Some (JDict (BROKER_TRANSPORT_OPTIONS sock))"
  shows "\<exists>d. dict_get c ''broker_transport_options'' = Some (JDict (dict_merge (BROKER_TRANSPORT_OPTIONS sock) d))
           \<and> (d = [] \<or> dict_get extra ''broker_transport_options'' = Some (JDict d))"
proof -
  have look: "dict_get (dict_merge c0 (dict_del ''broker_transport_options'' extra)) ''broker_transport_options'' =
      dict_get c0 ''broker_transport_options''" for c0
    using assms(2) by (simp add: dict_get_merge)
  show ?thesis
  proof (cases "dict_get extra ''broker_transport_options''")
    case None
    with assms(1,3) look show ?thesis by (auto simp: apply_extra_def Let_def)
  next
    case (Some v)
    show ?thesis
    proof (cases "truthy v")
      case True
      with assms(1) Some obtain d where "v = JDict d"
        "c = dict_merge (dict_set ''broker_transport_options'' (JDict (dict_merge (BROKER_TRANSPORT_OPTIONS sock) d)) conf)
               (dict_del ''broker_transport_options'' extra)"
        by (cases v) (auto simp: apply_extra_def Let_def)
      with Some look show ?thesis by auto
    next
      case False
      with assms(1,3) Some look show ?thesis by (intro exI [of _ "[]"]) (auto simp: apply_extra_def Let_def)
    qed
  qed
qed

lemma loop_persists:
  assumes "get_or_create_worker_loop w = (l, w')"
  shows "get_or_create_worker_loop w' = (l, w') \<or> l \<in> wk_closed w'"
  using assms by (auto simp: get_or_create_worker_loop_def usable_def split: if_splits option.splits)

lemma shutdown_idempotent: "shutdown_worker_loop b (shutdown_worker_loop b' w) = shutdown_worker_loop b' w"
  by (simp add: shutdown_worker_loop_def usable_def split: option.splits)

text \<open>Whatever a task bound, the next one starts from the baseline.\<close>

lemma task_context_restored:
  assumes "\<not> tr_is_eager r"
  shows "snd (restore_baseline r (snd (bind_task_context fresh r s))) = s\<lparr>ls_context := ls_baseline s\<rparr>"
  using assms by (simp add: restore_baseline_def bind_task_context_def rebind_def)

section \<open>Properties\<close>

text \<open>
  The configuration of a Celery app. When the factory returns, the default queue and the
  namespace consist of lower-case letters, digits and underscores, up to a newline at the very end;
  every setting is the caller's if the caller gave one and the factory's otherwise, tasks without a
  route go to the default queue; and the keep-alive options are there, key by key, unless the
  caller's own transport options set the same key.
\<close>

theorem celery_config_contract:
  assumes "create_celery_app repr_of sock a = Inr conf" and "dict_ok (ca_extra_config a)"
    and "\<forall>d. dict_get (ca_extra_config a) ''broker_transport_options'' = Some (JDict d) \<longrightarrow> dict_ok d"
  shows "(\<forall>c \<in> set (ca_default_queue a). name_char c \<or> (c = CHR 0x0A \<and> last (ca_default_queue a) = c))
    \<and> (\<forall>ns. ca_task_namespace a = Some ns \<longrightarrow> (\<forall>c \<in> set ns. name_char c \<or> (c = CHR 0x0A \<and> last ns = c)))
    \<and> dict_get conf ''task_default_queue'' =
        (case dict_get (ca_extra_config a) ''task_default_queue'' of Some v \<Rightarrow> Some v | None \<Rightarrow> Some (JStr (ca_default_queue a)))
    \<and> (\<forall>k. k \<notin> {''include'', ''beat_schedule'', ''task_annotations'', ''task_default_dead_letter_queue'', ''broker_transport_options''} \<longrightarrow>
         dict_get conf k = (case dict_get (ca_extra_config a) k of Some v \<Rightarrow> Some v | None \<Rightarrow> dict_get (base_conf sock a) k))
    \<and> (\<exists>t own. dict_get conf ''broker_transport_options'' = Some (JDict t) \<and> (own = [] \<or> dict_get (ca_extra_config a) ''broker_transport_options'' = Some (JDict own))
         \<and> (\<forall>k. dict_get t k = (case dict_get own k of Some v \<Rightarrow> Some v | None \<Rightarrow> dict_get (BROKER_TRANSPORT_OPTIONS sock) k)))"
proof -
  from assms(1) have q: "QUEUE_NAME (ca_default_queue a)" and ns: "\<And>ns. ca_task_namespace a = Some ns \<Longrightarrow> QUEUE_NAME ns"
    and ex: "apply_extra sock (ca_extra_config a) (optional_conf a (base_conf sock a)) = Inr conf"
    by (auto simp: create_celery_app_def validate_name_def split: if_splits option.splits sum.splits)
  have look: "dict_get conf k = (case dict_get (ca_extra_config a) k of Some v \<Rightarrow> Some v | None \<Rightarrow> dict_get (base_conf sock a) k)"
    if "k \<notin> {''include'', ''beat_schedule'', ''task_annotations'', ''task_default_dead_letter_queue'', ''broker_transport_options''}" for k
    using apply_extra_lookup [OF ex assms(2), of k] optional_conf_other [of k a "base_conf sock a"] that
    by (simp split: option.split)
  have "dict_get (optional_conf a (base_conf sock a)) ''broker_transport_options'' = Some (JDict (BROKER_TRANSPORT_OPTIONS sock))"
    by (simp add: optional_conf_other base_conf_def)
  from apply_extra_transport [OF ex assms(2) this] obtain own where
    own: "dict_get conf ''broker_transport_options'' = Some (JDict (dict_merge (BROKER_TRANSPORT_OPTIONS sock) own))"
      "own = [] \<or> dict_get (ca_extra_config a) ''broker_transport_options'' = Some (JDict own)" by (elim exE conjE) (rule that)
  then have "dict_ok own" using assms(3) by auto
  show ?thesis
  proof (intro conjI)
    show "dict_get conf ''task_default_queue'' =
        (case dict_get (ca_extra_config a) ''task_default_queue'' of Some v \<Rightarrow> Some v | None \<Rightarrow> Some (JStr (ca_default_queue a)))"
      using look [of "''task_default_queue''"] by (simp add: base_conf_def split: option.splits)
    show "\<exists>t own. dict_get conf ''broker_transport_options'' = Some (JDict t) \<and> (own = [] \<or> dict_get (ca_extra_config a) ''broker_transport_options'' = Some (JDict own))
         \<and> (\<forall>k. dict_get t k = (case dict_get own k of Some v \<Rightarrow> Some v | None \<Rightarrow> dict_get (BROKER_TRANSPORT_OPTIONS sock) k))"
      by (intro exI conjI allI, rule own(1), rule own(2), rule dict_get_merge [OF \<open>dict_ok own\<close>])
  qed (intro allI impI ballI look QUEUE_NAME_chars q ns; assumption)+
qed

definition demo_args :: celery_args where
  "demo_args = \<lparr>ca_default_queue = ''media_tasks'', ca_task_namespace = Some ''media'', ca_task_modules = [JStr ''app.tasks''],
     ca_beat_schedule = [], ca_task_time_limit = 600, ca_task_soft_time_limit = 540, ca_worker_prefetch_multiplier = 1,
     ca_task_annotations = [], ca_dead_letter_queue = None,
     ca_extra_config = [(''broker_transport_options'', JDict [(''visibility_timeout'', JInt 7200)])]\<rparr>"

theorem celery_config_contract_witness:
  "\<exists>conf. create_celery_app (\<lambda>s. s) (\<lambda>_. None) demo_args = Inr conf
     \<and> dict_get conf ''task_default_queue'' = Some (JStr ''media_tasks'') \<and> dict_get conf ''task_acks_late'' = Some (JBool True)"
proof -
  have names: "QUEUE_NAME ''media_tasks''" "QUEUE_NAME ''media''" by code_simp+
  then obtain conf where conf: "create_celery_app (\<lambda>s. s) (\<lambda>_. None) demo_args = Inr conf"
    by (simp add: create_celery_app_def validate_name_def demo_args_def apply_extra_def Let_def)
  have "dict_ok (ca_extra_config demo_args)"
    "\<forall>d. dict_get (ca_extra_config demo_args) ''broker_transport_options'' = Some (JDict d) \<longrightarrow> dict_ok d"
    by (auto simp: demo_args_def dict_ok_def)
  note contract = celery_config_contract [OF conf this, THEN conjunct2, THEN conjunct2]
  have "dict_get conf ''task_default_queue'' = Some (JStr ''media_tasks'')"
    using contract [THEN conjunct1] by (simp add: demo_args_def)
  moreover have "dict_get conf ''task_acks_late'' = Some (JBool True)"
    using contract [THEN conjunct2, THEN conjunct1, THEN spec, of "''task_acks_late''"] by (simp add: demo_args_def base_conf_def)
  ultimately show ?thesis using conf by blast
qed

text \<open>The pattern accepts a name with a newline at its end.\<close>

lemma trailing_newline_accepted: "QUEUE_NAME (''media_tasks'' @ [CHR 0x0A])"
  by code_simp

end
