(* ===== verification/Service_Runtime.thy ===== *)
theory Service_Runtime
  imports Db_Urls Api_Exceptions Contracts Db_Session
begin

text \<open>
  The pieces every service mounts: the checks of its settings (\<open>config/base.py\<close>, \<open>config/csv_list.py\<close>,
  \<open>config/env_audit.py\<close>), the health endpoints (\<open>health/router.py\<close>), the Vault client (\<open>vault.py\<close>), the identity
  dependencies (\<open>web/dependencies.py\<close>), the pagination envelope (\<open>schemas/responses.py\<close>) and phone
  numbers (\<open>phone.py\<close>). pydantic, the database, Redis and \<open>phonenumbers\<close> are arguments.
\<close>

section \<open>Comma-separated values\<close>

definition csv_items :: "string \<Rightarrow> string list" where
  "csv_items s = filter (\<lambda>x. x \<noteq> []) (map strip (split_char CHR '','' s))"

definition split_csv :: "json \<Rightarrow> json res" where
  "split_csv v =
     (case v of
        JStr s \<Rightarrow>
          if prefix ''['' (lstrip s) \<or> prefix ''{'' (lstrip s)
          then Inl (ValueError ''JSON is not accepted in an environment value; use a comma-separated list'')
          else Inr (JList (map JStr (csv_items s)))
      | _ \<Rightarrow> Inr v)"

section \<open>Settings\<close>

text \<open>The settings the validator reads; \<open>CORS_ORIGINS\<close> is a string or, in one service, already a list of strings.\<close>

datatype cors = CorsText string | CorsList "string list"

record service_settings =
  st_ENVIRONMENT :: Environment
  st_SUPABASE_URL :: string
  st_SUPABASE_JWT_AUDIENCE :: string
  st_JWKS_URL :: string
  st_SERVICE_TOKEN :: string
  st_CORS_ORIGINS :: cors
  st_REDIS_URL :: string
  st_CELERY_BROKER_URL :: string
  st_DATABASE_URL :: string
  st_DATABASE_STATEMENT_TIMEOUT_PROFILE :: StatementTimeoutProfile

definition get_cors_origins :: "service_settings \<Rightarrow> string list res" where
  "get_cors_origins st =
     (case st_CORS_ORIGINS st of
        CorsText s \<Rightarrow> Inr (csv_items s)
      | CorsList _ \<Rightarrow> Inl (AttributeError ''list object has no attribute split''))"

definition cors_origin_list :: "service_settings \<Rightarrow> string list" where
  "cors_origin_list st =
     (case st_CORS_ORIGINS st of CorsText s \<Rightarrow> csv_items s | CorsList xs \<Rightarrow> filter (\<lambda>x. x \<noteq> []) (map strip xs))"

definition is_production :: "service_settings \<Rightarrow> bool" where
  "is_production st = (st_ENVIRONMENT st = Env_PRODUCTION)"

definition is_development :: "service_settings \<Rightarrow> bool" where
  "is_development st = (st_ENVIRONMENT st = Env_DEVELOPMENT)"

definition settings_is_local :: "service_settings \<Rightarrow> bool" where
  "settings_is_local st = (st_ENVIRONMENT st \<in> {Env_DEVELOPMENT, Env_TEST})"

definition database_statement_timeout_seconds :: "service_settings \<Rightarrow> int" where
  "database_statement_timeout_seconds st = DB_STATEMENT_TIMEOUT_SECONDS (st_DATABASE_STATEMENT_TIMEOUT_PROFILE st)"

text \<open>\<open>"*" in CORS_ORIGINS\<close>: a character of the text, or an element of the list.\<close>

definition has_wildcard :: "cors \<Rightarrow> bool" where
  "has_wildcard c = (case c of CorsText s \<Rightarrow> CHR ''*'' \<in> set s | CorsList xs \<Rightarrow> ''*'' \<in> set xs)"

definition url_fields :: "service_settings \<Rightarrow> (string \<times> string) list" where
  "url_fields st = [(''REDIS_URL'', st_REDIS_URL st), (''CELERY_BROKER_URL'', st_CELERY_BROKER_URL st), (''DATABASE_URL'', st_DATABASE_URL st)]"

definition validate_production_config :: "service_settings \<Rightarrow> service_settings res" where
  "validate_production_config st =
     (if \<not> is_production st then Inr st
      else if st_SUPABASE_URL st \<noteq> [] \<and> st_SUPABASE_JWT_AUDIENCE st = []
      then Inl (ValueError ''SUPABASE_JWT_AUDIENCE required when SUPABASE_URL is set'')
      else if st_SUPABASE_URL st \<noteq> [] \<and> st_JWKS_URL st = [] then Inl (ValueError ''JWKS_URL required when SUPABASE_URL is set'')
      else if has_wildcard (st_CORS_ORIGINS st) then Inl (ValueError ''CORS wildcard not allowed in production'')
      else if filter (\<lambda>x. \<not> prefix ''https://'' x) (cors_origin_list st) \<noteq> []
      then Inl (ValueError (''CORS_ORIGINS must be https:// in production; remove or replace: '' @
             join '', '' (filter (\<lambda>x. \<not> prefix ''https://'' x) (cors_origin_list st))))
      else if st_SERVICE_TOKEN st = [] then Inl (ValueError ''SERVICE_TOKEN required in production'')
      else case find (\<lambda>(_, v). v \<noteq> [] \<and> sublist ''localhost'' v) (url_fields st) of
             Some (f, _) \<Rightarrow> Inl (ValueError (f @ '' must not point to localhost in production''))
           | None \<Rightarrow> Inr st)"

section \<open>The keys of an environment\<close>

text \<open>
  \<open>_KEY_RE.match(line)\<close>: white space, an optional \<open>export\<close> with white space, a name, white space, an equals sign. The
  optional part is tried first and given up when the rest does not match.
\<close>

definition key_start :: "char \<Rightarrow> bool" where
  "key_start c = (is_alpha c \<or> c = CHR ''_'')"

definition key_char :: "char \<Rightarrow> bool" where
  "key_char c = (key_start c \<or> is_digit c)"

definition assigned_name :: "string \<Rightarrow> string option" where
  "assigned_name s =
     (let name = takeWhile key_char s; rest = lstrip (dropWhile key_char s)
      in if s \<noteq> [] \<and> key_start (hd s) \<and> prefix ''='' rest then Some name else None)"

definition env_key :: "string \<Rightarrow> string option" where
  "env_key line =
     (let s = lstrip line; rest = drop 6 s in
      case (if prefix ''export'' s \<and> rest \<noteq> [] \<and> is_space (hd rest) then assigned_name (lstrip rest) else None) of
        Some k \<Rightarrow> Some k
      | None \<Rightarrow> assigned_name s)"

definition parse_env_keys :: "string list \<Rightarrow> string set" where
  "parse_env_keys lines = {k. \<exists>l \<in> set lines. env_key l = Some k}"

text \<open>The validation field_alias of a field: a name, a choice of names and paths, or a path.\<close>

datatype field_alias = NoAlias | AliasName string | AliasChoices "string option list" | AliasPath "string option"

definition aliases :: "field_alias \<Rightarrow> string list" where
  "aliases a =
     (case a of NoAlias \<Rightarrow> [] | AliasName s \<Rightarrow> [s] | AliasChoices cs \<Rightarrow> concat (map (\<lambda>c. case c of Some s \<Rightarrow> [s] | None \<Rightarrow> []) cs)
      | AliasPath p \<Rightarrow> (case p of Some s \<Rightarrow> [s] | None \<Rightarrow> []))"

record settings_class =
  sc_env_prefix :: string
  sc_env_prefix_target :: string
  sc_case_sensitive :: bool
  sc_populate_by_name :: bool
  sc_fields :: "(string \<times> field_alias) list"

definition upper :: "string \<Rightarrow> string" where
  "upper s = map (\<lambda>c. let n = (of_char c :: nat) in if 97 \<le> n \<and> n \<le> 122 then char_of (n - 32) else c) s"

definition field_keys :: "settings_class \<Rightarrow> string \<times> field_alias \<Rightarrow> string list" where
  "field_keys c f =
     (case f of (name, field_alias) \<Rightarrow>
        let names = aliases field_alias;
            target = (if sc_env_prefix_target c = [] then ''variable'' else sc_env_prefix_target c);
            alias_prefix = (if target \<in> {''alias'', ''all''} then sc_env_prefix c else []);
            name_prefix = (if target \<in> {''variable'', ''all''} then sc_env_prefix c else [])
        in map (\<lambda>a. alias_prefix @ a) names @ (if names = [] \<or> sc_populate_by_name c then [name_prefix @ name] else []))"

definition declared_env_keys_by_sensitivity :: "settings_class list \<Rightarrow> string set \<times> string set" where
  "declared_env_keys_by_sensitivity classes =
     ((\<Union>c \<in> set (filter sc_case_sensitive classes). \<Union>f \<in> set (sc_fields c). set (field_keys c f)),
      (\<Union>c \<in> set (filter (\<lambda>c. \<not> sc_case_sensitive c) classes). \<Union>f \<in> set (sc_fields c). upper ` set (field_keys c f)))"

definition declared_env_keys :: "settings_class list \<Rightarrow> string set" where
  "declared_env_keys classes = (case declared_env_keys_by_sensitivity classes of (a, b) \<Rightarrow> a \<union> b)"

section \<open>Health\<close>

definition PROBE_TIMEOUT_SECONDS :: int where
  "PROBE_TIMEOUT_SECONDS = DB_CONNECT_TIMEOUT_SECONDS + 1"

record component_check =
  ck_name :: string
  ck_healthy :: bool

text \<open>\<open>check\<close> under its timeout, which shows as a \<open>TimeoutError\<close>; the latency is a measurement and left out.\<close>

definition probe :: "string \<Rightarrow> ('w, unit) io \<Rightarrow> ('w, component_check) io" where
  "probe name check =
     io_except is_Exception
       (io_bind check (\<lambda>_. io_return \<lparr>ck_name = name, ck_healthy = True\<rparr>))
       (\<lambda>_. io_return \<lparr>ck_name = name, ck_healthy = False\<rparr>)"

text \<open>\<open>ping_redis\<close>: \<open>client\<close> is the factory the service gave, \<open>ping\<close> the command.\<close>

definition ping_redis :: "('w, 'r option) io \<Rightarrow> ('r \<Rightarrow> ('w, bool) io) \<Rightarrow> ('w, unit) io" where
  "ping_redis client ping =
     io_bind client (\<lambda>c. case c of
        None \<Rightarrow> io_raise (ConnectionError ''Redis client unavailable'')
      | Some r \<Rightarrow> io_bind (ping r) (\<lambda>_. io_return ()))"

definition ping_database :: "('w, unit) io \<Rightarrow> ('w, unit) io \<Rightarrow> ('w, unit) io \<Rightarrow> ('w, unit) io" where
  "ping_database connect select_one disconnect = io_bind connect (\<lambda>_. io_finally select_one disconnect)"

definition readiness_body :: "string \<Rightarrow> component_check list \<Rightarrow> json" where
  "readiness_body service details =
     JDict [(''status'', JStr (if list_all ck_healthy details then ''ready'' else ''not_ready'')), (''service'', JStr service),
            (''checks'', JDict (map (\<lambda>d. (ck_name d, JBool (ck_healthy d))) details))]"

definition readiness :: "string \<Rightarrow> ('w, unit) io \<Rightarrow> ('w, unit) io \<Rightarrow> ('w, int \<times> json) io" where
  "readiness service database redis =
     io_bind (probe ''database'' database) (\<lambda>d.
     io_bind (probe ''redis'' redis) (\<lambda>r.
       let details = [d, r]
       in io_return (if list_all ck_healthy details then 200 else 503, readiness_body service details)))"

section \<open>The Vault\<close>

text \<open>The statements of \<open>VaultService\<close> on the caller's session.\<close>

record 'w vault_env =
  va_delete_named :: "string \<Rightarrow> ('w, unit) io"
  va_create :: "string \<Rightarrow> string option \<Rightarrow> string \<Rightarrow> ('w, string) io"
  va_read :: "string \<Rightarrow> ('w, string option) io"
  va_update :: "string \<Rightarrow> string \<Rightarrow> string option \<Rightarrow> string option \<Rightarrow> ('w, unit) io"
  va_delete :: "string \<Rightarrow> ('w, unit) io"

definition is_TimeoutError :: "exn \<Rightarrow> bool" where
  "is_TimeoutError e = (case e of TimeoutError _ \<Rightarrow> True | _ \<Rightarrow> False)"

text \<open>\<open>asyncio.wait_for\<close> shows as a \<open>TimeoutError\<close> of the statement it cut short.\<close>

definition vault_guard :: "('w, 'a) io \<Rightarrow> ('w, 'a) io" where
  "vault_guard op =
     io_except is_TimeoutError op (\<lambda>_. io_raise (ApiError (ServiceUnavailableError (JStr ''Vault operation timed out'') JNull None)))"

definition create_secret :: "'w vault_env \<Rightarrow> string \<Rightarrow> string option \<Rightarrow> string option \<Rightarrow> ('w, string) io" where
  "create_secret env secret_value name description =
     vault_guard
       (io_bind (case name of Some n \<Rightarrow> if n = [] then io_return () else va_delete_named env n | None \<Rightarrow> io_return ()) (\<lambda>_.
        va_create env secret_value name (case description of Some d \<Rightarrow> d | None \<Rightarrow> [])))"

definition read_secret :: "'w vault_env \<Rightarrow> string \<Rightarrow> ('w, string option) io" where
  "read_secret env secret_id = vault_guard (va_read env secret_id)"

definition update_secret :: "'w vault_env \<Rightarrow> string \<Rightarrow> string \<Rightarrow> string option \<Rightarrow> string option \<Rightarrow> ('w, unit) io" where
  "update_secret env secret_id new_secret name description = vault_guard (va_update env secret_id new_secret name description)"

definition delete_secret :: "'w vault_env \<Rightarrow> string \<Rightarrow> ('w, unit) io" where
  "delete_secret env secret_id = vault_guard (va_delete env secret_id)"

section \<open>Identity, pages, phone numbers\<close>

text \<open>\<open>request.state.identity\<close>: absent, or with an optional tenant and site.\<close>

record gateway_identity =
  gi_tenant_id :: "string option"
  gi_site_id :: "string option"

definition get_gateway_tenant_id :: "gateway_identity option \<Rightarrow> string res" where
  "get_gateway_tenant_id identity =
     (case Option.bind identity gi_tenant_id of
        Some t \<Rightarrow> Inr t
      | None \<Rightarrow> Inl (ApiError (AuthenticationError (JStr ''Request carries no verified tenant identity'') JNull None)))"

definition get_gateway_site_id :: "gateway_identity option \<Rightarrow> string option" where
  "get_gateway_site_id identity = (case identity of Some i \<Rightarrow> gi_site_id i | None \<Rightarrow> None)"

text \<open>The page count of \<open>PaginationData\<close>; the division of the source is a float division, exact up to 2^53.\<close>

definition pagination_total_pages :: "int \<Rightarrow> int \<Rightarrow> int option \<Rightarrow> int" where
  "pagination_total_pages total_items page_size given =
     (if page_size = 0 then 0 else \<lceil>(of_int total_items :: rat) / of_int page_size\<rceil>)"

record 'p phone_env =
  ph_parse :: "string \<Rightarrow> string option \<Rightarrow> 'p option"
  ph_is_valid :: "'p \<Rightarrow> bool"
  ph_format_e164 :: "'p \<Rightarrow> string"
  ph_contactable :: "'p \<Rightarrow> bool"

definition to_e164 :: "'p phone_env \<Rightarrow> string option \<Rightarrow> string \<Rightarrow> string option" where
  "to_e164 env v default_region =
     (case v of
        None \<Rightarrow> None
      | Some s \<Rightarrow>
          if s = [] then None
          else case ph_parse env s (Some default_region) of
                 None \<Rightarrow> None
               | Some p \<Rightarrow> if ph_is_valid env p then Some (ph_format_e164 env p) else None)"

definition is_whatsapp_reachable :: "'p phone_env \<Rightarrow> string \<Rightarrow> bool res" where
  "is_whatsapp_reachable env e164 =
     (case ph_parse env e164 None of
        None \<Rightarrow> Inl (OtherException ''NumberParseException'')
      | Some p \<Rightarrow> Inr (ph_contactable env p))"

section \<open>Lemmas\<close>

lemma csv_items_join:
  assumes "\<forall>x \<in> set xs. strip x = x \<and> x \<noteq> [] \<and> CHR '','' \<notin> set x"
  shows "csv_items (join '','' xs) = xs"
proof (cases "xs = []")
  case True
  then show ?thesis by (simp add: csv_items_def strip_def)
next
  case False
  with assms have "split_char CHR '','' (join '','' xs) = xs" by (intro split_char_join) auto
  moreover have "map strip xs = xs" "filter (\<lambda>x. x \<noteq> []) xs = xs" using assms by (simp_all add: map_idI)
  ultimately show ?thesis by (simp add: csv_items_def)
qed

lemma strip_first: "strip x = x \<Longrightarrow> x \<noteq> [] \<Longrightarrow> \<not> is_space (hd x)"
proof
  assume x: "strip x = x" "x \<noteq> []" and sp: "is_space (hd x)"
  then have "length (dropWhile is_space x) < length x" by (cases x) (simp_all add: le_imp_less_Suc length_dropWhile_le)
  moreover have "length (strip x) \<le> length (dropWhile is_space x)" by (simp add: strip_def) (metis length_dropWhile_le length_rev)
  ultimately show False using x(1) by simp
qed

lemma hd_join: "x \<noteq> [] \<Longrightarrow> join sep (x # xs) \<noteq> [] \<and> hd (join sep (x # xs)) = hd x"
  by (cases xs) simp_all

lemma probe_returns:
  assumes "\<And>e. fst (check w) = Inl e \<Longrightarrow> is_Exception e"
  shows "\<exists>w'. probe name check w = (Inr \<lparr>ck_name = name, ck_healthy = (\<exists>x. fst (check w) = Inr x)\<rparr>, w')"
  using assms by (cases "check w"; cases "fst (check w)") (auto simp: probe_def io_defs)

text \<open>A page of a listing has rows exactly up to the page count.\<close>

lemma pages_up_to_total:
  assumes "1 \<le> page" and "1 \<le> per_page"
  shows "(take (nat per_page) (drop (nat ((page - 1) * per_page)) rows) \<noteq> []) = (page \<le> pagination_total_pages (int (length rows)) per_page given)"
proof -
  have "(take (nat per_page) (drop (nat ((page - 1) * per_page)) rows) \<noteq> []) = ((page - 1) * per_page < int (length rows))"
    using assms by (simp add: nat_less_iff not_le)
  also have "\<dots> = ((of_int (page - 1) :: rat) < of_int (int (length rows)) / of_int per_page)"
  proof -
    have "((of_int (page - 1) :: rat) < of_int (int (length rows)) / of_int per_page) = (of_int ((page - 1) * per_page) < (of_int (int (length rows)) :: rat))"
      using assms(2) by (simp add: pos_less_divide_eq)
    then show ?thesis by (simp only: of_int_less_iff)
  qed
  also have "\<dots> = (page - 1 < \<lceil>(of_int (int (length rows)) :: rat) / of_int per_page\<rceil>)" by (simp only: less_ceiling_iff)
  finally show ?thesis using assms(2) by (auto simp: pagination_total_pages_def)
qed

text \<open>A key that is found is a name.\<close>

lemma assigned_name_ident: "assigned_name s = Some k \<Longrightarrow> k \<noteq> [] \<and> key_start (hd k) \<and> list_all key_char k"
proof -
  assume "assigned_name s = Some k"
  then have "s \<noteq> []" "key_start (hd s)" "k = takeWhile key_char s" by (auto simp: assigned_name_def Let_def split: if_splits)
  then show ?thesis by (cases s) (auto simp: key_char_def list_all_iff dest: set_takeWhileD)
qed

lemma env_key_ident: "env_key l = Some k \<Longrightarrow> k \<noteq> [] \<and> key_start (hd k) \<and> list_all key_char k"
  by (auto simp: env_key_def Let_def split: option.splits if_splits dest: assigned_name_ident)

text \<open>A Vault call lets no \<open>TimeoutError\<close> out.\<close>

lemma vault_guard_no_timeout: "io_raises (\<lambda>e. \<not> is_TimeoutError e) (vault_guard op)"
  unfolding vault_guard_def by (intro io_raises_except io_raises_raise) (simp_all add: io_raises_def is_TimeoutError_def)

section \<open>Properties\<close>

text \<open>
  A list written as comma-separated text is read back as that list, for items without a comma
  and without white space around them, unless the first looks like the beginning of a JSON value.
\<close>

theorem csv_round_trip:
  assumes "\<forall>x \<in> set xs. strip x = x \<and> x \<noteq> [] \<and> CHR '','' \<notin> set x"
    and "xs \<noteq> [] \<Longrightarrow> hd (hd xs) \<noteq> CHR ''['' \<and> hd (hd xs) \<noteq> CHR ''{''"
  shows "split_csv (JStr (join '','' xs)) = Inr (JList (map JStr xs))"
proof -
  have "\<not> prefix ''['' (lstrip (join '','' xs)) \<and> \<not> prefix ''{'' (lstrip (join '','' xs))"
  proof (cases xs)
    case Nil
    then show ?thesis by (simp add: lstrip_def)
  next
    case (Cons x ys)
    with assms(1) have x: "x \<noteq> []" "\<not> is_space (hd x)" using strip_first [of x] by simp_all
    then have "lstrip (join '','' xs) = join '','' xs"
      using hd_join [OF x(1), of "'',''" ys] Cons by (cases "join '','' xs") (simp_all add: lstrip_def)
    with assms(2) Cons x hd_join [OF x(1), of "'',''" ys] show ?thesis by (cases "join '','' xs") auto
  qed
  with csv_items_join [OF assms(1)] show ?thesis by (simp add: split_csv_def)
qed

theorem csv_round_trip_witness: "split_csv (JStr (join '','' [''https://a'', ''https://b''])) = Inr (JList [JStr ''https://a'', JStr ''https://b''])"
  using csv_round_trip [of "[''https://a'', ''https://b'']"] by (simp add: strip_def is_space_def)

text \<open>
  The readiness endpoint answers whatever its checks do, short of a cancellation: 200 when both
  the database and Redis answered, and 503 with the failing component otherwise.
\<close>

theorem readiness_contract:
  assumes "\<And>w e. fst (database w) = Inl e \<Longrightarrow> is_Exception e" and "\<And>w e. fst (redis w) = Inl e \<Longrightarrow> is_Exception e"
  shows "\<exists>w1 w2 db_ok redis_ok. probe ''database'' database w = (Inr \<lparr>ck_name = ''database'', ck_healthy = db_ok\<rparr>, w1)
    \<and> db_ok = (\<exists>x. fst (database w) = Inr x) \<and> redis_ok = (\<exists>x. fst (redis w1) = Inr x)
    \<and> readiness service database redis w =
        (Inr (if db_ok \<and> redis_ok then 200 else 503,
              JDict [(''status'', JStr (if db_ok \<and> redis_ok then ''ready'' else ''not_ready'')), (''service'', JStr service),
                     (''checks'', JDict [(''database'', JBool db_ok), (''redis'', JBool redis_ok)])]), w2)"
proof -
  obtain w1 where d: "probe ''database'' database w = (Inr \<lparr>ck_name = ''database'', ck_healthy = (\<exists>x. fst (database w) = Inr x)\<rparr>, w1)"
    using probe_returns [of database w "''database''"] assms(1) by auto
  obtain w2 where r: "probe ''redis'' redis w1 = (Inr \<lparr>ck_name = ''redis'', ck_healthy = (\<exists>x. fst (redis w1) = Inr x)\<rparr>, w2)"
    using probe_returns [of redis w1 "''redis''"] assms(2) by auto
  from d r have "readiness service database redis w =
      (Inr (if (\<exists>x. fst (database w) = Inr x) \<and> (\<exists>x. fst (redis w1) = Inr x) then 200 else 503,
        readiness_body service [\<lparr>ck_name = ''database'', ck_healthy = (\<exists>x. fst (database w) = Inr x)\<rparr>,
          \<lparr>ck_name = ''redis'', ck_healthy = (\<exists>x. fst (redis w1) = Inr x)\<rparr>]), w2)"
    by (simp add: readiness_def io_bind_def io_return_def Let_def)
  then have "readiness service database redis w =
      (Inr (if (\<exists>x. fst (database w) = Inr x) \<and> (\<exists>x. fst (redis w1) = Inr x) then 200 else 503,
            JDict [(''status'', JStr (if (\<exists>x. fst (database w) = Inr x) \<and> (\<exists>x. fst (redis w1) = Inr x) then ''ready'' else ''not_ready'')),
                   (''service'', JStr service),
                   (''checks'', JDict [(''database'', JBool (\<exists>x. fst (database w) = Inr x)), (''redis'', JBool (\<exists>x. fst (redis w1) = Inr x))])]), w2)"
    by (simp add: readiness_body_def)
  with d show ?thesis by (intro exI [of _ w1] exI [of _ w2] exI conjI) (rule refl | assumption)+
qed

theorem readiness_contract_witness:
  "\<exists>w'. readiness ''lead'' (\<lambda>w. (Inl (ConnectionError ''down''), w)) (\<lambda>w. (Inr (), w)) () =
     (Inr (503, JDict [(''status'', JStr ''not_ready''), (''service'', JStr ''lead''),
        (''checks'', JDict [(''database'', JBool False), (''redis'', JBool True)])]), w')"
proof -
  have down: "\<And>w e. fst ((\<lambda>w. (Inl (ConnectionError ''down''), w)) w) = Inl e \<Longrightarrow> is_Exception e" by (auto simp: is_Exception_def)
  have up: "\<And>w e. fst ((\<lambda>w. (Inr (), w)) w) = Inl e \<Longrightarrow> is_Exception e" by simp
  show ?thesis using readiness_contract [where database = "\<lambda>w. (Inl (ConnectionError ''down''), w)" and redis = "\<lambda>w. (Inr (), w)"
      and w = "()" and service = "''lead''", OF down up] by auto
qed

text \<open>
  Settings that pass validation in production: every CORS origin, however the setting is
  written, is an https URL and none is a wildcard, the service token is set, and the Redis, broker and
  database URLs do not mention localhost. Outside production nothing is required.
\<close>

theorem production_settings_guarded:
  assumes "validate_production_config st = Inr st'"
  shows "st' = st \<and> (is_production st \<longrightarrow>
     (\<forall>x \<in> set (cors_origin_list st). prefix ''https://'' x \<and> x \<noteq> ''*'')
     \<and> (\<forall>s. st_CORS_ORIGINS st = CorsText s \<longrightarrow> get_cors_origins st = Inr (cors_origin_list st) \<and> CHR ''*'' \<notin> set s)
     \<and> st_SERVICE_TOKEN st \<noteq> []
     \<and> (st_SUPABASE_URL st \<noteq> [] \<longrightarrow> st_SUPABASE_JWT_AUDIENCE st \<noteq> [] \<and> st_JWKS_URL st \<noteq> [])
     \<and> (\<forall>(f, v) \<in> set (url_fields st). \<not> sublist ''localhost'' v))"
proof (intro conjI impI)
  show "st' = st" using assms by (auto simp: validate_production_config_def split: if_splits option.splits)
  assume prod: "is_production st"
  note passed = assms [unfolded validate_production_config_def]
  have wild: "\<not> has_wildcard (st_CORS_ORIGINS st)" using passed prod by (simp split: if_splits)
  have https: "prefix ''https://'' x" if "x \<in> set (cors_origin_list st)" for x
  proof -
    have "filter (\<lambda>x. \<not> prefix ''https://'' x) (cors_origin_list st) = []" using passed prod by (simp split: if_splits)
    with that show ?thesis by (auto simp: filter_empty_conv)
  qed
  show "\<forall>x \<in> set (cors_origin_list st). prefix ''https://'' x \<and> x \<noteq> ''*''"
  proof
    fix x assume "x \<in> set (cors_origin_list st)"
    then have "prefix ''https://'' x" by (rule https)
    then show "prefix ''https://'' x \<and> x \<noteq> ''*''" by auto
  qed
  show "\<forall>s. st_CORS_ORIGINS st = CorsText s \<longrightarrow> get_cors_origins st = Inr (cors_origin_list st) \<and> CHR ''*'' \<notin> set s"
    using wild by (auto simp: get_cors_origins_def cors_origin_list_def has_wildcard_def)
  show "st_SERVICE_TOKEN st \<noteq> []" using passed prod by (simp split: if_splits)
  show "st_SUPABASE_JWT_AUDIENCE st \<noteq> []" "st_JWKS_URL st \<noteq> []" if "st_SUPABASE_URL st \<noteq> []"
    using passed prod that by (simp_all split: if_splits)
  have "find (\<lambda>(_, v). v \<noteq> [] \<and> sublist ''localhost'' v) (url_fields st) = None"
    using passed prod by (simp split: if_splits option.splits prod.splits)
  moreover have "\<not> sublist ''localhost'' []" by simp
  ultimately show "\<forall>(f, v) \<in> set (url_fields st). \<not> sublist ''localhost'' v"
    unfolding find_None_iff by blast
qed

definition live_settings :: service_settings where
  "live_settings = \<lparr>st_ENVIRONMENT = Env_PRODUCTION, st_SUPABASE_URL = [], st_SUPABASE_JWT_AUDIENCE = [], st_JWKS_URL = [],
     st_SERVICE_TOKEN = ''token'', st_CORS_ORIGINS = CorsText ''https://app.example, '', st_REDIS_URL = ''redis://cache:6379/0'',
     st_CELERY_BROKER_URL = ''redis://cache:6379/1'', st_DATABASE_URL = ''postgresql://db/x'',
     st_DATABASE_STATEMENT_TIMEOUT_PROFILE = REQUEST\<rparr>"

theorem production_settings_guarded_witness: "prefix ''https://'' (hd (cors_origin_list live_settings))"
proof -
  have ok: "validate_production_config live_settings = Inr live_settings" by code_simp
  have "cors_origin_list live_settings = [''https://app.example'']" by code_simp
  with production_settings_guarded [OF ok] show ?thesis by (simp add: is_production_def live_settings_def)
qed

end
