(* ===== verification/Monitoring.thy ===== *)
theory Monitoring
  imports Service_Runtime Path_Normalizer
begin

text \<open>
  \<open>monitoring\<close>: the metrics middleware, the Loki handler, the Celery and database
  instrumentation and the provider factory. What OpenTelemetry's instruments received is kept as a list of
  measurements; the HTTP client of the Loki handler, the clock and \<open>json.dumps\<close> are arguments.
\<close>

section \<open>The metrics middleware\<close>

datatype measurement =
    RequestCount "(string, string) dict"
  | RequestDuration "(string, string) dict"
  | ErrorCount "(string, string) dict"
  | ActiveRequests int "(string, string) dict"

record metrics_config =
  mw_service_name :: string
  mw_instruments :: bool
  mw_excluded_paths :: "string list"
  mw_classifier :: "(string \<Rightarrow> string option res) option"

definition METRICS_EXCLUDED_PATHS :: "string list" where
  "METRICS_EXCLUDED_PATHS =
     [''/'', ''/health'', ''/health/ready'', ''/health/live'', ''/api/v1/health'', ''/api/v1/health/ready'', ''/api/v1/health/live'',
      ''/metrics'', ''/docs'', ''/redoc'', ''/openapi.json'']"

definition new_metrics_middleware ::
  "string \<Rightarrow> bool \<Rightarrow> string list \<Rightarrow> (string \<Rightarrow> string option res) option \<Rightarrow> metrics_config" where
  "new_metrics_middleware service_name instruments excluded classifier =
     \<lparr>mw_service_name = service_name, mw_instruments = instruments,
      mw_excluded_paths = (if excluded = [] then METRICS_EXCLUDED_PATHS else excluded), mw_classifier = classifier\<rparr>"

text \<open>The state: the measurements so far, and the world of the application.\<close>

type_synonym ('w, 'a) metrics_io = "(measurement list \<times> 'w, 'a) io"

definition measured :: "measurement list \<Rightarrow> ('w, unit) metrics_io" where
  "measured ms s = (Inr (), (fst s @ ms, snd s))"

definition base_labels :: "metrics_config \<Rightarrow> string \<Rightarrow> string \<Rightarrow> (string, string) dict" where
  "base_labels cfg path meth =
     [(''service'', mw_service_name cfg), (''http.route'', normalize_path path), (''http.method'', meth)]"

definition status_labels :: "(string, string) dict \<Rightarrow> string \<Rightarrow> (string, string) dict" where
  "status_labels labels sc = labels @ [(''http.status_code'', sc)]"

definition business_measurements :: "metrics_config \<Rightarrow> string \<Rightarrow> string \<Rightarrow> int \<Rightarrow> measurement list res" where
  "business_measurements cfg path meth sc =
     (case mw_classifier cfg of
        None \<Rightarrow> Inr []
      | Some classify \<Rightarrow>
          (case classify path of
             Inl e \<Rightarrow> Inl e
           | Inr None \<Rightarrow> Inr []
           | Inr (Some d) \<Rightarrow>
               if d = [] then Inr []
               else let labels = [(''service'', mw_service_name cfg), (''domain'', d), (''http.method'', meth), (''http.status_code'', string_of_int sc)]
                    in Inr [RequestCount labels, RequestDuration labels]))"

definition metrics_dispatch :: "metrics_config \<Rightarrow> string \<Rightarrow> string \<Rightarrow> ('w, http_response) io \<Rightarrow> ('w, http_response) metrics_io" where
  "metrics_dispatch cfg path meth call_next =
     (if \<not> mw_instruments cfg \<or> path \<in> set (mw_excluded_paths cfg) then on_snd call_next
      else
        let base = base_labels cfg path meth in
        io_bind (measured [ActiveRequests 1 base]) (\<lambda>_.
        io_finally
          (io_except is_Exception
             (io_bind (on_snd call_next) (\<lambda>response.
                let labels = status_labels base (string_of_int (status_code response)) in
                io_bind (measured ([RequestCount labels, RequestDuration labels] @
                                  (if status_code response \<ge> 400 then [ErrorCount labels] else []))) (\<lambda>_.
                io_bind (lift_res (business_measurements cfg path meth (status_code response))) (\<lambda>ms.
                io_bind (measured ms) (\<lambda>_. io_return response)))))
             (\<lambda>e. let labels = status_labels base ''500'' in
                   io_bind (measured [RequestCount labels, RequestDuration labels, ErrorCount labels]) (\<lambda>_. io_raise e)))
          (measured [ActiveRequests (- 1) base])))"

text \<open>The value of the gauge for a set of labels.\<close>

definition active :: "(string, string) dict \<Rightarrow> measurement list \<Rightarrow> int" where
  "active labels ms = (\<Sum>m \<leftarrow> ms. case m of ActiveRequests n l \<Rightarrow> if l = labels then n else 0 | _ \<Rightarrow> 0)"

section \<open>The Loki handler\<close>

type_synonym loki_entry = "string \<times> (string, string) dict \<times> string"

record loki =
  lk_static_labels :: "(string, string) dict"
  lk_batch_size :: int
  lk_buffer :: "loki_entry list"

definition new_loki :: "(string, string) dict \<Rightarrow> int \<Rightarrow> loki" where
  "new_loki labels batch_size = \<lparr>lk_static_labels = labels, lk_batch_size = batch_size, lk_buffer = []\<rparr>"

record log_record =
  lr_message :: string
  lr_name :: string
  lr_levelname :: string
  lr_created :: time
  lr_attrs :: "(string, json) dict"
  lr_exception :: "string option"

text \<open>
  \<open>standard\<close> are the attributes every record has; \<open>dumps\<close> and \<open>to_str\<close> are \<open>json.dumps\<close> of a value, which may raise,
  and \<open>str\<close>.
\<close>

definition set_attr :: "(string, json) dict \<Rightarrow> string \<Rightarrow> (string, json) dict \<Rightarrow> (string, json) dict" where
  "set_attr attrs k entry = (case dict_get attrs k of Some v \<Rightarrow> dict_set k v entry | None \<Rightarrow> entry)"

definition format_record ::
  "string list \<Rightarrow> (json \<Rightarrow> string res) \<Rightarrow> (json \<Rightarrow> string) \<Rightarrow> log_record \<Rightarrow> (string, json) dict" where
  "format_record standard dumps to_str r =
     (let entry = [(''message'', JStr (lr_message r)), (''logger'', JStr (lr_name r)), (''level'', JStr (lr_levelname r))];
          entry = set_attr (lr_attrs r) ''user_id'' (set_attr (lr_attrs r) ''correlation_id'' (set_attr (lr_attrs r) ''tenant_id'' entry));
          entry = foldl (\<lambda>d (k, v).
                    if k \<in> set standard \<or> dict_get d k \<noteq> None \<or> prefix ''_'' k then d
                    else dict_set k (case dumps v of Inr _ \<Rightarrow> v | Inl _ \<Rightarrow> JStr (to_str v)) d) entry (lr_attrs r)
      in case lr_exception r of None \<Rightarrow> entry | Some e \<Rightarrow> dict_set ''exception'' (JStr e) entry)"

definition emit_entry :: "loki \<Rightarrow> (log_record \<Rightarrow> string) \<Rightarrow> log_record \<Rightarrow> loki_entry" where
  "emit_entry h line r =
     (string_of_int (trunc (lr_created r * 1000000000)), dict_set ''level'' (lower (lr_levelname r)) (lk_static_labels h), line r)"

text \<open>
  The streams of a batch, by the key of their labels (\<open>json.dumps(labels, sort_keys=True)\<close>) in order of first occurrence.
\<close>

type_synonym stream = "(string, string) dict \<times> (string \<times> string) list"

definition add_entry :: "((string, string) dict \<Rightarrow> string) \<Rightarrow> (string, stream) dict \<Rightarrow> loki_entry \<Rightarrow> (string, stream) dict" where
  "add_entry key_of streams e =
     (case e of (ts, labels, line) \<Rightarrow>
        (case dict_get streams (key_of labels) of
           None \<Rightarrow> dict_set (key_of labels) (labels, [(ts, line)]) streams
         | Some (l, vs) \<Rightarrow> dict_set (key_of labels) (l, vs @ [(ts, line)]) streams))"

definition batch_streams :: "((string, string) dict \<Rightarrow> string) \<Rightarrow> loki_entry list \<Rightarrow> stream list" where
  "batch_streams key_of entries = map snd (foldl (add_entry key_of) [] entries)"

text \<open>
  \<open>_flush\<close>: the buffer is taken under the lock and sent; the answer and any exception of the push are
  only logged. The second component is the batch that was pushed.
\<close>

definition loki_flush :: "loki \<Rightarrow> loki_entry list option \<times> loki" where
  "loki_flush h = (if lk_buffer h = [] then (None, h) else (Some (lk_buffer h), h\<lparr>lk_buffer := []\<rparr>))"

definition loki_emit :: "loki_entry \<Rightarrow> loki \<Rightarrow> loki_entry list option \<times> loki" where
  "loki_emit e h =
     (let h' = h\<lparr>lk_buffer := lk_buffer h @ [e]\<rparr>
      in if int (length (lk_buffer h')) \<ge> lk_batch_size h' then loki_flush h' else (None, h'))"

text \<open>Records and timer ticks in any order; \<open>close\<close> is a tick as well.\<close>

datatype loki_event = Emit loki_entry | Tick

fun loki_run :: "loki_event list \<Rightarrow> loki \<Rightarrow> loki_entry list list \<times> loki" where
  "loki_run [] h = ([], h)"
| "loki_run (ev # evs) h =
     (case (case ev of Emit e \<Rightarrow> loki_emit e h | Tick \<Rightarrow> loki_flush h) of
        (sent, h') \<Rightarrow> (case loki_run evs h' of
           (batches, h'') \<Rightarrow> ((case sent of Some b \<Rightarrow> b # batches | None \<Rightarrow> batches), h'')))"

definition emitted :: "loki_event list \<Rightarrow> loki_entry list" where
  "emitted evs = concat (map (\<lambda>ev. case ev of Emit e \<Rightarrow> [e] | Tick \<Rightarrow> []) evs)"

section \<open>Instrumentation\<close>

text \<open>The state of the Celery signal handlers; entries may also be evicted from the two caches.\<close>

record task_metrics =
  tm_start_times :: "(string, time) dict"
  tm_failed :: "string list"
  tm_active :: "string \<Rightarrow> int"
  tm_total :: "(string \<times> string) list"
  tm_durations :: "(string \<times> string \<times> time) list"

definition task_prerun :: "time \<Rightarrow> string \<Rightarrow> string \<Rightarrow> task_metrics \<Rightarrow> task_metrics" where
  "task_prerun now task_id name s =
     s\<lparr>tm_start_times := dict_set task_id now (tm_start_times s), tm_active := (tm_active s)(name := tm_active s name + 1)\<rparr>"

definition task_failure :: "string \<Rightarrow> task_metrics \<Rightarrow> task_metrics" where
  "task_failure task_id s = s\<lparr>tm_failed := List.insert task_id (tm_failed s)\<rparr>"

definition task_postrun :: "time \<Rightarrow> string \<Rightarrow> string \<Rightarrow> task_metrics \<Rightarrow> task_metrics" where
  "task_postrun now task_id name s =
     (let outcome = (if task_id \<in> set (tm_failed s) then ''failure'' else ''success'')
      in s\<lparr>tm_failed := removeAll task_id (tm_failed s), tm_start_times := dict_del task_id (tm_start_times s),
           tm_total := tm_total s @ [(name, outcome)],
           tm_durations := tm_durations s @ (case dict_get (tm_start_times s) task_id of None \<Rightarrow> [] | Some t \<Rightarrow> [(name, outcome, now - t)]),
           tm_active := (tm_active s)(name := tm_active s name - 1)\<rparr>)"

definition VALID_OPERATIONS :: "string list" where
  "VALID_OPERATIONS = [''SELECT'', ''INSERT'', ''UPDATE'', ''DELETE'']"

definition extract_operation_type :: "string option \<Rightarrow> string" where
  "extract_operation_type statement =
     (case statement of
        None \<Rightarrow> ''UNKNOWN''
      | Some s \<Rightarrow>
          if s = [] \<or> strip s = [] then ''UNKNOWN''
          else let first_word = upper (takeWhile (\<lambda>c. \<not> is_space c) (strip s))
               in if first_word \<in> set VALID_OPERATIONS then first_word else ''OTHER'')"

datatype provider = PrometheusMetrics | NoopMetrics | LokiLog string int time | NoopLog | OtlpTrace string | NoopTrace

definition create_metrics_provider :: "string \<Rightarrow> provider res" where
  "create_metrics_provider name =
     (if lower name = ''prometheus'' then Inr PrometheusMetrics
      else if lower name = ''noop'' then Inr NoopMetrics
      else Inl (ValueError (''Unsupported metrics provider: '' @ name @ ''. Use one of: ['prometheus', 'noop']'')))"

definition create_log_provider :: "string \<Rightarrow> string \<Rightarrow> int \<Rightarrow> time \<Rightarrow> provider res" where
  "create_log_provider name loki_url batch_size flush_interval =
     (if lower name = ''loki'' then Inr (LokiLog loki_url batch_size flush_interval)
      else if lower name = ''noop'' then Inr NoopLog
      else Inl (ValueError (''Unsupported log provider: '' @ name @ ''. Use one of: ['loki', 'noop']'')))"

definition create_trace_provider :: "string \<Rightarrow> string \<Rightarrow> provider res" where
  "create_trace_provider name otlp_endpoint =
     (if lower name = ''otlp'' then Inr (OtlpTrace otlp_endpoint)
      else if lower name = ''noop'' then Inr NoopTrace
      else Inl (ValueError (''Unsupported trace provider: '' @ name @ ''. Use one of: ['otlp', 'noop']'')))"

section \<open>Lemmas\<close>

lemma active_append [simp]: "active l (xs @ ys) = active l xs + active l ys"
  by (simp add: active_def)

lemma loki_flush_conserves:
  "loki_flush h = (sent, h') \<Longrightarrow> (case sent of Some b \<Rightarrow> b | None \<Rightarrow> []) @ lk_buffer h' = lk_buffer h"
  by (auto simp: loki_flush_def split: if_splits)

lemma loki_emit_conserves:
  "loki_emit e h = (sent, h') \<Longrightarrow> (case sent of Some b \<Rightarrow> b | None \<Rightarrow> []) @ lk_buffer h' = lk_buffer h @ [e]"
  by (auto simp: loki_emit_def loki_flush_def Let_def split: if_splits)

lemma loki_run_conserves:
  "loki_run evs h = (batches, h') \<Longrightarrow> concat batches @ lk_buffer h' = lk_buffer h @ emitted evs"
proof (induction evs arbitrary: h batches h')
  case Nil
  then show ?case by (simp add: emitted_def)
next
  case (Cons ev evs)
  obtain sent h1 where s: "(case ev of Emit e \<Rightarrow> loki_emit e h | Tick \<Rightarrow> loki_flush h) = (sent, h1)"
    by (rule prod.exhaust)
  obtain bs h2 where r: "loki_run evs h1 = (bs, h2)" by (rule prod.exhaust)
  have one: "(case sent of Some b \<Rightarrow> b | None \<Rightarrow> []) @ lk_buffer h1 = lk_buffer h @ (case ev of Emit e \<Rightarrow> [e] | Tick \<Rightarrow> [])"
  proof (cases ev)
    case (Emit e)
    with s have "loki_emit e h = (sent, h1)" by simp
    from loki_emit_conserves [OF this] Emit show ?thesis by simp
  next
    case Tick
    with s have "loki_flush h = (sent, h1)" by simp
    from loki_flush_conserves [OF this] Tick show ?thesis by simp
  qed
  have h': "h' = h2" using Cons.prems s r by simp
  have "concat batches = (case sent of Some b \<Rightarrow> b | None \<Rightarrow> []) @ concat bs"
    using Cons.prems s r by (cases sent) auto
  then have "concat batches @ lk_buffer h2 = (case sent of Some b \<Rightarrow> b | None \<Rightarrow> []) @ lk_buffer h1 @ emitted evs"
    using Cons.IH [OF r] by simp
  also have "\<dots> = (lk_buffer h @ (case ev of Emit e \<Rightarrow> [e] | Tick \<Rightarrow> [])) @ emitted evs"
    by (simp only: one append.assoc [symmetric])
  finally show ?case by (simp add: h' emitted_def)
qed

lemma loki_run_bounded:
  "loki_run evs h = (batches, h') \<Longrightarrow> 1 \<le> lk_batch_size h \<Longrightarrow> int (length (lk_buffer h)) < lk_batch_size h \<Longrightarrow>
     lk_batch_size h' = lk_batch_size h \<and> int (length (lk_buffer h')) < lk_batch_size h \<and> [] \<notin> set batches"
proof (induction evs arbitrary: h batches h')
  case (Cons ev evs)
  obtain sent h1 where s: "(case ev of Emit e \<Rightarrow> loki_emit e h | Tick \<Rightarrow> loki_flush h) = (sent, h1)"
    by (rule prod.exhaust)
  obtain bs h2 where r: "loki_run evs h1 = (bs, h2)" by (rule prod.exhaust)
  from s Cons.prems(2,3) have one: "lk_batch_size h1 = lk_batch_size h" "int (length (lk_buffer h1)) < lk_batch_size h1" "sent \<noteq> Some []"
    by (auto simp: loki_emit_def loki_flush_def Let_def split: loki_event.splits if_splits)
  have h': "h' = h2" using Cons.prems(1) s r by simp
  have b: "batches = (case sent of Some b \<Rightarrow> b # bs | None \<Rightarrow> bs)" using Cons.prems(1) s r by simp
  from one Cons.prems(2) Cons.IH [OF r]
  have "lk_batch_size h2 = lk_batch_size h \<and> int (length (lk_buffer h2)) < lk_batch_size h \<and> [] \<notin> set bs" by simp
  with h' b one(3) show ?case by (cases sent) auto
qed simp

lemma streams_by_key:
  "dict_get (foldl (add_entry key_of) [] es) k =
     (case filter (\<lambda>(_, l, _). key_of l = k) es of
        [] \<Rightarrow> None
      | e # _ \<Rightarrow> Some (fst (snd e), map (\<lambda>(ts, _, line). (ts, line)) (filter (\<lambda>(_, l, _). key_of l = k) es)))"
proof (induction es rule: rev_induct)
  case (snoc e es)
  obtain ts l line where e: "e = (ts, l, line)" by (cases e)
  show ?case
    using snoc by (auto simp: e add_entry_def split: option.splits list.splits)
qed simp

lemma streams_ok: "dict_ok (foldl (add_entry key_of) [] es)"
proof (induction es rule: rev_induct)
  case (snoc e es)
  then show ?case by (auto simp: add_entry_def split: prod.splits option.splits)
qed simp

definition is_error_count :: "measurement \<Rightarrow> bool" where
  "is_error_count m = (case m of ErrorCount _ \<Rightarrow> True | _ \<Rightarrow> False)"

definition counted :: "(string, string) dict \<Rightarrow> measurement list \<Rightarrow> nat" where
  "counted labels ms = length (filter (\<lambda>m. m = RequestCount labels) ms)"

lemma business_measurements_plain:
  assumes "business_measurements cfg path meth sc = Inr ms"
  shows "active l ms = 0" "filter is_error_count ms = []" "dict_get labels ''http.route'' \<noteq> None \<Longrightarrow> counted labels ms = 0"
  using assms
  by (auto simp: business_measurements_def active_def counted_def is_error_count_def Let_def
      split: option.splits sum.splits if_splits)

definition classifier_answers :: "metrics_config \<Rightarrow> string \<Rightarrow> bool" where
  "classifier_answers cfg path = (case mw_classifier cfg of None \<Rightarrow> True | Some classify \<Rightarrow> \<not> isl (classify path))"

lemma business_measurements_safe:
  "classifier_answers cfg path \<Longrightarrow> \<exists>ms. business_measurements cfg path meth sc = Inr ms"
  by (auto simp: classifier_answers_def business_measurements_def Let_def split: option.splits sum.splits)

lemma status_labels_route: "dict_get (status_labels (base_labels cfg path meth) sc) ''http.route'' = Some (normalize_path path)"
  by (simp add: status_labels_def base_labels_def)

text \<open>What a measured request records, by the way the application left.\<close>

lemma metrics_dispatch_answered:
  assumes "mw_instruments cfg" and "path \<notin> set (mw_excluded_paths cfg)" and "call_next w = (Inr response, w')"
    and "business_measurements cfg path meth (status_code response) = Inr biz"
  shows "metrics_dispatch cfg path meth call_next (ms, w) =
    (let base = base_labels cfg path meth; labels = status_labels base (string_of_int (status_code response)) in
     (Inr response, (ms @ [ActiveRequests 1 base, RequestCount labels, RequestDuration labels] @
        (if status_code response \<ge> 400 then [ErrorCount labels] else []) @ biz @ [ActiveRequests (- 1) base], w')))"
  using assms by (simp add: metrics_dispatch_def io_defs measured_def on_snd_def Let_def)

lemma metrics_dispatch_raised:
  assumes "mw_instruments cfg" and "path \<notin> set (mw_excluded_paths cfg)" and "call_next w = (Inl e, w')"
  shows "metrics_dispatch cfg path meth call_next (ms, w) =
    (let base = base_labels cfg path meth; labels = status_labels base ''500'' in
     (Inl e, (ms @ [ActiveRequests 1 base] @
        (if is_Exception e then [RequestCount labels, RequestDuration labels, ErrorCount labels] else []) @
        [ActiveRequests (- 1) base], w')))"
  using assms by (simp add: metrics_dispatch_def io_defs measured_def on_snd_def Let_def)

section \<open>Properties\<close>

text \<open>The metrics middleware is transparent and balanced: the response or the exception of the application and its effects
  are passed on unchanged; the gauge of active requests is back where it was for every set of labels, also when the
  application raises; exactly one error is counted when the answer is 400 or above or an \<open>Exception\<close> escapes and none
  otherwise; and an answered request is counted once under its route and status. The classifier is relied on not to raise.
\<close>
theorem metrics_dispatch_contract:
  assumes "mw_instruments cfg" and "path \<notin> set (mw_excluded_paths cfg)"
    and "classifier_answers cfg path"
  shows "\<exists>added. metrics_dispatch cfg path meth call_next (ms, w) = (fst (call_next w), (ms @ added, snd (call_next w))) \<and>
    (\<forall>l. active l added = 0) \<and>
    length (filter is_error_count added) =
      (case fst (call_next w) of Inr response \<Rightarrow> if status_code response \<ge> 400 then 1 else 0
                               | Inl e \<Rightarrow> if is_Exception e then 1 else 0) \<and>
    (case fst (call_next w) of
       Inr response \<Rightarrow> counted (status_labels (base_labels cfg path meth) (string_of_int (status_code response))) added = 1
     | Inl e \<Rightarrow> counted (status_labels (base_labels cfg path meth) ''500'') added = (if is_Exception e then 1 else 0))"
proof (cases "call_next w")
  case (Pair r w')
  show ?thesis
  proof (cases r)
    case (Inl e)
    with Pair metrics_dispatch_raised [OF assms(1,2), of call_next w e w' meth ms] show ?thesis
      by (simp add: Let_def) (simp add: active_def is_error_count_def counted_def)
  next
    case (Inr response)
    obtain biz where biz: "business_measurements cfg path meth (status_code response) = Inr biz"
      using business_measurements_safe [OF assms(3)] by blast
    note plain = business_measurements_plain [OF biz]
    have "counted (status_labels (base_labels cfg path meth) sc) biz = 0" for sc
      by (rule plain(3)) (simp add: status_labels_route)
    with Pair Inr metrics_dispatch_answered [OF assms(1,2) _ biz, of call_next w w' ms] plain(1,2) show ?thesis
      by (simp add: Let_def) (simp add: active_def is_error_count_def counted_def)
  qed
qed

theorem metrics_dispatch_contract_witness:
  "\<exists>added. metrics_dispatch (new_metrics_middleware ''crm'' True [] None) ''/api/v1/leads/7'' ''GET'' (io_raise (ValueError ''boom'')) ([], 0 :: nat) =
     (Inl (ValueError ''boom''), (added, 0)) \<and> length (filter is_error_count added) = 1"
proof -
  let ?cfg = "new_metrics_middleware ''crm'' True [] None"
  have on: "mw_instruments ?cfg" "''/api/v1/leads/7'' \<notin> set (mw_excluded_paths ?cfg)"
    by (simp_all add: new_metrics_middleware_def METRICS_EXCLUDED_PATHS_def)
  have classifier: "classifier_answers ?cfg ''/api/v1/leads/7''"
    by (simp add: new_metrics_middleware_def classifier_answers_def)
  obtain added where
    "metrics_dispatch ?cfg ''/api/v1/leads/7'' ''GET'' (io_raise (ValueError ''boom'')) ([], 0 :: nat) =
      (Inl (ValueError ''boom''), (added, 0))" "length (filter is_error_count added) = 1"
    using metrics_dispatch_contract [OF on classifier, of "''GET''" "io_raise (ValueError ''boom'')" "[]" "0 :: nat"]
    by (auto simp: io_raise_def is_Exception_def)
  then show ?thesis by blast
qed



end
