(* ===== verification/Event_Types.thy ===== *)
theory Event_Types
  imports Event_Consumer
begin

text \<open>
  \<open>events/event_types.py\<close>: the registry of event types, one dict of members and values per class, and what the
  consumer's wildcard patterns select in it.
\<close>

section \<open>The registry\<close>

definition LeadEvents :: "(string, string) dict" where
  "LeadEvents =
     [(''CREATED'', ''lead.created''), (''UPDATED'', ''lead.updated''), (''ASSIGNED'', ''lead.assigned''),
      (''REASSIGNED'', ''lead.reassigned''), (''REASSIGN_ESCALATED'', ''lead.reassigned.escalated''),
      (''SOURCE_CHANGED'', ''lead.source_changed''), (''PRIORITY_CHANGED'', ''lead.priority_changed''),
      (''OWNER_CHANGED'', ''lead.owner_changed''), (''CONTACT_ATTEMPTED'', ''lead.contact_attempted''),
      (''CONTACTED'', ''lead.contacted''), (''QUALIFIED'', ''lead.qualified''), (''DISQUALIFIED'', ''lead.disqualified''),
      (''CONVERTED'', ''lead.converted''), (''LOST'', ''lead.lost''), (''WON'', ''lead.won''),
      (''ARCHIVED'', ''lead.archived''), (''UNARCHIVED'', ''lead.unarchived''), (''NOTE_ADDED'', ''lead.note_added''),
      (''REMINDER_SET'', ''lead.reminder_set''), (''REMINDER_DUE'', ''lead.reminder_due''), (''ROLLBACK'', ''lead.rollback''),
      (''FOLLOWUP_DUE'', ''lead.followup_due'')]"

definition DealEvents :: "(string, string) dict" where
  "DealEvents =
     [(''CREATED'', ''deal.created''), (''WON'', ''deal.won''), (''LOST'', ''deal.lost''),
      (''STAGE_CHANGED'', ''deal.stage_changed''), (''AMOUNT_CHANGED'', ''deal.amount_changed''),
      (''COMPLETED'', ''deal.completed''), (''CANCELLED'', ''deal.cancelled''), (''ROLLED_BACK'', ''deal.rolled_back'')]"

definition ListingEvents :: "(string, string) dict" where
  "ListingEvents =
     [(''CREATED'', ''listing.created''), (''UPDATED'', ''listing.updated''), (''PUBLISHED'', ''listing.published''),
      (''UNPUBLISHED'', ''listing.unpublished''), (''ARCHIVED'', ''listing.archived''), (''VERIFIED'', ''listing.verified''),
      (''REJECTED'', ''listing.rejected''), (''RESUBMITTED'', ''listing.resubmitted''),
      (''DOCUMENT_SUBMITTED'', ''listing.document_submitted''), (''PUBLISH_REQUESTED'', ''listing.publish_requested''),
      (''PRICE_CHANGED'', ''listing.price_changed''), (''OWNER_CHANGED'', ''listing.owner_changed''),
      (''REFRESHED'', ''listing.refreshed''), (''PERMIT_EXPIRED'', ''listing.permit_expired''),
      (''PERMIT_EXPIRING'', ''listing.permit_expiring''), (''PORTAL_SYNC_FAILED'', ''listing.portal_sync_failed'')]"

definition CMSEvents :: "(string, string) dict" where
  "CMSEvents =
     [(''BLOG_CREATED'', ''cms.blog.created''), (''BLOG_UPDATED'', ''cms.blog.updated''),
      (''BLOG_PUBLISHED'', ''cms.blog.published''), (''BLOG_UNPUBLISHED'', ''cms.blog.unpublished''),
      (''BLOG_DELETED'', ''cms.blog.deleted''), (''PAGE_CREATED'', ''cms.page.created''),
      (''PAGE_UPDATED'', ''cms.page.updated''), (''PAGE_PUBLISHED'', ''cms.page.published''),
      (''PAGE_DELETED'', ''cms.page.deleted''), (''PAGE_UNPUBLISHED'', ''cms.page.unpublished''),
      (''PAGE_REVIEW_REQUESTED'', ''cms.page.review_requested''), (''PAGE_APPROVED'', ''cms.page.approved''),
      (''PAGE_REJECTED'', ''cms.page.rejected''), (''LANDING_PAGE_PUBLISHED'', ''cms.landing_page.published'')]"

definition ActivityEvents :: "(string, string) dict" where
  "ActivityEvents =
     [(''COMMENT_ADDED'', ''activity.comment.added''), (''COMMENT_EDITED'', ''activity.comment.edited''),
      (''COMMENT_DELETED'', ''activity.comment.deleted''), (''LOG_CREATED'', ''activity.log.created''),
      (''MENTION_CREATED'', ''activity.mention.created''), (''LOGGED'', ''activity.logged'')]"

definition AdminEvents :: "(string, string) dict" where
  "AdminEvents =
     [(''USER_CREATED'', ''admin.user.created''), (''USER_UPDATED'', ''admin.user.updated''),
      (''ROLE_ASSIGNED'', ''admin.role.assigned''), (''INTEGRATION_PLATFORM_CREATED'', ''admin.integration.platform.created''),
      (''PORTAL_AGENT_PROMOTED'', ''admin.portal_agent.promoted''),
      (''INTEGRATION_PLATFORM_UPDATED'', ''admin.integration.platform.updated''),
      (''INTEGRATION_PLATFORM_DELETED'', ''admin.integration.platform.deleted''),
      (''MODULE_CONFIGURATION_UPDATED'', ''admin.module.configuration.updated''),
      (''ASSIGNMENT_RULE_CREATED'', ''admin.assignment_rule.created''),
      (''ASSIGNMENT_RULE_UPDATED'', ''admin.assignment_rule.updated''),
      (''ASSIGNMENT_RULE_DELETED'', ''admin.assignment_rule.deleted''),
      (''AGENT_GROUP_CREATED'', ''admin.agent_group.created''), (''AGENT_GROUP_UPDATED'', ''admin.agent_group.updated''),
      (''AGENT_GROUP_DELETED'', ''admin.agent_group.deleted''), (''LEAD_SOURCE_CREATED'', ''admin.lead_source.created''),
      (''LEAD_SOURCE_UPDATED'', ''admin.lead_source.updated''), (''LEAD_SOURCE_DELETED'', ''admin.lead_source.deleted''),
      (''TENANT_SITE_CREATED'', ''admin.tenant_site.created''), (''TENANT_SITE_UPDATED'', ''admin.tenant_site.updated''),
      (''TENANT_SITE_DELETED'', ''admin.tenant_site.deleted'')]"

definition MediaEvents :: "(string, string) dict" where
  "MediaEvents =
     [(''UPLOADED'', ''media.uploaded''), (''OCR_COMPLETED'', ''media.ocr_completed''), (''DELETED'', ''media.deleted'')]"

definition HREvents :: "(string, string) dict" where
  "HREvents =
     [(''EMPLOYEE_CREATED'', ''hr.employee.created''), (''EMPLOYEE_UPDATED'', ''hr.employee.updated''),
      (''EMPLOYEE_SYNC_COMPLETED'', ''hr.employee.sync_completed''), (''SYNC_FAILED'', ''hr.sync.failed''),
      (''ATTENDANCE_SYNCED'', ''hr.attendance.synced''), (''ATTENDANCE_SYNC_FAILED'', ''hr.attendance.sync_failed''),
      (''ATTENDANCE_EXCEPTION_CREATED'', ''hr.attendance.exception.created''),
      (''ATTENDANCE_EXCEPTION_RESOLVED'', ''hr.attendance.exception.resolved''),
      (''ATTENDANCE_MANUAL_ENTRY_CREATED'', ''hr.attendance.manual_entry.created''),
      (''ATTENDANCE_MANUAL_ENTRY_APPROVED'', ''hr.attendance.manual_entry.approved''),
      (''ATTENDANCE_MANUAL_ENTRY_REJECTED'', ''hr.attendance.manual_entry.rejected''),
      (''ATTENDANCE_RECORD_CORRECTED'', ''hr.attendance.record.corrected''),
      (''PAYROLL_CALCULATED'', ''hr.payroll.calculated''), (''PAYROLL_APPROVED'', ''hr.payroll.approved''),
      (''PAYROLL_REJECTED'', ''hr.payroll.rejected''), (''JOB_POSTING_PUBLISHED'', ''hr.job_posting.published''),
      (''JOB_POSTING_CLOSED'', ''hr.job_posting.closed''), (''JOB_POSTING_ARCHIVED'', ''hr.job_posting.archived''),
      (''OFFER_SENT'', ''hr.offer.sent''), (''OFFER_ACCEPTED'', ''hr.offer.accepted''),
      (''APPLICATION_SUBMITTED'', ''hr.application.submitted''),
      (''APPLICATION_STAGE_CHANGED'', ''hr.application.stage_changed''), (''APPLICATION_HIRED'', ''hr.application.hired''),
      (''APPLICATION_REJECTED'', ''hr.application.rejected'')]"

definition LMSEvents :: "(string, string) dict" where
  "LMSEvents =
     [(''COURSE_COMPLETED'', ''lms.course.completed''), (''CERTIFICATE_ISSUED'', ''lms.certificate.issued''),
      (''QUIZ_GENERATED'', ''lms.quiz.generated''), (''QUIZ_ASSIGNED'', ''lms.quiz.assigned''),
      (''QUIZ_EXPIRED'', ''lms.quiz.expired'')]"

definition FinanceEvents :: "(string, string) dict" where
  "FinanceEvents =
     [(''EXPENSE_CREATED'', ''finance.expense.created''), (''EXPENSE_SUBMITTED'', ''finance.expense.submitted''),
      (''EXPENSE_APPROVED'', ''finance.expense.approved''), (''EXPENSE_REJECTED'', ''finance.expense.rejected''),
      (''EXPENSE_PAID'', ''finance.expense.paid''), (''EXPENSE_REIMBURSED'', ''finance.expense.reimbursed''),
      (''EXPENSE_APPROVAL_REMINDER'', ''finance.expense.approval_reminder''),
      (''INVOICE_CREATED'', ''finance.invoice.created''), (''INVOICE_SENT'', ''finance.invoice.sent''),
      (''INVOICE_PAYMENT_RECORDED'', ''finance.invoice.payment_recorded''), (''INVOICE_PAID'', ''finance.invoice.paid''),
      (''CARD_TRANSACTION_IMPORTED'', ''finance.card_transaction.imported''),
      (''CARD_TRANSACTION_MATCHED'', ''finance.card_transaction.matched''), (''COMMISSION_PAID'', ''finance.commission.paid'')]"

definition TaskEvents :: "(string, string) dict" where
  "TaskEvents =
     [(''CREATED'', ''task.created''), (''ASSIGNED'', ''task.assigned''), (''CO_ASSIGNED'', ''task.co_assigned''),
      (''STATUS_CHANGED'', ''task.status_changed''), (''DUE_SOON'', ''task.due_soon''),
      (''WATCHER_ADDED'', ''task.watcher_added'')]"

definition NotificationEvents :: "(string, string) dict" where
  "NotificationEvents =
     [(''LEAD_OVERDUE_REQUESTED'', ''notification.lead.overdue_requested''), (''SENT'', ''notification.sent'')]"

definition WAMEvents :: "(string, string) dict" where
  "WAMEvents =
     [(''LEAD_QUALIFIED'', ''wam.lead.qualified'')]"

text \<open>The classes with the domain their values begin with.\<close>

definition event_classes :: "(string \<times> (string, string) dict) list" where
  "event_classes =
     [(''lead'', LeadEvents), (''deal'', DealEvents), (''listing'', ListingEvents), (''cms'', CMSEvents), (''activity'', ActivityEvents),
      (''admin'', AdminEvents), (''media'', MediaEvents), (''hr'', HREvents), (''lms'', LMSEvents), (''finance'', FinanceEvents),
      (''task'', TaskEvents), (''notification'', NotificationEvents), (''wam'', WAMEvents)]"

definition event_types :: "string list" where
  "event_types = concat (map (\<lambda>(_, c). map snd c) event_classes)"

section \<open>Lemmas\<close>

text \<open>Within a class: distinct values that begin with the domain and a dot and have no star.\<close>

definition class_ok :: "string \<times> (string, string) dict \<Rightarrow> bool" where
  "class_ok = (\<lambda>(d, c). distinct (map snd c) \<and> list_all (\<lambda>(_, v). prefix (d @ ''.'') v \<and> CHR ''*'' \<notin> set v) c)"

lemma LeadEvents_ok: "class_ok (''lead'', LeadEvents)"
  unfolding class_ok_def LeadEvents_def by (simp add: prefix_def)

lemma DealEvents_ok: "class_ok (''deal'', DealEvents)"
  unfolding class_ok_def DealEvents_def by (simp add: prefix_def)

lemma ListingEvents_ok: "class_ok (''listing'', ListingEvents)"
  unfolding class_ok_def ListingEvents_def by (simp add: prefix_def)

lemma CMSEvents_ok: "class_ok (''cms'', CMSEvents)"
  unfolding class_ok_def CMSEvents_def by (simp add: prefix_def)

lemma ActivityEvents_ok: "class_ok (''activity'', ActivityEvents)"
  unfolding class_ok_def ActivityEvents_def by (simp add: prefix_def)

lemma AdminEvents_ok: "class_ok (''admin'', AdminEvents)"
  unfolding class_ok_def AdminEvents_def by (simp add: prefix_def)

lemma MediaEvents_ok: "class_ok (''media'', MediaEvents)"
  unfolding class_ok_def MediaEvents_def by (simp add: prefix_def)

lemma HREvents_ok: "class_ok (''hr'', HREvents)"
  unfolding class_ok_def HREvents_def by (simp add: prefix_def)

lemma LMSEvents_ok: "class_ok (''lms'', LMSEvents)"
  unfolding class_ok_def LMSEvents_def by (simp add: prefix_def)

lemma FinanceEvents_ok: "class_ok (''finance'', FinanceEvents)"
  unfolding class_ok_def FinanceEvents_def by (simp add: prefix_def)

lemma TaskEvents_ok: "class_ok (''task'', TaskEvents)"
  unfolding class_ok_def TaskEvents_def by (simp add: prefix_def)

lemma NotificationEvents_ok: "class_ok (''notification'', NotificationEvents)"
  unfolding class_ok_def NotificationEvents_def by (simp add: prefix_def)

lemma WAMEvents_ok: "class_ok (''wam'', WAMEvents)"
  unfolding class_ok_def WAMEvents_def by (simp add: prefix_def)

lemma list_all_Nil: "list_all p []"
  by simp

lemma event_classes_ok: "list_all class_ok event_classes"
  unfolding event_classes_def list.pred_inject(2)
  by (intro conjI list_all_Nil LeadEvents_ok DealEvents_ok ListingEvents_ok CMSEvents_ok ActivityEvents_ok AdminEvents_ok MediaEvents_ok HREvents_ok LMSEvents_ok FinanceEvents_ok TaskEvents_ok NotificationEvents_ok WAMEvents_ok)

lemma class_value:
  assumes "(d, c) \<in> set event_classes" and "t \<in> snd ` set c"
  shows "prefix (d @ ''.'') t" and "CHR ''*'' \<notin> set t"
  using event_classes_ok assms by (fastforce simp: list_all_iff class_ok_def)+

text \<open>No domain is the beginning of another one with its dot.\<close>

definition domains :: "string list" where
  "domains = map fst event_classes"

lemma domains_apart: "list_all (\<lambda>d. list_all (\<lambda>d'. d = d' \<or> \<not> prefix d (d' @ ''.'')) domains) domains"
  unfolding domains_def event_classes_def by code_simp

lemma domain_unique:
  assumes "d \<in> set domains" "d' \<in> set domains" and "prefix d t" and "prefix (d' @ ''.'') t"
  shows "d = d'"
proof (rule ccontr)
  assume ne: "d \<noteq> d'"
  have "\<not> prefix d (d' @ ''.'')" "\<not> prefix d' (d @ ''.'')" using domains_apart assms(1,2) ne by (auto simp: list_all_iff)
  moreover have "prefix d (d' @ ''.'') \<or> prefix (d' @ ''.'') d" using assms(3,4) by (rule prefix_same_cases)
  ultimately show False by (meson append_prefixD prefix_order.trans prefixI)
qed

lemma domain_pattern: "is_wildcard (d @ ''.*'') \<and> wildcard_stem (d @ ''.*'') = d"
  by (simp add: is_wildcard_def wildcard_stem_def suffix_def)

lemma find_domain:
  assumes "(d, c) \<in> set event_classes" and "t \<in> snd ` set c" and "set ds \<subseteq> set domains"
  shows "find (\<lambda>(p, _). is_wildcard p \<and> prefix (wildcard_stem p) t) (map (\<lambda>d. (d @ ''.*'', h d)) ds) =
    (if d \<in> set ds then Some (d @ ''.*'', h d) else None)"
  using assms(3)
proof (induction ds)
  case (Cons d' ds)
  have "d \<in> set domains" using assms(1) by (force simp: domains_def)
  with domain_unique [of d' d t] class_value(1) [OF assms(1,2)] Cons.prems have "prefix d' t \<longleftrightarrow> d' = d"
    by (auto dest: append_prefixD)
  with Cons domain_pattern [of d'] show ?case by auto
qed simp

lemma star_free:
  assumes "CHR ''*'' \<notin> set t"
  shows "dict_get (map (\<lambda>d. (d @ ''.*'', h d)) ds) t = None"
  using assms by (auto simp: map_of_eq_None_iff)

text \<open>No two members of the registry share a value.\<close>

lemma distinct_values:
  assumes "set cs \<subseteq> set event_classes" and "distinct (map fst cs)"
  shows "distinct (concat (map (\<lambda>(_, c). map snd c) cs))"
  using assms
proof (induction cs)
  case (Cons x cs)
  obtain d c where x: "x = (d, c)" by (cases x)
  have "(d, c) \<in> set event_classes" using Cons.prems x by simp
  then have "distinct (map snd c)" using event_classes_ok by (fastforce simp: list_all_iff class_ok_def)
  moreover have "t \<notin> snd ` set c'" if "t \<in> snd ` set c" "(d', c') \<in> set cs" for t d' c'
  proof
    assume t': "t \<in> snd ` set c'"
    have m: "(d', c') \<in> set event_classes" using that(2) Cons.prems by auto
    have "d \<in> set domains" "d' \<in> set domains" using m \<open>(d, c) \<in> set event_classes\<close> by (force simp: domains_def)+
    moreover have "prefix d t" using class_value(1) [OF \<open>(d, c) \<in> set event_classes\<close> that(1)] by (rule append_prefixD)
    ultimately have "d = d'" using class_value(1) [OF m t'] by (rule domain_unique)
    with that(2) Cons.prems(2) x show False by force
  qed
  ultimately show ?case using Cons x by auto
qed simp

lemma event_types_distinct: "distinct event_types"
  unfolding event_types_def
proof (rule distinct_values)
  show "distinct (map fst event_classes)" unfolding event_classes_def by code_simp
qed simp

section \<open>Properties\<close>

text \<open>Domain wildcards route the registered events exactly: with handlers for any list of patterns \<open>domain.*\<close>, in any order, an
  event of the registry goes to the handler of its own domain, and to none when that domain has no handler,
  although the consumer compares the event type with the stem without its dot. No two members of the registry have
  the same value.
\<close>
theorem domain_wildcards_exact:
  assumes "(d, c) \<in> set event_classes" and "(member, t) \<in> set c" and "set ds \<subseteq> set domains"
  shows "resolve_handler (map (\<lambda>d. (d @ ''.*'', h d)) ds) (JStr t) = Inr (if d \<in> set ds then Some (h d) else None) \<and>
    distinct event_types"
proof -
  have t: "t \<in> snd ` set c" using assms(2) by force
  show ?thesis
    using find_domain [OF assms(1) t assms(3), of h] star_free [OF class_value(2) [OF assms(1) t], of h ds] event_types_distinct
    by (simp add: resolve_handler_def)
qed

theorem domain_wildcards_exact_witness:
  "resolve_handler (map (\<lambda>d. (d @ ''.*'', length d)) [''wam'', ''lead'']) (JStr ''lead.created'') = Inr (Some 4)"
proof -
  have "(''lead'', LeadEvents) \<in> set event_classes" by (simp add: event_classes_def)
  moreover have "(''CREATED'', ''lead.created'') \<in> set LeadEvents" by (simp add: LeadEvents_def)
  moreover have "set [''wam'', ''lead''] \<subseteq> set domains" by (simp add: domains_def event_classes_def)
  ultimately show ?thesis using domain_wildcards_exact [of "''lead''" LeadEvents "''CREATED''" "''lead.created''" "[''wam'', ''lead'']" length]
    by simp
qed

end
