(* ===== verification/Payload_Schemas.thy ===== *)
theory Payload_Schemas
  imports Contracts
begin

text \<open>
  \<open>events/payloads/\<close>: the typed event payloads as schemas, one definition per class. A field has a type, its
  default and the constraints of \<open>Field\<close>. pydantic is not part of the repository: \<open>convert\<close>, which JSON values a type
  accepts with which result, is an argument, and \<open>model_validate\<close> states what pydantic documents of it: every field is taken from the
  input or its default, a field without either is an error, and with \<open>extra="forbid"\<close> so is any other key.
\<close>

section \<open>Schemas\<close>

datatype ty =
    TStr | TInt | TFloat | TBool | TUuid | TDatetime | TAny
  | TOpt ty | TList ty | TDict ty | TUnion "ty list" | TEnum "string list" | TModel string
  | TStripped nat nat

datatype constraint = Ge int | Le int | MinLen int | MaxLen int | Pattern string

record field =
  fd_type :: ty
  fd_default :: "json option"
  fd_constraints :: "constraint list"

datatype extra = Forbid | Ignore

record schema =
  sc_extra :: extra
  sc_fields :: "(string, field) dict"

definition req :: "ty \<Rightarrow> field" where
  "req t = \<lparr>fd_type = t, fd_default = None, fd_constraints = []\<rparr>"

definition opt :: "ty \<Rightarrow> json \<Rightarrow> field" where
  "opt t d = \<lparr>fd_type = t, fd_default = Some d, fd_constraints = []\<rparr>"

definition constrained :: "constraint list \<Rightarrow> field \<Rightarrow> field" where
  "constrained cs f = f\<lparr>fd_constraints := cs\<rparr>"

definition base_model :: "extra \<Rightarrow> (string, field) dict \<Rightarrow> schema" where
  "base_model e fs = \<lparr>sc_extra = e, sc_fields = fs\<rparr>"

text \<open>A subclass keeps the configuration and the fields of its base; a redeclared field keeps its place.\<close>

definition extend_model :: "schema \<Rightarrow> (string, field) dict \<Rightarrow> schema" where
  "extend_model s fs = s\<lparr>sc_fields := dict_merge (sc_fields s) fs\<rparr>"

type_synonym converter = "ty \<Rightarrow> constraint list \<Rightarrow> json \<Rightarrow> json option"

definition field_value :: "converter \<Rightarrow> field \<Rightarrow> json option \<Rightarrow> json option" where
  "field_value convert f v = (case v of Some x \<Rightarrow> convert (fd_type f) (fd_constraints f) x | None \<Rightarrow> fd_default f)"

fun fields_value :: "converter \<Rightarrow> (string, field) dict \<Rightarrow> (string, json) dict \<Rightarrow> (string, json) dict option" where
  "fields_value convert [] d = Some []"
| "fields_value convert ((k, f) # fs) d =
     (case field_value convert f (dict_get d k) of
        None \<Rightarrow> None
      | Some v \<Rightarrow> map_option (\<lambda>r. (k, v) # r) (fields_value convert fs d))"

definition model_validate :: "converter \<Rightarrow> schema \<Rightarrow> (string, json) dict \<Rightarrow> (string, json) dict option" where
  "model_validate convert s d =
     (if sc_extra s = Forbid \<and> list_ex (\<lambda>(k, _). dict_get (sc_fields s) k = None) d then None
      else fields_value convert (sc_fields s) d)"

section \<open>Payloads\<close>

definition comment_actions :: "string list" where
  "comment_actions = [''created'', ''edited'', ''deleted'']"

definition CMSLifecycleAction :: "string list" where
  "CMSLifecycleAction =
     [''created'', ''updated'', ''deleted'', ''published'', ''unpublished'', ''review_requested'', ''approved'', ''rejected'', ''archived'']"

definition EventPayload :: schema where
  "EventPayload = base_model Forbid []"

definition ActivityCommentAddedV1 :: schema where
  "ActivityCommentAddedV1 = extend_model EventPayload
     [(''entity_type'', req TStr), (''entity_id'', req TStr), (''action'', req (TEnum comment_actions)),
      (''comment_id'', req TStr), (''parent_entity_type'', req TStr), (''parent_entity_id'', req TStr),
      (''mentioned_user_ids'', req (TList TStr)), (''mentions'', req (TList TStr))]"

definition ActivityCommentEditedV1 :: schema where
  "ActivityCommentEditedV1 = extend_model ActivityCommentAddedV1
     [(''newly_mentioned_user_ids'', req (TList TStr))]"

definition ActivityCommentDeletedV1 :: schema where
  "ActivityCommentDeletedV1 = extend_model EventPayload
     [(''entity_type'', req TStr), (''entity_id'', req TStr), (''action'', req (TEnum comment_actions)),
      (''comment_id'', req TStr), (''parent_entity_type'', req TStr), (''parent_entity_id'', req TStr)]"

definition ActivityLogCreatedV1 :: schema where
  "ActivityLogCreatedV1 = extend_model EventPayload
     [(''recipient_id'', req TStr), (''log_id'', req TStr), (''entity_type'', req TStr), (''entity_id'', req TStr),
      (''event_type'', req TStr), (''description'', req TStr), (''actor_name'', opt (TOpt TStr) JNull)]"

definition AdminLeadSourceCreatedV1 :: schema where
  "AdminLeadSourceCreatedV1 = extend_model EventPayload
     [(''lead_source_id'', req TStr), (''source_name'', req TStr)]"

definition AdminLeadSourceUpdatedV1 :: schema where
  "AdminLeadSourceUpdatedV1 = extend_model EventPayload
     [(''lead_source_id'', req TStr), (''source_name'', req TStr)]"

definition AdminLeadSourceDeletedV1 :: schema where
  "AdminLeadSourceDeletedV1 = extend_model EventPayload
     [(''lead_source_id'', req TStr)]"

definition AdminAssignmentRuleCreatedV1 :: schema where
  "AdminAssignmentRuleCreatedV1 = extend_model EventPayload
     [(''rule_id'', req TStr), (''rule_name'', req TStr)]"

definition AdminAssignmentRuleUpdatedV1 :: schema where
  "AdminAssignmentRuleUpdatedV1 = extend_model EventPayload
     [(''rule_id'', req TStr), (''rule_name'', req TStr)]"

definition AdminAssignmentRuleDeletedV1 :: schema where
  "AdminAssignmentRuleDeletedV1 = extend_model EventPayload
     [(''rule_id'', req TStr)]"

definition AdminAgentGroupCreatedV1 :: schema where
  "AdminAgentGroupCreatedV1 = extend_model EventPayload
     [(''group_id'', req TStr), (''group_name'', req TStr)]"

definition AdminAgentGroupUpdatedV1 :: schema where
  "AdminAgentGroupUpdatedV1 = extend_model EventPayload
     [(''group_id'', req TStr), (''group_name'', req TStr)]"

definition AdminAgentGroupDeletedV1 :: schema where
  "AdminAgentGroupDeletedV1 = extend_model EventPayload
     [(''group_id'', req TStr)]"

definition AdminModuleConfigurationUpdatedV1 :: schema where
  "AdminModuleConfigurationUpdatedV1 = extend_model EventPayload
     [(''module_count'', req TInt)]"

definition AdminTenantSiteCreatedV1 :: schema where
  "AdminTenantSiteCreatedV1 = extend_model EventPayload
     [(''site_id'', req TStr), (''key_hash'', req TStr)]"

definition AdminTenantSiteUpdatedV1 :: schema where
  "AdminTenantSiteUpdatedV1 = extend_model EventPayload
     [(''site_id'', req TStr), (''key_hash'', req TStr), (''previous_key_hash'', opt (TOpt TStr) JNull)]"

definition AdminTenantSiteDeletedV1 :: schema where
  "AdminTenantSiteDeletedV1 = extend_model EventPayload
     [(''site_id'', req TStr), (''key_hash'', req TStr)]"

definition IntegrationPlatformEventV1 :: schema where
  "IntegrationPlatformEventV1 = extend_model EventPayload
     [(''schema_version'', constrained [Pattern (''^1'' @ [CHR 0x5C] @ ''.'' @ [CHR 0x5C] @ ''d+$'')] (opt TStr (JStr ''1.0''))), (''platform_id'', req TStr),
      (''platform_name'', req TStr), (''tenant_id'', req TStr), (''webhook_token'', opt (TOpt TStr) JNull)]"

definition AdminUserCreatedV1 :: schema where
  "AdminUserCreatedV1 = extend_model EventPayload
     [(''entity_type'', req (TEnum (map entity_value entity_types))), (''entity_id'', req TStr),
      (''user_id'', req TStr), (''user_name'', req TStr), (''role_names'', req (TList TStr)),
      (''recipient_id'', req TStr), (''actor_name'', opt (TOpt TStr) JNull)]"

definition AdminUserUpdatedV1 :: schema where
  "AdminUserUpdatedV1 = extend_model EventPayload
     [(''entity_type'', req (TEnum (map entity_value entity_types))), (''entity_id'', req TStr),
      (''user_id'', req TStr), (''user_name'', req TStr), (''changes'', req (TDict TAny)),
      (''recipient_id'', req TStr), (''actor_name'', opt (TOpt TStr) JNull)]"

definition AdminRoleAssignedV1 :: schema where
  "AdminRoleAssignedV1 = extend_model EventPayload
     [(''user_id'', req TStr), (''user_name'', req TStr), (''role_id'', req TStr), (''role_name'', req TStr),
      (''assigned_by'', req TStr), (''recipient_id'', req TStr)]"

definition PortalAgentIdentityV1 :: schema where
  "PortalAgentIdentityV1 = extend_model EventPayload
     [(''portal'', req TStr), (''external_id'', req TStr)]"

definition AdminPortalAgentPromotedV1 :: schema where
  "AdminPortalAgentPromotedV1 = extend_model EventPayload
     [(''crm_user_id'', req TStr), (''agents'', req (TList (TModel ''PortalAgentIdentityV1'')))]"

definition CMSPageEventV1 :: schema where
  "CMSPageEventV1 = extend_model EventPayload
     [(''entity_type'', req (TEnum (map entity_value entity_types))), (''entity_id'', req TStr),
      (''page_id'', req TStr), (''page_title'', req TStr), (''page_slug'', req TStr),
      (''action'', req (TEnum CMSLifecycleAction)), (''actor_id'', opt (TOpt TStr) JNull),
      (''actor_name'', opt (TOpt TStr) JNull), (''recipient_id'', opt (TOpt TStr) JNull),
      (''status'', opt (TOpt TStr) JNull)]"

definition CMSPageUpdatedV1 :: schema where
  "CMSPageUpdatedV1 = extend_model CMSPageEventV1
     [(''changes'', opt (TOpt (TDict TAny)) JNull)]"

definition CMSPagePublishedV1 :: schema where
  "CMSPagePublishedV1 = extend_model CMSPageEventV1
     [(''page_url'', opt (TOpt TStr) JNull)]"

definition CMSPageReviewRequestedV1 :: schema where
  "CMSPageReviewRequestedV1 = extend_model CMSPageEventV1
     [(''requested_by'', opt (TOpt TStr) JNull)]"

definition CMSPageApprovedV1 :: schema where
  "CMSPageApprovedV1 = extend_model CMSPageEventV1
     [(''page_url'', opt (TOpt TStr) JNull), (''review_notes'', opt (TOpt TStr) JNull)]"

definition CMSPageRejectedV1 :: schema where
  "CMSPageRejectedV1 = extend_model CMSPageEventV1
     [(''review_notes'', opt (TOpt TStr) JNull)]"

definition CMSBlogEventV1 :: schema where
  "CMSBlogEventV1 = extend_model EventPayload
     [(''entity_type'', req (TEnum (map entity_value entity_types))), (''entity_id'', req TStr),
      (''blog_id'', req TStr), (''blog_title'', req TStr), (''blog_slug'', opt (TOpt TStr) JNull),
      (''action'', req (TEnum CMSLifecycleAction)), (''actor_id'', opt (TOpt TStr) JNull),
      (''actor_name'', opt (TOpt TStr) JNull), (''recipient_id'', opt (TOpt TStr) JNull),
      (''status'', opt (TOpt TStr) JNull)]"

definition CMSBlogUpdatedV1 :: schema where
  "CMSBlogUpdatedV1 = extend_model CMSBlogEventV1
     [(''changes'', opt (TOpt (TDict TAny)) JNull)]"

definition CMSLandingPageMediaV1 :: schema where
  "CMSLandingPageMediaV1 = extend_model EventPayload
     [(''media_id'', req TStr), (''media_url'', req TStr), (''category'', opt (TOpt TStr) JNull)]"

definition CMSLandingPageContextV1 :: schema where
  "CMSLandingPageContextV1 = extend_model EventPayload
     [(''developer_name'', req TStr), (''about_project_summary'', opt (TOpt TStr) JNull), (''project_type'', req TStr),
      (''project_status'', opt (TOpt TStr) JNull), (''property_types'', opt (TList TStr) (JList [])),
      (''starting_price'', opt (TOpt TFloat) JNull), (''starting_price_currency'', opt (TOpt TStr) JNull),
      (''handover_date'', opt (TOpt TStr) JNull), (''area_name'', opt (TOpt TStr) JNull),
      (''community_name'', opt (TOpt TStr) JNull), (''amenities'', opt (TList TStr) (JList [])),
      (''media'', opt (TList (TModel ''CMSLandingPageMediaV1'')) (JList []))]"

definition CMSLandingPagePublishedV1 :: schema where
  "CMSLandingPagePublishedV1 = extend_model EventPayload
     [(''project_id'', opt (TOpt TStr) JNull), (''project_title'', req TStr),
      (''landing_page_context'', req (TModel ''CMSLandingPageContextV1''))]"

definition FinanceExpenseEventV1 :: schema where
  "FinanceExpenseEventV1 = extend_model EventPayload
     [(''entity_type'', req TStr), (''entity_id'', req TStr), (''expense_id'', req TStr), (''title'', req TStr),
      (''amount'', req TStr), (''currency'', req TStr), (''base_amount'', req TStr), (''status'', req TStr),
      (''payment_type'', req TStr), (''category_id'', opt (TOpt TStr) JNull), (''description'', opt (TOpt TStr) JNull),
      (''expense_date'', opt (TOpt TStr) JNull), (''submitted_by'', opt (TOpt TStr) JNull),
      (''submitted_at'', opt (TOpt TStr) JNull), (''notification_recipient_id'', opt (TOpt TStr) JNull)]"

definition FinanceExpenseRejectedV1 :: schema where
  "FinanceExpenseRejectedV1 = extend_model FinanceExpenseEventV1
     [(''rejection_comment'', req TStr)]"

definition FinanceInvoiceEventV1 :: schema where
  "FinanceInvoiceEventV1 = extend_model EventPayload
     [(''entity_type'', req TStr), (''entity_id'', req TStr), (''invoice_number'', req TStr), (''status'', req TStr),
      (''total_amount'', req TStr), (''invoice_type'', opt (TOpt TStr) JNull), (''party_name'', opt (TOpt TStr) JNull),
      (''payment_amount'', opt (TOpt TStr) JNull), (''payment_method'', opt (TOpt TStr) JNull),
      (''notification_recipient_id'', opt (TOpt TStr) JNull)]"

definition FinanceCardTransactionImportedV1 :: schema where
  "FinanceCardTransactionImportedV1 = extend_model EventPayload
     [(''entity_type'', req TStr), (''entity_id'', req TStr), (''total_submitted'', req TInt), (''created'', req TInt),
      (''skipped_duplicates'', req TInt), (''auto_matched'', req TInt), (''requires_manual_review'', req TInt),
      (''match_error_count'', req TInt), (''match_errors'', opt (TList (TDict TAny)) (JList [])),
      (''created_transaction_ids'', opt (TList TStr) (JList [])),
      (''notification_recipient_id'', opt (TOpt TStr) JNull)]"

definition FinanceCardTransactionMatchedV1 :: schema where
  "FinanceCardTransactionMatchedV1 = extend_model EventPayload
     [(''entity_type'', req TStr), (''entity_id'', req TStr), (''merchant_name'', opt (TOpt TStr) JNull),
      (''amount'', req TStr), (''currency'', req TStr), (''transaction_date'', opt (TOpt TStr) JNull),
      (''external_reference'', opt (TOpt TStr) JNull), (''matched_expense_id'', req TStr), (''match_type'', req TStr),
      (''notification_recipient_id'', opt (TOpt TStr) JNull)]"

definition HREventV1 :: schema where
  "HREventV1 = extend_model EventPayload
     [(''entity_id'', req TStr), (''entity_type'', req TStr), (''action'', req TStr),
      (''notification_event'', req TStr)]"

definition HRManualEntryCreatedV1 :: schema where
  "HRManualEntryCreatedV1 = extend_model HREventV1
     [(''manual_entry_id'', req TStr), (''employee_id'', req TStr), (''attendance_id'', opt (TOpt TStr) JNull)]"

definition HRAttendanceCorrectionV1 :: schema where
  "HRAttendanceCorrectionV1 = extend_model HREventV1
     [(''manual_entry_id'', req TStr), (''attendance_id'', req TStr), (''employee_id'', req TStr)]"

definition HRSyncFailedV1 :: schema where
  "HRSyncFailedV1 = extend_model HREventV1
     [(''sync_type'', req TStr), (''error'', req TStr), (''task_id'', opt (TOpt TStr) JNull)]"

definition HRJobPostingPublishedV1 :: schema where
  "HRJobPostingPublishedV1 = extend_model HREventV1
     [(''job_id'', req TStr), (''title'', req TStr), (''slug'', req TStr), (''share_url'', opt (TOpt TStr) JNull)]"

definition HRJobPostingClosedV1 :: schema where
  "HRJobPostingClosedV1 = extend_model HREventV1
     [(''job_id'', req TStr), (''title'', req TStr)]"

definition HRApplicationSubmittedV1 :: schema where
  "HRApplicationSubmittedV1 = extend_model HREventV1
     [(''application_id'', req TStr), (''job_id'', req TStr)]"

definition HRApplicationStageChangedV1 :: schema where
  "HRApplicationStageChangedV1 = extend_model HREventV1
     [(''application_id'', req TStr), (''job_id'', req TStr), (''new_stage'', req TStr),
      (''old_stage'', opt (TOpt TStr) JNull)]"

definition LeadEventV1 :: schema where
  "LeadEventV1 = extend_model EventPayload
     [(''entity_type'', req TStr), (''entity_id'', req TStr), (''lead_id'', req TStr),
      (''lead_name'', opt (TOpt TStr) JNull)]"

definition LeadCreatedV1 :: schema where
  "LeadCreatedV1 = extend_model LeadEventV1
     [(''hashed_phone'', opt (TOpt TStr) JNull), (''hashed_email'', opt (TOpt TStr) JNull),
      (''source'', opt (TOpt TStr) JNull), (''listing_reference'', opt (TOpt TStr) JNull),
      (''tenant_id'', opt (TOpt TStr) JNull), (''lead_type'', opt (TOpt TStr) JNull),
      (''stage'', opt (TOpt TStr) JNull), (''lead_score'', opt (TOpt TInt) JNull),
      (''lead_quality_tier'', opt (TOpt TStr) JNull), (''assigned_to'', opt (TOpt TStr) JNull),
      (''recipient_id'', opt (TOpt TStr) JNull), (''created_by'', opt (TOpt TStr) JNull),
      (''actor_id'', opt (TOpt TStr) JNull)]"

definition LeadAssignedV1 :: schema where
  "LeadAssignedV1 = extend_model LeadEventV1
     [(''assigned_to'', req TStr), (''assigned_by'', opt (TOpt TStr) JNull), (''hashed_phone'', opt (TOpt TStr) JNull),
      (''listing_reference'', opt (TOpt TStr) JNull), (''assignment_reason'', opt (TOpt TStr) JNull)]"

definition LeadQualifiedV1 :: schema where
  "LeadQualifiedV1 = extend_model LeadEventV1
     [(''qualification_score'', opt (TOpt TInt) JNull), (''assigned_to'', opt (TOpt TStr) JNull)]"

definition LeadFollowupDueV1 :: schema where
  "LeadFollowupDueV1 = extend_model LeadEventV1
     [(''followup_date'', opt (TOpt TStr) JNull), (''assigned_to'', opt (TOpt TStr) JNull)]"

definition ListingPermitEventV1 :: schema where
  "ListingPermitEventV1 = extend_model EventPayload
     [(''entity_id'', req TStr), (''entity_type'', req TStr), (''listing_id'', req TStr),
      (''permit_number'', req TStr), (''permit_type'', opt (TOpt TStr) JNull), (''expires_at'', req TStr),
      (''days_until_expiry'', req TInt), (''notification_recipient_id'', opt (TOpt TStr) JNull)]"

definition ListingPortalSyncFailedV1 :: schema where
  "ListingPortalSyncFailedV1 = extend_model EventPayload
     [(''entity_id'', req TStr), (''entity_type'', req TStr), (''listing_id'', req TStr),
      (''listing_title'', opt (TOpt TStr) JNull), (''portal_name'', req TStr),
      (''error_message'', opt (TOpt TStr) JNull), (''notification_recipient_id'', opt (TOpt TStr) JNull)]"

definition ListingAuditEventV1 :: schema where
  "ListingAuditEventV1 = extend_model EventPayload
     [(''entity_id'', req TStr), (''entity_type'', req TStr), (''action'', req TStr),
      (''new_status'', opt (TOpt TStr) JNull), (''old_status'', opt (TOpt TStr) JNull),
      (''new_verification_state'', opt (TOpt TStr) JNull), (''old_verification_state'', opt (TOpt TStr) JNull),
      (''changes'', opt (TOpt (TDict TAny)) JNull), (''notification_recipient_id'', opt (TOpt TStr) JNull)]"

definition LMSQuizGeneratedV1 :: schema where
  "LMSQuizGeneratedV1 = extend_model EventPayload
     [(''recipient_id'', req TStr), (''entity_type'', req TStr), (''entity_id'', req TStr), (''quiz_title'', req TStr),
      (''questions_count'', req TInt), (''review_url'', req TStr)]"

definition LMSQuizAssignedV1 :: schema where
  "LMSQuizAssignedV1 = extend_model EventPayload
     [(''recipient_id'', req TStr), (''entity_type'', req TStr), (''entity_id'', req TStr), (''quiz_id'', req TStr),
      (''quiz_title'', req TStr), (''expires_at'', opt (TOpt TStr) JNull), (''questions_count'', req TInt)]"

definition LMSQuizExpiredV1 :: schema where
  "LMSQuizExpiredV1 = extend_model EventPayload
     [(''recipient_id'', req TStr), (''entity_type'', req TStr), (''entity_id'', req TStr), (''quiz_id'', req TStr),
      (''quiz_title'', req TStr), (''expired_at'', opt (TOpt TStr) JNull), (''audit'', req TBool)]"

definition NotificationSentV1 :: schema where
  "NotificationSentV1 = extend_model EventPayload
     [(''notification_id'', req TStr), (''recipient_id'', req TStr), (''module'', req TStr), (''event'', req TStr),
      (''channels'', req (TList TStr)), (''priority'', req TStr)]"

definition NotificationLeadOverdueRequestedV1 :: schema where
  "NotificationLeadOverdueRequestedV1 = extend_model EventPayload
     [(''notification_id'', opt (TOpt TStr) JNull), (''lead_id'', req TStr), (''entity_type'', req TStr)]"

definition TaskEventV1 :: schema where
  "TaskEventV1 = extend_model EventPayload
     [(''task_id'', req TStr), (''title'', req TStr), (''status'', req TStr), (''priority'', req TStr),
      (''entity_type'', opt (TOpt TStr) JNull), (''entity_id'', opt (TOpt TStr) JNull),
      (''assigned_to'', opt (TOpt TStr) JNull), (''action'', req TStr)]"

definition TaskCreatedV1 :: schema where
  "TaskCreatedV1 = extend_model TaskEventV1 []"

definition TaskAssignedV1 :: schema where
  "TaskAssignedV1 = extend_model TaskEventV1 []"

definition TaskDueSoonV1 :: schema where
  "TaskDueSoonV1 = extend_model TaskEventV1 []"

definition TaskStatusChangedV1 :: schema where
  "TaskStatusChangedV1 = extend_model TaskEventV1
     [(''prev_status'', req TStr), (''new_status'', req TStr)]"

definition TaskWatcherAddedV1 :: schema where
  "TaskWatcherAddedV1 = extend_model TaskEventV1
     [(''watcher_user_id'', req TStr)]"

definition TaskCoAssignedV1 :: schema where
  "TaskCoAssignedV1 = extend_model TaskEventV1
     [(''co_assignee_user_id'', req TStr)]"

definition WAMQualificationResultV1 :: schema where
  "WAMQualificationResultV1 = extend_model EventPayload
     [(''buyer_type'', opt (TOpt TStr) JNull), (''individual_or_corp'', opt (TOpt TStr) JNull),
      (''funds_location'', opt (TOpt TStr) JNull), (''bank_account_status'', opt (TOpt TStr) JNull),
      (''financing_method'', opt (TOpt TStr) JNull), (''pre_approval_status'', opt (TOpt TStr) JNull),
      (''financial_readiness'', opt (TOpt TStr) JNull), (''purpose'', opt (TOpt TStr) JNull),
      (''comparing_markets'', opt (TOpt TStr) JNull), (''timeline'', opt (TOpt TStr) JNull),
      (''legal_readiness'', opt (TOpt TStr) JNull), (''property_type_pref'', opt (TOpt TStr) JNull),
      (''budget'', opt (TOpt TStr) JNull), (''location'', opt (TOpt TStr) JNull),
      (''qualification_status'', opt (TOpt TStr) JNull), (''next_step'', opt (TOpt TStr) JNull)]"

definition WAMLeadQualifiedV1 :: schema where
  "WAMLeadQualifiedV1 = extend_model EventPayload
     [(''user_number'', req TStr), (''lead_score'', constrained [Ge 0] (req TInt)),
      (''tier'', req (TEnum [''hot'', ''warm'', ''cold'', ''low_priority''])), (''buyer_type'', opt (TOpt TStr) JNull),
      (''budget'', opt (TOpt TStr) JNull), (''location'', opt (TOpt TStr) JNull),
      (''booking_uid'', opt (TOpt TStr) JNull), (''persona'', opt (TOpt TStr) JNull),
      (''crm_agent_id'', opt (TOpt TStr) JNull),
      (''qualification_result'', opt (TOpt (TModel ''WAMQualificationResultV1'')) JNull)]"

text \<open>\<open>_digits_only\<close> of \<open>user_number\<close>\<close>

definition digits_only :: "string \<Rightarrow> string res" where
  "digits_only v =
     (if v = [] \<or> \<not> list_all is_digit v then Inl (ValueError ''user_number must be digits-only (no +, spaces, or symbols)'') else Inr v)"

text \<open>Every payload class with its base.\<close>

definition payload_classes :: "(schema \<times> schema) list" where
  "payload_classes =
     [(ActivityCommentAddedV1, EventPayload), (ActivityCommentEditedV1, ActivityCommentAddedV1), (ActivityCommentDeletedV1, EventPayload),
      (ActivityLogCreatedV1, EventPayload), (AdminLeadSourceCreatedV1, EventPayload), (AdminLeadSourceUpdatedV1, EventPayload),
      (AdminLeadSourceDeletedV1, EventPayload), (AdminAssignmentRuleCreatedV1, EventPayload), (AdminAssignmentRuleUpdatedV1, EventPayload),
      (AdminAssignmentRuleDeletedV1, EventPayload), (AdminAgentGroupCreatedV1, EventPayload), (AdminAgentGroupUpdatedV1, EventPayload),
      (AdminAgentGroupDeletedV1, EventPayload), (AdminModuleConfigurationUpdatedV1, EventPayload), (AdminTenantSiteCreatedV1, EventPayload),
      (AdminTenantSiteUpdatedV1, EventPayload), (AdminTenantSiteDeletedV1, EventPayload), (IntegrationPlatformEventV1, EventPayload),
      (AdminUserCreatedV1, EventPayload), (AdminUserUpdatedV1, EventPayload), (AdminRoleAssignedV1, EventPayload),
      (PortalAgentIdentityV1, EventPayload), (AdminPortalAgentPromotedV1, EventPayload), (CMSPageEventV1, EventPayload),
      (CMSPageUpdatedV1, CMSPageEventV1), (CMSPagePublishedV1, CMSPageEventV1), (CMSPageReviewRequestedV1, CMSPageEventV1),
      (CMSPageApprovedV1, CMSPageEventV1), (CMSPageRejectedV1, CMSPageEventV1), (CMSBlogEventV1, EventPayload),
      (CMSBlogUpdatedV1, CMSBlogEventV1), (CMSLandingPageMediaV1, EventPayload), (CMSLandingPageContextV1, EventPayload),
      (CMSLandingPagePublishedV1, EventPayload), (FinanceExpenseEventV1, EventPayload), (FinanceExpenseRejectedV1, FinanceExpenseEventV1),
      (FinanceInvoiceEventV1, EventPayload), (FinanceCardTransactionImportedV1, EventPayload), (FinanceCardTransactionMatchedV1, EventPayload),
      (HREventV1, EventPayload), (HRManualEntryCreatedV1, HREventV1), (HRAttendanceCorrectionV1, HREventV1),
      (HRSyncFailedV1, HREventV1), (HRJobPostingPublishedV1, HREventV1), (HRJobPostingClosedV1, HREventV1),
      (HRApplicationSubmittedV1, HREventV1), (HRApplicationStageChangedV1, HREventV1), (LeadEventV1, EventPayload),
      (LeadCreatedV1, LeadEventV1), (LeadAssignedV1, LeadEventV1), (LeadQualifiedV1, LeadEventV1),
      (LeadFollowupDueV1, LeadEventV1), (ListingPermitEventV1, EventPayload), (ListingPortalSyncFailedV1, EventPayload),
      (ListingAuditEventV1, EventPayload), (LMSQuizGeneratedV1, EventPayload), (LMSQuizAssignedV1, EventPayload),
      (LMSQuizExpiredV1, EventPayload), (NotificationSentV1, EventPayload), (NotificationLeadOverdueRequestedV1, EventPayload),
      (TaskEventV1, EventPayload), (TaskCreatedV1, TaskEventV1), (TaskAssignedV1, TaskEventV1),
      (TaskDueSoonV1, TaskEventV1), (TaskStatusChangedV1, TaskEventV1), (TaskWatcherAddedV1, TaskEventV1),
      (TaskCoAssignedV1, TaskEventV1), (WAMQualificationResultV1, EventPayload), (WAMLeadQualifiedV1, EventPayload)]"

lemmas payload_defs = EventPayload_def ActivityCommentAddedV1_def ActivityCommentEditedV1_def ActivityCommentDeletedV1_def ActivityLogCreatedV1_def AdminLeadSourceCreatedV1_def AdminLeadSourceUpdatedV1_def AdminLeadSourceDeletedV1_def AdminAssignmentRuleCreatedV1_def AdminAssignmentRuleUpdatedV1_def AdminAssignmentRuleDeletedV1_def AdminAgentGroupCreatedV1_def AdminAgentGroupUpdatedV1_def AdminAgentGroupDeletedV1_def AdminModuleConfigurationUpdatedV1_def AdminTenantSiteCreatedV1_def AdminTenantSiteUpdatedV1_def AdminTenantSiteDeletedV1_def IntegrationPlatformEventV1_def AdminUserCreatedV1_def AdminUserUpdatedV1_def AdminRoleAssignedV1_def PortalAgentIdentityV1_def AdminPortalAgentPromotedV1_def CMSPageEventV1_def CMSPageUpdatedV1_def CMSPagePublishedV1_def CMSPageReviewRequestedV1_def CMSPageApprovedV1_def CMSPageRejectedV1_def CMSBlogEventV1_def CMSBlogUpdatedV1_def CMSLandingPageMediaV1_def CMSLandingPageContextV1_def CMSLandingPagePublishedV1_def FinanceExpenseEventV1_def FinanceExpenseRejectedV1_def FinanceInvoiceEventV1_def FinanceCardTransactionImportedV1_def FinanceCardTransactionMatchedV1_def HREventV1_def HRManualEntryCreatedV1_def HRAttendanceCorrectionV1_def HRSyncFailedV1_def HRJobPostingPublishedV1_def HRJobPostingClosedV1_def HRApplicationSubmittedV1_def HRApplicationStageChangedV1_def LeadEventV1_def LeadCreatedV1_def LeadAssignedV1_def LeadQualifiedV1_def LeadFollowupDueV1_def ListingPermitEventV1_def ListingPortalSyncFailedV1_def ListingAuditEventV1_def LMSQuizGeneratedV1_def LMSQuizAssignedV1_def LMSQuizExpiredV1_def NotificationSentV1_def NotificationLeadOverdueRequestedV1_def TaskEventV1_def TaskCreatedV1_def TaskAssignedV1_def TaskDueSoonV1_def TaskStatusChangedV1_def TaskWatcherAddedV1_def TaskCoAssignedV1_def WAMQualificationResultV1_def WAMLeadQualifiedV1_def

section \<open>Lemmas\<close>

definition extends :: "schema \<Rightarrow> schema \<Rightarrow> bool" where
  "extends s b =
     (sc_extra s = Forbid \<and> sc_extra b = Forbid \<and> dict_ok (sc_fields s) \<and>
      list_all (\<lambda>(k, f). dict_get (sc_fields s) k = Some f) (sc_fields b))"

lemma fields_value_get:
  "fields_value convert fs d = Some r \<Longrightarrow>
     map fst r = map fst fs \<and>
     (\<forall>k f. dict_get fs k = Some f \<longrightarrow> (\<exists>v. dict_get r k = Some v \<and> field_value convert f (dict_get d k) = Some v))"
proof (induction fs arbitrary: r)
  case (Cons x fs)
  obtain k f where x: "x = (k, f)" by (cases x)
  from Cons.prems x obtain v r' where "field_value convert f (dict_get d k) = Some v" "fields_value convert fs d = Some r'" "r = (k, v) # r'"
    by (auto split: option.splits)
  with Cons.IH x show ?case by auto
qed simp

lemma fields_value_some:
  "(\<And>k f. (k, f) \<in> set fs \<Longrightarrow> field_value convert f (dict_get d k) \<noteq> None) \<Longrightarrow> \<exists>r. fields_value convert fs d = Some r"
proof (induction fs)
  case (Cons x fs)
  obtain k f where x: "x = (k, f)" by (cases x)
  have "\<exists>r. fields_value convert fs d = Some r" by (rule Cons.IH) (rule Cons.prems, simp)
  moreover have "field_value convert f (dict_get d k) \<noteq> None" using Cons.prems x by simp
  ultimately show ?case using x by auto
qed simp

lemma fields_value_cong:
  "(\<And>k f. (k, f) \<in> set fs \<Longrightarrow> dict_get d k = dict_get d' k) \<Longrightarrow> fields_value convert fs d = fields_value convert fs d'"
proof (induction fs)
  case (Cons x fs)
  obtain k f where x: "x = (k, f)" by (cases x)
  have "fields_value convert fs d = fields_value convert fs d'" 
    using Cons.prems by (intro Cons.IH) auto
  with Cons.prems [of k f] x show ?case by (simp split: option.split)
qed simp

lemma payload_classes_extend: "list_all (\<lambda>(s, b). extends s b) payload_classes"
  unfolding payload_classes_def
  by (simp add: payload_defs extends_def extend_model_def base_model_def dict_ok_def)

lemma extends_get:
  "extends s b \<Longrightarrow> (k, f) \<in> set (sc_fields b) \<Longrightarrow> dict_get (sc_fields s) k = Some f"
  by (auto simp: extends_def list_all_iff)

text \<open>The part of an input that a schema declares.\<close>

definition declared_part :: "schema \<Rightarrow> (string, json) dict \<Rightarrow> (string, json) dict" where
  "declared_part s d = filter (\<lambda>(k, _). k \<in> fst ` set (sc_fields s)) d"

lemma declared_part_get: "k \<in> fst ` set (sc_fields s) \<Longrightarrow> dict_get (declared_part s d) k = dict_get d k"
  unfolding declared_part_def by (induction d) (auto simp: image_iff, force)

lemma declared_part_no_extra: "\<not> list_ex (\<lambda>(k, _). dict_get (sc_fields s) k = None) (declared_part s d)"
  by (auto simp: declared_part_def list_ex_iff map_of_eq_None_iff)

lemma validate_base:
  assumes "extends s b" and "model_validate convert s d = Some r"
  shows "\<exists>r'. model_validate convert b (declared_part b d) = Some r' \<and> (\<forall>k \<in> fst ` set (sc_fields b). dict_get r' k = dict_get r k)"
proof -
  have fv: "fields_value convert (sc_fields s) d = Some r" using assms(2) by (auto simp: model_validate_def split: if_splits)
  note sub = fields_value_get [OF fv]
  have get: "field_value convert f (dict_get d k) \<noteq> None" if "(k, f) \<in> set (sc_fields b)" for k f
    using sub extends_get [OF assms(1) that] by fastforce
  obtain r' where r': "fields_value convert (sc_fields b) d = Some r'" using fields_value_some [of "sc_fields b" convert d] get by blast
  have "fields_value convert (sc_fields b) (declared_part b d) = fields_value convert (sc_fields b) d"
    by (rule fields_value_cong) (rule declared_part_get, force)
  with r' declared_part_no_extra [of b d] have "model_validate convert b (declared_part b d) = Some r'" by (simp add: model_validate_def)
  moreover have "dict_get r' k = dict_get r k" if k: "k \<in> fst ` set (sc_fields b)" for k
  proof -
    obtain f where f: "dict_get (sc_fields b) k = Some f" using k by (metis map_of_eq_None_iff option.exhaust)
    with extends_get [OF assms(1) map_of_SomeD [OF f]] fields_value_get [OF r'] sub show ?thesis by metis
  qed
  ultimately show ?thesis by blast
qed

section \<open>Properties\<close>

text \<open>Every typed payload is strict and additive: whatever values pydantic converts to which, an input that a payload class accepts has
  no key outside the class (a renamed or drifted key is an error), its result has exactly the fields of the class, and the part of it that the
  base class declares is accepted by the base class with the same values, so a consumer of the base
  event reads every specialised one.
\<close>
theorem payloads_strict_and_additive:
  assumes "(s, b) \<in> set payload_classes" and "model_validate convert s d = Some r"
  shows "fst ` set d \<subseteq> fst ` set (sc_fields s) \<and> map fst r = map fst (sc_fields s) \<and>
    (\<exists>r'. model_validate convert b (declared_part b d) = Some r' \<and> (\<forall>k \<in> fst ` set (sc_fields b). dict_get r' k = dict_get r k))"
proof -
  have e: "extends s b" using payload_classes_extend assms(1) by (auto simp: list_all_iff)
  have "fields_value convert (sc_fields s) d = Some r" using assms(2) by (auto simp: model_validate_def split: if_splits)
  moreover have "\<not> list_ex (\<lambda>(k, _). dict_get (sc_fields s) k = None) d"
    using assms(2) e by (auto simp: model_validate_def extends_def split: if_splits)
  then have "fst ` set d \<subseteq> fst ` set (sc_fields s)" by (force simp: list_ex_iff map_of_eq_None_iff)
  ultimately show ?thesis
    by (intro conjI conjunct1 [OF fields_value_get] validate_base [OF e assms(2)])
qed

theorem payloads_strict_and_additive_witness:
  "\<exists>r'. model_validate (\<lambda>_ _ v. Some v) TaskEventV1
     (declared_part TaskEventV1 [(''task_id'', JStr ''7''), (''title'', JStr ''t''), (''status'', JStr ''open''), (''priority'', JStr ''low''),
        (''action'', JStr ''x''), (''watcher_user_id'', JStr ''u'')]) = Some r' \<and> dict_get r' ''title'' = Some (JStr ''t'')"
proof -
  let ?d = "[(''task_id'', JStr ''7''), (''title'', JStr ''t''), (''status'', JStr ''open''), (''priority'', JStr ''low''),
        (''action'', JStr ''x''), (''watcher_user_id'', JStr ''u'')]"
  have m: "(TaskWatcherAddedV1, TaskEventV1) \<in> set payload_classes" unfolding payload_classes_def by (intro list.set_intros)
  obtain r where r: "model_validate (\<lambda>_ _ v. Some v) TaskWatcherAddedV1 ?d = Some r" "dict_get r ''title'' = Some (JStr ''t'')"
    by (simp add: model_validate_def TaskWatcherAddedV1_def TaskEventV1_def EventPayload_def extend_model_def base_model_def req_def
        opt_def field_value_def)
  have "''title'' \<in> fst ` set (sc_fields TaskEventV1)"
    by (simp add: TaskEventV1_def EventPayload_def extend_model_def base_model_def)
  with payloads_strict_and_additive [OF m r(1)] r(2) show ?thesis by metis
qed

end
