(* ===== verification/S2s_Contracts.thy ===== *)
theory S2s_Contracts
  imports Payload_Schemas Path_Normalizer
begin

text \<open>
  \<open>contracts/s2s/\<close>: the paths of the service-to-service endpoints, the vocabularies they carry, and the schemas of
  their requests and responses. A UUID argument is its text.
\<close>

section \<open>Vocabularies\<close>

datatype ConditionName = LEAD_SCORE | LEAD_SOURCE | LANGUAGE | PROPERTY_TYPE | BUDGET | LOCATION | URGENCY

fun condition_name_value :: "ConditionName \<Rightarrow> string" where
  "condition_name_value LEAD_SCORE = ''Lead Score''"
| "condition_name_value LEAD_SOURCE = ''Lead Source''"
| "condition_name_value LANGUAGE = ''Language''"
| "condition_name_value PROPERTY_TYPE = ''Property Type''"
| "condition_name_value BUDGET = ''Budget''"
| "condition_name_value LOCATION = ''Location''"
| "condition_name_value URGENCY = ''Urgency''"

definition condition_names :: "ConditionName list" where
  "condition_names = [LEAD_SCORE, LEAD_SOURCE, LANGUAGE, PROPERTY_TYPE, BUDGET, LOCATION, URGENCY]"

datatype ConditionComparison = EQUALS | NOT_EQUALS | GREATER_THAN | LESS_THAN | IN_LIST

fun condition_comparison_value :: "ConditionComparison \<Rightarrow> string" where
  "condition_comparison_value EQUALS = ''Equals''"
| "condition_comparison_value NOT_EQUALS = ''Not Equals''"
| "condition_comparison_value GREATER_THAN = ''Greater Than''"
| "condition_comparison_value LESS_THAN = ''Less Than''"
| "condition_comparison_value IN_LIST = ''In''"

definition condition_comparisons :: "ConditionComparison list" where
  "condition_comparisons = [EQUALS, NOT_EQUALS, GREATER_THAN, LESS_THAN, IN_LIST]"

definition CONDITION_OPERATORS :: "(ConditionName, ConditionComparison list) dict" where
  "CONDITION_OPERATORS =
     [(LEAD_SCORE, condition_comparisons), (BUDGET, condition_comparisons), (LEAD_SOURCE, [EQUALS, NOT_EQUALS, IN_LIST]),
      (LANGUAGE, [EQUALS, NOT_EQUALS, IN_LIST]), (PROPERTY_TYPE, [EQUALS, NOT_EQUALS, IN_LIST]),
      (LOCATION, [EQUALS, NOT_EQUALS, IN_LIST]), (URGENCY, [EQUALS, NOT_EQUALS, IN_LIST])]"

definition RuleConditionLogic :: "string list" where
  "RuleConditionLogic = [''ALL'', ''ANY'']"

definition AssignmentMethod :: "string list" where
  "AssignmentMethod = [''round_robin'', ''specific_agent'', ''specific_agent_team'', ''specific_user'', ''team_based'', ''lead_load_queue'']"

definition PortalSyncStatus :: "string list" where
  "PortalSyncStatus = [''pending'', ''syncing'', ''synced'', ''error'', ''disabled'', ''action_required'']"

text \<open>A text stripped of white space, of 1 to 255 characters.\<close>

definition SheetOwnerName :: ty where
  "SheetOwnerName = TStripped 1 255"

section \<open>Schemas\<close>

definition AccessCheckRequest :: schema where
  "AccessCheckRequest = base_model Ignore
     [(''user_id'', req TUuid)]"

definition AccessCheckResponse :: schema where
  "AccessCheckResponse = base_model Ignore
     [(''allowed'', req TBool), (''reason'', req TStr)]"

definition RuleCondition :: schema where
  "RuleCondition = base_model Ignore
     [(''condition_name'', req (TEnum (map condition_name_value condition_names))),
      (''condition_comparison'', req (TEnum (map condition_comparison_value condition_comparisons))),
      (''condition_value'', req (TUnion [TStr, TInt, TFloat]))]"

definition RuleNotifications :: schema where
  "RuleNotifications = base_model Ignore
     [(''notify_assigned_agent'', opt TBool (JBool True)), (''notify_team_leader'', opt TBool (JBool False)),
      (''notification_channels'', opt (TList TStr) (JList [JStr ''in_app'']))]"

definition AssignmentRuleRef :: schema where
  "AssignmentRuleRef = base_model Ignore
     [(''id'', req TUuid), (''rule_name'', opt (TOpt TStr) JNull), (''priority_number'', req TInt),
      (''is_active'', req TBool), (''conditions'', opt (TList (TModel ''RuleCondition'')) (JList [])),
      (''rule_condition_logic'', opt (TOpt (TEnum RuleConditionLogic)) JNull),
      (''assignment_method'', opt (TOpt (TEnum AssignmentMethod)) JNull), (''agent_group_id'', opt (TOpt TUuid) JNull),
      (''agents_team'', opt TAny JNull), (''max_leads_per_day'', opt (TOpt TInt) JNull),
      (''active_days'', opt (TList TStr) (JList [])), (''start_time'', opt (TOpt TStr) JNull),
      (''end_time'', opt (TOpt TStr) JNull), (''timezone'', opt (TOpt TStr) JNull),
      (''auto_reassign_after_minutes'', opt (TOpt TInt) JNull),
      (''escalate_to_manager_if_no_response'', opt TBool (JBool False)),
      (''notifications'', opt (TOpt (TModel ''RuleNotifications'')) JNull)]"

definition AgentGroupMemberRef :: schema where
  "AgentGroupMemberRef = base_model Ignore
     [(''agent_id'', req TUuid), (''sort_order'', opt TInt (JInt 0))]"

definition AgentGroupRef :: schema where
  "AgentGroupRef = base_model Ignore
     [(''id'', req TUuid), (''group_name'', req TStr), (''is_active'', opt TBool (JBool True)),
      (''members'', opt (TList (TModel ''AgentGroupMemberRef'')) (JList []))]"

definition TenantStatusRef :: schema where
  "TenantStatusRef = base_model Ignore
     [(''is_active'', req TBool)]"

definition UserDetailRef :: schema where
  "UserDetailRef = base_model Ignore
     [(''id'', req TUuid), (''email'', opt (TOpt TStr) JNull), (''full_name'', opt (TOpt TStr) JNull),
      (''name'', opt (TOpt TStr) JNull), (''department_id'', opt (TOpt TUuid) JNull),
      (''portal_info'', opt (TOpt (TDict TAny)) JNull), (''pf_public_profile_id'', opt (TOpt TStr) JNull),
      (''bayut_user_id'', opt (TOpt TInt) JNull)]"

definition PortalAgentRef :: schema where
  "PortalAgentRef = base_model Ignore
     [(''crm_user_id'', req TUuid), (''name'', opt (TOpt TStr) JNull)]"

definition PortalAgentResolveRef :: schema where
  "PortalAgentResolveRef = base_model Ignore
     [(''resolved'', opt (TDict (TModel ''PortalAgentRef'')) (JDict []))]"

definition PortalAgentUpsertRef :: schema where
  "PortalAgentUpsertRef = base_model Ignore
     [(''crm_user_id'', opt (TOpt TUuid) JNull), (''name'', opt (TOpt TStr) JNull)]"

definition PortalAgentResolveOrCreateRef :: schema where
  "PortalAgentResolveOrCreateRef = base_model Ignore
     [(''resolved'', opt (TDict (TModel ''PortalAgentUpsertRef'')) (JDict []))]"

definition AgentLeadCountsRequest :: schema where
  "AgentLeadCountsRequest = base_model Ignore
     [(''tenant_id'', req TUuid), (''agent_ids'', constrained [MaxLen 500] (req (TList TUuid)))]"

definition AgentLeadCountPair :: schema where
  "AgentLeadCountPair = base_model Ignore
     [(''agent_id'', req TUuid), (''active_count'', req TInt), (''total_count'', req TInt)]"

definition AgentLeadCountRow :: schema where
  "AgentLeadCountRow = base_model Ignore
     [(''agent_id'', req TUuid), (''leads_count'', req TInt)]"

definition AgentLeadCountsResponse :: schema where
  "AgentLeadCountsResponse = base_model Ignore
     [(''rows'', req (TList (TModel ''AgentLeadCountRow'')))]"

definition ListingInternalRef :: schema where
  "ListingInternalRef = base_model Ignore
     [(''id'', req TUuid), (''reference_number'', opt (TOpt TStr) JNull), (''listing_status'', req TStr),
      (''title_en'', opt (TOpt TStr) JNull), (''tenant_id'', req TUuid), (''leads_count'', opt TInt (JInt 0)),
      (''last_lead_at'', opt (TOpt TDatetime) JNull), (''listing_owner'', opt (TOpt (TDict TAny)) JNull),
      (''listing_agent'', opt (TOpt (TDict TAny)) JNull)]"

definition ListingLeadCountOut :: schema where
  "ListingLeadCountOut = base_model Ignore
     [(''listing_id'', req TUuid), (''leads_count'', req TInt), (''last_lead_at'', opt (TOpt TDatetime) JNull)]"

definition ListingActiveCountOut :: schema where
  "ListingActiveCountOut = base_model Ignore
     [(''count'', req TInt)]"

definition AgentListingCountsRequest :: schema where
  "AgentListingCountsRequest = base_model Ignore
     [(''tenant_id'', req TUuid), (''agent_ids'', constrained [MaxLen 500] (req (TList TUuid)))]"

definition AgentListingCountRow :: schema where
  "AgentListingCountRow = base_model Ignore
     [(''agent_id'', req TUuid), (''listings_count'', req TInt)]"

definition AgentListingCountsResponse :: schema where
  "AgentListingCountsResponse = base_model Ignore
     [(''rows'', req (TList (TModel ''AgentListingCountRow'')))]"

definition ListingOwnersRequest :: schema where
  "ListingOwnersRequest = base_model Forbid
     [(''tenant_id'', req TUuid), (''listing_ids'', constrained [MinLen 1, MaxLen 500] (req (TList TUuid)))]"

definition ListingOwnerRow :: schema where
  "ListingOwnerRow = base_model Ignore
     [(''listing_id'', req TUuid), (''owner_id'', req (TOpt TStr)), (''owner_name'', req (TOpt TStr))]"

definition ListingOwnersResponse :: schema where
  "ListingOwnersResponse = base_model Ignore
     [(''rows'', req (TList (TModel ''ListingOwnerRow'')))]"

definition ApplyForOwnerRequest :: schema where
  "ApplyForOwnerRequest = base_model Forbid
     [(''crm_user_id'', req TUuid), (''names'', constrained [MinLen 1, MaxLen 50] (req (TList SheetOwnerName)))]"

definition ApplyForOwnerResponse :: schema where
  "ApplyForOwnerResponse = base_model Ignore
     [(''sheet_enabled'', req TBool), (''matched_rows'', req TInt), (''listings_written'', req TInt)]"

definition PortalSyncActivityQuery :: schema where
  "PortalSyncActivityQuery = base_model Forbid
     [(''portal_name'', opt (TOpt TStr) JNull), (''sync_status'', opt (TOpt (TEnum PortalSyncStatus)) JNull),
      (''limit'', constrained [Ge 1, Le 100] (opt TInt (JInt 20))),
      (''hours_back'', constrained [Ge 1, Le 168] (opt TInt (JInt 24)))]"

definition PortalSyncActivityRow :: schema where
  "PortalSyncActivityRow = base_model Ignore
     [(''id'', req TUuid), (''portal_name'', req TStr), (''portal_sync_status'', req (TEnum PortalSyncStatus)),
      (''portal_sync_error'', req (TOpt TStr)), (''last_synced_at'', req (TOpt TDatetime)),
      (''portal_listing_status'', req (TOpt TStr)), (''enabled'', req TBool)]"

definition PortalSyncActivityPage :: schema where
  "PortalSyncActivityPage = base_model Ignore
     [(''activities'', req (TList (TModel ''PortalSyncActivityRow''))), (''total_count'', req TInt)]"

text \<open>The schemas by what they do with a key they do not declare.\<close>

definition strict_schemas :: "schema list" where
  "strict_schemas = [ListingOwnersRequest, ApplyForOwnerRequest, PortalSyncActivityQuery]"

definition lenient_schemas :: "schema list" where
  "lenient_schemas =
     [AccessCheckRequest, AccessCheckResponse, RuleCondition, RuleNotifications, AssignmentRuleRef,
      AgentGroupMemberRef, AgentGroupRef, TenantStatusRef, UserDetailRef, PortalAgentRef,
      PortalAgentResolveRef, PortalAgentUpsertRef, PortalAgentResolveOrCreateRef, AgentLeadCountsRequest, AgentLeadCountPair,
      AgentLeadCountRow, AgentLeadCountsResponse, ListingInternalRef, ListingLeadCountOut, ListingActiveCountOut,
      AgentListingCountsRequest, AgentListingCountRow, AgentListingCountsResponse, ListingOwnerRow, ListingOwnersResponse,
      ApplyForOwnerResponse, PortalSyncActivityRow, PortalSyncActivityPage]"

section \<open>Paths\<close>

definition INTERNAL_ROOT :: string where
  "INTERNAL_ROOT = ''/api/v1/listing/internal''"

definition LISTINGS_BASE_PATH :: string where
  "LISTINGS_BASE_PATH = INTERNAL_ROOT @ ''/listings''"

definition PORTAL_PUBLICATIONS_BASE_PATH :: string where
  "PORTAL_PUBLICATIONS_BASE_PATH = INTERNAL_ROOT @ ''/portal-publications''"

definition by_reference :: "string \<Rightarrow> string" where
  "by_reference reference_number = LISTINGS_BASE_PATH @ ''/by-reference/'' @ reference_number"

definition active_count :: string where
  "active_count = LISTINGS_BASE_PATH @ ''/active-count''"

definition by_agent :: "string \<Rightarrow> string" where
  "by_agent agent_id = LISTINGS_BASE_PATH @ ''/by-agent/'' @ agent_id"

definition leads_increment :: "string \<Rightarrow> string" where
  "leads_increment listing_id = LISTINGS_BASE_PATH @ ''/'' @ listing_id @ ''/leads:increment''"

definition listing_access_check :: "string \<Rightarrow> string" where
  "listing_access_check listing_id = LISTINGS_BASE_PATH @ ''/'' @ listing_id @ ''/access-check''"

definition agent_listing_counts_batch :: string where
  "agent_listing_counts_batch = LISTINGS_BASE_PATH @ ''/agents:batch-count''"

definition listing_owners_batch :: string where
  "listing_owners_batch = LISTINGS_BASE_PATH @ ''/owners:batch''"

definition apply_for_owner :: string where
  "apply_for_owner = LISTINGS_BASE_PATH @ ''/owner-sheet/apply-for-owner''"

definition recent_sync_activity :: string where
  "recent_sync_activity = PORTAL_PUBLICATIONS_BASE_PATH @ ''/recent-sync-activity''"

definition ADMIN_BASE_PATH :: string where
  "ADMIN_BASE_PATH = ''/api/v1/internal/admin''"

definition assignment_rules :: string where
  "assignment_rules = ADMIN_BASE_PATH @ ''/assignment-rules''"

definition agent_groups :: string where
  "agent_groups = ADMIN_BASE_PATH @ ''/agent-groups''"

definition AUTH_BASE_PATH :: string where
  "AUTH_BASE_PATH = ''/api/v1/internal''"

definition internal_call_headers :: "string \<Rightarrow> string \<Rightarrow> (string, string) dict" where
  "internal_call_headers calling_service tenant_id =
     [(header_name H_CALLING_SERVICE, calling_service), (header_name H_CALLING_TENANT_ID, tenant_id)]"

definition user_by_id :: "string \<Rightarrow> string" where
  "user_by_id user_id = AUTH_BASE_PATH @ ''/users/'' @ user_id"

definition tenant_status :: "string \<Rightarrow> string" where
  "tenant_status tenant_id = AUTH_BASE_PATH @ ''/tenant-status/'' @ tenant_id"

definition portal_agents_resolve :: string where
  "portal_agents_resolve = AUTH_BASE_PATH @ ''/portal-agents/resolve''"

definition portal_agents_resolve_or_create :: string where
  "portal_agents_resolve_or_create = AUTH_BASE_PATH @ ''/portal-agents/resolve-or-create''"

definition LEADS_BASE_PATH :: string where
  "LEADS_BASE_PATH = ''/api/v1/internal/leads''"

definition lead_access_check :: "string \<Rightarrow> string" where
  "lead_access_check lead_id = LEADS_BASE_PATH @ ''/'' @ lead_id @ ''/access-check''"

definition agent_lead_counts_batch :: string where
  "agent_lead_counts_batch = LEADS_BASE_PATH @ ''/agents/kpi-batch''"

definition by_agent_counts :: string where
  "by_agent_counts = LEADS_BASE_PATH @ ''/by-agent''"

definition by_agent_leads :: "string \<Rightarrow> string" where
  "by_agent_leads agent_id = LEADS_BASE_PATH @ ''/by-agent/'' @ agent_id"

definition CACHE_BASE_PATH :: string where
  "CACHE_BASE_PATH = ''/api/v1/internal/cache''"

definition webhook_config :: "string \<Rightarrow> string" where
  "webhook_config token = CACHE_BASE_PATH @ ''/webhook-config/'' @ token"

definition site_key :: "string \<Rightarrow> string" where
  "site_key key_hash = CACHE_BASE_PATH @ ''/site-key/'' @ key_hash"

definition MEDIA_BASE_PATH :: string where
  "MEDIA_BASE_PATH = ''/api/v1/media''"

definition signed_url :: "string \<Rightarrow> string" where
  "signed_url media_file_id = MEDIA_BASE_PATH @ ''/'' @ media_file_id @ ''/url''"

definition wam_link :: string where
  "wam_link = LEADS_BASE_PATH @ ''/link''"

definition start_conversation :: string where
  "start_conversation = LEADS_BASE_PATH @ ''/start-conversation''"

definition close_by_phone :: string where
  "close_by_phone = LEADS_BASE_PATH @ ''/close-by-phone''"

definition wam_status :: "string \<Rightarrow> string" where
  "wam_status lead_id = LEADS_BASE_PATH @ ''/'' @ lead_id @ ''/status''"

section \<open>Lemmas\<close>

text \<open>The paths with a UUID in them, as the segments before and after it.\<close>

definition uuid_routes :: "((string \<Rightarrow> string) \<times> string list \<times> string list) list" where
  "uuid_routes =
     [(by_agent, [''api'', ''v1'', ''listing'', ''internal'', ''listings'', ''by-agent''], []),
      (leads_increment, [''api'', ''v1'', ''listing'', ''internal'', ''listings''], [''leads:increment'']),
      (listing_access_check, [''api'', ''v1'', ''listing'', ''internal'', ''listings''], [''access-check'']),
      (user_by_id, [''api'', ''v1'', ''internal'', ''users''], []),
      (tenant_status, [''api'', ''v1'', ''internal'', ''tenant-status''], []),
      (lead_access_check, [''api'', ''v1'', ''internal'', ''leads''], [''access-check'']),
      (by_agent_leads, [''api'', ''v1'', ''internal'', ''leads'', ''by-agent''], []),
      (signed_url, [''api'', ''v1'', ''media''], [''url'']),
      (wam_status, [''api'', ''v1'', ''internal'', ''leads''], [''status''])]"

definition uuid_text :: "string \<Rightarrow> bool" where
  "uuid_text s = (uuid_at s \<and> length s = 36)"

definition route_label :: "string list \<Rightarrow> string list \<Rightarrow> string" where
  "route_label before_id after_id = segments (before_id @ [''{id}''] @ after_id)"

lemmas s2s_path_defs = INTERNAL_ROOT_def LISTINGS_BASE_PATH_def AUTH_BASE_PATH_def LEADS_BASE_PATH_def MEDIA_BASE_PATH_def
  by_agent_def leads_increment_def listing_access_check_def user_by_id_def tenant_status_def lead_access_check_def
  by_agent_leads_def signed_url_def wam_status_def

lemma uuid_routes_segments: "list_all (\<lambda>(f, as, bs). \<forall>i. f i = segments (as @ [i] @ bs)) uuid_routes"
  by (simp add: uuid_routes_def segments_def s2s_path_defs)

definition plain_segment :: "string \<Rightarrow> bool" where
  "plain_segment s = (no_slash s \<and> CHR 0x0A \<notin> set s \<and> length s < 36 \<and> \<not> list_all is_digit s)"

lemma uuid_routes_plain: "list_all (\<lambda>(f, as, bs). list_all plain_segment (as @ bs)) uuid_routes"
  by (simp add: uuid_routes_def plain_segment_def no_slash_def is_digit_def)

lemma plain_seg_normal: "plain_segment s \<Longrightarrow> seg_numeric (seg_uuid s) = s"
  by (simp add: plain_segment_def seg_uuid_def seg_numeric_def uuid_at_def)

lemma uuid_nth: "uuid_text s \<Longrightarrow> i < 36 \<Longrightarrow> s ! i \<noteq> CHR ''/'' \<and> s ! i \<noteq> CHR 0x0A"
  using uuid_no_slash [of s i] by (simp add: uuid_text_def)

lemma uuid_seg: "uuid_text s \<Longrightarrow> seg_numeric (seg_uuid s) = ''{id}''"
  by (simp add: uuid_text_def seg_uuid_def seg_numeric_def is_digit_def)

lemma normalize_route:
  assumes "list_all plain_segment (as @ bs)" and "uuid_text i"
  shows "normalize_path (segments (as @ [i] @ bs)) = route_label as bs"
proof -
  have i: "no_slash i" "CHR 0x0A \<notin> set i"
    using assms(2) uuid_nth [OF assms(2)] by (auto simp: no_slash_def in_set_conv_nth uuid_text_def)
  have "\<forall>s \<in> set (as @ [i] @ bs). no_slash s \<and> CHR 0x0A \<notin> set s"
    using assms(1) i by (auto simp: plain_segment_def list_all_iff)
  from normalize_segments [OF _ this, of "[]"]
  have "normalize_path (segments (as @ [i] @ bs)) = segments (map (\<lambda>s. seg_numeric (seg_uuid s)) (as @ [i] @ bs))" by (simp add: no_slash_def)
  also have "map (\<lambda>s. seg_numeric (seg_uuid s)) (as @ [i] @ bs) = as @ [''{id}''] @ bs"
    using assms(1) uuid_seg [OF assms(2)] by (auto simp: list_all_iff plain_seg_normal map_idI)
  finally show ?thesis by (simp add: route_label_def)
qed

lemma route_labels_distinct: "distinct (map (\<lambda>(f, as, bs). route_label as bs) uuid_routes)"
  by (simp add: uuid_routes_def route_label_def segments_def)

lemmas s2s_schema_defs = AccessCheckRequest_def AccessCheckResponse_def RuleCondition_def RuleNotifications_def AssignmentRuleRef_def AgentGroupMemberRef_def AgentGroupRef_def TenantStatusRef_def UserDetailRef_def PortalAgentRef_def PortalAgentResolveRef_def PortalAgentUpsertRef_def PortalAgentResolveOrCreateRef_def AgentLeadCountsRequest_def AgentLeadCountPair_def AgentLeadCountRow_def AgentLeadCountsResponse_def ListingInternalRef_def ListingLeadCountOut_def ListingActiveCountOut_def AgentListingCountsRequest_def AgentListingCountRow_def AgentListingCountsResponse_def ListingOwnersRequest_def ListingOwnerRow_def ListingOwnersResponse_def ApplyForOwnerRequest_def ApplyForOwnerResponse_def PortalSyncActivityQuery_def PortalSyncActivityRow_def PortalSyncActivityPage_def

lemma strict_forbid: "list_all (\<lambda>s. sc_extra s = Forbid) strict_schemas"
  by (simp add: strict_schemas_def s2s_schema_defs base_model_def)

lemma lenient_ignore: "list_all (\<lambda>s. sc_extra s = Ignore) lenient_schemas"
  by (simp add: lenient_schemas_def s2s_schema_defs base_model_def)

lemma fields_value_other:
  "k \<notin> fst ` set fs \<Longrightarrow> fields_value convert fs ((k, v) # d) = fields_value convert fs d"
  by (rule fields_value_cong) force

section \<open>Properties\<close>

text \<open>The path of every service-to-service endpoint that carries a UUID is labelled by its route: the path normaliser replaces the UUID and nothing
  else, for every UUID. Two such endpoints never share a path, and the path determines the UUID.
\<close>
theorem s2s_paths_have_route_labels:
  assumes "(f, as, bs) \<in> set uuid_routes" and "uuid_text i"
  shows "normalize_path (f i) = route_label as bs \<and>
    (\<forall>g as' bs' i'. (g, as', bs') \<in> set uuid_routes \<longrightarrow> uuid_text i' \<longrightarrow> f i = g i' \<longrightarrow> f = g \<and> as = as' \<and> bs = bs' \<and> i = i')"
proof -
  have seg: "f i = segments (as @ [i] @ bs)" if "(f, as, bs) \<in> set uuid_routes" for f as bs i
    using uuid_routes_segments that by (auto simp: list_all_iff)
  have label: "normalize_path (f i) = route_label as bs" if "(f, as, bs) \<in> set uuid_routes" "uuid_text i" for f as bs i
    using normalize_route [OF _ that(2), of as bs] uuid_routes_plain that(1) seg [OF that(1), of i] by (auto simp: list_all_iff)
  have "f = g \<and> as = as' \<and> bs = bs' \<and> i = i'" if r: "(g, as', bs') \<in> set uuid_routes" "uuid_text i'" "f i = g i'" for g as' bs' i'
  proof -
    have "route_label as bs = route_label as' bs'" using label [OF assms] label [OF r(1,2)] r(3) by simp
    then have eq: "(f, as, bs) = (g, as', bs')"
      using route_labels_distinct assms(1) r(1) by (intro inj_onD [of "\<lambda>(f, as, bs). route_label as bs" "set uuid_routes"]) (simp_all add: distinct_map)
    with seg [OF assms(1), of i] seg [OF r(1), of i'] r(3) show ?thesis by (simp add: segments_def)
  qed
  with label [OF assms] show ?thesis by blast
qed

theorem s2s_paths_have_route_labels_witness:
  "normalize_path (by_agent ''00000000-0000-0000-0000-0000000000ab'') = ''/api/v1/listing/internal/listings/by-agent/{id}''"
proof -
  have "(by_agent, [''api'', ''v1'', ''listing'', ''internal'', ''listings'', ''by-agent''], []) \<in> set uuid_routes"
    by (simp add: uuid_routes_def)
  moreover have "uuid_text ''00000000-0000-0000-0000-0000000000ab''"
    by (simp add: uuid_text_def uuid_at_def all_hex_def hex_char_def is_digit_def)
  ultimately show ?thesis
    using s2s_paths_have_route_labels [of by_agent] by (auto simp: route_label_def segments_def)
qed

text \<open>A response of the service-to-service contracts may grow: a key that a lenient schema does not declare changes nothing. The strict
  schemas, which are three of the requests, refuse it, whatever pydantic converts to what.
\<close>
theorem s2s_extra_keys:
  assumes "k \<notin> fst ` set (sc_fields s)"
  shows "(s \<in> set strict_schemas \<longrightarrow> model_validate convert s ((k, v) # d) = None) \<and>
    (s \<in> set lenient_schemas \<longrightarrow> model_validate convert s ((k, v) # d) = model_validate convert s d)"
  using strict_forbid lenient_ignore assms fields_value_other [of k "sc_fields s"]
  by (auto simp: list_all_iff model_validate_def map_of_eq_None_iff)

theorem s2s_extra_keys_witness:
  "model_validate (\<lambda>_ _ v. Some v) TenantStatusRef [(''region'', JNull), (''is_active'', JBool True)] = Some [(''is_active'', JBool True)]"
proof -
  have "''region'' \<notin> fst ` set (sc_fields TenantStatusRef)" by (simp add: TenantStatusRef_def base_model_def)
  moreover have "TenantStatusRef \<in> set lenient_schemas" by (simp add: lenient_schemas_def)
  moreover have "model_validate (\<lambda>_ _ v. Some v) TenantStatusRef [(''is_active'', JBool True)] = Some [(''is_active'', JBool True)]"
    by (simp add: TenantStatusRef_def base_model_def model_validate_def req_def field_value_def)
  ultimately show ?thesis using s2s_extra_keys [of "''region''" TenantStatusRef] by metis
qed

text \<open>The rule builder offers ordering comparisons exactly on the numeric fields, and every field has its operators.\<close>

lemma condition_operators_total:
  "\<exists>ops. dict_get CONDITION_OPERATORS n = Some ops \<and> {EQUALS, NOT_EQUALS, IN_LIST} \<subseteq> set ops \<and>
     (GREATER_THAN \<in> set ops \<longleftrightarrow> n \<in> {LEAD_SCORE, BUDGET}) \<and> (LESS_THAN \<in> set ops \<longleftrightarrow> n \<in> {LEAD_SCORE, BUDGET})"
  by (cases n) (simp_all add: CONDITION_OPERATORS_def condition_comparisons_def)

end
