(* ===== verification/Asgi_Middleware.thy ===== *)
theory Asgi_Middleware
  imports Webhooks
begin

text \<open>
  \<open>middleware/correlation_id.py\<close> and \<open>middleware/logging_middleware.py\<close>: the two plain ASGI middlewares, and their composition.
  An application's reaction to a request is a tree of the messages it sends and receives, so that a middleware
  that wraps \<open>send\<close> sees every message. It ends with the \<open>state\<close> of the request, which authentication writes
  and the logging middleware reads afterwards. The structlog context is an argument of the application; the
  UUID generator, the clock and the descriptions of exceptions are arguments of the middlewares.
\<close>

section \<open>ASGI\<close>

record asgi_message =
  am_type :: string
  am_status :: int
  am_headers :: "(string \<times> string) list"
  am_body :: string

record request_state =
  rs_user_id :: json
  rs_resolved_ip :: "string option"
  rs_gateway_verified :: bool

datatype app_run =
    Done request_state
  | Raised exn request_state
  | Send asgi_message "exn option \<Rightarrow> app_run"
  | Receive "asgi_message res \<Rightarrow> app_run"

primrec run_prog ::
  "app_run \<Rightarrow> ('w, asgi_message) io \<Rightarrow> (asgi_message \<Rightarrow> ('w, unit) io) \<Rightarrow> 'w \<Rightarrow> unit res \<times> request_state \<times> 'w" where
  "run_prog (Done s) receive send w = (Inr (), s, w)"
| "run_prog (Raised e s) receive send w = (Inl e, s, w)"
| "run_prog (Send m k) receive send w =
     (case send m w of (Inr _, w') \<Rightarrow> run_prog (k None) receive send w' | (Inl e, w') \<Rightarrow> run_prog (k (Some e)) receive send w')"
| "run_prog (Receive k) receive send w = (case receive w of (r, w') \<Rightarrow> run_prog (k r) receive send w')"

text \<open>The messages given to \<open>send\<close> in such a run.\<close>

primrec sent_in ::
  "app_run \<Rightarrow> ('w, asgi_message) io \<Rightarrow> (asgi_message \<Rightarrow> ('w, unit) io) \<Rightarrow> 'w \<Rightarrow> asgi_message list" where
  "sent_in (Done s) receive send w = []"
| "sent_in (Raised e s) receive send w = []"
| "sent_in (Send m k) receive send w =
     m # (case send m w of (Inr _, w') \<Rightarrow> sent_in (k None) receive send w' | (Inl e, w') \<Rightarrow> sent_in (k (Some e)) receive send w')"
| "sent_in (Receive k) receive send w = (case receive w of (r, w') \<Rightarrow> sent_in (k r) receive send w')"

record asgi_scope =
  as_type :: string
  as_method :: string
  as_path :: string
  as_query :: string
  as_headers :: "(string, string) dict"
  as_host :: "string option"
  as_correlation_id :: "string option"

type_synonym log_context = "(string, json) dict"

type_synonym app = "asgi_scope \<Rightarrow> log_context \<Rightarrow> app_run"

section \<open>\<open>CorrelationIDMiddleware\<close>\<close>

definition choose_correlation_id :: "string option \<Rightarrow> ('w \<Rightarrow> string \<times> 'w) \<Rightarrow> 'w \<Rightarrow> string \<times> 'w" where
  "choose_correlation_id incoming uuid4 w =
     (case incoming of
        Some i \<Rightarrow> if i \<noteq> [] \<and> is_valid_correlation_id i then (i, w) else uuid4 w
      | None \<Rightarrow> uuid4 w)"

text \<open>\<open>MutableHeaders.__setitem__\<close>: the first field of the name is overwritten, later ones are removed.\<close>

fun set_header :: "string \<Rightarrow> string \<Rightarrow> (string \<times> string) list \<Rightarrow> (string \<times> string) list" where
  "set_header k v [] = [(k, v)]"
| "set_header k v ((k', v') # hs) = (if k' = k then (k, v) # filter (\<lambda>(k'', _). k'' \<noteq> k) hs else (k', v') # set_header k v hs)"

definition CORRELATION_HEADER :: string where
  "CORRELATION_HEADER = lower (header_name H_CORRELATION_ID)"

definition with_correlation_id :: "string \<Rightarrow> asgi_message \<Rightarrow> asgi_message" where
  "with_correlation_id cid m =
     (if am_type m = ''http.response.start'' then m\<lparr>am_headers := set_header CORRELATION_HEADER cid (am_headers m)\<rparr> else m)"

type_synonym 'w asgi = "asgi_scope \<Rightarrow> log_context \<Rightarrow> ('w, asgi_message) io \<Rightarrow> (asgi_message \<Rightarrow> ('w, unit) io) \<Rightarrow> 'w \<Rightarrow> unit res \<times> request_state \<times> 'w"

definition correlation_call :: "('w \<Rightarrow> string \<times> 'w) \<Rightarrow> 'w asgi \<Rightarrow> 'w asgi" where
  "correlation_call uuid4 next scope ctx receive send w =
     (if as_type scope \<noteq> ''http'' then next scope ctx receive send w
      else case choose_correlation_id (dict_get (as_headers scope) CORRELATION_HEADER) uuid4 w of
        (cid, w') \<Rightarrow>
          next (scope\<lparr>as_correlation_id := Some cid\<rparr>) (dict_set ''correlation_id'' (JStr cid) ctx) receive
            (\<lambda>m. send (with_correlation_id cid m)) w')"

section \<open>\<open>LoggingMiddleware\<close>\<close>

record log_line =
  ll_level :: string
  ll_event :: string
  ll_fields :: "(string, json) dict"

record 'w logging_env =
  lg_clock :: "'w \<Rightarrow> time"
  lg_millis :: "time \<Rightarrow> json"
  lg_type_name :: "exn \<Rightarrow> string"
  lg_str :: "exn \<Rightarrow> string"

definition LOGGING_EXCLUDED_PATHS :: "string list" where
  "LOGGING_EXCLUDED_PATHS =
     [''/'', ''/health'', ''/health/ready'', ''/health/live'', ''/api/v1/health'', ''/api/v1/health/ready'', ''/api/v1/health/live'',
      ''/docs'', ''/redoc'', ''/openapi.json'', ''/metrics'']"

definition text_field :: "string \<Rightarrow> string \<Rightarrow> (string, json) dict" where
  "text_field k v = (if v = [] then [] else [(k, JStr v)])"

definition request_fields :: "asgi_scope \<Rightarrow> (string, json) dict" where
  "request_fields scope =
     [(''method'', JStr (as_method scope)), (''path'', JStr (as_path scope))] @
     text_field ''query_string'' (as_query scope) @
     text_field ''user_agent'' (case dict_get (as_headers scope) ''user-agent'' of Some v \<Rightarrow> v | None \<Rightarrow> []) @
     text_field ''correlation_id'' (case as_correlation_id scope of Some v \<Rightarrow> v | None \<Rightarrow> []) @
     text_field ''tenant_id'' (case dict_get (as_headers scope) (lower (header_name H_TENANT_ID)) of Some v \<Rightarrow> v | None \<Rightarrow> [])"

definition connection_of :: "asgi_scope \<Rightarrow> request_state \<Rightarrow> connection" where
  "connection_of scope s =
     \<lparr>cn_resolved_ip = rs_resolved_ip s, cn_gateway_verified = rs_gateway_verified s, cn_headers = as_headers scope, cn_host = as_host scope\<rparr>"

definition outcome_fields :: "asgi_scope \<Rightarrow> request_state \<Rightarrow> (string, json) dict" where
  "outcome_fields scope s =
     [(''client_ip'', JStr (client_ip (connection_of scope s)))] @ (if truthy (rs_user_id s) then [(''user_id'', rs_user_id s)] else [])"

text \<open>\<open>send_recording_status\<close>, over the local variable \<open>status_code\<close> and the state of the server.\<close>

definition send_recording :: "(asgi_message \<Rightarrow> ('w, unit) io) \<Rightarrow> asgi_message \<Rightarrow> (int \<times> 'w, unit) io" where
  "send_recording send m s =
     (case send m (snd s) of (r, w') \<Rightarrow> (r, (if am_type m = ''http.response.start'' then am_status m else fst s, w')))"

definition started_line :: "string \<Rightarrow> asgi_scope \<Rightarrow> log_line" where
  "started_line service scope =
     \<lparr>ll_level = ''info'', ll_event = ''request_started'', ll_fields = (''service'', JStr service) # request_fields scope\<rparr>"

definition failed_line :: "'w logging_env \<Rightarrow> string \<Rightarrow> asgi_scope \<Rightarrow> request_state \<Rightarrow> exn \<Rightarrow> time \<Rightarrow> log_line" where
  "failed_line env service scope s e duration =
     \<lparr>ll_level = ''error'', ll_event = ''request_failed'',
      ll_fields = [(''service'', JStr service), (''duration_ms'', lg_millis env duration), (''error_type'', JStr (lg_type_name env e)),
        (''error_summary'', JStr (take 200 (lg_str env e)))] @ outcome_fields scope s @ request_fields scope\<rparr>"

definition completed_line :: "'w logging_env \<Rightarrow> string \<Rightarrow> asgi_scope \<Rightarrow> request_state \<Rightarrow> int \<Rightarrow> time \<Rightarrow> log_line" where
  "completed_line env service scope s sc duration =
     \<lparr>ll_level = (if sc < 400 then ''info'' else ''warning''), ll_event = ''request_completed'',
      ll_fields = [(''service'', JStr service), (''status_code'', JInt sc), (''duration_ms'', lg_millis env duration)] @
        outcome_fields scope s @ request_fields scope\<rparr>"

text \<open>
  The application below the middleware is one that runs a tree, since the wrapped \<open>send\<close> and \<open>receive\<close> have a
  state of their own. The state of the server has the lines written so far.
\<close>

definition write_line :: "log_line \<Rightarrow> log_line list \<times> 'w \<Rightarrow> log_line list \<times> 'w" where
  "write_line l w = (fst w @ [l], snd w)"

definition logging_call :: "'w logging_env \<Rightarrow> string \<Rightarrow> string list \<Rightarrow> app \<Rightarrow> (log_line list \<times> 'w) asgi" where
  "logging_call env service excluded app scope ctx receive send w =
     (if as_type scope \<noteq> ''http'' \<or> as_path scope \<in> set (if excluded = [] then LOGGING_EXCLUDED_PATHS else excluded)
      then run_prog (app scope ctx) receive send w
      else
        let start = lg_clock env (snd w) in
        case run_prog (app scope ctx) (on_snd receive) (send_recording send) (500, write_line (started_line service scope) w) of
          (r, s, (sc, w')) \<Rightarrow>
            let duration = lg_clock env (snd w') - start in
            (case r of
               Inl e \<Rightarrow> (r, s, if is_Exception e then write_line (failed_line env service scope s e duration) w' else w')
             | Inr _ \<Rightarrow> (r, s, write_line (completed_line env service scope s sc duration) w')))"

section \<open>Lemmas\<close>

definition last_status :: "int \<Rightarrow> asgi_message list \<Rightarrow> int" where
  "last_status sc ms = foldl (\<lambda>c m. if am_type m = ''http.response.start'' then am_status m else c) sc ms"

text \<open>Recording the status changes nothing the application or the server sees.\<close>

lemma run_prog_recording:
  "run_prog p (on_snd receive) (send_recording send) (sc, w) =
     (case run_prog p receive send w of (r, s, w') \<Rightarrow> (r, s, (last_status sc (sent_in p receive send w), w')))"
proof (induction p arbitrary: sc w)
  case (Send m k)
  obtain r w' where "send m w = (r, w')" by (rule prod.exhaust)
  with Send [of _ _ w'] show ?case
    by (cases r) (simp_all add: send_recording_def last_status_def range_eqI)
next
  case (Receive k)
  obtain r w' where "receive w = (r, w')" by (rule prod.exhaust)
  with Receive [of _ _ w'] show ?case by (simp add: on_snd_def range_eqI)
qed (simp_all add: last_status_def)

lemma run_prog_keeps:
  assumes "\<And>m w. P w \<Longrightarrow> P (snd (send m w))" and "\<And>w. P w \<Longrightarrow> P (snd (receive w))"
  shows "P w \<Longrightarrow> P (snd (snd (run_prog p receive send w)))"
proof (induction p arbitrary: w)
  case (Send m k)
  obtain r w' where s: "send m w = (r, w')" by (rule prod.exhaust)
  with assms(1) [OF Send.prems, of m] have "P w'" by simp
  with Send.IH s show ?case by (cases r) (simp_all add: range_eqI)
next
  case (Receive k)
  obtain r w' where s: "receive w = (r, w')" by (rule prod.exhaust)
  with assms(2) [OF Receive.prems] have "P w'" by simp
  with Receive.IH s show ?case by (simp add: range_eqI)
qed simp_all

lemma set_header_filter: "filter (\<lambda>(k', _). k' = k) (set_header k v hs) = [(k, v)]"
  by (induction hs) (auto simp: filter_empty_conv)

lemma set_header_others: "filter (\<lambda>(k', _). k' \<noteq> k) (set_header k v hs) = filter (\<lambda>(k', _). k' \<noteq> k) hs"
  by (induction hs) auto

definition logged_path :: "string list \<Rightarrow> asgi_scope \<Rightarrow> bool" where
  "logged_path excluded scope =
     (as_type scope = ''http'' \<and> as_path scope \<notin> set (if excluded = [] then LOGGING_EXCLUDED_PATHS else excluded))"

lemma logging_call_run:
  assumes "logged_path excluded scope"
    and "run_prog (app scope ctx) receive send (write_line (started_line service scope) w) = (r, s, w')"
  shows "logging_call env service excluded app scope ctx receive send w =
    (r, s, case r of
       Inr _ \<Rightarrow> write_line (completed_line env service scope s
                  (last_status 500 (sent_in (app scope ctx) receive send (write_line (started_line service scope) w)))
                  (lg_clock env (snd w') - lg_clock env (snd w))) w'
     | Inl e \<Rightarrow> if is_Exception e
                then write_line (failed_line env service scope s e (lg_clock env (snd w') - lg_clock env (snd w))) w' else w')"
  using assms by (auto simp: logging_call_def logged_path_def run_prog_recording Let_def split: sum.split)

text \<open>A server that keeps the messages it is given.\<close>

definition record_send :: "asgi_message \<Rightarrow> ('l \<times> asgi_message list \<times> 'u, unit) io" where
  "record_send m w = (case w of (ls, ms, u) \<Rightarrow> (Inr (), (ls, ms @ [m], u)))"

definition carries :: "string \<Rightarrow> asgi_message \<Rightarrow> bool" where
  "carries cid m =
     (am_type m = ''http.response.start'' \<longrightarrow> filter (\<lambda>(k, _). k = CORRELATION_HEADER) (am_headers m) = [(CORRELATION_HEADER, cid)])"

lemma with_correlation_id_carries: "carries cid (with_correlation_id cid m)"
  by (simp add: carries_def with_correlation_id_def set_header_filter)

lemma line_correlation_id:
  assumes "as_correlation_id scope = Some cid" and "cid \<noteq> []"
  shows "dict_get (ll_fields (started_line service scope)) ''correlation_id'' = Some (JStr cid)"
    and "dict_get (ll_fields (failed_line env service scope s e duration)) ''correlation_id'' = Some (JStr cid)"
    and "dict_get (ll_fields (completed_line env service scope s sc duration)) ''correlation_id'' = Some (JStr cid)"
  using assms by (auto simp: started_line_def failed_line_def completed_line_def request_fields_def outcome_fields_def text_field_def)

lemma logging_keeps:
  assumes "logged_path excluded scope" and "as_correlation_id scope = Some cid" and "cid \<noteq> []"
    and "\<And>m w. Q (snd w) \<Longrightarrow> fst (snd (send m w)) = fst w \<and> Q (snd (snd (send m w)))"
    and "\<And>w. Q (snd w) \<Longrightarrow> fst (snd (receive w)) = fst w \<and> Q (snd (snd (receive w)))"
    and "fst w = []" and "Q (snd w)"
  shows "case logging_call env service excluded app scope ctx receive send w of (r, s, (ls, u)) \<Rightarrow>
    Q u \<and> ls \<noteq> [] \<and> (\<forall>l \<in> set ls. dict_get (ll_fields l) ''correlation_id'' = Some (JStr cid))"
proof -
  let ?w = "write_line (started_line service scope) w"
  obtain r s w' where run: "run_prog (app scope ctx) receive send ?w = (r, s, w')" by (metis prod.exhaust)
  have "fst (snd (snd (run_prog (app scope ctx) receive send ?w))) = fst ?w \<and> Q (snd (snd (snd (run_prog (app scope ctx) receive send ?w))))"
    by (rule run_prog_keeps [where P = "\<lambda>v. fst v = fst ?w \<and> Q (snd v)"]) (use assms(4-7) in \<open>simp_all add: write_line_def\<close>)
  with run have "fst w' = [started_line service scope]" "Q (snd w')" using assms(6) by (simp_all add: write_line_def)
  moreover note lines = line_correlation_id [OF assms(2,3)]
  ultimately show ?thesis
    using logging_call_run [of excluded scope app ctx receive send service w r s w' env, OF assms(1) run]
    by (cases w') (simp add: write_line_def lines split: sum.split)
qed

text \<open>A server whose \<open>send\<close> and \<open>receive\<close> leave the log alone.\<close>

lemma run_prog_on_snd:
  "run_prog p (on_snd receive) (\<lambda>m. on_snd (send m)) (ls, u) = (case run_prog p receive send u of (r, s, u') \<Rightarrow> (r, s, (ls, u')))"
proof (induction p arbitrary: u)
  case (Send m k)
  obtain r u' where "send m u = (r, u')" by (rule prod.exhaust)
  with Send [of _ u'] show ?case by (cases r) (simp_all add: on_snd_def range_eqI)
next
  case (Receive k)
  obtain r u' where "receive u = (r, u')" by (rule prod.exhaust)
  with Receive [of _ u'] show ?case by (simp add: on_snd_def range_eqI)
qed simp_all

lemma sent_in_on_snd: "sent_in p (on_snd receive) (\<lambda>m. on_snd (send m)) (ls, u) = sent_in p receive send u"
proof (induction p arbitrary: u)
  case (Send m k)
  obtain r u' where "send m u = (r, u')" by (rule prod.exhaust)
  with Send [of _ u'] show ?case by (cases r) (simp_all add: on_snd_def range_eqI)
next
  case (Receive k)
  obtain r u' where "receive u = (r, u')" by (rule prod.exhaust)
  with Receive [of _ u'] show ?case by (simp add: on_snd_def range_eqI)
qed simp_all

section \<open>A request for the witnesses\<close>

definition plain_scope :: asgi_scope where
  "plain_scope = \<lparr>as_type = ''http'', as_method = ''GET'', as_path = ''/leads'', as_query = [], as_headers = [], as_host = None, as_correlation_id = None\<rparr>"

definition plain_state :: request_state where
  "plain_state = \<lparr>rs_user_id = JNull, rs_resolved_ip = None, rs_gateway_verified = False\<rparr>"

definition plain_logging :: "'w logging_env" where
  "plain_logging = \<lparr>lg_clock = (\<lambda>_. 0), lg_millis = (\<lambda>_. JInt 0), lg_type_name = (\<lambda>_. ''E''), lg_str = (\<lambda>_. [])\<rparr>"

section \<open>Properties\<close>

text \<open>The logging middleware changes nothing but the log: the application's result, its state and the state of the server are those of the
  application alone. It writes one line before the application and one line after it; the latter has
  the status of the last response start that was sent (500 when there was none), and is a failure line when an
  \<open>Exception\<close> left the application; a cancelled request gets no second line.
\<close>
theorem logging_transparent:
  assumes "logged_path excluded scope" and "run_prog (app scope ctx) receive send u = (r, s, u')"
  shows "logging_call env service excluded app scope ctx (on_snd receive) (\<lambda>m. on_snd (send m)) (ls, u) =
    (r, s, (ls @ [started_line service scope] @
       (case r of
          Inr _ \<Rightarrow> [completed_line env service scope s (last_status 500 (sent_in (app scope ctx) receive send u)) (lg_clock env u' - lg_clock env u)]
        | Inl e \<Rightarrow> if is_Exception e then [failed_line env service scope s e (lg_clock env u' - lg_clock env u)] else []), u'))"
proof -
  let ?w = "write_line (started_line service scope) (ls, u)"
  have "run_prog (app scope ctx) (on_snd receive) (\<lambda>m. on_snd (send m)) ?w = (r, s, (ls @ [started_line service scope], u'))"
    using assms(2) by (simp add: write_line_def run_prog_on_snd)
  note run = logging_call_run [of excluded scope app ctx "on_snd receive" "\<lambda>m. on_snd (send m)" service "(ls, u)", OF assms(1) this]
  show ?thesis by (simp add: run) (simp add: write_line_def sent_in_on_snd split: sum.split)
qed

theorem logging_transparent_witness:
  "logging_call plain_logging ''crm'' [] (\<lambda>_ _. Send \<lparr>am_type = ''http.response.start'', am_status = 404, am_headers = [], am_body = []\<rparr> (\<lambda>_. Done plain_state))
     plain_scope [] (on_snd (\<lambda>u. (Inl CancelledError, u))) (\<lambda>m. on_snd (\<lambda>u. (Inr (), u @ [am_status m]))) ([], []) =
   (Inr (), plain_state, ([started_line ''crm'' plain_scope, completed_line (plain_logging :: int list logging_env) ''crm'' plain_scope plain_state 404 0], [404]))"
proof -
  let ?app = "\<lambda>_ _. Send \<lparr>am_type = ''http.response.start'', am_status = 404, am_headers = [], am_body = []\<rparr> (\<lambda>_. Done plain_state)"
  have "logged_path [] plain_scope" by (simp add: logged_path_def plain_scope_def LOGGING_EXCLUDED_PATHS_def)
  moreover have "run_prog (?app plain_scope []) (\<lambda>u. (Inl CancelledError, u)) (\<lambda>m u. (Inr (), u @ [am_status m])) [] = (Inr (), plain_state, [404])"
    by simp
  ultimately show ?thesis
    using logging_transparent [of "[]" plain_scope ?app "[]" "\<lambda>u. (Inl CancelledError, u)" "\<lambda>m u. (Inr (), u @ [am_status m])" "[]"
        "Inr ()" plain_state "[404]" plain_logging "''crm''" "[]"]
    by (simp add: last_status_def plain_logging_def)
qed



end
