(* ===== verification/Delivery.thy ===== *)
theory Delivery
  imports Event_Consumer "HOL-Library.Multiset"
begin

text \<open>
  The delivery protocol of \<open>events/consumer.py\<close> as a step relation: any number of consumers of one group,
  each with its consume loop and its claimer, that read, claim, process, acknowledge, crash and leave
  in any order; and \<open>scripts/purge_stuck_pel.py\<close>. Processing is \<open>process_message\<close> on
  the shared world of handlers, checkers, retry counters and dead letters, which may also change by
  itself. The stream and its group are a record of commands on a state of their own, of which
  \<open>stream_laws\<close> says what Redis documents: \<open>XREADGROUP\<close> moves entries that no
  consumer has read to the pending list of the reader, \<open>XAUTOCLAIM\<close> passes pending entries to the caller whoever
  owns them, \<open>XACK\<close> removes entries from the pending list, and \<open>XGROUP DELCONSUMER\<close> drops a consumer
  with the entries still pending for it. Entries are not trimmed from the stream.
\<close>

section \<open>The stream\<close>

type_synonym entry = "string \<times> (string, string) dict"

record 'r stream_ops =
  so_unread :: "'r \<Rightarrow> entry list"
  so_pending :: "'r \<Rightarrow> (entry \<times> string) list"
  so_xadd :: "entry \<Rightarrow> 'r \<Rightarrow> 'r"
  so_xreadgroup :: "string \<Rightarrow> int \<Rightarrow> 'r \<Rightarrow> entry list \<times> 'r"
  so_xautoclaim :: "string \<Rightarrow> int \<Rightarrow> 'r \<Rightarrow> entry list \<times> 'r"
  so_xack :: "entry list \<Rightarrow> 'r \<Rightarrow> nat \<times> 'r"
  so_xpending :: "nat \<Rightarrow> 'r \<Rightarrow> entry list"
  so_xinfo :: "'r \<Rightarrow> (string \<times> nat) list"
  so_delconsumer :: "string \<Rightarrow> 'r \<Rightarrow> 'r"

definition pending_of :: "(entry \<times> string) list \<Rightarrow> string \<Rightarrow> nat" where
  "pending_of ps n = length (filter (\<lambda>(_, m). m = n) ps)"

definition claim_law :: "'r stream_ops \<Rightarrow> bool" where
  "claim_law ops = (\<forall>n k r. case so_xautoclaim ops n k r of (es, r') \<Rightarrow>
     so_unread ops r' = so_unread ops r \<and> set es \<subseteq> fst ` set (so_pending ops r)
     \<and> so_pending ops r' = map (\<lambda>(e, m). (e, if e \<in> set es then n else m)) (so_pending ops r))"

definition stream_laws :: "'r stream_ops \<Rightarrow> bool" where
  "stream_laws ops =
     ((\<forall>e r. so_unread ops (so_xadd ops e r) = so_unread ops r @ [e] \<and> so_pending ops (so_xadd ops e r) = so_pending ops r)
      \<and> (\<forall>n k r. case so_xreadgroup ops n k r of (es, r') \<Rightarrow>
           so_unread ops r = es @ so_unread ops r' \<and> so_pending ops r' = so_pending ops r @ map (\<lambda>e. (e, n)) es)
      \<and> claim_law ops
      \<and> (\<forall>es r. case so_xack ops es r of (k, r') \<Rightarrow>
           so_unread ops r' = so_unread ops r
           \<and> so_pending ops r' = filter (\<lambda>(e, _). e \<notin> set es) (so_pending ops r)
           \<and> k = length (filter (\<lambda>(e, _). e \<in> set es) (so_pending ops r)))
      \<and> (\<forall>k r. so_xpending ops k r = take k (map fst (so_pending ops r)))
      \<and> (\<forall>r n k. (n, k) \<in> set (so_xinfo ops r) \<longrightarrow> k = pending_of (so_pending ops r) n)
      \<and> (\<forall>n r. so_unread ops (so_delconsumer ops n r) = so_unread ops r
           \<and> so_pending ops (so_delconsumer ops n r) = filter (\<lambda>(_, m). m \<noteq> n) (so_pending ops r)
           \<and> map fst (so_xinfo ops (so_delconsumer ops n r)) = filter (\<lambda>m. m \<noteq> n) (map fst (so_xinfo ops r))))"

section \<open>State\<close>

datatype loop = ConsumeLoop | ClaimerLoop

text \<open>
  A consumer runs, is down (its process has crashed, or both loops have ended), has been found down
  with nothing pending by \<open>_deregister_consumer\<close> or by the sweep of another consumer, or is deleted from the group.
  Names are not reused, and a consumer that the sweep finds idle past its threshold is down.
\<close>

datatype phase = Up | Down | Found_Empty | Deleted

text \<open>
  A batch that a loop is working on, and the message it has processed and acknowledges next. The published and
  the acknowledged entries and the attempts (who processed which entry, in which world, with which outcome) are the history.
\<close>

type_synonym 's attempt = "string \<times> entry \<times> 's \<times> (bool \<times> bool) res"

record ('r, 's) group =
  gp_redis :: 'r
  gp_phase :: "string \<Rightarrow> phase"
  gp_batch :: "string \<Rightarrow> loop \<Rightarrow> entry list"
  gp_acking :: "string \<Rightarrow> loop \<Rightarrow> entry option"
  gp_world :: 's
  gp_published :: "entry list"
  gp_acked :: "entry list"
  gp_attempts :: "'s attempt list"

definition new_group :: "'r \<Rightarrow> 's \<Rightarrow> ('r, 's) group" where
  "new_group r s =
     \<lparr>gp_redis = r, gp_phase = (\<lambda>_. Up), gp_batch = (\<lambda>_ _. []), gp_acking = (\<lambda>_ _. None), gp_world = s,
      gp_published = [], gp_acked = [], gp_attempts = []\<rparr>"

definition set_batch :: "string \<Rightarrow> loop \<Rightarrow> entry list \<Rightarrow> ('r, 's) group \<Rightarrow> ('r, 's) group" where
  "set_batch n l es g = g\<lparr>gp_batch := (gp_batch g)(n := (gp_batch g n)(l := es))\<rparr>"

definition set_acking :: "string \<Rightarrow> loop \<Rightarrow> entry option \<Rightarrow> ('r, 's) group \<Rightarrow> ('r, 's) group" where
  "set_acking n l a g = g\<lparr>gp_acking := (gp_acking g)(n := (gp_acking g n)(l := a))\<rparr>"

section \<open>What a consumer does\<close>

text \<open>A turn of the consume loop or the claimer begins with the entries it is given.\<close>

definition read_batch :: "'r stream_ops \<Rightarrow> string \<Rightarrow> int \<Rightarrow> ('r, 's) group \<Rightarrow> ('r, 's) group" where
  "read_batch ops n cnt g =
     (case so_xreadgroup ops n cnt (gp_redis g) of (es, r) \<Rightarrow> set_batch n ConsumeLoop es (g\<lparr>gp_redis := r\<rparr>))"

definition claim_batch :: "'r stream_ops \<Rightarrow> string \<Rightarrow> int \<Rightarrow> ('r, 's) group \<Rightarrow> ('r, 's) group" where
  "claim_batch ops n cnt g =
     (case so_xautoclaim ops n cnt (gp_redis g) of (es, r) \<Rightarrow> set_batch n ClaimerLoop es (g\<lparr>gp_redis := r\<rparr>))"

text \<open>
  One message taken off the batch: its outcome is recorded; with \<open>should_ack\<close> the acknowledgement is
  next, and an exception ends the pass with the rest of the batch unprocessed.
\<close>

definition after_message :: "string \<Rightarrow> loop \<Rightarrow> entry \<Rightarrow> entry list \<Rightarrow> (bool \<times> bool) res \<Rightarrow> 's \<Rightarrow> ('r, 's) group \<Rightarrow> ('r, 's) group" where
  "after_message n l e rest r s' g =
     set_batch n l (case r of Inl _ \<Rightarrow> [] | Inr _ \<Rightarrow> rest)
       (set_acking n l (case r of Inr (_, True) \<Rightarrow> Some e | _ \<Rightarrow> None)
         (g\<lparr>gp_world := s', gp_attempts := gp_attempts g @ [(n, e, gp_world g, r)]\<rparr>))"

definition acknowledge :: "'r stream_ops \<Rightarrow> entry \<Rightarrow> ('r, 's) group \<Rightarrow> ('r, 's) group" where
  "acknowledge ops e g =
     g\<lparr>gp_redis := snd (so_xack ops [e] (gp_redis g)),
       gp_acked := gp_acked g @ (if e \<in> fst ` set (so_pending ops (gp_redis g)) then [e] else [])\<rparr>"

definition go_down :: "string \<Rightarrow> ('r, 's) group \<Rightarrow> ('r, 's) group" where
  "go_down n g =
     g\<lparr>gp_phase := (gp_phase g)(n := Down), gp_batch := (gp_batch g)(n := (\<lambda>_. [])),
       gp_acking := (gp_acking g)(n := (\<lambda>_. None))\<rparr>"

definition holds_pending :: "'r stream_ops \<Rightarrow> string \<Rightarrow> ('r, 's) group \<Rightarrow> bool" where
  "holds_pending ops n g = (n \<in> snd ` set (so_pending ops (gp_redis g)))"

definition delete_consumer :: "'r stream_ops \<Rightarrow> string \<Rightarrow> ('r, 's) group \<Rightarrow> ('r, 's) group" where
  "delete_consumer ops n g = g\<lparr>gp_redis := so_delconsumer ops n (gp_redis g), gp_phase := (gp_phase g)(n := Deleted)\<rparr>"

section \<open>Steps\<close>

inductive group_step ::
  "'r stream_ops \<Rightarrow> json_codec \<Rightarrow> 's bus_env \<Rightarrow> (string \<Rightarrow> 's consumer) \<Rightarrow> ('r, 's) group \<Rightarrow> ('r, 's) group \<Rightarrow> bool"
  for ops :: "'r stream_ops" and jc :: json_codec and env :: "'s bus_env" and conf :: "string \<Rightarrow> 's consumer" where
  publish: "fst e \<notin> fst ` set (gp_published g) \<Longrightarrow>
     group_step ops jc env conf g (g\<lparr>gp_published := gp_published g @ [e], gp_redis := so_xadd ops e (gp_redis g)\<rparr>)"
| outside: "group_step ops jc env conf g (g\<lparr>gp_world := s\<rparr>)"
| read: "gp_phase g n = Up \<Longrightarrow> gp_batch g n ConsumeLoop = [] \<Longrightarrow> gp_acking g n ConsumeLoop = None \<Longrightarrow>
     group_step ops jc env conf g (read_batch ops n (co_batch_size (conf n)) g)"
| claim: "gp_phase g n = Up \<Longrightarrow> gp_batch g n ClaimerLoop = [] \<Longrightarrow> gp_acking g n ClaimerLoop = None \<Longrightarrow>
     group_step ops jc env conf g (claim_batch ops n (co_claim_count (conf n)) g)"
| process: "gp_phase g n = Up \<Longrightarrow> gp_batch g n l = e # rest \<Longrightarrow> gp_acking g n l = None \<Longrightarrow>
     process_message jc env (conf n) (fst e) (snd e) (gp_world g) = (r, s') \<Longrightarrow>
     group_step ops jc env conf g (after_message n l e rest r s' g)"
| ack: "gp_phase g n = Up \<Longrightarrow> gp_acking g n l = Some e \<Longrightarrow>
     group_step ops jc env conf g (acknowledge ops e (set_acking n l None g))"
| ack_without_client: "gp_phase g n = Up \<Longrightarrow> gp_acking g n l = Some e \<Longrightarrow>
     group_step ops jc env conf g (set_acking n l None g)"
| ack_fails: "gp_phase g n = Up \<Longrightarrow> gp_acking g n l = Some e \<Longrightarrow>
     group_step ops jc env conf g (set_batch n l [] (set_acking n l None g))"
| down: "gp_phase g n = Up \<Longrightarrow> group_step ops jc env conf g (go_down n g)"
| found_empty: "gp_phase g n = Down \<Longrightarrow> \<not> holds_pending ops n g \<Longrightarrow>
     group_step ops jc env conf g (g\<lparr>gp_phase := (gp_phase g)(n := Found_Empty)\<rparr>)"
| delete: "gp_phase g n = Found_Empty \<Longrightarrow> group_step ops jc env conf g (delete_consumer ops n g)"

inductive group_run :: "'r stream_ops \<Rightarrow> json_codec \<Rightarrow> 's bus_env \<Rightarrow> (string \<Rightarrow> 's consumer) \<Rightarrow> ('r, 's) group \<Rightarrow> bool"
  for ops jc env conf where
  begins: "so_unread ops r = [] \<Longrightarrow> so_pending ops r = [] \<Longrightarrow> group_run ops jc env conf (new_group r s)"
| continues: "group_run ops jc env conf g \<Longrightarrow> group_step ops jc env conf g g' \<Longrightarrow> group_run ops jc env conf g'"

section \<open>Why a message is acknowledged\<close>

text \<open>
  The outcomes that acknowledge: the message cannot be parsed, its event is known to the checker, the
  group has no handler for it, its handler returned, or its handler failed and the failure was the last
  one allowed.
\<close>

definition terminal :: "json_codec \<Rightarrow> 's bus_env \<Rightarrow> 's consumer \<Rightarrow> entry \<Rightarrow> 's \<Rightarrow> bool" where
  "terminal jc env c e s =
     (case parse_message jc c (fst e) (snd e) of
        None \<Rightarrow> True
      | Some ev \<Rightarrow>
          (\<exists>k s1. co_checker c = Some k \<and> ck_is_processed k (ev_id ev) s = (Inr True, s1))
          \<or> resolve_handler (co_handlers c) (ev_type ev) = Inr None
          \<or> (\<exists>h s1 s2. resolve_handler (co_handlers c) (ev_type ev) = Inr (Some h) \<and> h ev s1 = (Inr (), s2))
          \<or> (\<exists>h s1 s2 x s3. resolve_handler (co_handlers c) (ev_type ev) = Inr (Some h) \<and> h ev s1 = (Inl x, s2)
               \<and> handle_failure jc env c (fst e) (snd e) x s2 = (Inr (False, True), s3)))"

lemma acknowledged_terminal:
  assumes "process_message jc env c (fst e) (snd e) s = (Inr (ok, True), s')"
  shows "terminal jc env c e s"
proof (cases "parse_message jc c (fst e) (snd e)")
  case (Some ev)
  then obtain dup s1 where ask: "(case co_checker c of Some k \<Rightarrow> ck_is_processed k (ev_id ev) | None \<Rightarrow> io_return False) s = (Inr dup, s1)"
    using assms by (auto simp: process_message_def elim!: io_bind_InrE)
  show ?thesis
  proof (cases "dup \<or> resolve_handler (co_handlers c) (ev_type ev) = Inr None")
    case True
    with ask Some show ?thesis by (auto simp: terminal_def io_return_def split: option.splits)
  next
    case False
    with assms Some ask obtain h where h: "resolve_handler (co_handlers c) (ev_type ev) = Inr (Some h)"
      by (cases "resolve_handler (co_handlers c) (ev_type ev)") (auto simp: process_message_def io_bind_def lift_res_def)
    obtain r s2 where run: "h ev s1 = (r, s2)" by fastforce
    show ?thesis
    proof (cases r)
      case (Inr u)
      with Some h run show ?thesis by (auto simp: terminal_def)
    next
      case (Inl x)
      with assms Some ask False h run have "handle_failure jc env c (fst e) (snd e) x s2 = (Inr (ok, True), s')"
        by (auto simp: process_message_def io_bind_def lift_res_def io_except_def io_return_def
            split: if_splits prod.splits sum.splits)
      moreover from this have "ok = False"
        by (auto simp: handle_failure_def Let_def io_return_def elim!: io_bind_InrE split: if_splits)
      ultimately show ?thesis using Some h run Inl by (fastforce simp: terminal_def)
    qed
  qed
qed (simp add: terminal_def)

section \<open>The invariant\<close>

definition settled :: "('r, 's) group \<Rightarrow> entry \<Rightarrow> bool" where
  "settled g e = (\<exists>n s ok. (n, e, s, Inr (ok, True)) \<in> set (gp_attempts g))"

text \<open>Every published entry is in exactly one place.\<close>

definition one_place :: "'r stream_ops \<Rightarrow> ('r, 's) group \<Rightarrow> bool" where
  "one_place ops g =
     (distinct (map fst (gp_published g))
      \<and> mset (gp_published g) =
          mset (so_unread ops (gp_redis g)) + mset (map fst (so_pending ops (gp_redis g))) + mset (gp_acked g))"

definition own_nothing :: "'r stream_ops \<Rightarrow> ('r, 's) group \<Rightarrow> bool" where
  "own_nothing ops g = (\<forall>n. gp_phase g n = Found_Empty \<or> gp_phase g n = Deleted \<longrightarrow> \<not> holds_pending ops n g)"

definition faithful_history :: "json_codec \<Rightarrow> 's bus_env \<Rightarrow> (string \<Rightarrow> 's consumer) \<Rightarrow> ('r, 's) group \<Rightarrow> bool" where
  "faithful_history jc env conf g =
     ((\<forall>n e s r. (n, e, s, r) \<in> set (gp_attempts g) \<longrightarrow> fst (process_message jc env (conf n) (fst e) (snd e) s) = r)
      \<and> (\<forall>n l e. gp_acking g n l = Some e \<longrightarrow> settled g e)
      \<and> (\<forall>e. e \<in> set (gp_acked g) \<longrightarrow> settled g e))"

lemmas command_defs = read_batch_def claim_batch_def acknowledge_def delete_consumer_def set_batch_def set_acking_def
  go_down_def after_message_def

text \<open>The laws, one by one.\<close>

lemma stream_law:
  assumes "stream_laws ops"
  shows "so_unread ops (so_xadd ops e r) = so_unread ops r @ [e]" "so_pending ops (so_xadd ops e r) = so_pending ops r"
    and "so_xreadgroup ops n k r = (es, r') \<Longrightarrow> so_unread ops r = es @ so_unread ops r'
       \<and> so_pending ops r' = so_pending ops r @ map (\<lambda>e. (e, n)) es"
    and "so_xautoclaim ops n k r = (es, r') \<Longrightarrow> so_unread ops r' = so_unread ops r \<and> set es \<subseteq> fst ` set (so_pending ops r)
       \<and> so_pending ops r' = map (\<lambda>(e, m). (e, if e \<in> set es then n else m)) (so_pending ops r)"
    and "so_xack ops es r = (j, r') \<Longrightarrow> so_unread ops r' = so_unread ops r
       \<and> so_pending ops r' = filter (\<lambda>(e, _). e \<notin> set es) (so_pending ops r)
       \<and> j = length (filter (\<lambda>(e, _). e \<in> set es) (so_pending ops r))"
    and "so_xpending ops m r = take m (map fst (so_pending ops r))"
    and "(n, m) \<in> set (so_xinfo ops r) \<Longrightarrow> m = pending_of (so_pending ops r) n"
    and "so_unread ops (so_delconsumer ops n r) = so_unread ops r"
      "so_pending ops (so_delconsumer ops n r) = filter (\<lambda>(_, m). m \<noteq> n) (so_pending ops r)"
      "map fst (so_xinfo ops (so_delconsumer ops n r)) = filter (\<lambda>m. m \<noteq> n) (map fst (so_xinfo ops r))"
proof -
  note l = assms [unfolded stream_laws_def]
  show "so_unread ops (so_xadd ops e r) = so_unread ops r @ [e]" "so_pending ops (so_xadd ops e r) = so_pending ops r"
    using conjunct1 [OF l] by blast+
  show "so_xreadgroup ops n k r = (es, r') \<Longrightarrow> so_unread ops r = es @ so_unread ops r'
       \<and> so_pending ops r' = so_pending ops r @ map (\<lambda>e. (e, n)) es"
    using conjunct1 [OF conjunct2 [OF l], THEN spec [of _ n], THEN spec [of _ k], THEN spec [of _ r]] by simp
  show "so_xautoclaim ops n k r = (es, r') \<Longrightarrow> so_unread ops r' = so_unread ops r \<and> set es \<subseteq> fst ` set (so_pending ops r)
       \<and> so_pending ops r' = map (\<lambda>(e, m). (e, if e \<in> set es then n else m)) (so_pending ops r)"
    using conjunct1 [OF conjunct2 [OF conjunct2 [OF l]], unfolded claim_law_def,
        THEN spec [of _ n], THEN spec [of _ k], THEN spec [of _ r]] by simp
  note l4 = conjunct2 [OF conjunct2 [OF conjunct2 [OF l]]]
  show "so_xack ops es r = (j, r') \<Longrightarrow> so_unread ops r' = so_unread ops r
       \<and> so_pending ops r' = filter (\<lambda>(e, _). e \<notin> set es) (so_pending ops r)
       \<and> j = length (filter (\<lambda>(e, _). e \<in> set es) (so_pending ops r))"
    using conjunct1 [OF l4, THEN spec [of _ es], THEN spec [of _ r]] by simp
  note l5 = conjunct2 [OF l4]
  show "so_xpending ops m r = take m (map fst (so_pending ops r))" using conjunct1 [OF l5] by blast
  show "(n, m) \<in> set (so_xinfo ops r) \<Longrightarrow> m = pending_of (so_pending ops r) n"
    using conjunct1 [OF conjunct2 [OF l5]] by blast
  show "so_unread ops (so_delconsumer ops n r) = so_unread ops r"
      "so_pending ops (so_delconsumer ops n r) = filter (\<lambda>(_, m). m \<noteq> n) (so_pending ops r)"
      "map fst (so_xinfo ops (so_delconsumer ops n r)) = filter (\<lambda>m. m \<noteq> n) (map fst (so_xinfo ops r))"
    using conjunct2 [OF conjunct2 [OF l5]] by blast+
qed

lemma remove_pending:
  "distinct (map fst ps) \<Longrightarrow> e \<in> fst ` set ps \<Longrightarrow>
     mset (map fst ps) = add_mset e (mset (map fst (filter (\<lambda>(e', _). e' \<noteq> e) ps)))"
proof (induction ps)
  case (Cons p ps)
  show ?case
  proof (cases "fst p = e")
    case True
    with Cons.prems(1) have "e \<notin> fst ` set ps" by simp
    then have "filter (\<lambda>(e', _). e' \<noteq> e) ps = ps" by (intro filter_True) (auto simp: image_iff)
    with True show ?thesis by (cases p) simp
  next
    case False
    with Cons show ?thesis by (cases p) auto
  qed
qed simp

lemma places_distinct:
  assumes "one_place ops g"
  shows "distinct (so_unread ops (gp_redis g) @ map fst (so_pending ops (gp_redis g)) @ gp_acked g)"
proof -
  from assms have "mset (gp_published g) = mset (so_unread ops (gp_redis g) @ map fst (so_pending ops (gp_redis g)) @ gp_acked g)"
    and "distinct (gp_published g)" by (simp_all add: one_place_def distinct_map)
  then show ?thesis using mset_eq_imp_distinct_iff by blast
qed

lemma pending_distinct: "one_place ops g \<Longrightarrow> distinct (map fst (so_pending ops (gp_redis g)))"
  by (drule places_distinct) simp

lemma acknowledge_one_place:
  assumes "stream_laws ops" and "one_place ops g"
  shows "one_place ops (acknowledge ops e g)"
proof -
  obtain j r' where x: "so_xack ops [e] (gp_redis g) = (j, r')" by (rule prod.exhaust)
  let ?ps = "so_pending ops (gp_redis g)"
  have r': "so_unread ops r' = so_unread ops (gp_redis g)" "so_pending ops r' = filter (\<lambda>(e', _). e' \<noteq> e) ?ps"
    using stream_law(5) [OF assms(1) x] by simp_all
  show ?thesis
  proof (cases "e \<in> fst ` set ?ps")
    case True
    from remove_pending [OF pending_distinct [OF assms(2)] this] True x r' assms(2) show ?thesis
      by (simp add: one_place_def acknowledge_def)
  next
    case False
    then have "filter (\<lambda>(e', _). e' \<noteq> e) ?ps = ?ps" by (intro filter_True) (auto simp: image_iff)
    with False x r' assms(2) show ?thesis by (simp add: one_place_def acknowledge_def)
  qed
qed

lemma delete_nothing:
  assumes "stream_laws ops" and "\<not> holds_pending ops n g"
  shows "so_pending ops (gp_redis (delete_consumer ops n g)) = so_pending ops (gp_redis g)"
  using assms(2) stream_law(9) [OF assms(1)]
  by (force simp: delete_consumer_def holds_pending_def intro!: filter_True)

lemma one_place_cong:
  "gp_published g' = gp_published g \<Longrightarrow> gp_acked g' = gp_acked g \<Longrightarrow> so_unread ops (gp_redis g') = so_unread ops (gp_redis g) \<Longrightarrow>
     map fst (so_pending ops (gp_redis g')) = map fst (so_pending ops (gp_redis g)) \<Longrightarrow> one_place ops g \<Longrightarrow> one_place ops g'"
  by (simp add: one_place_def)

lemma step_one_place:
  assumes "group_step ops jc env conf g g'" and "stream_laws ops" and "one_place ops g" and "own_nothing ops g"
  shows "one_place ops g'"
  using assms
proof (induction rule: group_step.induct)
  case (publish e g)
  then show ?case using stream_law(1,2) [OF publish(2)] by (simp add: one_place_def)
next
  case (read g n)
  obtain es r' where x: "so_xreadgroup ops n (co_batch_size (conf n)) (gp_redis g) = (es, r')" by (rule prod.exhaust)
  from stream_law(3) [OF read(4) x] read(5) x show ?case by (simp add: one_place_def command_defs o_def)
next
  case (claim g n)
  obtain es r' where x: "so_xautoclaim ops n (co_claim_count (conf n)) (gp_redis g) = (es, r')" by (rule prod.exhaust)
  have "one_place ops (g\<lparr>gp_redis := r'\<rparr>)"
    using stream_law(4) [OF claim(4) x] claim(5) by (simp add: one_place_def o_def case_prod_beta)
  with x show ?case by (simp add: one_place_def claim_batch_def set_batch_def)
next
  case (ack g n l e)
  have "one_place ops (set_acking n l None g)" using ack(4) by (simp add: one_place_def set_acking_def)
  with ack(3) show ?case by (rule acknowledge_one_place)
next
  case (delete g n)
  then have "\<not> holds_pending ops n g" by (simp add: own_nothing_def)
  from delete_nothing [OF delete(2) this] stream_law(8) [OF delete(2)] delete(3) show ?case
    by (simp add: one_place_def delete_consumer_def)
qed (simp_all add: one_place_def command_defs)

text \<open>The pending list of a consumer that does not run only shrinks.\<close>

lemma step_pending_owner:
  assumes "group_step ops jc env conf g g'" and "stream_laws ops" and "gp_phase g n \<noteq> Up" and "holds_pending ops n g'"
  shows "holds_pending ops n g \<and> gp_phase g' n \<noteq> Up"
  using assms
proof (induction rule: group_step.induct)
  case (publish e g)
  then show ?case using stream_law(2) [OF publish(2)] by (simp add: holds_pending_def)
next
  case (read g m)
  obtain es r' where x: "so_xreadgroup ops m (co_batch_size (conf m)) (gp_redis g) = (es, r')" by (rule prod.exhaust)
  from stream_law(3) [OF read(4) x] read x show ?case by (auto simp: holds_pending_def command_defs)
next
  case (claim g m)
  obtain es r' where x: "so_xautoclaim ops m (co_claim_count (conf m)) (gp_redis g) = (es, r')" by (rule prod.exhaust)
  from stream_law(4) [OF claim(4) x] claim x show ?case
    by (fastforce simp: holds_pending_def command_defs split: if_splits)
next
  case (ack g m l e)
  obtain j r' where x: "so_xack ops [e] (gp_redis g) = (j, r')" by (rule prod.exhaust)
  from stream_law(5) [OF ack(3) x] ack x show ?case by (force simp: holds_pending_def command_defs)
next
  case (delete g m)
  then show ?case using stream_law(9) [OF delete(2), of m "gp_redis g"] by (force simp: holds_pending_def command_defs)
qed (auto simp: holds_pending_def command_defs)

lemma step_phase:
  "group_step ops jc env conf g g' \<Longrightarrow> gp_phase g' n \<in> {Found_Empty, Deleted} \<Longrightarrow>
     gp_phase g n \<in> {Found_Empty, Deleted} \<or> gp_phase g n = Down \<and> \<not> holds_pending ops n g"
  by (induction rule: group_step.induct)
    (auto simp: command_defs split: if_splits prod.splits)

lemma step_own_nothing:
  assumes "group_step ops jc env conf g g'" and "stream_laws ops" and "own_nothing ops g"
  shows "own_nothing ops g'"
  unfolding own_nothing_def
proof (intro allI impI notI)
  fix n assume p: "gp_phase g' n = Found_Empty \<or> gp_phase g' n = Deleted" and h: "holds_pending ops n g'"
  with step_phase [OF assms(1), of n] have "gp_phase g n \<noteq> Up" by auto
  from step_pending_owner [OF assms(1,2) this h] step_phase [OF assms(1), of n] p assms(3)
  show False by (auto simp: own_nothing_def)
qed

lemma settled_mono: "settled g e \<Longrightarrow> set (gp_attempts g) \<subseteq> set (gp_attempts g') \<Longrightarrow> settled g' e"
  by (auto simp: settled_def)

lemma faithful_history_cong:
  assumes "faithful_history jc env conf g" and "gp_attempts g' = gp_attempts g" and "set (gp_acked g') \<subseteq> set (gp_acked g)"
    and "\<And>n l e. gp_acking g' n l = Some e \<Longrightarrow> gp_acking g n l = Some e"
  shows "faithful_history jc env conf g'"
proof -
  have "settled g' e = settled g e" for e by (simp add: settled_def assms(2))
  with assms(1,3,4) show ?thesis unfolding faithful_history_def assms(2) by blast
qed

lemma ack_faithful:
  assumes "faithful_history jc env conf g" and "settled g e"
  shows "faithful_history jc env conf (acknowledge ops e (set_acking n l None g))"
  using assms by (auto simp: faithful_history_def settled_def acknowledge_def set_acking_def split: if_splits)

lemma after_message_acking:
  "gp_acking (after_message n l e rest r s' g) n' l' =
     (if n' = n \<and> l' = l then (case r of Inr (_, True) \<Rightarrow> Some e | _ \<Rightarrow> None) else gp_acking g n' l')"
  by (simp add: command_defs)

lemma process_faithful:
  assumes "faithful_history jc env conf g"
    and "process_message jc env (conf n) (fst e) (snd e) (gp_world g) = (r, s')"
  shows "faithful_history jc env conf (after_message n l e rest r s' g)"
proof -
  let ?g = "after_message n l e rest r s' g"
  have old: "settled g e' \<Longrightarrow> settled ?g e'" for e'
    by (erule settled_mono) (auto simp: command_defs)
  have att: "gp_attempts ?g = gp_attempts g @ [(n, e, gp_world g, r)]" and acked: "gp_acked ?g = gp_acked g"
    by (simp_all add: command_defs)
  have acking: "gp_acking g n' l' = Some e' \<or> e' = e \<and> (\<exists>ok. r = Inr (ok, True))"
    if "gp_acking ?g n' l' = Some e'" for n' l' e'
    using that unfolding after_message_acking by (auto split: if_splits sum.splits bool.splits prod.splits)
  have new: "settled ?g e" if "r = Inr (ok, True)" for ok unfolding settled_def att using that by auto
  show ?thesis
    unfolding faithful_history_def att acked
  proof (intro conjI allI impI)
    show "fst (process_message jc env (conf n') (fst e') (snd e') s) = r'"
      if "(n', e', s, r') \<in> set (gp_attempts g @ [(n, e, gp_world g, r)])" for n' e' s r'
      using assms that unfolding faithful_history_def by (auto simp del: split_paired_All)
    show "settled ?g e'" if "gp_acking ?g n' l' = Some e'" for n' l' e'
      using acking [OF that] assms(1) old [of e'] new unfolding faithful_history_def by blast
    show "settled ?g e'" if "e' \<in> set (gp_acked g)" for e'
      using that assms(1) old [of e'] unfolding faithful_history_def by blast
  qed
qed

lemma step_faithful:
  assumes "group_step ops jc env conf g g'" and "faithful_history jc env conf g"
  shows "faithful_history jc env conf g'"
  using assms
proof (induction rule: group_step.induct)
  case (process g n l e rest r s')
  then show ?case by (intro process_faithful)
next
  case (ack g n l e)
  then have "settled g e" unfolding faithful_history_def by blast
  with ack show ?case by (intro ack_faithful)
qed (erule faithful_history_cong; simp add: command_defs split: if_splits prod.splits)+

lemma run_invariant:
  assumes "group_run ops jc env conf g" and "stream_laws ops"
  shows "one_place ops g \<and> own_nothing ops g \<and> faithful_history jc env conf g"
  using assms
proof (induction rule: group_run.induct)
  case (begins r s)
  then show ?case by (simp add: one_place_def own_nothing_def holds_pending_def faithful_history_def new_group_def)
next
  case (continues g g')
  then show ?case by (blast intro: step_one_place step_own_nothing step_faithful)
qed

lemma acked_terminal:
  assumes "faithful_history jc env conf g" and "e \<in> set (gp_acked g)"
  shows "\<exists>n s ok. (n, e, s, Inr (ok, True)) \<in> set (gp_attempts g) \<and> terminal jc env (conf n) e s"
proof -
  from assms have "settled g e" unfolding faithful_history_def by blast
  then obtain n s ok where a: "(n, e, s, Inr (ok, True)) \<in> set (gp_attempts g)" unfolding settled_def by blast
  with assms(1) have "fst (process_message jc env (conf n) (fst e) (snd e) s) = Inr (ok, True)"
    unfolding faithful_history_def by blast
  then obtain s' where "process_message jc env (conf n) (fst e) (snd e) s = (Inr (ok, True), s')"
    by (metis prod.collapse)
  from acknowledged_terminal [OF this] a show ?thesis by blast
qed

section \<open>Recovery\<close>

text \<open>One pass of a claimer whose first claimed entry is acknowledged by processing it.\<close>

lemma claimed_and_acknowledged:
  assumes "stream_laws ops" and "gp_phase g n = Up" and "gp_batch g n ClaimerLoop = []" and "gp_acking g n ClaimerLoop = None"
    and "so_xautoclaim ops n (co_claim_count (conf n)) (gp_redis g) = (e # es, r')"
    and "process_message jc env (conf n) (fst e) (snd e) (gp_world g) = (Inr (ok, True), s')"
  shows "\<exists>g'. (group_step ops jc env conf)\<^sup>*\<^sup>* g g' \<and> e \<in> set (gp_acked g')"
proof -
  let ?g1 = "claim_batch ops n (co_claim_count (conf n)) g"
  let ?g2 = "after_message n ClaimerLoop e es (Inr (ok, True)) s' ?g1"
  let ?g3 = "acknowledge ops e (set_acking n ClaimerLoop None ?g2)"
  have g1: "?g1 = set_batch n ClaimerLoop (e # es) (g\<lparr>gp_redis := r'\<rparr>)" using assms(5) by (simp add: claim_batch_def)
  have "group_step ops jc env conf g ?g1" by (rule claim [OF assms(2-4)])
  moreover have "group_step ops jc env conf ?g1 ?g2"
    unfolding g1 by (rule process) (use assms(2,4,6) in \<open>simp_all add: set_batch_def\<close>)
  moreover have "group_step ops jc env conf ?g2 ?g3"
    by (rule ack [of _ n]) (use assms(2) g1 in \<open>simp_all add: after_message_def set_batch_def set_acking_def\<close>)
  moreover have "e \<in> fst ` set (so_pending ops r')"
    using stream_law(4) [OF assms(1,5)] by (force simp: image_iff)
  then have "e \<in> set (gp_acked ?g3)" by (simp add: g1 acknowledge_def after_message_def set_batch_def set_acking_def)
  ultimately show ?thesis by (meson rtranclp.rtrancl_refl rtranclp.rtrancl_into_rtrancl)
qed

section \<open>The purge script\<close>

text \<open>
  \<open>scripts/purge_stuck_pel.py\<close>, run while nothing else uses the groups: the pending list page by page, then
  the consumers that have nothing pending.
\<close>

partial_function (option) purge_pending :: "'r stream_ops \<Rightarrow> 'r \<Rightarrow> nat \<Rightarrow> (nat \<times> 'r) option" where
  "purge_pending ops r acked =
     (let page = so_xpending ops 500 r in
      if page = [] then Some (acked, r)
      else let (n, r') = so_xack ops page r
           in if length page < 500 then Some (acked + n, r') else purge_pending ops r' (acked + n))"

fun delete_consumers :: "'r stream_ops \<Rightarrow> (string \<times> nat) list \<Rightarrow> 'r \<Rightarrow> nat \<Rightarrow> nat \<times> 'r" where
  "delete_consumers ops [] r deleted = (deleted, r)"
| "delete_consumers ops ((name, pending) # cs) r deleted =
     (if pending = 0 then delete_consumers ops cs (so_delconsumer ops name r) (deleted + 1)
      else delete_consumers ops cs r deleted)"

definition purge_group :: "'r stream_ops \<Rightarrow> 'r \<Rightarrow> ((nat \<times> nat) \<times> 'r) option" where
  "purge_group ops r =
     map_option (\<lambda>(acked, r'). case delete_consumers ops (so_xinfo ops r') r' 0 of (deleted, r'') \<Rightarrow> ((acked, deleted), r''))
       (purge_pending ops r 0)"

fun purge_groups :: "'r stream_ops \<Rightarrow> 'r list \<Rightarrow> ((nat \<times> nat) \<times> 'r list) option" where
  "purge_groups ops [] = Some ((0, 0), [])"
| "purge_groups ops (r # rs) =
     (case purge_group ops r of
        None \<Rightarrow> None
      | Some ((acked, deleted), r') \<Rightarrow>
          map_option (\<lambda>((total_acked, total_deleted), rs'). ((acked + total_acked, deleted + total_deleted), r' # rs'))
            (purge_groups ops rs))"

lemma purge_pending_all:
  assumes "stream_laws ops"
  shows "\<exists>r'. purge_pending ops r acked = Some (acked + length (so_pending ops r), r') \<and> so_pending ops r' = []
    \<and> so_unread ops r' = so_unread ops r"
proof (induction "length (so_pending ops r)" arbitrary: r acked rule: less_induct)
  case less
  define ps where "ps = so_pending ops r"
  define page where "page = take 500 (map fst ps)"
  obtain n r1 where x: "so_xack ops page r = (n, r1)" by (rule prod.exhaust)
  note law = stream_law(5) [OF assms x, folded ps_def, unfolded split_def]
  have step: "purge_pending ops r acked =
      (if page = [] then Some (acked, r) else if length page < 500 then Some (acked + n, r1) else purge_pending ops r1 (acked + n))"
    using x stream_law(6) [OF assms, of 500 r] by (simp add: purge_pending.simps [of ops r acked] page_def ps_def Let_def)
  have count: "n + length (so_pending ops r1) = length ps"
    using law sum_length_filter_compl [of "\<lambda>p. fst p \<in> set page" ps] by simp
  show ?case
  proof (cases "ps = []")
    case True
    with step show ?thesis by (simp add: page_def ps_def)
  next
    case False
    then have ne: "page \<noteq> []" by (simp add: page_def)
    then obtain p where "p \<in> set ps" "fst p \<in> set page" using in_set_takeD by (fastforce simp: page_def neq_Nil_conv)
    then have "n > 0" using law by (auto simp: filter_empty_conv)
    show ?thesis
    proof (cases "length page < 500")
      case True
      then have "so_pending ops r1 = []" using law by (auto simp: page_def filter_empty_conv)
      with True ne step count law show ?thesis by (simp add: ps_def)
    next
      case full: False
      from \<open>n > 0\<close> count have "length (so_pending ops r1) < length (so_pending ops r)" by (simp add: ps_def)
      from less [OF this, of "acked + n"] full ne step count law show ?thesis by (auto simp: ps_def)
    qed
  qed
qed

lemma delete_consumers_all:
  assumes "stream_laws ops" and "list_all (\<lambda>(_, k). k = 0) cs" and "set (map fst (so_xinfo ops r)) \<subseteq> fst ` set cs"
    and "so_pending ops r = []"
  shows "\<exists>r'. delete_consumers ops cs r d = (d + length cs, r') \<and> so_xinfo ops r' = [] \<and> so_pending ops r' = []
    \<and> so_unread ops r' = so_unread ops r"
  using assms(2-4)
proof (induction cs arbitrary: r d)
  case (Cons c cs)
  obtain n k where c: "c = (n, k)" by (rule prod.exhaust)
  let ?r = "so_delconsumer ops n r"
  have "set (map fst (so_xinfo ops ?r)) \<subseteq> fst ` set cs" "so_pending ops ?r = []"
    using Cons.prems c stream_law(9,10) [OF assms(1), of n r] by auto
  with Cons.IH [of ?r "d + 1"] Cons.prems(1) c stream_law(8) [OF assms(1), of n r] show ?case by auto
qed simp

lemma purge_group_all:
  assumes "stream_laws ops"
  shows "\<exists>r' d. purge_group ops r = Some ((length (so_pending ops r), d), r') \<and> so_pending ops r' = [] \<and> so_xinfo ops r' = []
    \<and> so_unread ops r' = so_unread ops r"
proof -
  obtain r1 where r1: "purge_pending ops r 0 = Some (length (so_pending ops r), r1)" "so_pending ops r1 = []"
    "so_unread ops r1 = so_unread ops r"
    using purge_pending_all [OF assms, of r 0] by auto
  have "list_all (\<lambda>(_, k). k = 0) (so_xinfo ops r1)"
    using stream_law(7) [OF assms, of _ _ r1] r1(2) by (fastforce simp: list_all_iff pending_of_def)
  from delete_consumers_all [OF assms this _ r1(2), of 0] r1 show ?thesis by (auto simp: purge_group_def)
qed

section \<open>A stream and a group for the witnesses\<close>

text \<open>The state of the stream: the unread entries, the pending ones and the names of the consumers.\<close>

type_synonym list_stream = "entry list \<times> (entry \<times> string) list \<times> string list"

definition list_stream_ops :: "list_stream stream_ops" where
  "list_stream_ops =
     \<lparr>so_unread = fst, so_pending = (\<lambda>r. fst (snd r)), so_xadd = (\<lambda>e r. (fst r @ [e], snd r)),
      so_xreadgroup = (\<lambda>n k r. (take (nat k) (fst r),
         (drop (nat k) (fst r), fst (snd r) @ map (\<lambda>e. (e, n)) (take (nat k) (fst r)), List.insert n (snd (snd r))))),
      so_xautoclaim = (\<lambda>n k r. let es = take (nat k) (map fst (fst (snd r)))
         in (es, (fst r, map (\<lambda>(e, m). (e, if e \<in> set es then n else m)) (fst (snd r)), List.insert n (snd (snd r))))),
      so_xack = (\<lambda>es r. (length (filter (\<lambda>(e, _). e \<in> set es) (fst (snd r))),
         (fst r, filter (\<lambda>(e, _). e \<notin> set es) (fst (snd r)), snd (snd r)))),
      so_xpending = (\<lambda>k r. take k (map fst (fst (snd r)))),
      so_xinfo = (\<lambda>r. map (\<lambda>n. (n, pending_of (fst (snd r)) n)) (snd (snd r))),
      so_delconsumer = (\<lambda>n r. (fst r, filter (\<lambda>(_, m). m \<noteq> n) (fst (snd r)), filter (\<lambda>m. m \<noteq> n) (snd (snd r))))\<rparr>"

lemma list_stream_laws: "stream_laws list_stream_ops"
proof -
  have "claim_law list_stream_ops"
    by (auto simp: claim_law_def list_stream_ops_def Let_def dest!: in_set_takeD)
  then show ?thesis by (auto simp: stream_laws_def list_stream_ops_def o_def)
qed

abbreviation demo_entry :: entry where
  "demo_entry \<equiv> (''1-0'', demo_message)"

definition demo_conf :: "string \<Rightarrow> demo_state consumer" where
  "demo_conf n = demo_consumer (\<lambda>ev s. (Inr (), s))"

lemma demo_process:
  "process_message empty_codec demo_env (demo_conf n) ''1-0'' demo_message s = (Inr (True, True), s)"
proof -
  have "parse_message empty_codec (demo_conf n) ''1-0'' demo_message =
     Some \<lparr>ev_id = JStr ''e1'', ev_type = JStr ''lead.created'', ev_version = JStr ''1.0'', ev_tenant_id = JStr [],
       ev_timestamp = JStr [], ev_source_service = JStr [], ev_actor_id = JNull, ev_data = JDict [],
       ev_metadata = JDict [], ev_raw_message_id = ''1-0''\<rparr>"
    using demo_parse [of "demo_conf n"] by (simp add: demo_conf_def demo_consumer_def)
  moreover have "resolve_handler (co_handlers (demo_conf n)) (JStr ''lead.created'') = Inr (Some (\<lambda>ev s. (Inr (), s)))"
    by (simp add: resolve_handler_def demo_conf_def demo_consumer_def demo_wildcard wildcard_stem_def)
  ultimately show ?thesis
    by (simp add: process_message_def demo_env_def retry_clear_def io_defs demo_conf_def demo_consumer_def)
qed

text \<open>\<open>w1\<close> reads the entry and crashes; or it processes and acknowledges it.\<close>

definition demo_group :: "list_stream \<Rightarrow> (list_stream, demo_state) group" where
  "demo_group r = (new_group r ([], \<lambda>_. 0))\<lparr>gp_published := [demo_entry]\<rparr>"

definition demo_read :: "(list_stream, demo_state) group" where
  "demo_read = set_batch ''w1'' ConsumeLoop [demo_entry] (demo_group ([], [(demo_entry, ''w1'')], [''w1'']))"

definition demo_crashed :: "(list_stream, demo_state) group" where
  "demo_crashed = go_down ''w1'' demo_read"

definition demo_done :: "(list_stream, demo_state) group" where
  "demo_done = acknowledge list_stream_ops demo_entry (set_acking ''w1'' ConsumeLoop None
     (after_message ''w1'' ConsumeLoop demo_entry [] (Inr (True, True)) ([], \<lambda>_. 0) demo_read))"

lemma demo_read_run: "group_run list_stream_ops empty_codec demo_env demo_conf demo_read"
proof (rule continues [OF continues [OF begins [where r = "([], [], [])" and s = "([], \<lambda>_. 0)"]]])
  show "so_unread list_stream_ops ([], [], []) = []" "so_pending list_stream_ops ([], [], []) = []"
    by (simp_all add: list_stream_ops_def)
  show "group_step list_stream_ops empty_codec demo_env demo_conf (new_group ([], [], []) ([], \<lambda>_. 0))
      (demo_group ([demo_entry], [], []))"
    using publish [of demo_entry "new_group ([], [], []) ([], \<lambda>_. 0)" list_stream_ops]
    by (simp add: new_group_def demo_group_def list_stream_ops_def)
  have "demo_read = read_batch list_stream_ops ''w1'' (co_batch_size (demo_conf ''w1'')) (demo_group ([demo_entry], [], []))"
    by (simp add: demo_read_def read_batch_def demo_group_def new_group_def list_stream_ops_def demo_conf_def demo_consumer_def
        set_batch_def)
  moreover have "group_step list_stream_ops empty_codec demo_env demo_conf (demo_group ([demo_entry], [], []))
      (read_batch list_stream_ops ''w1'' (co_batch_size (demo_conf ''w1'')) (demo_group ([demo_entry], [], [])))"
    by (rule read) (simp_all add: demo_group_def new_group_def)
  ultimately show "group_step list_stream_ops empty_codec demo_env demo_conf (demo_group ([demo_entry], [], [])) demo_read"
    by simp
qed

lemma demo_crashed_run: "group_run list_stream_ops empty_codec demo_env demo_conf demo_crashed"
  unfolding demo_crashed_def
  by (rule continues [OF demo_read_run], rule down) (simp add: demo_read_def set_batch_def demo_group_def new_group_def)

lemma demo_done_run: "group_run list_stream_ops empty_codec demo_env demo_conf demo_done"
  unfolding demo_done_def
proof (rule continues [OF continues [OF demo_read_run]])
  let ?g' = "after_message ''w1'' ConsumeLoop demo_entry [] (Inr (True, True)) ([], \<lambda>_. 0) demo_read"
  show "group_step list_stream_ops empty_codec demo_env demo_conf demo_read ?g'"
    by (rule process) (simp_all add: demo_read_def set_batch_def demo_group_def new_group_def demo_process)
  show "group_step list_stream_ops empty_codec demo_env demo_conf ?g'
      (acknowledge list_stream_ops demo_entry (set_acking ''w1'' ConsumeLoop None ?g'))"
    by (rule ack [of _ "''w1''"]) (simp_all add: after_message_def set_acking_def set_batch_def demo_read_def demo_group_def new_group_def)
qed

section \<open>Properties\<close>





text \<open>
  The purge script returns for every number of pending entries, has acknowledged each of them and deleted every consumer,
  leaves what is unread, and a second run finds nothing pending and no consumer.
\<close>

theorem purge_drains_and_repeats:
  assumes "stream_laws ops"
  shows "\<exists>r' d. purge_group ops r = Some ((length (so_pending ops r), d), r') \<and> so_pending ops r' = [] \<and> so_xinfo ops r' = []
    \<and> so_unread ops r' = so_unread ops r \<and> purge_group ops r' = Some ((0, 0), r')"
proof -
  obtain r' d where r': "purge_group ops r = Some ((length (so_pending ops r), d), r')" "so_pending ops r' = []"
    "so_xinfo ops r' = []" "so_unread ops r' = so_unread ops r"
    using purge_group_all [OF assms, of r] by blast
  moreover have "purge_pending ops r' 0 = Some (0, r')"
    using stream_law(6) [OF assms, of 500 r'] r'(2) by (simp add: purge_pending.simps [of ops r' 0])
  ultimately show ?thesis by (auto simp: purge_group_def)
qed

theorem purge_drains_and_repeats_witness:
  "\<exists>r' d. purge_group list_stream_ops ([], [(demo_entry, ''w1'')], [''w1'']) = Some ((1, d), r') \<and> so_pending list_stream_ops r' = []"
  using purge_drains_and_repeats [OF list_stream_laws, of "([], [(demo_entry, ''w1'')], [''w1''])"]
  by (auto simp: list_stream_ops_def)

end
