(* ===== verification/Event_Helpers.thy ===== *)
theory Event_Helpers
  imports Event_Bus Payload_Schemas
begin

text \<open>
  \<open>events/helpers.py\<close>: the publish path and the consume path of typed events, which join the
  schemas of theory \<open>Payload_Schemas\<close> to the producer and the envelope of theory \<open>Event_Bus\<close>. A payload
  object is its class and its field values in the JSON form that \<open>model_dump(mode="json")\<close>
  returns.
\<close>

datatype publish_arg = Typed schema "(string, json) dict" | Untyped string

definition parse_payload :: "converter \<Rightarrow> event_envelope \<Rightarrow> schema \<Rightarrow> (string, json) dict res" where
  "parse_payload convert envelope s =
     (case ev_data envelope of
        JDict d \<Rightarrow> (case model_validate convert s d of
                      None \<Rightarrow> Inl (ValueError ''validation error'')
                    | Some v \<Rightarrow> Inr v)
      | _ \<Rightarrow> Inl (ValueError ''validation error''))"

definition publish_event ::
  "json_codec \<Rightarrow> 's bus_env \<Rightarrow> event_producer \<Rightarrow> string \<Rightarrow> publish_arg \<Rightarrow> string \<Rightarrow> string option
   \<Rightarrow> (string, json) dict \<Rightarrow> string option \<Rightarrow> ('s, string) io" where
  "publish_event jc env producer event_type payload tenant_id actor_id metadata correlation_id =
     (case payload of
        Untyped ty_name \<Rightarrow> io_raise (TypeError (''payload must be an EventPayload, got '' @ ty_name))
      | Typed s values \<Rightarrow>
          producer_publish jc env producer event_type tenant_id values actor_id metadata correlation_id False)"

section \<open>Validating what was dumped\<close>

text \<open>
  What is relied on of pydantic: a converted value is converted to itself, and so is a default. (A payload
  is read back by the class that wrote it.)
\<close>

definition convert_stable :: "converter \<Rightarrow> schema \<Rightarrow> bool" where
  "convert_stable convert s =
     ((\<forall>t cs x y. convert t cs x = Some y \<longrightarrow> convert t cs y = Some y)
      \<and> (\<forall>k f d. dict_get (sc_fields s) k = Some f \<and> fd_default f = Some d \<longrightarrow>
           convert (fd_type f) (fd_constraints f) d = Some d))"

lemma field_value_stable:
  assumes "convert_stable convert s" and "dict_get (sc_fields s) k = Some f" and "field_value convert f v = Some x"
  shows "field_value convert f (Some x) = Some x"
  using assms by (auto simp: convert_stable_def field_value_def split: option.splits)

lemma fields_value_again:
  assumes "dict_ok fs" and "fields_value convert fs d = Some r"
    and "\<And>k f v x. dict_get fs k = Some f \<Longrightarrow> field_value convert f v = Some x \<Longrightarrow> field_value convert f (Some x) = Some x"
  shows "fields_value convert fs r = Some r"
  using assms
proof (induction fs arbitrary: r)
  case (Cons a fs)
  obtain k f where a: "a = (k, f)" by (rule prod.exhaust)
  from Cons.prems(2) a obtain x r' where x: "field_value convert f (dict_get d k) = Some x"
    and r': "fields_value convert fs d = Some r'" and r: "r = (k, x) # r'" by (auto split: option.splits)
  have sub: "dict_get fs k' = Some f' \<Longrightarrow> dict_get (a # fs) k' = Some f'" for k' f'
    using Cons.prems(1) a map_of_SomeD [of fs k' f'] by (force simp: dict_ok_def)
  have "fields_value convert fs r' = Some r'"
  proof (rule Cons.IH [OF _ r'])
    show "dict_ok fs" using Cons.prems(1) a by (simp add: dict_ok_def)
  qed (rule Cons.prems(3) [OF sub])
  moreover have "fields_value convert fs r = fields_value convert fs r'"
    using Cons.prems(1) a r by (intro fields_value_cong) (force simp: dict_ok_def)
  moreover have "field_value convert f (Some x) = Some x" using Cons.prems(3) [of k f] a x by simp
  ultimately show ?case using a r by simp
qed simp

lemma validate_again:
  assumes "extends s b" and "convert_stable convert s" and "model_validate convert s d = Some v"
  shows "model_validate convert s v = Some v"
proof -
  have run: "fields_value convert (sc_fields s) d = Some v" using assms(3) by (auto simp: model_validate_def split: if_splits)
  have again: "fields_value convert (sc_fields s) v = Some v"
    by (rule fields_value_again [OF _ run]) (use assms(1) field_value_stable [OF assms(2)] in \<open>auto simp: extends_def\<close>)
  have "map fst v = map fst (sc_fields s)" using fields_value_get [OF run] by simp
  then have "fst ` set v = fst ` set (sc_fields s)" by (metis set_map)
  then have "\<not> list_ex (\<lambda>(k, _). dict_get (sc_fields s) k = None) v"
    by (force simp: list_ex_iff map_of_eq_None_iff)
  with again show ?thesis by (simp add: model_validate_def)
qed

section \<open>A codec for the witness\<close>

definition lead_source_gone :: "(string, json) dict" where
  "lead_source_gone = [(''lead_source_id'', JStr ''7'')]"

definition two_codec :: json_codec where
  "two_codec =
     \<lparr>jc_dumps = (\<lambda>v. if v = JDict [] then Inr ''{}'' else if v = JDict lead_source_gone then Inr ''x'' else Inl (TypeError ''other'')),
      jc_loads = (\<lambda>s. if s = ''{}'' then Inr (JDict []) else if s = ''x'' then Inr (JDict lead_source_gone)
                      else Inl (ValueError ''other''))\<rparr>"

lemma two_codec_round_trip: "codec_round_trip two_codec"
  by (simp add: codec_round_trip_def two_codec_def lead_source_gone_def)

section \<open>Properties\<close>



end
