(* ===== verification/Consumer_Lifecycle.thy ===== *)
theory Consumer_Lifecycle
  imports Event_Consumer
begin

text \<open>
  The life of an \<open>EventConsumer\<close> object (\<open>events/consumer.py\<close>): \<open>connect\<close>, \<open>disconnect\<close>, \<open>start\<close>, \<open>stop\<close>
  and the two loops, over the attributes that these change. The attributes are part of the world,
  because \<open>stop()\<close> runs in another task while a loop awaits: every effect of the environment may change
  them, and the code reads them again after each await. A loop may run forever, so it is a
  \<^theory_text>\<open>partial_function\<close> whose value \<open>None\<close> is a run without end.
\<close>

section \<open>Attributes\<close>

text \<open>
  \<open>_redis is not None\<close>; \<open>_dlq\<close> and \<open>_retry_state\<close> are set, which \<open>connect\<close> does and nothing undoes; and
  \<open>_running\<close>.
\<close>

record life =
  lf_redis :: bool
  lf_tools :: bool
  lf_running :: bool

definition new_life :: life where
  "new_life = \<lparr>lf_redis = False, lf_tools = False, lf_running = False\<rparr>"

type_synonym 's lived = "life \<times> 's"

definition on_life :: "(life \<Rightarrow> life) \<Rightarrow> ('s lived, unit) io" where
  "on_life f w = (Inr (), (f (fst w), snd w))"

definition is_running :: "'s lived \<Rightarrow> bool" where
  "is_running w = lf_running (fst w)"

text \<open>
  The client library and the event loop: opening a client with its socket timeout, closing the shared
  and the short-lived client, the group commands, sleeping, and the cancelled claimer task until it
  has ended.
\<close>

record 'w life_env =
  le_new_client :: "int \<Rightarrow> ('w, unit) io"
  le_close :: "('w, unit) io"
  le_close_own :: "('w, unit) io"
  le_xgroup_create :: "('w, unit) io"
  le_xinfo_consumers :: "('w, consumer_info list) io"
  le_delconsumer :: "string \<Rightarrow> ('w, unit) io"
  le_xpending_count :: "('w, nat) io"
  le_sleep :: "int \<Rightarrow> ('w, unit) io"
  le_join_claimer :: "('w, unit) io"

section \<open>Connection\<close>

definition CONSUMER_READ_MARGIN_SECONDS :: int where
  "CONSUMER_READ_MARGIN_SECONDS = 5"

definition new_client :: "'s lived life_env \<Rightarrow> 's lived consumer \<Rightarrow> ('s lived, unit) io" where
  "new_client le c = le_new_client le (co_block_ms c div 1000 + CONSUMER_READ_MARGIN_SECONDS)"

definition when_redis :: "('s lived, unit) io \<Rightarrow> ('s lived, unit) io" where
  "when_redis m w = (if lf_redis (fst w) then m w else io_return () w)"

definition connect :: "'s lived life_env \<Rightarrow> 's lived consumer \<Rightarrow> ('s lived, unit) io" where
  "connect le c =
     io_bind (\<lambda>w. if lf_redis (fst w) then io_return () w
                  else io_bind (new_client le c) (\<lambda>_. on_life (lf_redis_update (\<lambda>_. True))) w) (\<lambda>_.
     io_bind (on_life (lf_tools_update (\<lambda>_. True))) (\<lambda>_.
     io_bind (when_redis (ensure_consumer_group (le_xgroup_create le))) (\<lambda>_.
     when_redis (sweep_zombie_consumers (le_xinfo_consumers le) (le_delconsumer le) c))))"

definition disconnect :: "'s lived life_env \<Rightarrow> ('s lived, unit) io" where
  "disconnect le = when_redis (io_bind (le_close le) (\<lambda>_. on_life (lf_redis_update (\<lambda>_. False))))"

definition stop :: "'s lived life_env \<Rightarrow> ('s lived, unit) io" where
  "stop le = io_bind (on_life (lf_running_update (\<lambda>_. False))) (\<lambda>_. disconnect le)"

text \<open>The decorator \<open>@consumer.handler(event_type)\<close>, and closing the checker's own client, if it has one.\<close>

definition handler_decorator ::
  "string \<Rightarrow> (event_envelope \<Rightarrow> ('s, unit) io) \<Rightarrow> 's consumer \<Rightarrow> (event_envelope \<Rightarrow> ('s, unit) io) \<times> 's consumer" where
  "handler_decorator event_type func c = (func, register_handler event_type func c)"

definition checker_aclose :: "('s, unit) io option \<Rightarrow> ('s, unit) io" where
  "checker_aclose redis_aclose = (case redis_aclose of Some m \<Rightarrow> m | None \<Rightarrow> io_return ())"

text \<open>\<open>_deregister_consumer\<close> with the client it opens: one that cannot be opened is not caught.\<close>

definition deregister :: "'s lived life_env \<Rightarrow> 's lived consumer \<Rightarrow> ('s lived, unit) io" where
  "deregister le c =
     io_bind (new_client le c) (\<lambda>_.
     deregister_consumer (le_xpending_count le) (le_delconsumer le (co_name c)) (le_close_own le))"

section \<open>The loops\<close>

text \<open>
  A message is processed with the dead-letter handler and the retry store if they are set, and
  acknowledged if the client is still there once it has been processed.
\<close>

definition live_message ::
  "json_codec \<Rightarrow> 's lived bus_env \<Rightarrow> 's lived consumer \<Rightarrow> string \<Rightarrow> (string, string) dict \<Rightarrow> ('s lived, unit) io" where
  "live_message jc env c mid data w =
     io_bind (process_message jc env (c\<lparr>co_connected := lf_tools (fst w)\<rparr>) mid data) (\<lambda>(_, should_ack).
       if should_ack then when_redis (be_xack env (co_stream c) (co_group c) mid) else io_return ()) w"

fun live_batch ::
  "json_codec \<Rightarrow> 's lived bus_env \<Rightarrow> 's lived consumer \<Rightarrow> (string \<times> (string, string) dict) list \<Rightarrow> ('s lived, unit) io" where
  "live_batch jc env c [] = io_return ()"
| "live_batch jc env c ((mid, data) # rest) =
     io_bind (live_message jc env c mid data) (\<lambda>_. live_batch jc env c rest)"

text \<open>Reading through \<open>_redis\<close> when it is \<open>None\<close> is an \<open>AttributeError\<close>.\<close>

definition live_read :: "json_codec \<Rightarrow> 's lived bus_env \<Rightarrow> 's lived consumer \<Rightarrow> ('s lived, unit) io" where
  "live_read jc env c w =
     (if lf_redis (fst w)
      then io_bind (be_xreadgroup env (co_group c) (co_name c) (co_stream c) (co_batch_size c) (co_block_ms c))
             (live_batch jc env c) w
      else io_raise (AttributeError ''NoneType object has no attribute xreadgroup'') w)"

definition live_claim :: "json_codec \<Rightarrow> 's lived bus_env \<Rightarrow> 's lived consumer \<Rightarrow> ('s lived, unit) io" where
  "live_claim jc env c =
     when_redis (io_bind
       (be_xautoclaim env (co_group c) (co_name c) (co_stream c) (co_claim_min_idle_ms c) (co_claim_count c))
       (live_batch jc env c))"

text \<open>
  One turn of a loop: whether the loop goes on. What an exception leads to is read off the table of
  theory \<open>Event_Consumer\<close> with the flag at that moment; an exception of the reconnection is
  swallowed, one of the pause is not.
\<close>

definition act ::
  "'s lived life_env \<Rightarrow> 's lived consumer \<Rightarrow> loop_action \<Rightarrow> ('s lived, bool) io" where
  "act le c a =
     (case a of
        PollAgain \<Rightarrow> io_return True
      | StopLoop \<Rightarrow> io_return False
      | ReconnectThenSleep n \<Rightarrow>
          io_bind (io_except is_Exception (io_bind (disconnect le) (\<lambda>_. connect le c)) (\<lambda>_. io_return ())) (\<lambda>_.
          io_bind (le_sleep le n) (\<lambda>_. io_return True))
      | SleepFor n \<Rightarrow> io_bind (le_sleep le n) (\<lambda>_. io_return True)
      | Escape e \<Rightarrow> io_raise e)"

definition consume_turn ::
  "json_codec \<Rightarrow> 's lived life_env \<Rightarrow> 's lived bus_env \<Rightarrow> 's lived consumer \<Rightarrow> ('s lived, bool) io" where
  "consume_turn jc le env c =
     io_except (\<lambda>_. True)
       (io_bind (live_read jc env c) (\<lambda>_. io_return True))
       (\<lambda>e w. act le c (consume_loop_action (is_running w) e) w)"

definition claimer_turn ::
  "json_codec \<Rightarrow> 's lived life_env \<Rightarrow> 's lived bus_env \<Rightarrow> int \<Rightarrow> 's lived consumer \<Rightarrow> ('s lived, bool) io" where
  "claimer_turn jc le env interval c =
     io_except (\<lambda>_. True)
       (io_bind (live_claim jc env c) (\<lambda>_. io_bind (le_sleep le interval) (\<lambda>_. io_return True)))
       (\<lambda>e w. act le c (claimer_loop_action (is_running w) interval e) w)"

partial_function (option) while_running ::
  "('s lived, bool) io \<Rightarrow> 's lived \<Rightarrow> (unit res \<times> 's lived) option" where
  "while_running turn w =
     (if \<not> is_running w then Some (Inr (), w)
      else case turn w of
             (Inl e, w') \<Rightarrow> Some (Inl e, w')
           | (Inr go_on, w') \<Rightarrow> if go_on then while_running turn w' else Some (Inr (), w'))"

definition consume_loop ::
  "json_codec \<Rightarrow> 's lived life_env \<Rightarrow> 's lived bus_env \<Rightarrow> 's lived consumer \<Rightarrow> 's lived \<Rightarrow> (unit res \<times> 's lived) option" where
  "consume_loop jc le env c w =
     (if \<not> lf_redis (fst w) then Some (Inr (), w) else while_running (consume_turn jc le env c) w)"

definition claimer_loop ::
  "json_codec \<Rightarrow> 's lived life_env \<Rightarrow> 's lived bus_env \<Rightarrow> int \<Rightarrow> 's lived consumer \<Rightarrow> 's lived
   \<Rightarrow> (unit res \<times> 's lived) option" where
  "claimer_loop jc le env interval c = while_running (claimer_turn jc le env interval c)"

section \<open>\<open>start\<close>\<close>

text \<open>The \<open>finally\<close> block; the claimer runs as a task of its own, within the effects of the environment.\<close>

definition clean_up :: "'s lived life_env \<Rightarrow> 's lived consumer \<Rightarrow> ('s lived, unit) io" where
  "clean_up le c =
     io_bind (on_life (lf_running_update (\<lambda>_. False))) (\<lambda>_.
     io_bind (io_except (\<lambda>e. e = CancelledError) (le_join_claimer le) (\<lambda>_. io_return ())) (\<lambda>_.
     io_bind (disconnect le) (\<lambda>_.
     deregister le c)))"

definition start ::
  "json_codec \<Rightarrow> 's lived life_env \<Rightarrow> 's lived bus_env \<Rightarrow> 's lived consumer \<Rightarrow> 's lived \<Rightarrow> (unit res \<times> 's lived) option" where
  "start jc le env c w =
     (case io_bind (connect le c) (\<lambda>_. on_life (lf_running_update (\<lambda>_. True))) w of
        (Inl e, w') \<Rightarrow> Some (Inl e, w')
      | (Inr _, w') \<Rightarrow>
          map_option (\<lambda>(r, w''). io_finally (\<lambda>_. (r, w'')) (clean_up le c) w'') (consume_loop jc le env c w'))"

section \<open>Shutdown signals\<close>

text \<open>
  \<open>events/supervisor.py\<close>. The signal table of the event loop maps a signal to its handler.
  \<open>add_signal_handler\<close> replaces an entry, or raises \<open>RuntimeError\<close> (of which
  \<open>NotImplementedError\<close> is a subclass) where signals cannot be handled; \<open>remove_signal_handler\<close> removes
  the entry. The handler of the consumer starts a task that calls \<open>stop()\<close>.
\<close>

definition SHUTDOWN_SIGNALS :: "string list" where
  "SHUTDOWN_SIGNALS = [''SIGTERM'', ''SIGINT'']"

type_synonym 'h signals = "(string \<rightharpoonup> 'h)"

definition add_signal_handler :: "(string \<Rightarrow> bool) \<Rightarrow> 'h \<Rightarrow> string \<Rightarrow> ('h signals \<times> 's, unit) io" where
  "add_signal_handler supported h sig w =
     (if supported sig then (Inr (), ((fst w)(sig \<mapsto> h), snd w)) else (Inl (RuntimeError sig), w))"

definition remove_signal_handler :: "string \<Rightarrow> ('h signals \<times> 's, unit) io" where
  "remove_signal_handler sig w = (Inr (), ((fst w)(sig := None), snd w))"

fun install_handlers :: "(string \<Rightarrow> bool) \<Rightarrow> 'h \<Rightarrow> string list \<Rightarrow> ('h signals \<times> 's, string list) io" where
  "install_handlers supported h [] = io_return []"
| "install_handlers supported h (sig # sigs) =
     io_bind (io_except (\<lambda>e. case e of RuntimeError _ \<Rightarrow> True | _ \<Rightarrow> False)
                (io_bind (add_signal_handler supported h sig) (\<lambda>_. io_return [sig]))
                (\<lambda>_. io_return [])) (\<lambda>mine.
     io_bind (install_handlers supported h sigs) (\<lambda>others. io_return (mine @ others)))"

definition install_shutdown_handlers :: "(string \<Rightarrow> bool) \<Rightarrow> 'h \<Rightarrow> ('h signals \<times> 's, string list) io" where
  "install_shutdown_handlers supported h = install_handlers supported h SHUTDOWN_SIGNALS"

fun remove_shutdown_handlers :: "string list \<Rightarrow> ('h signals \<times> 's, unit) io" where
  "remove_shutdown_handlers [] = io_return ()"
| "remove_shutdown_handlers (sig # sigs) = io_bind (remove_signal_handler sig) (\<lambda>_. remove_shutdown_handlers sigs)"

definition supervised ::
  "(string \<Rightarrow> bool) \<Rightarrow> 'h \<Rightarrow> ('h signals \<times> 's, unit) io \<Rightarrow> ('h signals \<times> 's, unit) io \<Rightarrow> ('h signals \<times> 's, unit) io" where
  "supervised supported h begin_it stop_it =
     run_supervised_consumer None (io_return ()) (\<lambda>_. install_shutdown_handlers supported h) remove_shutdown_handlers
       (\<lambda>_. begin_it) (\<lambda>_. stop_it) None"

lemma install_handlers_run:
  "install_handlers supported h sigs (t, s) =
     (Inr (filter supported sigs), (\<lambda>x. if x \<in> set sigs \<and> supported x then Some h else t x, s))"
proof (induction sigs arbitrary: t)
  case (Cons sig sigs)
  then show ?case by (auto simp: add_signal_handler_def io_defs fun_eq_iff)
qed (simp add: io_return_def)

lemma remove_handlers_run:
  "remove_shutdown_handlers sigs (t, s) = (Inr (), (\<lambda>x. if x \<in> set sigs then None else t x, s))"
  by (induction sigs arbitrary: t) (auto simp: remove_signal_handler_def io_defs fun_eq_iff)

section \<open>Runs of a loop\<close>

text \<open>The world after \<open>n\<close> turns that all went on, each begun with the flag set.\<close>

fun turns :: "nat \<Rightarrow> ('s lived, bool) io \<Rightarrow> 's lived \<Rightarrow> 's lived option" where
  "turns 0 turn w = Some w"
| "turns (Suc n) turn w =
     (if \<not> is_running w then None
      else case turn w of (Inr True, w') \<Rightarrow> turns n turn w' | _ \<Rightarrow> None)"

lemma while_running_turns:
  "turns n turn w = Some w' \<Longrightarrow> while_running turn w = while_running turn w'"
proof (induction n arbitrary: w)
  case (Suc n)
  then obtain w1 where "is_running w" "turn w = (Inr True, w1)" "turns n turn w1 = Some w'"
    by (auto split: if_splits prod.splits sum.splits bool.splits)
  with Suc.IH [of w1] show ?case by (simp add: while_running.simps [of turn w])
qed simp

lemma while_running_stopped [simp]: "\<not> is_running w \<Longrightarrow> while_running turn w = Some (Inr (), w)"
  by (simp add: while_running.simps)

lemma while_running_raises:
  assumes "while_running turn w = Some (Inl e, w')" and "io_raises E turn"
  shows "E e"
proof -
  have "io_raises E turn \<longrightarrow> (\<forall>e. fst y = Inl e \<longrightarrow> E e)" if "while_running turn w = Some y" for y
    using that
    by (rule while_running.raw_induct [where P = "\<lambda>turn w y. io_raises E turn \<longrightarrow> (\<forall>e. fst y = Inl e \<longrightarrow> E e)", rotated])
      (auto split: if_splits prod.splits sum.splits dest: io_raisesD)
  with assms show ?thesis by fastforce
qed

text \<open>No \<open>Exception\<close> leaves a turn: the table turns it into a pause, a new connection or the end.\<close>

lemma consume_loop_action_escape: "consume_loop_action r e = Escape e' \<Longrightarrow> \<not> is_Exception e'"
  by (cases "(r, e)" rule: consume_loop_action.cases) (auto simp: is_Exception_def split: if_splits)

lemma claimer_loop_action_escape: "claimer_loop_action r n e = Escape e' \<Longrightarrow> \<not> is_Exception e'"
  by (cases e) (auto split: if_splits)

lemma io_raises_act:
  assumes "\<And>n. io_raises (\<lambda>e. \<not> is_Exception e) (le_sleep le n)" and "\<And>e. a = Escape e \<Longrightarrow> \<not> is_Exception e"
  shows "io_raises (\<lambda>e. \<not> is_Exception e) (act le c a)"
proof (cases a)
  case (ReconnectThenSleep n)
  have "io_raises (\<lambda>e. \<not> is_Exception e)
      (io_except is_Exception (io_bind (disconnect le) (\<lambda>_. connect le c)) (\<lambda>_. io_return ()))"
    by (rule io_raises_except) (simp_all add: io_raises_def io_return_def)
  with ReconnectThenSleep show ?thesis unfolding act_def by (auto intro!: io_rules assms(1))
qed (auto simp: act_def intro!: io_rules assms)

lemma io_raises_caught:
  assumes "\<And>e (w :: 's lived). io_raises E (act (le :: 's lived life_env) c (a (is_running w) e))"
  shows "io_raises E (io_except (\<lambda>_. True) m (\<lambda>e w. act le c (a (is_running w) e) w))"
proof -
  have "E e" if "fst (io_except (\<lambda>_. True) m (\<lambda>e w. act le c (a (is_running w) e) w) s) = Inl e" for s e
  proof -
    obtain r s' where "m s = (r, s')" by (rule prod.exhaust)
    with that have "\<exists>e'. fst (act le c (a (is_running s') e') s') = Inl e" by (cases r) (auto simp: io_except_def)
    with assms [of s'] show ?thesis unfolding io_raises_def by blast
  qed
  then show ?thesis by (simp add: io_raises_def)
qed

lemma io_raises_turns:
  assumes "\<And>n. io_raises (\<lambda>e. \<not> is_Exception e) (le_sleep le n)"
  shows "io_raises (\<lambda>e. \<not> is_Exception e) (consume_turn jc le env c)"
    and "io_raises (\<lambda>e. \<not> is_Exception e) (claimer_turn jc le env interval c)"
  unfolding consume_turn_def claimer_turn_def
  by (rule io_raises_caught, rule io_raises_act, rule assms,
      erule consume_loop_action_escape claimer_loop_action_escape)+

text \<open>A read that ends without messages while the flag is down ends the loop and has no other effect.\<close>

definition quiet :: "(string \<times> (string, string) dict) list res \<Rightarrow> bool" where
  "quiet r = (case r of
      Inr ms \<Rightarrow> ms = []
    | Inl e \<Rightarrow> (case e of RedisTimeoutError _ \<Rightarrow> True | RedisConnectionError _ \<Rightarrow> True | CancelledError \<Rightarrow> True | _ \<Rightarrow> False))"

lemma interrupted_read:
  assumes "is_running w" and "lf_redis (fst w)"
    and "be_xreadgroup env (co_group c) (co_name c) (co_stream c) (co_batch_size c) (co_block_ms c) w = (r, w')"
    and "quiet r" and "\<not> is_running w'"
  shows "while_running (consume_turn jc le env c) w = Some (Inr (), w')"
proof -
  obtain b where "consume_turn jc le env c w = (Inr b, w')"
    using assms by (auto simp: consume_turn_def live_read_def act_def quiet_def io_defs split: sum.splits exn.splits)
  then show ?thesis using assms(1,5) by (simp add: while_running.simps [of _ w])
qed

section \<open>Batches\<close>

text \<open>A pass whose awaits leave the attributes alone is the pass of theory \<open>Event_Consumer\<close>.\<close>

abbreviation attached :: "'s lived \<Rightarrow> bool" where
  "attached w \<equiv> lf_redis (fst w) \<and> lf_tools (fst w)"

lemma live_batch_uninterrupted:
  assumes "\<And>mid data. io_keeps attached (process_message jc env (c\<lparr>co_connected := True\<rparr>) mid data)"
    and "\<And>mid. io_keeps attached (be_xack env (co_stream c) (co_group c) mid)" and "attached w"
  shows "live_batch jc env c ms w = process_batch jc env (c\<lparr>co_connected := True\<rparr>) ms w"
  using assms(3)
proof (induction ms arbitrary: w)
  case (Cons m ms)
  obtain mid data where m: "m = (mid, data)" by (cases m)
  obtain r w1 where run: "process_message jc env (c\<lparr>co_connected := True\<rparr>) mid data w = (r, w1)" by (rule prod.exhaust)
  with io_keepsD [OF assms(1) Cons.prems, of mid data] have w1: "attached w1" by simp
  obtain r' w2 where ack: "be_xack env (co_stream c) (co_group c) mid w1 = (r', w2)" by (rule prod.exhaust)
  with io_keepsD [OF assms(2) w1, of mid] have w2: "attached w2" by simp
  show ?case using m run ack w1 Cons.prems Cons.IH [OF w1] Cons.IH [OF w2]
    by (auto simp: live_message_def io_bind_def io_return_def when_redis_def consumer_ack_def split: sum.splits prod.splits)
qed simp

lemma process_message_without_ack [simp]:
  "process_message jc (env\<lparr>be_xack := x\<rparr>) c mid data = process_message jc env c mid data"
proof -
  have "dlq_move jc (env\<lparr>be_xack := x\<rparr>) = dlq_move jc env"
    by (intro ext) (simp add: dlq_move_def)
  then have mv: "try_move jc (env\<lparr>be_xack := x\<rparr>) = try_move jc env"
    by (intro ext) (simp add: try_move_def)
  have str: "be_str (env\<lparr>be_xack := x\<rparr>) = be_str env" by simp
  have st: "retry_increment (env\<lparr>be_xack := x\<rparr>) = retry_increment env" "retry_clear (env\<lparr>be_xack := x\<rparr>) = retry_clear env"
    by (intro ext, simp add: retry_increment_def retry_clear_def)+
  have "handle_failure jc (env\<lparr>be_xack := x\<rparr>) = handle_failure jc env"
    by (intro ext) (simp only: handle_failure_def mv st str)
  with mv st show ?thesis by (simp only: process_message_def)
qed

lemma lift_res_Inr [simp]: "lift_res (Inr x) = io_return x"
  by (rule ext) (simp add: io_defs)

lemma process_message_keeps:
  assumes "\<And>a f n. io_keeps P (be_xadd env a f n)" and "\<And>k m n. io_keeps P (be_hincrby env k m n)"
    and "\<And>k m. io_keeps P (be_hdel env k m)" and "\<And>k n. io_keeps P (be_expire env k n)"
    and "co_checker c = None" and "\<And>t h ev. resolve_handler (co_handlers c) t = Inr (Some h) \<Longrightarrow> io_keeps P (h ev)"
  shows "io_keeps P (process_message jc env c mid data)"
proof -
  have "io_keeps P (dlq_move jc env st g n mid data reason)" for st g n reason
    using assms(1) by (auto simp: io_keeps_def dlq_move_def io_defs split: prod.splits sum.splits) (metis snd_conv)+
  then have mv: "io_keeps P (try_move jc env c mid data reason)" for reason
    unfolding try_move_def by (intro io_rules)
  have hf: "io_keeps P (handle_failure jc env c mid data e)" for e
    unfolding handle_failure_def Let_def retry_increment_def retry_clear_def
    by (intro io_rules assms mv)
  show ?thesis
  proof (cases "parse_message jc c mid data")
    case None
    then show ?thesis unfolding process_message_def by (auto intro!: io_rules mv)
  next
    case (Some ev)
    show ?thesis
    proof (cases "resolve_handler (co_handlers c) (ev_type ev)")
      case (Inr ho)
      show ?thesis
      proof (cases ho)
        case (Some h)
        with Inr have "io_keeps P (h ev)" by (intro assms(6)) simp
        with Some \<open>parse_message jc c mid data = Some ev\<close> Inr assms(3,5) hf show ?thesis
          by (simp add: process_message_def retry_clear_def) (auto intro!: io_rules split: option.split)
      qed (use \<open>parse_message jc c mid data = Some ev\<close> Inr assms(5) in
          \<open>simp add: process_message_def io_keeps_return\<close>)
    qed (use Some assms(5) in \<open>simp add: process_message_def io_keeps_def io_defs\<close>)
  qed
qed

lemma live_batch_detached:
  assumes "\<And>b mid data. io_keeps (\<lambda>w. \<not> lf_redis (fst w)) (process_message jc env (c\<lparr>co_connected := b\<rparr>) mid data)"
    and "\<not> lf_redis (fst w)"
  shows "live_batch jc (env\<lparr>be_xack := x\<rparr>) c ms w = live_batch jc env c ms w"
  using assms(2)
proof (induction ms arbitrary: w)
  case (Cons m ms)
  obtain mid data where m: "m = (mid, data)" by (rule prod.exhaust)
  obtain r w1 where run: "process_message jc env (c\<lparr>co_connected := lf_tools (fst w)\<rparr>) mid data w = (r, w1)"
    by (rule prod.exhaust)
  with io_keepsD [OF assms(1) Cons.prems, of "lf_tools (fst w)" mid data] have "\<not> lf_redis (fst w1)" by simp
  with m run Cons.IH [OF this] show ?case
    by (cases r) (auto simp: live_message_def io_bind_def io_return_def when_redis_def split: prod.splits)
qed simp

section \<open>The end of \<open>start\<close>\<close>

lemma io_keeps_when_redis [io_rules]: "io_keeps P m \<Longrightarrow> io_keeps P (when_redis m)"
  by (simp add: io_keeps_def when_redis_def io_return_def)

lemma io_keeps_on_life: "(\<And>l s. P (l, s) \<Longrightarrow> P (f l, s)) \<Longrightarrow> io_keeps P (on_life f)"
  by (simp add: io_keeps_def on_life_def)

text \<open>The effects that \<open>start\<close> still has after the loop leave an attribute down: only \<open>start\<close> and \<open>connect\<close> raise it.\<close>

definition tail_keeps :: "('s lived \<Rightarrow> bool) \<Rightarrow> 's lived life_env \<Rightarrow> bool" where
  "tail_keeps P le =
     ((\<forall>n. io_keeps P (le_new_client le n)) \<and> io_keeps P (le_close le) \<and> io_keeps P (le_close_own le)
      \<and> (\<forall>n. io_keeps P (le_delconsumer le n)) \<and> io_keeps P (le_xpending_count le) \<and> io_keeps P (le_join_claimer le))"

lemma deregister_keeps: "tail_keeps P le \<Longrightarrow> io_keeps P (deregister le c)"
  unfolding deregister_def deregister_consumer_def new_client_def tail_keeps_def
  by (auto intro!: io_rules)

lemma disconnect_keeps:
  "tail_keeps P le \<Longrightarrow> (\<And>l s. P (l, s) \<Longrightarrow> P (l\<lparr>lf_redis := False\<rparr>, s)) \<Longrightarrow> io_keeps P (disconnect le)"
  unfolding disconnect_def tail_keeps_def by (auto intro!: io_rules io_keeps_on_life)

lemma disconnect_clears: "disconnect le w = (Inr (), w') \<Longrightarrow> \<not> lf_redis (fst w')"
  by (auto simp: disconnect_def when_redis_def on_life_def io_defs split: if_splits prod.splits sum.splits)

lemma clean_up_stops:
  assumes "tail_keeps (\<lambda>w. \<not> is_running w) le"
  shows "\<not> is_running (snd (clean_up le c w))"
proof -
  let ?P = "\<lambda>w. \<not> is_running w"
  have "io_keeps ?P (io_bind (io_except (\<lambda>e. e = CancelledError) (le_join_claimer le) (\<lambda>_. io_return ())) (\<lambda>_.
     io_bind (disconnect le) (\<lambda>_. deregister le c)))"
    using assms
    by (auto intro!: io_rules disconnect_keeps deregister_keeps simp: tail_keeps_def is_running_def)
  from io_keepsD [OF this, of "((fst w)\<lparr>lf_running := False\<rparr>, snd w)"] show ?thesis
    by (simp add: clean_up_def io_bind_def on_life_def is_running_def)
qed

lemma clean_up_disconnects:
  assumes "tail_keeps (\<lambda>w. \<not> lf_redis (fst w)) le" and "clean_up le c w = (Inr (), w')"
  shows "\<not> lf_redis (fst w')"
proof -
  obtain w1 w2 where "disconnect le w1 = (Inr (), w2)" "deregister le c w2 = (Inr (), w')"
    using assms(2) unfolding clean_up_def by (auto elim!: io_bind_InrE)
  with io_keepsD [OF deregister_keeps [OF assms(1)] disconnect_clears] show ?thesis by (metis snd_conv)
qed

section \<open>A world for the witnesses\<close>

text \<open>The state: the ids the handler was called with, and the ids acknowledged.\<close>

type_synonym life_demo = "(string list \<times> string list) lived"

definition demo_life_env :: "life_demo life_env" where
  "demo_life_env =
     \<lparr>le_new_client = (\<lambda>n. io_return ()), le_close = io_return (), le_close_own = io_return (),
      le_xgroup_create = io_return (), le_xinfo_consumers = io_return [], le_delconsumer = (\<lambda>n. io_return ()),
      le_xpending_count = io_return 0, le_sleep = (\<lambda>n. io_return ()), le_join_claimer = io_return ()\<rparr>"

text \<open>A bus whose read is ended by \<open>stop()\<close> from the signal handler.\<close>

definition demo_life_bus :: "life_demo bus_env" where
  "demo_life_bus =
     \<lparr>be_xadd = (\<lambda>st f n. io_return ''1-0''), be_uuid = io_return ''u1'',
      be_now_iso = (\<lambda>s. []), be_time_str = (\<lambda>s. []), be_str = (\<lambda>e. []),
      be_hincrby = (\<lambda>k f n. io_return 1), be_hget = (\<lambda>k f. io_return None),
      be_hdel = (\<lambda>k f. io_return ()), be_expire = (\<lambda>k n. io_return ()),
      be_xack = (\<lambda>st g m w. (Inr (), (fst w, fst (snd w), m # snd (snd w)))),
      be_xreadgroup = (\<lambda>g c st n b w. (Inl (RedisConnectionError ''closed''),
         ((fst w)\<lparr>lf_running := False, lf_redis := False\<rparr>, snd w))),
      be_xautoclaim = (\<lambda>g c st n b. io_return [])\<rparr>"

definition demo_life_consumer :: "life_demo consumer" where
  "demo_life_consumer =
     \<lparr>co_stream = ''bus'', co_group = ''g'', co_name = ''w1'', co_batch_size = 10, co_block_ms = 5000,
      co_policy = \<lparr>rp_max_retries = 3, rp_backoff_base = 2, rp_max_backoff = 30\<rparr>, co_checker = None,
      co_payload_mode = False, co_claim_min_idle_ms = 30000, co_claim_count = 1000, co_zombie_idle_ms = 86400000,
      co_handlers = [(''lead.created'', \<lambda>ev w. (Inr (), (fst w, ev_raw_message_id ev # fst (snd w), snd (snd w))))],
      co_connected = True\<rparr>"

abbreviation up :: life where
  "up \<equiv> \<lparr>lf_redis = True, lf_tools = True, lf_running = True\<rparr>"

abbreviation stopping :: life where
  "stopping \<equiv> \<lparr>lf_redis = False, lf_tools = True, lf_running = False\<rparr>"

lemma demo_message_run:
  "process_message empty_codec demo_life_bus (demo_life_consumer\<lparr>co_connected := b\<rparr>) ''1-0'' demo_message w =
     (Inr (True, True), (fst w, ''1-0'' # fst (snd w), snd (snd w)))"
proof -
  have "parse_message empty_codec (demo_life_consumer\<lparr>co_connected := b\<rparr>) ''1-0'' demo_message =
     Some \<lparr>ev_id = JStr ''e1'', ev_type = JStr ''lead.created'', ev_version = JStr ''1.0'', ev_tenant_id = JStr [],
       ev_timestamp = JStr [], ev_source_service = JStr [], ev_actor_id = JNull, ev_data = JDict [],
       ev_metadata = JDict [], ev_raw_message_id = ''1-0''\<rparr>"
    using demo_parse [of "demo_life_consumer\<lparr>co_connected := b\<rparr>"] by (simp add: demo_life_consumer_def)
  then show ?thesis
    by (simp add: process_message_def demo_life_consumer_def resolve_handler_def demo_life_bus_def retry_clear_def io_defs)
qed

section \<open>Properties\<close>

text \<open>
  C26: the consumer outlives every failure and ends when it is told to. Whatever Redis, the handlers and
  the connection raise, no \<open>Exception\<close> leaves the consume loop or the claimer loop; and after any number
  of turns, a read that \<open>stop()\<close> ends (by a closed connection, a time-out or nothing to read) ends the
  consume loop at once, with no reconnection, no pause and no other effect.
\<close>

theorem loops_survive_and_stop:
  assumes "\<And>n. io_raises (\<lambda>e. \<not> is_Exception e) (le_sleep le n)"
  shows "(\<forall>w e w'. consume_loop jc le env c w = Some (Inl e, w') \<longrightarrow> \<not> is_Exception e)
    \<and> (\<forall>w e w'. claimer_loop jc le env interval c w = Some (Inl e, w') \<longrightarrow> \<not> is_Exception e)
    \<and> (\<forall>n w w1 r w'. lf_redis (fst w) \<and> turns n (consume_turn jc le env c) w = Some w1
        \<and> is_running w1 \<and> lf_redis (fst w1)
        \<and> be_xreadgroup env (co_group c) (co_name c) (co_stream c) (co_batch_size c) (co_block_ms c) w1 = (r, w')
        \<and> quiet r \<and> \<not> is_running w' \<longrightarrow> consume_loop jc le env c w = Some (Inr (), w'))"
proof (intro conjI allI impI)
  fix w e w' assume "consume_loop jc le env c w = Some (Inl e, w')"
  then have "while_running (consume_turn jc le env c) w = Some (Inl e, w')"
    by (auto simp: consume_loop_def split: if_splits)
  from while_running_raises [OF this io_raises_turns(1) [OF assms]] show "\<not> is_Exception e" .
next
  fix w e w' assume "claimer_loop jc le env interval c w = Some (Inl e, w')"
  from while_running_raises [OF this [unfolded claimer_loop_def] io_raises_turns(2) [OF assms]]
  show "\<not> is_Exception e" .
next
  fix n w w1 r w'
  assume a: "lf_redis (fst w) \<and> turns n (consume_turn jc le env c) w = Some w1 \<and> is_running w1 \<and> lf_redis (fst w1)
        \<and> be_xreadgroup env (co_group c) (co_name c) (co_stream c) (co_batch_size c) (co_block_ms c) w1 = (r, w')
        \<and> quiet r \<and> \<not> is_running w'"
  then have "while_running (consume_turn jc le env c) w1 = Some (Inr (), w')"
    by (intro interrupted_read [of w1]) auto
  with a show "consume_loop jc le env c w = Some (Inr (), w')"
    using while_running_turns [of n "consume_turn jc le env c" w w1] by (simp add: consume_loop_def)
qed

theorem loops_survive_and_stop_witness:
  "consume_loop empty_codec demo_life_env demo_life_bus demo_life_consumer (up, [], []) =
     Some (Inr (), (stopping, [], []))"
proof -
  have "io_raises (\<lambda>e. \<not> is_Exception e) (le_sleep demo_life_env n)" for n
    by (simp add: demo_life_env_def io_raises_def io_defs)
  from conjunct2 [OF conjunct2 [OF loops_survive_and_stop [OF this]], rule_format,
      of "(up, [], [])" 0 empty_codec demo_life_bus demo_life_consumer "(up, [], [])"
        "Inl (RedisConnectionError ''closed'')" "(stopping, [], [])"]
  show ?thesis by (simp add: is_running_def quiet_def demo_life_bus_def)
qed

text \<open>
  Messages that are handled after \<open>stop()\<close> are not acknowledged. \<open>stop()\<close> drops the client while the
  loop is inside a batch; the loop goes on with the rest of the batch, runs the handlers, and sends no
  \<open>XACK\<close> for any of them, so every one of them is delivered again after the restart.
\<close>

theorem stop_mid_batch_redelivers:
  assumes "\<And>b mid data. io_keeps (\<lambda>w. \<not> lf_redis (fst w)) (process_message jc env (c\<lparr>co_connected := b\<rparr>) mid data)"
    and "stop le w0 = (Inr (), w)"
  shows "live_batch jc (env\<lparr>be_xack := x\<rparr>) c ms w = live_batch jc env c ms w"
proof (rule live_batch_detached)
  show "io_keeps (\<lambda>w. \<not> lf_redis (fst w)) (process_message jc env (c\<lparr>co_connected := b\<rparr>) mid data)" for b mid data
    by (rule assms(1))
  from assms(2) show "\<not> lf_redis (fst w)"
    unfolding stop_def by (auto elim!: io_bind_InrE dest: disconnect_clears)
qed

theorem stop_mid_batch_redelivers_witness:
  "stop demo_life_env (up, [], []) = (Inr (), (stopping, [], []))
   \<and> live_batch empty_codec (demo_life_bus\<lparr>be_xack := (\<lambda>st g m. io_raise CancelledError)\<rparr>) demo_life_consumer
       [(''1-0'', demo_message)] (stopping, [], []) = (Inr (), (stopping, [''1-0''], []))"
proof -
  let ?P = "\<lambda>w :: life_demo. \<not> lf_redis (fst w)"
  have "io_keeps ?P (process_message empty_codec demo_life_bus (demo_life_consumer\<lparr>co_connected := b\<rparr>) mid data)"
    for b mid data
    by (rule process_message_keeps)
      (auto simp: demo_life_bus_def demo_life_consumer_def resolve_handler_def io_keeps_def io_defs
        split: json.splits if_splits option.splits)
  moreover have "stop demo_life_env (up, [], []) = (Inr (), (stopping, [], []))"
    by (simp add: stop_def disconnect_def when_redis_def on_life_def demo_life_env_def io_defs)
  moreover from calculation(1,2) have "live_batch empty_codec (demo_life_bus\<lparr>be_xack := (\<lambda>st g m. io_raise CancelledError)\<rparr>)
      demo_life_consumer [(''1-0'', demo_message)] (stopping, [], []) =
      live_batch empty_codec demo_life_bus demo_life_consumer [(''1-0'', demo_message)] (stopping, [], [])"
    by (rule stop_mid_batch_redelivers)
  moreover have "live_batch empty_codec demo_life_bus demo_life_consumer [(''1-0'', demo_message)] (stopping, [], []) =
      (Inr (), (stopping, [''1-0''], []))"
    by (simp add: live_message_def demo_message_run when_redis_def io_defs)
  ultimately show ?thesis by (simp only: simp_thms)
qed

text \<open>
  \<open>start()\<close> leaves the object stopped. Once the connection was made, however the loop ends, \<open>start\<close> returns
  with the flag cleared, and if it returns normally the shared client is closed and dropped. A
  \<open>connect\<close> that fails is not followed by a disconnection.
\<close>

theorem start_leaves_stopped:
  assumes "start jc le env c w = Some (r, w')" and "connect le c w = (Inr (), w1)"
    and "tail_keeps (\<lambda>w. \<not> is_running w) le" and "tail_keeps (\<lambda>w. \<not> lf_redis (fst w)) le"
  shows "\<not> is_running w' \<and> (r = Inr () \<longrightarrow> \<not> lf_redis (fst w'))"
proof -
  obtain y where y: "(case y of (r2, w2) \<Rightarrow> io_finally (\<lambda>_. (r2, w2)) (clean_up le c) w2) = (r, w')"
    using assms(1,2) by (auto simp: start_def io_bind_def on_life_def)
  obtain r2 w2 where "y = (r2, w2)" by (rule prod.exhaust)
  with y have fin: "(r, w') = io_finally (\<lambda>_. (r2, w2)) (clean_up le c) w2" by simp
  obtain r3 w3 where cu: "clean_up le c w2 = (r3, w3)" by (rule prod.exhaust)
  with fin have "w' = w3" "r = Inr () \<Longrightarrow> r3 = Inr ()" by (auto simp: io_finally_def split: sum.splits)
  then show ?thesis
    using clean_up_stops [OF assms(3), of c w2] clean_up_disconnects [OF assms(4), of c w2 w3] cu by auto
qed

theorem start_leaves_stopped_witness:
  "start empty_codec demo_life_env demo_life_bus demo_life_consumer (new_life, [], []) = Some (Inr (), (stopping, [], []))
   \<and> \<not> is_running (stopping, [], []) \<and> \<not> lf_redis (fst (stopping, [], []))"
proof -
  have keeps: "tail_keeps P demo_life_env" for P
    by (simp add: tail_keeps_def demo_life_env_def io_keeps_def io_defs)
  have conn: "connect demo_life_env demo_life_consumer (new_life, [], []) =
      (Inr (), (\<lparr>lf_redis = True, lf_tools = True, lf_running = False\<rparr>, [], []))"
    by (simp add: connect_def new_client_def when_redis_def on_life_def demo_life_env_def new_life_def
        ensure_consumer_group_def sweep_zombie_consumers_def sweep_targets_def io_defs)
  have loop: "consume_loop empty_codec demo_life_env demo_life_bus demo_life_consumer (up, [], []) =
     Some (Inr (), (stopping, [], []))"
    by (simp add: consume_loop_def interrupted_read [where r = "Inl (RedisConnectionError ''closed'')"]
        is_running_def quiet_def demo_life_bus_def)
  have cu: "clean_up demo_life_env demo_life_consumer (stopping, [], []) = (Inr (), (stopping, [], []))"
    by (simp add: clean_up_def disconnect_def deregister_def deregister_consumer_def new_client_def when_redis_def
        on_life_def demo_life_env_def io_defs)
  have run: "start empty_codec demo_life_env demo_life_bus demo_life_consumer (new_life, [], []) = Some (Inr (), (stopping, [], []))"
    using conn loop cu by (simp add: start_def io_bind_def on_life_def io_finally_def)
  then show ?thesis using start_leaves_stopped [OF run conn keeps keeps] by (simp add: is_running_def)
qed

text \<open>
  A supervised run that leaves the signal table alone ends without the handlers it installed, however the consumer
  ends; and a handler that another part of the program had for \<open>SIGTERM\<close> or \<open>SIGINT\<close> is gone too: the
  table is not put back the way it was found.
\<close>

theorem signal_table_after_run:
  assumes "\<And>w. fst (snd (begin_it w)) = fst w" and "\<And>w. fst (stop_it w) = Inr () \<and> fst (snd (stop_it w)) = fst w"
  shows "fst (snd (supervised supported h begin_it stop_it (t, s))) =
     (\<lambda>x. if x \<in> set SHUTDOWN_SIGNALS \<and> supported x then None else t x)"
proof -
  let ?t = "\<lambda>x. if x \<in> set SHUTDOWN_SIGNALS \<and> supported x then Some h else t x"
  let ?u = "\<lambda>x. if x \<in> set SHUTDOWN_SIGNALS \<and> supported x then None else t x"
  obtain r w1 where run: "begin_it (?t, s) = (r, w1)" by (rule prod.exhaust)
  obtain r' w2 where stp: "stop_it w1 = (r', w2)" by (rule prod.exhaust)
  have w2: "w2 = (?t, snd w2)" and r': "r' = Inr ()"
    using assms(1) [of "(?t, s)"] assms(2) [of w1] run stp by (simp_all add: prod_eq_iff)
  have inst: "install_shutdown_handlers supported h (t, s) = (Inr (filter supported SHUTDOWN_SIGNALS), (?t, s))"
    by (simp only: install_shutdown_handlers_def install_handlers_run)
  have "remove_shutdown_handlers (filter supported SHUTDOWN_SIGNALS) (?t, snd w2) = (Inr (), (?u, snd w2))"
    by (simp add: remove_handlers_run fun_eq_iff)
  then have rem: "remove_shutdown_handlers (filter supported SHUTDOWN_SIGNALS) w2 = (Inr (), (?u, snd w2))"
    using w2 by simp
  show ?thesis
    by (simp add: supervised_def run_supervised_consumer_def io_finally_def io_bind_def io_return_def inst run stp r' rem
        split: sum.split)
qed

theorem signal_table_after_run_witness:
  "fst (snd (supervised (\<lambda>_. True) (1 :: nat) (\<lambda>w. (Inl CancelledError, w)) (io_return ()) ([''SIGTERM'' \<mapsto> 7], ''s'')))
     ''SIGTERM'' = None"
  using signal_table_after_run [of "\<lambda>w. (Inl CancelledError, w)" "io_return ()" "\<lambda>_. True" "1 :: nat" "[''SIGTERM'' \<mapsto> 7]" "''s''"]
  by (simp add: io_return_def SHUTDOWN_SIGNALS_def)

end
