(* ===== verification/Redis_Connection.thy ===== *)
theory Redis_Connection
  imports Consumer_Lifecycle
begin

text \<open>
  \<open>redis/connection.py\<close>: the guards of \<open>ProxySafeConnection\<close> over the two hooks of redis-py, and the keep-alive
  options. The state of the socket is read from the world, because the peer may reset it during any
  await: whether the writer and the reader exist, whether the transport is closing, and whether the
  reader holds an exception.
\<close>

record sock =
  sk_writer :: bool
  sk_reader :: bool
  sk_closing :: bool
  sk_reader_exception :: bool

section \<open>Connection\<close>

definition proxy_safe_init :: "int option \<Rightarrow> 'c res \<Rightarrow> 'c res" where
  "proxy_safe_init socket_timeout base_init =
     (if socket_timeout = None \<or> socket_timeout = Some 0
      then Inl (ValueError ''ProxySafeConnection requires a positive socket_timeout'') else base_init)"

definition can_read_destructive :: "('w \<Rightarrow> sock) \<Rightarrow> ('w, bool) io \<Rightarrow> ('w, bool) io" where
  "can_read_destructive sock_of base w =
     (let k = sock_of w in
      if sk_writer k \<and> sk_reader k \<and> (sk_closing k \<or> sk_reader_exception k)
      then io_raise (RedisConnectionError ''Connection closed by peer while idle'') w
      else base w)"

definition send_packed_command :: "('w \<Rightarrow> sock) \<Rightarrow> ('w, unit) io \<Rightarrow> ('w, unit) io" where
  "send_packed_command sock_of write w =
     (if \<not> sk_writer (sock_of w) \<or> sk_closing (sock_of w)
      then io_raise (RedisConnectionError ''Connection closed by the server before write'') w
      else io_except (\<lambda>e. case e of TypeError _ \<Rightarrow> True | AttributeError _ \<Rightarrow> True | _ \<Rightarrow> False) write
             (\<lambda>e w'. if sk_closing (sock_of w')
                     then io_raise (RedisConnectionError ''Connection closed by the server while writing'') w'
                     else io_raise e w') w)"

text \<open>The classes that the pool's \<open>Retry\<close> and \<open>retry_on_error\<close> name.\<close>

definition pool_retries :: "exn \<Rightarrow> bool" where
  "pool_retries e =
     (is_OSError e \<or> (case e of RedisConnectionError _ \<Rightarrow> True | RedisTimeoutError _ \<Rightarrow> True | _ \<Rightarrow> False))"

section \<open>Keep-alive\<close>

definition KEEPALIVE_IDLE_S :: int where "KEEPALIVE_IDLE_S = 60"

definition KEEPALIVE_INTERVAL_S :: int where "KEEPALIVE_INTERVAL_S = 10"

definition KEEPALIVE_COUNT :: int where "KEEPALIVE_COUNT = 3"

text \<open>\<open>platform\<close> gives the number of an option where the platform defines it.\<close>

definition keepalive_options :: "(string \<Rightarrow> int option) \<Rightarrow> (int, int) dict" where
  "keepalive_options platform =
     foldl (\<lambda>d (name, value). case platform name of Some option \<Rightarrow> dict_set option value d | None \<Rightarrow> d) []
       [(''TCP_KEEPIDLE'', KEEPALIVE_IDLE_S), (''TCP_KEEPINTVL'', KEEPALIVE_INTERVAL_S), (''TCP_KEEPCNT'', KEEPALIVE_COUNT)]"

lemma keepalive_options_defined:
  "dict_get (keepalive_options platform) opt \<noteq> None \<Longrightarrow> \<exists>name. platform name = Some opt"
  by (auto simp: keepalive_options_def split: option.splits if_splits)

section \<open>The socket timeout of a consumer\<close>

text \<open>A blocking read of a consumer ends before its socket times out.\<close>

lemma read_outlasts_block:
  assumes "0 \<le> co_block_ms c"
  shows "0 < co_block_ms c div 1000 + CONSUMER_READ_MARGIN_SECONDS
    \<and> co_block_ms c < 1000 * (co_block_ms c div 1000 + CONSUMER_READ_MARGIN_SECONDS)"
proof -
  define q m where "q = co_block_ms c div 1000" and "m = co_block_ms c mod 1000"
  then have "1000 * q + m = co_block_ms c" "m < 1000" "0 \<le> q" using assms by simp_all
  then have "0 < q + 5 \<and> co_block_ms c < 1000 * (q + 5)" by simp
  then show ?thesis by (simp add: q_def CONSUMER_READ_MARGIN_SECONDS_def)
qed

section \<open>Properties\<close>

text \<open>
  A reset by the proxy is always seen as an error that the pool retries. On a connection that the
  peer has reset, the check at checkout and the write raise redis's \<open>ConnectionError\<close> with nothing sent; and when the
  reset comes during the write, the \<open>TypeError\<close> or \<open>AttributeError\<close> it causes is turned into one: such an error
  leaves a write only if the transport is open.
\<close>

theorem reset_is_retried:
  "(sk_closing (sock_of w) \<longrightarrow>
      (\<exists>e. send_packed_command sock_of write w = (Inl e, w) \<and> pool_retries e))
   \<and> (sk_writer (sock_of w) \<and> sk_reader (sock_of w) \<and> (sk_closing (sock_of w) \<or> sk_reader_exception (sock_of w)) \<longrightarrow>
      (\<exists>e. can_read_destructive sock_of base w = (Inl e, w) \<and> pool_retries e))
   \<and> (\<forall>w' m. send_packed_command sock_of write w = (Inl (TypeError m), w')
        \<or> send_packed_command sock_of write w = (Inl (AttributeError m), w') \<longrightarrow> \<not> sk_closing (sock_of w'))"
  by (auto simp: send_packed_command_def can_read_destructive_def pool_retries_def Let_def io_defs
      split: if_splits prod.splits sum.splits exn.splits)

theorem reset_is_retried_witness:
  "\<exists>e. send_packed_command (\<lambda>k. k) (io_raise (TypeError ''None''))
       \<lparr>sk_writer = True, sk_reader = True, sk_closing = True, sk_reader_exception = False\<rparr> =
     (Inl e, \<lparr>sk_writer = True, sk_reader = True, sk_closing = True, sk_reader_exception = False\<rparr>) \<and> pool_retries e"
  using conjunct1 [OF reset_is_retried [of "\<lambda>k. k"
      "\<lparr>sk_writer = True, sk_reader = True, sk_closing = True, sk_reader_exception = False\<rparr>" "io_raise (TypeError ''None'')"]]
  by simp

end
