(* ===== verification/Monitoring_Setup.thy ===== *)
theory Monitoring_Setup
  imports Monitoring
begin

text \<open>
  \<open>monitoring/setup.py\<close>, \<open>tracing.py\<close>, \<open>prometheus_endpoint.py\<close>, \<open>instruments.py\<close>, the adapters behind the provider
  factory, the listeners of \<open>db_instrumentation.py\<close> and the registration guard of
  \<open>celery_instrumentation.py\<close>. The objects of OpenTelemetry, prometheus_client and \<open>logging\<close> are not
  modelled; what is done with them is: setting up monitoring is an effect on the list of the actions
  taken, and binding the port of the metrics server is an argument.
\<close>

section \<open>Adapters\<close>

datatype log_handler = LokiHandlerOf string "(string, string) dict" int time | NullHandler

text \<open>Whether the adapter has a metric reader, and the endpoint of the exporter of a trace adapter.\<close>

fun create_metric_reader :: "provider \<Rightarrow> bool" where
  "create_metric_reader PrometheusMetrics = True"
| "create_metric_reader _ = False"

fun create_span_exporter :: "provider \<Rightarrow> string option" where
  "create_span_exporter (OtlpTrace endpoint) = (if endpoint = [] then None else Some endpoint)"
| "create_span_exporter _ = None"

fun create_handler :: "provider \<Rightarrow> string \<Rightarrow> (string, string) dict \<Rightarrow> log_handler" where
  "create_handler (LokiLog url batch_size flush_interval) service_name labels =
     LokiHandlerOf url (dict_merge [(''service'', service_name)] labels) batch_size flush_interval"
| "create_handler _ service_name labels = NullHandler"

section \<open>The metrics server\<close>

datatype bind_result = Bound | AddrInUse | BindFailed exn

definition start_prometheus_http_server :: "(int \<Rightarrow> bind_result) \<Rightarrow> int \<Rightarrow> bool res" where
  "start_prometheus_http_server bind port =
     (case bind port of Bound \<Rightarrow> Inr True | AddrInUse \<Rightarrow> Inr False | BindFailed e \<Rightarrow> Inl e)"

fun start_server :: "(int \<Rightarrow> bind_result) \<Rightarrow> provider \<Rightarrow> int \<Rightarrow> bool res" where
  "start_server bind PrometheusMetrics port = (if port \<le> 0 then Inr False else start_prometheus_http_server bind port)"
| "start_server bind _ port = Inr False"

section \<open>Instruments\<close>

record instrument_set =
  is_request_counter :: string
  is_request_duration :: string
  is_error_counter :: string
  is_active_requests :: string

definition create_instruments :: instrument_set where
  "create_instruments =
     \<lparr>is_request_counter = ''http_server_requests'', is_request_duration = ''http_server_request_duration_seconds'',
      is_error_counter = ''http_server_errors'', is_active_requests = ''http_server_active_requests''\<rparr>"

section \<open>Set-up\<close>

datatype setup_action =
    SetMeterProvider string bool
  | AddMetricsMiddleware string instrument_set "string list option" "(string \<Rightarrow> string option) option"
  | ServerStarted int
  | SetTracerProvider string "string option"
  | AddLogHandler log_handler int

type_synonym 'a configuring = "(setup_action list, 'a) io"

definition take_action :: "setup_action \<Rightarrow> unit configuring" where
  "take_action a acts = (Inr (), acts @ [a])"

definition setup_tracing :: "string \<Rightarrow> string \<Rightarrow> string option \<Rightarrow> unit configuring" where
  "setup_tracing service_name otlp_endpoint span_exporter =
     take_action (SetTracerProvider service_name
       (case span_exporter of Some e \<Rightarrow> Some e
        | None \<Rightarrow> if otlp_endpoint \<noteq> [] then Some otlp_endpoint else None))"

record monitoring_args =
  mo_service_name :: string
  mo_prometheus_port :: int
  mo_enable_tracing :: bool
  mo_otlp_endpoint :: string
  mo_excluded_paths :: "string list option"
  mo_business_domain_classifier :: "(string \<Rightarrow> string option) option"
  mo_loki_url :: string
  mo_environment :: string
  mo_metrics_provider :: string
  mo_log_provider :: string
  mo_trace_provider :: string

definition setup_server :: "(int \<Rightarrow> bind_result) \<Rightarrow> provider \<Rightarrow> monitoring_args \<Rightarrow> unit configuring" where
  "setup_server bind adapter a =
     (if mo_prometheus_port a > 0
      then io_bind (lift_res (start_server bind adapter (mo_prometheus_port a))) (\<lambda>started.
             if started then take_action (ServerStarted (mo_prometheus_port a)) else io_return ())
      else io_return ())"

definition setup_traces :: "monitoring_args \<Rightarrow> unit configuring" where
  "setup_traces a =
     (if mo_enable_tracing a
      then io_bind (lift_res (create_trace_provider (mo_trace_provider a) (mo_otlp_endpoint a))) (\<lambda>adapter.
             setup_tracing (mo_service_name a) (mo_otlp_endpoint a) (create_span_exporter adapter))
      else io_return ())"

definition INFO :: int where "INFO = 20"

definition setup_logs :: "monitoring_args \<Rightarrow> unit configuring" where
  "setup_logs a =
     (if mo_loki_url a \<noteq> []
      then io_bind (lift_res (create_log_provider (mo_log_provider a) (mo_loki_url a) 100 5)) (\<lambda>adapter.
             take_action (AddLogHandler (create_handler adapter (mo_service_name a)
               (if mo_environment a \<noteq> [] then [(''environment'', mo_environment a)] else [])) INFO))
      else io_return ())"

definition setup_monitoring :: "(int \<Rightarrow> bind_result) \<Rightarrow> monitoring_args \<Rightarrow> unit configuring" where
  "setup_monitoring bind a =
     io_bind (lift_res (create_metrics_provider (mo_metrics_provider a))) (\<lambda>adapter.
     io_bind (take_action (SetMeterProvider (mo_service_name a) (create_metric_reader adapter))) (\<lambda>_.
     io_bind (take_action (AddMetricsMiddleware (mo_service_name a) create_instruments (mo_excluded_paths a) (mo_business_domain_classifier a))) (\<lambda>_.
     io_bind (setup_server bind adapter a) (\<lambda>_.
     io_bind (setup_traces a) (\<lambda>_.
     setup_logs a)))))"

section \<open>Query timing\<close>

text \<open>The execution context of a statement, and what the two instruments received.\<close>

record query_metrics =
  qm_durations :: "(time \<times> (string, string) dict) list"
  qm_operations :: "(string, string) dict list"

definition query_labels :: "string option \<Rightarrow> (string, string) dict" where
  "query_labels statement = [(''db.system'', ''postgresql''), (''db.operation'', extract_operation_type statement)]"

definition before_cursor_execute :: "time \<Rightarrow> time option \<Rightarrow> time option" where
  "before_cursor_execute now started = Some now"

definition after_cursor_execute :: "time \<Rightarrow> string option \<Rightarrow> time option \<Rightarrow> query_metrics \<Rightarrow> query_metrics" where
  "after_cursor_execute now statement started q =
     (case started of
        None \<Rightarrow> q
      | Some t \<Rightarrow> q\<lparr>qm_durations := qm_durations q @ [(now - t, query_labels statement)],
                   qm_operations := qm_operations q @ [query_labels statement]\<rparr>)"

section \<open>Celery registration\<close>

text \<open>The module flag and the number of times the signal handlers were connected.\<close>

definition setup_celery_instrumentation :: "bool \<times> nat \<Rightarrow> bool \<times> nat" where
  "setup_celery_instrumentation s = (if fst s then s else (True, snd s + 1))"

section \<open>Lemmas\<close>

lemma extract_operation_type_bounded:
  "extract_operation_type statement \<in> set (VALID_OPERATIONS @ [''OTHER'', ''UNKNOWN''])"
  by (auto simp: extract_operation_type_def Let_def split: option.splits)

text \<open>Connecting the handlers again has no effect.\<close>

lemma celery_handlers_connected_once:
  "(setup_celery_instrumentation ^^ Suc n) (False, 0) = (True, 1)"
  by (induction n) (simp_all add: setup_celery_instrumentation_def)

lemma timed_query:
  "after_cursor_execute t' statement (before_cursor_execute t started) q =
     q\<lparr>qm_durations := qm_durations q @ [(t' - t, query_labels statement)],
       qm_operations := qm_operations q @ [query_labels statement]\<rparr>"
  by (simp add: after_cursor_execute_def before_cursor_execute_def)

lemma setup_traces_effect:
  assumes "mo_enable_tracing a" and "lower (mo_trace_provider a) \<in> {''otlp'', ''noop''}"
  shows "setup_traces a acts =
     (Inr (), acts @ [SetTracerProvider (mo_service_name a) (if mo_otlp_endpoint a = [] then None else Some (mo_otlp_endpoint a))])"
  using assms
  by (auto simp: setup_traces_def create_trace_provider_def setup_tracing_def take_action_def io_defs)

section \<open>Properties\<close>

text \<open>
  What one call of \<open>setup_monitoring\<close> does, when the providers are known and the port is not refused: the
  meter provider and the middleware always, the server when a port is asked for, the provider is
  Prometheus and the port is free, the log handler when a URL is given. With tracing, spans are
  exported to the endpoint whenever one is given, also when the trace provider is \<open>noop\<close>, which is
  there to disable the export.
\<close>

theorem monitoring_setup_effect:
  assumes "lower (mo_metrics_provider a) = ''prometheus''" and "lower (mo_trace_provider a) \<in> {''otlp'', ''noop''}"
    and "lower (mo_log_provider a) = ''loki''" and "\<And>p e. bind p \<noteq> BindFailed e"
  shows "setup_monitoring bind a acts =
    (Inr (), acts
      @ [SetMeterProvider (mo_service_name a) True,
         AddMetricsMiddleware (mo_service_name a) create_instruments (mo_excluded_paths a) (mo_business_domain_classifier a)]
      @ (if mo_prometheus_port a > 0 \<and> bind (mo_prometheus_port a) = Bound then [ServerStarted (mo_prometheus_port a)] else [])
      @ (if mo_enable_tracing a
         then [SetTracerProvider (mo_service_name a) (if mo_otlp_endpoint a = [] then None else Some (mo_otlp_endpoint a))] else [])
      @ (if mo_loki_url a \<noteq> []
         then [AddLogHandler (LokiHandlerOf (mo_loki_url a)
                 ((''service'', mo_service_name a) #
                  (if mo_environment a \<noteq> [] then [(''environment'', mo_environment a)] else [])) 100 5) INFO] else []))"
proof -
  have metrics: "create_metrics_provider (mo_metrics_provider a) = Inr PrometheusMetrics"
    using assms(1) by (simp add: create_metrics_provider_def)
  have server: "setup_server bind PrometheusMetrics a acts =
      (Inr (), acts @ (if mo_prometheus_port a > 0 \<and> bind (mo_prometheus_port a) = Bound
                       then [ServerStarted (mo_prometheus_port a)] else []))" for acts
    using assms(4) by (cases "bind (mo_prometheus_port a)")
      (auto simp: setup_server_def start_prometheus_http_server_def take_action_def io_defs)
  have traces: "setup_traces a acts = (Inr (), acts @ (if mo_enable_tracing a
         then [SetTracerProvider (mo_service_name a) (if mo_otlp_endpoint a = [] then None else Some (mo_otlp_endpoint a))] else []))" for acts
    using setup_traces_effect [OF _ assms(2)] by (cases "mo_enable_tracing a") (simp_all add: setup_traces_def io_return_def)
  have logs: "setup_logs a acts = (Inr (), acts @ (if mo_loki_url a \<noteq> []
         then [AddLogHandler (LokiHandlerOf (mo_loki_url a)
                 ((''service'', mo_service_name a) #
                  (if mo_environment a \<noteq> [] then [(''environment'', mo_environment a)] else [])) 100 5) INFO] else []))" for acts
    using assms(3) by (simp add: setup_logs_def create_log_provider_def take_action_def io_defs dict_merge_def)
  show ?thesis
    unfolding setup_monitoring_def
    by (simp only: metrics io_bind_def lift_res_def take_action_def prod.case sum.case create_metric_reader.simps
        server traces logs append_assoc append.simps)
qed

theorem monitoring_setup_effect_witness:
  "setup_monitoring (\<lambda>p. AddrInUse)
     \<lparr>mo_service_name = ''crm'', mo_prometheus_port = 9090, mo_enable_tracing = True, mo_otlp_endpoint = ''tempo:4317'',
      mo_excluded_paths = None, mo_business_domain_classifier = None, mo_loki_url = [], mo_environment = [], mo_metrics_provider = ''prometheus'',
      mo_log_provider = ''loki'', mo_trace_provider = ''noop''\<rparr> [] =
   (Inr (), [SetMeterProvider ''crm'' True, AddMetricsMiddleware ''crm'' create_instruments None None,
             SetTracerProvider ''crm'' (Some ''tempo:4317'')])"
  using monitoring_setup_effect [of
     "\<lparr>mo_service_name = ''crm'', mo_prometheus_port = 9090, mo_enable_tracing = True, mo_otlp_endpoint = ''tempo:4317'',
      mo_excluded_paths = None, mo_business_domain_classifier = None, mo_loki_url = [], mo_environment = [], mo_metrics_provider = ''prometheus'',
      mo_log_provider = ''loki'', mo_trace_provider = ''noop''\<rparr>" "\<lambda>p. AddrInUse" "[]"]
  by (simp add: lower_def lower_char_def)

end
