(* ===== verification/Logging_Setup.thy ===== *)
theory Logging_Setup
  imports Prelude
begin

text \<open>
  \<open>logging/setup.py\<close>: the processor that copies the \<open>extra\<close> of a standard log record into the event, the
  processor chains that \<open>configure_logging\<close> builds, what it does to the root logger, and the correlation id
  in the context variables. The processors of structlog are names; \<open>ExtraAdder\<close> is an argument.
\<close>

section \<open>Extras\<close>

definition add_stdlib_extras ::
  "((string, json) dict \<Rightarrow> (string, json) dict) \<Rightarrow> (string, json) dict \<Rightarrow> (string, json) dict res" where
  "add_stdlib_extras extra_adder event_dict =
     (case dict_get event_dict ''event'' of
        None \<Rightarrow> Inl (KeyError ''event'')
      | Some message \<Rightarrow>
          let d = extra_adder event_dict
          in case dict_get d ''event'' of
               None \<Rightarrow> Inl (KeyError ''event'')
             | Some v \<Rightarrow> Inr (if v \<noteq> message then dict_set ''event'' message (dict_set ''extra_event'' v d) else d))"

section \<open>Configuration\<close>

datatype processor =
    MergeContextvars | AddStdlibExtras | AddLogLevel | AddLoggerName | TimeStamper string | StackInfoRenderer
  | WrapForFormatter | RemoveProcessorsMeta | FormatExcInfo | JSONRenderer | ConsoleRenderer bool

definition shared_processors :: "processor list" where
  "shared_processors = [MergeContextvars, AddStdlibExtras, AddLogLevel, AddLoggerName, TimeStamper ''iso'', StackInfoRenderer]"

definition renderer :: "string \<Rightarrow> processor" where
  "renderer log_format = (if log_format = ''json'' then JSONRenderer else ConsoleRenderer True)"

definition formatter_processors :: "string \<Rightarrow> processor list" where
  "formatter_processors log_format =
     RemoveProcessorsMeta # (if log_format = ''json'' then [FormatExcInfo] else []) @ [renderer log_format]"

text \<open>A handler of the root logger, known by its formatter; other handlers are those a host application installed.\<close>

datatype root_handler = StdoutHandler "processor list" "processor list" | OtherHandler string

record root_log_state =
  lg_contextvars :: "(string, string) dict"
  lg_processors :: "processor list"
  lg_handlers :: "root_handler list"
  lg_level :: string

definition configure_logging :: "string \<Rightarrow> string \<Rightarrow> string \<Rightarrow> root_log_state \<Rightarrow> root_log_state" where
  "configure_logging log_level log_format service_name s =
     s\<lparr>lg_contextvars := (if service_name \<noteq> [] then dict_set ''service_name'' service_name (lg_contextvars s) else lg_contextvars s),
       lg_processors := shared_processors @ [WrapForFormatter],
       lg_handlers := (if lg_handlers s = [] then [StdoutHandler (formatter_processors log_format) shared_processors] else lg_handlers s),
       lg_level := log_level\<rparr>"

definition bind_correlation_id :: "string \<Rightarrow> root_log_state \<Rightarrow> root_log_state" where
  "bind_correlation_id correlation_id s = s\<lparr>lg_contextvars := dict_set ''correlation_id'' correlation_id (lg_contextvars s)\<rparr>"

definition get_correlation_id :: "root_log_state \<Rightarrow> string option" where
  "get_correlation_id s = dict_get (lg_contextvars s) ''correlation_id''"

section \<open>Properties\<close>

text \<open>
  A log line keeps its message. Whatever keys the \<open>extra\<close> of a record adds or replaces, the message stays
  under \<open>event\<close>, a value that would have replaced it is kept under \<open>extra_event\<close>, and every other key is as \<open>ExtraAdder\<close> left it.
\<close>

theorem log_message_kept:
  assumes "dict_get d ''event'' = Some message" and "dict_get (adder d) ''event'' = Some v"
  shows "\<exists>d'. add_stdlib_extras adder d = Inr d' \<and> dict_get d' ''event'' = Some message
    \<and> (v \<noteq> message \<longrightarrow> dict_get d' ''extra_event'' = Some v)
    \<and> (\<forall>k. k \<noteq> ''event'' \<and> k \<noteq> ''extra_event'' \<longrightarrow> dict_get d' k = dict_get (adder d) k)"
  using assms by (auto simp: add_stdlib_extras_def Let_def)

theorem log_message_kept_witness:
  "\<exists>d'. add_stdlib_extras (dict_set ''event'' (JStr ''lead.created'')) [(''event'', JStr ''published'')] = Inr d'
     \<and> dict_get d' ''event'' = Some (JStr ''published'') \<and> dict_get d' ''extra_event'' = Some (JStr ''lead.created'')"
  using log_message_kept [of "[(''event'', JStr ''published'')]" "JStr ''published''"
      "dict_set ''event'' (JStr ''lead.created'')" "JStr ''lead.created''"]
  by auto

text \<open>
  Configuring twice leaves one handler, and a host's handlers are left alone; a second call with another format changes the level but
  not the format of the lines.
\<close>

theorem configure_logging_twice:
  "length (lg_handlers (configure_logging l2 f2 n2 (configure_logging l1 f1 n1 s))) = max 1 (length (lg_handlers s))
   \<and> lg_handlers (configure_logging l2 f2 n2 (configure_logging l1 f1 n1 s)) = lg_handlers (configure_logging l1 f1 n1 s)
   \<and> lg_level (configure_logging l2 f2 n2 (configure_logging l1 f1 n1 s)) = l2
   \<and> get_correlation_id (configure_logging l2 f2 n2 (bind_correlation_id c s)) = Some c"
  by (cases "lg_handlers s") (simp_all add: configure_logging_def bind_correlation_id_def get_correlation_id_def)

end
