(* ===== verification/Outbox_Delivery.thy ===== *)
theory Outbox_Delivery
  imports Outbox Event_Consumer
begin

text \<open>
  The durable path from end to end: \<open>DurableEventPublisher.publish\<close> (theory \<open>Event_Bus\<close>) writes the row, the
  drainer (theory \<open>Outbox\<close>) publishes it with an \<open>EventProducer\<close>, and a consumer (theory
  \<open>Event_Consumer\<close>) reads the entry and asks its idempotency checker. The three are joined here on
  the definitions of their theories: the producer is put into the environment of the drainer.
\<close>

section \<open>The producer of the drainer\<close>

definition correlation_of :: "json \<Rightarrow> string option" where
  "correlation_of v = (case v of JStr c \<Rightarrow> Some c | _ \<Rightarrow> None)"

text \<open>
  The drainer publishes with \<open>p\<close>: on rows whose two documents are objects, as the publisher writes them, with no correlation id
  or one that is a string.
\<close>

definition drains_with :: "json_codec \<Rightarrow> 'w bus_env \<Rightarrow> event_producer \<Rightarrow> 'w outbox_env \<Rightarrow> bool" where
  "drains_with jc benv p env =
     (\<forall>et ten d actor m cid. cid = JNull \<or> (\<exists>c. cid = JStr c) \<longrightarrow>
        ox_publish env et ten (JDict d) actor (JDict m) cid =
          producer_publish jc benv p et ten d actor m (correlation_of cid) False)"

definition plain_metadata :: "(string, json) dict \<Rightarrow> bool" where
  "plain_metadata md =
     (case dict_get md ''correlation_id'' of None \<Rightarrow> True | Some (JStr c) \<Rightarrow> True | Some v \<Rightarrow> v = JNull)"

definition row_event :: "json_codec \<Rightarrow> outbox_row \<Rightarrow> string \<Rightarrow> string \<Rightarrow> (string, json) dict \<Rightarrow> string option
   \<Rightarrow> (string, json) dict \<Rightarrow> bool" where
  "row_event jc row et ten data actor md =
     (or_event_type row = et \<and> or_tenant_id row = ten \<and> or_actor_id row = actor
      \<and> jc_dumps jc (JDict data) = Inr (or_data row) \<and> jc_dumps jc (JDict md) = Inr (or_metadata row))"

lemma dict_set_same: "dict_get d k = Some v \<Longrightarrow> dict_set k v d = d"
  by (induction d) (auto split: if_splits)

lemma plain_metadata_kept:
  assumes "plain_metadata md"
  shows "publish_metadata md (correlation_of (case dict_get md ''correlation_id'' of Some c \<Rightarrow> c | None \<Rightarrow> JNull)) = md"
proof (cases "dict_get md ''correlation_id''")
  case (Some v)
  with assms show ?thesis
    by (cases v) (simp_all add: publish_metadata_def correlation_of_def plain_metadata_def dict_set_same)
qed (simp add: publish_metadata_def correlation_of_def)

lemma publish_draws_id:
  assumes "producer_publish jc env p et ten data actor md cid strict s = (Inr eid, s')"
  shows "fst (be_uuid env s) = Inr eid"
  using assms
proof (cases rule: producer_publish_cases)
  case (run eid' s1)
  show ?thesis
  proof (cases "jc_dumps jc (JDict data)")
    case (Inl e)
    with run(3) show ?thesis by simp
  next
    case d: (Inr d)
    show ?thesis
    proof (cases "jc_dumps jc (JDict (publish_metadata md cid))")
      case (Inl e)
      with run(4) [OF d Inl] show ?thesis by simp
    next
      case (Inr m)
      from run(5) [OF d Inr] have "eid' = eid"
      proof (elim disjE exE conjE, goal_cases)
        case (2 x s2)
        then show ?case by (cases x) (auto split: if_splits)
      qed simp
      with run(2) show ?thesis by simp
    qed
  qed
qed auto

text \<open>\<open>row_event\<close> is what the publisher writes.\<close>

lemma durable_row:
  assumes "durable_publish jc uuid db defaults et ten data actor md s = (Inr rid, s')"
  shows "\<exists>row. last (os_inserts (fst s')) = row \<and> or_id row = rid \<and> row_event jc row et ten data actor md"
proof -
  from assms have t: "os_in_transaction (fst s)" by (auto simp: durable_publish_def io_raise_def split: if_splits)
  with assms obtain s1 d m s2 where "uuid s = (Inr rid, s1)" "jc_dumps jc (JDict data) = Inr d" "jc_dumps jc (JDict md) = Inr m"
    "s' = ((fst s2)\<lparr>os_inserts := os_inserts (fst s2) @
                 [(defaults (snd s2))\<lparr>or_id := rid, or_event_type := et, or_tenant_id := ten,
                   or_actor_id := actor, or_data := d, or_metadata := m\<rparr>]\<rparr>, snd s2)"
    by (auto simp: durable_publish_def lift_res_def elim!: io_bind_InrE)
  then show ?thesis by (simp add: row_event_def)
qed

text \<open>The row is published by the \<open>try\<close> body, and marked.\<close>

lemma drain_row_publishes:
  assumes "codec_round_trip jc" and "row_event jc row et ten data actor md" and "or_metadata row \<noteq> []"
    and "drain_row jc env policy row (tab, w) = (Inr Published, s')"
  shows "publish_row env row (JDict data) (JDict md) (tab, w) = (Inr Published, s')"
proof -
  have loads: "jc_loads jc (or_data row) = Inr (JDict data)" "jc_loads jc (or_metadata row) = Inr (JDict md)"
    using assms(1,2) by (auto simp: codec_round_trip_def row_event_def)
  have failed: "record_failed_row env policy row e s \<noteq> (Inr Published, s')" for e s
    by (auto simp: record_failed_row_def Let_def io_return_def elim!: io_bind_InrE split: if_splits)
  from assms(4) loads assms(3)
  have "io_except is_Exception (publish_row env row (JDict data) (JDict md)) (record_failed_row env policy row) (tab, w) =
      (Inr Published, s')"
    by (simp add: drain_row_def io_bind_def lift_res_def)
  then show ?thesis using failed by (auto simp: io_except_def split: prod.splits sum.splits if_splits)
qed

lemma update_row_marks:
  assumes "r \<in> set (update_row rid set_published tab)" and "or_id r = rid"
  shows "or_published r"
proof -
  from assms(1) obtain x where x: "r = (if or_id x = rid then set_published x else x)"
    unfolding update_row_def set_map by (elim imageE)
  with assms(2) show ?thesis by (cases "or_id x = rid") (simp_all add: set_published_def)
qed

definition row_actor :: "string option \<Rightarrow> string option" where
  "row_actor actor = (case actor of Some a \<Rightarrow> if a = [] then None else Some a | None \<Rightarrow> None)"

text \<open>Every consumer reads the event from the entry.\<close>

definition carries :: "json_codec \<Rightarrow> (string, string) dict \<Rightarrow> string \<Rightarrow> string \<Rightarrow> string \<Rightarrow> (string, json) dict \<Rightarrow> string option
   \<Rightarrow> (string, json) dict \<Rightarrow> bool" where
  "carries jc flds eid et ten data actor md =
     (\<forall>mid. \<exists>ev. from_flat jc mid flds = Inr ev \<and> ev_id ev = JStr eid \<and> ev_type ev = JStr et \<and> ev_tenant_id ev = JStr ten
         \<and> ev_data ev = JDict data \<and> ev_metadata ev = JDict md
         \<and> ev_actor_id ev = (case row_actor actor of None \<Rightarrow> JNull | Some a \<Rightarrow> JStr a))"

lemma carriesD:
  assumes "carries jc flds eid et ten data actor md"
  obtains ev where "from_flat jc mid flds = Inr ev" and "ev_id ev = JStr eid" and "ev_type ev = JStr et" and "ev_data ev = JDict data"
  using assms unfolding carries_def by blast

text \<open>What a publication of the row by the drainer puts on the stream.\<close>

lemma row_publication:
  assumes "stream_log benv slog" and "codec_round_trip jc" and "drains_with jc benv p env" and "plain_metadata md"
    and "ox_publish env et ten (JDict data) (row_actor actor) (JDict md)
           (case dict_get md ''correlation_id'' of Some c \<Rightarrow> c | None \<Rightarrow> JNull) w = (Inr eid, w')"
  shows "fst (be_uuid benv w) = Inr eid \<and> (\<exists>flds. slog w' = slog w @ [(ep_stream_name p, flds)]
    \<and> carries jc flds eid et ten data actor md)"
proof -
  let ?c = "case dict_get md ''correlation_id'' of Some c \<Rightarrow> c | None \<Rightarrow> JNull"
  have "?c = JNull \<or> (\<exists>c. ?c = JStr c)"
    using assms(4) by (cases "dict_get md ''correlation_id''") (auto simp: plain_metadata_def split: json.splits)
  with assms(3) have "ox_publish env et ten (JDict data) (row_actor actor) (JDict md) ?c =
      producer_publish jc benv p et ten data (row_actor actor) md (correlation_of ?c) False"
    unfolding drains_with_def by blast
  with assms(5) have run: "producer_publish jc benv p et ten data (row_actor actor) md (correlation_of ?c) False w = (Inr eid, w')"
    by (simp only:)
  from published_entry [OF assms(1,2) this] plain_metadata_kept [OF assms(4)] publish_draws_id [OF run]
  show ?thesis by (auto simp: carries_def row_actor_def split: option.splits if_splits)
qed

lemma publish_row_runs:
  assumes "row_event jc row et ten data actor md"
    and "publish_row env row (JDict data) (JDict md) (tab, w) = (Inr Published, (tab', w'))"
  obtains eid w1 where "ox_publish env et ten (JDict data) (row_actor actor) (JDict md)
      (case dict_get md ''correlation_id'' of Some c \<Rightarrow> c | None \<Rightarrow> JNull) w = (Inr eid, w1)"
    and "w' = snd (ox_commit env w1)" and "tab' = update_row (or_id row) set_published tab"
proof -
  let ?pub = "ox_publish env et ten (JDict data) (row_actor actor) (JDict md)
      (case dict_get md ''correlation_id'' of Some c \<Rightarrow> c | None \<Rightarrow> JNull)"
  obtain x w1 where x: "?pub w = (x, w1)" by (rule prod.exhaust)
  have run: "io_bind (on_snd ?pub) (\<lambda>_. io_bind (commit_update env (or_id row) set_published) (\<lambda>_. io_return Published)) (tab, w) =
      (Inr Published, (tab', w'))"
    using assms by (simp add: publish_row_def row_event_def row_actor_def)
  with x obtain eid where eid: "x = Inr eid" by (cases x) (auto simp: io_bind_def on_snd_def)
  obtain y w2 where y: "ox_commit env w1 = (y, w2)" by (rule prod.exhaust)
  from run x eid y have "w' = w2" "tab' = update_row (or_id row) set_published tab"
    by (cases y; simp add: io_bind_def on_snd_def commit_update_def io_return_def)+
  with that x eid y show ?thesis by simp
qed

section \<open>A world for the witnesses\<close>

text \<open>The state: how many UUIDs were drawn, and the entries of the stream.\<close>

type_synonym counted = "nat \<times> (string \<times> (string, string) dict) list"

definition counting_bus :: "counted bus_env" where
  "counting_bus =
     \<lparr>be_xadd = (\<lambda>st f n s. (Inr ''1-0'', (fst s, snd s @ [(st, f)]))),
      be_uuid = (\<lambda>s. (Inr (replicate (Suc (fst s)) CHR ''u''), (Suc (fst s), snd s))),
      be_now_iso = (\<lambda>s. ''now''), be_time_str = (\<lambda>s. ''0''), be_str = (\<lambda>e. []),
      be_hincrby = (\<lambda>k f n s. (Inr 1, s)), be_hget = (\<lambda>k f s. (Inr None, s)), be_hdel = (\<lambda>k f s. (Inr (), s)),
      be_expire = (\<lambda>k n s. (Inr (), s)), be_xack = (\<lambda>st g m s. (Inr (), s)),
      be_xreadgroup = (\<lambda>g c st n b s. (Inr [], s)), be_xautoclaim = (\<lambda>g c st n b s. (Inr [], s))\<rparr>"

lemma counting_bus_log: "stream_log counting_bus snd"
  by (simp add: stream_log_def counting_bus_def)

definition counting_outbox :: "counted outbox_env" where
  "counting_outbox =
     \<lparr>ox_now = (\<lambda>_. 0), ox_commit = io_return (),
      ox_publish = (\<lambda>et ten d actor m cid. case (d, m) of
          (JDict d, JDict m) \<Rightarrow> producer_publish empty_codec counting_bus crm_producer et ten d actor m (correlation_of cid) False
        | _ \<Rightarrow> io_raise (TypeError ''data'')),
      ox_on_dead_letter = (\<lambda>_. io_return ()), ox_str = (\<lambda>_. [])\<rparr>"

lemma counting_drains: "drains_with empty_codec counting_bus crm_producer counting_outbox"
  by (simp add: drains_with_def counting_outbox_def)

lemma counting_publish:
  "ox_publish counting_outbox ''lead.created'' ''t1'' (JDict []) None (JDict []) JNull (n, l) =
     (Inr (replicate (Suc n) CHR ''u''), (Suc n, l @ [(''tr_event_bus'',
        flat_envelope (replicate (Suc n) CHR ''u'') ''lead.created'' ''t1'' ''now'' ''lead'' None ''{}'' ''{}'')]))"
  by (simp add: counting_outbox_def counting_bus_def producer_publish_def crm_producer_def empty_codec_def publish_metadata_def
      correlation_of_def STREAM_MAXLEN_def io_defs)

definition demo_row :: outbox_row where
  "demo_row = \<lparr>or_id = ''r1'', or_event_type = ''lead.created'', or_tenant_id = ''t1'', or_actor_id = None, or_data = ''{}'',
     or_metadata = ''{}'', or_retry_count = 0, or_next_retry_at = 0, or_published = False, or_dead_letter = False,
     or_last_error = None\<rparr>"

section \<open>Properties\<close>





end
