(* ===== verification/Regex.thy ===== *)
theory Regex
  imports Prelude
begin

text \<open>
  The part of Python's \<open>re\<close>, \<open>str.splitlines\<close> and \<open>fnmatch\<close> that the library's checks of a service repository use, on
  ASCII texts. A pattern is a value of \<open>rx\<close>, transcribed from the source; \<open>runs\<close> gives the successes of a
  backtracking matcher in the order in which \<open>re\<close> tries them, so that its first element is the match
  \<open>re\<close> reports.
\<close>

section \<open>Patterns\<close>

datatype rx =
    Eps
  | Cls "char \<Rightarrow> bool"
  | Cat rx rx
  | Alt rx rx
  | Star bool rx \<comment> \<open>greedy or lazy\<close>
  | Group nat rx
  | Backref nat
  | Word_Boundary
  | Line_Start \<comment> \<open>\<open>^\<close> with \<open>re.MULTILINE\<close>, or at the start\<close>
  | Line_End \<comment> \<open>\<open>$\<close> with \<open>re.MULTILINE\<close>\<close>
  | Text_Start
  | Text_End \<comment> \<open>\<open>\Z\<close>\<close>
  | Text_End_Newline \<comment> \<open>\<open>$\<close> without \<open>re.MULTILINE\<close>: also before a newline at the end\<close>

text \<open>The characters before the position, last first, those after it, and the groups set so far.\<close>

record match_state =
  ms_before :: string
  ms_after :: string
  ms_groups :: "(nat, string) dict"

definition newline :: char where
  "newline = CHR 0x0A"

text \<open>\<open>\w\<close>\<close>

definition word_char :: "char \<Rightarrow> bool" where
  "word_char c = (is_alpha c \<or> is_digit c \<or> c = CHR ''_'')"

definition word_at :: "string \<Rightarrow> bool" where
  "word_at s = (case s of [] \<Rightarrow> False | c # _ \<Rightarrow> word_char c)"

definition advance :: "nat \<Rightarrow> match_state \<Rightarrow> match_state" where
  "advance n s = s\<lparr>ms_before := rev (take n (ms_after s)) @ ms_before s, ms_after := drop n (ms_after s)\<rparr>"

definition ok_if :: "bool \<Rightarrow> match_state \<Rightarrow> match_state list" where
  "ok_if b s = (if b then [s] else [])"

text \<open>
  A repetition stops after an iteration that consumes nothing, as \<open>re\<close> does; so as many iterations as there are
  characters are enough.
\<close>

primrec repeats :: "bool \<Rightarrow> (match_state \<Rightarrow> match_state list) \<Rightarrow> nat \<Rightarrow> match_state \<Rightarrow> match_state list" where
  "repeats greedy f 0 s = [s]"
| "repeats greedy f (Suc n) s =
     (let more = concat (map (repeats greedy f n) (filter (\<lambda>t. length (ms_after t) < length (ms_after s)) (f s)))
      in if greedy then more @ [s] else s # more)"

primrec runs :: "rx \<Rightarrow> match_state \<Rightarrow> match_state list" where
  "runs Eps s = [s]"
| "runs (Cls p) s = (case ms_after s of [] \<Rightarrow> [] | c # _ \<Rightarrow> ok_if (p c) (advance 1 s))"
| "runs (Cat a b) s = concat (map (runs b) (runs a s))"
| "runs (Alt a b) s = runs a s @ runs b s"
| "runs (Star greedy a) s = repeats greedy (runs a) (length (ms_after s)) s"
| "runs (Group i a) s =
     map (\<lambda>t. t\<lparr>ms_groups := dict_set i (take (length (ms_after s) - length (ms_after t)) (ms_after s)) (ms_groups t)\<rparr>) (runs a s)"
| "runs (Backref i) s =
     (case dict_get (ms_groups s) i of None \<Rightarrow> [] | Some g \<Rightarrow> ok_if (prefix g (ms_after s)) (advance (length g) s))"
| "runs Word_Boundary s = ok_if (word_at (ms_before s) \<noteq> word_at (ms_after s)) s"
| "runs Line_Start s = ok_if (ms_before s = [] \<or> prefix [newline] (ms_before s)) s"
| "runs Line_End s = ok_if (ms_after s = [] \<or> prefix [newline] (ms_after s)) s"
| "runs Text_Start s = ok_if (ms_before s = []) s"
| "runs Text_End s = ok_if (ms_after s = []) s"
| "runs Text_End_Newline s = ok_if (ms_after s \<in> {[], [newline]}) s"

section \<open>Derived patterns\<close>

definition lit :: "string \<Rightarrow> rx" where
  "lit w = foldr (\<lambda>c r. Cat (Cls ((=) c)) r) w Eps"

definition plus1 :: "rx \<Rightarrow> rx" where
  "plus1 r = Cat r (Star True r)"

definition opt :: "rx \<Rightarrow> rx" where
  "opt r = Alt r Eps"

definition cats :: "rx list \<Rightarrow> rx" where
  "cats rs = foldr Cat rs Eps"

section \<open>Entry points\<close>

definition first :: "'a list \<Rightarrow> 'a option" where
  "first xs = (case xs of [] \<Rightarrow> None | x # _ \<Rightarrow> Some x)"

definition at_start :: "string \<Rightarrow> match_state" where
  "at_start t = \<lparr>ms_before = [], ms_after = t, ms_groups = []\<rparr>"

definition group_text :: "nat \<Rightarrow> match_state \<Rightarrow> string" where
  "group_text i m = (case dict_get (ms_groups m) i of Some g \<Rightarrow> g | None \<Rightarrow> [])"

text \<open>\<open>pattern.match(t)\<close> and \<open>pattern.fullmatch(t)\<close>.\<close>

definition rx_match :: "rx \<Rightarrow> string \<Rightarrow> match_state option" where
  "rx_match r t = first (runs r (at_start t))"

definition rx_fullmatch :: "rx \<Rightarrow> string \<Rightarrow> match_state option" where
  "rx_fullmatch r t = first (filter (\<lambda>s. ms_after s = []) (runs r (at_start t)))"

text \<open>\<open>pattern.search\<close> from a position: the first start at which there is a match, and that match.\<close>

fun search_from :: "rx \<Rightarrow> string \<Rightarrow> string \<Rightarrow> (match_state \<times> match_state) option" where
  "search_from r b t =
     (let s = \<lparr>ms_before = b, ms_after = t, ms_groups = []\<rparr>
      in case runs r s of
           m # _ \<Rightarrow> Some (s, m)
         | [] \<Rightarrow> (case t of [] \<Rightarrow> None | c # t' \<Rightarrow> search_from r (c # b) t'))"

declare search_from.simps [simp del]

definition rx_search :: "rx \<Rightarrow> string \<Rightarrow> match_state option" where
  "rx_search r t = map_option snd (search_from r [] t)"

text \<open>
  \<open>pattern.findall(t)\<close> for a pattern with one group that never matches the empty text: the search goes on at the end of a
  match.
\<close>

function findall_from :: "rx \<Rightarrow> string \<Rightarrow> string \<Rightarrow> string list" where
  "findall_from r b t =
     (case search_from r b t of
        None \<Rightarrow> []
      | Some (_, m) \<Rightarrow>
          group_text 1 m # (if length (ms_after m) < length t then findall_from r (ms_before m) (ms_after m) else []))"
  by pat_completeness auto
termination
  by (relation "measure (\<lambda>(r, b, t). length t)") auto

declare findall_from.simps [simp del]

definition rx_findall :: "rx \<Rightarrow> string \<Rightarrow> string list" where
  "rx_findall r t = findall_from r [] t"

section \<open>Lines\<close>

text \<open>\<open>str.splitlines()\<close> on ASCII texts; \<open>\r\n\<close> is one line break.\<close>

definition line_break :: "char \<Rightarrow> bool" where
  "line_break c = (let n = (of_char c :: nat) in (10 \<le> n \<and> n \<le> 13) \<or> (28 \<le> n \<and> n \<le> 30))"

definition after_break :: "string \<Rightarrow> string" where
  "after_break r =
     (case r of [] \<Rightarrow> [] | c # r' \<Rightarrow> if c = CHR 0x0D \<and> prefix [newline] r' then tl r' else r')"

lemma after_break_Cons: "length (after_break (c # r)) \<le> length r"
  by (simp add: after_break_def)

lemma after_break_shorter: "t \<noteq> [] \<Longrightarrow> length (after_break (dropWhile P t)) < length t"
proof (cases "dropWhile P t")
  case Nil
  then have "after_break (dropWhile P t) = []" by (simp only: after_break_def list.case)
  then show "t \<noteq> [] \<Longrightarrow> ?thesis" by simp
next
  case (Cons c r)
  then show ?thesis using after_break_Cons [of c r] length_dropWhile_le [of P t] by simp
qed

function splitlines :: "string \<Rightarrow> string list" where
  "splitlines t =
     (if t = [] then []
      else takeWhile (\<lambda>c. \<not> line_break c) t # splitlines (after_break (dropWhile (\<lambda>c. \<not> line_break c) t)))"
  by pat_completeness auto
termination
  by (relation "measure length") (auto intro: after_break_shorter)

declare splitlines.simps [simp del]

section \<open>Shell-style patterns\<close>

text \<open>
  \<open>fnmatch.fnmatchcase\<close>. A bracket ends at the first \<open>]\<close> after its first character; without one the opening bracket is an ordinary
  character. Inside, \<open>a-z\<close> is a range, empty when its ends are in the wrong order, and a leading \<open>!\<close> negates.
\<close>

fun in_ranges :: "string \<Rightarrow> char \<Rightarrow> bool" where
  "in_ranges (a # b # z # s) c =
     (if b = CHR ''-'' then (of_char a :: nat) \<le> of_char c \<and> (of_char c :: nat) \<le> of_char z \<or> in_ranges s c
      else c = a \<or> in_ranges (b # z # s) c)"
| "in_ranges [a, b] c = (c = a \<or> c = b)"
| "in_ranges [a] c = (c = a)"
| "in_ranges [] c = False"

definition in_bracket :: "string \<Rightarrow> char \<Rightarrow> bool" where
  "in_bracket stuff c = (if prefix ''!'' stuff then \<not> in_ranges (tl stuff) c else in_ranges stuff c)"

text \<open>The text of a bracket and what follows it, given what follows the opening one.\<close>

definition bracket_parts :: "string \<Rightarrow> (string \<times> string) option" where
  "bracket_parts p =
     (let neg = (if prefix ''!'' p then 1 else 0);
          skip = (if prefix '']'' (drop neg p) then Suc neg else neg);
          body = takeWhile (\<lambda>c. c \<noteq> CHR '']'') (drop skip p)
      in if skip + length body < length p then Some (take (skip + length body) p, drop (Suc (skip + length body)) p) else None)"

lemma bracket_parts_length: "bracket_parts p = Some (stuff, p') \<Longrightarrow> length p' < length p"
  by (auto simp: bracket_parts_def Let_def split: if_splits)

function glob :: "string \<Rightarrow> string \<Rightarrow> bool" where
  "glob [] t = (t = [])"
| "glob (x # p) t =
     (if x = CHR ''*'' then glob p t \<or> (if t = [] then False else glob (x # p) (tl t))
      else if t = [] then False
      else if x = CHR ''?'' then glob p (tl t)
      else case (if x = CHR ''['' then bracket_parts p else None) of
             Some (stuff, p') \<Rightarrow> in_bracket stuff (hd t) \<and> glob p' (tl t)
           | None \<Rightarrow> hd t = x \<and> glob p (tl t))"
  by pat_completeness auto
termination
  by (relation "measure (\<lambda>(p, t). length p + length t)")
    (auto intro!: add_less_le_mono less_SucI dest: bracket_parts_length split: if_splits)

declare glob.simps [simp del]

definition fnmatchcase :: "string \<Rightarrow> string \<Rightarrow> bool" where
  "fnmatchcase name pat = glob pat name"

section \<open>What a match consumes\<close>

definition consumes :: "match_state \<Rightarrow> match_state \<Rightarrow> bool" where
  "consumes s t = (\<exists>w. ms_after s = w @ ms_after t \<and> ms_before t = rev w @ ms_before s)"

lemma consumes_refl [simp]: "consumes s s"
  by (simp add: consumes_def)

lemma consumes_trans: "consumes s t \<Longrightarrow> consumes t u \<Longrightarrow> consumes s u"
  unfolding consumes_def by (metis append.assoc rev_append)

lemma consumes_advance: "n \<le> length (ms_after s) \<Longrightarrow> consumes s (advance n s)"
  unfolding consumes_def advance_def by (intro exI [of _ "take n (ms_after s)"]) simp

lemma consumes_groups: "consumes s t \<Longrightarrow> consumes s (t\<lparr>ms_groups := g\<rparr>)"
  by (simp add: consumes_def)

lemma consumes_length: "consumes s t \<Longrightarrow> length (ms_after t) \<le> length (ms_after s)"
  by (auto simp: consumes_def)

lemma ok_if_iff [simp]: "t \<in> set (ok_if b s) \<longleftrightarrow> b \<and> t = s"
  by (auto simp: ok_if_def)

lemma repeats_consumes:
  assumes "\<And>s t. t \<in> set (f s) \<Longrightarrow> consumes s t"
  shows "t \<in> set (repeats greedy f n s) \<Longrightarrow> consumes s t"
proof (induction n arbitrary: s)
  case (Suc n)
  then show ?case by (auto simp: Let_def split: if_splits intro: consumes_trans [OF assms])
qed simp

lemma runs_consumes: "t \<in> set (runs r s) \<Longrightarrow> consumes s t"
proof (induction r arbitrary: s t)
  case (Cls p)
  then show ?case by (cases "ms_after s") (auto intro: consumes_advance)
next
  case (Cat a b)
  then show ?case by (fastforce intro: consumes_trans)
next
  case (Star greedy r)
  then show ?case using repeats_consumes [of "runs r"] by simp
next
  case (Group i r)
  then show ?case by (auto intro: consumes_groups)
next
  case (Backref i)
  then show ?case by (auto split: option.splits intro: consumes_advance dest: prefix_length_le)
qed auto

text \<open>More iterations than characters add nothing.\<close>

lemma repeats_enough:
  assumes "length (ms_after s) \<le> n"
  shows "repeats greedy f n s = repeats greedy f (length (ms_after s)) s"
  using assms
proof (induction n arbitrary: s rule: less_induct)
  case (less n)
  show ?case
  proof (cases "ms_after s")
    case Nil
    then show ?thesis by (cases n) simp_all
  next
    case (Cons c u)
    with less.prems obtain m where n: "n = Suc m" by (cases n) simp_all
    let ?ts = "filter (\<lambda>t. length (ms_after t) < length (ms_after s)) (f s)"
    have "repeats greedy f m t = repeats greedy f (length u) t" if "t \<in> set ?ts" for t
    proof -
      from that Cons have "length (ms_after t) \<le> length u" by simp
      moreover have "length u \<le> m" using less.prems Cons n by simp
      ultimately show ?thesis using less.IH [of m t] less.IH [of "length u" t] n
        by (cases "length u = m") simp_all
    qed
    then have eq: "map (repeats greedy f m) ?ts = map (repeats greedy f (length u)) ?ts" by simp
    have len: "length (ms_after s) = Suc (length u)" by (simp add: Cons)
    show ?thesis by (simp only: n len repeats.simps(2) eq [unfolded len])
  qed
qed

section \<open>Matching inside a line\<close>

text \<open>Patterns that look at no character beyond a newline and at no end of the text.\<close>

primrec in_line :: "rx \<Rightarrow> bool" where
  "in_line Eps = True"
| "in_line (Cls p) = (\<not> p newline)"
| "in_line (Cat a b) = (in_line a \<and> in_line b)"
| "in_line (Alt a b) = (in_line a \<and> in_line b)"
| "in_line (Star greedy a) = in_line a"
| "in_line (Group i a) = in_line a"
| "in_line (Backref i) = False"
| "in_line Word_Boundary = True"
| "in_line Line_Start = True"
| "in_line Line_End = True"
| "in_line Text_Start = False"
| "in_line Text_End = False"
| "in_line Text_End_Newline = False"

definition edge :: "string \<Rightarrow> bool" where
  "edge u = (u = [] \<or> prefix [newline] u)"

definition extend :: "string \<Rightarrow> string \<Rightarrow> match_state \<Rightarrow> match_state" where
  "extend v u s = s\<lparr>ms_before := ms_before s @ v, ms_after := ms_after s @ u\<rparr>"

lemma extend_simps [simp]:
  "ms_before (extend v u s) = ms_before s @ v" "ms_after (extend v u s) = ms_after s @ u" "ms_groups (extend v u s) = ms_groups s"
  "extend v u (s\<lparr>ms_groups := g\<rparr>) = (extend v u s)\<lparr>ms_groups := g\<rparr>"
  by (simp_all add: extend_def)

lemma extend_advance: "n \<le> length (ms_after s) \<Longrightarrow> advance n (extend v u s) = extend v u (advance n s)"
  by (simp add: advance_def extend_def)

lemma word_at_edge: "edge v \<Longrightarrow> word_at (b @ v) = word_at b"
  by (cases b) (auto simp: edge_def word_at_def word_char_def newline_def is_alpha_def is_digit_def split: list.splits)

lemma repeats_extend:
  assumes "\<And>s. f (extend v u s) = map (extend v u) (f s)"
  shows "repeats greedy f n (extend v u s) = map (extend v u) (repeats greedy f n s)"
proof (induction n arbitrary: s)
  case (Suc n)
  have "filter (\<lambda>t. length (ms_after t) < length (ms_after (extend v u s))) (f (extend v u s)) =
      map (extend v u) (filter (\<lambda>t. length (ms_after t) < length (ms_after s)) (f s))"
    by (simp add: assms filter_map comp_def)
  then show ?case by (simp add: Suc.IH Let_def map_concat comp_def)
qed simp

lemma runs_extend:
  assumes "edge v" and "edge u" and "in_line r"
  shows "runs r (extend v u s) = map (extend v u) (runs r s)"
  using assms(3)
proof (induction r arbitrary: s)
  case (Cls p)
  show ?case
  proof (cases "ms_after s")
    case Nil
    with Cls assms(2) show ?thesis by (cases u) (auto simp: edge_def ok_if_def)
  next
    case (Cons c a)
    then show ?thesis by (simp add: ok_if_def extend_advance)
  qed
next
  case (Cat a b)
  then show ?case by (simp add: map_concat comp_def)
next
  case (Star greedy r)
  have "repeats greedy (runs r) (length (ms_after s @ u)) (extend v u s) = repeats greedy (runs r) (length (ms_after (extend v u s))) (extend v u s)"
    by simp
  also have "\<dots> = map (extend v u) (repeats greedy (runs r) (length (ms_after s @ u)) s)"
    using Star by (simp only: extend_simps) (rule repeats_extend, simp)
  also have "repeats greedy (runs r) (length (ms_after s @ u)) s = repeats greedy (runs r) (length (ms_after s)) s"
    by (rule repeats_enough) simp
  finally show ?case by simp
next
  case (Group i r)
  have "take (length (ms_after s @ u) - length (ms_after t @ u)) (ms_after s @ u) = take (length (ms_after s) - length (ms_after t)) (ms_after s)"
    if "t \<in> set (runs r s)" for t
    using consumes_length [OF runs_consumes [OF that]] by simp
  with Group show ?case by (simp add: comp_def)
next
  case Word_Boundary
  then show ?case by (simp add: ok_if_def word_at_edge [OF assms(1)] word_at_edge [OF assms(2)])
next
  case Line_Start
  then show ?case using assms(1) by (cases "ms_before s") (auto simp: ok_if_def edge_def)
next
  case Line_End
  then show ?case using assms(2) by (cases "ms_after s") (auto simp: ok_if_def edge_def)
qed simp_all

section \<open>Searching\<close>

lemma search_from_None:
  "search_from r b t = None \<longleftrightarrow>
     (\<forall>w u. t = w @ u \<longrightarrow> runs r \<lparr>ms_before = rev w @ b, ms_after = u, ms_groups = []\<rparr> = [])"
proof (induction r b t rule: search_from.induct)
  case (1 r b t)
  let ?s = "\<lparr>ms_before = b, ms_after = t, ms_groups = []\<rparr>"
  show ?case
  proof (cases "runs r ?s")
    case (Cons m ms)
    then have "search_from r b t \<noteq> None" by (subst search_from.simps) simp
    moreover have "\<not> (\<forall>w u. t = w @ u \<longrightarrow> runs r \<lparr>ms_before = rev w @ b, ms_after = u, ms_groups = []\<rparr> = [])"
      using Cons by (metis append_Nil list.distinct(1) rev.simps(1))
    ultimately show ?thesis by blast
  next
    case Nil
    show ?thesis
    proof (cases t)
      case Nil': Nil
      with Nil show ?thesis by (subst search_from.simps) simp
    next
      case (Cons c t')
      then have "search_from r b t = search_from r (c # b) t'" using Nil by (subst search_from.simps) simp
      also have "\<dots> = None \<longleftrightarrow> (\<forall>w u. t' = w @ u \<longrightarrow> runs r \<lparr>ms_before = rev w @ c # b, ms_after = u, ms_groups = []\<rparr> = [])"
        using 1 [OF refl Nil Cons] by simp
      also have "\<dots> \<longleftrightarrow> (\<forall>w u. t = w @ u \<longrightarrow> runs r \<lparr>ms_before = rev w @ b, ms_after = u, ms_groups = []\<rparr> = [])"
      proof (intro iffI allI impI)
        fix w u assume "\<forall>w u. t' = w @ u \<longrightarrow> runs r \<lparr>ms_before = rev w @ c # b, ms_after = u, ms_groups = []\<rparr> = []" "t = w @ u"
        with Nil Cons show "runs r \<lparr>ms_before = rev w @ b, ms_after = u, ms_groups = []\<rparr> = []" by (cases w) auto
      next
        fix w u assume all: "\<forall>w u. t = w @ u \<longrightarrow> runs r \<lparr>ms_before = rev w @ b, ms_after = u, ms_groups = []\<rparr> = []" and "t' = w @ u"
        with Cons have "t = (c # w) @ u" by simp
        with all have "runs r \<lparr>ms_before = rev (c # w) @ b, ms_after = u, ms_groups = []\<rparr> = []" by blast
        then show "runs r \<lparr>ms_before = rev w @ c # b, ms_after = u, ms_groups = []\<rparr> = []" by simp
      qed
      finally show ?thesis .
    qed
  qed
qed

lemma rx_search_None:
  "rx_search r t = None \<longleftrightarrow> (\<forall>w u. t = w @ u \<longrightarrow> runs r \<lparr>ms_before = rev w, ms_after = u, ms_groups = []\<rparr> = [])"
  by (simp add: rx_search_def search_from_None)

lemma search_from_skip:
  assumes "\<And>w u. pre = w @ u \<Longrightarrow> u \<noteq> [] \<Longrightarrow> runs r \<lparr>ms_before = rev w @ b, ms_after = u @ t, ms_groups = []\<rparr> = []"
  shows "search_from r b (pre @ t) = search_from r (rev pre @ b) t"
  using assms
proof (induction pre arbitrary: b)
  case (Cons c pre)
  have "runs r \<lparr>ms_before = b, ms_after = (c # pre) @ t, ms_groups = []\<rparr> = []" using Cons.prems [of "[]" "c # pre"] by simp
  then have "search_from r b ((c # pre) @ t) = search_from r (c # b) (pre @ t)" by (subst search_from.simps) simp
  also have "\<dots> = search_from r (rev pre @ c # b) t"
  proof (rule Cons.IH)
    fix w u assume "pre = w @ u" "u \<noteq> []"
    then show "runs r \<lparr>ms_before = rev w @ c # b, ms_after = u @ t, ms_groups = []\<rparr> = []" using Cons.prems [of "c # w" u] by simp
  qed
  finally show ?case by simp
qed simp

text \<open>A text of lines: a pattern that stays inside a line matches it only where it matches one of the lines.\<close>

lemma join_split:
  "join [newline] ls = w @ u \<Longrightarrow> ls \<noteq> [] \<Longrightarrow>
     \<exists>l \<in> set ls. \<exists>a c v x. l = a @ c \<and> w = v @ a \<and> u = c @ x \<and> edge (rev v) \<and> edge x"
proof (induction ls arbitrary: w)
  case (Cons l ls)
  show ?case
  proof (cases ls)
    case Nil
    with Cons.prems show ?thesis by (intro bexI [of _ l] exI [of _ w] exI [of _ u] exI [of _ "[]"]) (simp_all add: edge_def)
  next
    case (Cons l' ls')
    with Cons.prems have "l @ newline # join [newline] ls = w @ u" by simp
    then consider c where "l = w @ c" "u = c @ newline # join [newline] ls"
      | w' where "w = l @ newline # w'" "join [newline] ls = w' @ u"
      by (auto simp: append_eq_append_conv2 Cons_eq_append_conv)
    then show ?thesis
    proof cases
      case 1
      then show ?thesis
        by (intro bexI [of _ l] exI [of _ w] exI [of _ c] exI [of _ "[]"] exI [of _ "newline # join [newline] ls"]) (simp_all add: edge_def)
    next
      case 2
      with Cons.IH [of w'] Cons obtain l2 a c v x where l2: "l2 \<in> set ls" "l2 = a @ c" "w' = v @ a" "u = c @ x" "edge (rev v)" "edge x"
        by blast
      have "edge (rev (l @ newline # v))" using l2(5) by (cases "rev v") (auto simp: edge_def)
      with l2 2(1) show ?thesis
        by (intro bexI [of _ l2] exI [of _ a] exI [of _ c] exI [of _ "l @ newline # v"] exI [of _ x]) simp_all
    qed
  qed
qed simp

lemma search_in_lines:
  assumes "in_line r" and "ls \<noteq> []" and "rx_search r (join [newline] ls) \<noteq> None"
  shows "\<exists>l \<in> set ls. rx_search r l \<noteq> None"
proof -
  from assms(3) obtain w u where wu: "join [newline] ls = w @ u"
    and m: "runs r \<lparr>ms_before = rev w, ms_after = u, ms_groups = []\<rparr> \<noteq> []" unfolding rx_search_None by blast
  from join_split [OF wu assms(2)] obtain l a c v x where l: "l \<in> set ls" "l = a @ c" "w = v @ a" "u = c @ x" "edge (rev v)" "edge x"
    by blast
  have "\<lparr>ms_before = rev w, ms_after = u, ms_groups = []\<rparr> = extend (rev v) x \<lparr>ms_before = rev a, ms_after = c, ms_groups = []\<rparr>"
    using l by (simp add: extend_def)
  with m runs_extend [OF l(5,6) assms(1)] have "runs r \<lparr>ms_before = rev a, ms_after = c, ms_groups = []\<rparr> \<noteq> []" by simp
  with l(1,2) show ?thesis unfolding rx_search_None by blast
qed

section \<open>Literals and greedy classes\<close>

lemma runs_lit: "runs (lit w) s = ok_if (prefix w (ms_after s)) (advance (length w) s)"
proof (induction w arbitrary: s)
  case Nil
  then show ?case by (simp add: lit_def ok_if_def advance_def)
next
  case (Cons c w)
  have unf: "lit (c # w) = Cat (Cls ((=) c)) (lit w)" by (simp add: lit_def)
  show ?case
  proof (cases "ms_after s")
    case Nil
    then show ?thesis by (simp add: unf ok_if_def)
  next
    case (Cons x a)
    then show ?thesis by (simp add: unf ok_if_def Cons.IH advance_def)
  qed
qed

lemma repeats_class_first:
  "length (ms_after s) \<le> n \<Longrightarrow>
     \<exists>rest. repeats True (runs (Cls p)) n s = advance (length (takeWhile p (ms_after s))) s # rest"
proof (induction n arbitrary: s)
  case 0
  then show ?case by (simp add: advance_def)
next
  case (Suc n)
  show ?case
  proof (cases "ms_after s")
    case Nil
    then show ?thesis by (simp add: advance_def)
  next
    case (Cons c a)
    show ?thesis
    proof (cases "p c")
      case True
      have "length (ms_after (advance 1 s)) \<le> n" using Suc.prems Cons by (simp add: advance_def)
      from Suc.IH [OF this] obtain rest where
        "repeats True (runs (Cls p)) n (advance 1 s) = advance (length (takeWhile p (ms_after (advance 1 s)))) (advance 1 s) # rest" ..
      moreover have "advance (length (takeWhile p (ms_after (advance 1 s)))) (advance 1 s) = advance (length (takeWhile p (ms_after s))) s"
        using Cons True by (simp add: advance_def)
      moreover have "length (ms_after (advance 1 s)) < length (ms_after s)" using Cons by (simp add: advance_def)
      moreover have "runs (Cls p) s = [advance 1 s]" using Cons True by (simp add: ok_if_def)
      ultimately show ?thesis by (simp only: repeats.simps Let_def if_True filter.simps list.map concat.simps append_Nil2 append_Cons) blast
    next
      case False
      then show ?thesis using Cons by (simp add: ok_if_def advance_def)
    qed
  qed
qed

lemma plus_class_first:
  assumes "ms_after s = c # a" and "p c"
  shows "\<exists>rest. runs (plus1 (Cls p)) s = advance (length (takeWhile p (ms_after s))) s # rest"
proof -
  have "runs (plus1 (Cls p)) s = repeats True (runs (Cls p)) (length a) (advance 1 s)"
    using assms by (simp add: plus1_def ok_if_def advance_def)
  also obtain rest where "\<dots> = advance (length (takeWhile p (ms_after (advance 1 s)))) (advance 1 s) # rest"
    using repeats_class_first [of "advance 1 s" "length a" p] assms(1) by (auto simp: advance_def)
  also have "advance (length (takeWhile p (ms_after (advance 1 s)))) (advance 1 s) = advance (length (takeWhile p (ms_after s))) s"
    using assms by (simp add: advance_def)
  finally show ?thesis by blast
qed

text \<open>What a match of the basic patterns has consumed.\<close>

lemma repeats_step:
  assumes "t \<in> set (repeats greedy f (Suc n) s)"
  obtains "t = s" | u where "u \<in> set (f s)" "t \<in> set (repeats greedy f n u)"
  using assms by (auto simp: Let_def split: if_splits)

lemma repeats_class_sound:
  "t \<in> set (repeats greedy (runs (Cls p)) n s) \<Longrightarrow>
     \<exists>w. ms_after s = w @ ms_after t \<and> (\<forall>c \<in> set w. p c) \<and> ms_groups t = ms_groups s"
proof (induction n arbitrary: s)
  case (Suc n)
  show ?case
  proof (cases "t = s")
    case False
    with Suc.prems obtain u where u: "u \<in> set (runs (Cls p) s)" "t \<in> set (repeats greedy (runs (Cls p)) n u)"
      by (blast elim: repeats_step)
    from u(1) obtain c a where c: "ms_after s = c # a" "p c" "u = advance 1 s" by (cases "ms_after s") simp_all
    from Suc.IH [OF u(2)] obtain w where "ms_after u = w @ ms_after t" "\<forall>c \<in> set w. p c" "ms_groups t = ms_groups u" by blast
    with c show ?thesis by (intro exI [of _ "c # w"]) (simp add: advance_def)
  qed simp
qed simp

lemma star_class_sound:
  assumes "t \<in> set (runs (Star greedy (Cls p)) s)"
  obtains w where "ms_after s = w @ ms_after t" "\<forall>c \<in> set w. p c" "ms_groups t = ms_groups s"
  using repeats_class_sound assms by (metis runs.simps(5))

lemma lit_sound: "t \<in> set (runs (lit w) s) \<Longrightarrow> ms_after s = w @ ms_after t \<and> ms_groups t = ms_groups s"
  by (auto simp: runs_lit advance_def prefix_def)

lemma plus_class_sound:
  assumes "t \<in> set (runs (plus1 (Cls p)) s)"
  obtains w where "ms_after s = w @ ms_after t" "w \<noteq> []" "\<forall>c \<in> set w. p c" "ms_groups t = ms_groups s"
proof -
  from assms obtain u where u: "u \<in> set (runs (Cls p) s)" "t \<in> set (runs (Star True (Cls p)) u)" by (auto simp: plus1_def)
  from u(1) obtain c a where c: "ms_after s = c # a" "p c" "u = advance 1 s" by (cases "ms_after s") simp_all
  from u(2) obtain w where "ms_after u = w @ ms_after t" "\<forall>c \<in> set w. p c" "ms_groups t = ms_groups u" by (rule star_class_sound)
  with c show thesis by (intro that [of "c # w"]) (simp_all add: advance_def)
qed

lemma first_Some: "first xs = Some x \<Longrightarrow> x \<in> set xs"
  by (cases xs) (simp_all add: first_def)

lemma splitlines_Nil [simp]: "splitlines [] = []"
  by (subst splitlines.simps) simp

lemma splitlines_step:
  "t \<noteq> [] \<Longrightarrow> splitlines t = takeWhile (\<lambda>c. \<not> line_break c) t # splitlines (after_break (dropWhile (\<lambda>c. \<not> line_break c) t))"
  by (subst splitlines.simps) (simp only: if_False)

lemma lines_of: "l \<in> set (splitlines t) \<Longrightarrow> \<forall>c \<in> set l. \<not> line_break c"
proof (induction t rule: splitlines.induct)
  case (1 t)
  then have "t \<noteq> []" by auto
  from 1(2) consider "l = takeWhile (\<lambda>c. \<not> line_break c) t"
    | "l \<in> set (splitlines (after_break (dropWhile (\<lambda>c. \<not> line_break c) t)))"
    unfolding splitlines_step [OF \<open>t \<noteq> []\<close>] by auto
  then show ?case
  proof cases
    case 1
    then show ?thesis by (auto dest: set_takeWhileD)
  next
    case 2
    then show ?thesis by (rule 1(1) [OF \<open>t \<noteq> []\<close>])
  qed
qed

lemma splitlines_line:
  assumes "t \<noteq> []" and "\<forall>c \<in> set t. \<not> line_break c"
  shows "splitlines t = [t]"
proof -
  have "takeWhile (\<lambda>c. \<not> line_break c) t = t" "dropWhile (\<lambda>c. \<not> line_break c) t = []" using assms(2) by simp_all
  moreover have "after_break [] = []" by (simp add: after_break_def)
  ultimately show ?thesis unfolding splitlines_step [OF assms(1)] by (simp only: splitlines_Nil)
qed

lemma glob_plain_star:
  assumes "\<forall>c \<in> set w. c \<notin> {CHR ''*'', CHR ''?'', CHR ''[''}"
  shows "glob (w @ ''*'') t = prefix w t"
  using assms
proof (induction w arbitrary: t)
  case Nil
  have "glob ''*'' t" by (induction t) (simp_all add: glob.simps)
  then show ?case by simp
next
  case (Cons c w)
  then show ?case by (cases t) (auto simp: glob.simps(2))
qed

end
