(* ===== verification/Celery_Topology.thy ===== *)
theory Celery_Topology
  imports Regex Celery_Runtime
begin

text \<open>
  \<open>testing/celery_topology.py\<close>: the checks a service runs on its own repository so that no queue is left without a
  worker and no route without a task. The start-command script is a text; its \<open>re\<close> patterns are values of \<open>rx\<close>. The
  tasks a module registers when it is imported are an argument.
\<close>

section \<open>The start command\<close>

definition START_COMMAND_FILES :: "string list" where
  "START_COMMAND_FILES = [''deploy.sh'', ''docker-entrypoint.sh'']"

definition SHARED_DEFAULT_QUEUE :: string where
  "SHARED_DEFAULT_QUEUE = ''celery''"

definition WORKER :: rx where
  "WORKER = cats [Word_Boundary, lit ''celery'', Word_Boundary, Star False (Cls (\<lambda>c. c \<noteq> newline)),
                  Word_Boundary, lit ''worker'', Word_Boundary]"

definition equals_or_space :: "char \<Rightarrow> bool" where
  "equals_or_space c = (c = CHR ''='' \<or> is_space c)"

definition option_value :: "string \<Rightarrow> rx" where
  "option_value flag = cats [lit flag, plus1 (Cls equals_or_space), Group 1 (plus1 (Cls (\<lambda>c. \<not> is_space c)))]"

definition Q_SHORT :: rx where
  "Q_SHORT = option_value ''-Q''"

definition Q_LONG :: rx where
  "Q_LONG = option_value ''--queues''"

definition SHELL_VAR :: rx where
  "SHELL_VAR = cats [Text_Start, lit ''$'', opt (lit ''{''), Group 1 (plus1 (Cls word_char)), opt (lit ''}''), Text_End_Newline]"

text \<open>\<open>CeleryTopologyError\<close> with the cause, and the \<open>AssertionError\<close>s of the checks with what they name.\<close>

datatype topology_failure =
    No_Start_Command
  | No_Worker "string list"
  | Unparsed string "string list"
  | No_Queues string
  | No_Tasks
  | Default_Not_Consumed string
  | Shared_Consumed
  | Shared_Default
  | Unmatched_Routes "string set"
  | Orphan_Beat "(string \<times> string) list"
  | Unbounded_Beat "string list"
  | Short_Expiry string

definition comment_line :: "string \<Rightarrow> bool" where
  "comment_line line = prefix ''#'' (lstrip line)"

definition logical_lines :: "string \<Rightarrow> string list" where
  "logical_lines text =
     (let stripped = join [newline] (filter (\<lambda>line. \<not> comment_line line) (splitlines text))
      in filter (\<lambda>ln. strip ln \<noteq> []) (splitlines (replace_upto None [CHR 0x5C, newline] '' '' stripped)))"

definition quote_char :: "char \<Rightarrow> bool" where
  "quote_char c = (c = CHR 0x22 \<or> c = CHR 0x27)"

definition assignment :: "string \<Rightarrow> rx" where
  "assignment name =
     cats [Line_Start, Star True (Cls is_space), lit name, lit ''='', opt (Cls quote_char),
           Group 1 (plus1 (Cls (\<lambda>c. \<not> quote_char c \<and> c \<noteq> newline))), opt (Cls quote_char)]"

definition resolve_variable :: "string \<Rightarrow> string \<Rightarrow> string option" where
  "resolve_variable name text = map_option (\<lambda>m. strip (group_text 1 m)) (rx_search (assignment name) text)"

text \<open>\<open>value.strip().strip("\"'")\<close>\<close>

definition strip_quotes :: "string \<Rightarrow> string" where
  "strip_quotes v = rev (dropWhile quote_char (rev (dropWhile quote_char v)))"

definition named_queues :: "string \<Rightarrow> string set" where
  "named_queues v = set (map strip (filter (\<lambda>q. strip q \<noteq> [] \<and> CHR ''$'' \<notin> set q) (split_char CHR '','' v)))"

definition queues_from_value :: "string \<Rightarrow> string \<Rightarrow> string set" where
  "queues_from_value v text =
     (let v = strip_quotes (strip v) in
      case rx_match SHELL_VAR v of
        None \<Rightarrow> named_queues v
      | Some var \<Rightarrow>
          (case resolve_variable (group_text 1 var) text of
             None \<Rightarrow> {}
           | Some resolved \<Rightarrow> named_queues (strip_quotes (strip resolved))))"

text \<open>A repository: the text of each of its files.\<close>

type_synonym repo_files = "string \<Rightarrow> string option"

definition starts_worker :: "string \<Rightarrow> bool" where
  "starts_worker text = (rx_search WORKER (join [newline] (logical_lines text)) \<noteq> None)"

definition start_command_file :: "repo_files \<Rightarrow> topology_failure + string" where
  "start_command_file files =
     (let existing = filter (\<lambda>n. files n \<noteq> None) START_COMMAND_FILES in
      if existing = [] then Inl No_Start_Command
      else case filter (\<lambda>n. starts_worker (the (files n))) existing of
             n # _ \<Rightarrow> Inr n
           | [] \<Rightarrow> Inl (No_Worker existing))"

definition worker_line :: "string \<Rightarrow> bool" where
  "worker_line line = (rx_search WORKER line \<noteq> None)"

definition line_queues :: "string \<Rightarrow> string \<Rightarrow> string set" where
  "line_queues text line =
     (\<Union>pattern \<in> {Q_SHORT, Q_LONG}. \<Union>raw \<in> set (rx_findall pattern line). queues_from_value raw text)"

text \<open>The loop over the lines: the queues read so far and the lines that name none.\<close>

fun scan_lines :: "string \<Rightarrow> string list \<Rightarrow> string set \<times> string list \<Rightarrow> string set \<times> string list" where
  "scan_lines text [] acc = acc"
| "scan_lines text (line # lines) (queues, unparsed) =
     (if \<not> worker_line line then scan_lines text lines (queues, unparsed)
      else let found = line_queues text line in
           if found \<noteq> {} then scan_lines text lines (queues \<union> found, unparsed)
           else scan_lines text lines (queues, unparsed @ [strip line]))"

definition consumed_queues :: "repo_files \<Rightarrow> topology_failure + string set" where
  "consumed_queues files =
     (case start_command_file files of
        Inl e \<Rightarrow> Inl e
      | Inr n \<Rightarrow>
          (let text = the (files n) in
           case scan_lines text (logical_lines text) ({}, []) of
             (queues, unparsed) \<Rightarrow>
               if unparsed \<noteq> [] then Inl (Unparsed n unparsed)
               else if queues = {} then Inl (No_Queues n)
               else Inr queues))"

section \<open>The app\<close>

text \<open>
  The app after \<open>create_celery_app\<close>: its configuration, its task registry and its schedule, whose entries are read by
  their queue, expiry and interval (\<open>None\<close> for a crontab).
\<close>

record beat_entry =
  bt_queue :: "string option"
  bt_expires :: "rat option"
  bt_interval :: "rat option"

record celery_app =
  ap_conf :: "(string, json) dict"
  ap_tasks :: "string list"
  ap_beat :: "(string \<times> beat_entry) list"

text \<open>\<open>imports m\<close> are the task names that importing module \<open>m\<close> registers, or the exception it raises.\<close>

fun import_modules :: "(json \<Rightarrow> string list res) \<Rightarrow> json list \<Rightarrow> string list \<Rightarrow> string list res" where
  "import_modules imports [] tasks = Inr tasks"
| "import_modules imports (m # ms) tasks =
     (case imports m of Inl e \<Rightarrow> Inl e | Inr ts \<Rightarrow> import_modules imports ms (tasks @ ts))"

definition included :: "celery_app \<Rightarrow> json list" where
  "included app = (case dict_get (ap_conf app) ''include'' of Some (JList ms) \<Rightarrow> ms | _ \<Rightarrow> [])"

definition registered_task_names :: "(json \<Rightarrow> string list res) \<Rightarrow> celery_app \<Rightarrow> string set res" where
  "registered_task_names imports app =
     (case import_modules imports (included app) (ap_tasks app) of
        Inl e \<Rightarrow> Inl e
      | Inr tasks \<Rightarrow> Inr (set (filter (\<lambda>n. \<not> prefix ''celery.'' n) tasks)))"

definition route_patterns :: "celery_app \<Rightarrow> string set" where
  "route_patterns app = (case dict_get (ap_conf app) ''task_routes'' of Some (JDict d) \<Rightarrow> set (map fst d) | _ \<Rightarrow> {})"

definition unmatched_route_patterns :: "(json \<Rightarrow> string list res) \<Rightarrow> celery_app \<Rightarrow> string set res" where
  "unmatched_route_patterns imports app =
     (case registered_task_names imports app of
        Inl e \<Rightarrow> Inl e
      | Inr names \<Rightarrow> Inr {p \<in> route_patterns app. \<not> (\<exists>n \<in> names. fnmatchcase n p)})"

definition default_queue :: "(json \<Rightarrow> string) \<Rightarrow> celery_app \<Rightarrow> string" where
  "default_queue str_of app =
     (case dict_get (ap_conf app) ''task_default_queue'' of None \<Rightarrow> SHARED_DEFAULT_QUEUE | Some (JStr q) \<Rightarrow> q | Some v \<Rightarrow> str_of v)"

section \<open>The checks\<close>

text \<open>A check passes, fails with an assertion, or ends with an exception of an import.\<close>

datatype verdict = Passes | Fails topology_failure | Raises exn

definition check_if :: "bool \<Rightarrow> topology_failure \<Rightarrow> verdict" where
  "check_if b f = (if b then Passes else Fails f)"

definition with_consumed :: "repo_files \<Rightarrow> (string set \<Rightarrow> verdict) \<Rightarrow> verdict" where
  "with_consumed files k = (case consumed_queues files of Inl f \<Rightarrow> Fails f | Inr qs \<Rightarrow> k qs)"

definition assert_topology_is_readable :: "(json \<Rightarrow> string list res) \<Rightarrow> celery_app \<Rightarrow> repo_files \<Rightarrow> verdict" where
  "assert_topology_is_readable imports app files =
     with_consumed files (\<lambda>_. case registered_task_names imports app of Inl e \<Rightarrow> Raises e | Inr names \<Rightarrow> check_if (names \<noteq> {}) No_Tasks)"

definition assert_default_queue_is_consumed :: "(json \<Rightarrow> string) \<Rightarrow> celery_app \<Rightarrow> repo_files \<Rightarrow> verdict" where
  "assert_default_queue_is_consumed str_of app files =
     with_consumed files (\<lambda>qs. check_if (default_queue str_of app \<in> qs) (Default_Not_Consumed (default_queue str_of app)))"

definition assert_no_service_consumes_the_shared_queue :: "(json \<Rightarrow> string) \<Rightarrow> celery_app \<Rightarrow> repo_files \<Rightarrow> verdict" where
  "assert_no_service_consumes_the_shared_queue str_of app files =
     with_consumed files (\<lambda>qs.
       if SHARED_DEFAULT_QUEUE \<in> qs then Fails Shared_Consumed
       else check_if (default_queue str_of app \<noteq> SHARED_DEFAULT_QUEUE) Shared_Default)"

definition assert_every_route_matches_a_task :: "(json \<Rightarrow> string list res) \<Rightarrow> celery_app \<Rightarrow> verdict" where
  "assert_every_route_matches_a_task imports app =
     (case unmatched_route_patterns imports app of Inl e \<Rightarrow> Raises e | Inr ps \<Rightarrow> check_if (ps = {}) (Unmatched_Routes ps))"

definition beat_queue :: "beat_entry \<Rightarrow> string" where
  "beat_queue e = (case bt_queue e of Some q \<Rightarrow> q | None \<Rightarrow> [])"

definition assert_every_beat_entry_targets_a_consumed_queue :: "celery_app \<Rightarrow> repo_files \<Rightarrow> verdict" where
  "assert_every_beat_entry_targets_a_consumed_queue app files =
     with_consumed files (\<lambda>qs.
       let orphans = filter (\<lambda>(_, e). beat_queue e \<noteq> [] \<and> beat_queue e \<notin> qs) (ap_beat app)
       in check_if (orphans = []) (Orphan_Beat (map (\<lambda>(n, e). (n, beat_queue e)) orphans)))"

definition assert_every_beat_entry_sets_expires :: "celery_app \<Rightarrow> verdict" where
  "assert_every_beat_entry_sets_expires app =
     (let unbounded = map fst (filter (\<lambda>(_, e). bt_expires e = None) (ap_beat app)) in check_if (unbounded = []) (Unbounded_Beat unbounded))"

fun assert_expires_in :: "(string \<times> beat_entry) list \<Rightarrow> verdict" where
  "assert_expires_in [] = Passes"
| "assert_expires_in ((name, e) # es) =
     (case (bt_expires e, bt_interval e) of
        (Some x, Some i) \<Rightarrow> if x \<ge> i then assert_expires_in es else Fails (Short_Expiry name)
      | _ \<Rightarrow> assert_expires_in es)"

definition assert_expires_is_not_shorter_than_the_interval :: "celery_app \<Rightarrow> verdict" where
  "assert_expires_is_not_shorter_than_the_interval app = assert_expires_in (ap_beat app)"

section \<open>Lemmas\<close>

lemma scan_lines_eq:
  "scan_lines text lines (queues, unparsed) =
     (queues \<union> (\<Union>l \<in> set (filter worker_line lines). line_queues text l),
      unparsed @ map strip (filter (\<lambda>l. line_queues text l = {}) (filter worker_line lines)))"
  by (induction lines arbitrary: queues unparsed) (auto simp: Let_def)

lemma line_queues_union:
  "line_queues text line = (\<Union>raw \<in> set (rx_findall Q_SHORT line) \<union> set (rx_findall Q_LONG line). queues_from_value raw text)"
  by (simp only: line_queues_def UN_insert UN_empty UN_Un Un_empty_right)

lemma in_line_lit: "newline \<notin> set w \<Longrightarrow> in_line (lit w)"
  by (induction w) (auto simp: lit_def)

lemma in_line_WORKER: "in_line WORKER"
  by (simp add: WORKER_def cats_def in_line_lit newline_def)

lemma WORKER_Nil: "rx_search WORKER [] = None"
  by (simp add: rx_search_None WORKER_def cats_def runs_lit ok_if_def word_at_def)

lemma starts_worker_line: "starts_worker text \<Longrightarrow> \<exists>l \<in> set (logical_lines text). worker_line l"
  unfolding starts_worker_def worker_line_def
  using search_in_lines [OF in_line_WORKER, of "logical_lines text"] WORKER_Nil by (cases "logical_lines text") auto

lemma start_command_fileD:
  assumes "start_command_file files = Inr n"
  shows "\<exists>text. files n = Some text \<and> starts_worker text"
proof -
  let ?ns = "filter (\<lambda>n. starts_worker (the (files n))) (filter (\<lambda>n. files n \<noteq> None) START_COMMAND_FILES)"
  from assms obtain ns where "?ns = n # ns"
    unfolding start_command_file_def Let_def by (cases ?ns) (simp_all split: if_splits)
  then have "n \<in> set ?ns" by simp
  then show ?thesis by auto
qed

lemma option_value_no_flag:
  "\<not> prefix flag u \<Longrightarrow> runs (option_value flag) \<lparr>ms_before = b, ms_after = u, ms_groups = g\<rparr> = []"
  by (simp add: option_value_def cats_def runs_lit ok_if_def)

lemma option_value_absent: "c \<notin> set t \<Longrightarrow> search_from (option_value (c # flag)) b t = None"
  unfolding search_from_None by (auto intro!: option_value_no_flag simp: prefix_def)

text \<open>A command that ends in a blank and does not contain a flag is skipped by the search for the flag.\<close>

lemma flag_not_in_command:
  assumes "\<not> sublist flag cmd" and "cmd = w @ u" and "u \<noteq> []" and "last cmd \<notin> set flag"
  shows "\<not> prefix flag (u @ t)"
proof
  assume "prefix flag (u @ t)"
  then consider "prefix flag u" | "prefix u flag" by (metis prefix_same_cases prefixI)
  then show False
  proof cases
    case 1
    then have "sublist flag cmd" unfolding assms(2) by (auto simp: prefix_def sublist_def)
    with assms(1) show False ..
  next
    case 2
    then have "last cmd \<in> set flag" using assms(2,3) by (auto simp: prefix_def)
    with assms(4) show False ..
  qed
qed

lemma skip_command:
  assumes "\<not> sublist flag cmd" and "last cmd \<notin> set flag"
  shows "search_from (option_value flag) [] (cmd @ t) = search_from (option_value flag) (rev cmd) t"
  using search_from_skip [of cmd "option_value flag" "[]" t] option_value_no_flag flag_not_in_command [OF assms(1) _ _ assms(2)]
  by simp

lemma findall_option_value:
  assumes "search_from (option_value flag) [] t = search_from (option_value flag) b (flag @ sep # v)"
    and "flag \<noteq> []" and "equals_or_space sep" and "v \<noteq> []" and "\<forall>c \<in> set v. \<not> equals_or_space c"
  shows "rx_findall (option_value flag) t = [v]"
proof -
  let ?s = "\<lparr>ms_before = b, ms_after = flag @ sep # v, ms_groups = []\<rparr>"
  let ?s1 = "advance (length flag) ?s" and ?s2 = "advance (length (flag @ [sep])) ?s" and ?s3 = "advance (length (flag @ sep # v)) ?s"
  let ?m = "?s3\<lparr>ms_groups := [(1, v)]\<rparr>"
  have tw: "takeWhile equals_or_space (sep # v) = [sep]" using assms(3-5) by (cases v) auto
  have "ms_after ?s1 = sep # v" by (simp add: advance_def)
  from plus_class_first [OF this, of equals_or_space] assms(3) tw obtain r1 where
    r1: "runs (plus1 (Cls equals_or_space)) ?s1 = ?s2 # r1" by (auto simp: advance_def)
  obtain x y where v: "v = x # y" using assms(4) by (cases v) auto
  have after2: "ms_after ?s2 = v" by (simp add: advance_def)
  have tv: "takeWhile (\<lambda>c. \<not> is_space c) v = v" "\<not> is_space x" using assms(5) v by (auto simp: equals_or_space_def)
  have s23: "advance (length v) ?s2 = ?s3" by (simp add: advance_def)
  obtain r2 where r2: "runs (plus1 (Cls (\<lambda>c. \<not> is_space c))) ?s2 = ?s3 # r2"
    using plus_class_first [OF trans [OF after2 v], of "\<lambda>c. \<not> is_space c", unfolded after2 tv(1) s23] tv(2) by blast
  have "runs (option_value flag) ?s = concat (map (runs (Cat (Group 1 (plus1 (Cls (\<lambda>c. \<not> is_space c)))) Eps)) (?s2 # r1))"
    using r1 by (simp add: option_value_def cats_def runs_lit ok_if_def)
  then obtain rest where run: "runs (option_value flag) ?s = ?m # rest"
    using r2 after2 by (simp add: advance_def)
  have "search_from (option_value flag) [] t = Some (?s, ?m)"
    unfolding assms(1) by (subst search_from.simps) (simp only: Let_def run list.case)
  moreover have "search_from (option_value flag) (ms_before ?m) [] = None"
    unfolding search_from_None using assms(2) by (auto intro!: option_value_no_flag)
  moreover have "ms_after ?m = []" "group_text 1 ?m = v" by (simp_all add: advance_def group_text_def)
  ultimately show ?thesis unfolding rx_findall_def
    by (subst findall_from.simps) (simp add: findall_from.simps [of _ _ "[]"])
qed

text \<open>A script of one line.\<close>

lemma replace_no_newline: "newline \<notin> set t \<Longrightarrow> replace_upto None [c, newline] new t = t"
  by (induction t) (auto simp: prefix_def)

lemma logical_lines_single:
  assumes "strip t \<noteq> []" and "\<forall>c \<in> set t. \<not> line_break c" and "\<not> comment_line t"
  shows "logical_lines t = [t]"
proof -
  have "newline \<notin> set t" using assms(2) by (auto simp: newline_def line_break_def)
  moreover have "t \<noteq> []" using assms(1) by (auto simp: strip_def)
  ultimately show ?thesis using assms splitlines_line [OF \<open>t \<noteq> []\<close> assms(2)]
    by (simp add: logical_lines_def replace_no_newline)
qed

lemma dropWhile_none: "\<forall>c \<in> set v. \<not> P c \<Longrightarrow> dropWhile P v = v"
  by (cases v) simp_all

lemma strip_kept: "\<forall>c \<in> set v. \<not> is_space c \<Longrightarrow> strip v = v"
  by (simp add: strip_def dropWhile_none)

lemma strip_nonempty:
  assumes "c \<in> set t" and "\<not> is_space c"
  shows "strip t \<noteq> []"
proof
  assume "strip t = []"
  then have "\<forall>c \<in> set (dropWhile is_space t). is_space c" by (simp add: strip_def)
  then have "dropWhile is_space t = []" by (metis hd_dropWhile list.set_sel(1))
  with assms show False by simp
qed

lemma not_comment_append:
  assumes "\<not> comment_line cmd" and "rest \<noteq> []" and "hd rest = CHR ''-''"
  shows "\<not> comment_line (cmd @ rest)"
proof (cases "\<forall>c \<in> set cmd. is_space c")
  case True
  then have "lstrip (cmd @ rest) = rest" using assms(2,3) by (cases rest) (simp_all add: lstrip_def is_space_def)
  then show ?thesis using assms(2,3) by (cases rest) (simp_all add: comment_line_def)
next
  case False
  then have "lstrip (cmd @ rest) = lstrip cmd @ rest" "lstrip cmd \<noteq> []" by (auto simp: lstrip_def dropWhile_append1)
  then show ?thesis using assms(1) by (cases "lstrip cmd") (simp_all add: comment_line_def)
qed

lemma strip_quotes_kept: "\<forall>c \<in> set v. \<not> quote_char c \<Longrightarrow> strip_quotes v = v"
  by (simp add: strip_quotes_def dropWhile_none)

lemma set_join: "set (join sep xs) \<subseteq> set sep \<union> (\<Union>x \<in> set xs. set x)"
proof (induction xs)
  case (Cons x xs)
  then show ?case by (cases xs) auto
qed simp

lemma join_nonempty: "xs \<noteq> [] \<Longrightarrow> (\<And>x. x \<in> set xs \<Longrightarrow> x \<noteq> []) \<Longrightarrow> join sep xs \<noteq> []"
  by (cases xs; cases "tl xs") simp_all

definition plain_queue :: "string \<Rightarrow> bool" where
  "plain_queue q = (q \<noteq> [] \<and> list_all name_char q)"

lemma name_char_plain:
  assumes "name_char c \<or> c = CHR '',''"
  shows "\<not> is_space c" "\<not> quote_char c" "\<not> line_break c" "c \<noteq> CHR ''$''" "c \<noteq> CHR ''-''" "c \<noteq> CHR ''=''" "\<not> equals_or_space c"
  using assms by (auto simp: name_char_def lower_letter_def is_digit_def is_space_def quote_char_def line_break_def equals_or_space_def Let_def)

lemma join_queues_chars:
  assumes "\<forall>q \<in> set qs. plain_queue q"
  shows "\<forall>c \<in> set (join '','' qs). name_char c \<or> c = CHR '',''"
  using set_join [of "'',''" qs] assms by (fastforce simp: plain_queue_def list_all_iff)

lemma join_queues_plain:
  assumes "\<forall>q \<in> set qs. plain_queue q" and "c \<in> set (join '','' qs)"
  shows "\<not> is_space c" "\<not> quote_char c" "\<not> line_break c" "c \<noteq> CHR ''$''" "c \<noteq> CHR ''-''" "\<not> equals_or_space c"
  using name_char_plain [OF bspec [OF join_queues_chars [OF assms(1)] assms(2)]] by blast+

lemma plain_queue_kept:
  assumes "plain_queue q"
  shows "strip q = q" "q \<noteq> []" "CHR ''$'' \<notin> set q" "CHR '','' \<notin> set q"
proof -
  have c: "name_char c" if "c \<in> set q" for c using assms that by (simp add: plain_queue_def list_all_iff)
  then have "\<forall>c \<in> set q. \<not> is_space c" by (blast dest: name_char_plain(1) [OF disjI1])
  then show "strip q = q" by (rule strip_kept)
  show "q \<noteq> []" using assms by (simp add: plain_queue_def)
  have "\<not> name_char CHR ''$''" "\<not> name_char CHR '',''" by (simp_all add: name_char_def lower_letter_def is_digit_def)
  with c show "CHR ''$'' \<notin> set q" "CHR '','' \<notin> set q" by blast+
qed

lemma queue_list_value:
  assumes "qs \<noteq> []" and "\<forall>q \<in> set qs. plain_queue q"
  shows "queues_from_value (join '','' qs) text = set qs"
proof -
  let ?v = "join '','' qs"
  note plain = join_queues_plain [OF assms(2)]
  have "strip ?v = ?v" by (rule strip_kept) (blast dest: plain)
  moreover have "strip_quotes ?v = ?v" by (rule strip_quotes_kept) (blast dest: plain)
  ultimately have v: "strip_quotes (strip ?v) = ?v" by simp
  have "\<not> prefix ''$'' ?v" using plain(4) by (cases ?v) auto
  then have var: "rx_match SHELL_VAR ?v = None"
    by (simp add: rx_match_def SHELL_VAR_def cats_def at_start_def runs_lit ok_if_def first_def)
  have split: "split_char CHR '','' ?v = qs"
    using assms plain_queue_kept(4) by (intro split_char_join) blast+
  have "filter (\<lambda>q. strip q \<noteq> [] \<and> CHR ''$'' \<notin> set q) qs = qs"
    using assms(2) by (intro filter_True) (simp add: plain_queue_kept)
  moreover have "map strip qs = qs" using assms(2) by (intro map_idI) (simp add: plain_queue_kept)
  ultimately have "named_queues ?v = set qs" by (simp only: named_queues_def split)
  then show ?thesis by (simp only: queues_from_value_def Let_def v var option.case)
qed

text \<open>One flag is not found in the other.\<close>

lemma other_flag:
  assumes "\<not> sublist ''-Q'' cmd" and "\<not> sublist ''--queues'' cmd" and "last cmd = CHR '' ''" and "CHR ''-'' \<notin> set (sep # v)"
  shows "rx_findall Q_LONG (cmd @ ''-Q'' @ sep # v) = []" and "rx_findall Q_SHORT (cmd @ ''--queues'' @ sep # v) = []"
proof -
  have skip: "search_from (option_value f) [] (cmd @ t) = search_from (option_value f) (rev cmd) t" if "f \<in> {''-Q'', ''--queues''}" for f t
    using that assms(1-3) by (intro skip_command) auto
  have one: "search_from (option_value f) b (c # t) = search_from (option_value f) (c # b) t" if "\<not> prefix f (c # t)" for f b c t
    using option_value_no_flag [OF that] by (subst search_from.simps) simp
  show "rx_findall Q_LONG (cmd @ ''-Q'' @ sep # v) = []"
    using assms(4) by (simp add: rx_findall_def findall_from.simps [of _ "[]"] Q_LONG_def skip one option_value_absent)
  show "rx_findall Q_SHORT (cmd @ ''--queues'' @ sep # v) = []"
    using assms(4) by (simp add: rx_findall_def findall_from.simps [of _ "[]"] Q_SHORT_def skip one option_value_absent)
qed

lemma worker_line_found:
  "start_command_file files = Inr n \<Longrightarrow> files n = Some text \<Longrightarrow> \<exists>l \<in> set (logical_lines text). worker_line l"
  using start_command_fileD starts_worker_line by fastforce

lemma consumed_queues_eq:
  assumes "start_command_file files = Inr n" and "files n = Some text"
  shows "consumed_queues files =
      (if \<forall>l \<in> set (logical_lines text). worker_line l \<longrightarrow> line_queues text l \<noteq> {}
       then Inr (\<Union>l \<in> {l \<in> set (logical_lines text). worker_line l}. line_queues text l)
       else Inl (Unparsed n (map strip (filter (\<lambda>l. worker_line l \<and> line_queues text l = {}) (logical_lines text)))))"
proof -
  let ?bad = "filter (\<lambda>l. worker_line l \<and> line_queues text l = {}) (logical_lines text)"
  have bad: "filter (\<lambda>l. line_queues text l = {}) (filter worker_line (logical_lines text)) = ?bad" by (simp add: conj_commute)
  have scan: "scan_lines text (logical_lines text) ({}, []) =
      ((\<Union>l \<in> {l \<in> set (logical_lines text). worker_line l}. line_queues text l), map strip ?bad)"
    unfolding scan_lines_eq bad by simp
  show ?thesis
  proof (cases "\<forall>l \<in> set (logical_lines text). worker_line l \<longrightarrow> line_queues text l \<noteq> {}")
    case True
    then have "?bad = []" by (simp add: filter_empty_conv)
    moreover have "(\<Union>l \<in> {l \<in> set (logical_lines text). worker_line l}. line_queues text l) \<noteq> {}"
      using worker_line_found [OF assms] True by auto
    ultimately show ?thesis using True by (simp only: consumed_queues_def assms sum.case option.sel Let_def scan prod.case list.map) simp
  next
    case False
    then have "map strip ?bad \<noteq> []" by (simp add: filter_empty_conv)
    then show ?thesis using False by (simp only: consumed_queues_def assms sum.case option.sel Let_def scan prod.case) simp
  qed
qed

lemma factory_lookup:
  assumes "create_celery_app repr_of sock a = Inr conf" and "dict_ok (ca_extra_config a)"
    and "k \<in> {''task_routes'', ''task_default_queue''}" and "dict_get (ca_extra_config a) k = None"
  shows "dict_get conf k = dict_get (base_conf sock a) k"
proof -
  from assms(1) have ex: "apply_extra sock (ca_extra_config a) (optional_conf a (base_conf sock a)) = Inr conf"
    by (auto simp: create_celery_app_def split: if_splits option.splits sum.splits)
  have k: "k \<noteq> ''broker_transport_options''"
    "k \<notin> {''include'', ''beat_schedule'', ''task_annotations'', ''task_default_dead_letter_queue''}" using assms(3) by auto
  from apply_extra_lookup [OF ex assms(2) k(1)] assms(4) show ?thesis
    using optional_conf_other [of k a "base_conf sock a"] k(2) by simp
qed

lemma namespace_chars:
  assumes "create_celery_app repr_of sock a = Inr conf" and "ca_task_namespace a = Some ns"
  shows "\<forall>c \<in> set ns. c \<notin> {CHR ''*'', CHR ''?'', CHR ''[''}"
proof
  fix c assume c: "c \<in> set ns"
  from assms have "QUEUE_NAME ns"
    by (auto simp: create_celery_app_def validate_name_def split: if_splits option.splits sum.splits)
  from QUEUE_NAME_chars [OF this c] have "name_char c \<or> c = CHR 0x0A" by blast
  then show "c \<notin> {CHR ''*'', CHR ''?'', CHR ''[''}"
    by (auto simp: name_char_def lower_letter_def is_digit_def)
qed

lemma namespace_route:
  assumes "create_celery_app repr_of sock a = Inr conf" and "ca_task_namespace a = Some ns"
  shows "fnmatchcase name (ns @ ''.*'') = prefix (ns @ ''.'') name"
  using glob_plain_star [of "ns @ ''.''" name] namespace_chars [OF assms] by (simp add: fnmatchcase_def)

lemma check_passes: "check_if b f = Passes \<longleftrightarrow> b"
  by (simp add: check_if_def)

lemma queue_checks:
  "with_consumed files (\<lambda>qs. check_if (q \<in> qs) f) = Passes
     \<and> with_consumed files (\<lambda>qs. if c \<in> qs then Fails g else check_if (q \<noteq> c) h) = Passes \<longleftrightarrow>
   (\<exists>qs. consumed_queues files = Inr qs \<and> q \<in> qs \<and> c \<notin> qs)"
  by (cases "consumed_queues files") (auto simp: with_consumed_def check_if_def)

section \<open>Properties\<close>

text \<open>
  C21: the list of consumed queues is never vacuous. Once a start command is found it has a line that starts a worker, and
  either every such line names at least one queue and the answer is all of them, or the lines that name none are reported.
  An empty set is never returned, and the last of the errors, that no worker names a queue, cannot occur.
\<close>

theorem consumed_queues_never_vacuous:
  assumes "start_command_file files = Inr n" and "files n = Some text"
  shows "(\<exists>l \<in> set (logical_lines text). worker_line l)
    \<and> consumed_queues files =
      (if \<forall>l \<in> set (logical_lines text). worker_line l \<longrightarrow> line_queues text l \<noteq> {}
       then Inr (\<Union>l \<in> {l \<in> set (logical_lines text). worker_line l}. line_queues text l)
       else Inl (Unparsed n (map strip (filter (\<lambda>l. worker_line l \<and> line_queues text l = {}) (logical_lines text)))))
    \<and> consumed_queues files \<noteq> Inr {}"
  using worker_line_found [OF assms] by (auto simp: consumed_queues_eq [OF assms])

text \<open>
  A queue list is read back. When the start command launches a worker with a comma-separated list of queue names, in any of the four
  spellings with a blank or an equals sign, the consumed queues are exactly the names of the list.
\<close>

theorem queue_list_read_back:
  assumes "qs \<noteq> []" and "\<forall>q \<in> set qs. plain_queue q"
    and "\<forall>c \<in> set cmd. \<not> line_break c" and "\<not> comment_line cmd" and "last cmd = CHR '' ''"
    and "\<not> sublist ''-Q'' cmd" and "\<not> sublist ''--queues'' cmd"
    and "flag \<in> {''-Q'', ''--queues''}" and "sep \<in> {CHR '' '', CHR ''=''}"
    and "worker_line (cmd @ flag @ sep # join '','' qs)"
  shows "consumed_queues [''deploy.sh'' \<mapsto> cmd @ flag @ sep # join '','' qs] = Inr (set qs)"
proof -
  define v line where "v = join '','' qs" and "line = cmd @ flag @ sep # v"
  note plain = join_queues_plain [OF assms(2), folded v_def]
  have v: "v \<noteq> []" unfolding v_def using assms(1,2) plain_queue_kept(2) by (intro join_nonempty) blast+
  have flag: "CHR ''-'' \<in> set flag" "hd flag = CHR ''-''" "flag \<noteq> []" "\<forall>c \<in> set flag. \<not> line_break c" "CHR '' '' \<notin> set flag"
    "\<not> sublist flag cmd"
    using assms(6-8) by (auto simp: line_break_def)
  have sep: "equals_or_space sep" "\<not> line_break sep" "sep \<noteq> CHR ''-''"
    using assms(9) by (auto simp: equals_or_space_def is_space_def line_break_def)
  have breaks: "\<forall>c \<in> set line. \<not> line_break c" unfolding line_def set_append using assms(3) flag(4) sep(2) plain(3) by auto
  have lines: "logical_lines line = [line]"
  proof (rule logical_lines_single [OF strip_nonempty breaks])
    show "CHR ''-'' \<in> set line" "\<not> is_space CHR ''-''" using flag(1) by (simp_all add: is_space_def line_def)
    show "\<not> comment_line line" unfolding line_def using flag(2,3) by (intro not_comment_append [OF assms(4)]) simp_all
  qed
  have eqs: "\<forall>c \<in> set v. \<not> equals_or_space c" and dash: "CHR ''-'' \<notin> set (sep # v)" using plain(5,6) sep(3) by auto
  have "last cmd \<notin> set flag" using flag(5) assms(5) by simp
  from findall_option_value [OF skip_command [OF flag(6) this] flag(3) sep(1) v eqs]
  have found: "rx_findall (option_value flag) line = [v]" unfolding line_def .
  from assms(8) have "set (rx_findall Q_SHORT line) \<union> set (rx_findall Q_LONG line) = {v}"
  proof (elim insertE emptyE)
    assume f: "flag = ''-Q''"
    from other_flag(1) [OF assms(6,7,5) dash] have "rx_findall Q_LONG line = []" unfolding line_def f .
    with found [unfolded f] show ?thesis by (simp add: Q_SHORT_def)
  next
    assume f: "flag = ''--queues''"
    from other_flag(2) [OF assms(6,7,5) dash] have "rx_findall Q_SHORT line = []" unfolding line_def f .
    with found [unfolded f] show ?thesis by (simp add: Q_LONG_def)
  qed
  then have queues: "line_queues line line = set qs"
    by (simp only: line_queues_union queue_list_value [OF assms(1,2), of line, folded v_def] SUP_insert SUP_empty sup_bot_right)
  have worker: "worker_line line" using assms(10) by (simp only: line_def v_def)
  then have "starts_worker line" unfolding starts_worker_def lines by (simp add: worker_line_def)
  then have start: "start_command_file [''deploy.sh'' \<mapsto> line] = Inr ''deploy.sh''"
    by (simp add: start_command_file_def START_COMMAND_FILES_def)
  from consumed_queues_eq [OF this, of line] have "consumed_queues [''deploy.sh'' \<mapsto> line] = Inr (set qs)"
    unfolding lines using assms(1) worker queues by simp
  then show ?thesis by (simp only: line_def v_def)
qed

theorem queue_list_read_back_witness:
  "consumed_queues [''deploy.sh'' \<mapsto> ''exec celery -A app worker --queues=media_tasks,hls''] = Inr {''media_tasks'', ''hls''}"
proof -
  have plain: "\<forall>q \<in> set [''media_tasks'', ''hls'']. plain_queue q" by code_simp
  have chars: "\<forall>c \<in> set ''exec celery -A app worker ''. \<not> line_break c" by code_simp
  have comment: "\<not> comment_line ''exec celery -A app worker ''" by code_simp
  have none: "\<not> sublist ''-Q'' ''exec celery -A app worker ''" "\<not> sublist ''--queues'' ''exec celery -A app worker ''" by code_simp+
  have worker: "worker_line (''exec celery -A app worker '' @ ''--queues'' @ CHR ''='' # join '','' [''media_tasks'', ''hls''])" by code_simp
  from queue_list_read_back [OF _ plain chars comment _ none _ _ worker] show ?thesis by simp
qed

theorem consumed_queues_never_vacuous_witness:
  "consumed_queues [''deploy.sh'' \<mapsto> ''celery worker -l info''] = Inl (Unparsed ''deploy.sh'' [''celery worker -l info''])"
proof -
  have start: "start_command_file [''deploy.sh'' \<mapsto> ''celery worker -l info''] = Inr ''deploy.sh''" by code_simp
  have lines: "logical_lines ''celery worker -l info'' = [''celery worker -l info'']" "worker_line ''celery worker -l info''"
    "strip ''celery worker -l info'' = ''celery worker -l info''" by code_simp+
  have none: "line_queues ''celery worker -l info'' ''celery worker -l info'' = {}" unfolding line_queues_union by code_simp
  from consumed_queues_never_vacuous [OF start, of "''celery worker -l info''"] show ?thesis by (simp add: lines none)
qed

text \<open>A list in quotes with a blank after a comma is cut at the blank, without an error.\<close>

lemma quoted_list_cut:
  "consumed_queues [''deploy.sh'' \<mapsto> ''celery worker -Q '' @ [CHR 0x22] @ ''a, b'' @ [CHR 0x22]] = Inr {''a''}"
  by code_simp

text \<open>
  The checks decide what they are for on an app of the factory. When the caller's own options leave routes and default queue
  alone, the route check passes exactly when the app has no namespace or a registered task lies in it, and the two queue checks pass together exactly when
  the default queue is among the consumed queues and the queue that all services share is not.
\<close>

theorem topology_checks_decide:
  assumes "create_celery_app repr_of sock a = Inr conf" and "dict_ok (ca_extra_config a)"
    and "dict_get (ca_extra_config a) ''task_routes'' = None" and "dict_get (ca_extra_config a) ''task_default_queue'' = None"
    and "registered_task_names imports \<lparr>ap_conf = conf, ap_tasks = tasks, ap_beat = beat\<rparr> = Inr names"
  shows "(assert_every_route_matches_a_task imports \<lparr>ap_conf = conf, ap_tasks = tasks, ap_beat = beat\<rparr> = Passes \<longleftrightarrow>
      (\<forall>ns. ca_task_namespace a = Some ns \<longrightarrow> (\<exists>n \<in> names. prefix (ns @ ''.'') n)))
    \<and> (assert_default_queue_is_consumed str_of \<lparr>ap_conf = conf, ap_tasks = tasks, ap_beat = beat\<rparr> files = Passes
      \<and> assert_no_service_consumes_the_shared_queue str_of \<lparr>ap_conf = conf, ap_tasks = tasks, ap_beat = beat\<rparr> files = Passes \<longleftrightarrow>
      (\<exists>qs. consumed_queues files = Inr qs \<and> ca_default_queue a \<in> qs \<and> SHARED_DEFAULT_QUEUE \<notin> qs))"
proof -
  let ?app = "\<lparr>ap_conf = conf, ap_tasks = tasks, ap_beat = beat\<rparr>"
  have "dict_get conf ''task_routes'' = Some (JDict (case ca_task_namespace a of
      Some ns \<Rightarrow> [(ns @ ''.*'', JDict [(''queue'', JStr (ca_default_queue a))])] | None \<Rightarrow> []))"
    using factory_lookup [OF assms(1,2) _ assms(3)] by (simp add: base_conf_def)
  then have routes: "route_patterns ?app = (case ca_task_namespace a of Some ns \<Rightarrow> {ns @ ''.*''} | None \<Rightarrow> {})"
    by (simp add: route_patterns_def split: option.split)
  have routes_ok: "assert_every_route_matches_a_task imports ?app = Passes \<longleftrightarrow>
      (\<forall>ns. ca_task_namespace a = Some ns \<longrightarrow> (\<exists>n \<in> names. prefix (ns @ ''.'') n))"
  proof (cases "ca_task_namespace a")
    case None
    then show ?thesis
      by (simp add: assert_every_route_matches_a_task_def unmatched_route_patterns_def assms(5) routes check_if_def)
  next
    case (Some ns)
    note match = namespace_route [OF assms(1) Some]
    have "{p \<in> {ns @ ''.*''}. \<not> (\<exists>n \<in> names. fnmatchcase n p)} = {} \<longleftrightarrow> (\<exists>n \<in> names. prefix (ns @ ''.'') n)"
      unfolding match [symmetric] by blast
    then show ?thesis
      by (simp only: assert_every_route_matches_a_task_def unmatched_route_patterns_def assms(5) routes Some check_passes sum.case option.case) simp
  qed
  have "dict_get conf ''task_default_queue'' = Some (JStr (ca_default_queue a))"
    using factory_lookup [OF assms(1,2) _ assms(4)] by (simp add: base_conf_def)
  then have dq: "default_queue str_of ?app = ca_default_queue a" by (simp add: default_queue_def)
  have queues_ok: "assert_default_queue_is_consumed str_of ?app files = Passes
      \<and> assert_no_service_consumes_the_shared_queue str_of ?app files = Passes \<longleftrightarrow>
      (\<exists>qs. consumed_queues files = Inr qs \<and> ca_default_queue a \<in> qs \<and> SHARED_DEFAULT_QUEUE \<notin> qs)"
    unfolding assert_default_queue_is_consumed_def assert_no_service_consumes_the_shared_queue_def dq queue_checks ..
  from routes_ok queues_ok show ?thesis by (rule conjI)
qed

definition demo_imports :: "json \<Rightarrow> string list res" where
  "demo_imports m = Inr [''media.snapshot'', ''celery.backend_cleanup'']"

theorem topology_checks_decide_witness:
  "\<exists>conf. create_celery_app (\<lambda>s. s) (\<lambda>_. None) demo_args = Inr conf
     \<and> assert_every_route_matches_a_task demo_imports \<lparr>ap_conf = conf, ap_tasks = [], ap_beat = []\<rparr> = Passes
     \<and> assert_default_queue_is_consumed (\<lambda>_. []) \<lparr>ap_conf = conf, ap_tasks = [], ap_beat = []\<rparr> Map.empty \<noteq> Passes"
proof -
  have names: "QUEUE_NAME ''media_tasks''" "QUEUE_NAME ''media''" by code_simp+
  then obtain conf where conf: "create_celery_app (\<lambda>s. s) (\<lambda>_. None) demo_args = Inr conf"
    by (simp add: create_celery_app_def validate_name_def demo_args_def apply_extra_def Let_def)
  let ?app = "\<lparr>ap_conf = conf, ap_tasks = [], ap_beat = []\<rparr>"
  have extra: "dict_ok (ca_extra_config demo_args)" "dict_get (ca_extra_config demo_args) ''task_routes'' = None"
    "dict_get (ca_extra_config demo_args) ''task_default_queue'' = None" by (simp_all add: demo_args_def dict_ok_def)
  have "dict_get conf ''include'' = Some (JList [JStr ''app.tasks''])"
  proof -
    from conf have "apply_extra (\<lambda>_. None) (ca_extra_config demo_args) (optional_conf demo_args (base_conf (\<lambda>_. None) demo_args)) = Inr conf"
      using names by (simp add: create_celery_app_def validate_name_def demo_args_def)
    from apply_extra_lookup [OF this extra(1), of "''include''"] show ?thesis
      by (simp add: demo_args_def optional_conf_def set_if_def)
  qed
  then have reg: "registered_task_names demo_imports ?app = Inr {''media.snapshot''}"
    by (simp add: registered_task_names_def included_def demo_imports_def)
  note decide = topology_checks_decide [OF conf extra reg]
  have "consumed_queues Map.empty = Inl No_Start_Command"
    by (simp add: consumed_queues_def start_command_file_def)
  then have "assert_default_queue_is_consumed (\<lambda>_. []) ?app Map.empty \<noteq> Passes"
    by (simp add: assert_default_queue_is_consumed_def with_consumed_def)
  moreover have "assert_every_route_matches_a_task demo_imports ?app = Passes"
    unfolding decide [THEN conjunct1] by (simp add: demo_args_def)
  ultimately show ?thesis using conf by blast
qed

end
