(* ===== verification/Test_Plugin.thy ===== *)
theory Test_Plugin
  imports Regex Service_Runtime
begin

text \<open>
  The pytest plugin of \<open>testing/\<close>: a service's test configuration (\<open>config.py\<close>), the lane of a run (\<open>lanes.py\<close>), the names and indexes of
  its databases (\<open>stack.py\<close>, \<open>isolation.py\<close>), and the hook that owns the environment before the first
  import of the service (\<open>plugin.py\<close>). pytest, the file system, docker and the migration command are arguments; an
  environment is a dict.
\<close>

section \<open>Configuration\<close>

definition ENV_PASSTHROUGH :: "string list" where
  "ENV_PASSTHROUGH =
     [''PATH'', ''HOME'', ''USER'', ''LOGNAME'', ''TMPDIR'', ''TMP'', ''TEMP'', ''LANG'', ''LC_*'', ''TZ'', ''TERM'', ''CI'', ''SSL_CERT_FILE'',
      ''SSL_CERT_DIR'', ''REQUESTS_CA_BUNDLE'', ''HTTP_PROXY'', ''HTTPS_PROXY'', ''NO_PROXY'', ''ALL_PROXY'', ''http_proxy'', ''https_proxy'',
      ''no_proxy'', ''all_proxy'', ''TEST_DATABASE_URL'', ''TEST_REDIS_URL'', ''PYTHON*'', ''PYTEST_*'', ''COVERAGE_*'', ''DOCKER_*'', ''XDG_*'',
      ''TR_TESTING_*'', ''GITHUB_ACTIONS'']"

definition INFRA_ENV :: "string list" where
  "INFRA_ENV = [''DATABASE_URL'', ''REDIS_URL'', ''CELERY_BROKER_URL'', ''CELERY_RESULT_BACKEND'']"

definition POLICY_ENV :: "(string, string) dict" where
  "POLICY_ENV =
     [(''ENVIRONMENT'', ''test''), (''AUTH_LIB_GATEWAY_SIGNING_SECRET'', ''test-gateway-signing-secret''),
      (''AUTH_LIB_SERVICE_TOKEN'', ''test-outbound-service-token''), (''SERVICE_TOKEN'', ''test-inbound-service-token'')]"

definition CONTROL_ENV :: "string list" where
  "CONTROL_ENV = [''TEST_DATABASE_URL'', ''TEST_REDIS_URL'', ''TR_TESTING_RUN_ID'', ''TR_TESTING_FRESH'', ''PYTEST_XDIST_WORKER'']"

definition PLUGIN_OWNED_ENV :: "string list" where
  "PLUGIN_OWNED_ENV = INFRA_ENV @ map fst POLICY_ENV @ CONTROL_ENV"

definition is_pattern :: "string \<Rightarrow> bool" where
  "is_pattern k = suffix ''*'' k"

definition PASSTHROUGH_NAMES :: "string list" where
  "PASSTHROUGH_NAMES = filter (\<lambda>k. \<not> is_pattern k) ENV_PASSTHROUGH"

definition PASSTHROUGH_PREFIXES :: "string list" where
  "PASSTHROUGH_PREFIXES = map butlast (filter is_pattern ENV_PASSTHROUGH)"

definition passes_scrub :: "string \<Rightarrow> bool" where
  "passes_scrub key = (key \<in> set PASSTHROUGH_NAMES \<or> (\<exists>p \<in> set PASSTHROUGH_PREFIXES. prefix p key))"

record testing_config =
  tc_service :: string
  tc_root :: string
  tc_migrate_command :: "string list"
  tc_migration_globs :: "string list"
  tc_postgres_image :: string
  tc_redis_image :: string
  tc_database_name :: string
  tc_env :: "(string \<times> string) list"

definition STRING_KEYS :: "string list" where
  "STRING_KEYS = [''service'', ''postgres_image'', ''redis_image'', ''database_name'']"

definition LIST_KEYS :: "string list" where
  "LIST_KEYS = [''migrate_command'', ''migration_globs'']"

definition KNOWN_KEYS :: "string list" where
  "KNOWN_KEYS = STRING_KEYS @ LIST_KEYS @ [''env'']"

text \<open>\<open>pytest.UsageError\<close> with its cause, \<open>StackError\<close>, and what \<open>data.get\<close> raises on a value that is not a table.\<close>

datatype usage_error =
    Unknown_Keys "string list"
  | No_Service
  | Not_String string
  | Not_String_List string
  | Env_Not_Table
  | Env_Not_String string
  | Env_Owned string
  | Not_Local string string
  | Not_A_Table
  | Stack_Error string
  | Wrong_Venv

fun env_entries :: "(string \<times> json) list \<Rightarrow> usage_error + (string \<times> string) list" where
  "env_entries [] = Inr []"
| "env_entries ((k, v) # d) =
     (case v of
        JStr s \<Rightarrow>
          if upper k \<in> set (map upper PLUGIN_OWNED_ENV) then Inl (Env_Owned k)
          else (case env_entries d of Inl e \<Rightarrow> Inl e | Inr r \<Rightarrow> Inr ((k, s) # r))
      | _ \<Rightarrow> Inl (Env_Not_String k))"

definition env_table :: "json \<Rightarrow> usage_error + (string \<times> string) list" where
  "env_table v = (case v of JDict d \<Rightarrow> env_entries d | _ \<Rightarrow> Inl Env_Not_Table)"

definition full_text :: "json \<Rightarrow> bool" where
  "full_text v = (case v of JStr s \<Rightarrow> s \<noteq> [] | _ \<Rightarrow> False)"

definition full_texts :: "json \<Rightarrow> bool" where
  "full_texts v = (case v of JList vs \<Rightarrow> vs \<noteq> [] \<and> list_all full_text vs | _ \<Rightarrow> False)"

definition text_or :: "(string, json) dict \<Rightarrow> string \<Rightarrow> string \<Rightarrow> string" where
  "text_or table k d = (case dict_get table k of Some (JStr s) \<Rightarrow> s | _ \<Rightarrow> d)"

definition texts_or :: "(string, json) dict \<Rightarrow> string \<Rightarrow> string list \<Rightarrow> string list" where
  "texts_or table k d =
     (case dict_get table k of Some (JList vs) \<Rightarrow> map (\<lambda>v. case v of JStr s \<Rightarrow> s | _ \<Rightarrow> []) vs | _ \<Rightarrow> d)"

text \<open>The first key of \<open>ks\<close> that is in the table with a value that is not \<open>ok\<close>.\<close>

definition bad_key :: "(json \<Rightarrow> bool) \<Rightarrow> (string, json) dict \<Rightarrow> string list \<Rightarrow> string option" where
  "bad_key ok table ks = find (\<lambda>k. case dict_get table k of Some v \<Rightarrow> \<not> ok v | None \<Rightarrow> False) ks"

definition build :: "(string, json) dict \<Rightarrow> string \<Rightarrow> usage_error + testing_config" where
  "build table root_dir =
     (let unknown = filter (\<lambda>k. k \<notin> set KNOWN_KEYS) (map fst table) in
      if unknown \<noteq> [] then Inl (Unknown_Keys unknown)
      else if dict_get table ''service'' = None then Inl No_Service
      else case bad_key full_text table STRING_KEYS of
        Some k \<Rightarrow> Inl (Not_String k)
      | None \<Rightarrow>
          (case bad_key full_texts table LIST_KEYS of
             Some k \<Rightarrow> Inl (Not_String_List k)
           | None \<Rightarrow>
               (case env_table (case dict_get table ''env'' of Some v \<Rightarrow> v | None \<Rightarrow> JDict []) of
                  Inl e \<Rightarrow> Inl e
                | Inr env \<Rightarrow>
                    Inr \<lparr>tc_service = text_or table ''service'' [], tc_root = root_dir,
                         tc_migrate_command = texts_or table ''migrate_command'' [''alembic'', ''upgrade'', ''head''],
                         tc_migration_globs = texts_or table ''migration_globs'' [''**/alembic/versions/*.py''],
                         tc_postgres_image = text_or table ''postgres_image'' ''supabase/postgres:17.6.1.178'',
                         tc_redis_image = text_or table ''redis_image'' ''redis:7-alpine'',
                         tc_database_name = text_or table ''database_name'' ''test'', tc_env = env\<rparr>)))"

text \<open>
  The directories from the start upwards, each with its \<open>pyproject.toml\<close>: none, one that cannot be read or parsed
  (\<open>Some None\<close>), or its data.
\<close>

fun find_config :: "(string \<times> json option option) list \<Rightarrow> usage_error + testing_config option" where
  "find_config [] = Inr None"
| "find_config ((dir, None) # ds) = find_config ds"
| "find_config ((dir, Some None) # ds) = Inr None"
| "find_config ((dir, Some (Some data)) # ds) =
     (case data of
        JDict d \<Rightarrow>
          (case (case dict_get d ''tool'' of None \<Rightarrow> JDict [] | Some v \<Rightarrow> v) of
             JDict tool \<Rightarrow>
               (case dict_get tool ''tr_testing'' of
                  None \<Rightarrow> find_config ds
                | Some (JDict table) \<Rightarrow> map_sum (\<lambda>e. e) Some (build table dir)
                | Some _ \<Rightarrow> Inl Not_A_Table)
           | _ \<Rightarrow> Inl Not_A_Table)
      | _ \<Rightarrow> Inl Not_A_Table)"

section \<open>Lanes\<close>

definition POISON_DATABASE_URL :: string where
  "POISON_DATABASE_URL = ''postgresql+asyncpg://tr-unit-lane:x@127.0.0.1:1/unit_lane_no_db''"

definition POISON_REDIS_URL :: string where
  "POISON_REDIS_URL = ''redis://127.0.0.1:1/0''"

definition UNIT_DIRS :: "string list" where
  "UNIT_DIRS = [''unit'', ''architecture'', ''contract'', ''contracts'']"

definition INTEGRATION_DIRS :: "string list" where
  "INTEGRATION_DIRS = [''integration'', ''api'', ''e2e'', ''migrations'', ''load'']"

datatype lane = Unit | Integration

text \<open>\<open>PurePosixPath(path).parts\<close>; the part for the root is no directory name.\<close>

definition posix_parts :: "string \<Rightarrow> string list" where
  "posix_parts path = filter (\<lambda>p. p \<notin> {[], ''.''}) (split_char CHR ''/'' path)"

definition lane_for_path :: "string \<Rightarrow> lane option" where
  "lane_for_path path =
     (let segments = set (posix_parts (map (\<lambda>c. if c = CHR 0x5C then CHR ''/'' else c) path)) in
      if segments \<inter> set INTEGRATION_DIRS \<noteq> {} then Some Integration
      else if segments \<inter> set UNIT_DIRS \<noteq> {} then Some Unit
      else None)"

text \<open>What an argument names on disk: nothing, a path outside the root, or a path relative to the root.\<close>

datatype arg_path = Missing | Outside | Inside string

definition before_selector :: "string \<Rightarrow> string" where
  "before_selector arg = (case search_from (lit ''::'') [] arg of None \<Rightarrow> arg | Some (s, _) \<Rightarrow> rev (ms_before s))"

fun collect_paths :: "(string \<Rightarrow> arg_path) \<Rightarrow> string list \<Rightarrow> string list \<Rightarrow> string list option" where
  "collect_paths locate [] paths = Some paths"
| "collect_paths locate (arg # args) paths =
     (if prefix ''-'' arg \<or> before_selector arg = [] then collect_paths locate args paths
      else case locate (before_selector arg) of
             Missing \<Rightarrow> collect_paths locate args paths
           | Outside \<Rightarrow> None
           | Inside p \<Rightarrow> collect_paths locate args (paths @ [p]))"

definition run_needs_infrastructure :: "(string \<Rightarrow> arg_path) \<Rightarrow> string list \<Rightarrow> bool" where
  "run_needs_infrastructure locate args =
     (case collect_paths locate args [] of
        None \<Rightarrow> True
      | Some paths \<Rightarrow> \<not> (paths \<noteq> [] \<and> set (map lane_for_path paths) = {Some Unit}))"

section \<open>Names and indexes\<close>

text \<open>\<open>re.sub("[^a-z0-9_]+", "_", value.lower()).strip("_")\<close>\<close>

definition plain_name_char :: "char \<Rightarrow> bool" where
  "plain_name_char c = (let n = (of_char c :: nat) in (97 \<le> n \<and> n \<le> 122) \<or> is_digit c \<or> c = CHR ''_'')"

fun squash :: "bool \<Rightarrow> string \<Rightarrow> string" where
  "squash in_run [] = []"
| "squash in_run (c # s) =
     (if plain_name_char c then c # squash False s else (if in_run then [] else ''_'') @ squash True s)"

definition sanitize :: "string \<Rightarrow> string" where
  "sanitize v =
     (let u = squash False (lower v) in rev (dropWhile (\<lambda>c. c = CHR ''_'') (rev (dropWhile (\<lambda>c. c = CHR ''_'') u))))"

text \<open>\<open>int(digits) if digits else 0\<close> for the digits of a worker's name.\<close>

definition worker_slot :: "string \<Rightarrow> int" where
  "worker_slot worker = (case digits_value False 0 (filter is_digit worker) of Some n \<Rightarrow> n | None \<Rightarrow> 0)"

definition redis_index :: "string \<Rightarrow> int" where
  "redis_index worker = (worker_slot worker * 3) mod 60"

definition worker_id :: "(string, string) dict \<Rightarrow> string" where
  "worker_id env = (case dict_get env ''PYTEST_XDIST_WORKER'' of Some w \<Rightarrow> w | None \<Rightarrow> ''main'')"

definition redis_index_for_worker :: "(string, string) dict \<Rightarrow> int \<Rightarrow> int" where
  "redis_index_for_worker env offset = (worker_slot (worker_id env) * 3 + offset) mod 60"

text \<open>\<open>re.sub("/\d+/?$", "", base.rstrip("/"))\<close>\<close>

definition INDEX_SUFFIX :: rx where
  "INDEX_SUFFIX = cats [lit ''/'', plus1 (Cls is_digit), opt (lit ''/''), Text_End_Newline]"

definition redis_server :: "string \<Rightarrow> string" where
  "redis_server base =
     (let b = rev (dropWhile (\<lambda>c. c = CHR ''/'') (rev base)) in
      case search_from INDEX_SUFFIX [] b of None \<Rightarrow> b | Some (s, m) \<Rightarrow> rev (ms_before s) @ ms_after m)"

definition redis_triple :: "string \<Rightarrow> string \<Rightarrow> string \<times> string \<times> string" where
  "redis_triple base worker =
     (let server = redis_server base; i = redis_index worker
      in (server @ ''/'' @ string_of_int i, server @ ''/'' @ string_of_int (i + 1), server @ ''/'' @ string_of_int (i + 2)))"

definition APP_ROLE :: string where
  "APP_ROLE = ''postgres''"

definition PASSWORD :: string where
  "PASSWORD = ''test''"

definition dsn :: "nat \<Rightarrow> string \<Rightarrow> string" where
  "dsn host_port database =
     ''postgresql+asyncpg://'' @ APP_ROLE @ '':'' @ PASSWORD @ ''@127.0.0.1:'' @ string_of_nat host_port @ ''/'' @ database"

text \<open>\<open>_names\<close>, with the key (the first twelve characters of the fingerprint) as an argument.\<close>

definition PG_IDENTIFIER_MAX :: nat where
  "PG_IDENTIFIER_MAX = 63"

definition database_names :: "testing_config \<Rightarrow> string \<Rightarrow> string \<Rightarrow> string \<Rightarrow> string \<times> string \<times> string" where
  "database_names config key run_id worker =
     (let service = take 16 (sanitize (tc_service config));
          k = take 10 key;
          template = service @ ''_tmpl_'' @ k;
          run_db = service @ ''_'' @ k @ ''_'' @ take 10 (sanitize run_id) @ ''_'' @ take 6 (sanitize worker)
      in (''tr-test-pg-'' @ k, template, if length run_db > PG_IDENTIFIER_MAX then take PG_IDENTIFIER_MAX run_db else run_db))"

section \<open>The containers\<close>

text \<open>Steps that may end with a \<open>StackError\<close>.\<close>

type_synonym ('w, 'a) run = "'w \<Rightarrow> (usage_error + 'a) \<times> 'w"

definition run_bind :: "('w, 'a) run \<Rightarrow> ('a \<Rightarrow> ('w, 'b) run) \<Rightarrow> ('w, 'b) run" where
  "run_bind m f w = (case m w of (Inl e, w') \<Rightarrow> (Inl e, w') | (Inr x, w') \<Rightarrow> f x w')"

definition run_return :: "'a \<Rightarrow> ('w, 'a) run" where
  "run_return x w = (Inr x, w)"

definition run_raise :: "usage_error \<Rightarrow> ('w, 'a) run" where
  "run_raise e w = (Inl e, w)"

text \<open>The statements that are sent through \<open>psql\<close>; \<open>Layout\<close> is one of \<open>DATABASE_LAYOUT\<close>.\<close>

datatype sql = Drop_Database string | Create_Database string | Layout string | Clone_Database string string | Rename_Database string string

definition DATABASE_LAYOUT :: "sql list" where
  "DATABASE_LAYOUT =
     map Layout
       [''CREATE SCHEMA extensions AUTHORIZATION '' @ APP_ROLE, ''CREATE EXTENSION pgcrypto WITH SCHEMA extensions'',
        ''CREATE EXTENSION '' @ [CHR 0x22] @ ''uuid-ossp'' @ [CHR 0x22] @ '' WITH SCHEMA extensions'',
        ''CREATE EXTENSION pg_trgm WITH SCHEMA public'', ''CREATE EXTENSION supabase_vault'']"

text \<open>
  Docker and the migration command: the two host ports, \<open>psql\<close> in a database, whether a database exists, and the exit
  code of the migrations on a DSN.
\<close>

record 'w stack_env =
  sk_postgres :: "string \<Rightarrow> ('w, nat) run"
  sk_redis :: "string \<Rightarrow> ('w, nat) run"
  sk_psql :: "string \<Rightarrow> sql \<Rightarrow> ('w, unit) run"
  sk_exists :: "string \<Rightarrow> ('w, bool) run"
  sk_migrate :: "testing_config \<Rightarrow> string \<Rightarrow> ('w, int) run"

primrec psql_all :: "'w stack_env \<Rightarrow> string \<Rightarrow> sql list \<Rightarrow> ('w, unit) run" where
  "psql_all env db [] = run_return ()"
| "psql_all env db (q # qs) = run_bind (sk_psql env db q) (\<lambda>_. psql_all env db qs)"

definition build_template :: "'w stack_env \<Rightarrow> testing_config \<Rightarrow> string \<Rightarrow> nat \<Rightarrow> ('w, unit) run" where
  "build_template env config template host_port =
     (let building = template @ ''_building'' in
      run_bind (sk_psql env ''postgres'' (Drop_Database building)) (\<lambda>_.
      run_bind (sk_psql env ''postgres'' (Create_Database building)) (\<lambda>_.
      run_bind (psql_all env building DATABASE_LAYOUT) (\<lambda>_.
      run_bind (sk_migrate env config (dsn host_port building)) (\<lambda>code.
        if code \<noteq> 0
        then run_bind (sk_psql env ''postgres'' (Drop_Database building)) (\<lambda>_. run_raise (Stack_Error ''migrations failed while building the test template''))
        else sk_psql env ''postgres'' (Rename_Database building template))))))"

record stack =
  st_postgres_dsn :: string
  st_redis_url :: string
  st_celery_broker_url :: string
  st_celery_result_backend :: string

definition provision :: "'w stack_env \<Rightarrow> testing_config \<Rightarrow> string \<Rightarrow> string \<Rightarrow> string \<Rightarrow> ('w, stack) run" where
  "provision env config key run_id worker =
     (case database_names config key run_id worker of
        (pg_name, template, run_db) \<Rightarrow>
          run_bind (sk_postgres env pg_name) (\<lambda>pg_port.
          run_bind (sk_exists env template) (\<lambda>found.
          run_bind (if found then run_return () else build_template env config template pg_port) (\<lambda>_.
          run_bind (sk_redis env (''tr-test-redis-'' @ take 10 key)) (\<lambda>redis_port.
          (case redis_triple (''redis://127.0.0.1:'' @ string_of_nat redis_port) worker of
             (cache, broker, results) \<Rightarrow>
               run_return \<lparr>st_postgres_dsn = dsn pg_port run_db, st_redis_url = cache, st_celery_broker_url = broker,
                           st_celery_result_backend = results\<rparr>))))))"

definition create_run_database :: "'w stack_env \<Rightarrow> testing_config \<Rightarrow> string \<Rightarrow> string \<Rightarrow> string \<Rightarrow> ('w, unit) run" where
  "create_run_database env config key run_id worker =
     (case database_names config key run_id worker of
        (_, template, run_db) \<Rightarrow>
          run_bind (sk_psql env ''postgres'' (Drop_Database run_db)) (\<lambda>_. sk_psql env ''postgres'' (Clone_Database run_db template)))"

text \<open>\<open>drop_run_databases\<close> swallows every exception.\<close>

definition drop_run_databases :: "'w stack_env \<Rightarrow> testing_config \<Rightarrow> string \<Rightarrow> string \<Rightarrow> string \<Rightarrow> ('w, unit) run" where
  "drop_run_databases env config key run_id worker w =
     (case database_names config key run_id worker of
        (_, _, run_db) \<Rightarrow> (Inr (), snd (sk_psql env ''postgres'' (Drop_Database run_db) w)))"

section \<open>The hook\<close>

type_synonym environ = "(string, string) dict"

definition own_the_environment :: "testing_config \<Rightarrow> environ \<Rightarrow> environ" where
  "own_the_environment config env =
     dict_merge (dict_merge (filter (\<lambda>(k, _). passes_scrub k) env) (tc_env config)) POLICY_ENV"

definition export :: "string \<Rightarrow> string \<Rightarrow> string \<Rightarrow> string \<Rightarrow> environ \<Rightarrow> environ" where
  "export database_url redis_url broker_url result_backend env =
     dict_set ''CELERY_RESULT_BACKEND'' result_backend
       (dict_set ''CELERY_BROKER_URL'' broker_url (dict_set ''REDIS_URL'' redis_url (dict_set ''DATABASE_URL'' database_url env)))"

text \<open>\<open>(urlsplit(url).hostname or "").lower()\<close>, or the empty text when the URL is malformed.\<close>

definition url_host :: "string \<Rightarrow> string" where
  "url_host url =
     (case urlsplit url of Inl _ \<Rightarrow> [] | Inr u \<Rightarrow> lower (case url_hostname (su_netloc u) of Some h \<Rightarrow> h | None \<Rightarrow> []))"

definition local_url :: "string \<Rightarrow> bool" where
  "local_url url = (url_host url \<in> set LOOPBACK_HOSTS)"

definition assert_local :: "string \<Rightarrow> environ \<Rightarrow> usage_error + unit" where
  "assert_local variable env =
     (case dict_get env variable of
        None \<Rightarrow> Inr ()
      | Some url \<Rightarrow> if url = [] \<or> local_url url then Inr () else Inl (Not_Local variable (url_host url)))"

text \<open>What the hook sees of pytest: the directories above the root, whether the root has a \<open>.venv\<close> and the interpreter is in it, the
  arguments, the process id and the key of the configuration.\<close>

record pytest_env =
  py_dirs :: "(string \<times> json option option) list"
  py_has_venv :: bool
  py_own_venv :: bool
  py_locate :: "string \<Rightarrow> arg_path"
  py_args :: "string list"
  py_pid :: string
  py_key :: "testing_config \<Rightarrow> string"

definition run_id :: "pytest_env \<Rightarrow> environ \<Rightarrow> string \<times> environ" where
  "run_id py env =
     (case dict_get env ''TR_TESTING_RUN_ID'' of
        Some existing \<Rightarrow>
          if existing \<noteq> [] \<and> dict_get env ''PYTEST_XDIST_WORKER'' \<notin> {None, Some []} then (existing, env)
          else (py_pid py, dict_set ''TR_TESTING_RUN_ID'' (py_pid py) env)
      | None \<Rightarrow> (py_pid py, dict_set ''TR_TESTING_RUN_ID'' (py_pid py) env))"

definition use_override :: "'w stack_env \<Rightarrow> testing_config \<Rightarrow> string \<Rightarrow> string \<Rightarrow> (environ \<times> 'w, unit) run" where
  "use_override st config url worker s =
     (case sk_migrate st config url (snd s) of
        (Inl e, w) \<Rightarrow> (Inl e, (fst s, w))
      | (Inr code, w) \<Rightarrow>
          if code \<noteq> 0 then (Inl (Stack_Error ''migrations failed against TEST_DATABASE_URL''), (fst s, w))
          else (case (case dict_get (fst s) ''TEST_REDIS_URL'' of
                        Some base \<Rightarrow> if base \<noteq> [] then redis_triple base worker else (POISON_REDIS_URL, POISON_REDIS_URL, POISON_REDIS_URL)
                      | None \<Rightarrow> (POISON_REDIS_URL, POISON_REDIS_URL, POISON_REDIS_URL)) of
                  (cache, broker, results) \<Rightarrow> (Inr (), (export url cache broker results (fst s), w))))"

definition provisioned :: "pytest_env \<Rightarrow> 'w stack_env \<Rightarrow> testing_config \<Rightarrow> string \<Rightarrow> string \<Rightarrow> (environ \<times> 'w, lane option) run" where
  "provisioned py st config rid worker s =
     (case provision st config (py_key py config) rid worker (snd s) of
        (Inl e, w) \<Rightarrow> (Inl e, (fst s, w))
      | (Inr k, w) \<Rightarrow>
          (Inr (Some Integration),
           (export (st_postgres_dsn k) (st_redis_url k) (st_celery_broker_url k) (st_celery_result_backend k) (fst s), w)))"

text \<open>\<open>pytest_load_initial_conftests\<close>: the lane of the run, or \<open>None\<close> when the service has not opted in.\<close>

definition load_initial_conftests :: "pytest_env \<Rightarrow> 'w stack_env \<Rightarrow> (environ \<times> 'w, lane option) run" where
  "load_initial_conftests py st s =
     (case find_config (py_dirs py) of
        Inl e \<Rightarrow> (Inl e, s)
      | Inr None \<Rightarrow> (Inr None, s)
      | Inr (Some config) \<Rightarrow>
          if py_has_venv py \<and> \<not> py_own_venv py then (Inl Wrong_Venv, s)
          else
            let needs_infra = run_needs_infrastructure (py_locate py) (py_args py);
                env = own_the_environment config (fst s)
            in case (assert_local ''TEST_DATABASE_URL'' env, assert_local ''TEST_REDIS_URL'' env) of
                 (Inl e, _) \<Rightarrow> (Inl e, (env, snd s))
               | (Inr _, Inl e) \<Rightarrow> (Inl e, (env, snd s))
               | (Inr _, Inr _) \<Rightarrow>
                   if \<not> needs_infra
                   then (Inr (Some Unit), (export POISON_DATABASE_URL POISON_REDIS_URL POISON_REDIS_URL POISON_REDIS_URL env, snd s))
                   else case run_id py env of
                          (rid, env) \<Rightarrow>
                            let worker = worker_id env in
                            case dict_get env ''TEST_DATABASE_URL'' of
                              Some url \<Rightarrow>
                                if url \<noteq> []
                                then (case use_override st config url worker (env, snd s) of
                                        (Inl e, s') \<Rightarrow> (Inl e, s') | (Inr _, s') \<Rightarrow> (Inr (Some Integration), s'))
                                else provisioned py st config rid worker (env, snd s)
                            | None \<Rightarrow> provisioned py st config rid worker (env, snd s))"

section \<open>Lemmas\<close>

lemma loopback_hostname:
  assumes "after_last CHR ''@'' netloc = ''127.0.0.1:'' @ ds" and "\<forall>c \<in> set ds. is_digit c"
  shows "url_hostname netloc = Some ''127.0.0.1''"
proof -
  have "CHR ''['' \<notin> set (''127.0.0.1:'' @ ds)" using assms(2) by (auto simp: is_digit_def)
  note p = partition_at_absent [OF this]
  have "CHR '':'' \<notin> set ''127.0.0.1''" by simp
  from partition_at_found [OF this, of ds] have q: "partition_at CHR '':'' (''127.0.0.1:'' @ ds) = (''127.0.0.1'', True, ds)" by simp
  have "fst (hostinfo netloc) = ''127.0.0.1''"
    unfolding hostinfo_def assms(1) p prod.case if_False q by simp
  moreover have "partition_at CHR ''%'' ''127.0.0.1'' = (''127.0.0.1'', False, [])" by (rule partition_at_absent) simp
  moreover have "lower ''127.0.0.1'' = ''127.0.0.1''" by code_simp
  ultimately show ?thesis by (simp add: url_hostname_def split_beta)
qed

definition authority_char :: "char \<Rightarrow> bool" where
  "authority_char c = (\<not> is_delim c \<and> kept_char c \<and> c \<noteq> CHR ''['' \<and> c \<noteq> CHR '']'')"

lemma authority_netloc:
  assumes "\<forall>c \<in> set netloc. authority_char c"
  shows "(\<forall>c \<in> set netloc. \<not> is_delim c \<and> kept_char c) \<and> netloc_ok netloc"
proof -
  have "\<not> authority_char CHR ''[''" "\<not> authority_char CHR '']''" by (simp_all add: authority_char_def)
  with assms have "CHR ''['' \<notin> set netloc" "CHR '']'' \<notin> set netloc" by blast+
  then have "netloc_ok netloc" unfolding netloc_ok_def Let_def by simp
  with assms show ?thesis by (simp add: authority_char_def)
qed

lemma digits_authority:
  assumes "\<forall>c \<in> set ds. is_digit c" and "\<forall>c \<in> set auth. authority_char c"
  shows "\<forall>c \<in> set (auth @ ''127.0.0.1:'' @ ds). authority_char c"
proof -
  have "authority_char c" if "is_digit c" for c using that by (auto simp: is_digit_def authority_char_def is_delim_def kept_char_def)
  moreover have "\<forall>c \<in> set ''127.0.0.1:''. authority_char c" by code_simp
  ultimately show ?thesis using assms by (simp only: set_append ball_Un) blast
qed

lemma loopback_url:
  assumes "scheme \<noteq> []" and "is_alpha (hd scheme)" and "list_all scheme_char scheme"
    and "auth = [] \<or> last auth = CHR ''@''" and "\<forall>c \<in> set auth. authority_char c"
    and "\<forall>c \<in> set ds. is_digit c" and "rest = [] \<or> is_delim (hd rest)"
  shows "local_url (scheme @ ''://'' @ (auth @ ''127.0.0.1:'' @ ds) @ rest)"
proof -
  note n = authority_netloc [OF digits_authority [OF assms(6,5)]]
  from urlsplit_netloc [OF assms(1-3) conjunct1 [OF n] conjunct2 [OF n] assms(7)] obtain u where
    u: "urlsplit (scheme @ ''://'' @ (auth @ ''127.0.0.1:'' @ ds) @ rest) = Inr u" "su_netloc u = auth @ ''127.0.0.1:'' @ ds" by blast
  have at: "CHR ''@'' \<notin> set (''127.0.0.1:'' @ ds)" using assms(6) by (auto simp: is_digit_def)
  have "after_last CHR ''@'' (su_netloc u) = ''127.0.0.1:'' @ ds"
  proof (cases "auth = []")
    case True
    then show ?thesis unfolding u(2) using after_last_plain [OF at] by simp
  next
    case False
    with assms(4) have "auth = butlast auth @ [CHR ''@'']" by (metis append_butlast_last_id)
    then have "su_netloc u = butlast auth @ CHR ''@'' # (''127.0.0.1:'' @ ds)" unfolding u(2) by (metis append.assoc append_Cons append_Nil)
    then show ?thesis using after_last_append [OF at] by simp
  qed
  from loopback_hostname [OF this assms(6)] have "url_host (scheme @ ''://'' @ (auth @ ''127.0.0.1:'' @ ds) @ rest) = ''127.0.0.1''"
    unfolding url_host_def u(1) by (simp add: lower_def lower_char_def)
  then show ?thesis by (simp add: local_url_def LOOPBACK_HOSTS_def)
qed

lemma dsn_local: "local_url (dsn port db)"
proof -
  have "\<forall>c \<in> set ''postgres:test@''. authority_char c" by code_simp
  moreover have "list_all scheme_char ''postgresql+asyncpg''" by code_simp
  ultimately have "local_url (''postgresql+asyncpg'' @ ''://'' @ (''postgres:test@'' @ ''127.0.0.1:'' @ string_of_nat port) @ (''/'' @ db))"
    by (intro loopback_url string_of_nat_digits) (simp_all add: is_alpha_def is_delim_def)
  then show ?thesis by (simp add: dsn_def APP_ROLE_def PASSWORD_def)
qed

lemma POISON_local: "local_url POISON_DATABASE_URL"
  by code_simp

lemma dict_get_filter: "dict_get (filter (\<lambda>(k, _). P k) d) k = (if P k then dict_get d k else None)"
  by (induction d) auto

lemma own_the_environment_lookup:
  assumes "dict_ok (tc_env config)"
  shows "dict_get (own_the_environment config env) k =
    (case dict_get POLICY_ENV k of Some v \<Rightarrow> Some v
     | None \<Rightarrow> (case dict_get (tc_env config) k of Some v \<Rightarrow> Some v | None \<Rightarrow> if passes_scrub k then dict_get env k else None))"
proof -
  have "dict_ok POLICY_ENV" by code_simp
  then show ?thesis unfolding own_the_environment_def by (simp add: dict_get_merge assms dict_get_filter split: option.split)
qed

lemma export_lookup:
  "dict_get (export d r b c env) k =
     (if k = ''CELERY_RESULT_BACKEND'' then Some c else if k = ''CELERY_BROKER_URL'' then Some b
      else if k = ''REDIS_URL'' then Some r else if k = ''DATABASE_URL'' then Some d else dict_get env k)"
  by (simp add: export_def)

lemma assert_local_ok: "assert_local v env = Inr u \<Longrightarrow> dict_get env v = Some url \<Longrightarrow> url \<noteq> [] \<Longrightarrow> local_url url"
  by (auto simp: assert_local_def split: if_splits)

text \<open>The environment after the hook: the owned one with a run id, and the exported URLs.\<close>

definition exported :: "environ \<Rightarrow> environ \<Rightarrow> bool" where
  "exported owned env' =
     (\<exists>d r b c env. env' = export d r b c env \<and> local_url d \<and> (env = owned \<or> (\<exists>i. env = dict_set ''TR_TESTING_RUN_ID'' i owned)))"

lemma exportedI:
  "local_url d \<Longrightarrow> env = owned \<or> (\<exists>i. env = dict_set ''TR_TESTING_RUN_ID'' i owned) \<Longrightarrow> exported owned (export d r b c env)"
  unfolding exported_def by (intro exI [of _ d] exI [of _ r] exI [of _ b] exI [of _ c] exI [of _ env] conjI refl)

lemma run_id_env: "run_id py env = (rid, env') \<Longrightarrow> env' = env \<or> (\<exists>i. env' = dict_set ''TR_TESTING_RUN_ID'' i env)"
  by (auto simp: run_id_def split: option.splits if_splits)

lemma provision_dsn:
  assumes "provision st config key rid worker w = (Inr k, w')"
  shows "local_url (st_postgres_dsn k)"
  using assms unfolding provision_def run_bind_def run_return_def
  by (auto simp: dsn_local split: prod.splits sum.splits)

lemma provisioned_exports:
  assumes "provisioned py st config rid worker (env, w) = (Inr (Some l), (env', w'))"
  shows "l = Integration \<and> (\<exists>d r b c. env' = export d r b c env \<and> local_url d)"
proof -
  from assms obtain k where k: "provision st config (py_key py config) rid worker w = (Inr k, w')" "l = Integration"
    "env' = export (st_postgres_dsn k) (st_redis_url k) (st_celery_broker_url k) (st_celery_result_backend k) env"
    unfolding provisioned_def by (auto split: prod.splits sum.splits)
  from provision_dsn [OF k(1)] k(2,3) show ?thesis by blast
qed

lemma use_override_exports:
  assumes "use_override st config url worker (env, w) = (Inr (), (env', w'))"
  shows "\<exists>r b c. env' = export url r b c env"
  using assms unfolding use_override_def by (auto split: prod.splits sum.splits if_splits)

lemma hook_exports:
  assumes "load_initial_conftests py st (env, w) = (Inr (Some l), (env', w'))"
  obtains config where "find_config (py_dirs py) = Inr (Some config)" and "exported (own_the_environment config env) env'"
    and "l = Unit \<longleftrightarrow> \<not> run_needs_infrastructure (py_locate py) (py_args py)"
    and "l = Unit \<Longrightarrow> env' = export POISON_DATABASE_URL POISON_REDIS_URL POISON_REDIS_URL POISON_REDIS_URL (own_the_environment config env)"
proof -
  from assms obtain config where config: "find_config (py_dirs py) = Inr (Some config)"
    unfolding load_initial_conftests_def by (auto split: sum.splits option.splits)
  define owned where "owned = own_the_environment config env"
  define needs where "needs = run_needs_infrastructure (py_locate py) (py_args py)"
  obtain rid renv where rid: "run_id py owned = (rid, renv)" by (rule prod.exhaust)
  note renv = run_id_env [OF rid]
  from assms have venv: "\<not> (py_has_venv py \<and> \<not> py_own_venv py)"
    unfolding load_initial_conftests_def config by (auto split: if_splits)
  obtain u1 u2 where asserts: "assert_local ''TEST_DATABASE_URL'' owned = Inr u1" "assert_local ''TEST_REDIS_URL'' owned = Inr u2"
    using assms venv unfolding load_initial_conftests_def config owned_def Let_def fst_conv
    by (cases "assert_local ''TEST_DATABASE_URL'' (own_the_environment config env)";
        cases "assert_local ''TEST_REDIS_URL'' (own_the_environment config env)") simp_all
  note unfolded = assms [unfolded load_initial_conftests_def config sum.case option.case if_not_P [OF venv] Let_def fst_conv snd_conv]
  note body = unfolded [folded owned_def needs_def, unfolded asserts prod.case sum.case]
  show thesis
  proof (cases needs)
    case False
    with body have "l = Unit" "env' = export POISON_DATABASE_URL POISON_REDIS_URL POISON_REDIS_URL POISON_REDIS_URL owned" by simp_all
    with False exportedI [OF POISON_local, of owned owned] show ?thesis
      by (intro that [OF config]) (simp_all add: owned_def needs_def)
  next
    case True
    have db: "dict_get renv ''TEST_DATABASE_URL'' = dict_get owned ''TEST_DATABASE_URL''" using renv by auto
    let ?url = "dict_get renv ''TEST_DATABASE_URL''"
    have "l = Integration \<and> (\<exists>d r b c. env' = export d r b c renv \<and> local_url d)"
    proof (cases "?url \<in> {None, Some []}")
      case True
      then have "provisioned py st config rid (worker_id renv) (renv, w) = (Inr (Some l), (env', w'))"
        using body \<open>needs\<close> by (auto simp: rid)
      then show ?thesis by (rule provisioned_exports)
    next
      case False
      then obtain url where url: "?url = Some url" "url \<noteq> []" by auto
      then obtain s' where s': "use_override st config url (worker_id renv) (renv, w) = (Inr (), s')" "l = Integration" "s' = (env', w')"
        using body \<open>needs\<close> by (auto simp: rid split: prod.splits sum.splits)
      from use_override_exports [OF s'(1) [unfolded s'(3)]] assert_local_ok [OF asserts(1)] url db s'(2) show ?thesis by auto
    qed
    then obtain d r b c where "l = Integration" "env' = export d r b c renv" "local_url d" by blast
    with \<open>needs\<close> exportedI [OF \<open>local_url d\<close> renv] show ?thesis
      by (intro that [OF config]) (simp_all add: owned_def needs_def)
  qed
qed

lemma hook_lookup:
  assumes "load_initial_conftests py st (env, w) = (Inr (Some l), (env', w'))" and "find_config (py_dirs py) = Inr (Some config)"
    and "dict_ok (tc_env config)" and "k \<notin> set INFRA_ENV" and "k \<noteq> ''TR_TESTING_RUN_ID''"
  shows "dict_get env' k = (case dict_get POLICY_ENV k of Some v \<Rightarrow> Some v
      | None \<Rightarrow> (case dict_get (tc_env config) k of Some v \<Rightarrow> Some v | None \<Rightarrow> if passes_scrub k then dict_get env k else None))"
proof -
  from hook_exports [OF assms(1)] obtain config' where config': "find_config (py_dirs py) = Inr (Some config')"
    and ex: "exported (own_the_environment config' env) env'" by blast
  from config' assms(2) have "config' = config" by simp
  with ex obtain d r b c env1 where e: "env' = export d r b c env1"
    and env1: "env1 = own_the_environment config env \<or> (\<exists>i. env1 = dict_set ''TR_TESTING_RUN_ID'' i (own_the_environment config env))"
    unfolding exported_def by blast
  have "dict_get env' k = dict_get (own_the_environment config env) k"
    using assms(4,5) env1 unfolding e export_lookup by (auto simp: INFRA_ENV_def)
  then show ?thesis by (simp only: own_the_environment_lookup [OF assms(3)])
qed

section \<open>Properties\<close>

text \<open>
  C19: a test run stays on the local machine and in its own environment. When the hook of an opted-in service returns,
  \<open>DATABASE_URL\<close> names a loopback host, whichever lane and whatever the developer had exported; in the unit lane, which the paths of the
  run alone decide, it is the address on which nothing listens. Of the inherited environment only variables on the allow list survive, and the
  service's own table cannot replace what the plugin owns.
\<close>

theorem tests_stay_local:
  assumes "load_initial_conftests py st (env, w) = (Inr (Some l), (env', w'))"
  shows "(\<exists>url. dict_get env' ''DATABASE_URL'' = Some url \<and> local_url url)
    \<and> (l = Unit \<longleftrightarrow> \<not> run_needs_infrastructure (py_locate py) (py_args py))
    \<and> (l = Unit \<longrightarrow> dict_get env' ''DATABASE_URL'' = Some POISON_DATABASE_URL \<and> dict_get env' ''REDIS_URL'' = Some POISON_REDIS_URL)
    \<and> (\<exists>config. find_config (py_dirs py) = Inr (Some config)
      \<and> (dict_ok (tc_env config) \<longrightarrow> (\<forall>k. k \<notin> set INFRA_ENV \<and> k \<noteq> ''TR_TESTING_RUN_ID'' \<longrightarrow>
           dict_get env' k = (case dict_get POLICY_ENV k of Some v \<Rightarrow> Some v
             | None \<Rightarrow> (case dict_get (tc_env config) k of Some v \<Rightarrow> Some v
                        | None \<Rightarrow> if passes_scrub k then dict_get env k else None)))))"
proof -
  from hook_exports [OF assms] obtain config where config: "find_config (py_dirs py) = Inr (Some config)"
    and ex: "exported (own_the_environment config env) env'"
    and unit_iff: "l = Unit \<longleftrightarrow> \<not> run_needs_infrastructure (py_locate py) (py_args py)"
    and poison: "l = Unit \<Longrightarrow> env' = export POISON_DATABASE_URL POISON_REDIS_URL POISON_REDIS_URL POISON_REDIS_URL (own_the_environment config env)"
    by blast
  from ex obtain d r b c env1 where e: "env' = export d r b c env1" "local_url d" unfolding exported_def by blast
  show ?thesis
  proof (intro conjI exI [of _ config] impI allI)
    show "\<exists>url. dict_get env' ''DATABASE_URL'' = Some url \<and> local_url url" using e by (simp add: export_lookup)
    show "dict_get env' ''DATABASE_URL'' = Some POISON_DATABASE_URL" "dict_get env' ''REDIS_URL'' = Some POISON_REDIS_URL" if "l = Unit"
      using poison [OF that] by (simp_all add: export_lookup)
  qed (rule unit_iff config hook_lookup [OF assms config]; (elim conjE)?; assumption)+
qed

text \<open>A run of a unit test, and one with a remote \<open>TEST_DATABASE_URL\<close>, for a service that has opted in.\<close>

definition demo_py :: "string list \<Rightarrow> pytest_env" where
  "demo_py args =
     \<lparr>py_dirs = [(''svc'', Some (Some (JDict [(''tool'', JDict [(''tr_testing'', JDict [(''service'', JStr ''tr-crm-core'')])])])))],
      py_has_venv = False, py_own_venv = False, py_locate = (\<lambda>p. Inside p), py_args = args, py_pid = ''42'', py_key = (\<lambda>_. ''0a1b2c3d4e'')\<rparr>"

definition demo_stack :: "unit stack_env" where
  "demo_stack =
     \<lparr>sk_postgres = (\<lambda>_ w. (Inr 5433, w)), sk_redis = (\<lambda>_ w. (Inr 6380, w)), sk_psql = (\<lambda>_ _ w. (Inr (), w)),
      sk_exists = (\<lambda>_ w. (Inr True, w)), sk_migrate = (\<lambda>_ _ w. (Inr 0, w))\<rparr>"

theorem tests_stay_local_witness:
  "\<exists>env'. load_initial_conftests (demo_py [''tests/unit'', ''-q'']) demo_stack ([(''DATABASE_URL'', ''postgresql://prod/db''), (''SECRET'', ''x'')], ()) =
       (Inr (Some Unit), (env', ()))
     \<and> dict_get env' ''DATABASE_URL'' = Some POISON_DATABASE_URL"
proof -
  define hook where "hook = load_initial_conftests (demo_py [''tests/unit'', ''-q'']) demo_stack ([(''DATABASE_URL'', ''postgresql://prod/db''), (''SECRET'', ''x'')], ())"
  have "fst hook = Inr (Some Unit)" unfolding hook_def by code_simp
  moreover obtain env' u where "snd hook = (env', u)" by (rule prod.exhaust)
  ultimately have hook: "hook = (Inr (Some Unit), (env', ()))" by (simp add: prod_eq_iff)
  have "dict_get env' ''DATABASE_URL'' = Some POISON_DATABASE_URL"
    using tests_stay_local [OF hook [unfolded hook_def]] by blast
  with hook show ?thesis unfolding hook_def by blast
qed

lemma remote_database_refused:
  "fst (load_initial_conftests (demo_py [''tests'']) demo_stack ([(''TEST_DATABASE_URL'', ''postgresql://db.example.com/x'')], ())) =
     Inl (Not_Local ''TEST_DATABASE_URL'' ''db.example.com'')"
  by code_simp

text \<open>
  Workers do not share a Redis database. The index a test computes for itself is the one the stack allotted; the three databases of a worker
  are below the 64 the server is started with, and those of different workers are disjoint, for up to twenty workers. The twenty-first shares those of
  the first.
\<close>

definition worker_databases :: "string \<Rightarrow> int set" where
  "worker_databases worker = {redis_index worker, redis_index worker + 1, redis_index worker + 2}"

lemma digits_value_nonneg: "0 \<le> acc \<Longrightarrow> digits_value b acc s = Some n \<Longrightarrow> 0 \<le> n"
proof (induction b acc s rule: digits_value.induct)
  case (2 b acc c s)
  have "0 \<le> 10 * acc + (of_char c - 48)" if "is_digit c"
    using that 2(3) by (simp add: is_digit_def Let_def) (metis (mono_tags) add_increasing diff_ge_0_iff_ge mult_nonneg_nonneg of_nat_le_iff of_nat_numeral of_nat_of_char zero_le_numeral)
  with 2 show ?case by (auto split: if_splits)
qed (simp split: if_splits)

lemma worker_slot_nonneg: "0 \<le> worker_slot worker"
  by (auto simp: worker_slot_def dest: digits_value_nonneg [rotated] split: option.split)

theorem redis_indexes_disjoint:
  shows "redis_index_for_worker [(''PYTEST_XDIST_WORKER'', worker)] 0 = redis_index worker
    \<and> worker_databases worker \<subseteq> {0..<64}
    \<and> (worker_slot worker < 20 \<and> worker_slot other < 20 \<and> worker_slot worker \<noteq> worker_slot other \<longrightarrow>
         worker_databases worker \<inter> worker_databases other = {})
    \<and> worker_databases ''gw20'' = worker_databases ''gw0''"
proof (intro conjI impI)
  show "redis_index_for_worker [(''PYTEST_XDIST_WORKER'', worker)] 0 = redis_index worker"
    by (simp add: redis_index_for_worker_def redis_index_def worker_id_def)
  have "0 \<le> redis_index worker \<and> redis_index worker < 60" by (simp add: redis_index_def)
  then show "worker_databases worker \<subseteq> {0..<64}" by (auto simp: worker_databases_def)
  show "worker_databases worker \<inter> worker_databases other = {}"
    if "worker_slot worker < 20 \<and> worker_slot other < 20 \<and> worker_slot worker \<noteq> worker_slot other"
  proof -
    have "redis_index worker = 3 * worker_slot worker" "redis_index other = 3 * worker_slot other"
      using that worker_slot_nonneg by (simp_all add: redis_index_def)
    with that show ?thesis by (auto simp: worker_databases_def)
  qed
  show "worker_databases ''gw20'' = worker_databases ''gw0''" by code_simp
qed

theorem redis_indexes_disjoint_witness: "worker_databases ''gw3'' \<inter> worker_databases ''gw4'' = {}"
proof -
  have "worker_slot ''gw3'' = 3" "worker_slot ''gw4'' = 4" by code_simp+
  then show ?thesis using redis_indexes_disjoint [of "''gw3''" "''gw4''"] by simp
qed

end
