(* ===== verification/Env_Contract.thy ===== *)
theory Env_Contract
  imports Test_Plugin
begin

text \<open>
  \<open>testing/env_contract.py\<close>: every key of a service's \<open>.env.example\<close> has an owner, every value reads the same in every parser, and no
  settings field is filled from the environment of the developer. Python's \<open>ast\<close>, pydantic and the file system are arguments;
  \<open>config/env_audit.py\<close>, on which it rests, is in theory \<open>Service_Runtime\<close>.
\<close>

section \<open>Which classes are settings\<close>

text \<open>The base classes of a class as expressions, and the top-level classes of a module (\<open>None\<close> when it does not parse).\<close>

datatype ast_expr = AName string | AAttribute ast_expr string | ASubscript ast_expr | AOther

fun base_name :: "ast_expr \<Rightarrow> string option" where
  "base_name (AName n) = Some n"
| "base_name (AAttribute e a) = Some a"
| "base_name (ASubscript e) = base_name e"
| "base_name AOther = None"

record class_def =
  cd_name :: string
  cd_bases :: "ast_expr list"

type_synonym module = "string \<times> class_def list option"

definition SETTINGS_BASES :: "string list" where
  "SETTINGS_BASES = [''BaseSettings'', ''BaseServiceSettings'', ''AuthLibSettings'']"

definition base_names :: "class_def \<Rightarrow> string set" where
  "base_names c = set (concat (map (\<lambda>b. case base_name b of Some n \<Rightarrow> if n = [] then [] else [n] | None \<Rightarrow> []) (cd_bases c)))"

text \<open>\<open>{node.name: {...} for node in tree.body if ...}\<close>\<close>

definition class_table :: "class_def list \<Rightarrow> (string, string set) dict" where
  "class_table cs = foldl (\<lambda>d c. dict_set (cd_name c) (base_names c) d) [] cs"

definition candidates :: "module list \<Rightarrow> (string \<times> (string, string set) dict) list" where
  "candidates ms =
     filter (\<lambda>(_, d). d \<noteq> []) (concat (map (\<lambda>(p, cs). case cs of None \<Rightarrow> [] | Some cs \<Rightarrow> [(p, class_table cs)]) ms))"

text \<open>One pass over all classes, which sees the names it has just added.\<close>

definition all_classes :: "(string \<times> (string, string set) dict) list \<Rightarrow> (string \<times> string set) list" where
  "all_classes cands = concat (map snd cands)"

definition add_class :: "string set \<Rightarrow> string \<times> string set \<Rightarrow> string set" where
  "add_class names c = (case c of (n, bases) \<Rightarrow> if n \<notin> names \<and> bases \<inter> names \<noteq> {} then insert n names else names)"

definition one_pass :: "(string \<times> string set) list \<Rightarrow> string set \<Rightarrow> string set" where
  "one_pass cs names = foldl add_class names cs"

lemma one_pass_bounds: "names \<subseteq> one_pass cs names \<and> one_pass cs names \<subseteq> names \<union> fst ` set cs"
proof (induction cs arbitrary: names)
  case (Cons c cs)
  have "names \<subseteq> add_class names c \<and> add_class names c \<subseteq> insert (fst c) names" by (cases c) (auto simp: add_class_def)
  moreover have "one_pass (c # cs) names = one_pass cs (add_class names c)" by (simp add: one_pass_def)
  ultimately show ?case using Cons.IH [of "add_class names c"] by auto
qed (simp add: one_pass_def)

text \<open>\<open>while changed\<close>: passes until one adds nothing.\<close>

function settings_closure :: "(string \<times> string set) list \<Rightarrow> string set \<Rightarrow> string set" where
  "settings_closure cs names =
     (if one_pass cs names = names then names else settings_closure cs (one_pass cs names))"
  by pat_completeness auto
termination
proof (relation "measure (\<lambda>(cs, names). card (fst ` set cs - names))")
  fix cs :: "(string \<times> string set) list" and names assume ne: "one_pass cs names \<noteq> names"
  note b = one_pass_bounds [of names cs]
  then have "fst ` set cs - one_pass cs names \<subset> fst ` set cs - names" using ne by auto
  then show "((cs, one_pass cs names), (cs, names)) \<in> measure (\<lambda>(cs, names). card (fst ` set cs - names))"
    by (simp add: psubset_card_mono)
qed simp

declare settings_closure.simps [simp del]

definition class_names_by_module :: "module list \<Rightarrow> (string \<times> string list) list" where
  "class_names_by_module ms =
     (let cands = candidates ms; names = settings_closure (all_classes cands) (set SETTINGS_BASES)
      in filter (\<lambda>(_, ns). ns \<noteq> []) (map (\<lambda>(p, d). (p, map fst (filter (\<lambda>(_, bases). bases \<inter> names \<noteq> {}) d))) cands))"

definition settings_class_names :: "module list \<Rightarrow> string set" where
  "settings_class_names ms = set (concat (map snd (class_names_by_module ms)))"

text \<open>
  \<open>settings_classes\<close>: \<open>load path name\<close> is the settings class a module has under a name after its import, if it is one. The list is in the order of
  discovery; sorting it changes only the order of messages.
\<close>

definition settings_classes :: "(string \<Rightarrow> string \<Rightarrow> settings_class option) \<Rightarrow> module list \<Rightarrow> string + settings_class list" where
  "settings_classes load ms =
     (let found = concat (map (\<lambda>(p, ns). concat (map (\<lambda>n. case load p n of Some c \<Rightarrow> [c] | None \<Rightarrow> []) ns)) (class_names_by_module ms))
      in if found = [] then Inl ''found zero settings classes'' else Inr found)"

section \<open>Owners of the keys\<close>

definition unclaimed :: "string set \<Rightarrow> settings_class list \<Rightarrow> string set" where
  "unclaimed keys owners =
     (case declared_env_keys_by_sensitivity owners of (cs, ci) \<Rightarrow> {k \<in> keys. k \<notin> cs \<and> upper k \<notin> ci})"

definition unclaimed_env_keys :: "string list \<Rightarrow> settings_class list \<Rightarrow> string set" where
  "unclaimed_env_keys lines classes = unclaimed (parse_env_keys lines) classes"

text \<open>\<open>_externally_consumed\<close> on the texts of the files that match the globs, without those in ignored directories.\<close>

definition any_of :: "string list \<Rightarrow> rx" where
  "any_of ks = foldr (\<lambda>k r. Alt (lit k) r) ks (Cls (\<lambda>_. False))"

definition externally_consumed :: "string list \<Rightarrow> string list \<Rightarrow> string set" where
  "externally_consumed texts keys =
     (if keys = [] then {}
      else set (concat (map (rx_findall (cats [Word_Boundary, Group 1 (any_of keys), Word_Boundary])) texts)))"

datatype contract_failure =
    No_Example
  | No_Settings
  | Orphans "string set"
  | Table_Orphans "string set"

text \<open>\<open>assert_no_orphan_env_keys\<close>; \<open>sorted_list\<close> lists a set of keys and \<open>table\<close> are the keys of \<open>[tool.tr_testing.env]\<close>.\<close>

definition assert_no_orphan_env_keys ::
  "(string set \<Rightarrow> string list) \<Rightarrow> string list option \<Rightarrow> (string + settings_class list) \<Rightarrow> settings_class list \<Rightarrow> string list \<Rightarrow> string set
   \<Rightarrow> contract_failure + unit" where
  "assert_no_orphan_env_keys sorted_list example found extra texts table =
     (case example of
        None \<Rightarrow> Inl No_Example
      | Some lines \<Rightarrow>
          (case found of
             Inl _ \<Rightarrow> Inl No_Settings
           | Inr classes \<Rightarrow>
               let owners = classes @ extra;
                   unowned = unclaimed_env_keys lines owners;
                   orphans = unowned - externally_consumed texts (sorted_list unowned);
                   table_orphans = unclaimed table owners
               in if orphans \<noteq> {} then Inl (Orphans orphans)
                  else if table_orphans \<noteq> {} then Inl (Table_Orphans table_orphans)
                  else Inr ()))"

section \<open>Portable values\<close>

definition blank :: "char \<Rightarrow> bool" where
  "blank c = (c = CHR '' '' \<or> c = CHR 0x09)"

definition not_newline :: "char \<Rightarrow> bool" where
  "not_newline c = (c \<noteq> newline)"

definition LINE :: rx where
  "LINE = cats [Text_Start, opt (Cat (lit ''export'') (plus1 (Cls blank))), Group 1 (Cat (Cls key_start) (Star True (Cls key_char))),
                lit ''='', Group 2 (Star True (Cls not_newline)), Text_End_Newline]"

definition single_quote :: char where
  "single_quote = CHR 0x27"

definition double_quote :: char where
  "double_quote = CHR 0x22"

definition special :: "char \<Rightarrow> bool" where
  "special c = (c = CHR ''$'' \<or> c = CHR 0x5C \<or> c = CHR 0x60)"

definition SINGLE_QUOTED :: rx where
  "SINGLE_QUOTED = cats [Text_Start, lit [single_quote], Star True (Cls (\<lambda>c. c \<noteq> single_quote)), lit [single_quote], Text_End_Newline]"

definition DOUBLE_QUOTED :: rx where
  "DOUBLE_QUOTED =
     cats [Text_Start, lit [double_quote], Star True (Cls (\<lambda>c. c \<noteq> double_quote \<and> \<not> special c)), lit [double_quote], Text_End_Newline]"

definition bare :: "char \<Rightarrow> bool" where
  "bare c = (\<not> is_space c \<and> c \<noteq> single_quote \<and> c \<noteq> double_quote \<and> \<not> special c)"

definition UNQUOTED :: rx where
  "UNQUOTED = cats [Text_Start, Star True (Cls bare), Text_End_Newline]"

definition INLINE_COMMENT :: rx where
  "INLINE_COMMENT = cats [plus1 (lit '' ''), lit ''#'', Star True (Cls not_newline)]"

definition TAB_BEFORE_HASH :: rx where
  "TAB_BEFORE_HASH = cats [Star True (Cls blank), lit [CHR 0x09], Star True (Cls blank), lit ''#'']"

definition QUOTED :: rx where
  "QUOTED = cats [Group 1 (Cls (\<lambda>c. c = single_quote \<or> c = double_quote)), Star True (Cls not_newline), Backref 1]"

definition without_comment :: "string \<Rightarrow> string" where
  "without_comment v =
     (case v of
        q # rest \<Rightarrow>
          if q = single_quote \<or> q = double_quote
          then let inner = takeWhile (\<lambda>c. c \<noteq> q) rest in
               if length inner < length rest \<and> rx_fullmatch INLINE_COMMENT (drop (Suc (length inner)) rest) \<noteq> None
               then q # inner @ [q] else v
          else (case search_from INLINE_COMMENT [] v of None \<Rightarrow> v | Some (s, _) \<Rightarrow> rev (ms_before s))
      | [] \<Rightarrow> v)"

datatype portability = Space_Before_Hash | Json_Value | Quote_It

definition inner_text :: "string \<Rightarrow> string" where
  "inner_text v =
     (if length v \<ge> 2 \<and> hd v = last v \<and> (hd v = single_quote \<or> hd v = double_quote) then butlast (tl v) else v)"

definition portability_problem :: "string \<Rightarrow> portability option" where
  "portability_problem v0 =
     (let v = without_comment v0 in
      if rx_fullmatch QUOTED v = None \<and> rx_search TAB_BEFORE_HASH v \<noteq> None then Some Space_Before_Hash
      else if prefix ''['' (inner_text v) \<or> prefix ''{'' (inner_text v) then Some Json_Value
      else if rx_match SINGLE_QUOTED v \<noteq> None \<or> rx_match DOUBLE_QUOTED v \<noteq> None \<or> rx_match UNQUOTED v \<noteq> None then None
      else Some Quote_It)"

datatype line_problem = Not_Key_Value | Repeats string | Not_Portable string portability

text \<open>The loop over the numbered lines, with the keys seen so far.\<close>

fun scan_example :: "nat \<Rightarrow> string set \<Rightarrow> string list \<Rightarrow> (nat \<times> line_problem) list" where
  "scan_example number seen [] = []"
| "scan_example number seen (raw # lines) =
     (let line = strip raw in
      if line = [] \<or> prefix ''#'' line then scan_example (Suc number) seen lines
      else case rx_match LINE line of
             None \<Rightarrow> (number, Not_Key_Value) # scan_example (Suc number) seen lines
           | Some m \<Rightarrow>
               let key = group_text 1 m in
               (if key \<in> seen then [(number, Repeats key)] else [])
               @ (case portability_problem (group_text 2 m) of Some p \<Rightarrow> [(number, Not_Portable key p)] | None \<Rightarrow> [])
               @ scan_example (Suc number) (insert key seen) lines)"

definition assert_env_example_is_portable :: "string \<Rightarrow> (nat \<times> line_problem) list + unit" where
  "assert_env_example_is_portable text =
     (let problems = scan_example 1 {} (splitlines text) in if problems \<noteq> [] then Inl problems else Inr ())"

section \<open>Settings that the environment cannot reach\<close>

text \<open>What pydantic says of a field: the members of a union, whether it is \<open>Json\<close>, complex, or marked \<open>NoDecode\<close>.\<close>

datatype field_type = Field_Type (ft_members: "field_type list") (ft_json: bool) (ft_complex: bool) (ft_no_decode: bool)

definition json_decoded :: "field_type \<Rightarrow> bool" where
  "json_decoded f =
     (if ft_members f \<noteq> [] then \<exists>m \<in> set (ft_members f). ft_json m \<or> ft_complex m
      else ft_json f \<or> (ft_complex f \<and> \<not> ft_no_decode f))"

definition shadowed :: "string \<Rightarrow> bool" where
  "shadowed env_name =
     (\<exists>entry \<in> set ENV_PASSTHROUGH.
        if is_pattern entry then prefix (upper (butlast entry)) (upper env_name) else upper env_name = upper entry)"

definition class_problems :: "(settings_class \<Rightarrow> string \<Rightarrow> field_type) \<Rightarrow> settings_class \<Rightarrow> string list" where
  "class_problems type_of c =
     map fst (filter (\<lambda>(n, _). json_decoded (type_of c n)) (sc_fields c))
     @ filter shadowed (concat (map (\<lambda>f. if sc_case_sensitive c then field_keys c f else map upper (field_keys c f)) (sc_fields c)))"

definition assert_settings_are_env_safe :: "(settings_class \<Rightarrow> string \<Rightarrow> field_type) \<Rightarrow> (string + settings_class list) \<Rightarrow> string list + unit" where
  "assert_settings_are_env_safe type_of found =
     (case found of
        Inl e \<Rightarrow> Inl [e]
      | Inr classes \<Rightarrow> let problems = concat (map (class_problems type_of) classes) in if problems \<noteq> [] then Inl problems else Inr ())"

section \<open>The closure\<close>

text \<open>The specification: a settings base, or a class with a base of that name.\<close>

inductive derived :: "(string \<times> string set) list \<Rightarrow> string \<Rightarrow> bool" for cs where
  base: "n \<in> set SETTINGS_BASES \<Longrightarrow> derived cs n"
| inherits: "(n, bases) \<in> set cs \<Longrightarrow> b \<in> bases \<Longrightarrow> derived cs b \<Longrightarrow> derived cs n"

lemma one_pass_derived:
  assumes "set cs' \<subseteq> set cs" and "\<forall>n \<in> names. derived cs n"
  shows "\<forall>n \<in> one_pass cs' names. derived cs n"
  using assms
proof (induction cs' arbitrary: names)
  case (Cons c cs')
  obtain n bases where c: "c = (n, bases)" by (cases c)
  have "\<forall>n \<in> add_class names c. derived cs n"
  proof (cases "n \<notin> names \<and> bases \<inter> names \<noteq> {}")
    case True
    then obtain b where "b \<in> bases" "b \<in> names" by blast
    with Cons.prems c have "derived cs n" by (auto intro: derived.inherits)
    with Cons.prems(2) show ?thesis by (auto simp: add_class_def c)
  next
    case False
    then have "add_class names c = names" by (auto simp: add_class_def c)
    with Cons.prems(2) show ?thesis by simp
  qed
  moreover have "set cs' \<subseteq> set cs" using Cons.prems(1) by simp
  ultimately show ?case using Cons.IH [of "add_class names c"] by (simp add: one_pass_def)
qed (simp add: one_pass_def)

text \<open>A pass that adds nothing has found every class with a base among the names.\<close>

lemma one_pass_fixed:
  assumes "one_pass cs names = names" and "(n, bases) \<in> set cs" and "bases \<inter> names \<noteq> {}"
  shows "n \<in> names"
proof -
  from assms(2) obtain pre post where cs: "cs = pre @ (n, bases) # post" by (auto simp: in_set_conv_decomp)
  let ?m = "one_pass pre names"
  have m: "names \<subseteq> ?m" using one_pass_bounds by blast
  have "one_pass cs names = one_pass post (add_class ?m (n, bases))" by (simp add: cs one_pass_def)
  then have sub: "add_class ?m (n, bases) \<subseteq> names" using one_pass_bounds [of "add_class ?m (n, bases)" post] assms(1) by simp
  have "bases \<inter> ?m \<noteq> {}" using m assms(3) by blast
  then have "n \<in> add_class ?m (n, bases)" by (simp add: add_class_def)
  with sub show ?thesis by blast
qed

lemma settings_closure_derived:
  assumes "set SETTINGS_BASES \<subseteq> names" and "\<forall>n \<in> names. derived cs n"
  shows "settings_closure cs names = {n. derived cs n}"
  using assms
proof (induction cs names rule: settings_closure.induct)
  case (1 cs names)
  show ?case
  proof (cases "one_pass cs names = names")
    case True
    have "n \<in> names" if "derived cs n" for n
      using that
    proof induction
      case (base n)
      then show ?case using 1(2) by blast
    next
      case (inherits n bases b)
      then show ?case using one_pass_fixed [OF True inherits(1)] by blast
    qed
    with True 1(3) show ?thesis by (subst settings_closure.simps) auto
  next
    case False
    have "set SETTINGS_BASES \<subseteq> one_pass cs names" using 1(2) one_pass_bounds [of names cs] by blast
    from 1(1) [OF False this one_pass_derived [OF subset_refl 1(3)]] False show ?thesis
      by (subst settings_closure.simps) simp
  qed
qed

lemma nonempty_names: "set (concat (map snd (filter (\<lambda>(_, ns). ns \<noteq> []) xs))) = (\<Union>x \<in> set xs. set (snd x))"
  by (induction xs) auto

section \<open>Scrubbed variables\<close>

lemma upper_idem: "upper (upper s) = upper s"
  by (induction s) (auto simp: upper_def Let_def)

lemma upper_prefix: "prefix p s \<Longrightarrow> prefix (upper p) (upper s)"
  by (auto simp: prefix_def upper_def)

lemma passes_scrub_shadowed: "passes_scrub v \<Longrightarrow> shadowed v"
  unfolding passes_scrub_def shadowed_def PASSTHROUGH_NAMES_def PASSTHROUGH_PREFIXES_def
  by (auto intro: upper_prefix)

lemma shadowed_upper: "shadowed (upper v) = shadowed v"
  by (simp add: shadowed_def upper_idem)

text \<open>A variable that fills a field of a settings class.\<close>

definition binds :: "settings_class \<Rightarrow> string \<Rightarrow> bool" where
  "binds c v = (\<exists>f \<in> set (sc_fields c). if sc_case_sensitive c then v \<in> set (field_keys c f) else upper v \<in> upper ` set (field_keys c f))"

lemma env_safe_unreachable:
  assumes "assert_settings_are_env_safe type_of (Inr classes) = Inr ()" and "c \<in> set classes" and "binds c v"
  shows "\<not> passes_scrub v"
proof
  assume "passes_scrub v"
  then have sh: "shadowed v" "shadowed (upper v)" by (simp_all add: passes_scrub_shadowed shadowed_upper)
  from assms(1) have "concat (map (class_problems type_of) classes) = []"
    unfolding assert_settings_are_env_safe_def by (auto simp: Let_def split: if_splits)
  with assms(2) have "class_problems type_of c = []" by simp
  then have none: "\<not> shadowed k" if "f \<in> set (sc_fields c)" "k \<in> set (if sc_case_sensitive c then field_keys c f else map upper (field_keys c f))" for f k
    using that unfolding class_problems_def by (cases "sc_case_sensitive c") (auto simp: filter_empty_conv)
  from assms(3) obtain f where "f \<in> set (sc_fields c)"
    "if sc_case_sensitive c then v \<in> set (field_keys c f) else upper v \<in> upper ` set (field_keys c f)" unfolding binds_def by blast
  with none [of f v] none [of f "upper v"] sh show False by (auto split: if_splits)
qed

section \<open>Keys of an example file\<close>


lemma LINE_sound:
  assumes "rx_match LINE line = Some m"
  obtains pre key val nl where "line = pre @ key @ ''='' @ val @ nl" "group_text 1 m = key" "group_text 2 m = val"
    "pre = [] \<or> (\<exists>bl. pre = ''export'' @ bl \<and> bl \<noteq> [] \<and> (\<forall>c \<in> set bl. blank c))"
    "key \<noteq> []" "key_start (hd key)" "\<forall>c \<in> set key. key_char c"
proof -
  define s0 where "s0 = at_start line"
  have after0: "ms_after s0 = line" by (simp add: s0_def at_start_def)
  from first_Some [OF assms [unfolded rx_match_def, folded s0_def]] obtain s1 s2 s3 s4 where
    s1: "s1 \<in> set (runs (opt (Cat (lit ''export'') (plus1 (Cls blank)))) s0)"
    and s2: "s2 \<in> set (runs (Group 1 (Cat (Cls key_start) (Star True (Cls key_char)))) s1)"
    and s3: "s3 \<in> set (runs (lit ''='') s2)"
    and s4: "s4 \<in> set (runs (Group 2 (Star True (Cls not_newline))) s3)" and m: "m = s4"
    unfolding LINE_def cats_def foldr.simps comp_apply by (auto simp del: runs.simps(6))
  have p: "\<exists>pre. line = pre @ ms_after s1 \<and> (pre = [] \<or> (\<exists>bl. pre = ''export'' @ bl \<and> bl \<noteq> [] \<and> (\<forall>c \<in> set bl. blank c)))"
  proof -
    from s1 consider "s1 = s0" | u where "u \<in> set (runs (lit ''export'') s0)" "s1 \<in> set (runs (plus1 (Cls blank)) u)"
      by (auto simp: opt_def)
    then show ?thesis
    proof cases
      case 1
      then show ?thesis by (simp add: after0)
    next
      case 2
      from lit_sound [OF 2(1)] have "line = ''export'' @ ms_after u" by (simp add: after0)
      moreover from 2(2) obtain bl where "ms_after u = bl @ ms_after s1" "bl \<noteq> []" "\<forall>c \<in> set bl. blank c" by (rule plus_class_sound)
      ultimately show ?thesis by (intro exI [of _ "''export'' @ bl"]) auto
    qed
  qed
  from s2 obtain t where t: "t \<in> set (runs (Cat (Cls key_start) (Star True (Cls key_char))) s1)"
    and s2t: "s2 = t\<lparr>ms_groups := dict_set 1 (take (length (ms_after s1) - length (ms_after t)) (ms_after s1)) (ms_groups t)\<rparr>"
    unfolding runs.simps by auto
  from t obtain u where u: "u \<in> set (runs (Cls key_start) s1)" "t \<in> set (runs (Star True (Cls key_char)) u)" by auto
  from u(1) obtain c a where c: "ms_after s1 = c # a" "key_start c" "u = advance 1 s1" by (cases "ms_after s1") simp_all
  from u(2) obtain w where w: "ms_after u = w @ ms_after t" "\<forall>c \<in> set w. key_char c" by (rule star_class_sound)
  define key where "key = c # w"
  have k: "ms_after s1 = key @ ms_after s2" "dict_get (ms_groups s2) 1 = Some key"
    using c w(1) by (simp_all add: s2t key_def advance_def)
  have eq: "ms_after s2 = ''='' @ ms_after s3" "ms_groups s3 = ms_groups s2" using lit_sound [OF s3] by simp_all
  from s4 obtain v where v: "v \<in> set (runs (Star True (Cls not_newline)) s3)"
    and s4v: "s4 = v\<lparr>ms_groups := dict_set 2 (take (length (ms_after s3) - length (ms_after v)) (ms_after s3)) (ms_groups v)\<rparr>"
    unfolding runs.simps(6) by auto
  from v obtain val where val: "ms_after s3 = val @ ms_after v" "ms_groups v = ms_groups s3" by (rule star_class_sound) 
  have g: "group_text 1 m = key" "group_text 2 m = val"
    using k(2) eq(2) val by (simp_all add: m s4v group_text_def)
  from p obtain pre where pre: "line = pre @ ms_after s1" "pre = [] \<or> (\<exists>bl. pre = ''export'' @ bl \<and> bl \<noteq> [] \<and> (\<forall>c \<in> set bl. blank c))" by blast
  have "line = pre @ key @ ''='' @ val @ ms_after v" using pre(1) k(1) eq(1) val(1) by simp
  moreover have "\<forall>c \<in> set key. key_char c" using c(2) w(2) by (simp add: key_def key_char_def)
  ultimately show thesis using that [OF _ g pre(2)] c(2) by (simp add: key_def)
qed

lemma lstrip_strip: "\<exists>sp. lstrip raw = strip raw @ sp \<and> (\<forall>c \<in> set sp. is_space c)"
proof -
  have "rev (lstrip raw) = takeWhile is_space (rev (lstrip raw)) @ dropWhile is_space (rev (lstrip raw))" by simp
  then have "lstrip raw = rev (dropWhile is_space (rev (lstrip raw))) @ rev (takeWhile is_space (rev (lstrip raw)))"
    by (metis rev_append rev_rev_ident)
  then show ?thesis unfolding strip_def lstrip_def [symmetric] by (metis set_rev set_takeWhileD)
qed

lemma key_char_not_space: "key_char c \<Longrightarrow> \<not> is_space c"
  by (auto simp: key_char_def key_start_def is_alpha_def is_digit_def is_space_def Let_def)

lemma blank_is_space: "blank c \<Longrightarrow> is_space c"
  unfolding blank_def by (elim disjE) (simp_all add: is_space_def)

lemma key_char_equals: "\<not> key_char CHR ''=''"
  by (simp add: key_char_def key_start_def is_alpha_def is_digit_def)

lemma assigned_name_key:
  assumes "key \<noteq> []" and "key_start (hd key)" and "\<forall>c \<in> set key. key_char c"
  shows "assigned_name (key @ ''='' @ rest) = Some key"
proof -
  have "takeWhile key_char (key @ CHR ''='' # rest) = key" using assms(3) key_char_equals by (simp add: takeWhile_append2)
  moreover have "dropWhile key_char (key @ CHR ''='' # rest) = CHR ''='' # rest"
    using assms(3) key_char_equals by (simp add: dropWhile_append2)
  moreover have "lstrip (CHR ''='' # rest) = CHR ''='' # rest" by (simp add: lstrip_def is_space_def)
  ultimately show ?thesis using assms(1,2) by (simp add: assigned_name_def Let_def)
qed

lemma env_key_line:
  assumes "lstrip raw = pre @ key @ ''='' @ rest" and "pre = [] \<or> (\<exists>bl. pre = ''export'' @ bl \<and> bl \<noteq> [] \<and> (\<forall>c \<in> set bl. blank c))"
    and "key \<noteq> []" and "key_start (hd key)" and "\<forall>c \<in> set key. key_char c"
  shows "env_key raw = Some key"
proof -
  note name = assigned_name_key [OF assms(3-5), of rest]
  from assms(2) show ?thesis
  proof
    assume "pre = []"
    with assms(1) have l: "lstrip raw = key @ ''='' @ rest" by simp
    have "\<not> is_space (hd (drop 6 (key @ ''='' @ rest)))" if pre: "prefix ''export'' (key @ ''='' @ rest)"
    proof -
      have "length key \<ge> 6"
      proof (rule ccontr)
        assume "\<not> length key \<ge> 6"
        then have "length key < 6" by simp
        from pre obtain zs where "key @ ''='' @ rest = ''export'' @ zs" unfolding prefix_def by blast
        then have "(key @ ''='' @ rest) ! length key = (''export'' @ zs) ! length key" by (simp only:)
        also have "\<dots> = ''export'' ! length key" using \<open>length key < 6\<close> by (intro nth_append_left) simp
        finally have "CHR ''='' = ''export'' ! length key" by (simp add: nth_append)
        moreover have "''export'' ! length key \<in> set ''export''" using \<open>length key < 6\<close> by (intro nth_mem) simp
        ultimately have "CHR ''='' \<in> set ''export''" by (simp only:)
        then show False by simp
      qed
      show ?thesis
      proof (cases "drop 6 key")
        case Nil
        then show ?thesis using \<open>length key \<ge> 6\<close> by (simp add: is_space_def)
      next
        case (Cons x xs)
        then have "x \<in> set key" by (metis in_set_dropD list.set_intros(1))
        with Cons assms(5) show ?thesis by (simp add: key_char_not_space)
      qed
    qed
    then have "\<not> (prefix ''export'' (lstrip raw) \<and> drop 6 (lstrip raw) \<noteq> [] \<and> is_space (hd (drop 6 (lstrip raw))))"
      unfolding l by blast
    then show ?thesis using name unfolding env_key_def Let_def l by (simp only: if_False option.case)
  next
    assume "\<exists>bl. pre = ''export'' @ bl \<and> bl \<noteq> [] \<and> (\<forall>c \<in> set bl. blank c)"
    then obtain bl where bl: "pre = ''export'' @ bl" "bl \<noteq> []" "\<forall>c \<in> set bl. blank c" by (elim exE conjE)
    have sp: "\<forall>c \<in> set bl. is_space c" using bl(3) blank_is_space by blast
    have "lstrip (bl @ key @ ''='' @ rest) = key @ ''='' @ rest"
    proof -
      have "\<not> is_space (hd key)" using assms(3,5) key_char_not_space by simp
      then have "dropWhile is_space (key @ ''='' @ rest) = key @ ''='' @ rest" using assms(3) by (cases key) simp_all
      then show ?thesis using sp by (simp add: lstrip_def dropWhile_append2)
    qed
    moreover have "is_space (hd (bl @ key @ ''='' @ rest))" using sp bl(2) by simp
    moreover have "drop 6 (lstrip raw) = bl @ key @ ''='' @ rest" "prefix ''export'' (lstrip raw)" using assms(1) bl(1) by simp_all
    ultimately show ?thesis using name bl(2) by (simp add: env_key_def Let_def del: drop_eq_Nil)
  qed
qed


text \<open>The lines of an example file that assign a variable, and what an accepted file says of them.\<close>

definition assignment_line :: "string \<Rightarrow> bool" where
  "assignment_line raw = (strip raw \<noteq> [] \<and> \<not> prefix ''#'' (strip raw))"

lemma LINE_key:
  assumes "rx_match LINE (strip raw) = Some m"
  shows "env_key raw = Some (group_text 1 m)"
proof -
  from assms obtain pre key val nl where l: "strip raw = pre @ key @ ''='' @ val @ nl" "group_text 1 m = key"
    "pre = [] \<or> (\<exists>bl. pre = ''export'' @ bl \<and> bl \<noteq> [] \<and> (\<forall>c \<in> set bl. blank c))"
    "key \<noteq> []" "key_start (hd key)" "\<forall>c \<in> set key. key_char c" by (rule LINE_sound)
  from lstrip_strip obtain sp where "lstrip raw = strip raw @ sp" by blast
  with l(1) have "lstrip raw = pre @ key @ ''='' @ (val @ nl @ sp)" by simp
  from env_key_line [OF this l(3-6)] l(2) show ?thesis by simp
qed

lemma comment_has_no_key:
  assumes "\<not> assignment_line raw"
  shows "env_key raw = None"
proof -
  from lstrip_strip obtain sp where sp: "lstrip raw = strip raw @ sp" "\<forall>c \<in> set sp. is_space c" by blast
  have "lstrip raw = [] \<or> (\<exists>r. lstrip raw = CHR ''#'' # r)"
  proof (cases "strip raw = []")
    case True
    with sp have "\<forall>c \<in> set (lstrip raw). is_space c" by simp
    moreover have "lstrip raw \<noteq> [] \<Longrightarrow> \<not> is_space (hd (lstrip raw))" unfolding lstrip_def by (rule hd_dropWhile)
    ultimately show ?thesis by (metis hd_in_set)
  next
    case False
    with assms have "prefix ''#'' (strip raw)" by (simp add: assignment_line_def)
    with sp(1) show ?thesis by (auto simp: prefix_def)
  qed
  then show ?thesis by (auto simp: env_key_def assigned_name_def key_start_def is_alpha_def)
qed

lemma scan_clean:
  assumes "scan_example n seen lines = []"
  shows "\<exists>ks. map env_key (filter assignment_line lines) = map Some ks \<and> distinct ks \<and> set ks \<inter> seen = {}"
  using assms
proof (induction lines arbitrary: n seen)
  case (Cons raw lines)
  show ?case
  proof (cases "assignment_line raw")
    case False
    with Cons.prems have "scan_example (Suc n) seen lines = []" by (auto simp: assignment_line_def Let_def)
    from Cons.IH [OF this] False show ?thesis by simp
  next
    case True
    with Cons.prems obtain m where m: "rx_match LINE (strip raw) = Some m" "group_text 1 m \<notin> seen"
      "scan_example (Suc n) (insert (group_text 1 m) seen) lines = []"
      by (auto simp: assignment_line_def Let_def split: option.splits if_splits)
    from Cons.IH [OF m(3)] obtain ks where ks: "map env_key (filter assignment_line lines) = map Some ks" "distinct ks"
      "set ks \<inter> insert (group_text 1 m) seen = {}" by blast
    with True m(2) LINE_key [OF m(1)] show ?thesis by (intro exI [of _ "group_text 1 m # ks"]) auto
  qed
qed simp


lemma example_keys:
  assumes "scan_example n seen lines = []"
  shows "\<exists>ks. distinct ks \<and> set ks = parse_env_keys lines \<and> length ks = length (filter assignment_line lines)"
proof -
  from scan_clean [OF assms] obtain ks where ks: "map env_key (filter assignment_line lines) = map Some ks" "distinct ks" by blast
  have "k \<in> set ks \<longleftrightarrow> k \<in> parse_env_keys lines" for k
  proof -
    have "k \<in> set ks \<longleftrightarrow> Some k \<in> set (map Some ks)" by auto
    also have "\<dots> \<longleftrightarrow> (\<exists>l \<in> set lines. assignment_line l \<and> env_key l = Some k)" unfolding ks(1) [symmetric] by force
    also have "\<dots> \<longleftrightarrow> k \<in> parse_env_keys lines" using comment_has_no_key by (force simp: parse_env_keys_def)
    finally show ?thesis .
  qed
  moreover have "length ks = length (filter assignment_line lines)" using arg_cong [OF ks(1), of length] by simp
  ultimately show ?thesis using ks(2) by blast
qed

section \<open>Properties\<close>

text \<open>
  C30: the scan finds exactly the settings classes. The loop that looks for settings classes ends, and a class is found if and only if
  one of its bases is, by name, a settings base or a class that descends from one, in whichever modules and order the classes are defined.
\<close>

theorem settings_names_exact:
  "n \<in> settings_class_names ms \<longleftrightarrow>
     (\<exists>p d bases b. (p, d) \<in> set (candidates ms) \<and> (n, bases) \<in> set d \<and> b \<in> bases \<and> derived (all_classes (candidates ms)) b)"
proof -
  let ?cs = "all_classes (candidates ms)"
  have "settings_closure ?cs (set SETTINGS_BASES) = {n. derived ?cs n}"
    by (rule settings_closure_derived) (auto intro: derived.base)
  then have "settings_class_names ms = (\<Union>(p, d) \<in> set (candidates ms). fst ` {(n, bases) \<in> set d. bases \<inter> {n. derived ?cs n} \<noteq> {}})"
    unfolding settings_class_names_def class_names_by_module_def Let_def nonempty_names by (force simp: case_prod_beta)
  then show ?thesis by (force simp: image_iff)
qed


text \<open>A service with one setting, and two developers.\<close>

definition demo_settings :: settings_class where
  "demo_settings = \<lparr>sc_env_prefix = [], sc_env_prefix_target = ''variable'', sc_case_sensitive = True, sc_populate_by_name = False,
     sc_fields = [(''FEATURE_X'', NoAlias)]\<rparr>"

lemma demo_hook:
  obtains env' where "load_initial_conftests (demo_py [''tests/unit'']) demo_stack ([(''FEATURE_X'', v)], ()) = (Inr (Some Unit), (env', ()))"
proof -
  define hook where "hook = load_initial_conftests (demo_py [''tests/unit'']) demo_stack ([(''FEATURE_X'', v)], ())"
  have "fst hook = Inr (Some Unit)" unfolding hook_def by code_simp
  moreover obtain env' u where "snd hook = (env', u)" by (rule prod.exhaust)
  ultimately have "hook = (Inr (Some Unit), (env', ()))" by (simp add: prod_eq_iff)
  then show thesis unfolding hook_def by (rule that)
qed


text \<open>
  A portable example declares what it says. In a file that passes the portability check, every line that is neither blank nor a comment
  assigns a variable, no variable is assigned twice, and the keys that the audit reads from the file are exactly those: the strict pattern of
  the check and the lenient one of \<open>env_audit\<close> never disagree.
\<close>

theorem portable_example_keys:
  assumes "assert_env_example_is_portable content = Inr ()"
  shows "\<exists>ks. distinct ks \<and> set ks = parse_env_keys (splitlines content)
    \<and> length ks = length (filter assignment_line (splitlines content))"
proof (rule example_keys)
  show "scan_example 1 {} (splitlines content) = []"
    using assms unfolding assert_env_example_is_portable_def Let_def by (simp split: if_splits)
qed

definition demo_example :: string where
  "demo_example = ''A=1'' @ [newline] @ ''# note'' @ [newline] @ ''export B_2='' @ [single_quote] @ ''x y'' @ [single_quote] @ '' # why''"

theorem portable_example_keys_witness:
  "assert_env_example_is_portable demo_example = Inr ()
   \<and> (\<exists>ks. distinct ks \<and> set ks = parse_env_keys (splitlines demo_example) \<and> length ks = 2)"
proof -
  have ok: "assert_env_example_is_portable demo_example = Inr ()" by code_simp
  have "length (filter assignment_line (splitlines demo_example)) = 2" by code_simp
  with ok portable_example_keys [OF ok] show ?thesis by simp
qed

end
