(* ===== verification/Test_Containers.thy ===== *)
theory Test_Containers
  imports Test_Stack
begin

text \<open>
  The rest of \<open>testing/stack.py\<close> and \<open>testing/plugin.py\<close>: finding or creating a container and waiting for it, the key under which it is kept
  (\<open>testing/config.py\<close>), and the session hooks that create and drop the database of a run. The docker client and the clock are an
  argument; a loop that waits may run forever, in which case its value is \<open>None\<close>.
\<close>

section \<open>The key of a stack\<close>

text \<open>
  \<open>fingerprint\<close>: the texts fed to the digest, in order; \<open>files\<close> are the migration files with their contents. The computed value is
  kept in the object.
\<close>

definition layout_text :: "sql \<Rightarrow> string" where
  "layout_text q = (case q of Layout t \<Rightarrow> t | _ \<Rightarrow> [])"

definition digest_input :: "testing_config \<Rightarrow> (string \<times> string) list \<Rightarrow> string" where
  "digest_input config files =
     tc_service config @ tc_postgres_image config @ tc_redis_image config @ concat (map layout_text DATABASE_LAYOUT)
     @ concat (map (\<lambda>(path, content). path @ content) files)"

definition fingerprint :: "(string \<Rightarrow> string) \<Rightarrow> testing_config \<Rightarrow> (string \<times> string) list \<Rightarrow> string list \<Rightarrow> string \<times> string list" where
  "fingerprint sha256 config files cached =
     (case cached of v # _ \<Rightarrow> (v, cached) | [] \<Rightarrow> let v = sha256 (digest_input config files) in (v, [v]))"

definition stack_key :: "(string \<Rightarrow> string) \<Rightarrow> testing_config \<Rightarrow> (string \<times> string) list \<Rightarrow> string list \<Rightarrow> string" where
  "stack_key sha256 config files cached = take 12 (fst (fingerprint sha256 config files cached))"

section \<open>Docker\<close>

text \<open>
  The exceptions of the client: \<open>NotFound\<close> is an \<open>APIError\<close>; anything else is neither. The statuses are those the code tells apart.
\<close>

datatype docker_error = NotFound string | APIError string | Stack_Failure string | Other_Error string

datatype status = Running | Removing | Stopped

type_synonym ('w, 'a) docker_call = "'w \<Rightarrow> (docker_error + 'a) \<times> 'w"
type_synonym ('w, 'a) waiting = "'w \<Rightarrow> ((docker_error + 'a) \<times> 'w) option"

record 'w docker =
  dk_get :: "string \<Rightarrow> ('w, status) docker_call"
  dk_start :: "string \<Rightarrow> ('w, unit) docker_call"
  dk_remove :: "string \<Rightarrow> ('w, unit) docker_call"
  dk_run :: "string \<Rightarrow> ('w, unit) docker_call"
  dk_port :: "string \<Rightarrow> ('w, nat option) docker_call"
  dk_exec :: "string \<Rightarrow> ('w, int) docker_call"
  dk_now :: "'w \<Rightarrow> rat"
  dk_sleep :: "rat \<Rightarrow> 'w \<Rightarrow> 'w"

definition READY_TIMEOUT_SECONDS :: rat where
  "READY_TIMEOUT_SECONDS = 60"

definition READY_STREAK :: nat where
  "READY_STREAK = 3"

definition READY_INTERVAL_SECONDS :: rat where
  "READY_INTERVAL_SECONDS = 3 / 10"

text \<open>\<open>_await_gone\<close> up to a deadline.\<close>

partial_function (option) await_gone :: "'w docker \<Rightarrow> string \<Rightarrow> rat \<Rightarrow> ('w, unit) waiting" where
  "await_gone dk name deadline w =
     (if dk_now dk w < deadline
      then (case dk_get dk name w of
              (Inl (NotFound _), w') \<Rightarrow> Some (Inr (), w')
            | (Inl e, w') \<Rightarrow> Some (Inl e, w')
            | (Inr _, w') \<Rightarrow> await_gone dk name deadline (dk_sleep dk (1 / 5) w'))
      else Some (Inr (), w))"

text \<open>\<open>_adopt_or_create\<close> with the number of attempts left; \<open>create\<close> is its second half, \<open>again\<close> the next attempt.\<close>

definition conflicts :: "string \<Rightarrow> bool" where
  "conflicts message = (sublist ''Conflict'' message \<or> sublist ''already in use'' message)"

definition create :: "'w docker \<Rightarrow> string \<Rightarrow> (string \<Rightarrow> ('w, unit) waiting) \<Rightarrow> ('w, unit) waiting" where
  "create dk name again w =
     (case dk_run dk name w of
        (Inr _, w') \<Rightarrow> Some (Inr (), w')
      | (Inl (NotFound m), w') \<Rightarrow> if conflicts m then again m w' else Some (Inl (Stack_Failure m), w')
      | (Inl (APIError m), w') \<Rightarrow> if conflicts m then again m w' else Some (Inl (Stack_Failure m), w')
      | (Inl e, w') \<Rightarrow> Some (Inl e, w'))"

text \<open>The handlers of the first half: what is caught leads on to \<open>create\<close>.\<close>

definition or_create ::
  "'w docker \<Rightarrow> string \<Rightarrow> (string \<Rightarrow> ('w, unit) waiting) \<Rightarrow> (docker_error + unit) \<times> 'w \<Rightarrow> ((docker_error + unit) \<times> 'w) option" where
  "or_create dk name again r =
     (case r of
        (Inr _, w) \<Rightarrow> Some (Inr (), w)
      | (Inl (NotFound _), w) \<Rightarrow> create dk name again w
      | (Inl (APIError _), w) \<Rightarrow> create dk name again w
      | (Inl e, w) \<Rightarrow> Some (Inl e, w))"

primrec adopt_or_create :: "'w docker \<Rightarrow> string \<Rightarrow> nat \<Rightarrow> string \<Rightarrow> ('w, unit) waiting" where
  "adopt_or_create dk name 0 last_error w = Some (Inl (Stack_Failure last_error), w)"
| "adopt_or_create dk name (Suc n) last_error w =
     (let again = adopt_or_create dk name n in
      case dk_get dk name w of
        (Inr Removing, w1) \<Rightarrow>
          (case await_gone dk name (dk_now dk w1 + 20) w1 of
             None \<Rightarrow> None
           | Some (Inr _, w2) \<Rightarrow> again last_error w2
           | Some (Inl e, w2) \<Rightarrow> or_create dk name again (Inl e, w2))
      | (Inr Stopped, w1) \<Rightarrow> or_create dk name again (dk_start dk name w1)
      | (Inr Running, w1) \<Rightarrow> Some (Inr (), w1)
      | (Inl e, w1) \<Rightarrow> or_create dk name again (Inl e, w1))"

text \<open>\<open>_wait_ready\<close>: probes until \<open>READY_STREAK\<close> in a row have ended with code 0; an exception counts as a failed probe.\<close>

definition probe_ok :: "docker_error + int \<Rightarrow> bool" where
  "probe_ok r = (r = Inr 0)"

partial_function (option) wait_ready :: "'w docker \<Rightarrow> string \<Rightarrow> rat \<Rightarrow> nat \<Rightarrow> ('w, unit) waiting" where
  "wait_ready dk name deadline streak w =
     (if dk_now dk w < deadline
      then (case dk_exec dk name w of
              (r, w') \<Rightarrow>
                if probe_ok r
                then (if Suc streak \<ge> READY_STREAK then Some (Inr (), w')
                      else wait_ready dk name deadline (Suc streak) (dk_sleep dk READY_INTERVAL_SECONDS w'))
                else wait_ready dk name deadline 0 (dk_sleep dk READY_INTERVAL_SECONDS w'))
      else Some (Inl (Stack_Failure (name @ '' did not become ready'')), w))"

definition waiting_bind :: "('w, 'a) waiting \<Rightarrow> ('a \<Rightarrow> ('w, 'b) waiting) \<Rightarrow> ('w, 'b) waiting" where
  "waiting_bind m f w =
     (case m w of None \<Rightarrow> None | Some (Inl e, w') \<Rightarrow> Some (Inl e, w') | Some (Inr x, w') \<Rightarrow> f x w')"

text \<open>\<open>_ensure_container\<close>; \<open>fresh\<close> is the truth value of \<open>TR_TESTING_FRESH\<close>.\<close>

definition remove_first :: "'w docker \<Rightarrow> string \<Rightarrow> ('w, unit) waiting" where
  "remove_first dk name w =
     (let gone = (\<lambda>w. await_gone dk name (dk_now dk w + 20) w) in
      case dk_get dk name w of
        (Inl (NotFound _), w1) \<Rightarrow> gone w1
      | (Inl e, w1) \<Rightarrow> Some (Inl e, w1)
      | (Inr _, w1) \<Rightarrow>
          (case dk_remove dk name w1 of
             (Inl (NotFound _), w2) \<Rightarrow> gone w2
           | (Inl e, w2) \<Rightarrow> Some (Inl e, w2)
           | (Inr _, w2) \<Rightarrow> gone w2))"

definition ensure_container :: "'w docker \<Rightarrow> bool \<Rightarrow> string \<Rightarrow> ('w, nat) waiting" where
  "ensure_container dk fresh name =
     waiting_bind (if fresh then remove_first dk name else (\<lambda>w. Some (Inr (), w))) (\<lambda>_.
     waiting_bind (adopt_or_create dk name 3 []) (\<lambda>_.
     waiting_bind (\<lambda>w. Some (dk_port dk name w)) (\<lambda>port.
       case port of
         None \<Rightarrow> (\<lambda>w. Some (Inl (Stack_Failure (name @ '' exposes no host port'')), w))
       | Some p \<Rightarrow>
           waiting_bind (\<lambda>w. wait_ready dk name (dk_now dk w + READY_TIMEOUT_SECONDS) 0 w) (\<lambda>_ w. Some (Inr p, w)))))"

section \<open>The session hooks\<close>

text \<open>The entries of \<open>_STATE\<close> that the hooks read: the configuration, the run with its worker, and whether its database was created.\<close>

record session_state =
  ss_config :: "testing_config option"
  ss_run :: "(string \<times> string) option"
  ss_created :: bool

text \<open>\<open>pytest_configure\<close> and \<open>pytest_collection_modifyitems\<close>: the markers registered, and the one of a test by its path.\<close>

definition registered_markers :: "session_state \<Rightarrow> string list" where
  "registered_markers s = (if ss_config s = None then [] else [''unit'', ''integration'', ''e2e''])"

definition item_marker :: "session_state \<Rightarrow> string \<Rightarrow> lane option" where
  "item_marker s path = (if ss_config s = None then None else lane_for_path path)"

definition session_start :: "'w stack_env \<Rightarrow> (testing_config \<Rightarrow> string) \<Rightarrow> bool \<Rightarrow> (session_state \<times> 'w, unit) run" where
  "session_start st key controller sw =
     (case (ss_config (fst sw), ss_run (fst sw)) of
        (Some config, Some (rid, worker)) \<Rightarrow>
          if controller then (Inr (), sw)
          else (case create_run_database st config (key config) rid worker (snd sw) of
                  (Inl e, w) \<Rightarrow> (Inl e, (fst sw, w))
                | (Inr _, w) \<Rightarrow> (Inr (), ((fst sw)\<lparr>ss_created := True\<rparr>, w)))
      | _ \<Rightarrow> (Inr (), sw))"

definition session_finish :: "'w stack_env \<Rightarrow> (testing_config \<Rightarrow> string) \<Rightarrow> (session_state \<times> 'w, unit) run" where
  "session_finish st key sw =
     (case (ss_config (fst sw), ss_run (fst sw)) of
        (Some config, Some (rid, worker)) \<Rightarrow>
          if ss_created (fst sw)
          then (Inr (), (fst sw, snd (drop_run_databases st config (key config) rid worker (snd sw))))
          else (Inr (), sw)
      | _ \<Rightarrow> (Inr (), sw))"

text \<open>The state the first hook leaves: a run only when the containers were provisioned.\<close>

definition state_after_load :: "pytest_env \<Rightarrow> environ \<Rightarrow> session_state" where
  "state_after_load py env =
     (case find_config (py_dirs py) of
        Inr (Some config) \<Rightarrow>
          (let owned = own_the_environment config env in
           \<lparr>ss_config = Some config,
            ss_run = (if run_needs_infrastructure (py_locate py) (py_args py) \<and> dict_get owned ''TEST_DATABASE_URL'' \<in> {None, Some []}
                      then (case run_id py owned of (rid, owned') \<Rightarrow> Some (rid, worker_id owned')) else None),
            ss_created = False\<rparr>)
      | _ \<Rightarrow> \<lparr>ss_config = None, ss_run = None, ss_created = False\<rparr>)"

section \<open>Keys\<close>

text \<open>
  The texts are fed to the digest without separators: a part of a name that moves into the content of a file, or from the service into the name
  of an image, leaves the key as it was.
\<close>

lemma key_ignores_boundaries:
  "stack_key h config [(p @ q, c)] [] = stack_key h config [(p, q @ c)] []"
  "stack_key h (config\<lparr>tc_service := a @ b, tc_postgres_image := i\<rparr>) files [] = stack_key h (config\<lparr>tc_service := a, tc_postgres_image := b @ i\<rparr>) files []"
  by (simp_all add: stack_key_def fingerprint_def digest_input_def)

lemma fingerprint_cached:
  "fingerprint h config files cached = (v, cached') \<Longrightarrow> fingerprint h config files' cached' = (v, cached')"
  by (cases cached) (auto simp: fingerprint_def Let_def)


section \<open>Waiting\<close>

text \<open>Time does not run backwards, and a pause takes at least its length.\<close>

definition clock_laws :: "'w docker \<Rightarrow> bool" where
  "clock_laws dk =
     ((\<forall>n w. dk_now dk w \<le> dk_now dk (snd (dk_exec dk n w))) \<and> (\<forall>d w. dk_now dk w + d \<le> dk_now dk (dk_sleep dk d w)))"

text \<open>The worlds in which so many probes in a row have succeeded.\<close>

inductive streak_at :: "'w docker \<Rightarrow> string \<Rightarrow> nat \<Rightarrow> 'w \<Rightarrow> bool" for dk name where
  none: "streak_at dk name 0 w"
| more: "streak_at dk name n w \<Longrightarrow> probe_ok (fst (dk_exec dk name w)) \<Longrightarrow>
    streak_at dk name (Suc n) (dk_sleep dk READY_INTERVAL_SECONDS (snd (dk_exec dk name w)))"

lemma wait_ready_result:
  assumes "clock_laws dk" and "deadline - dk_now dk w \<le> of_nat k * READY_INTERVAL_SECONDS" and "streak_at dk name streak w"
    and "streak < READY_STREAK"
  shows "\<exists>r w'. wait_ready dk name deadline streak w = Some (r, w')
    \<and> (if r = Inr () then \<exists>w0. streak_at dk name 2 w0 \<and> probe_ok (fst (dk_exec dk name w0)) \<and> w' = snd (dk_exec dk name w0)
       else deadline \<le> dk_now dk w')"
  using assms(2-)
proof (induction k arbitrary: streak w)
  case 0
  then have "\<not> dk_now dk w < deadline" by simp
  then show ?case by (subst wait_ready.simps) simp
next
  case (Suc k)
  show ?case
  proof (cases "dk_now dk w < deadline")
    case False
    then show ?thesis by (subst wait_ready.simps) simp
  next
    case True
    obtain r v where exec: "dk_exec dk name w = (r, v)" by (rule prod.exhaust)
    let ?next = "dk_sleep dk READY_INTERVAL_SECONDS v"
    have "dk_now dk w + READY_INTERVAL_SECONDS \<le> dk_now dk ?next"
      using assms(1) exec unfolding clock_laws_def by (metis add_right_mono order_trans snd_conv)
    with Suc.prems(1) have later: "deadline - dk_now dk ?next \<le> of_nat k * READY_INTERVAL_SECONDS" by (simp add: algebra_simps)
    note IH = Suc.IH [OF later]
    show ?thesis
    proof (cases "probe_ok r")
      case False
      then have "wait_ready dk name deadline streak w = wait_ready dk name deadline 0 ?next"
        using True exec by (subst wait_ready.simps) simp
      then show ?thesis using IH [OF streak_at.none] by (simp add: READY_STREAK_def)
    next
      case ok: True
      show ?thesis
      proof (cases "Suc streak \<ge> READY_STREAK")
        case enough: True
        with Suc.prems(3) have "streak = 2" by (simp add: READY_STREAK_def)
        with Suc.prems(2) True exec ok enough show ?thesis by (subst wait_ready.simps) auto
      next
        case more: False
        then have "wait_ready dk name deadline streak w = wait_ready dk name deadline (Suc streak) ?next"
          using True exec ok by (subst wait_ready.simps) simp
        moreover have "streak_at dk name (Suc streak) ?next" using streak_at.more [OF Suc.prems(2)] exec ok by simp
        ultimately show ?thesis using IH [of "Suc streak"] more by simp
      qed
    qed
  qed
qed

lemma intervals_enough: "\<exists>k. (x :: rat) \<le> of_nat k * READY_INTERVAL_SECONDS"
proof -
  obtain k :: nat where "x / READY_INTERVAL_SECONDS < of_nat k" using reals_Archimedean2 by blast
  then show ?thesis by (intro exI [of _ k]) (simp add: READY_INTERVAL_SECONDS_def field_simps)
qed

section \<open>Adopting\<close>

text \<open>A running container is used as it is, and one that another process created in the meantime is adopted at the next attempt.\<close>

lemma running_adopted: "dk_get dk name w = (Inr Running, w') \<Longrightarrow> adopt_or_create dk name (Suc n) m w = Some (Inr (), w')"
  by simp

lemma lost_race_adopted:
  assumes "dk_get dk name w = (Inl (NotFound m1), w1)" and "dk_run dk name w1 = (Inl (APIError m2), w2)" and "conflicts m2"
    and "dk_get dk name w2 = (Inr Running, w3)"
  shows "adopt_or_create dk name (Suc (Suc n)) m w = Some (Inr (), w3)"
  using assms by (simp add: or_create_def create_def)

lemma other_failure_raised:
  assumes "dk_get dk name w = (Inl (NotFound m1), w1)" and "dk_run dk name w1 = (Inl (APIError m2), w2)" and "\<not> conflicts m2"
  shows "adopt_or_create dk name (Suc n) m w = Some (Inl (Stack_Failure m2), w2)"
  using assms by (simp add: or_create_def create_def)

section \<open>Sessions\<close>

definition run_database :: "(testing_config \<Rightarrow> string) \<Rightarrow> session_state \<Rightarrow> string option" where
  "run_database key s =
     (case (ss_config s, ss_run s) of
        (Some config, Some (rid, worker)) \<Rightarrow> Some (snd (snd (database_names config (key config) rid worker)))
      | _ \<Rightarrow> None)"

lemma start_touches:
  assumes "psql_law st dbs" and "session_start st key controller (s, w) = (r, (s', w'))" and "Some n \<noteq> run_database key s"
  shows "dbs w' n = dbs w n"
proof (cases "run_database key s")
  case None
  with assms(2) have "w' = w" by (auto simp: session_start_def run_database_def split: option.splits)
  then show ?thesis by simp
next
  case (Some db)
  then obtain config rid worker pg t where s: "ss_config s = Some config" "ss_run s = Some (rid, worker)"
    and names: "database_names config (key config) rid worker = (pg, t, db)"
    by (auto simp: run_database_def split: option.splits) (metis prod.collapse)
  show ?thesis
  proof (cases controller)
    case True
    with assms(2) s show ?thesis by (simp add: session_start_def)
  next
    case False
    obtain r1 where create: "create_run_database st config (key config) rid worker w = (r1, w')"
      using assms(2) s False by (auto simp: session_start_def split: prod.splits sum.splits)
    then have run: "run_bind (sk_psql st ''postgres'' (Drop_Database db)) (\<lambda>_. sk_psql st ''postgres'' (Clone_Database db t)) w = (r1, w')"
      by (simp add: create_run_database_def names)
    have other: "n \<notin> touches (Drop_Database db)" "n \<notin> touches (Clone_Database db t)" using assms(3) Some by auto
    from run show ?thesis
    proof (cases rule: run_bind_cases)
      case (fails e)
      then show ?thesis using psql_other [OF assms(1) _ other(1)] by blast
    next
      case (goes x w1)
      then show ?thesis using psql_other [OF assms(1) goes(1) other(1)] psql_other [OF assms(1) goes(2) other(2)] by simp
    qed
  qed
qed

lemma finish_touches:
  assumes "psql_law st dbs" and "session_finish st key (s, w) = (r, (s', w'))" and "Some n \<noteq> run_database key s"
  shows "dbs w' n = dbs w n"
proof (cases "run_database key s")
  case None
  with assms(2) have "w' = w" by (auto simp: session_finish_def run_database_def split: option.splits)
  then show ?thesis by simp
next
  case (Some db)
  then obtain config rid worker pg t where s: "ss_config s = Some config" "ss_run s = Some (rid, worker)"
    and names: "database_names config (key config) rid worker = (pg, t, db)"
    by (auto simp: run_database_def split: option.splits) (metis prod.collapse)
  obtain r1 v where psql: "sk_psql st ''postgres'' (Drop_Database db) w = (r1, v)" by (rule prod.exhaust)
  have "n \<notin> touches (Drop_Database db)" using assms(3) Some by auto
  from psql_other [OF assms(1) psql this] show ?thesis
    using assms(2) s names psql by (auto simp: session_finish_def drop_run_databases_def split: if_splits)
qed


lemma start_keeps_run:
  "session_start st key controller (s, w) = (r, (s', w')) \<Longrightarrow> ss_config s' = ss_config s \<and> ss_run s' = ss_run s"
  by (auto simp: session_start_def split: option.splits if_splits prod.splits sum.splits)

lemma created_then_dropped:
  assumes "psql_law st dbs" and "run_database key s = Some n" and "session_start st key False (s, w) = (Inr (), (s1, w1))"
    and "\<forall>v. fst (sk_psql st ''postgres'' (Drop_Database n) v) = Inr ()" and "session_finish st key (s1, w1) = (r, (s2, w2))"
  shows "dbs w2 n = None"
proof -
  from assms(2) obtain config rid worker pg t where s: "ss_config s = Some config" "ss_run s = Some (rid, worker)"
    and names: "database_names config (key config) rid worker = (pg, t, n)"
    by (auto simp: run_database_def split: option.splits) (metis prod.collapse)
  have s1: "ss_config s1 = Some config" "ss_run s1 = Some (rid, worker)" "ss_created s1"
    using assms(3) s by (auto simp: session_start_def split: prod.splits sum.splits)
  obtain v where psql: "sk_psql st ''postgres'' (Drop_Database n) w1 = (Inr (), v)" using assms(4) by (metis prod.collapse)
  have "w2 = v" using assms(5) s1 names psql by (simp add: session_finish_def drop_run_databases_def)
  with psql_done [OF assms(1) psql] show ?thesis by simp
qed

section \<open>Properties\<close>

text \<open>
  C31: waiting for a container ends, and success means a streak. Whenever time goes on, \<open>_wait_ready\<close> returns: with success only right after
  three probes in a row have succeeded, so never on the temporary server of a container that is still starting, and with an error
  only when the deadline has passed.
\<close>

theorem wait_ready_returns:
  assumes "clock_laws dk"
  shows "\<exists>r w'. wait_ready dk name deadline 0 w = Some (r, w')
    \<and> (if r = Inr () then \<exists>w0. streak_at dk name 2 w0 \<and> probe_ok (fst (dk_exec dk name w0)) \<and> w' = snd (dk_exec dk name w0)
       else deadline \<le> dk_now dk w')"
proof -
  obtain k where "deadline - dk_now dk w \<le> of_nat k * READY_INTERVAL_SECONDS" using intervals_enough by blast
  from wait_ready_result [OF assms this streak_at.none] show ?thesis by (simp add: READY_STREAK_def)
qed

text \<open>A server that answers from the second second on, with the time as the world.\<close>

definition demo_docker :: "rat docker" where
  "demo_docker =
     \<lparr>dk_get = (\<lambda>_ w. (Inr Running, w)), dk_start = (\<lambda>_ w. (Inr (), w)), dk_remove = (\<lambda>_ w. (Inr (), w)), dk_run = (\<lambda>_ w. (Inr (), w)),
      dk_port = (\<lambda>_ w. (Inr (Some 5433), w)), dk_exec = (\<lambda>_ w. (if w < 2 then Inr 1 else Inr 0, w)), dk_now = (\<lambda>w. w), dk_sleep = (\<lambda>d w. w + d)\<rparr>"

theorem wait_ready_returns_witness:
  "\<exists>r w'. wait_ready demo_docker ''pg'' 60 0 0 = Some (r, w')
    \<and> (if r = Inr () then \<exists>w0. streak_at demo_docker ''pg'' 2 w0 \<and> probe_ok (fst (dk_exec demo_docker ''pg'' w0))
         \<and> w' = snd (dk_exec demo_docker ''pg'' w0)
       else 60 \<le> dk_now demo_docker w')"
proof -
  have "clock_laws demo_docker" by (simp add: clock_laws_def demo_docker_def)
  then show ?thesis by (rule wait_ready_returns)
qed

text \<open>
  A session creates and drops its own database only. Between the start and the end of a session no other database changes, in particular
  neither the template nor that of another worker; a database given by \<open>TEST_DATABASE_URL\<close> is neither created nor dropped, and the
  database of a run is gone at the end when the server executes the statement.
\<close>

theorem session_owns_its_database:
  assumes "psql_law st dbs" and "s = state_after_load py env"
    and "session_start st key controller (s, w) = (r, (s1, w1))" and "session_finish st key (s1, w1) = (r2, (s2, w2))"
  shows "(\<forall>n. Some n \<noteq> run_database key s \<longrightarrow> dbs w2 n = dbs w n)
    \<and> (\<forall>config. find_config (py_dirs py) = Inr (Some config) \<and> dict_get (own_the_environment config env) ''TEST_DATABASE_URL'' \<notin> {None, Some []} \<longrightarrow>
         run_database key s = None)
    \<and> (\<forall>n. run_database key s = Some n \<and> r = Inr () \<and> \<not> controller \<and> (\<forall>v. fst (sk_psql st ''postgres'' (Drop_Database n) v) = Inr ()) \<longrightarrow>
         dbs w2 n = None)"
proof (intro conjI allI impI; (elim conjE)?)
  fix n assume n: "Some n \<noteq> run_database key s"
  have "run_database key s1 = run_database key s" using start_keeps_run [OF assms(3)] by (simp add: run_database_def)
  with n finish_touches [OF assms(1,4)] start_touches [OF assms(1,3)] show "dbs w2 n = dbs w n" by simp
next
  fix config assume "find_config (py_dirs py) = Inr (Some config)" "dict_get (own_the_environment config env) ''TEST_DATABASE_URL'' \<notin> {None, Some []}"
  then show "run_database key s = None" by (simp add: assms(2) state_after_load_def run_database_def Let_def split: option.split)
next
  fix n assume "run_database key s = Some n" "r = Inr ()" "\<not> controller" "\<forall>v. fst (sk_psql st ''postgres'' (Drop_Database n) v) = Inr ()"
  with created_then_dropped [OF assms(1) _ _ _ assms(4)] assms(3) show "dbs w2 n = None" by simp
qed

theorem session_owns_its_database_witness:
  "\<exists>n w2. run_database (\<lambda>_. ''0a1b'') (state_after_load (demo_py [''tests/api'']) []) = Some n
     \<and> snd (snd (session_finish model_stack (\<lambda>_. ''0a1b'') (snd (session_start model_stack (\<lambda>_. ''0a1b'') False
          (state_after_load (demo_py [''tests/api'']) [], Map.empty))))) = w2 \<and> w2 n = None"
proof -
  define s where "s = state_after_load (demo_py [''tests/api'']) []"
  obtain r s1 w1 where start: "session_start model_stack (\<lambda>_. ''0a1b'') False (s, Map.empty) = (r, (s1, w1))" by (metis prod.exhaust)
  obtain r2 s2 w2 where finish: "session_finish model_stack (\<lambda>_. ''0a1b'') (s1, w1) = (r2, (s2, w2))" by (metis prod.exhaust)
  have db: "run_database (\<lambda>_. ''0a1b'') s = Some ''tr_crm_core_0a1b_42_main''" unfolding s_def by code_simp
  have law: "psql_law model_stack (\<lambda>w. w)" using model_stack_laws by (simp add: stack_laws_def)
  have ok: "fst (sk_psql model_stack d q v) = Inr ()" for d q v by (simp add: model_stack_def)
  have "r = Inr ()"
    using start by (auto simp: session_start_def create_run_database_def run_bind_def model_stack_def split: option.splits if_splits prod.splits)
  with session_owns_its_database [OF law s_def start finish] db ok have "w2 ''tr_crm_core_0a1b_42_main'' = None" by simp
  then show ?thesis using db start finish unfolding s_def by (intro exI [of _ "''tr_crm_core_0a1b_42_main''"] exI [of _ w2]) simp
qed

end
