(* ===== verification/Test_Doubles.thy ===== *)
theory Test_Doubles
  imports Test_Containers Webhooks
begin

text \<open>
  What a service's tests are given at run time: the HTTP stubs (\<open>testing/stubs/\<close>), the guard against dispatching a task inside an open transaction
  (\<open>testing/transaction_guard.py\<close>), the checks of session scopes and primary keys (\<open>testing/session_scope.py\<close>, \<open>testing/primary_keys.py\<close>) and
  the database for a round trip of migrations (\<open>testing/roundtrip.py\<close>). An \<open>AssertionError\<close> is an \<open>OtherException\<close>.
\<close>

section \<open>Stubs\<close>

text \<open>A request as the transport sees it; \<open>rq_content\<close> is empty for a request without a body.\<close>

record stub_request =
  rq_method :: string
  rq_path :: string
  rq_url :: string
  rq_content :: string
  rq_headers :: "(string, string) dict"

record stub_response =
  sr_status :: int
  sr_body :: json

record recorded_request =
  rr_method :: string
  rr_url :: string
  rr_json :: json
  rr_headers :: "(string, string) dict"

text \<open>What a route answers: a body, a function of the match, or a handler of the request and the match.\<close>

datatype responder =
    Body json int
  | Body_Of "match_state \<Rightarrow> json" int
  | Handler "stub_request \<Rightarrow> match_state \<Rightarrow> stub_response res"

record stub_route =
  rt_method :: string
  rt_pattern :: rx
  rt_responder :: responder

record stub_builder =
  sb_routes :: "stub_route list"
  sb_requests :: "recorded_request list"

definition new_builder :: stub_builder where
  "new_builder = \<lparr>sb_routes = [], sb_requests = []\<rparr>"

definition add_route :: "string \<Rightarrow> rx \<Rightarrow> responder \<Rightarrow> stub_builder \<Rightarrow> stub_builder" where
  "add_route http_method pattern r b =
     b\<lparr>sb_routes := sb_routes b @ [\<lparr>rt_method = upper http_method, rt_pattern = pattern, rt_responder = r\<rparr>]\<rparr>"

text \<open>\<open>_default_responder\<close>, which searches again; without a match it fails an assertion.\<close>

definition respond :: "stub_route \<Rightarrow> stub_request \<Rightarrow> stub_response res" where
  "respond rt q =
     (case rx_search (rt_pattern rt) (rq_path q) of
        None \<Rightarrow> Inl (OtherException ''AssertionError'')
      | Some mt \<Rightarrow>
          (case rt_responder rt of
             Handler h \<Rightarrow> h q mt
           | Body_Of f code \<Rightarrow> Inr \<lparr>sr_status = code, sr_body = f mt\<rparr>
           | Body v code \<Rightarrow> Inr \<lparr>sr_status = code, sr_body = v\<rparr>))"

definition safe_json :: "json_codec \<Rightarrow> stub_request \<Rightarrow> json res" where
  "safe_json jc q =
     (if rq_content q = [] then Inr JNull
      else case jc_loads jc (rq_content q) of
             Inr v \<Rightarrow> Inr v
           | Inl e \<Rightarrow> if is_ValueError e then Inr JNull else Inl e)"

definition route_matches :: "stub_request \<Rightarrow> stub_route \<Rightarrow> bool" where
  "route_matches q rt = (rt_method rt = rq_method q \<and> rx_search (rt_pattern rt) (rq_path q) \<noteq> None)"

definition record_request :: "json \<Rightarrow> stub_request \<Rightarrow> stub_builder \<Rightarrow> stub_builder" where
  "record_request v q b =
     b\<lparr>sb_requests := sb_requests b @ [\<lparr>rr_method = rq_method q, rr_url = rq_url q, rr_json = v, rr_headers = rq_headers q\<rparr>]\<rparr>"

fun dispatch_routes :: "json_codec \<Rightarrow> stub_request \<Rightarrow> stub_route list \<Rightarrow> (stub_builder, stub_response) io" where
  "dispatch_routes jc q [] b = (Inl (OtherException ''no route registered''), b)"
| "dispatch_routes jc q (rt # rts) b =
     (if \<not> route_matches q rt then dispatch_routes jc q rts b
      else case safe_json jc q of
             Inl e \<Rightarrow> (Inl e, b)
           | Inr v \<Rightarrow> (respond rt q, record_request v q b))"

definition dispatch :: "json_codec \<Rightarrow> stub_request \<Rightarrow> (stub_builder, stub_response) io" where
  "dispatch jc q b = dispatch_routes jc q (sb_routes b) b"

text \<open>The routes of the three stubs; a path at the end of the text is its pattern.\<close>

definition path_end :: "string \<Rightarrow> rx" where
  "path_end p = Cat (lit p) Text_End_Newline"

definition listing_body :: "json list \<Rightarrow> json" where
  "listing_body items = JDict [(''data'', JList items), (''total'', JInt (int (length items)))]"

definition stub_listings :: "json list \<Rightarrow> stub_builder \<Rightarrow> stub_builder" where
  "stub_listings items = add_route ''GET'' (path_end ''/listings'') (Body (listing_body items) 200)"

definition stub_leads :: "json list \<Rightarrow> stub_builder \<Rightarrow> stub_builder" where
  "stub_leads items = add_route ''GET'' (path_end ''/leads'') (Body (listing_body items) 200)"

definition stub_token :: "string \<Rightarrow> int \<Rightarrow> stub_builder \<Rightarrow> stub_builder" where
  "stub_token access_token expires_in =
     add_route ''POST'' (path_end ''/oauth/token'')
       (Body (JDict [(''access_token'', JStr access_token), (''expires_in'', JInt expires_in), (''token_type'', JStr ''Bearer'')]) 200)"

definition hik_body :: "bool \<Rightarrow> string \<Rightarrow> json \<Rightarrow> json" where
  "hik_body success msg data =
     (if success then JDict [(''code'', JStr ''0''), (''msg'', JStr msg), (''data'', data)] else JDict [(''code'', JStr ''1''), (''msg'', JStr msg)])"

definition stub_version :: "bool \<Rightarrow> string \<Rightarrow> stub_builder \<Rightarrow> stub_builder" where
  "stub_version success msg = add_route ''GET'' (path_end ''/api/common/v1/version'') (Body (hik_body success msg (JStr [])) 200)"

definition stub_attendance :: "bool \<Rightarrow> string \<Rightarrow> stub_builder \<Rightarrow> stub_builder" where
  "stub_attendance success msg = add_route ''POST'' (path_end ''/api/attendance/v1/report'') (Body (hik_body success msg (JDict [])) 200)"

definition sign_bayut_webhook :: "digests \<Rightarrow> string \<Rightarrow> string \<Rightarrow> (string, string) dict" where
  "sign_bayut_webhook dg payload secret = [(''x-bayut-signature'', dg_md5 dg (secret @ payload))]"

definition sign_propertyfinder_webhook :: "digests \<Rightarrow> string \<Rightarrow> string \<Rightarrow> (string, string) dict" where
  "sign_propertyfinder_webhook dg payload secret = [(hv_signature_header PropertyFinderVerifier, dg_hmac_sha256 dg secret payload)]"

section \<open>The transaction guard\<close>

text \<open>The two context variables; a session is its identity.\<close>

record guard_state =
  gs_active :: "nat option"
  gs_violation :: "string option"

text \<open>\<open>track_session\<close> around a body; the world beside the variables is the database's.\<close>

definition track_session :: "nat \<Rightarrow> (guard_state \<times> 'w, 'a) io \<Rightarrow> (guard_state \<times> 'w, 'a) io" where
  "track_session session body s =
     (case body ((fst s)\<lparr>gs_active := Some session, gs_violation := None\<rparr>, snd s) of
        (r, (g, w)) \<Rightarrow>
          (case gs_violation g of
             Some v \<Rightarrow> (if v \<noteq> [] then Inl (OtherException v) else r, (fst s, w))
           | None \<Rightarrow> (r, (fst s, w))))"

text \<open>\<open>_check_no_open_transaction\<close>: \<open>eager\<close> is the setting of the task's app, if it has one.\<close>

definition check_no_open_transaction :: "('w \<Rightarrow> nat \<Rightarrow> bool) \<Rightarrow> bool option \<Rightarrow> string \<Rightarrow> guard_state \<times> 'w \<Rightarrow> guard_state \<times> 'w" where
  "check_no_open_transaction open_tx eager task s =
     (if eager \<noteq> Some True then s
      else case gs_active (fst s) of
             None \<Rightarrow> s
           | Some session \<Rightarrow>
               if open_tx (snd s) session then ((fst s)\<lparr>gs_violation := Some (task @ '' was dispatched in an open transaction'')\<rparr>, snd s) else s)"

text \<open>A test body: dispatches and steps of the database.\<close>

datatype 'w test_step = Dispatch "bool option" string | Database "'w \<Rightarrow> 'w"

fun run_steps :: "('w \<Rightarrow> nat \<Rightarrow> bool) \<Rightarrow> 'w test_step list \<Rightarrow> (guard_state \<times> 'w, unit) io" where
  "run_steps open_tx [] s = (Inr (), s)"
| "run_steps open_tx (Dispatch eager task # ts) s = run_steps open_tx ts (check_no_open_transaction open_tx eager task s)"
| "run_steps open_tx (Database f # ts) s = run_steps open_tx ts (fst s, f (snd s))"

section \<open>Session scopes and primary keys\<close>

text \<open>A dependency of a route with its scope and its own dependencies.\<close>

datatype 'c dependant = Dependant (dp_call: 'c) (dp_scope: "string option") (dp_subs: "'c dependant list")

fun session_scopes :: "'c set \<Rightarrow> 'c dependant \<Rightarrow> string option list" where
  "session_scopes deps (Dependant c sc subs) =
     concat (map (\<lambda>sub. (if dp_call sub \<in> deps then [dp_scope sub] else []) @ session_scopes deps sub) subs)"

text \<open>The routes with their dependants, \<open>None\<close> for one that has none; the failure is the list of offending routes, empty when nothing was scanned.\<close>

definition assert_session_dependencies_are_function_scoped :: "'c set \<Rightarrow> (string \<times> 'c dependant option) list \<Rightarrow> string list + unit" where
  "assert_session_dependencies_are_function_scoped deps routes =
     (let scopes = concat (map (\<lambda>(label, d). case d of None \<Rightarrow> [] | Some d \<Rightarrow> [(label, set (session_scopes deps d))]) routes);
          scanned = filter (\<lambda>(_, sc). sc \<noteq> {}) scopes;
          offenders = map fst (filter (\<lambda>(_, sc). sc - {Some ''function''} \<noteq> {}) scopes)
      in if scanned = [] then Inl [] else if offenders \<noteq> [] then Inl offenders else Inr ())"

text \<open>The tables of a metadata object with the columns of their primary keys and whether a column has a server default.\<close>

definition assert_no_server_default_primary_keys :: "(string \<times> (string \<times> bool) list) list list \<Rightarrow> string list + unit" where
  "assert_no_server_default_primary_keys metadata =
     (let offenders = concat (map (\<lambda>(t, cs). map (\<lambda>(c, _). t @ ''.'' @ c) (filter snd cs)) (concat metadata))
      in if offenders \<noteq> [] then Inl offenders else Inr ())"

section \<open>The round-trip database\<close>

definition roundtrip_name :: "string \<Rightarrow> string \<Rightarrow> string" where
  "roundtrip_name base tail_name = take (PG_IDENTIFIER_MAX - length (''_'' @ tail_name)) base @ ''_'' @ tail_name"

text \<open>\<open>roundtrip_database\<close> around a body, for a suffix that fits into an identifier.\<close>

definition roundtrip_database :: "'w stack_env \<Rightarrow> string \<Rightarrow> ('w, 'a) run \<Rightarrow> ('w, 'a) run" where
  "roundtrip_database st name body w =
     (case psql_all st ''postgres'' [Drop_Database name, Create_Database name] w of
        (Inl e, w1) \<Rightarrow> (Inl e, w1)
      | (Inr _, w1) \<Rightarrow>
          (case run_bind (psql_all st name DATABASE_LAYOUT) (\<lambda>_. body) w1 of
             (r, w2) \<Rightarrow>
               (case psql_all st ''postgres'' [Drop_Database name] w2 of
                  (Inl e, w3) \<Rightarrow> (Inl e, w3)
                | (Inr _, w3) \<Rightarrow> (r, w3))))"


section \<open>Lemmas\<close>

lemma dispatch_routes_find:
  "dispatch_routes jc q rts b =
     (case find (route_matches q) rts of
        None \<Rightarrow> (Inl (OtherException ''no route registered''), b)
      | Some rt \<Rightarrow> (case safe_json jc q of Inl e \<Rightarrow> (Inl e, b) | Inr v \<Rightarrow> (respond rt q, record_request v q b)))"
  by (induction rts) auto

text \<open>Whether a body dispatches an eager task while the session has an open transaction.\<close>

fun violates :: "('w \<Rightarrow> nat \<Rightarrow> bool) \<Rightarrow> nat \<Rightarrow> 'w \<Rightarrow> 'w test_step list \<Rightarrow> bool" where
  "violates open_tx session w [] = False"
| "violates open_tx session w (Dispatch eager task # ts) = (eager = Some True \<and> open_tx w session \<or> violates open_tx session w ts)"
| "violates open_tx session w (Database f # ts) = violates open_tx session (f w) ts"

fun database_after :: "'w \<Rightarrow> 'w test_step list \<Rightarrow> 'w" where
  "database_after w [] = w"
| "database_after w (Dispatch eager task # ts) = database_after w ts"
| "database_after w (Database f # ts) = database_after (f w) ts"

lemma run_steps_guard:
  assumes "gs_active g = Some session" and "gs_violation g \<noteq> Some []"
  shows "\<exists>g'. run_steps open_tx ts (g, w) = (Inr (), (g', database_after w ts)) \<and> gs_violation g' \<noteq> Some []
    \<and> (gs_violation g' = None \<longleftrightarrow> gs_violation g = None \<and> \<not> violates open_tx session w ts)"
  using assms
proof (induction ts arbitrary: g w)
  case (Cons t ts)
  show ?case
  proof (cases t)
    case (Dispatch eager task)
    define g1 where "g1 = fst (check_no_open_transaction open_tx eager task (g, w))"
    have "check_no_open_transaction open_tx eager task (g, w) = (g1, w)" "gs_active g1 = Some session" "gs_violation g1 \<noteq> Some []"
      "gs_violation g1 = None \<longleftrightarrow> gs_violation g = None \<and> \<not> (eager = Some True \<and> open_tx w session)"
      using Cons.prems by (auto simp: g1_def check_no_open_transaction_def)
    with Cons.IH [of g1 w] Dispatch show ?thesis by auto
  next
    case (Database f)
    with Cons.IH [OF Cons.prems] show ?thesis by simp
  qed
qed simp

text \<open>The dependencies of a dependant at any depth.\<close>

inductive below :: "'c dependant \<Rightarrow> 'c dependant \<Rightarrow> bool" where
  direct: "sub \<in> set (dp_subs d) \<Longrightarrow> below d sub"
| deeper: "sub \<in> set (dp_subs d) \<Longrightarrow> below sub x \<Longrightarrow> below d x"

lemma below_subs: "below d x \<longleftrightarrow> (\<exists>sub \<in> set (dp_subs d). x = sub \<or> below sub x)"
  by (subst below.simps) auto

lemma session_scopes_below: "set (session_scopes deps d) = {dp_scope x | x. below d x \<and> dp_call x \<in> deps}"
proof (induction d)
  case (Dependant c sc subs)
  have "set (session_scopes deps (Dependant c sc subs)) =
      (\<Union>sub \<in> set subs. (if dp_call sub \<in> deps then {dp_scope sub} else {}) \<union> {dp_scope x | x. below sub x \<and> dp_call x \<in> deps})"
    using Dependant.IH by (auto split: if_split_asm)
  also have "\<dots> = {dp_scope x | x. below (Dependant c sc subs) x \<and> dp_call x \<in> deps}"
    by (subst below_subs) (auto split: if_splits)
  finally show ?case .
qed

lemma scoped_routes:
  "(l, S) \<in> set (concat (map (\<lambda>(label, d). case d of None \<Rightarrow> [] | Some d \<Rightarrow> [(label, set (session_scopes deps d))]) routes)) \<longleftrightarrow>
     (\<exists>d. (l, Some d) \<in> set routes \<and> S = set (session_scopes deps d))"
  by (induction routes) (auto split: option.splits)

lemma psql_one: "psql_all st db [q] w = (r, w') \<Longrightarrow> sk_psql st db q w = (r, w')"
  by (auto simp: run_bind_def run_return_def split: prod.splits sum.splits)

section \<open>Properties\<close>

text \<open>
  A stub answers with its first matching route. The request is recorded exactly when a route matches, with its decoded body; the answer is
  that of the first route registered for its method and path, and a request without a route fails and leaves no trace.
\<close>

theorem stub_answers_first_route:
  assumes "safe_json jc q = Inr v"
  shows "dispatch jc q b =
    (case find (route_matches q) (sb_routes b) of
       None \<Rightarrow> (Inl (OtherException ''no route registered''), b)
     | Some rt \<Rightarrow> (respond rt q, record_request v q b))
   \<and> (\<forall>rt. find (route_matches q) (sb_routes b) = Some rt \<and> (\<forall>h. rt_responder rt \<noteq> Handler h) \<longrightarrow> (\<exists>a. respond rt q = Inr a))"
proof (intro conjI allI impI)
  show "dispatch jc q b = (case find (route_matches q) (sb_routes b) of
       None \<Rightarrow> (Inl (OtherException ''no route registered''), b) | Some rt \<Rightarrow> (respond rt q, record_request v q b))"
    unfolding dispatch_def dispatch_routes_find using assms by (simp split: option.split)
next
  fix rt assume rt: "find (route_matches q) (sb_routes b) = Some rt \<and> (\<forall>h. rt_responder rt \<noteq> Handler h)"
  then have "route_matches q rt" by (auto simp: find_Some_iff)
  with rt show "\<exists>a. respond rt q = Inr a" by (cases "rt_responder rt") (auto simp: respond_def route_matches_def)
qed

definition demo_codec :: json_codec where
  "demo_codec = \<lparr>jc_dumps = (\<lambda>_. Inl (ValueError [])), jc_loads = (\<lambda>_. Inl (ValueError []))\<rparr>"

theorem stub_answers_first_route_witness:
  "fst (dispatch demo_codec \<lparr>rq_method = ''GET'', rq_path = ''/v1/leads'', rq_url = ''https://x/v1/leads'', rq_content = [], rq_headers = []\<rparr>
     (stub_leads [] (stub_listings [JNull] new_builder))) = Inr \<lparr>sr_status = 200, sr_body = listing_body []\<rparr>"
proof -
  let ?q = "\<lparr>rq_method = ''GET'', rq_path = ''/v1/leads'', rq_url = ''https://x/v1/leads'', rq_content = [], rq_headers = []\<rparr>"
  let ?b = "stub_leads [] (stub_listings [JNull] new_builder)"
  let ?rt = "\<lparr>rt_method = ''GET'', rt_pattern = path_end ''/leads'', rt_responder = Body (listing_body []) 200\<rparr>"
  have json: "safe_json demo_codec ?q = Inr JNull" by (simp add: safe_json_def)
  have routes: "sb_routes ?b = [\<lparr>rt_method = ''GET'', rt_pattern = path_end ''/listings'', rt_responder = Body (listing_body [JNull]) 200\<rparr>, ?rt]"
    by (simp add: stub_leads_def stub_listings_def add_route_def new_builder_def upper_def)
  have m: "rx_search (path_end ''/listings'') ''/v1/leads'' = None" "rx_search (path_end ''/leads'') ''/v1/leads'' \<noteq> None" by code_simp+
  have "find (route_matches ?q) (sb_routes ?b) = Some ?rt" unfolding routes using m by (simp add: route_matches_def)
  with stub_answers_first_route [OF json, of ?b] have "fst (dispatch demo_codec ?q ?b) = respond ?rt ?q" by simp
  also have "\<dots> = Inr \<lparr>sr_status = 200, sr_body = listing_body []\<rparr>" using m(2) by (auto simp: respond_def)
  finally show ?thesis .
qed

text \<open>
  A signed delivery of a stub is accepted. Digests being non-empty lower-case text, the verifiers of production accept the headers that
  the stubs compute, and reject them for a body with another digest.
\<close>

theorem stub_signatures_verify:
  assumes "\<forall>t. dg_md5 dg t \<noteq> [] \<and> lower (dg_md5 dg t) = dg_md5 dg t" and "\<forall>k t. dg_hmac_sha256 dg k t \<noteq> []"
  shows "verify dg BayutMD5 payload (sign_bayut_webhook dg payload secret) secret = Inr True
    \<and> verify dg (Hmac PropertyFinderVerifier) payload (sign_propertyfinder_webhook dg payload secret) secret = Inr True
    \<and> (secret \<noteq> [] \<and> dg_md5 dg (secret @ payload) \<noteq> dg_md5 dg (secret @ other) \<longrightarrow>
         verify dg BayutMD5 other (sign_bayut_webhook dg payload secret) secret = Inr False)
    \<and> (secret \<noteq> [] \<and> dg_hmac_sha256 dg secret payload \<noteq> dg_hmac_sha256 dg secret other \<longrightarrow>
         verify dg (Hmac PropertyFinderVerifier) other (sign_propertyfinder_webhook dg payload secret) secret = Inr False)"
proof -
  have b: "bayut_verify dg payload (sign_bayut_webhook dg payload secret) secret"
    using assms(1) by (intro bayut.genuine_accepted [where sig = "dg_md5 dg (secret @ payload)"]) (simp_all add: sign_bayut_webhook_def)
  have e: "hmac_expected dg PropertyFinderVerifier k t = dg_hmac_sha256 dg k t" for k t
    by (simp add: hmac_expected_def PropertyFinderVerifier_def HMACVerifier_def)
  have p: "hmac_verify dg PropertyFinderVerifier payload (sign_propertyfinder_webhook dg payload secret) secret"
    using assms(2) by (intro hmac.genuine_accepted [where sig = "dg_hmac_sha256 dg secret payload"]) (simp_all add: sign_propertyfinder_webhook_def e)
  show ?thesis using b p bayut.tampered_rejected [OF _ b] hmac.tampered_rejected [OF _ p] by (simp add: e)
qed

definition demo_digests :: digests where
  "demo_digests = \<lparr>dg_sha256 = (\<lambda>t. ''d''), dg_md5 = (\<lambda>t. ''d'' @ string_of_nat (length t)), dg_hmac_sha256 = (\<lambda>k t. ''d'' @ string_of_nat (length t))\<rparr>"

lemma digits_lower: "lower (string_of_nat n) = string_of_nat n"
  unfolding lower_def using string_of_nat_digits [of n] by (intro map_idI) (fastforce simp: lower_char_def is_digit_def Let_def)

theorem stub_signatures_verify_witness:
  "verify demo_digests BayutMD5 ''{}'' (sign_bayut_webhook demo_digests ''{}'' ''s'') ''s'' = Inr True
   \<and> verify demo_digests BayutMD5 ''{ }'' (sign_bayut_webhook demo_digests ''{}'' ''s'') ''s'' = Inr False"
proof -
  have l: "\<forall>t. dg_md5 demo_digests t \<noteq> [] \<and> lower (dg_md5 demo_digests t) = dg_md5 demo_digests t" "\<forall>k t. dg_hmac_sha256 demo_digests k t \<noteq> []"
    using digits_lower by (simp_all add: demo_digests_def lower_def lower_char_def)
  have ne: "dg_md5 demo_digests (''s'' @ ''{}'') \<noteq> dg_md5 demo_digests (''s'' @ ''{ }'')" by code_simp
  have "''s'' \<noteq> ([] :: string)" by simp
  with stub_signatures_verify [OF l, of "''{}''" "''s''" "''{ }''"] ne show ?thesis by blast
qed

text \<open>
  The transaction guard reports exactly the dispatches it is for. A block under \<open>track_session\<close> raises if and only if it dispatches an
  eager task while the tracked session has an open transaction; the work of the block is done all the same, and the
  state of the guard is the one before the block.
\<close>

theorem transaction_guard_exact:
  "(fst (track_session session (run_steps open_tx ts) (g, w)) = Inr () \<longleftrightarrow> \<not> violates open_tx session w ts)
   \<and> snd (track_session session (run_steps open_tx ts) (g, w)) = (g, database_after w ts)"
proof -
  let ?g = "g\<lparr>gs_active := Some session, gs_violation := None\<rparr>"
  obtain g' where run: "run_steps open_tx ts (?g, w) = (Inr (), (g', database_after w ts))"
    and v: "gs_violation g' \<noteq> Some []" "gs_violation g' = None \<longleftrightarrow> \<not> violates open_tx session w ts"
    using run_steps_guard [of ?g session open_tx ts w] by auto
  have "snd (track_session session (run_steps open_tx ts) (g, w)) = (g, database_after w ts)"
    by (simp add: track_session_def run split: option.split)
  moreover have "fst (track_session session (run_steps open_tx ts) (g, w)) = Inr () \<longleftrightarrow> \<not> violates open_tx session w ts"
    using v by (auto simp: track_session_def run split: option.split)
  ultimately show ?thesis by simp
qed

text \<open>
  The scope check is exact. It passes if and only if some route depends on a session at some depth, and every such dependency of every route
  is function-scoped.
\<close>

theorem session_scope_check_exact:
  "assert_session_dependencies_are_function_scoped deps routes = Inr () \<longleftrightarrow>
     (\<exists>l d x. (l, Some d) \<in> set routes \<and> below d x \<and> dp_call x \<in> deps)
     \<and> (\<forall>l d x. (l, Some d) \<in> set routes \<and> below d x \<and> dp_call x \<in> deps \<longrightarrow> dp_scope x = Some ''function'')"
proof -
  let ?s = "concat (map (\<lambda>(label, d). case d of None \<Rightarrow> [] | Some d \<Rightarrow> [(label, set (session_scopes deps d))]) routes)"
  have mem: "(l, S) \<in> set ?s \<longleftrightarrow> (\<exists>d. (l, Some d) \<in> set routes \<and> S = {dp_scope x | x. below d x \<and> dp_call x \<in> deps})" for l S
    using scoped_routes [of l S deps routes] unfolding session_scopes_below .
  have "assert_session_dependencies_are_function_scoped deps routes = Inr () \<longleftrightarrow>
      (\<exists>l S. (l, S) \<in> set ?s \<and> S \<noteq> {}) \<and> (\<forall>l S. (l, S) \<in> set ?s \<longrightarrow> S \<subseteq> {Some ''function''})"
    unfolding assert_session_dependencies_are_function_scoped_def Let_def by (auto simp: filter_empty_conv)
  then show ?thesis unfolding mem by blast
qed

text \<open>
  The round-trip database is temporary. Whatever its body does and however it ends, the database is gone afterwards when the server executes the
  drop, and no other database changes unless the body changes it; its name fits into an identifier.
\<close>

theorem roundtrip_database_temporary:
  assumes "psql_law st dbs" and "roundtrip_database st name body w = (r, w')"
    and "\<forall>n v x v'. n \<noteq> name \<and> body v = (x, v') \<longrightarrow> dbs v' n = dbs v n"
  shows "(\<forall>n. n \<noteq> name \<longrightarrow> dbs w' n = dbs w n)
    \<and> ((\<forall>v q. fst (sk_psql st ''postgres'' q v) = Inr ()) \<longrightarrow> dbs w' name = None)
    \<and> (name = roundtrip_name base tail_name \<and> length tail_name < PG_IDENTIFIER_MAX \<longrightarrow> length name \<le> PG_IDENTIFIER_MAX)"
proof (intro conjI impI allI; (elim conjE)?)
  obtain r1 w1 where p1: "psql_all st ''postgres'' [Drop_Database name, Create_Database name] w = (r1, w1)" by (rule prod.exhaust)
  have step: "dbs v' n = dbs v n" if "n \<noteq> name" "sk_psql st db q v = (x, v')" "q \<in> {Drop_Database name, Create_Database name}" for n db q v x v'
    using psql_other [OF assms(1) that(2), of n] that(1,3) by auto
  obtain r2 w2 where p2: "run_bind (psql_all st name DATABASE_LAYOUT) (\<lambda>_. body) w1 = (r2, w2)" by (rule prod.exhaust)
  obtain r3 w3 where p3: "sk_psql st ''postgres'' (Drop_Database name) w2 = (r3, w3)" by (rule prod.exhaust)
  have w': "w' = (case r1 of Inl _ \<Rightarrow> w1 | Inr _ \<Rightarrow> w3)"
    using assms(2) p1 p2 p3 by (auto simp: roundtrip_database_def run_bind_def run_return_def split: sum.splits)
  {
    fix n assume n: "n \<noteq> name"
    have "run_bind (sk_psql st ''postgres'' (Drop_Database name)) (\<lambda>_. psql_all st ''postgres'' [Create_Database name]) w = (r1, w1)" using p1 by simp
    then have "dbs w1 n = dbs w n"
    proof (cases rule: run_bind_cases)
      case (fails e)
      then show ?thesis using step [OF n] by blast
    next
      case (goes x v)
      then show ?thesis using step [OF n goes(1)] step [OF n psql_one [OF goes(2)]] by simp
    qed
    moreover from p2 have "dbs w2 n = dbs w1 n"
    proof (cases rule: run_bind_cases)
      case (fails e)
      then show ?thesis using layout_keeps [OF assms(1)] by metis
    next
      case (goes x v)
      then show ?thesis using layout_keeps [OF assms(1) goes(1)] assms(3) n by metis
    qed
    moreover have "dbs w3 n = dbs w2 n" using step [OF n p3] by blast
    ultimately show "dbs w' n = dbs w n" unfolding w' by (simp split: sum.split)
  }
  show "dbs w' name = None" if ok: "\<forall>v q. fst (sk_psql st ''postgres'' q v) = Inr ()"
  proof -
    have "r3 = Inr ()" using ok p3 by (metis fst_conv)
    moreover have "r1 = Inr ()" using ok p1 by (auto simp: run_bind_def run_return_def split: prod.splits sum.splits) (metis fst_conv sum.distinct(1))+
    ultimately show ?thesis using psql_done [OF assms(1)] p3 unfolding w' by simp
  qed
  show "length name \<le> PG_IDENTIFIER_MAX" if "name = roundtrip_name base tail_name" "length tail_name < PG_IDENTIFIER_MAX"
    using that by (simp add: roundtrip_name_def)
qed

theorem roundtrip_database_temporary_witness:
  "snd (roundtrip_database model_stack ''db_roundtrip'' (run_raise No_Service :: (server, unit) run) [''db'' \<mapsto> Migrated]) ''db_roundtrip'' = None"
proof -
  have law: "psql_law model_stack (\<lambda>w. w)" using model_stack_laws by (simp add: stack_laws_def)
  obtain r w' where run: "roundtrip_database model_stack ''db_roundtrip'' (run_raise No_Service) [''db'' \<mapsto> Migrated] = ((r :: usage_error + unit), w')"
    by (rule prod.exhaust)
  have ok: "\<forall>v q. fst (sk_psql model_stack ''postgres'' q v) = Inr ()" by (simp add: model_stack_def)
  from roundtrip_database_temporary [OF law run] ok have "w' ''db_roundtrip'' = None" by (simp add: run_raise_def)
  then show ?thesis using run by simp
qed

end
