(* ===== verification/Service_Surface.thy ===== *)
theory Service_Surface
  imports Test_Doubles Outbox_Delivery Celery_Runtime Portals
begin

text \<open>
  The parts of the library that a service touches directly and that are data or a few lines of state: the exported contracts (\<open>scripts/\<close>), the check of
  exception constructors (\<open>exceptions.py\<close>), the response schemas (\<open>schemas/responses.py\<close>, \<open>health/schemas.py\<close>), the columns of every
  table (\<open>db/base.py\<close>), the PropertyFinder constants (\<open>integrations/constants.py\<close>), the shared clients (\<open>middleware/error_handler.py\<close>,
  \<open>events/producer.py\<close>), the drainer's Celery task (\<open>events/outbox_drainer.py\<close>) and the log-context signals (\<open>celery/log_context.py\<close>).
\<close>

section \<open>Exported contracts\<close>

text \<open>The comment of a generated file is an argument; its dash is no ASCII character.\<close>

definition entity_type_contract :: "string \<Rightarrow> json" where
  "entity_type_contract header =
     JDict [(''$comment'', JStr header), (''entity_type'', JList (map (\<lambda>e. JStr (entity_value e)) entity_types)),
            (''feature'', JList (map (\<lambda>f. JStr (feature_value f)) features))]"

text \<open>\<open>member.name\<close>\<close>

fun header_member :: "HttpHeader \<Rightarrow> string" where
  "header_member H_USER_ID = ''USER_ID''"
| "header_member H_USER_ROLE = ''USER_ROLE''"
| "header_member H_TENANT_ID = ''TENANT_ID''"
| "header_member H_CORRELATION_ID = ''CORRELATION_ID''"
| "header_member H_USER_EMAIL = ''USER_EMAIL''"
| "header_member H_USER_PERMISSIONS = ''USER_PERMISSIONS''"
| "header_member H_SITE_ID = ''SITE_ID''"
| "header_member H_AUTH_PROVIDER = ''AUTH_PROVIDER''"
| "header_member H_GATEWAY_SIGNATURE = ''GATEWAY_SIGNATURE''"
| "header_member H_GATEWAY_TIMESTAMP = ''GATEWAY_TIMESTAMP''"
| "header_member H_SERVICE_TOKEN = ''SERVICE_TOKEN''"
| "header_member H_SERVICE_NAME = ''SERVICE_NAME''"
| "header_member H_CALLING_SERVICE = ''CALLING_SERVICE''"
| "header_member H_CALLING_TENANT_ID = ''CALLING_TENANT_ID''"
| "header_member H_IDEMPOTENCY_KEY = ''IDEMPOTENCY_KEY''"
| "header_member H_IDEMPOTENCY_REPLAYED = ''IDEMPOTENCY_REPLAYED''"
| "header_member H_REQUEST_TIMEOUT_MS = ''REQUEST_TIMEOUT_MS''"
| "header_member H_FORWARDED_FOR = ''FORWARDED_FOR''"
| "header_member H_REAL_IP = ''REAL_IP''"
| "header_member H_ORIGINAL_IP = ''ORIGINAL_IP''"
| "header_member H_BFF_TOKEN = ''BFF_TOKEN''"
| "header_member H_RATE_LIMIT_LIMIT = ''RATE_LIMIT_LIMIT''"
| "header_member H_RATE_LIMIT_REMAINING = ''RATE_LIMIT_REMAINING''"
| "header_member H_RATE_LIMIT_RESET = ''RATE_LIMIT_RESET''"
| "header_member H_RETRY_AFTER = ''RETRY_AFTER''"

definition http_header_contract :: "string \<Rightarrow> json" where
  "http_header_contract header =
     JDict [(''$comment'', JStr header), (''http_header'', JDict (map (\<lambda>h. (header_member h, JStr (header_name h))) http_headers))]"

section \<open>Exception constructors\<close>

definition REQUIRED_ATTRS :: "string list" where
  "REQUIRED_ATTRS = [''status_code'', ''error'', ''detail_message'', ''error_code'', ''extra'']"

text \<open>\<open>_verified_init\<close> around the constructor of a subclass: \<open>init\<close> yields the attributes the object has afterwards, or raises.\<close>

definition verified_init :: "(string set \<Rightarrow> string set res) \<Rightarrow> string set \<Rightarrow> string set res" where
  "verified_init init attrs =
     (case init attrs of
        Inl e \<Rightarrow> Inl e
      | Inr attrs' \<Rightarrow>
          if filter (\<lambda>a. a \<notin> attrs') REQUIRED_ATTRS \<noteq> [] then Inl (TypeError ''did not set required attributes'') else Inr attrs')"

text \<open>\<open>BaseAPIException.__init__\<close> as a step on the attributes; \<open>HTTPException\<close> sets the first three.\<close>

definition base_init :: "string set \<Rightarrow> string set res" where
  "base_init attrs = Inr (attrs \<union> {''status_code'', ''detail'', ''headers'', ''error'', ''detail_message'', ''error_code'', ''extra''})"

section \<open>Response schemas\<close>

record 'a success_response =
  sx_status :: string
  sx_message :: string
  sx_data :: "'a option"

definition SuccessResponse :: "'a option \<Rightarrow> 'a success_response" where
  "SuccessResponse data = \<lparr>sx_status = ''success'', sx_message = ''Operation completed successfully'', sx_data = data\<rparr>"

text \<open>\<open>ErrorDetail\<close> and \<open>ErrorEnvelope\<close>: what the schemas accept; further keys are allowed.\<close>

definition text_or_none :: "json option \<Rightarrow> bool" where
  "text_or_none v = (case v of None \<Rightarrow> True | Some JNull \<Rightarrow> True | Some (JStr _) \<Rightarrow> True | Some _ \<Rightarrow> False)"

definition ErrorDetail_accepts :: "json \<Rightarrow> bool" where
  "ErrorDetail_accepts v =
     (case v of
        JDict d \<Rightarrow> (\<exists>m. dict_get d ''message'' = Some (JStr m)) \<and> text_or_none (dict_get d ''code'') \<and> text_or_none (dict_get d ''correlation_id'')
      | _ \<Rightarrow> False)"

definition ErrorEnvelope_accepts :: "json \<Rightarrow> bool" where
  "ErrorEnvelope_accepts v =
     (case v of JDict d \<Rightarrow> (case dict_get d ''error'' of Some e \<Rightarrow> ErrorDetail_accepts e | None \<Rightarrow> False) | _ \<Rightarrow> False)"

text \<open>\<open>/health\<close> and \<open>/health/live\<close>; the timestamp is the clock's.\<close>

definition health_body :: "string \<Rightarrow> string \<Rightarrow> string \<Rightarrow> json" where
  "health_body service version timestamp =
     JDict [(''status'', JStr ''healthy''), (''service'', JStr service), (''version'', JStr version), (''timestamp'', JStr timestamp)]"

definition liveness_body :: json where
  "liveness_body = JDict [(''status'', JStr ''alive'')]"

text \<open>\<open>create_health_router\<close>: the three routes.\<close>

definition health_router :: "string \<Rightarrow> string \<Rightarrow> ('w \<Rightarrow> string) \<Rightarrow> ('w, unit) io \<Rightarrow> ('w, unit) io \<Rightarrow> string \<Rightarrow> ('w, int \<times> json) io option" where
  "health_router service version now database redis path =
     (if path = [] then Some (\<lambda>w. (Inr (200, health_body service version (now w)), w))
      else if path = ''/ready'' then Some (readiness service database redis)
      else if path = ''/live'' then Some (io_return (200, liveness_body))
      else None)"

section \<open>The columns of every table\<close>

record column =
  col_name :: string
  col_primary_key :: bool
  col_nullable :: bool
  col_default :: "string option"
  col_server_default :: "string option"
  col_onupdate :: "string option"

definition new_column :: "string \<Rightarrow> bool \<Rightarrow> string option \<Rightarrow> column" where
  "new_column name nullable server_default =
     \<lparr>col_name = name, col_primary_key = False, col_nullable = nullable, col_default = None, col_server_default = server_default, col_onupdate = None\<rparr>"

definition UUIDPrimaryKeyMixin :: "column list" where
  "UUIDPrimaryKeyMixin = [(new_column ''id'' False None)\<lparr>col_primary_key := True, col_default := Some ''uuid4''\<rparr>]"

definition TimestampMixin :: "column list" where
  "TimestampMixin = [new_column ''created_at'' False (Some ''now()''), (new_column ''updated_at'' False (Some ''now()''))\<lparr>col_onupdate := Some ''now()''\<rparr>]"

definition TenantMixin :: "column list" where
  "TenantMixin = [new_column ''tenant_id'' False None]"

definition AuditMixin :: "column list" where
  "AuditMixin = [new_column ''created_by'' True None, new_column ''updated_by'' True None]"

definition SoftDeleteMixin :: "column list" where
  "SoftDeleteMixin = [new_column ''deleted_at'' True None, new_column ''is_active'' False (Some ''true'')]"

definition BaseModel :: "column list" where
  "BaseModel = UUIDPrimaryKeyMixin @ TimestampMixin @ TenantMixin @ AuditMixin @ SoftDeleteMixin"

definition primary_key_columns :: "column list \<Rightarrow> (string \<times> bool) list" where
  "primary_key_columns cs = map (\<lambda>c. (col_name c, col_server_default c \<noteq> None)) (filter col_primary_key cs)"

section \<open>PropertyFinder\<close>

definition ALL_PF_WEBHOOK_EVENTS :: "string list" where
  "ALL_PF_WEBHOOK_EVENTS =
     [''lead.created'', ''lead.updated'', ''lead.assigned'', ''listing.published'', ''listing.unpublished'', ''listing.action'', ''user.created'',
      ''user.updated'', ''user.deleted'', ''user.activated'', ''user.deactivated'', ''publicProfile.verification.approved'',
      ''publicProfile.verification.rejected'']"

definition KNOWN_PF_EVENT_PREFIXES :: "string list" where
  "KNOWN_PF_EVENT_PREFIXES = [''lead.'', ''listing.'', ''user.'', ''publicProfile.'']"

section \<open>Shared clients\<close>

text \<open>The module's Slack client: its identity, the closed clients, and the next identity.\<close>

record slack_clients =
  sl_current :: "nat option"
  sl_closed :: "nat set"
  sl_next :: nat

definition get_slack_client :: "slack_clients \<Rightarrow> nat \<times> slack_clients" where
  "get_slack_client s =
     (case sl_current s of
        Some c \<Rightarrow> if c \<in> sl_closed s then (sl_next s, s\<lparr>sl_current := Some (sl_next s), sl_next := Suc (sl_next s)\<rparr>) else (c, s)
      | None \<Rightarrow> (sl_next s, s\<lparr>sl_current := Some (sl_next s), sl_next := Suc (sl_next s)\<rparr>))"

definition close_slack_client :: "slack_clients \<Rightarrow> slack_clients" where
  "close_slack_client s =
     (case sl_current s of
        Some c \<Rightarrow> if c \<in> sl_closed s then s else s\<lparr>sl_current := None, sl_closed := insert c (sl_closed s)\<rparr>
      | None \<Rightarrow> s)"

text \<open>\<open>EventProducer.connect\<close> and \<open>disconnect\<close>; \<open>aclose\<close> may raise, and then the client is kept.\<close>

definition producer_connect :: "event_producer \<Rightarrow> event_producer" where
  "producer_connect p =
     (if \<not> ep_connected p \<and> (case ep_redis_url p of Some u \<Rightarrow> u \<noteq> [] | None \<Rightarrow> False) then p\<lparr>ep_connected := True\<rparr> else p)"

definition producer_disconnect :: "('w, unit) io \<Rightarrow> (event_producer \<times> 'w, unit) io" where
  "producer_disconnect aclose s =
     (if ep_connected (fst s)
      then (case aclose (snd s) of
              (Inl e, w) \<Rightarrow> (Inl e, (fst s, w))
            | (Inr _, w) \<Rightarrow> (Inr (), ((fst s)\<lparr>ep_connected := False\<rparr>, w)))
      else (Inr (), s))"

section \<open>The drainer's task\<close>

definition default_dead_letter_record :: "outbox_row \<Rightarrow> (string \<times> json) list" where
  "default_dead_letter_record row =
     [(''event_id'', JStr (or_id row)), (''event_type'', JStr (or_event_type row)), (''tenant_id'', JStr (or_tenant_id row)),
      (''retry_count'', JInt (or_retry_count row)), (''last_error'', case or_last_error row of Some e \<Rightarrow> JStr e | None \<Rightarrow> JNull),
      (''metric'', JStr ''event_dead_letter'')]"

text \<open>
  The body of the task of \<open>create_outbox_drainer_task\<close>: the getters run when the task does, the session factory's first; the
  coroutine then runs on the loop of the worker.
\<close>

definition outbox_drainer_task ::
  "json_codec \<Rightarrow> ('w, 'f) io \<Rightarrow> ('w, 'p) io \<Rightarrow> ('f \<Rightarrow> 'p \<Rightarrow> 'w outbox_env) \<Rightarrow> retry_policy option \<Rightarrow> nat
   \<Rightarrow> (worker \<times> table \<times> 'w, drain_counts) io" where
  "outbox_drainer_task jc session_factory_getter producer_getter env policy batch_size s =
     (case s of (wk, tab, w) \<Rightarrow>
        case session_factory_getter w of
          (Inl e, w1) \<Rightarrow> (Inl e, (wk, tab, w1))
        | (Inr f, w1) \<Rightarrow>
            (case producer_getter w1 of
               (Inl e, w2) \<Rightarrow> (Inl e, (wk, tab, w2))
             | (Inr p, w2) \<Rightarrow>
                 (case get_or_create_worker_loop wk of
                    (_, wk') \<Rightarrow>
                      (case drain_outbox jc (env f p) policy batch_size (tab, w2) of
                         (r, (tab', w3)) \<Rightarrow> (r, (wk', tab', w3))))))"

section \<open>Log-context signals\<close>

text \<open>\<open>connect\<close> with a \<open>dispatch_uid\<close>: a receiver of that identity replaces an earlier one.\<close>

datatype log_receiver = Stamp | Bind | Restore | Setup_Logging

record signals =
  sg_before_task_publish :: "(string, log_receiver) dict"
  sg_task_prerun :: "(string, log_receiver) dict"
  sg_task_postrun :: "(string, log_receiver) dict"
  sg_setup_logging :: "(string, log_receiver) dict"
  sg_config :: "(string, string) dict"

definition connect_log_context :: "string \<Rightarrow> string \<Rightarrow> string \<Rightarrow> signals \<Rightarrow> signals" where
  "connect_log_context service log_level log_format s =
     \<lparr>sg_before_task_publish = dict_set ''tr_shared.log_context.stamp'' Stamp (sg_before_task_publish s),
      sg_task_prerun = dict_set ''tr_shared.log_context.bind'' Bind (sg_task_prerun s),
      sg_task_postrun = dict_set ''tr_shared.log_context.restore'' Restore (sg_task_postrun s),
      sg_setup_logging = dict_set ''tr_shared.log_context.setup'' Setup_Logging (sg_setup_logging s),
      sg_config = dict_set ''log_format'' log_format (dict_set ''log_level'' log_level (dict_set ''service_name'' service (sg_config s)))\<rparr>"

section \<open>Lemmas\<close>

lemma header_members_distinct: "distinct (map header_member http_headers)"
  by code_simp

lemma dict_get_map:
  assumes "distinct (map f xs)" and "x \<in> set xs"
  shows "dict_get (map (\<lambda>x. (f x, g x)) xs) (f x) = Some (g x)"
  using assms by (intro map_of_is_SomeI) (simp_all add: comp_def)

lemma foldl_keeps_key:
  assumes "k \<notin> fst ` set extra"
  shows "dict_get (foldl (\<lambda>d (k, v). if v = JNull then d else dict_set k v d) inner extra) k = dict_get inner k"
  using assms
proof (induction extra arbitrary: inner)
  case (Cons x extra)
  obtain a b where "x = (a, b)" by (cases x)
  with Cons.prems Cons.IH show ?case by simp
qed simp

text \<open>Every client that was made and is not the current one has been closed.\<close>

definition one_open :: "slack_clients \<Rightarrow> bool" where
  "one_open s = ((\<forall>c < sl_next s. c \<notin> sl_closed s \<longrightarrow> sl_current s = Some c) \<and> (\<forall>c. sl_current s = Some c \<longrightarrow> c < sl_next s)
    \<and> (\<forall>c \<in> sl_closed s. c < sl_next s))"

lemma one_open_get: "one_open s \<Longrightarrow> get_slack_client s = (c, s') \<Longrightarrow> one_open s' \<and> sl_current s' = Some c \<and> c \<notin> sl_closed s'"
proof -
  assume s: "one_open s" and g: "get_slack_client s = (c, s')"
  show ?thesis
  proof (cases "\<exists>d. sl_current s = Some d \<and> d \<notin> sl_closed s")
    case True
    with g have "s' = s" "sl_current s = Some c" "c \<notin> sl_closed s" by (auto simp: get_slack_client_def)
    with s show ?thesis by simp
  next
    case False
    with g have s': "c = sl_next s" "s' = s\<lparr>sl_current := Some (sl_next s), sl_next := Suc (sl_next s)\<rparr>"
      by (auto simp: get_slack_client_def split: option.splits)
    have "d \<in> sl_closed s" if "d < sl_next s" for d using s that False unfolding one_open_def by metis
    moreover have "d < sl_next s" if "d \<in> sl_closed s" for d using s that unfolding one_open_def by metis
    ultimately show ?thesis unfolding s' one_open_def by (auto simp: less_Suc_eq)
  qed
qed

lemma one_open_close: "one_open s \<Longrightarrow> one_open (close_slack_client s)"
proof (cases "\<exists>c. sl_current s = Some c \<and> c \<notin> sl_closed s")
  case True
  then obtain c where c: "sl_current s = Some c" "c \<notin> sl_closed s" by blast
  assume s: "one_open s"
  have "close_slack_client s = s\<lparr>sl_current := None, sl_closed := insert c (sl_closed s)\<rparr>" using c by (simp add: close_slack_client_def)
  moreover have "d = c \<or> d \<in> sl_closed s" if "d < sl_next s" for d using s that c unfolding one_open_def by auto
  moreover have "c < sl_next s" using s c unfolding one_open_def by metis
  moreover have "d < sl_next s" if "d \<in> sl_closed s" for d using s that unfolding one_open_def by metis
  ultimately show ?thesis unfolding one_open_def by auto
next
  case False
  then have "close_slack_client s = s" by (auto simp: close_slack_client_def split: option.splits)
  then show "one_open s \<Longrightarrow> one_open (close_slack_client s)" by simp
qed

lemma dict_set_again: "dict_set k v (dict_set k v d) = dict_set k v d"
  by (induction d) auto

section \<open>Properties\<close>

text \<open>
  The exported contracts are complete. A frontend that looks a header up by its member name finds its value, and every entity type is exported
  together with the feature it belongs to; no value is listed twice.
\<close>

theorem exported_contracts_complete:
  "(\<exists>d hs. http_header_contract note = JDict d \<and> dict_get d ''http_header'' = Some (JDict hs)
      \<and> (\<forall>h. dict_get hs (header_member h) = Some (JStr (header_name h))))
   \<and> (\<exists>d es fs. entity_type_contract note = JDict d \<and> dict_get d ''entity_type'' = Some (JList es) \<and> dict_get d ''feature'' = Some (JList fs)
      \<and> distinct es \<and> distinct fs
      \<and> (\<forall>e. JStr (entity_value e) \<in> set es \<and> (\<exists>f. entity_feature e = Inr f \<and> JStr (feature_value f) \<in> set fs)))"
proof (rule conjI)
  let ?hs = "map (\<lambda>h. (header_member h, JStr (header_name h))) http_headers"
  have "\<forall>h. dict_get ?hs (header_member h) = Some (JStr (header_name h))"
    by (intro allI dict_get_map [OF header_members_distinct http_headers_complete])
  then show "\<exists>d hs. http_header_contract note = JDict d \<and> dict_get d ''http_header'' = Some (JDict hs)
      \<and> (\<forall>h. dict_get hs (header_member h) = Some (JStr (header_name h)))"
    unfolding http_header_contract_def by (intro exI [of _ ?hs] exI conjI) (rule refl, simp, assumption)
  let ?es = "map (\<lambda>e. JStr (entity_value e)) entity_types" and ?fs = "map (\<lambda>f. JStr (feature_value f)) features"
  have dist: "distinct ?es" "distinct ?fs" by code_simp+
  have mem: "JStr (entity_value e) \<in> set ?es" "JStr (feature_value f) \<in> set ?fs" for e f
    using entity_types_complete features_complete by simp_all
  have feature: "\<exists>f. entity_feature e = Inr f" for e
    using entity_features_ok entity_types_complete [of e] by (auto simp: list_all_iff list_ex_iff)
  let ?d = "[(''$comment'', JStr note), (''entity_type'', JList ?es), (''feature'', JList ?fs)]"
  show "\<exists>d es fs. entity_type_contract note = JDict d \<and> dict_get d ''entity_type'' = Some (JList es) \<and> dict_get d ''feature'' = Some (JList fs)
      \<and> distinct es \<and> distinct fs
      \<and> (\<forall>e. JStr (entity_value e) \<in> set es \<and> (\<exists>f. entity_feature e = Inr f \<and> JStr (feature_value f) \<in> set fs))"
  proof (rule exI [of _ ?d], rule exI [of _ ?es], rule exI [of _ ?fs], intro conjI allI)
    show "entity_type_contract note = JDict ?d" by (rule entity_type_contract_def)
    show "\<exists>f. entity_feature e = Inr f \<and> JStr (feature_value f) \<in> set ?fs" for e using feature [of e] mem(2) by blast
  qed (rule dist mem | simp)+
qed

text \<open>
  Every error envelope fits its schema. What \<open>build_error_envelope\<close> builds from a text code, or none, and extras under other keys is
  accepted by \<open>ErrorEnvelope\<close>, whatever the extras are.
\<close>

theorem built_envelopes_accepted:
  assumes "code = JNull \<or> (\<exists>c. code = JStr c)" and "fst ` set extra \<inter> {''message'', ''code'', ''correlation_id''} = {}"
  shows "ErrorEnvelope_accepts (build_error_envelope message code correlation_id extra)"
proof -
  let ?inner = "let inner = [(''message'', JStr message)]; inner = (if code = JNull then inner else dict_set ''code'' code inner)
      in (case correlation_id of None \<Rightarrow> inner | Some c \<Rightarrow> dict_set ''correlation_id'' (JStr c) inner)"
  let ?d = "foldl (\<lambda>d (k, v). if v = JNull then d else dict_set k v d) ?inner extra"
  have keys: "''message'' \<notin> fst ` set extra" "''code'' \<notin> fst ` set extra" "''correlation_id'' \<notin> fst ` set extra" using assms(2) by auto
  have inner: "dict_get ?inner ''message'' = Some (JStr message)" "text_or_none (dict_get ?inner ''code'')" "text_or_none (dict_get ?inner ''correlation_id'')"
    using assms(1) by (auto simp: text_or_none_def Let_def split: option.split)
  have "ErrorDetail_accepts (JDict ?d)"
    unfolding ErrorDetail_accepts_def json.case foldl_keeps_key [OF keys(1)] foldl_keeps_key [OF keys(2)] foldl_keeps_key [OF keys(3)]
    using inner by blast
  then show ?thesis by (simp add: ErrorEnvelope_accepts_def build_error_envelope_def Let_def)
qed

theorem built_envelopes_accepted_witness:
  "ErrorEnvelope_accepts (build_error_envelope ''Lead not found'' (JStr ''CRM_NOT_FOUND_001'') (Some ''c-1'') [(''detail'', JNull), (''retry_after'', JInt 3)])"
  by (rule built_envelopes_accepted) simp_all

text \<open>
  No half-built API exception. A constructor of a subclass that returns has set every attribute the handlers read, at any depth of
  subclassing; one that calls the base constructor always does, and one that forgets it raises a \<open>TypeError\<close>.
\<close>

theorem api_exception_complete:
  "(\<forall>attrs'. verified_init init attrs = Inr attrs' \<longrightarrow> set REQUIRED_ATTRS \<subseteq> attrs')
   \<and> verified_init base_init attrs = base_init attrs
   \<and> verified_init (verified_init init) attrs = verified_init init attrs
   \<and> (\<exists>e. verified_init (\<lambda>a. Inr a) {} = Inl (TypeError e))"
  by (auto simp: verified_init_def base_init_def REQUIRED_ATTRS_def filter_empty_conv split: sum.splits if_splits)

text \<open>
  Each PropertyFinder event has one route. Every event the registrar subscribes to begins with exactly one of the prefixes the gateway may route
  on, and no prefix is idle.
\<close>

theorem pf_events_routed:
  "(\<forall>e \<in> set ALL_PF_WEBHOOK_EVENTS. length (filter (\<lambda>p. prefix p e) KNOWN_PF_EVENT_PREFIXES) = 1)
   \<and> (\<forall>p \<in> set KNOWN_PF_EVENT_PREFIXES. \<exists>e \<in> set ALL_PF_WEBHOOK_EVENTS. prefix p e) \<and> distinct ALL_PF_WEBHOOK_EVENTS"
  by code_simp

text \<open>
  The columns of the base model. A table of the base model passes the library's own check of primary keys, and an insert that gives only
  the tenant leaves no required column empty.
\<close>

theorem base_model_columns:
  assumes "\<forall>c \<in> set own. \<not> col_primary_key c"
  shows "assert_no_server_default_primary_keys [[(table, primary_key_columns (BaseModel @ own))]] = Inr ()
    \<and> map col_name (filter (\<lambda>c. \<not> col_nullable c \<and> col_default c = None \<and> col_server_default c = None) BaseModel) = [''tenant_id'']
    \<and> distinct (map col_name BaseModel)"
proof -
  have "filter col_primary_key own = []" using assms by (simp add: filter_empty_conv)
  then have "primary_key_columns (BaseModel @ own) = primary_key_columns BaseModel" by (simp add: primary_key_columns_def)
  moreover have "primary_key_columns BaseModel = [(''id'', False)]" by code_simp
  ultimately have pk: "assert_no_server_default_primary_keys [[(table, primary_key_columns (BaseModel @ own))]] = Inr ()"
    by (simp add: assert_no_server_default_primary_keys_def)
  have "map col_name (filter (\<lambda>c. \<not> col_nullable c \<and> col_default c = None \<and> col_server_default c = None) BaseModel) = [''tenant_id'']" by code_simp
  moreover have "distinct (map col_name BaseModel)" by code_simp
  ultimately show ?thesis using pk by (intro conjI)
qed

theorem base_model_columns_witness:
  "assert_no_server_default_primary_keys [[(''crm.leads'', primary_key_columns (BaseModel @ [new_column ''name'' False None]))]] = Inr ()"
  using base_model_columns [of "[new_column ''name'' False None]" "''crm.leads''"] by (simp add: new_column_def)

text \<open>
  At most one Slack client is open. In every sequence of \<open>get\<close> and \<open>close\<close> calls, a client that \<open>get\<close> returns is open, and every other
  client that was ever made is closed.
\<close>

inductive slack_reachable :: "slack_clients \<Rightarrow> bool" where
  start: "slack_reachable \<lparr>sl_current = None, sl_closed = {}, sl_next = 0\<rparr>"
| got: "slack_reachable s \<Longrightarrow> get_slack_client s = (c, s') \<Longrightarrow> slack_reachable s'"
| closed: "slack_reachable s \<Longrightarrow> slack_reachable (close_slack_client s)"

theorem one_slack_client:
  assumes "slack_reachable s" and "get_slack_client s = (c, s')"
  shows "c \<notin> sl_closed s' \<and> (\<forall>d < sl_next s'. d \<noteq> c \<longrightarrow> d \<in> sl_closed s')"
proof -
  from assms(1) have "one_open s"
  proof induction
    case start
    then show ?case by (simp add: one_open_def)
  next
    case (got s c s')
    then show ?case using one_open_get by blast
  next
    case (closed s)
    from closed.IH show ?case by (rule one_open_close)
  qed
  from one_open_get [OF this assms(2)] have o: "one_open s'" "sl_current s' = Some c" "c \<notin> sl_closed s'" by blast+
  have "d \<in> sl_closed s'" if "d < sl_next s'" "d \<noteq> c" for d using o(1,2) that unfolding one_open_def by auto
  with o(3) show ?thesis by blast
qed

theorem one_slack_client_witness:
  "fst (get_slack_client (close_slack_client \<lparr>sl_current = Some 0, sl_closed = {}, sl_next = 1\<rparr>)) = 1"
proof -
  have "slack_reachable \<lparr>sl_current = Some 0, sl_closed = {}, sl_next = 1\<rparr>"
    by (rule slack_reachable.got [OF slack_reachable.start, of 0]) (simp add: get_slack_client_def)
  then have r: "slack_reachable (close_slack_client \<lparr>sl_current = Some 0, sl_closed = {}, sl_next = 1\<rparr>)" by (rule slack_reachable.closed)
  obtain c s' where g: "get_slack_client (close_slack_client \<lparr>sl_current = Some 0, sl_closed = {}, sl_next = 1\<rparr>) = (c, s')" by (rule prod.exhaust)
  then have "c \<in> {0, 1}" "0 \<in> sl_closed s'" by (auto simp: get_slack_client_def close_slack_client_def)
  with one_slack_client [OF r g] g show ?thesis by auto
qed

text \<open>
  The drainer's task does one run. The getters are called when the task runs; if one raises, the table and the worker's loop are as before, and
  otherwise the task's result and its effect on the table are those of one run of \<open>drain_outbox\<close> on a usable loop, whose rows all survive.
\<close>

theorem drainer_task_runs_once:
  assumes "outbox_drainer_task jc getf getp env policy n (wk, tab, w) = (r, (wk', tab', w'))"
  shows "(\<exists>e w1. (getf w = (Inl e, w1) \<or> (\<exists>f w0. getf w = (Inr f, w0) \<and> getp w0 = (Inl e, w1))) \<and> r = Inl e \<and> wk' = wk \<and> tab' = tab \<and> w' = w1)
    \<or> (\<exists>f p w1 w2. getf w = (Inr f, w1) \<and> getp w1 = (Inr p, w2) \<and> drain_outbox jc (env f p) policy n (tab, w2) = (r, (tab', w'))
         \<and> wk_loop wk' \<noteq> None \<and> (wk_loop wk \<noteq> None \<and> usable wk \<longrightarrow> wk' = wk))"
  using assms
  by (auto simp: outbox_drainer_task_def get_or_create_worker_loop_def usable_def split: prod.splits sum.splits if_splits option.splits)

text \<open>Connecting the log context again, for the same service, changes nothing.\<close>

lemma connect_log_context_idem:
  "connect_log_context a b c (connect_log_context a b c s) =
     (connect_log_context a b c s)\<lparr>sg_config := sg_config (connect_log_context a b c (connect_log_context a b c s))\<rparr>"
  "dict_get (sg_config (connect_log_context a b c (connect_log_context a b c s))) = dict_get (sg_config (connect_log_context a b c s))"
  by (simp_all add: connect_log_context_def dict_set_again fun_eq_iff)

end
