(* ===== verification/Spec2Isabelle.thy ===== *)
theory Spec2Isabelle
  imports Http_Client Cache_Service Event_Consumer Outbox Webhooks Error_Handler Repository Config_Client Migrations Portals Celery_Runtime Monitoring Event_Types S2s_Contracts Asgi_Middleware Delivery Event_Helpers Redis_Connection Monitoring_Setup Logging_Setup Outbox_Delivery
    Celery_Topology Env_Contract Service_Surface
begin

text \<open>
  Verification of tr-shared-lib, the library every service of the platform imports. File names below are under
  \<open>src/src/tr_shared/\<close>.

  \<^bold>\<open>The program.\<close> A service is a FastAPI application, a Celery worker and an event consumer. A request passes the
  correlation-id, metrics, unstorable-text, idempotency and error middlewares and the rate-limit dependency; its handler
  reads and writes tenants' rows through a repository on a session, calls other services through an HTTP client with retry
  and a circuit breaker, fetches portal credentials through the configuration client, caches through the cache service, and
  publishes events to a Redis stream, directly or through an outbox table. A consumer group reads the stream with
  deduplication, retries and a dead-letter stream. Webhook endpoints verify signatures, drop redeliveries and publish
  events. Migrations run behind a gate that compares them with the integration branch.

  \<^bold>\<open>How the code is modelled.\<close> A class is a record of its attributes, an enum a datatype, a Python dict an association
  list in insertion order (\<open>dict\<close>), JSON the datatype \<open>json\<close>, a Python int an \<open>int\<close>, a time a rational-valued \<open>time\<close>.
  Texts are strings of ASCII characters, except in \<open>Unstorable_Text\<close>, whose texts are lists of code points. A raised exception
  is a value of \<open>exn\<close>, a fallible function returns \<open>exn + 'a\<close>, and a coroutine is a function of type \<open>('w, 'a) io\<close> from a
  world to a result and a world, with \<open>io_bind\<close>, \<open>io_except\<close> (\<open>try\<close>/\<open>except\<close> of the classes selected by a predicate) and
  \<open>io_finally\<close>. \<open>asyncio.CancelledError\<close> and other \<open>BaseException\<close>s are exceptions that \<open>except Exception\<close> lets pass. What
  is not under \<open>src/\<close> (Redis, httpx, SQLAlchemy, the JSON codec, digests, clocks, git, DNS) is a field of an environment
  record that the definitions take as an argument; the world is a type variable, so a theorem holds for every
  such environment, and what is relied on of it is a hypothesis. A coroutine is modelled
  between its awaits: two calls interleave where a model says so (the fallback limiter, the alert budget and the breaker
  over sequences of calls; the per-key locks of the configuration client as a step relation).

  \<^bold>\<open>The theories\<close>, in the order of their imports:
  \<^item> \<open>Prelude\<close>: exceptions, results, \<open>io\<close> and its judgements \<open>io_keeps\<close>, \<open>io_adds\<close>, \<open>io_raises\<close> with the rules in
    \<open>io_rules\<close>; dicts, JSON and the string functions of Python the sources use.
  \<^item> \<open>Contracts\<close>: the vocabularies of \<open>contracts/\<close>.
  \<^item> \<open>Circuit_Breaker\<close>: \<open>http/circuit_breaker.py\<close>. A three-state automaton that every method simulates, reachable states,
    the spacing of recovery probes. The locale \<open>breaker_contract\<close> is what a client of a breaker relies on; it is
    interpreted on the methods as \<open>cb\<close>.
  \<^item> \<open>Api_Exceptions\<close>: \<open>exceptions.py\<close>, \<open>schemas/error_envelope.py\<close>, \<open>middleware/exception_handlers.py\<close>,
    \<open>db/exception_handlers.py\<close>, \<open>integrations/portal_errors.py\<close>.
  \<^item> \<open>Http_Client\<close>: \<open>http/client.py\<close>, \<open>http/internal_client.py\<close>, \<open>http/correlation.py\<close>. The number of requests and of
    reported failures of a call, and the exceptions that can leave it.
  \<^item> \<open>Path_Normalizer\<close>: \<open>monitoring/path_normalizer.py\<close> and its equality with a map over path segments.
  \<^item> \<open>Rate_Limit\<close>: \<open>rate_limiter/\<close>. The in-memory fallback refines one counter per key; the Lua scripts are programs over
    the Redis commands; windows and bounds over sequences of calls.
  \<^item> \<open>Cache_Adapter\<close>: \<open>cache/interface.py\<close>, \<open>cache/adapters/\<close>, \<open>cache/factory.py\<close>, \<open>redis/\<close>. The locale \<open>cache_contract\<close>
    is the interface the cache service relies on, interpreted on both adapters (\<open>std\<close>, \<open>upst\<close>).
  \<^item> \<open>Cache_Service\<close>: \<open>cache/service.py\<close>, \<open>cache/helpers.py\<close>. Cache-aside, round trips, and the return of the SCAN loops.
  \<^item> \<open>Event_Bus\<close>: \<open>events/envelope.py\<close>, \<open>events/producer.py\<close>, \<open>events/helpers.py\<close>, \<open>events/dead_letter.py\<close>,
    \<open>events/retry_state.py\<close>, \<open>events/durable_publisher.py\<close>. What is published is parsed back.
  \<^item> \<open>Event_Consumer\<close>: \<open>events/consumer.py\<close>, \<open>events/retry_policy.py\<close>, \<open>events/group_health.py\<close>, \<open>events/supervisor.py\<close>. The locale
    \<open>idempotency_contract\<close> is what message processing relies on of a deduplicator, interpreted on the
    in-memory checker (\<open>mc\<close>).
  \<^item> \<open>Consumer_Lifecycle\<close>: the rest of \<open>events/consumer.py\<close> and \<open>events/supervisor.py\<close>: \<open>connect\<close>, \<open>start\<close>, \<open>stop\<close> and both loops, with the attributes
    of the object in the world, so that \<open>stop()\<close> may come at any await. No \<open>Exception\<close> ends a loop, and \<open>stop()\<close> ends it at once.
  \<^item> \<open>Delivery\<close>: the protocol between the consumers of a group as a step relation with reachable states and an
    invariant by rule induction: no event is lost or stranded; and \<open>scripts/purge_stuck_pel.py\<close>.
  \<^item> \<open>Event_Types\<close>, \<open>Payload_Schemas\<close>, \<open>Event_Helpers\<close>: \<open>events/event_types.py\<close>, \<open>events/payloads/\<close> and the typed publish and consume
    paths of \<open>events/helpers.py\<close>: a typed event arrives as the value that was published.
  \<^item> \<open>S2s_Contracts\<close>: \<open>contracts/s2s/\<close>, the paths and schemas of the internal endpoints.
  \<^item> \<open>Redis_Connection\<close>: \<open>redis/connection.py\<close>, the guards against a proxy that resets idle connections.
  \<^item> \<open>Outbox\<close>: \<open>events/outbox_drainer.py\<close> on a list of rows.
  \<^item> \<open>Outbox_Delivery\<close>: the durable path from the row to the event a consumer reads: a published row arrives as it was
    written, and a row that is published twice is two events with different ids.
  \<^item> \<open>Api_Idempotency\<close>: \<open>middleware/idempotency.py\<close>.
  \<^item> \<open>Webhooks\<close>: \<open>webhooks/\<close>. The locale \<open>signature_scheme\<close> is a verifier that accepts exactly one signature per body and
    secret, interpreted on the three verifiers (\<open>hmac\<close>, \<open>bayut\<close>, \<open>meta\<close>).
  \<^item> \<open>Unstorable_Text\<close>: \<open>schemas/validators.py\<close>, \<open>middleware/unstorable_text.py\<close>.
  \<^item> \<open>Error_Handler\<close>: \<open>middleware/error_handler.py\<close>, \<open>alerts/\<close>.
  \<^item> \<open>Asgi_Middleware\<close>: \<open>middleware/correlation_id.py\<close>, \<open>middleware/logging_middleware.py\<close> over applications as trees of
    the messages they send and receive.
  \<^item> \<open>Repository\<close>: \<open>db/repository.py\<close>, \<open>db/base.py\<close> and \<open>escape_like\<close> on tables of rows, with a reference
    matcher for \<open>LIKE\<close>.
  \<^item> \<open>Config_Client\<close>: \<open>integrations/config_client.py\<close>, \<open>models.py\<close>, \<open>registry.py\<close>, \<open>pf_oauth.py\<close>.
  \<^item> \<open>Db_Session\<close>, \<open>Db_Urls\<close>, \<open>Migrations\<close>: \<open>db/session.py\<close>, \<open>db/errors.py\<close>, \<open>contracts/db_pool.py\<close>, \<open>db/utils.py\<close> on
    a model of \<open>urllib.parse.urlsplit\<close>, and \<open>db/migrations/\<close>.
  \<^item> \<open>Portals\<close>: \<open>integrations/portal_identity.py\<close>, \<open>constants.py\<close> and \<open>hikcentral.py\<close>, with addresses as 32- and 128-bit words.
  \<^item> \<open>Celery_Runtime\<close>: \<open>celery/\<close>.
  \<^item> \<open>Service_Runtime\<close>: \<open>config/\<close>, \<open>health/\<close>, \<open>vault.py\<close>, \<open>web/dependencies.py\<close>, \<open>schemas/responses.py\<close>, \<open>phone.py\<close>.
  \<^item> \<open>Monitoring\<close>, \<open>Monitoring_Setup\<close>: \<open>monitoring/\<close>, with the set-up as the list of actions it takes on OpenTelemetry's objects.
  \<^item> \<open>Logging_Setup\<close>: \<open>logging/setup.py\<close>.
  \<^item> \<open>Regex\<close>: the patterns of Python's \<open>re\<close> as a datatype with a backtracking matcher, \<open>splitlines\<close> and \<open>fnmatch\<close>, for the
    theories on \<open>testing/\<close>.
  \<^item> \<open>Celery_Topology\<close>: \<open>testing/celery_topology.py\<close>. The queues read from a start script are never an empty answer, and a written
    queue list is read back.
  \<^item> \<open>Test_Plugin\<close>: \<open>testing/config.py\<close>, \<open>lanes.py\<close>, \<open>isolation.py\<close>, \<open>plugin.py\<close> and the pure parts of \<open>stack.py\<close>. A test run talks
    to local servers only, and to poisoned addresses in the unit lane.
  \<^item> \<open>Test_Stack\<close>, \<open>Test_Containers\<close>: \<open>testing/stack.py\<close> and the session hooks of \<open>plugin.py\<close> on a server whose
    databases are a map. A template is absent or migrated at every failure, a container is ready after a streak of probes, and a session
    changes its own database only.
  \<^item> \<open>Env_Contract\<close>: \<open>testing/env_contract.py\<close> on \<open>config/env_audit.py\<close>. The classes found are the descendants of the
    settings bases, and checked settings do not depend on the developer's environment.
  \<^item> \<open>Test_Doubles\<close>: \<open>testing/stubs/\<close>, \<open>transaction_guard.py\<close>, \<open>session_scope.py\<close>, \<open>primary_keys.py\<close>, \<open>roundtrip.py\<close>. The signatures of
    the stubs are accepted by the verifiers of \<open>Webhooks\<close>.
  \<^item> \<open>Service_Surface\<close>: what a service touches directly and that is data or a few lines of state: exported contracts, response schemas, columns,
    shared clients, the drainer's Celery task, the constructors of exceptions.

  \<^bold>\<open>What is shown.\<close> The numbered properties state, for each component, what its callers rely on: which calls a
  breaker, a limiter or a budget admits; that tenants' rows, cache entries and idempotency entries stay apart; that
  a request, an event or an outbox row is neither lost nor handled twice, and under which conditions; which exceptions
  leave a client or a middleware and how they are answered; that what is written is read back; that an optimised or
  textual routine equals its specification. Where the code does not do what a comment or a caller would expect, the
  property states what it does (for example, \<open>memory_fallback_window_bound\<close> admits \<open>max 1 limit\<close> calls).

  \<^bold>\<open>Loops.\<close> Loops over data are \<open>fun\<close>, or \<open>function\<close> with a measure. Loops that end only if a peer ends them are
  \<open>partial_function (option)\<close>, where \<open>None\<close> is a run without end, and that they return is a property or a lemma of its own: the
  two SCAN loops (\<open>pattern_scans_return\<close>), the ASGI body reader, the consume loop and the claimer
  (\<open>loops_survive_and_stop\<close>), the purge of a pending list (\<open>purge_drains_and_repeats\<close>) and the wait for a container
  (\<open>wait_ready_returns\<close>). The search for settings classes is a \<open>function\<close> whose measure is the number of classes not yet found. The Loki timer is modelled by its
  body: a property over any sequence of bodies holds for every prefix of the loop. No fuel is used.

  \<^bold>\<open>Interleaving.\<close> Theories whose claims depend on it say where other tasks run: \<open>Consumer_Lifecycle\<close> at every effect,
  \<open>Delivery\<close> and the single flight of \<open>Config_Client\<close> between steps of a relation, the limiter, the breaker and the
  alert budget between calls. Elsewhere one call runs to its end.

  \<^bold>\<open>Not modelled.\<close> The scanners of \<open>testing/\<close> that walk the syntax tree of a service's sources (\<open>guards.py\<close>, \<open>db_reach.py\<close>,
  \<open>tenant_header_guard.py\<close>), the parser of start scripts that rests on \<open>shlex\<close> and on subprocesses (\<open>role_dispatch.py\<close>), and pytest fixtures;
  the objects of structlog, OpenTelemetry, prometheus_client, FastAPI, Celery and SQLAlchemy that are built or registered with;
  package \<open>__init__\<close> files, which only re-export. In the modelled files, durations of metrics and texts of log lines are left out
  unless they leave the process, entries are not trimmed from a stream, and the time-based eviction of the two caches of the Celery
  instrumentation is left out.
\<close>

end
